(* ===== verification/Prelude.thy ===== *)
theory Prelude
  imports Complex_Main "HOL-Library.AList"
begin

text \<open>
  Shared vocabulary of the development: Python errors as values, dictionaries in
  insertion order, order preserving deduplication, decimal strings and the string
  operations the sources use.

  A Python \<open>str\<close> is modelled by its UTF-8 encoding, a \<open>char list\<close> whose
  characters are bytes: equality, concatenation and the substring test agree with
  Python on valid encodings.  Case mapping and stripping act on the ASCII range and
  leave every other byte alone; slices by length count code points (\<open>take_chars\<close>).
\<close>

named_theorems py_defs \<open>unfolding rules for the Python primitives\<close>

section \<open>Errors as values\<close>

text \<open>The exceptions the modelled code raises, with the message where the source has one.\<close>

datatype py_error =
    ValueError string
  | TypeError string
  | AttributeError string
  | KeyError string
  | IndexError string
  | AssertionError
  | IntegrityError string
  | InvalidTransition string
  | InvalidUpdate string

type_synonym 'a res = "py_error + 'a"

definition ebind :: "'a res \<Rightarrow> ('a \<Rightarrow> 'b res) \<Rightarrow> 'b res" where
  "ebind r f = (case r of Inl e \<Rightarrow> Inl e | Inr x \<Rightarrow> f x)"

lemma ebind_simps [simp]:
  "ebind (Inl e) f = Inl e"
  "ebind (Inr x) f = f x"
  by (simp_all add: ebind_def)

lemma ebind_eq_Inr: "ebind r f = Inr y \<longleftrightarrow> (\<exists>x. r = Inr x \<and> f x = Inr y)"
  by (cases r) auto

lemma ebind_cong [fundef_cong]:
  "r = r' \<Longrightarrow> (\<And>x. r' = Inr x \<Longrightarrow> f x = g x) \<Longrightarrow> ebind r f = ebind r' g"
  by (cases r') auto

text \<open>A comprehension whose body can raise: the first error ends it.\<close>

fun emap :: "('a \<Rightarrow> 'b res) \<Rightarrow> 'a list \<Rightarrow> 'b list res" where
  "emap f [] = Inr []"
| "emap f (x # xs) = ebind (f x) (\<lambda>y. ebind (emap f xs) (\<lambda>ys. Inr (y # ys)))"

lemma emap_Inr [simp]: "emap (\<lambda>x. Inr (f x)) xs = Inr (map f xs)"
  by (induction xs) auto

lemma emap_all_Inr: "(\<And>x. x \<in> set xs \<Longrightarrow> f x = Inr (g x)) \<Longrightarrow> emap f xs = Inr (map g xs)"
  by (induction xs) auto

lemma emap_Inr_length: "emap f xs = Inr ys \<Longrightarrow> length ys = length xs"
  by (induction xs arbitrary: ys) (auto simp: ebind_eq_Inr)

text \<open>\<open>any(f(x) for x in xs)\<close> with a body that can raise: it stops at the first hit.\<close>

fun eany :: "('a \<Rightarrow> bool res) \<Rightarrow> 'a list \<Rightarrow> bool res" where
  "eany f [] = Inr False"
| "eany f (x # xs) = ebind (f x) (\<lambda>b. if b then Inr True else eany f xs)"

lemma eany_Inr [simp]: "eany (\<lambda>x. Inr (f x)) xs = Inr (list_ex f xs)"
  by (induction xs) auto

lemma emap_eq_Inr_iff: "emap f xs = Inr ys \<longleftrightarrow> list_all2 (\<lambda>x y. f x = Inr y) xs ys"
  by (induction xs arbitrary: ys) (auto simp: ebind_eq_Inr list_all2_Cons1)

section \<open>Dictionaries\<close>

text \<open>
  A Python dictionary keeps insertion order: assignment replaces in place or appends.
  The library's association lists behave the same way.
\<close>

type_synonym 'v dict = "(string \<times> 'v) list"

abbreviation dget :: "'v dict \<Rightarrow> string \<Rightarrow> 'v option" where
  "dget d k \<equiv> map_of d k"

abbreviation dput :: "string \<Rightarrow> 'v \<Rightarrow> 'v dict \<Rightarrow> 'v dict" where
  "dput k v d \<equiv> AList.update k v d"

abbreviation dpop :: "string \<Rightarrow> 'v dict \<Rightarrow> 'v dict" where
  "dpop k d \<equiv> AList.delete k d"

abbreviation dkeys :: "'v dict \<Rightarrow> string list" where
  "dkeys d \<equiv> map fst d"

lemma dget_dput [simp]: "dget (dput k v d) k' = (if k = k' then Some v else dget d k')"
  by (simp add: update_conv')

lemma dget_dpop [simp]: "dget (dpop k d) k' = (if k = k' then None else dget d k')"
  by (simp add: delete_conv')

lemma distinct_dput [simp]: "distinct (dkeys d) \<Longrightarrow> distinct (dkeys (dput k v d))"
  by (rule distinct_update)

lemma distinct_dpop [simp]: "distinct (dkeys d) \<Longrightarrow> distinct (dkeys (dpop k d))"
  by (rule distinct_delete)

text \<open>\<open>dict(a, **b)\<close> and \<open>a.update(b)\<close>: the right hand side wins.\<close>

definition dmerge :: "'v dict \<Rightarrow> 'v dict \<Rightarrow> 'v dict" where
  "dmerge a b = fold (\<lambda>(k, v) d. dput k v d) b a"

lemma dget_dmerge:
  "distinct (dkeys b) \<Longrightarrow> dget (dmerge a b) k = (case dget b k of None \<Rightarrow> dget a k | Some v \<Rightarrow> Some v)"
  unfolding dmerge_def
proof (induction b arbitrary: a)
  case Nil
  then show ?case by simp
next
  case (Cons kv b)
  obtain k' v where kv: "kv = (k', v)" by (cases kv)
  have "k' = k \<Longrightarrow> dget b k = None"
    using Cons.prems kv by (auto simp: map_of_eq_None_iff)
  then show ?case using Cons kv by (auto split: option.splits)
qed

text \<open>Sums over the values of a dictionary, the bookkeeping most counters rest on.\<close>

definition dsum :: "('v \<Rightarrow> int) \<Rightarrow> 'v dict \<Rightarrow> int" where
  "dsum f d = sum_list (map (\<lambda>kv. f (snd kv)) d)"

definition dval :: "('v \<Rightarrow> int) \<Rightarrow> 'v option \<Rightarrow> int" where
  "dval f v = (case v of None \<Rightarrow> 0 | Some x \<Rightarrow> f x)"

lemma dval_simps [simp]: "dval f None = 0" "dval f (Some x) = f x"
  by (simp_all add: dval_def)

lemma dsum_Nil [simp]: "dsum f [] = 0"
  by (simp add: dsum_def)

lemma dsum_Cons [simp]: "dsum f (kv # d) = f (snd kv) + dsum f d"
  by (simp add: dsum_def)

lemma dsum_dput: "distinct (dkeys d) \<Longrightarrow> dsum f (dput k v d) = dsum f d - dval f (dget d k) + f v"
  by (induction d) (auto simp: dom_map_of_conv_image_fst)

lemma dsum_dpop: "distinct (dkeys d) \<Longrightarrow> dsum f (dpop k d) = dsum f d - dval f (dget d k)"
proof (induction d)
  case (Cons kv d)
  show ?case
  proof (cases "fst kv = k")
    case True
    then have "k \<notin> fst ` set d" using Cons.prems by auto
    then show ?thesis using True Cons by (simp add: delete_id dom_map_of_conv_image_fst)
  next
    case False
    then show ?thesis using Cons by (cases kv) auto
  qed
qed simp

lemma dsum_cong: "(\<And>k v. (k, v) \<in> set d \<Longrightarrow> f v = g v) \<Longrightarrow> dsum f d = dsum g d"
  by (auto simp: dsum_def intro!: arg_cong [of _ _ sum_list])

lemma dsum_add: "dsum (\<lambda>v. f v + g v) d = dsum f d + dsum g d"
  by (induction d) auto

lemma dsum_nonneg: "(\<And>k v. (k, v) \<in> set d \<Longrightarrow> 0 \<le> f v) \<Longrightarrow> 0 \<le> dsum f d"
proof (induction d)
  case (Cons kv d)
  have "0 \<le> f (snd kv)" using Cons.prems [of "fst kv" "snd kv"] by simp
  moreover have "0 \<le> dsum f d" using Cons.prems by (intro Cons.IH) auto
  ultimately show ?case by simp
qed simp

lemma dsum_const: "dsum (\<lambda>v. c) d = c * int (length d)"
  by (induction d) (auto simp: algebra_simps)

lemma length_dput: "length (dput k v d) = (if dget d k = None then Suc (length d) else length d)"
  by (induction d) auto

lemma set_dput_subset: "set (dput k v d) \<subseteq> insert (k, v) (set d)"
  by (induction d) auto

lemma set_dpop_subset: "set (dpop k d) \<subseteq> set d"
  by (simp add: AList.delete_eq)

lemma dput_fresh: "dget d k = None \<Longrightarrow> dput k v d = d @ [(k, v)]"
  by (induction d) (auto split: if_splits)

section \<open>Deduplication in first occurrence order\<close>

text \<open>\<open>list(dict.fromkeys(xs))\<close>.\<close>

fun fromkeys :: "'a list \<Rightarrow> 'a list" where
  "fromkeys [] = []"
| "fromkeys (x # xs) = x # filter (\<lambda>y. y \<noteq> x) (fromkeys xs)"

lemma set_fromkeys [simp]: "set (fromkeys xs) = set xs"
  by (induction xs) auto

lemma distinct_fromkeys [simp]: "distinct (fromkeys xs)"
  by (induction xs) auto

lemma fromkeys_distinct: "distinct xs \<Longrightarrow> fromkeys xs = xs"
  by (induction xs) (auto simp: filter_id_conv)

lemma fromkeys_idem [simp]: "fromkeys (fromkeys xs) = fromkeys xs"
  by (simp add: fromkeys_distinct)

lemma fromkeys_filter: "fromkeys (filter P xs) = filter P (fromkeys xs)"
  by (induction xs) (auto simp: conj_commute intro!: filter_cong)

lemma fromkeys_append: "fromkeys (xs @ ys) = fromkeys xs @ filter (\<lambda>y. y \<notin> set xs) (fromkeys ys)"
  by (induction xs) (auto intro!: filter_cong)

lemma fromkeys_Nil_iff [simp]: "fromkeys xs = [] \<longleftrightarrow> xs = []"
  by (cases xs) auto

lemma length_fromkeys: "length (fromkeys xs) \<le> length xs"
  by (induction xs) (auto intro: le_trans [OF length_filter_le])

text \<open>\<open>xs[:n]\<close>: a negative bound counts from the end.\<close>

definition slice_to :: "int \<Rightarrow> 'a list \<Rightarrow> 'a list" where
  "slice_to n xs = take (if 0 \<le> n then nat n else length xs - nat (- n)) xs"

section \<open>Strings\<close>

definition ascii_lower :: "char \<Rightarrow> char" where
  "ascii_lower c = (let n = (of_char c :: nat) in if 65 \<le> n \<and> n \<le> 90 then char_of (n + 32) else c)"

definition ascii_upper :: "char \<Rightarrow> char" where
  "ascii_upper c = (let n = (of_char c :: nat) in if 97 \<le> n \<and> n \<le> 122 then char_of (n - 32) else c)"

definition py_lower :: "string \<Rightarrow> string" where
  "py_lower s = map ascii_lower s"

definition py_upper :: "string \<Rightarrow> string" where
  "py_upper s = map ascii_upper s"

text \<open>The ASCII white space of \<open>str.strip\<close>: tab to carriage return, the four separators, space.\<close>

definition is_space :: "char \<Rightarrow> bool" where
  "is_space c = (let n = (of_char c :: nat) in (9 \<le> n \<and> n \<le> 13) \<or> (28 \<le> n \<and> n \<le> 32))"

definition py_strip :: "string \<Rightarrow> string" where
  "py_strip s = rev (dropWhile is_space (rev (dropWhile is_space s)))"

fun is_prefix :: "string \<Rightarrow> string \<Rightarrow> bool" where
  "is_prefix [] t = True"
| "is_prefix (c # s) [] = False"
| "is_prefix (c # s) (d # t) = (c = d \<and> is_prefix s t)"

text \<open>\<open>needle in hay\<close> on strings, \<open>startswith\<close> and \<open>endswith\<close>.\<close>

fun is_infix :: "string \<Rightarrow> string \<Rightarrow> bool" where
  "is_infix s [] = (s = [])"
| "is_infix s (d # t) = (is_prefix s (d # t) \<or> is_infix s t)"

definition is_suffix :: "string \<Rightarrow> string \<Rightarrow> bool" where
  "is_suffix s t = is_prefix (rev s) (rev t)"

lemma is_prefix_append [simp]: "is_prefix s (s @ t)"
  by (induction s) auto

lemma is_prefix_iff: "is_prefix s t \<longleftrightarrow> (\<exists>u. t = s @ u)"
  by (induction s t rule: is_prefix.induct) auto

lemma is_infix_iff: "is_infix s t \<longleftrightarrow> (\<exists>u v. t = u @ s @ v)"
proof (induction t)
  case Nil
  then show ?case by auto
next
  case (Cons d t)
  have "(\<exists>u v. d # t = u @ s @ v) \<longleftrightarrow> (\<exists>v. d # t = s @ v) \<or> (\<exists>u v. t = u @ s @ v)"
    by (metis append_Cons append_Nil append_eq_Cons_conv)
  then show ?case using Cons by (simp add: is_prefix_iff)
qed

lemma py_strip_idem: "py_strip (py_strip s) = py_strip s"
proof -
  let ?u = "dropWhile is_space s"
  let ?v = "rev (dropWhile is_space (rev ?u))"
  have u: "?u = [] \<or> \<not> is_space (hd ?u)" using hd_dropWhile [of is_space s] by (cases ?u) auto
  have "\<exists>ws. ?u = ?v @ ws"
    using takeWhile_dropWhile_id [of is_space "rev ?u"] by (metis rev_append rev_rev_ident)
  then obtain ws where ws: "?u = ?v @ ws" by blast
  have "?v = [] \<or> \<not> is_space (hd ?v)"
  proof (cases "?v = []")
    case False
    then have "hd ?u = hd ?v" by (subst ws) simp
    then show ?thesis using u False ws by (metis append_is_Nil_conv)
  qed simp
  then have left: "dropWhile is_space ?v = ?v" by (simp only: dropWhile_eq_self_iff)
  have "dropWhile is_space (rev ?v) = rev ?v" by simp
  then show ?thesis unfolding py_strip_def left by (simp only: rev_rev_ident)
qed

text \<open>A string literal outside ASCII, by its bytes.\<close>

definition utf8 :: "nat list \<Rightarrow> string" where
  "utf8 bs = map char_of bs"

text \<open>\<open>s[:n]\<close> counts code points: continuation bytes do not start a character.\<close>

definition is_continuation :: "char \<Rightarrow> bool" where
  "is_continuation c = (let n = (of_char c :: nat) in 128 \<le> n \<and> n < 192)"

fun take_chars :: "nat \<Rightarrow> string \<Rightarrow> string" where
  "take_chars n [] = []"
| "take_chars n (c # s) =
     (if is_continuation c then c # take_chars n s
      else case n of 0 \<Rightarrow> [] | Suc m \<Rightarrow> c # take_chars m s)"

fun join :: "string \<Rightarrow> string list \<Rightarrow> string" where
  "join sep [] = []"
| "join sep [s] = s"
| "join sep (s # t # ts) = s @ sep @ join sep (t # ts)"

section \<open>Decimal numerals\<close>

definition digit_char :: "nat \<Rightarrow> char" where
  "digit_char n = char_of (48 + n)"

fun nat_str :: "nat \<Rightarrow> string" where
  "nat_str n = (if n < 10 then [digit_char n] else nat_str (n div 10) @ [digit_char (n mod 10)])"

declare nat_str.simps [simp del]

definition int_str :: "int \<Rightarrow> string" where
  "int_str i = (if i < 0 then ''-'' @ nat_str (nat (- i)) else nat_str (nat i))"

lemma nat_str_not_Nil [simp]: "nat_str n \<noteq> []"
  by (subst nat_str.simps) simp

lemma int_str_not_Nil [simp]: "int_str i \<noteq> []"
  by (simp add: int_str_def)

text \<open>Leading zeros up to a width, for \<open>f"{n:03d}"\<close> on a non-negative number.\<close>

definition pad_zeros :: "nat \<Rightarrow> string \<Rightarrow> string" where
  "pad_zeros w s = replicate (w - length s) (CHR ''0'') @ s"

end
