(* ===== verification/PyFloat.thy ===== *)
theory PyFloat
  imports Prelude "HOL-Library.Log_Nat"
begin

text \<open>
  Python floats as rational numbers: a float is the rational number it denotes, and
  \<open>fl\<close> rounds an exact result to the nearest binary64 number, ties to even.  The
  exponent range is unbounded: overflow to infinity, subnormal numbers and NaN are
  outside the model.
\<close>

type_synonym pyfloat = rat

definition round_half_even :: "rat \<Rightarrow> int" where
  "round_half_even r =
     (let f = \<lfloor>r\<rfloor>; d = r - of_int f
      in if d < 1 / 2 then f else if d > 1 / 2 then f + 1 else if even f then f else f + 1)"

definition fl_exponent :: "rat \<Rightarrow> int" where
  "fl_exponent x =
     (let (n, d) = quotient_of x; e = bitlen n - bitlen d
      in if 2 powi e \<le> x then e else e - 1)"

definition fl :: "rat \<Rightarrow> pyfloat" where
  "fl x =
     (let a = \<bar>x\<bar>; u = 2 powi (fl_exponent a - 52)
      in if x = 0 then 0 else sgn x * (of_int (round_half_even (a / u)) * u))"

text \<open>\<open>round(x, 4)\<close>.\<close>

definition round4 :: "rat \<Rightarrow> pyfloat" where
  "round4 x = fl (of_int (round_half_even (x * 10000)) / 10000)"

definition trunc :: "pyfloat \<Rightarrow> int" where
  "trunc x = (if 0 \<le> x then \<lfloor>x\<rfloor> else \<lceil>x\<rceil>)"

lemma round_half_even_le: "r \<le> of_int m \<Longrightarrow> round_half_even r \<le> m"
proof -
  assume r: "r \<le> of_int m"
  show ?thesis
  proof (cases "\<lfloor>r\<rfloor> = m")
    case True
    then have "r = of_int m"
      using r by (metis order_antisym of_int_floor_le)
    then show ?thesis using True by (simp add: round_half_even_def)
  next
    case False
    moreover have "\<lfloor>r\<rfloor> \<le> m" using r by linarith
    ultimately have "\<lfloor>r\<rfloor> + 1 \<le> m" by linarith
    then show ?thesis by (auto simp: round_half_even_def Let_def)
  qed
qed

lemma round_half_even_ge: "of_int m \<le> r \<Longrightarrow> m \<le> round_half_even r"
proof -
  assume "of_int m \<le> r"
  then have "m \<le> \<lfloor>r\<rfloor>" by (simp add: le_floor_iff)
  then show ?thesis by (auto simp: round_half_even_def Let_def)
qed

lemma bitlen_pos_bounds:
  assumes "0 < n"
  shows "2 powi (bitlen n - 1) \<le> (of_int n :: rat)" and "(of_int n :: rat) < 2 powi (bitlen n)"
proof -
  have b: "2 ^ nat (bitlen n - 1) \<le> n \<and> n < 2 ^ nat (bitlen n)"
    by (rule bitlen_bounds [OF assms])
  have p: "0 < bitlen n" using assms b by (cases "nat (bitlen n)") auto
  have "(2 :: rat) powi (bitlen n - 1) = of_int (2 ^ nat (bitlen n - 1))"
    using p by (simp add: power_int_def)
  also have "\<dots> \<le> of_int n" using b by (simp only: of_int_le_iff)
  finally show "2 powi (bitlen n - 1) \<le> (of_int n :: rat)" .
  have "(of_int n :: rat) < of_int (2 ^ nat (bitlen n))"
    using b by (simp only: of_int_less_iff)
  also have "\<dots> = 2 powi (bitlen n)" using p by (simp add: power_int_def)
  finally show "(of_int n :: rat) < 2 powi (bitlen n)" .
qed

lemma fl_exponent_lower:
  assumes "0 < x"
  shows "2 powi (fl_exponent x) \<le> x"
proof -
  obtain n d where q: "quotient_of x = (n, d)" by (cases "quotient_of x")
  have d: "0 < d" and x: "x = of_int n / of_int d"
    using q quotient_of_denom_pos quotient_of_div by auto
  have n: "0 < n" using assms x d by (simp add: zero_less_divide_iff)
  show ?thesis
  proof (cases "2 powi (bitlen n - bitlen d) \<le> x")
    case True
    then show ?thesis by (simp add: fl_exponent_def q)
  next
    case False
    have "2 powi (bitlen n - 1) \<le> (of_int n :: rat)"
      using bitlen_pos_bounds [OF n] by simp
    moreover have "(of_int d :: rat) \<le> 2 powi (bitlen d)"
      using bitlen_pos_bounds [OF d] by simp
    ultimately have "2 powi (bitlen n - 1) / 2 powi (bitlen d) \<le> x"
      unfolding x using n d by (intro frac_le) auto
    then have "2 powi (bitlen n - 1 - bitlen d) \<le> x"
      by (simp add: power_int_diff)
    then show ?thesis using False by (simp add: fl_exponent_def q algebra_simps)
  qed
qed

lemma fl_pos: "0 < x \<Longrightarrow> 0 < fl x"
proof -
  assume x: "0 < x"
  let ?u = "2 powi (fl_exponent x - 52) :: rat"
  have u: "0 < ?u" by simp
  have "2 powi 52 * ?u = (2 powi (fl_exponent x) :: rat)"
    by (simp add: power_int_diff)
  then have "of_int 1 \<le> x / ?u"
    using fl_exponent_lower [OF x] u by (simp add: le_divide_eq power_int_def)
  then have "1 \<le> round_half_even (x / ?u)" by (rule round_half_even_ge)
  then show ?thesis using x u by (simp add: fl_def Let_def)
qed

lemma fl_0 [simp]: "fl 0 = 0"
  by (simp add: fl_def)

lemma fl_minus: "fl (- x) = - fl x"
  by (simp add: fl_def Let_def)

lemma fl_neg: "x < 0 \<Longrightarrow> fl x < 0"
  using fl_pos [of "- x"] by (simp add: fl_minus)

lemma fl_pos_iff [simp]: "0 < fl x \<longleftrightarrow> 0 < x"
  by (metis fl_0 fl_neg fl_pos linorder_cases order_less_asym order_less_irrefl)

lemma fl_le_0_iff [simp]: "fl x \<le> 0 \<longleftrightarrow> x \<le> 0"
  by (metis fl_pos_iff linorder_not_less)

lemma fl_nonneg_iff [simp]: "0 \<le> fl x \<longleftrightarrow> 0 \<le> x"
  by (metis fl_0 fl_neg fl_pos_iff less_eq_rat_def linorder_not_less)

lemma fl_le_int:
  assumes "0 \<le> x" and "x \<le> of_int n" and "n < 2 ^ 53"
  shows "fl x \<le> of_int n"
proof (cases "x = 0")
  case True
  then show ?thesis using assms by simp
next
  case False
  then have x: "0 < x" using assms by simp
  let ?e = "fl_exponent x"
  let ?u = "2 powi (?e - 52) :: rat"
  have u: "0 < ?u" by simp
  have "?e < 53"
  proof (rule ccontr)
    assume "\<not> ?e < 53"
    then have "(2 powi 53 :: rat) \<le> 2 powi ?e"
      by (intro power_int_increasing) auto
    also have "\<dots> \<le> of_int n" using fl_exponent_lower [OF x] assms by simp
    finally have "(of_int (2 ^ 53) :: rat) \<le> of_int n" by (simp add: power_int_def)
    then show False using assms by (simp only: of_int_le_iff)
  qed
  then have "2 powi (52 - ?e) = (of_int (2 ^ nat (52 - ?e)) :: rat)"
    by (simp add: power_int_def)
  then have inv: "of_int n / ?u = of_int (n * 2 ^ nat (52 - ?e))"
    by (simp add: power_int_diff divide_simps mult.commute)
  have "x / ?u \<le> of_int (n * 2 ^ nat (52 - ?e))"
    unfolding inv [symmetric] using assms u by (intro divide_right_mono) auto
  then have "round_half_even (x / ?u) \<le> n * 2 ^ nat (52 - ?e)"
    by (rule round_half_even_le)
  then have "of_int (round_half_even (x / ?u)) \<le> of_int n / ?u"
    unfolding inv by (simp only: of_int_le_iff)
  then show ?thesis using x u by (simp add: fl_def Let_def le_divide_eq)
qed

lemma trunc_nonneg: "0 \<le> x \<Longrightarrow> 0 \<le> trunc x"
  by (simp add: trunc_def)

lemma trunc_le: "0 \<le> x \<Longrightarrow> x \<le> of_int n \<Longrightarrow> trunc x \<le> n"
  by (simp add: trunc_def) linarith

text \<open>
  \<open>n * share\<close> for an integer: it is converted to a float first.  \<open>int(n * share)\<close> of a
  share between nothing and the whole is between nothing and the count.
\<close>

definition fmul_int :: "int \<Rightarrow> pyfloat \<Rightarrow> pyfloat" where
  "fmul_int n s = fl (fl (of_int n) * s)"

lemma trunc_share_bounds:
  assumes "0 \<le> n" and "n < 2 ^ 53" and "0 \<le> s" and "s \<le> 1"
  shows "0 \<le> trunc (fmul_int n s)" and "trunc (fmul_int n s) \<le> n"
proof -
  have n0: "0 \<le> fl (of_int n)" and n1: "fl (of_int n) \<le> of_int n"
    using assms by (auto intro: fl_le_int)
  have p: "0 \<le> fl (of_int n) * s" using assms n0 by simp
  then show "0 \<le> trunc (fmul_int n s)" by (auto intro: trunc_nonneg simp: fmul_int_def)
  have "fl (of_int n) * s \<le> of_int n * 1"
    using assms n0 n1 by (intro mult_mono) auto
  then have "fmul_int n s \<le> of_int n"
    using p assms unfolding fmul_int_def by (intro fl_le_int) auto
  then show "trunc (fmul_int n s) \<le> n" using p by (intro trunc_le) (auto simp: fmul_int_def)
qed

text \<open>Rounding to nearest is off by at most half a unit in the last place.\<close>

lemma round_half_even_upper: "of_int (round_half_even r) \<le> r + 1 / 2"
  by (auto simp: round_half_even_def Let_def not_less) linarith+

lemma fl_upper:
  assumes "0 \<le> x"
  shows "fl x \<le> x * (1 + 1 / 2 ^ 53)"
proof (cases "x = 0")
  case True
  then show ?thesis by simp
next
  case False
  then have x: "0 < x" using assms by simp
  let ?u = "2 powi (fl_exponent x - 52) :: rat"
  have u: "0 < ?u" by simp
  have "?u = 2 powi (fl_exponent x) / 2 ^ 52" by (simp add: power_int_diff)
  then have ulp: "?u \<le> x / 2 ^ 52"
    using fl_exponent_lower [OF x] by (simp add: divide_right_mono)
  have "of_int (round_half_even (x / ?u)) * ?u \<le> (x / ?u + 1 / 2) * ?u"
    using u by (intro mult_right_mono round_half_even_upper) auto
  also have "\<dots> = x + ?u / 2" using u by (simp add: field_simps)
  also have "\<dots> \<le> x + x / 2 ^ 53" using ulp by simp
  finally have "of_int (round_half_even (x / ?u)) * ?u \<le> x * (1 + 1 / 2 ^ 53)"
    by (simp add: algebra_simps)
  then show ?thesis using x by (simp add: fl_def Let_def)
qed

lemma scaled_less: "k \<le> p * c \<Longrightarrow> p * (c - 1) < 1 \<Longrightarrow> k < p + (1 :: rat)"
  by (simp add: algebra_simps)

text \<open>
  A share given as a fraction with a small denominator is not exceeded: the rounding of the
  share and of the product together stay below the distance to the next integer.
\<close>

lemma trunc_fraction_le:
  assumes n: "0 \<le> n" "n < 2 ^ 40" and p: "0 < p" "p \<le> 2 ^ 10" and q: "0 < q" "q \<le> 2 ^ 10"
  shows "q * trunc (fmul_int n (fl (of_int p / of_int q))) \<le> p * n"
proof -
  let ?x = "of_int n * (of_int p / of_int q) :: rat"
  let ?k = "trunc (fmul_int n (fl (of_int p / of_int q)))"
  let ?d = "1 + 1 / 2 ^ 53 :: rat"
  have s: "0 \<le> fl (of_int p / of_int q)" "fl (of_int p / of_int q) \<le> of_int p / of_int q * ?d"
    using p q by (simp, intro fl_upper, simp)
  have n1: "0 \<le> fl (of_int n)" "fl (of_int n) \<le> of_int n"
    using n by (auto intro: fl_le_int)
  have "fl (of_int n) * fl (of_int p / of_int q) \<le> of_int n * (of_int p / of_int q * ?d)"
    using n s n1 by (intro mult_mono) auto
  then have b: "fl (of_int n) * fl (of_int p / of_int q) \<le> ?x * ?d" by simp
  have pos: "0 \<le> fl (of_int n) * fl (of_int p / of_int q)" using s n1 by simp
  have "fmul_int n (fl (of_int p / of_int q)) \<le> fl (of_int n) * fl (of_int p / of_int q) * ?d"
    unfolding fmul_int_def by (rule fl_upper [OF pos])
  also have "\<dots> \<le> ?x * ?d * ?d" using b by (intro mult_right_mono) auto
  finally have f: "fmul_int n (fl (of_int p / of_int q)) \<le> ?x * (?d * ?d)" by (simp add: mult.assoc)
  have "of_int ?k \<le> fmul_int n (fl (of_int p / of_int q))"
    using pos by (simp add: trunc_def fmul_int_def)
  also note f
  finally have "of_int q * of_int ?k \<le> of_int q * (?x * (?d * ?d))"
    using q by (intro mult_left_mono) auto
  also have "\<dots> = of_int (p * n) * (?d * ?d)" using q by simp
  finally have k: "of_int (q * ?k) \<le> (of_int (p * n) :: rat) * (?d * ?d)" by simp
  have "p * n \<le> 2 ^ 10 * 2 ^ 40" using p n by (intro mult_mono) auto
  then have pn: "(of_int (p * n) :: rat) \<le> of_int (2 ^ 50)" by (simp only: of_int_le_iff) simp
  have "(of_int (p * n) :: rat) * (?d * ?d - 1) \<le> of_int (2 ^ 50) * (?d * ?d - 1)"
    using pn by (intro mult_right_mono) (simp_all)
  also have "\<dots> < 1" by (simp add: power_numeral)
  finally have small: "(of_int (p * n) :: rat) * (?d * ?d - 1) < 1" .
  have "(of_int (q * ?k) :: rat) < of_int (p * n) + 1" by (rule scaled_less [OF k small])
  then have "(of_int (q * ?k) :: rat) < of_int (p * n + 1)" by (simp only: of_int_add of_int_1)
  then show ?thesis by (simp only: of_int_less_iff zless_add1_eq le_less)
qed

section \<open>Evaluation\<close>

text \<open>Rounding on the numerator and the denominator, the form the kernel evaluates quickly.\<close>

definition shift_pair :: "int \<Rightarrow> int \<Rightarrow> int \<Rightarrow> int \<times> int" where
  "shift_pair k n d = (if 0 \<le> k then (n * 2 ^ nat k, d) else (n, d * 2 ^ nat (- k)))"

definition round_div :: "int \<Rightarrow> int \<Rightarrow> int" where
  "round_div n d =
     (if 2 * (n mod d) < d then n div d
      else if 2 * (n mod d) > d then n div d + 1
      else if even (n div d) then n div d else n div d + 1)"

definition exponent_div :: "int \<Rightarrow> int \<Rightarrow> int" where
  "exponent_div n d =
     (case shift_pair (bitlen n - bitlen d) d n of (d', n') \<Rightarrow>
        if d' \<le> n' then bitlen n - bitlen d else bitlen n - bitlen d - 1)"

definition fl_div :: "int \<Rightarrow> int \<Rightarrow> rat" where
  "fl_div n d =
     (if n = 0 then 0
      else case shift_pair (52 - exponent_div \<bar>n\<bar> d) \<bar>n\<bar> d of (n', d') \<Rightarrow>
        case shift_pair (exponent_div \<bar>n\<bar> d - 52) (sgn n * round_div n' d') 1 of (a, b) \<Rightarrow> Fract a b)"

lemma shift_pair_quotient:
  "shift_pair k n d = (n', d') \<Longrightarrow> 0 < d \<Longrightarrow>
     0 < d' \<and> (of_int n' / of_int d' :: rat) = of_int n / of_int d * 2 powi k"
  by (auto simp: shift_pair_def power_int_def field_simps split: if_splits)

lemma round_div_quotient: "0 < d \<Longrightarrow> round_half_even (of_int n / of_int d) = round_div n d"
proof -
  assume d: "0 < d"
  have f: "\<lfloor>(of_int n / of_int d :: rat)\<rfloor> = n div d" by (rule floor_divide_of_int_eq)
  have n: "n = d * (n div d) + n mod d" by simp
  have "(of_int n :: rat) = of_int d * of_int (n div d) + of_int (n mod d)"
    by (subst n) (simp only: of_int_add of_int_mult)
  then have r: "(of_int n / of_int d :: rat) - of_int (n div d) = of_int (n mod d) / of_int d"
    using d by (simp add: field_simps)
  have lt: "of_int (n mod d) / of_int d < (1 / 2 :: rat) \<longleftrightarrow> 2 * (n mod d) < d"
    and gt: "(1 / 2 :: rat) < of_int (n mod d) / of_int d \<longleftrightarrow> d < 2 * (n mod d)"
    using d by (simp_all add: divide_simps) linarith+
  show ?thesis unfolding round_half_even_def Let_def f r lt gt round_div_def by simp
qed

lemma exponent_quotient:
  assumes "quotient_of x = (n, d)" and "0 < n"
  shows "fl_exponent x = exponent_div n d"
proof -
  obtain d' n' where s: "shift_pair (bitlen n - bitlen d) d n = (d', n')"
    by (cases "shift_pair (bitlen n - bitlen d) d n")
  have d: "0 < d" and x: "x = of_int n / of_int d"
    using assms quotient_of_denom_pos quotient_of_div by auto
  have q: "0 < n'" "(of_int d' / of_int n' :: rat) = of_int d / of_int n * 2 powi (bitlen n - bitlen d)"
    using shift_pair_quotient [OF s assms(2)] by auto
  have "2 powi (bitlen n - bitlen d) \<le> x \<longleftrightarrow> of_int d / of_int n * 2 powi (bitlen n - bitlen d) \<le> (1 :: rat)"
    using d assms(2) by (simp add: x field_simps)
  also have "\<dots> \<longleftrightarrow> (of_int d' :: rat) \<le> of_int n'"
    unfolding q(2) [symmetric] using q(1) by (simp add: divide_simps)
  also have "\<dots> \<longleftrightarrow> d' \<le> n'" by (simp only: of_int_le_iff)
  finally show ?thesis by (simp add: fl_exponent_def exponent_div_def assms(1) s)
qed

lemma quotient_of_abs: "quotient_of x = (n, d) \<Longrightarrow> quotient_of \<bar>x\<bar> = (\<bar>n\<bar>, d)"
  by (auto simp: rat_abs_code)

lemma fl_code [code]: "fl x = (case quotient_of x of (n, d) \<Rightarrow> fl_div n d)"
proof -
  obtain n d where q: "quotient_of x = (n, d)" by (cases "quotient_of x")
  have d: "0 < d" and x: "x = of_int n / of_int d"
    using q quotient_of_denom_pos quotient_of_div by auto
  show ?thesis
  proof (cases "n = 0")
    case True
    then show ?thesis using q x by (simp add: fl_div_def)
  next
    case False
    let ?e = "exponent_div \<bar>n\<bar> d"
    obtain n' d' where s: "shift_pair (52 - ?e) \<bar>n\<bar> d = (n', d')"
      by (cases "shift_pair (52 - ?e) \<bar>n\<bar> d")
    obtain a b where t: "shift_pair (?e - 52) (sgn n * round_div n' d') 1 = (a, b)"
      by (cases "shift_pair (?e - 52) (sgn n * round_div n' d') 1")
    note S = shift_pair_quotient [OF s d] and T = shift_pair_quotient [OF t, simplified]
    have e: "fl_exponent \<bar>x\<bar> = ?e"
      using exponent_quotient [OF quotient_of_abs [OF q]] False by simp
    have abs: "\<bar>x\<bar> = of_int \<bar>n\<bar> / of_int d" using d by (simp add: x)
    have "(2 :: rat) powi (52 - ?e) = 1 / 2 powi (?e - 52)"
      by (simp add: power_int_diff)
    then have "\<bar>x\<bar> / 2 powi (?e - 52) = of_int n' / of_int d'"
      using S abs by simp
    then have r: "round_half_even (\<bar>x\<bar> / 2 powi (?e - 52)) = round_div n' d'"
      using S round_div_quotient [of d' n'] by simp
    have sg: "sgn x = of_int (sgn n)" using d by (simp add: x sgn_if divide_less_0_iff zero_less_divide_iff)
    have "x \<noteq> 0" using False d x by simp
    then have "fl x = of_int (sgn n * round_div n' d') * 2 powi (?e - 52)"
      by (simp add: fl_def Let_def e r sg)
    then show ?thesis using T False by (simp add: q fl_div_def s t Fract_of_int_quotient)
  qed
qed

end
