(* ===== verification/PyVal.thy ===== *)
theory PyVal
  imports PyFloat
begin

text \<open>
  JSON-like Python values, for the parts of the program that pass \<open>dict[str, Any]\<close>
  rows around, with the coercions those parts apply: truth value, \<open>str\<close>, \<open>int\<close>,
  \<open>or\<close>, \<open>.get\<close>, \<open>isinstance\<close> and iteration.  A float carries the text
  \<open>repr\<close> prints for it (first character and rest, as that text is never empty), so that
  \<open>str\<close> needs no float formatting.
\<close>

datatype pyval =
    PNone
  | PBool bool
  | PInt int
  | PFloat rat char string
  | PStr string
  | PList "pyval list"
  | PDict "(string \<times> pyval) list"

type_synonym pydict = "pyval dict"

text \<open>A list of strings as a value.\<close>

definition strs :: "string list \<Rightarrow> pyval" where
  "strs xs = PList (map PStr xs)"

section \<open>Truth values and dictionary access\<close>

fun truthy :: "pyval \<Rightarrow> bool" where
  "truthy PNone = False"
| "truthy (PBool b) = b"
| "truthy (PInt i) = (i \<noteq> 0)"
| "truthy (PFloat q c r) = (q \<noteq> 0)"
| "truthy (PStr s) = (s \<noteq> [])"
| "truthy (PList vs) = (vs \<noteq> [])"
| "truthy (PDict d) = (d \<noteq> [])"

definition por :: "pyval \<Rightarrow> pyval \<Rightarrow> pyval" where
  "por a b = (if truthy a then a else b)"

definition is_dict :: "pyval \<Rightarrow> bool" where
  "is_dict v = (case v of PDict _ \<Rightarrow> True | _ \<Rightarrow> False)"

definition is_list :: "pyval \<Rightarrow> bool" where
  "is_list v = (case v of PList _ \<Rightarrow> True | _ \<Rightarrow> False)"

text \<open>\<open>v if isinstance(v, dict) else {}\<close> and the same for lists.\<close>

definition as_dict :: "pyval \<Rightarrow> pydict" where
  "as_dict v = (case v of PDict d \<Rightarrow> d | _ \<Rightarrow> [])"

definition as_list :: "pyval \<Rightarrow> pyval list" where
  "as_list v = (case v of PList vs \<Rightarrow> vs | _ \<Rightarrow> [])"

text \<open>\<open>d.get(k)\<close> and \<open>d.get(k, default)\<close> on a dictionary; \<open>v.get(k)\<close> on any value.\<close>

definition pget_or :: "pydict \<Rightarrow> string \<Rightarrow> pyval \<Rightarrow> pyval" where
  "pget_or d k v = (case dget d k of None \<Rightarrow> v | Some x \<Rightarrow> x)"

abbreviation pget :: "pydict \<Rightarrow> string \<Rightarrow> pyval" where
  "pget d k \<equiv> pget_or d k PNone"

definition attr_get :: "pyval \<Rightarrow> string \<Rightarrow> pyval res" where
  "attr_get v k = (case v of PDict d \<Rightarrow> Inr (pget d k) | _ \<Rightarrow> Inl (AttributeError ''get''))"

section \<open>\<open>str\<close> and \<open>repr\<close>\<close>

definition escape_char :: "char \<Rightarrow> char \<Rightarrow> string" where
  "escape_char q c =
     (if c = q \<or> c = CHR 0x5C then [CHR 0x5C, c]
      else if c = CHR 0x0A then [CHR 0x5C, CHR ''n'']
      else if c = CHR 0x0D then [CHR 0x5C, CHR ''r'']
      else if c = CHR 0x09 then [CHR 0x5C, CHR ''t'']
      else [c])"

definition repr_str :: "string \<Rightarrow> string" where
  "repr_str s =
     (let q = (if CHR 0x27 \<in> set s \<and> CHR 0x22 \<notin> set s then CHR 0x22 else CHR 0x27)
      in [q] @ concat (map (escape_char q) s) @ [q])"

fun py_repr :: "pyval \<Rightarrow> string" where
  "py_repr PNone = ''None''"
| "py_repr (PBool b) = (if b then ''True'' else ''False'')"
| "py_repr (PInt i) = int_str i"
| "py_repr (PFloat q c r) = c # r"
| "py_repr (PStr s) = repr_str s"
| "py_repr (PList vs) = ''['' @ join '', '' (map py_repr vs) @ '']''"
| "py_repr (PDict d) =
     [CHR ''{''] @ join '', '' (map (\<lambda>kv. repr_str (fst kv) @ '': '' @ py_repr (snd kv)) d) @ [CHR ''}'']"

definition py_str :: "pyval \<Rightarrow> string" where
  "py_str v = (case v of PStr s \<Rightarrow> s | _ \<Rightarrow> py_repr v)"

lemma py_str_PStr [simp]: "py_str (PStr s) = s"
  by (simp add: py_str_def)

text \<open>The idioms \<open>str(d.get(k) or "")\<close>, \<open>int(d.get(k) or 0)\<close>, \<open>bool(d.get(k))\<close>.\<close>

definition str_or :: "pyval \<Rightarrow> string \<Rightarrow> string" where
  "str_or v s = py_str (por v (PStr s))"

section \<open>\<open>int\<close>\<close>

definition is_digit :: "char \<Rightarrow> bool" where
  "is_digit c = (let n = (of_char c :: nat) in 48 \<le> n \<and> n \<le> 57)"

definition digit_val :: "char \<Rightarrow> int" where
  "digit_val c = int (of_char c) - 48"

text \<open>Decimal digits with single underscores between digits, as \<open>int\<close> accepts them.\<close>

fun parse_digits :: "int \<Rightarrow> string \<Rightarrow> int option" where
  "parse_digits acc [] = Some acc"
| "parse_digits acc (c # s) =
     (if is_digit c then parse_digits (10 * acc + digit_val c) s
      else if c = CHR ''_'' then
        (case s of [] \<Rightarrow> None
         | d # t \<Rightarrow> if is_digit d then parse_digits (10 * acc + digit_val d) t else None)
      else None)"

definition parse_int :: "string \<Rightarrow> int option" where
  "parse_int s =
     (let unsigned = (\<lambda>t. case t of [] \<Rightarrow> None | c # _ \<Rightarrow> if is_digit c then parse_digits 0 t else None)
      in case py_strip s of
           [] \<Rightarrow> None
         | c # t \<Rightarrow> if c = CHR ''-'' then map_option uminus (unsigned t)
                    else if c = CHR ''+'' then unsigned t else unsigned (c # t))"

fun py_int :: "pyval \<Rightarrow> int res" where
  "py_int (PInt i) = Inr i"
| "py_int (PBool b) = Inr (if b then 1 else 0)"
| "py_int (PFloat q c r) = Inr (trunc q)"
| "py_int (PStr s) =
     (case parse_int s of
        None \<Rightarrow> Inl (ValueError (''invalid literal for int() with base 10: '' @ repr_str s))
      | Some i \<Rightarrow> Inr i)"
| "py_int PNone = Inl (TypeError ''int() argument'')"
| "py_int (PList _) = Inl (TypeError ''int() argument'')"
| "py_int (PDict _) = Inl (TypeError ''int() argument'')"

definition int_or :: "pyval \<Rightarrow> int \<Rightarrow> int res" where
  "int_or v n = py_int (por v (PInt n))"

section \<open>\<open>float\<close>\<close>

text \<open>
  A decimal number with optional sign, fraction and exponent, rounded once; the words for
  infinity and NaN and digit separators are outside the model and raise.
\<close>

definition take_digits :: "string \<Rightarrow> string \<times> string" where
  "take_digits s = (takeWhile is_digit s, dropWhile is_digit s)"

definition digits_value :: "string \<Rightarrow> int" where
  "digits_value ds = fold (\<lambda>c n. 10 * n + digit_val c) ds 0"

definition parse_exponent :: "string \<Rightarrow> int option" where
  "parse_exponent s =
     (case s of
        [] \<Rightarrow> Some 0
      | c # t \<Rightarrow>
          if c = CHR ''e'' \<or> c = CHR ''E'' then
            (let (neg, u) = (case t of [] \<Rightarrow> (False, []) | d # v \<Rightarrow>
                   if d = CHR ''-'' then (True, v) else if d = CHR ''+'' then (False, v) else (False, d # v))
             in if u \<noteq> [] \<and> list_all is_digit u
                then Some (if neg then - digits_value u else digits_value u) else None)
          else None)"

definition parse_unsigned_float :: "string \<Rightarrow> rat option" where
  "parse_unsigned_float s =
     (case take_digits s of (whole, r) \<Rightarrow>
        (case (case r of [] \<Rightarrow> ([], []) | c # t \<Rightarrow> if c = CHR ''.'' then take_digits t else ([], r)) of (fraction, e) \<Rightarrow>
          if whole = [] \<and> fraction = [] then None
          else map_option (\<lambda>n. of_int (digits_value (whole @ fraction)) * 10 powi (n - int (length fraction)))
                 (parse_exponent e)))"

definition parse_float :: "string \<Rightarrow> pyfloat option" where
  "parse_float s =
     (case py_strip s of
        [] \<Rightarrow> None
      | c # t \<Rightarrow> map_option fl
          (if c = CHR ''-'' then map_option uminus (parse_unsigned_float t)
           else if c = CHR ''+'' then parse_unsigned_float t else parse_unsigned_float (c # t)))"

fun py_float :: "pyval \<Rightarrow> pyfloat res" where
  "py_float (PInt i) = Inr (fl (of_int i))"
| "py_float (PBool b) = Inr (if b then 1 else 0)"
| "py_float (PFloat q c r) = Inr q"
| "py_float (PStr s) =
     (case parse_float s of
        None \<Rightarrow> Inl (ValueError (''could not convert string to float: '' @ repr_str s))
      | Some q \<Rightarrow> Inr q)"
| "py_float _ = Inl (TypeError ''float() argument'')"

definition float_or_zero :: "pyval \<Rightarrow> pyfloat res" where
  "float_or_zero v = (if truthy v then py_float v else Inr 0)"

section \<open>Iteration\<close>

text \<open>
  \<open>for x in v\<close>: lists give their elements, dictionaries their keys, strings their
  code points; other values are not iterable.
\<close>

fun code_points :: "string \<Rightarrow> string list" where
  "code_points [] = []"
| "code_points (c # s) =
     (case code_points s of
        [] \<Rightarrow> [[c]]
      | p # ps \<Rightarrow> if is_continuation (hd p) then (c # p) # ps else [c] # p # ps)"

fun py_iter :: "pyval \<Rightarrow> pyval list res" where
  "py_iter (PList vs) = Inr vs"
| "py_iter (PDict d) = Inr (map (\<lambda>kv. PStr (fst kv)) d)"
| "py_iter (PStr s) = Inr (map PStr (code_points s))"
| "py_iter v = Inl (TypeError ''object is not iterable'')"

text \<open>\<open>for x in v or []\<close> and \<open>[row for row in v or [] if isinstance(row, dict)]\<close>.\<close>

definition iter_or_empty :: "pyval \<Rightarrow> pyval list res" where
  "iter_or_empty v = py_iter (por v (PList []))"

definition dict_rows :: "pyval \<Rightarrow> pydict list res" where
  "dict_rows v = ebind (iter_or_empty v) (\<lambda>vs. Inr (map as_dict (filter is_dict vs)))"

text \<open>\<open>[str(x) for x in v or []]\<close>.\<close>

definition str_list :: "pyval \<Rightarrow> string list res" where
  "str_list v = ebind (iter_or_empty v) (\<lambda>vs. Inr (map py_str vs))"

text \<open>
  \<open>dict(v or {})\<close>: a copy of a dictionary, nothing for a false value.  Lists of pairs, which
  \<open>dict\<close> also accepts, are outside the model and raise.
\<close>

definition dict_or_empty :: "pyval \<Rightarrow> pydict res" where
  "dict_or_empty v =
     (if truthy v then (case v of PDict d \<Rightarrow> Inr d | _ \<Rightarrow> Inl (TypeError ''dict() argument'')) else Inr [])"

text \<open>\<open>[str(x) for x in v or [] if str(x).strip()]\<close> and the same with the test \<open>str(x)\<close>.\<close>

definition nonblank_strs :: "pyval \<Rightarrow> string list res" where
  "nonblank_strs v = ebind (str_list v) (\<lambda>ss. Inr (filter (\<lambda>s. py_strip s \<noteq> []) ss))"

definition nonempty_strs :: "pyval \<Rightarrow> string list res" where
  "nonempty_strs v = ebind (str_list v) (\<lambda>ss. Inr (filter (\<lambda>s. s \<noteq> []) ss))"

section \<open>Equality and hashing\<close>

text \<open>
  \<open>==\<close>: booleans, integers and floats compare as numbers, dictionaries without regard to
  order.  Lists and dictionaries are not hashable.
\<close>

definition num_of :: "pyval \<Rightarrow> rat option" where
  "num_of v = (case v of PBool b \<Rightarrow> Some (if b then 1 else 0) | PInt i \<Rightarrow> Some (of_int i)
     | PFloat q c r \<Rightarrow> Some q | _ \<Rightarrow> None)"

fun py_eq :: "pyval \<Rightarrow> pyval \<Rightarrow> bool" and py_eq_lists :: "pyval list \<Rightarrow> pyval list \<Rightarrow> bool"
  and py_eq_entries :: "(string \<times> pyval) list \<Rightarrow> (string \<times> pyval) list \<Rightarrow> bool" where
  "py_eq (PStr s) w = (w = PStr s)"
| "py_eq PNone w = (w = PNone)"
| "py_eq (PList vs) w = (case w of PList ws \<Rightarrow> py_eq_lists vs ws | _ \<Rightarrow> False)"
| "py_eq (PDict d) w = (case w of PDict e \<Rightarrow> length d = length e \<and> py_eq_entries d e | _ \<Rightarrow> False)"
| "py_eq (PBool b) w = (num_of w = num_of (PBool b))"
| "py_eq (PInt i) w = (num_of w = num_of (PInt i))"
| "py_eq (PFloat q c r) w = (num_of w = num_of (PFloat q c r))"
| "py_eq_lists [] ws = (ws = [])"
| "py_eq_lists (v # vs) ws = (case ws of [] \<Rightarrow> False | w # ws' \<Rightarrow> py_eq v w \<and> py_eq_lists vs ws')"
| "py_eq_entries [] e = True"
| "py_eq_entries ((k, v) # d) e =
     ((case dget e k of None \<Rightarrow> False | Some w \<Rightarrow> py_eq v w) \<and> py_eq_entries d e)"

definition hashable :: "pyval \<Rightarrow> bool" where
  "hashable v = (\<not> is_list v \<and> \<not> is_dict v)"

text \<open>\<open>v in vs\<close> and \<open>list(dict.fromkeys(vs))\<close>.\<close>

definition py_in :: "pyval \<Rightarrow> pyval list \<Rightarrow> bool" where
  "py_in v vs = list_ex (\<lambda>w. py_eq w v) vs"

fun py_dedupe :: "pyval list \<Rightarrow> pyval list" where
  "py_dedupe [] = []"
| "py_dedupe (v # vs) = v # filter (\<lambda>w. \<not> py_eq v w) (py_dedupe vs)"

definition py_fromkeys :: "pyval list \<Rightarrow> pyval list res" where
  "py_fromkeys vs = (if list_all hashable vs then Inr (py_dedupe vs) else Inl (TypeError ''unhashable type''))"

section \<open>Lemmas\<close>

lemma py_dedupe_Nil_iff [simp]: "py_dedupe vs = [] \<longleftrightarrow> vs = []"
  by (cases vs) auto

lemma py_fromkeys_Nil: "py_fromkeys vs = Inr [] \<longleftrightarrow> vs = []"
  by (auto simp: py_fromkeys_def)

lemma py_fromkeys_Inr_Nil: "py_fromkeys vs = Inr ws \<Longrightarrow> ws = [] \<longleftrightarrow> vs = []"
  by (auto simp: py_fromkeys_def split: if_splits)

lemma py_dedupe_subset: "set (py_dedupe vs) \<subseteq> set vs"
  by (induction vs) auto

lemma pget_or_simps [simp]:
  "pget_or [] k v = v"
  "pget_or ((k', x) # d) k v = (if k = k' then x else pget_or d k v)"
  by (auto simp: pget_or_def)

lemma pget_dput [simp]: "pget_or (dput k x d) k' v = (if k = k' then x else pget_or d k' v)"
  by (simp add: pget_or_def)

lemma as_dict_simps [simp]:
  "as_dict (PDict d) = d" "as_dict PNone = []" "as_dict (PStr s) = []" "as_dict (PInt i) = []"
  "as_dict (PBool b) = []" "as_dict (PList vs) = []" "as_dict (PFloat q c r) = []"
  by (simp_all add: as_dict_def)

lemma is_dict_simps [simp]:
  "is_dict (PDict d)" "\<not> is_dict PNone" "\<not> is_dict (PStr s)" "\<not> is_dict (PInt i)"
  "\<not> is_dict (PBool b)" "\<not> is_dict (PList vs)" "\<not> is_dict (PFloat q c r)"
  by (simp_all add: is_dict_def)

lemma is_dict_iff: "is_dict v \<longleftrightarrow> (\<exists>d. v = PDict d)"
  by (cases v) auto

lemma is_list_simps [simp]:
  "is_list (PList vs)" "\<not> is_list PNone" "\<not> is_list (PStr s)" "\<not> is_list (PInt i)"
  "\<not> is_list (PBool b)" "\<not> is_list (PDict d)" "\<not> is_list (PFloat q c r)"
  by (simp_all add: is_list_def)

lemma as_list_simps [simp]:
  "as_list (PList vs) = vs" "as_list PNone = []" "as_list (PStr s) = []" "as_list (PInt i) = []"
  "as_list (PBool b) = []" "as_list (PDict d) = []" "as_list (PFloat q c r) = []"
  by (simp_all add: as_list_def)

lemma attr_get_PDict [simp]: "attr_get (PDict d) k = Inr (pget d k)"
  by (simp add: attr_get_def)

lemma por_simps [simp]:
  "truthy a \<Longrightarrow> por a b = a"
  "\<not> truthy a \<Longrightarrow> por a b = b"
  by (simp_all add: por_def)

lemma py_str_truthy: "truthy v \<Longrightarrow> py_str v \<noteq> []"
  by (cases v) (auto simp: py_str_def)

lemma str_or_eq_Nil: "str_or v s = [] \<longleftrightarrow> \<not> truthy v \<and> s = []"
  by (auto simp: str_or_def por_def py_str_truthy)

lemma str_or_PStr [simp]: "str_or (PStr s) t = (if s = [] then t else s)"
  by (simp add: str_or_def)

lemma str_or_PNone [simp]: "str_or PNone t = t"
  by (simp add: str_or_def)

lemma int_or_PInt [simp]: "int_or (PInt i) n = Inr (if i = 0 then n else i)"
  by (simp add: int_or_def)

lemma int_or_PNone [simp]: "int_or PNone n = Inr n"
  by (simp add: int_or_def)

lemma iter_or_empty_PList [simp]: "iter_or_empty (PList vs) = Inr vs"
  by (cases vs) (simp_all add: iter_or_empty_def)

lemma iter_or_empty_PNone [simp]: "iter_or_empty PNone = Inr []"
  by (simp add: iter_or_empty_def)

lemma str_list_PList [simp]: "str_list (PList (map PStr xs)) = Inr xs"
  by (simp add: str_list_def comp_def)

lemma str_list_strs [simp]: "str_list (strs xs) = Inr xs"
  by (simp add: strs_def)

lemma nonblank_strs_nonblank: "nonblank_strs v = Inr ss \<Longrightarrow> s \<in> set ss \<Longrightarrow> py_strip s \<noteq> []"
  by (auto simp: nonblank_strs_def ebind_eq_Inr)

lemma nonblank_strs_strs: "\<forall>s\<in>set ss. py_strip s \<noteq> [] \<Longrightarrow> nonblank_strs (strs ss) = Inr ss"
  by (simp add: nonblank_strs_def)

lemma nonempty_strs_strs: "[] \<notin> set ss \<Longrightarrow> nonempty_strs (strs ss) = Inr ss"
  by (auto simp: nonempty_strs_def intro!: filter_True)

lemma nonempty_strs_nonempty: "nonempty_strs v = Inr ss \<Longrightarrow> [] \<notin> set ss"
  by (auto simp: nonempty_strs_def ebind_eq_Inr)

lemma dict_or_empty_PDict [simp]: "dict_or_empty (PDict d) = Inr d"
  by (cases d) (simp_all add: dict_or_empty_def)

lemma dict_or_empty_PNone [simp]: "dict_or_empty PNone = Inr []"
  by (simp add: dict_or_empty_def)

lemma dict_rows_PDicts [simp]: "dict_rows (PList (map PDict ds)) = Inr ds"
  by (simp add: dict_rows_def comp_def filter_map)

lemma dict_rows_PDict_comp [simp]: "dict_rows (PList (map (PDict \<circ> f) xs)) = Inr (map f xs)"
  using dict_rows_PDicts [of "map f xs"] by simp

end
