(* ===== verification/Contracts.thy ===== *)
theory Contracts
  imports PyVal
begin

text \<open>
  The control plane contracts (\<open>app/research/domain/contracts.py\<close>) and the table of
  allowed phase transitions (\<open>app/research/control/transitions.py\<close>).  A \<open>StrEnum\<close> is a
  datatype with its \<open>.value\<close> strings; \<open>E(s)\<close> is \<open>enum_parse\<close> over its members.
\<close>

section \<open>String enumerations\<close>

text \<open>\<open>E(s)\<close> for a \<open>StrEnum\<close>: the first member with that value, or a \<open>ValueError\<close>.\<close>

definition enum_parse :: "('a \<Rightarrow> string) \<Rightarrow> 'a list \<Rightarrow> string \<Rightarrow> 'a option" where
  "enum_parse val members s = find (\<lambda>x. val x = s) members"

text \<open>The contract every \<open>StrEnum\<close> offers its users: all members listed, values distinct.\<close>

locale str_enum =
  fixes val :: "'a \<Rightarrow> string" and members :: "'a list"
  assumes all_members: "x \<in> set members"
    and val_inject: "val x = val y \<Longrightarrow> x = y"
begin

lemma parse_val: "enum_parse val members (val x) = Some x"
proof -
  have "find (\<lambda>y. val y = val x) members \<noteq> None"
    using all_members [of x] by (auto simp: find_None_iff)
  then obtain y where y: "find (\<lambda>y. val y = val x) members = Some y" by auto
  then have "val y = val x" by (auto simp: find_Some_iff)
  with y show ?thesis by (simp add: enum_parse_def val_inject)
qed

lemma parse_Some: "enum_parse val members s = Some x \<longleftrightarrow> s = val x"
proof
  assume "enum_parse val members s = Some x"
  then show "s = val x" by (auto simp: enum_parse_def find_Some_iff)
qed (simp add: parse_val)

lemma parse_None: "enum_parse val members s = None \<longleftrightarrow> s \<notin> range val"
  using parse_Some by (metis not_None_eq rangeE rangeI)

end

datatype workflow_phase =
    PH_BOOTSTRAP | PH_BRIEF | PH_SUPERVISOR | PH_DIRECT | PH_EXECUTE | PH_INGEST_FINDINGS
  | PH_COVERAGE_JUDGE | PH_SYNTHESIS | PH_QUALITY | PH_FINALIZE | PH_TERMINATED

fun phase_value :: "workflow_phase \<Rightarrow> string" where
  "phase_value PH_BOOTSTRAP = ''bootstrap''"
| "phase_value PH_BRIEF = ''brief''"
| "phase_value PH_SUPERVISOR = ''supervisor''"
| "phase_value PH_DIRECT = ''direct''"
| "phase_value PH_EXECUTE = ''execute''"
| "phase_value PH_INGEST_FINDINGS = ''ingest_findings''"
| "phase_value PH_COVERAGE_JUDGE = ''coverage_judge''"
| "phase_value PH_SYNTHESIS = ''synthesis''"
| "phase_value PH_QUALITY = ''quality''"
| "phase_value PH_FINALIZE = ''done''"
| "phase_value PH_TERMINATED = ''terminated''"

definition phase_members :: "workflow_phase list" where
  "phase_members = [PH_BOOTSTRAP, PH_BRIEF, PH_SUPERVISOR, PH_DIRECT, PH_EXECUTE,
     PH_INGEST_FINDINGS, PH_COVERAGE_JUDGE, PH_SYNTHESIS, PH_QUALITY, PH_FINALIZE, PH_TERMINATED]"

datatype runtime_status = RT_FINISHED | RT_CANCELLED | RT_CRASHED

fun runtime_status_value :: "runtime_status \<Rightarrow> string" where
  "runtime_status_value RT_FINISHED = ''finished''"
| "runtime_status_value RT_CANCELLED = ''cancelled''"
| "runtime_status_value RT_CRASHED = ''crashed''"

datatype budget_status = BS_AVAILABLE | BS_LOW | BS_EXHAUSTED | BS_UNKNOWN

datatype stop_reason =
    SR_NONE | SR_LOCAL_EVIDENCE_SUFFICIENT | SR_SOFT_BUDGET_FINALIZE | SR_SOFT_DEADLINE_FINALIZE
  | SR_NO_MORE_USEFUL_EVIDENCE | SR_BUDGET | SR_TIMEOUT | SR_CANCELLED | SR_MARGINAL_GAIN_LOW
  | SR_SUPERSEDED | SR_POLICY

fun stop_reason_value :: "stop_reason \<Rightarrow> string" where
  "stop_reason_value SR_NONE = ''none''"
| "stop_reason_value SR_LOCAL_EVIDENCE_SUFFICIENT = ''local_evidence_sufficient''"
| "stop_reason_value SR_SOFT_BUDGET_FINALIZE = ''soft_budget_finalize''"
| "stop_reason_value SR_SOFT_DEADLINE_FINALIZE = ''soft_deadline_finalize''"
| "stop_reason_value SR_NO_MORE_USEFUL_EVIDENCE = ''no_more_useful_evidence''"
| "stop_reason_value SR_BUDGET = ''budget''"
| "stop_reason_value SR_TIMEOUT = ''timeout''"
| "stop_reason_value SR_CANCELLED = ''cancelled''"
| "stop_reason_value SR_MARGINAL_GAIN_LOW = ''marginal_gain_low''"
| "stop_reason_value SR_SUPERSEDED = ''superseded''"
| "stop_reason_value SR_POLICY = ''policy''"

definition stop_reason_members :: "stop_reason list" where
  "stop_reason_members = [SR_NONE, SR_LOCAL_EVIDENCE_SUFFICIENT, SR_SOFT_BUDGET_FINALIZE,
     SR_SOFT_DEADLINE_FINALIZE, SR_NO_MORE_USEFUL_EVIDENCE, SR_BUDGET, SR_TIMEOUT, SR_CANCELLED,
     SR_MARGINAL_GAIN_LOW, SR_SUPERSEDED, SR_POLICY]"

definition parse_stop_reason :: "string \<Rightarrow> stop_reason res" where
  "parse_stop_reason s =
     (case enum_parse stop_reason_value stop_reason_members s of
        None \<Rightarrow> Inl (ValueError (repr_str s @ '' is not a valid StopReason''))
      | Some r \<Rightarrow> Inr r)"

definition get_budget_status :: "pydict \<Rightarrow> budget_status" where
  "get_budget_status state =
     (case pget state ''budget'' of
        PDict budget \<Rightarrow>
          if truthy (pget budget ''exhausted'') then BS_EXHAUSTED
          else if truthy (pget budget ''low'') then BS_LOW
          else if pget budget ''tool_calls'' = PNone \<and> pget budget ''deadline_remaining_sec'' = PNone
          then BS_UNKNOWN
          else BS_AVAILABLE
      | _ \<Rightarrow> BS_UNKNOWN)"

interpretation phase_enum: str_enum phase_value phase_members
proof
  fix x y
  show "x \<in> set phase_members" by (cases x) (simp_all add: phase_members_def)
  show "phase_value x = phase_value y \<Longrightarrow> x = y" by (cases x; cases y) simp_all
qed

interpretation stop_reason_enum: str_enum stop_reason_value stop_reason_members
proof
  fix x y
  show "x \<in> set stop_reason_members" by (cases x) (simp_all add: stop_reason_members_def)
  show "stop_reason_value x = stop_reason_value y \<Longrightarrow> x = y" by (cases x; cases y) simp_all
qed

lemma parse_stop_reason_value [simp]: "parse_stop_reason (stop_reason_value r) = Inr r"
  by (simp add: parse_stop_reason_def stop_reason_enum.parse_val)

section \<open>Phase transitions\<close>

text \<open>The table \<open>_ALLOWED\<close>; a phase without a row (\<open>DIRECT\<close>) has no successor.\<close>

fun allowed_phases :: "workflow_phase \<Rightarrow> workflow_phase list" where
  "allowed_phases PH_BOOTSTRAP = [PH_BRIEF, PH_DIRECT]"
| "allowed_phases PH_BRIEF = [PH_SUPERVISOR, PH_EXECUTE]"
| "allowed_phases PH_SUPERVISOR = [PH_EXECUTE, PH_COVERAGE_JUDGE, PH_SYNTHESIS, PH_FINALIZE]"
| "allowed_phases PH_EXECUTE = [PH_INGEST_FINDINGS]"
| "allowed_phases PH_INGEST_FINDINGS = [PH_COVERAGE_JUDGE]"
| "allowed_phases PH_COVERAGE_JUDGE = [PH_SUPERVISOR, PH_SYNTHESIS]"
| "allowed_phases PH_SYNTHESIS = [PH_QUALITY]"
| "allowed_phases PH_QUALITY = [PH_SYNTHESIS, PH_FINALIZE]"
| "allowed_phases PH_FINALIZE = [PH_TERMINATED]"
| "allowed_phases PH_TERMINATED = []"
| "allowed_phases PH_DIRECT = []"

definition transition_allowed :: "string \<Rightarrow> string \<Rightarrow> bool" where
  "transition_allowed current target =
     (case enum_parse phase_value phase_members target of
        None \<Rightarrow> False
      | Some t \<Rightarrow>
          (case enum_parse phase_value phase_members current of
             None \<Rightarrow> False
           | Some c \<Rightarrow> t \<in> set (allowed_phases c)))"

definition assert_transition :: "string \<Rightarrow> string \<Rightarrow> unit res" where
  "assert_transition current target =
     (if \<not> transition_allowed current target
      then Inl (InvalidTransition (''invalid workflow transition: '' @ current @ '' -> '' @ target))
      else Inr ())"

text \<open>
  The state argument is a phase, a string or a mapping; a phase is a string here, as
  \<open>WorkflowPhase\<close> is a \<open>StrEnum\<close>.
\<close>

definition transition_update :: "pyval \<Rightarrow> workflow_phase \<Rightarrow> pydict \<Rightarrow> pydict res" where
  "transition_update state target payload =
     ebind (case state of
              PStr s \<Rightarrow> Inr s
            | PDict d \<Rightarrow> Inr (str_or (pget d ''phase'') (phase_value PH_BOOTSTRAP))
            | _ \<Rightarrow> Inl (AttributeError ''get''))
       (\<lambda>current. ebind (assert_transition current (phase_value target))
         (\<lambda>_. Inr (dput ''phase'' (PStr (phase_value target)) payload)))"

lemma transition_allowed_value [simp]:
  "transition_allowed (phase_value c) (phase_value t) \<longleftrightarrow> t \<in> set (allowed_phases c)"
  by (simp add: transition_allowed_def phase_enum.parse_val)

lemma transition_allowed_iff:
  "transition_allowed c t \<longleftrightarrow>
     (\<exists>p q. c = phase_value p \<and> t = phase_value q \<and> q \<in> set (allowed_phases p))"
  by (auto simp: transition_allowed_def phase_enum.parse_Some phase_enum.parse_None
      split: option.splits dest!: phase_enum.val_inject)

lemma transition_update_phase:
  "transition_update (PStr (phase_value c)) t payload = Inr u \<Longrightarrow>
     t \<in> set (allowed_phases c) \<and> pget u ''phase'' = PStr (phase_value t)"
  by (auto simp: transition_update_def assert_transition_def ebind_eq_Inr split: if_splits)

text \<open>A run of the workflow: phases linked by accepted updates.\<close>

fun phase_path :: "workflow_phase list \<Rightarrow> bool" where
  "phase_path [] = True"
| "phase_path [p] = True"
| "phase_path (p # q # ps) =
     ((\<exists>u. transition_update (PStr (phase_value p)) q [] = Inr u) \<and> phase_path (q # ps))"

lemma transition_update_ok:
  "(\<exists>u. transition_update (PStr (phase_value p)) q payload = Inr u) \<longleftrightarrow> q \<in> set (allowed_phases p)"
  by (auto simp: transition_update_def assert_transition_def)

lemma phase_path_Cons [simp]:
  "phase_path (p # q # ps) \<longleftrightarrow> q \<in> set (allowed_phases p) \<and> phase_path (q # ps)"
  by (simp add: transition_update_ok)

declare phase_path.simps(3) [simp del]

lemma phase_path_append: "phase_path (ps @ qs) \<Longrightarrow> phase_path ps \<and> phase_path qs"
proof (induction ps rule: phase_path.induct)
  case (2 p)
  then show ?case by (cases qs) auto
qed auto

text \<open>Where a phase can have been entered from, read off the table.\<close>

lemma into_synthesis:
  "PH_SYNTHESIS \<in> set (allowed_phases p) \<Longrightarrow> p = PH_SUPERVISOR \<or> p = PH_COVERAGE_JUDGE \<or> p = PH_QUALITY"
  by (cases p) simp_all

lemma into_terminated: "PH_TERMINATED \<in> set (allowed_phases p) \<Longrightarrow> p = PH_FINALIZE"
  by (cases p) simp_all

lemma into_finalize: "PH_FINALIZE \<in> set (allowed_phases p) \<Longrightarrow> p = PH_SUPERVISOR \<or> p = PH_QUALITY"
  by (cases p) simp_all

text \<open>
  The shortest run from each phase to termination; \<open>DIRECT\<close> has none.
\<close>

fun phase_exit :: "workflow_phase \<Rightarrow> workflow_phase list" where
  "phase_exit PH_BOOTSTRAP = [PH_BRIEF, PH_SUPERVISOR, PH_FINALIZE, PH_TERMINATED]"
| "phase_exit PH_BRIEF = [PH_SUPERVISOR, PH_FINALIZE, PH_TERMINATED]"
| "phase_exit PH_SUPERVISOR = [PH_FINALIZE, PH_TERMINATED]"
| "phase_exit PH_DIRECT = []"
| "phase_exit PH_EXECUTE = [PH_INGEST_FINDINGS, PH_COVERAGE_JUDGE, PH_SUPERVISOR, PH_FINALIZE, PH_TERMINATED]"
| "phase_exit PH_INGEST_FINDINGS = [PH_COVERAGE_JUDGE, PH_SUPERVISOR, PH_FINALIZE, PH_TERMINATED]"
| "phase_exit PH_COVERAGE_JUDGE = [PH_SUPERVISOR, PH_FINALIZE, PH_TERMINATED]"
| "phase_exit PH_SYNTHESIS = [PH_QUALITY, PH_FINALIZE, PH_TERMINATED]"
| "phase_exit PH_QUALITY = [PH_FINALIZE, PH_TERMINATED]"
| "phase_exit PH_FINALIZE = [PH_TERMINATED]"
| "phase_exit PH_TERMINATED = []"

lemma phase_exit_path: "phase_path (p # phase_exit p)"
  by (cases p) simp_all

lemma phase_exit_last: "p \<noteq> PH_DIRECT \<Longrightarrow> last (p # phase_exit p) = PH_TERMINATED"
  by (cases p) simp_all

lemma direct_is_stuck: "phase_path (PH_DIRECT # qs) \<Longrightarrow> qs = []"
  by (cases qs) simp_all

text \<open>A run from a phase that may only be left towards another takes that step.\<close>

lemma forced_step:
  "phase_path (ps @ p # qs) \<Longrightarrow> allowed_phases p = [q] \<Longrightarrow> qs \<noteq> [] \<Longrightarrow> \<exists>rs. qs = q # rs \<and> phase_path (q # rs)"
  using phase_path_append [of ps "p # qs"] by (cases qs) auto

text \<open>
  In every run of accepted phase updates, an execution phase that is followed by
  synthesis, finalisation or termination is followed directly by ingestion and then by
  the coverage judgement: no worker result reaches delivery without being ingested and
  judged.
\<close>

theorem execute_is_ingested_and_judged:
  assumes "phase_path (ps @ PH_EXECUTE # qs)"
    and "PH_SYNTHESIS \<in> set qs \<or> PH_FINALIZE \<in> set qs \<or> PH_TERMINATED \<in> set qs"
  shows "\<exists>rs. qs = PH_INGEST_FINDINGS # PH_COVERAGE_JUDGE # rs"
proof -
  have "qs \<noteq> []" using assms(2) by auto
  then obtain rs where rs: "qs = PH_INGEST_FINDINGS # rs" "phase_path (PH_INGEST_FINDINGS # rs)"
    using forced_step [OF assms(1)] by auto
  then have "rs \<noteq> []" using assms(2) by auto
  then show ?thesis using rs forced_step [of "[]" PH_INGEST_FINDINGS rs] by auto
qed

theorem execute_is_ingested_and_judged_witness:
  "\<exists>rs. [PH_INGEST_FINDINGS, PH_COVERAGE_JUDGE, PH_SYNTHESIS] = PH_INGEST_FINDINGS # PH_COVERAGE_JUDGE # rs"
  by (rule execute_is_ingested_and_judged [of "[PH_BOOTSTRAP, PH_BRIEF, PH_SUPERVISOR]"]) simp_all

text \<open>
  From every phase but \<open>DIRECT\<close> some run of accepted updates reaches
  \<open>TERMINATED\<close>, every run that ends there passes \<open>FINALIZE\<close> just before, and no update
  leaves \<open>TERMINATED\<close> or \<open>DIRECT\<close>.
\<close>

theorem workflow_can_terminate:
  "(p \<noteq> PH_DIRECT \<longrightarrow> (\<exists>qs. phase_path (p # qs) \<and> last (p # qs) = PH_TERMINATED)) \<and>
   (\<forall>ps q. phase_path (ps @ [q, PH_TERMINATED]) \<longrightarrow> q = PH_FINALIZE) \<and>
   (\<forall>state target payload u. state \<in> {PStr ''terminated'', PStr ''direct''} \<longrightarrow>
      transition_update state target payload \<noteq> Inr u)"
proof (intro conjI allI impI)
  assume "p \<noteq> PH_DIRECT"
  then show "\<exists>qs. phase_path (p # qs) \<and> last (p # qs) = PH_TERMINATED"
    using phase_exit_path phase_exit_last by blast
next
  fix ps q
  assume "phase_path (ps @ [q, PH_TERMINATED])"
  then have "phase_path [q, PH_TERMINATED]" by (blast dest: phase_path_append)
  then show "q = PH_FINALIZE" by (simp add: into_terminated)
next
  fix state target payload u
  assume "state \<in> {PStr ''terminated'', PStr ''direct''}"
  then have "state = PStr (phase_value PH_TERMINATED) \<or> state = PStr (phase_value PH_DIRECT)" by simp
  then show "transition_update state target payload \<noteq> Inr u"
    by (auto dest!: transition_update_phase simp del: phase_value.simps)
qed

theorem workflow_can_terminate_witness:
  "(\<exists>qs. phase_path (PH_BOOTSTRAP # qs) \<and> last (PH_BOOTSTRAP # qs) = PH_TERMINATED) \<and>
   transition_update (PStr ''terminated'') PH_BRIEF [] \<noteq> Inr []"
  using workflow_can_terminate [of PH_BOOTSTRAP] by simp

end
