(* ===== verification/Failure.thy ===== *)
theory Failure
  imports Contracts
begin

text \<open>
  Failure classification (\<open>app/research/domain/failure.py\<close>) and the separation of
  execution failures from semantic ones (\<open>app/research/domain/research_budget.py\<close>).
\<close>

section \<open>Failure classes\<close>

datatype failure_class =
    FC_TRANSIENT | FC_RECOVERABLE | FC_SEMANTIC | FC_BUDGET | FC_POLICY | FC_CANCELLED
  | FC_PROGRAMMING

fun failure_class_value :: "failure_class \<Rightarrow> string" where
  "failure_class_value FC_TRANSIENT = ''transient''"
| "failure_class_value FC_RECOVERABLE = ''recoverable''"
| "failure_class_value FC_SEMANTIC = ''semantic''"
| "failure_class_value FC_BUDGET = ''budget''"
| "failure_class_value FC_POLICY = ''policy''"
| "failure_class_value FC_CANCELLED = ''cancelled''"
| "failure_class_value FC_PROGRAMMING = ''programming''"

definition failure_class_members :: "failure_class list" where
  "failure_class_members = [FC_TRANSIENT, FC_RECOVERABLE, FC_SEMANTIC, FC_BUDGET, FC_POLICY,
     FC_CANCELLED, FC_PROGRAMMING]"

interpretation failure_class_enum: str_enum failure_class_value failure_class_members
proof
  fix x y
  show "x \<in> set failure_class_members" by (cases x) (simp_all add: failure_class_members_def)
  show "failure_class_value x = failure_class_value y \<Longrightarrow> x = y" by (cases x; cases y) simp_all
qed

lemma failure_class_value_not_Nil [simp]: "failure_class_value c \<noteq> []"
  by (cases c) simp_all

record failure_info =
  fi_class :: failure_class
  fi_code :: string
  fi_message :: string
  fi_retryable :: bool
  fi_occurred_at :: string

definition make_failure_info ::
  "string \<Rightarrow> failure_class \<Rightarrow> string \<Rightarrow> bool \<Rightarrow> string \<Rightarrow> failure_info" where
  "make_failure_info code fclass message retryable occurred_at =
     \<lparr>fi_class = fclass, fi_code = code,
      fi_message = (if message \<noteq> [] then message else code),
      fi_retryable = (retryable \<and> fclass \<in> {FC_TRANSIENT, FC_RECOVERABLE}),
      fi_occurred_at = occurred_at\<rparr>"

text \<open>The dictionary a \<open>FailureInfo\<close> is at run time.\<close>

definition failure_to_dict :: "failure_info \<Rightarrow> pydict" where
  "failure_to_dict f =
     [(''failure_class'', PStr (failure_class_value (fi_class f))),
      (''code'', PStr (fi_code f)),
      (''message'', PStr (fi_message f)),
      (''retryable'', PBool (fi_retryable f)),
      (''occurred_at'', PStr (fi_occurred_at f))]"

definition classify_failure_msg :: "string \<Rightarrow> string \<Rightarrow> failure_info" where
  "classify_failure_msg code message =
     (let normalized = py_lower code in
      if normalized \<in> set [''timeout'', ''step_timeout'', ''429'', ''rate_limit'', ''provider_rate_limit'']
      then make_failure_info code FC_TRANSIENT message True []
      else if normalized \<in> set [''parser_failure'', ''invalid_json'', ''search_miss'', ''empty_result'',
          ''wrong_subagent'', ''provider_unavailable'', ''network_error'']
      then make_failure_info code FC_RECOVERABLE message True []
      else if normalized \<in> set [''coverage_gap'', ''evidence_conflict'', ''unsupported_claim'',
          ''quality_failed'', ''no_accepted_findings'', ''no_usable_evidence'']
      then make_failure_info code FC_SEMANTIC message False []
      else if normalized \<in> set [''run_token_cap'', ''research_phase_token_cap'', ''run_llm_call_cap'',
          ''tool_call_cap'', ''budget_exhausted'', ''deadline_exceeded'', ''synthesis_time_reserve'']
      then make_failure_info code FC_BUDGET message False []
      else if normalized \<in> set [''provider_policy'', ''provider_content_filter'', ''source_restricted'',
          ''safety_restriction'', ''step_rejected'']
      then make_failure_info code FC_POLICY message False []
      else if normalized \<in> set [''cancelled'', ''user_cancelled'', ''interrupted'']
      then make_failure_info code FC_CANCELLED message False []
      else if normalized \<in> set [''illegal_transition'', ''corrupt_state'', ''invalid_enum'', ''missing_session'']
      then make_failure_info code FC_PROGRAMMING message False []
      else make_failure_info code FC_RECOVERABLE message True [])"

abbreviation classify_failure :: "string \<Rightarrow> failure_info" where
  "classify_failure code \<equiv> classify_failure_msg code []"

definition failure_from_dict :: "pyval \<Rightarrow> failure_info res" where
  "failure_from_dict raw =
     (let value = as_dict raw;
          cls = str_or (pget value ''failure_class'') (failure_class_value FC_RECOVERABLE)
      in case enum_parse failure_class_value failure_class_members cls of
           None \<Rightarrow> Inl (ValueError (repr_str cls @ '' is not a valid FailureClass''))
         | Some fc \<Rightarrow>
             Inr (make_failure_info (str_or (pget value ''code'') ''unknown_failure'') fc
                    (str_or (pget value ''message'') []) (truthy (pget value ''retryable''))
                    (str_or (pget value ''occurred_at'') [])))"

lemma make_failure_info_sel [simp]:
  "fi_class (make_failure_info c k m r t) = k"
  "fi_code (make_failure_info c k m r t) = c"
  "fi_retryable (make_failure_info c k m r t) = (r \<and> k \<in> {FC_TRANSIENT, FC_RECOVERABLE})"
  "fi_message (make_failure_info c k m r t) = (if m \<noteq> [] then m else c)"
  "fi_occurred_at (make_failure_info c k m r t) = t"
  by (simp_all add: make_failure_info_def)

lemma classify_failure_code [simp]: "fi_code (classify_failure_msg c m) = c"
  by (simp add: classify_failure_msg_def Let_def)

lemma classify_failure_occurred_at [simp]: "fi_occurred_at (classify_failure_msg c m) = []"
  by (simp add: classify_failure_msg_def Let_def)

lemma classify_failure_message [simp]:
  "fi_message (classify_failure_msg c m) = (if m \<noteq> [] then m else c)"
  by (simp add: classify_failure_msg_def Let_def)

lemma classify_retryable_iff:
  "fi_retryable (classify_failure_msg c m) \<longleftrightarrow> fi_class (classify_failure_msg c m) \<in> {FC_TRANSIENT, FC_RECOVERABLE}"
  by (simp add: classify_failure_msg_def Let_def)

text \<open>Records that came from \<open>failure_info\<close>: retryable only where the class permits, a message.\<close>

definition wf_failure :: "failure_info \<Rightarrow> bool" where
  "wf_failure f \<longleftrightarrow> (fi_retryable f \<longrightarrow> fi_class f \<in> {FC_TRANSIENT, FC_RECOVERABLE}) \<and>
     fi_code f \<noteq> [] \<and> fi_message f \<noteq> []"

lemma wf_classify: "c \<noteq> [] \<Longrightarrow> wf_failure (classify_failure_msg c m)"
  using classify_retryable_iff [of c m] by (simp add: wf_failure_def)

lemma failure_roundtrip: "wf_failure f \<Longrightarrow> failure_from_dict (PDict (failure_to_dict f)) = Inr f"
  by (cases f) (auto simp: failure_from_dict_def failure_to_dict_def wf_failure_def
      failure_class_enum.parse_val make_failure_info_def Let_def)

lemma failure_to_dict_simps [simp]:
  "pget (failure_to_dict f) ''code'' = PStr (fi_code f)"
  "pget (failure_to_dict f) ''failure_class'' = PStr (failure_class_value (fi_class f))"
  "pget (failure_to_dict f) ''retryable'' = PBool (fi_retryable f)"
  "failure_to_dict f \<noteq> []"
  by (simp_all add: failure_to_dict_def)

section \<open>Execution failures and semantic failures\<close>

definition execution_failure_classes :: "string list" where
  "execution_failure_classes = [''transient'', ''recoverable'']"

definition execution_failure_codes :: "string list" where
  "execution_failure_codes =
     [''worker_timeout'', ''timeout'', ''step_timeout'', ''synthesis_timeout'',
      ''provider_empty_content'', ''provider_unavailable'', ''provider_rate_limit'', ''rate_limit'',
      ''network_error'', ''invalid_json'', ''parser_failure'', ''worker_llm_call_cap'',
      ''worker_token_cap'', ''finalization_mode_budget_limit'']"

definition semantic_failure_codes :: "string list" where
  "semantic_failure_codes =
     [''coverage_gap'', ''evidence_conflict'', ''unsupported_claim'', ''no_usable_evidence'',
      ''no_accepted_findings'', ''search_empty'', ''search_miss'']"

definition is_execution_failure :: "pyval \<Rightarrow> bool" where
  "is_execution_failure failure =
     (let row = as_dict failure;
          code = py_lower (py_strip (str_or (pget row ''code'') []))
      in if code \<in> set semantic_failure_codes then False
         else if code \<in> set execution_failure_codes then True
         else let fclass = py_lower (py_strip (str_or (pget row ''failure_class'') [])) in
              if fclass = failure_class_value FC_SEMANTIC then False
              else if fclass \<in> set execution_failure_classes
              then truthy (pget_or row ''retryable'' (PBool True))
              else False)"

text \<open>\<open>state["tasks"]\<close> where it is a dictionary, the empty one otherwise.\<close>

definition state_tasks :: "pydict \<Rightarrow> pydict" where
  "state_tasks state = as_dict (pget state ''tasks'')"

definition failed_or_stopped :: "pydict \<Rightarrow> bool" where
  "failed_or_stopped task =
     (str_or (pget task ''execution_status'') [] \<in> {''failed'', ''stopped''})"

definition execution_failed_task_ids :: "pydict \<Rightarrow> string list" where
  "execution_failed_task_ids state =
     [fst kv. kv \<leftarrow> state_tasks state,
        is_dict (snd kv) \<and> failed_or_stopped (as_dict (snd kv)) \<and>
        is_execution_failure (pget (as_dict (snd kv)) ''failure'')]"

definition worker_failures_by_type :: "pydict \<Rightarrow> int dict" where
  "worker_failures_by_type state =
     fold (\<lambda>kv counts.
         if \<not> is_dict (snd kv) then counts
         else let task = as_dict (snd kv) in
              if \<not> failed_or_stopped task then counts
              else let failure = as_dict (pget task ''failure'');
                       code = py_lower (str_or (por (pget failure ''code'') (pget task ''stop_reason'')) ''unknown'')
                   in dput code ((case dget counts code of None \<Rightarrow> 0 | Some n \<Rightarrow> n) + 1) counts)
       (state_tasks state) []"

text \<open>
  The conjuncts are evaluated in order: \<open>.get\<close> on a failure that is no dictionary, or an
  attempt that is no number, raises.
\<close>

definition is_execution_recovery_pass :: "pydict \<Rightarrow> int \<Rightarrow> bool res" where
  "is_execution_recovery_pass state max_attempts =
     ebind (emap (\<lambda>kv.
         if \<not> is_dict (snd kv) then Inr False
         else let task = as_dict (snd kv) in
              if str_or (pget task ''execution_status'') [] \<noteq> ''failed'' then Inr False
              else ebind (attr_get (por (pget task ''failure'') (PDict [])) ''retryable'')
                (\<lambda>r. if \<not> truthy r then Inr False
                     else if \<not> is_execution_failure (pget task ''failure'') then Inr False
                     else ebind (int_or (pget task ''attempt'') 0) (\<lambda>n. Inr (n < max_attempts))))
         (state_tasks state))
       (\<lambda>bs. Inr (True \<in> set bs))"

text \<open>
  The two code tables do not overlap, and the classifier agrees with them: a code listed as
  semantic is never an execution failure, even where the classifier calls it recoverable.
\<close>

lemma semantic_code_not_execution:
  "py_lower (py_strip (str_or (pget d ''code'') [])) \<in> set semantic_failure_codes \<Longrightarrow>
     \<not> is_execution_failure (PDict d)"
  by (simp add: is_execution_failure_def)

lemma failure_codes_disjoint: "set execution_failure_codes \<inter> set semantic_failure_codes = {}"
  by (simp add: execution_failure_codes_def semantic_failure_codes_def)

lemma not_execution_failure_cases:
  "is_execution_failure v \<Longrightarrow> \<exists>d. v = PDict d"
  by (cases v) (simp_all add: is_execution_failure_def semantic_failure_codes_def
      execution_failure_codes_def execution_failure_classes_def py_strip_def py_lower_def)

text \<open>Every task the recovery pass counts is one the execution failure list names.\<close>

lemma execution_failed_task_ids_iff:
  "t \<in> set (execution_failed_task_ids state) \<longleftrightarrow>
     (\<exists>d. (t, PDict d) \<in> set (state_tasks state) \<and> failed_or_stopped d \<and>
          is_execution_failure (pget d ''failure''))"
  by (force simp: execution_failed_task_ids_def is_dict_iff)

end
