(* ===== verification/TaskState.thy ===== *)
theory TaskState
  imports Failure
begin

text \<open>
  Task execution state (\<open>app/research/domain/task_state.py\<close>): the statuses, the
  normalisation of untyped rows, the guarded transitions, retry and supersession, the
  classification of worker results and the readiness of a step.
\<close>

section \<open>Statuses and the task row\<close>

datatype exec_status = ES_PENDING | ES_RUNNING | ES_SUCCEEDED | ES_FAILED | ES_STOPPED | ES_SKIPPED | ES_SUPERSEDED

fun exec_status_value :: "exec_status \<Rightarrow> string" where
  "exec_status_value ES_PENDING = ''pending''"
| "exec_status_value ES_RUNNING = ''running''"
| "exec_status_value ES_SUCCEEDED = ''succeeded''"
| "exec_status_value ES_FAILED = ''failed''"
| "exec_status_value ES_STOPPED = ''stopped''"
| "exec_status_value ES_SKIPPED = ''skipped''"
| "exec_status_value ES_SUPERSEDED = ''superseded''"

definition exec_status_members :: "exec_status list" where
  "exec_status_members = [ES_PENDING, ES_RUNNING, ES_SUCCEEDED, ES_FAILED, ES_STOPPED, ES_SKIPPED, ES_SUPERSEDED]"

datatype result_status = RS_NONE | RS_PARTIAL | RS_COMPLETE

fun result_status_value :: "result_status \<Rightarrow> string" where
  "result_status_value RS_NONE = ''none''"
| "result_status_value RS_PARTIAL = ''partial''"
| "result_status_value RS_COMPLETE = ''complete''"

definition result_status_members :: "result_status list" where
  "result_status_members = [RS_NONE, RS_PARTIAL, RS_COMPLETE]"

datatype readiness = RUNNABLE | WAITING_DEPENDENCY | WAITING_RESOURCE | BLOCKED_DEPENDENCY_FAILED

fun readiness_value :: "readiness \<Rightarrow> string" where
  "readiness_value RUNNABLE = ''runnable''"
| "readiness_value WAITING_DEPENDENCY = ''waiting_dependency''"
| "readiness_value WAITING_RESOURCE = ''waiting_resource''"
| "readiness_value BLOCKED_DEPENDENCY_FAILED = ''blocked_dependency_failed''"

interpretation exec_status_enum: str_enum exec_status_value exec_status_members
proof
  fix x y
  show "x \<in> set exec_status_members" by (cases x) (simp_all add: exec_status_members_def)
  show "exec_status_value x = exec_status_value y \<Longrightarrow> x = y" by (cases x; cases y) simp_all
qed

interpretation result_status_enum: str_enum result_status_value result_status_members
proof
  fix x y
  show "x \<in> set result_status_members" by (cases x) (simp_all add: result_status_members_def)
  show "result_status_value x = result_status_value y \<Longrightarrow> x = y" by (cases x; cases y) simp_all
qed

lemma exec_status_value_not_Nil [simp]: "exec_status_value s \<noteq> []"
  by (cases s) simp_all

lemma exec_status_value_not_cancelled [simp]: "exec_status_value s \<noteq> ''cancelled''"
  by (cases s) simp_all

lemma result_status_value_not_Nil [simp]: "result_status_value s \<noteq> []"
  by (cases s) simp_all

lemma exec_status_value_eq [simp]: "exec_status_value s = exec_status_value t \<longleftrightarrow> s = t"
  using exec_status_enum.val_inject by blast

record task_state =
  ts_task_id :: string
  execution_status :: exec_status
  ts_result_status :: result_status
  attempt :: int
  ts_started_at :: string
  ts_ended_at :: string
  failure :: pydict
  ts_stop_reason :: string
  skip_reason :: string
  evidence_refs :: "string list"
  artifact_refs :: "string list"

definition new_task_state :: "string \<Rightarrow> task_state" where
  "new_task_state task_id =
     \<lparr>ts_task_id = task_id, execution_status = ES_PENDING, ts_result_status = RS_NONE, attempt = 0,
      ts_started_at = [], ts_ended_at = [], failure = [],
      ts_stop_reason = stop_reason_value SR_NONE, skip_reason = [],
      evidence_refs = [], artifact_refs = []\<rparr>"

text \<open>The dictionary a \<open>TaskExecutionState\<close> is at run time, and a dictionary of them.\<close>

definition task_to_py :: "task_state \<Rightarrow> pyval" where
  "task_to_py t = PDict
     [(''task_id'', PStr (ts_task_id t)),
      (''execution_status'', PStr (exec_status_value (execution_status t))),
      (''result_status'', PStr (result_status_value (ts_result_status t))),
      (''attempt'', PInt (attempt t)),
      (''started_at'', PStr (ts_started_at t)),
      (''ended_at'', PStr (ts_ended_at t)),
      (''failure'', PDict (failure t)),
      (''stop_reason'', PStr (ts_stop_reason t)),
      (''skip_reason'', PStr (skip_reason t)),
      (''evidence_refs'', PList (map PStr (evidence_refs t))),
      (''artifact_refs'', PList (map PStr (artifact_refs t)))]"

definition tasks_to_py :: "task_state dict \<Rightarrow> pyval" where
  "tasks_to_py ts = PDict (map (\<lambda>(k, t). (k, task_to_py t)) ts)"

section \<open>Normalisation\<close>

definition normalize_task_state :: "pyval \<Rightarrow> string \<Rightarrow> task_state res" where
  "normalize_task_state raw task_id =
     (let value = as_dict raw;
          es0 = str_or (pget value ''execution_status'') (exec_status_value ES_PENDING);
          es = (if es0 = ''cancelled'' then exec_status_value ES_STOPPED else es0);
          rs = str_or (pget value ''result_status'') (result_status_value RS_NONE)
      in case enum_parse exec_status_value exec_status_members es of
           None \<Rightarrow> Inl (ValueError (''invalid task execution status: '' @ es))
         | Some e \<Rightarrow>
        (case enum_parse result_status_value result_status_members rs of
           None \<Rightarrow> Inl (ValueError (''invalid task result status: '' @ rs))
         | Some r \<Rightarrow>
        ebind (int_or (pget value ''attempt'') 0) (\<lambda>n.
        ebind (str_list (pget value ''evidence_refs'')) (\<lambda>evs.
        ebind (str_list (pget value ''artifact_refs'')) (\<lambda>arts. Inr
          \<lparr>ts_task_id = str_or (pget value ''task_id'') task_id,
           execution_status = e, ts_result_status = r, attempt = max 0 n,
           ts_started_at = str_or (pget value ''started_at'') [],
           ts_ended_at = str_or (pget value ''ended_at'') [],
           failure = as_dict (pget value ''failure''),
           ts_stop_reason = str_or (pget value ''stop_reason'')
             (if e = ES_STOPPED then stop_reason_value SR_CANCELLED else stop_reason_value SR_NONE),
           skip_reason = str_or (pget value ''skip_reason'') [],
           evidence_refs = evs, artifact_refs = arts\<rparr>)))))"

definition normalize_tasks :: "pyval \<Rightarrow> task_state dict res" where
  "normalize_tasks raw =
     (case raw of
        PDict d \<Rightarrow> emap (\<lambda>(k, v). ebind (normalize_task_state v k) (\<lambda>t. Inr (k, t))) d
      | _ \<Rightarrow> Inr [])"

definition task_execution_projection :: "pyval \<Rightarrow> string dict res" where
  "task_execution_projection tasks =
     ebind (normalize_tasks tasks)
       (\<lambda>ts. Inr (map (\<lambda>(k, t). (k, exec_status_value (execution_status t))) ts))"

text \<open>What normalisation guarantees of a row stored under a key.\<close>

definition wf_task :: "string \<Rightarrow> task_state \<Rightarrow> bool" where
  "wf_task k t \<longleftrightarrow> 0 \<le> attempt t \<and> ts_stop_reason t \<noteq> [] \<and> (ts_task_id t = [] \<longrightarrow> k = [])"

definition wf_tasks :: "task_state dict \<Rightarrow> bool" where
  "wf_tasks ts \<longleftrightarrow> (\<forall>(k, t) \<in> set ts. wf_task k t)"

lemma stop_reason_value_not_Nil [simp]: "stop_reason_value r \<noteq> []"
  by (cases r) simp_all

lemma normalize_task_state_wf: "normalize_task_state raw k = Inr t \<Longrightarrow> wf_task k t"
  by (auto simp: normalize_task_state_def wf_task_def ebind_eq_Inr Let_def str_or_eq_Nil
      split: option.splits if_splits)

lemma normalize_task_to_py: "wf_task k t \<Longrightarrow> normalize_task_state (task_to_py t) k = Inr t"
  by (cases t)
     (auto simp: normalize_task_state_def task_to_py_def wf_task_def Let_def
        exec_status_enum.parse_val result_status_enum.parse_val)

lemma normalize_tasks_to_py: "wf_tasks ts \<Longrightarrow> normalize_tasks (tasks_to_py ts) = Inr ts"
  by (induction ts) (auto simp: normalize_tasks_def tasks_to_py_def wf_tasks_def normalize_task_to_py)

lemma normalize_rows_wf:
  "emap (\<lambda>(k, v). ebind (normalize_task_state v k) (\<lambda>t. Inr (k, t))) d = Inr ts \<Longrightarrow>
     wf_tasks ts \<and> dkeys ts = dkeys d"
proof (induction d arbitrary: ts)
  case Nil
  then show ?case by (simp add: wf_tasks_def)
next
  case (Cons kv d)
  then show ?case
    by (cases kv) (auto simp: ebind_eq_Inr wf_tasks_def dest!: normalize_task_state_wf)
qed

lemma normalize_tasks_wf: "normalize_tasks raw = Inr ts \<Longrightarrow> wf_tasks ts"
  using normalize_rows_wf by (fastforce simp: normalize_tasks_def wf_tasks_def split: pyval.splits)

text \<open>
  Normalising a table of task rows is idempotent: the rows it returns, written back as
  dictionaries, normalise to themselves, whatever untyped value the first pass was given.
\<close>

theorem normalize_tasks_idempotent:
  "normalize_tasks raw = Inr ts \<Longrightarrow> normalize_tasks (tasks_to_py ts) = Inr ts"
  by (rule normalize_tasks_to_py [OF normalize_tasks_wf])

theorem normalize_tasks_idempotent_witness:
  "normalize_tasks (tasks_to_py [(''t1'', (new_task_state ''t1'')
       \<lparr>execution_status := ES_STOPPED, ts_stop_reason := ''cancelled'', evidence_refs := [''7'']\<rparr>)]) =
     Inr [(''t1'', (new_task_state ''t1'')
       \<lparr>execution_status := ES_STOPPED, ts_stop_reason := ''cancelled'', evidence_refs := [''7'']\<rparr>)]"
  by (rule normalize_tasks_idempotent
        [of "PDict [(''t1'', PDict [(''execution_status'', PStr ''cancelled''),
                (''attempt'', PInt (-3)), (''evidence_refs'', PList [PInt 7])])]"]) code_simp

end
