(* ===== verification/TaskLifecycle.thy ===== *)
theory TaskLifecycle
  imports TaskState
begin

text \<open>
  The operations of \<open>app/research/domain/task_state.py\<close> on task tables: guarded
  transition, retry, supersession, readiness, and the two classifications of a finished
  worker.  \<open>status_step\<close> is the state machine they implement.
\<close>

section \<open>Transition\<close>

text \<open>
  The keyword arguments of \<open>transition_task\<close>; \<open>None\<close> and an empty dictionary or list are
  both falsy in the source and are one value here.
\<close>

record transition_args =
  tr_execution_status :: exec_status
  tr_result_status :: "result_status option"
  tr_attempt :: "int option"
  tr_failure :: pydict
  tr_stop_reason :: string
  tr_skip_reason :: string
  tr_evidence_refs :: "string list"
  tr_artifact_refs :: "string list"
  tr_timestamp :: string

definition to_status :: "exec_status \<Rightarrow> transition_args" where
  "to_status es =
     \<lparr>tr_execution_status = es, tr_result_status = None, tr_attempt = None, tr_failure = [],
      tr_stop_reason = [], tr_skip_reason = [], tr_evidence_refs = [], tr_artifact_refs = [],
      tr_timestamp = []\<rparr>"

definition guard_transition :: "exec_status \<Rightarrow> exec_status \<Rightarrow> unit res" where
  "guard_transition previous target =
     (if previous \<notin> {ES_PENDING, ES_RUNNING, ES_FAILED}
      then Inl (ValueError (''illegal transition from '' @ exec_status_value previous @ '' to '' @ exec_status_value target))
      else if previous = ES_FAILED \<and> target \<noteq> ES_RUNNING
      then Inl (ValueError ''failed tasks may only be retried by starting a new execution'')
      else if previous = ES_STOPPED \<and> target \<noteq> ES_STOPPED
      then Inl (ValueError ''stopped tasks cannot automatically become failed'')
      else if previous = ES_PENDING \<and> target \<notin> {ES_RUNNING, ES_SKIPPED, ES_STOPPED}
      then Inl (ValueError ''pending tasks must start, skip, or cancel before terminal execution'')
      else if previous = ES_RUNNING \<and> target \<notin> {ES_SUCCEEDED, ES_FAILED, ES_STOPPED}
      then Inl (ValueError ''running tasks must finish, fail, or stop'')
      else Inr ())"

definition resolve_result :: "transition_args \<Rightarrow> result_status" where
  "resolve_result a =
     (case tr_result_status a of
        Some r \<Rightarrow> r
      | None \<Rightarrow>
          if tr_execution_status a = ES_SUCCEEDED then RS_COMPLETE
          else if tr_failure a \<noteq> [] \<or> tr_evidence_refs a \<noteq> [] \<or> tr_artifact_refs a \<noteq> [] \<or>
                  tr_execution_status a = ES_STOPPED
          then RS_PARTIAL else RS_NONE)"

definition first_of :: "string \<Rightarrow> string \<Rightarrow> string" where
  "first_of a b = (if a \<noteq> [] then a else b)"

definition apply_transition :: "transition_args \<Rightarrow> task_state \<Rightarrow> task_state" where
  "apply_transition a current =
     (let es = tr_execution_status a;
          updated = current\<lparr>
            execution_status := es,
            ts_result_status := resolve_result a,
            attempt := (case tr_attempt a of None \<Rightarrow> attempt current + 1 | Some n \<Rightarrow> n),
            failure := (if tr_failure a \<noteq> [] then tr_failure a
                        else if es \<noteq> ES_FAILED then [] else failure current),
            ts_stop_reason := first_of (tr_stop_reason a) (first_of (tr_skip_reason a)
              (first_of (ts_stop_reason current) (stop_reason_value SR_NONE))),
            skip_reason := first_of (tr_skip_reason a) (skip_reason current),
            evidence_refs := fromkeys (evidence_refs current @ tr_evidence_refs a),
            artifact_refs := fromkeys (artifact_refs current @ tr_artifact_refs a)\<rparr>
      in if es = ES_RUNNING
         then updated\<lparr>ts_started_at := first_of (ts_started_at updated) (tr_timestamp a), ts_ended_at := []\<rparr>
         else if es \<noteq> ES_PENDING
         then updated\<lparr>ts_ended_at := first_of (ts_ended_at updated) (tr_timestamp a)\<rparr>
         else updated)"

definition current_task :: "task_state dict \<Rightarrow> string \<Rightarrow> task_state" where
  "current_task ts task_id = (case dget ts task_id of None \<Rightarrow> new_task_state task_id | Some t \<Rightarrow> t)"

definition transition_task :: "pyval \<Rightarrow> string \<Rightarrow> transition_args \<Rightarrow> task_state dict res" where
  "transition_task tasks task_id a =
     ebind (normalize_tasks tasks) (\<lambda>normalized.
       let current = current_task normalized task_id in
       ebind (guard_transition (execution_status current) (tr_execution_status a)) (\<lambda>_.
         Inr (dput task_id (apply_transition a current) normalized)))"

section \<open>Retry and supersession\<close>

definition retry_task :: "pyval \<Rightarrow> string \<Rightarrow> task_state dict res" where
  "retry_task tasks task_id =
     ebind (normalize_tasks tasks) (\<lambda>normalized.
       case dget normalized task_id of
         None \<Rightarrow> Inl (ValueError (''cannot retry unknown task: '' @ task_id))
       | Some current \<Rightarrow>
           if execution_status current \<noteq> ES_FAILED
           then Inl (ValueError (''cannot retry task in '' @ exec_status_value (execution_status current)))
           else if \<not> truthy (pget (failure current) ''retryable'')
           then Inl (ValueError (''task is not retryable: '' @ task_id))
           else Inr (dput task_id
                  (current\<lparr>execution_status := ES_PENDING, ts_ended_at := [], skip_reason := []\<rparr>) normalized))"

definition supersede_task :: "pyval \<Rightarrow> string \<Rightarrow> string \<Rightarrow> task_state dict res" where
  "supersede_task tasks task_id replacement_task_id =
     ebind (normalize_tasks tasks) (\<lambda>normalized.
       case dget normalized task_id of
         None \<Rightarrow> Inl (ValueError (''cannot supersede unknown task: '' @ task_id))
       | Some current \<Rightarrow>
           Inr (dput task_id
             (current\<lparr>execution_status := ES_SUPERSEDED,
                      skip_reason := ''superseded_by:'' @ replacement_task_id\<rparr>) normalized))"

section \<open>Readiness\<close>

text \<open>The loop over the dependencies: the first one that decides ends it.\<close>

fun dependency_block :: "task_state dict \<Rightarrow> string list \<Rightarrow> readiness option" where
  "dependency_block ts [] = None"
| "dependency_block ts (d # ds) =
     (case dget ts d of
        None \<Rightarrow> Some WAITING_DEPENDENCY
      | Some dep \<Rightarrow>
          if execution_status dep \<in> {ES_PENDING, ES_RUNNING} then Some WAITING_DEPENDENCY
          else if execution_status dep = ES_FAILED \<and> ts_result_status dep \<noteq> RS_PARTIAL
          then Some BLOCKED_DEPENDENCY_FAILED
          else dependency_block ts ds)"

text \<open>\<open>step.task_id\<close> and \<open>step.depends_on\<close> are all the source reads of the step.\<close>

definition task_readiness :: "string \<Rightarrow> string list \<Rightarrow> pyval \<Rightarrow> bool \<Rightarrow> readiness res" where
  "task_readiness task_id depends_on tasks resource_available =
     ebind (normalize_tasks tasks) (\<lambda>normalized. Inr
       (case dget normalized task_id of
          None \<Rightarrow> WAITING_DEPENDENCY
        | Some state \<Rightarrow>
            if execution_status state \<noteq> ES_PENDING then WAITING_RESOURCE
            else (case dependency_block normalized depends_on of
                    Some r \<Rightarrow> r
                  | None \<Rightarrow> if \<not> resource_available then WAITING_RESOURCE else RUNNABLE)))"

section \<open>Classification of finished workers\<close>

record worker_lifecycle =
  wlc_execution_status :: exec_status
  wlc_result_status :: result_status
  wlc_stop_reason :: stop_reason
  wlc_fail_reason :: string
  wlc_failure :: pydict

text \<open>The stop reason read off a failure reason, shared by both branches without success.\<close>

definition stop_reason_of_failure :: "string \<Rightarrow> stop_reason option" where
  "stop_reason_of_failure fail_reason =
     (let lowered = py_lower fail_reason in
      if is_infix ''timeout'' lowered then Some SR_TIMEOUT
      else if is_infix ''budget'' lowered \<or> is_infix ''token_cap'' lowered \<or> is_infix ''deadline'' lowered
      then Some SR_BUDGET
      else None)"

definition classify_worker_completion ::
  "bool \<Rightarrow> int \<Rightarrow> int \<Rightarrow> string \<Rightarrow> worker_lifecycle res" where
  "classify_worker_completion structured_valid accepted_findings evidence_count terminal_reason =
     (let terminal = py_strip terminal_reason;
          has_evidence = evidence_count > 0;
          has_accepted_findings = accepted_findings > 0;
          normal_stop = (terminal \<in> {[], ''local_evidence_sufficient'', ''no_more_useful_evidence''})
      in if has_evidence \<and> has_accepted_findings \<and> structured_valid \<and> normal_stop
         then ebind (if terminal \<noteq> [] then parse_stop_reason terminal else Inr SR_NONE)
           (\<lambda>sr. Inr \<lparr>wlc_execution_status = ES_SUCCEEDED, wlc_result_status = RS_COMPLETE,
                       wlc_stop_reason = sr, wlc_fail_reason = [], wlc_failure = []\<rparr>)
         else if has_evidence
         then let fail_reason = first_of terminal ''partial_worker_result'' in
           Inr \<lparr>wlc_execution_status = ES_STOPPED, wlc_result_status = RS_PARTIAL,
                wlc_stop_reason = (case stop_reason_of_failure fail_reason of
                    Some sr \<Rightarrow> sr
                  | None \<Rightarrow> if terminal = ''search_empty'' then SR_NO_MORE_USEFUL_EVIDENCE else SR_NONE),
                wlc_fail_reason = fail_reason,
                wlc_failure = failure_to_dict (classify_failure fail_reason)\<rparr>
         else let fail_reason = first_of terminal ''no_usable_evidence'' in
           Inr \<lparr>wlc_execution_status = ES_FAILED, wlc_result_status = RS_NONE,
                wlc_stop_reason = (case stop_reason_of_failure fail_reason of Some sr \<Rightarrow> sr | None \<Rightarrow> SR_NONE),
                wlc_fail_reason = fail_reason,
                wlc_failure = failure_to_dict (classify_failure fail_reason)\<rparr>)"

text \<open>The attributes \<open>worker_result_lifecycle\<close> reads of an executor result.\<close>

record worker_outcome =
  wo_ok :: bool
  wo_status :: string
  wo_fail_reason :: string
  wo_evidence_refs :: "string list"
  wo_findings :: "pyval list"
  wo_metrics :: pydict

definition worker_result_lifecycle ::
  "worker_outcome \<Rightarrow> exec_status \<times> result_status \<times> stop_reason \<times> pydict" where
  "worker_result_lifecycle result =
     (let status = py_lower (wo_status result);
          fail_reason = first_of (first_of (wo_fail_reason result) status) ''unknown_failure'';
          has_partial_result = (wo_evidence_refs result \<noteq> [] \<or> wo_findings result \<noteq> []);
          failure = failure_to_dict (classify_failure fail_reason);
          lowered = py_lower fail_reason
      in if wo_ok result
         then let semantic_stop = py_lower (str_or (pget (wo_metrics result) ''stop_reason'') []) in
           (ES_SUCCEEDED, RS_COMPLETE,
            (if semantic_stop \<noteq> []
             then (case enum_parse stop_reason_value stop_reason_members semantic_stop of
                     Some sr \<Rightarrow> sr | None \<Rightarrow> SR_NONE)
             else SR_NONE), [])
         else if status = ''skipped'' then (ES_SKIPPED, RS_NONE, SR_NONE, [])
         else if is_infix ''timeout'' lowered
         then (if has_partial_result then (ES_STOPPED, RS_PARTIAL, SR_TIMEOUT, failure)
               else (ES_FAILED, RS_NONE, SR_TIMEOUT, failure))
         else if is_infix ''budget'' lowered \<or> is_infix ''token_cap'' lowered \<or> is_infix ''deadline'' lowered
         then (if has_partial_result then (ES_STOPPED, RS_PARTIAL, SR_BUDGET, failure)
               else (ES_FAILED, RS_NONE, SR_BUDGET, failure))
         else if status = ''blocked'' \<and> \<not> has_partial_result
         then (ES_FAILED, RS_NONE, SR_BUDGET, failure)
         else if status = ''blocked'' \<or> is_infix ''policy'' lowered \<or> is_infix ''resource'' lowered \<or>
                 is_infix ''source_restricted'' lowered
         then (ES_STOPPED, (if has_partial_result then RS_PARTIAL else RS_NONE), SR_POLICY, failure)
         else (ES_FAILED, (if has_partial_result then RS_PARTIAL else RS_NONE), SR_NONE, failure))"

section \<open>The state machine\<close>

inductive status_step :: "exec_status \<Rightarrow> exec_status \<Rightarrow> bool" where
  start: "status_step ES_PENDING ES_RUNNING"
| skip: "status_step ES_PENDING ES_SKIPPED"
| cancel: "status_step ES_PENDING ES_STOPPED"
| finish: "status_step ES_RUNNING ES_SUCCEEDED"
| fail: "status_step ES_RUNNING ES_FAILED"
| halt: "status_step ES_RUNNING ES_STOPPED"
| restart: "status_step ES_FAILED ES_RUNNING"

inductive_simps from_pending: "status_step ES_PENDING t"
inductive_simps from_running: "status_step ES_RUNNING t"
inductive_simps from_failed: "status_step ES_FAILED t"
inductive_cases from_succeeded: "status_step ES_SUCCEEDED t"
inductive_cases from_stopped: "status_step ES_STOPPED t"
inductive_cases from_skipped: "status_step ES_SKIPPED t"
inductive_cases from_superseded: "status_step ES_SUPERSEDED t"

lemmas status_step_from = from_pending from_running from_failed
lemmas status_step_settled = from_succeeded from_stopped from_skipped from_superseded

lemma guard_transition_iff: "guard_transition p t = Inr () \<longleftrightarrow> status_step p t"
  by (cases p) (auto simp: guard_transition_def status_step_from elim: status_step_settled)

lemma guard_transition_error: "\<not> status_step p t \<Longrightarrow> \<exists>m. guard_transition p t = Inl (ValueError m)"
  by (cases p) (auto simp: guard_transition_def status_step_from)

lemma apply_transition_sel [simp]:
  "execution_status (apply_transition a t) = tr_execution_status a"
  "evidence_refs (apply_transition a t) = fromkeys (evidence_refs t @ tr_evidence_refs a)"
  "artifact_refs (apply_transition a t) = fromkeys (artifact_refs t @ tr_artifact_refs a)"
  "attempt (apply_transition a t) = (case tr_attempt a of None \<Rightarrow> attempt t + 1 | Some n \<Rightarrow> n)"
  "ts_task_id (apply_transition a t) = ts_task_id t"
  "ts_result_status (apply_transition a t) = resolve_result a"
  by (auto simp: apply_transition_def Let_def)

lemma apply_transition_stop_reason: "ts_stop_reason (apply_transition a t) \<noteq> []"
  by (auto simp: apply_transition_def Let_def first_of_def)

lemma transition_task_eq:
  assumes "wf_tasks ts"
  shows "transition_task (tasks_to_py ts) k a =
    ebind (guard_transition (execution_status (current_task ts k)) (tr_execution_status a))
      (\<lambda>_. Inr (dput k (apply_transition a (current_task ts k)) ts))"
  using assms by (simp add: transition_task_def normalize_tasks_to_py Let_def)

section \<open>Runs of operations\<close>

datatype task_op = Transition string transition_args | Retry string | Supersede string string

fun apply_op :: "task_op \<Rightarrow> pyval \<Rightarrow> task_state dict res" where
  "apply_op (Transition k a) tasks = transition_task tasks k a"
| "apply_op (Retry k) tasks = retry_task tasks k"
| "apply_op (Supersede k r) tasks = supersede_task tasks k r"

fun run_ops :: "task_op list \<Rightarrow> task_state dict \<Rightarrow> task_state dict res" where
  "run_ops [] ts = Inr ts"
| "run_ops (op # ops) ts = ebind (apply_op op (tasks_to_py ts)) (run_ops ops)"

fun op_key :: "task_op \<Rightarrow> string" where
  "op_key (Transition k a) = k"
| "op_key (Retry k) = k"
| "op_key (Supersede k r) = k"

fun valid_op :: "task_op \<Rightarrow> bool" where
  "valid_op (Transition k a) = (case tr_attempt a of None \<Rightarrow> True | Some n \<Rightarrow> 0 \<le> n)"
| "valid_op _ = True"

lemma wf_tasks_dput: "wf_tasks ts \<Longrightarrow> wf_task k t \<Longrightarrow> wf_tasks (dput k t ts)"
  by (induction ts) (auto simp: wf_tasks_def)

lemma wf_tasks_dget: "wf_tasks ts \<Longrightarrow> dget ts k = Some t \<Longrightarrow> wf_task k t"
  by (auto simp: wf_tasks_def dest: map_of_SomeD)

lemma wf_current_task: "wf_tasks ts \<Longrightarrow> wf_task k (current_task ts k)"
  by (auto simp: current_task_def new_task_state_def wf_task_def split: option.splits dest: wf_tasks_dget)

lemma wf_apply_transition:
  "wf_task k t \<Longrightarrow> valid_op (Transition k a) \<Longrightarrow> wf_task k (apply_transition a t)"
  using apply_transition_stop_reason [of a t] by (auto simp: wf_task_def split: option.splits)

text \<open>What one successful operation does to the table: one row changes, by a legal step.\<close>

definition op_effect :: "task_op \<Rightarrow> task_state dict \<Rightarrow> task_state \<Rightarrow> bool" where
  "op_effect op ts t' \<longleftrightarrow> (let t = current_task ts (op_key op) in
     case op of
       Transition k a \<Rightarrow> status_step (execution_status t) (tr_execution_status a) \<and> t' = apply_transition a t
     | Retry k \<Rightarrow> execution_status t = ES_FAILED \<and>
         t' = t\<lparr>execution_status := ES_PENDING, ts_ended_at := [], skip_reason := []\<rparr>
     | Supersede k r \<Rightarrow>
         t' = t\<lparr>execution_status := ES_SUPERSEDED, skip_reason := ''superseded_by:'' @ r\<rparr>)"

lemma apply_op_effect:
  assumes "wf_tasks ts" and "apply_op op (tasks_to_py ts) = Inr ts'"
  shows "\<exists>t'. ts' = dput (op_key op) t' ts \<and> op_effect op ts t'"
  using assms
  by (cases op)
     (auto simp: transition_task_eq ebind_eq_Inr guard_transition_iff op_effect_def retry_task_def
        supersede_task_def normalize_tasks_to_py current_task_def split: option.splits if_splits)

lemma op_effect_wf:
  assumes "wf_tasks ts" and "valid_op op" and "op_effect op ts t'"
  shows "wf_task (op_key op) t'"
proof -
  have w: "wf_task (op_key op) (current_task ts (op_key op))" using assms(1) by (rule wf_current_task)
  show ?thesis
  proof (cases op)
    case (Transition k a)
    then show ?thesis using assms w wf_apply_transition by (auto simp: op_effect_def Let_def)
  qed (use assms w in \<open>auto simp: op_effect_def wf_task_def Let_def\<close>)
qed

lemma apply_op_wf:
  "wf_tasks ts \<Longrightarrow> valid_op op \<Longrightarrow> apply_op op (tasks_to_py ts) = Inr ts' \<Longrightarrow> wf_tasks ts'"
  using apply_op_effect wf_tasks_dput op_effect_wf by blast

definition settled :: "exec_status \<Rightarrow> bool" where
  "settled s \<longleftrightarrow> s \<in> {ES_SUCCEEDED, ES_STOPPED, ES_SKIPPED, ES_SUPERSEDED}"

lemma settled_stuck: "settled s \<Longrightarrow> \<not> status_step s t"
  by (auto simp: settled_def elim: status_step_settled)

text \<open>
  C19. The result of a settled task is final: whatever sequence of transitions, retries and
  supersessions the runtime applies to the table, the row of a task that succeeded, stopped, was
  skipped or was superseded is unchanged as long as the task itself is not superseded again.
\<close>

theorem settled_task_is_final:
  assumes "run_ops ops ts = Inr ts'" and "wf_tasks ts" and "\<forall>op \<in> set ops. valid_op op"
    and "dget ts k = Some t" and "execution_status t \<in> {ES_SUCCEEDED, ES_STOPPED, ES_SKIPPED, ES_SUPERSEDED}"
    and "\<forall>r. Supersede k r \<notin> set ops"
  shows "dget ts' k = Some t"
  using assms
proof (induction ops arbitrary: ts)
  case Nil
  then show ?case by simp
next
  case (Cons op ops)
  from Cons.prems(1) obtain ts1 where
    step: "apply_op op (tasks_to_py ts) = Inr ts1" and rest: "run_ops ops ts1 = Inr ts'"
    by (auto simp: ebind_eq_Inr)
  have wf1: "wf_tasks ts1" using apply_op_wf [OF _ _ step] Cons.prems by simp
  obtain t' where t': "ts1 = dput (op_key op) t' ts" "op_effect op ts t'"
    using apply_op_effect [OF Cons.prems(2) step] by blast
  have "op_key op \<noteq> k"
  proof
    assume "op_key op = k"
    moreover have "settled (execution_status t)" using Cons.prems(5) by (auto simp: settled_def)
    ultimately show False
      using t' Cons.prems(4,5,6) settled_stuck
      by (cases op) (auto simp: op_effect_def current_task_def)
  qed
  then have "dget ts1 k = Some t" using t' Cons.prems(4) by simp
  then show ?case using Cons.IH [OF rest wf1] Cons.prems by simp
qed

theorem settled_task_is_final_witness:
  "\<exists>ts'. run_ops [Transition ''b'' (to_status ES_RUNNING), Transition ''b'' (to_status ES_FAILED)]
       [(''a'', (new_task_state ''a'')\<lparr>execution_status := ES_SUCCEEDED\<rparr>), (''b'', new_task_state ''b'')] = Inr ts' \<and>
     dget ts' ''a'' = Some ((new_task_state ''a'')\<lparr>execution_status := ES_SUCCEEDED\<rparr>)"
proof -
  let ?ts = "[(''a'', (new_task_state ''a'')\<lparr>execution_status := ES_SUCCEEDED\<rparr>), (''b'', new_task_state ''b'')]"
  let ?ops = "[Transition ''b'' (to_status ES_RUNNING), Transition ''b'' (to_status ES_FAILED)]"
  have "\<not> isl (run_ops ?ops ?ts)" by code_simp
  then obtain ts' where run: "run_ops ?ops ?ts = Inr ts'" by (auto simp: isl_def) (metis sum.exhaust)
  have "dget ts' ''a'' = Some ((new_task_state ''a'')\<lparr>execution_status := ES_SUCCEEDED\<rparr>)"
    by (rule settled_task_is_final [OF run])
       (simp_all add: wf_tasks_def wf_task_def new_task_state_def to_status_def)
  with run show ?thesis by blast
qed

text \<open>
  Evidence is never lost: a sequence of successful operations leaves every task it knew
  in the table with its evidence and artifact references, in their old order and in front of
  whatever was added, and free of repetitions if they were so to begin with.
\<close>

theorem evidence_refs_grow:
  assumes "run_ops ops ts = Inr ts'" and "wf_tasks ts" and "\<forall>op \<in> set ops. valid_op op"
    and "dget ts k = Some t" and "distinct (evidence_refs t)"
  shows "\<exists>t' added. dget ts' k = Some t' \<and> evidence_refs t' = evidence_refs t @ added \<and>
     distinct (evidence_refs t')"
  using assms
proof (induction ops arbitrary: ts t)
  case Nil
  then show ?case by simp
next
  case (Cons op ops)
  from Cons.prems(1) obtain ts1 where
    step: "apply_op op (tasks_to_py ts) = Inr ts1" and rest: "run_ops ops ts1 = Inr ts'"
    by (auto simp: ebind_eq_Inr)
  have wf1: "wf_tasks ts1" using apply_op_wf [OF _ _ step] Cons.prems by simp
  obtain t' where t': "ts1 = dput (op_key op) t' ts" "op_effect op ts t'"
    using apply_op_effect [OF Cons.prems(2) step] by blast
  have "\<exists>t1 added. dget ts1 k = Some t1 \<and> evidence_refs t1 = evidence_refs t @ added \<and>
      distinct (evidence_refs t1)"
  proof (cases "op_key op = k")
    case True
    then show ?thesis using t' Cons.prems(4,5)
      by (cases op) (auto simp: op_effect_def current_task_def fromkeys_append fromkeys_distinct)
  next
    case False
    then show ?thesis using t' Cons.prems(4,5) by simp
  qed
  then obtain t1 added where t1: "dget ts1 k = Some t1" "evidence_refs t1 = evidence_refs t @ added"
    "distinct (evidence_refs t1)" by blast
  then show ?case using Cons.IH [OF rest wf1 _ t1(1) t1(3)] Cons.prems(3) by auto
qed

theorem evidence_refs_grow_witness:
  "\<exists>ts' t' added. run_ops [Transition ''a'' ((to_status ES_STOPPED)\<lparr>tr_evidence_refs := [''e1'', ''e2'']\<rparr>)]
       [(''a'', (new_task_state ''a'')\<lparr>execution_status := ES_RUNNING, evidence_refs := [''e1'']\<rparr>)] = Inr ts' \<and>
     dget ts' ''a'' = Some t' \<and> evidence_refs t' = [''e1''] @ added \<and> distinct (evidence_refs t')"
proof -
  let ?t = "(new_task_state ''a'')\<lparr>execution_status := ES_RUNNING, evidence_refs := [''e1'']\<rparr>"
  let ?ops = "[Transition ''a'' ((to_status ES_STOPPED)\<lparr>tr_evidence_refs := [''e1'', ''e2'']\<rparr>)]"
  have "\<not> isl (run_ops ?ops [(''a'', ?t)])" by code_simp
  then obtain ts' where run: "run_ops ?ops [(''a'', ?t)] = Inr ts'" by (auto simp: isl_def) (metis sum.exhaust)
  show ?thesis
    using run evidence_refs_grow [OF run, of "''a''" ?t]
    by (simp add: wf_tasks_def wf_task_def new_task_state_def to_status_def)
qed

text \<open>
  A finished worker never wedges its task: \<open>classify_worker_completion\<close> never raises, its
  status is always a legal step of a running task, it reports success exactly for a normal
  stop with evidence, an accepted finding and a valid structure, failure exactly when no
  evidence was admitted, and a stopped task keeps its partial result.
\<close>

theorem worker_completion_classified:
  "\<exists>lc. classify_worker_completion valid findings evidence terminal = Inr lc \<and>
     status_step ES_RUNNING (wlc_execution_status lc) \<and>
     (wlc_execution_status lc = ES_SUCCEEDED \<longleftrightarrow>
        0 < evidence \<and> 0 < findings \<and> valid \<and>
        py_strip terminal \<in> {[], ''local_evidence_sufficient'', ''no_more_useful_evidence''}) \<and>
     (wlc_execution_status lc = ES_FAILED \<longleftrightarrow> evidence \<le> 0) \<and>
     (wlc_result_status lc = RS_PARTIAL \<longleftrightarrow> wlc_execution_status lc = ES_STOPPED) \<and>
     (wlc_result_status lc = RS_COMPLETE \<longleftrightarrow> wlc_execution_status lc = ES_SUCCEEDED) \<and>
     (wlc_failure lc = [] \<longleftrightarrow> wlc_execution_status lc = ES_SUCCEEDED)"
proof (cases "0 < evidence \<and> 0 < findings \<and> valid \<and>
      py_strip terminal \<in> {[], ''local_evidence_sufficient'', ''no_more_useful_evidence''}")
  case True
  have "parse_stop_reason ''local_evidence_sufficient'' = Inr SR_LOCAL_EVIDENCE_SUFFICIENT"
    "parse_stop_reason ''no_more_useful_evidence'' = Inr SR_NO_MORE_USEFUL_EVIDENCE"
    using parse_stop_reason_value [of SR_LOCAL_EVIDENCE_SUFFICIENT]
      parse_stop_reason_value [of SR_NO_MORE_USEFUL_EVIDENCE] by simp_all
  with True show ?thesis
    by (auto simp: classify_worker_completion_def status_step_from)
next
  case False
  then show ?thesis
    by (cases "0 < evidence") (auto simp: classify_worker_completion_def Let_def status_step_from)
qed

text \<open>
  \<open>worker_result_lifecycle\<close> produces a step a running task accepts except for a result
  whose status is \<open>skipped\<close>: for that one \<open>transition_task\<close> raises.
\<close>

theorem worker_result_lifecycle_accepted:
  assumes "worker_result_lifecycle r = (es, rs, sr, f)"
    and "wf_tasks ts" and "dget ts k = Some t" and "execution_status t = ES_RUNNING"
  shows "(\<exists>ts'. transition_task (tasks_to_py ts) k
            ((to_status es)\<lparr>tr_result_status := Some rs, tr_failure := f\<rparr>) = Inr ts') \<longleftrightarrow>
         wo_ok r \<or> py_lower (wo_status r) \<noteq> ''skipped''"
proof -
  have "status_step ES_RUNNING es \<longleftrightarrow> wo_ok r \<or> py_lower (wo_status r) \<noteq> ''skipped''"
    using assms(1) by (auto simp: worker_result_lifecycle_def Let_def status_step_from split: if_splits)
  moreover have "guard_transition ES_RUNNING es = Inr () \<longleftrightarrow> status_step ES_RUNNING es"
    by (rule guard_transition_iff)
  ultimately show ?thesis
    using assms(2,3,4) by (auto simp: transition_task_eq current_task_def to_status_def ebind_eq_Inr)
qed

theorem worker_result_lifecycle_accepted_witness:
  "\<not> (\<exists>ts'. transition_task (tasks_to_py [(''a'', (new_task_state ''a'')\<lparr>execution_status := ES_RUNNING\<rparr>)]) ''a''
      ((to_status ES_SKIPPED)\<lparr>tr_result_status := Some RS_NONE, tr_failure := []\<rparr>) = Inr ts')"
proof -
  let ?r = "\<lparr>wo_ok = False, wo_status = ''Skipped'', wo_fail_reason = [], wo_evidence_refs = [],
     wo_findings = [], wo_metrics = []\<rparr>"
  let ?t = "(new_task_state ''a'')\<lparr>execution_status := ES_RUNNING\<rparr>"
  have "worker_result_lifecycle ?r = (ES_SKIPPED, RS_NONE, SR_NONE, [])" by code_simp
  moreover have "wf_tasks [(''a'', ?t)]" by (simp add: wf_tasks_def wf_task_def new_task_state_def)
  moreover have "py_lower ''Skipped'' = ''skipped''" by code_simp
  ultimately show ?thesis
    using worker_result_lifecycle_accepted [of ?r ES_SKIPPED RS_NONE SR_NONE "[]" "[(''a'', ?t)]" "''a''" ?t]
    by simp
qed

text \<open>
  A task that has not started cannot be recorded as failed: for a pending task, and for a
  task the table does not know, \<open>transition_task\<close> to \<open>FAILED\<close> raises a \<open>ValueError\<close> whatever
  failure and result it is given.
\<close>

theorem pending_task_cannot_fail:
  assumes "wf_tasks ts" and "dget ts k = None \<or> (\<exists>t. dget ts k = Some t \<and> execution_status t = ES_PENDING)"
    and "tr_execution_status a = ES_FAILED"
  shows "\<exists>m. transition_task (tasks_to_py ts) k a = Inl (ValueError m)"
proof -
  have "execution_status (current_task ts k) = ES_PENDING"
    using assms(2) by (auto simp: current_task_def new_task_state_def)
  then show ?thesis
    using assms(1,3) guard_transition_error [of ES_PENDING ES_FAILED]
    by (auto simp: transition_task_eq status_step_from)
qed

theorem pending_task_cannot_fail_witness:
  "\<exists>m. transition_task (tasks_to_py [(''s0'', new_task_state ''s0'')]) ''s0''
     ((to_status ES_FAILED)\<lparr>tr_result_status := Some RS_NONE,
        tr_failure := failure_to_dict (classify_failure ''missing_step'')\<rparr>) = Inl (ValueError m)"
  by (rule pending_task_cannot_fail)
     (simp_all add: wf_tasks_def wf_task_def new_task_state_def to_status_def)

section \<open>Readiness\<close>

definition dependency_done :: "task_state dict \<Rightarrow> string \<Rightarrow> bool" where
  "dependency_done ts d \<longleftrightarrow> (\<exists>t. dget ts d = Some t \<and> execution_status t \<notin> {ES_PENDING, ES_RUNNING} \<and>
     (execution_status t = ES_FAILED \<longrightarrow> ts_result_status t = RS_PARTIAL))"

lemma dependency_block_None: "dependency_block ts ds = None \<longleftrightarrow> (\<forall>d \<in> set ds. dependency_done ts d)"
  by (induction ds) (auto simp: dependency_done_def split: option.splits)

lemma dependency_block_not_runnable: "dependency_block ts ds \<noteq> Some RUNNABLE"
  by (induction ds) (auto split: option.splits)

text \<open>
  A step is runnable exactly when its own task is pending, every dependency has left the
  pending and running states, none failed without a partial result, and resources are
  available; the order of the dependencies does not matter.
\<close>

theorem task_readiness_runnable_iff:
  assumes "wf_tasks ts"
  shows "task_readiness k deps (tasks_to_py ts) available = Inr RUNNABLE \<longleftrightarrow>
    (\<exists>t. dget ts k = Some t \<and> execution_status t = ES_PENDING) \<and> available \<and>
    (\<forall>d \<in> set deps. \<exists>t. dget ts d = Some t \<and> execution_status t \<notin> {ES_PENDING, ES_RUNNING} \<and>
       (execution_status t = ES_FAILED \<longrightarrow> ts_result_status t = RS_PARTIAL))"
  using assms dependency_block_None [of ts deps] dependency_block_not_runnable [of ts deps]
  by (auto simp: task_readiness_def normalize_tasks_to_py dependency_done_def split: option.splits)

theorem task_readiness_runnable_iff_witness:
  "task_readiness ''b'' [''a''] (tasks_to_py
      [(''a'', (new_task_state ''a'')\<lparr>execution_status := ES_FAILED, ts_result_status := RS_PARTIAL\<rparr>),
       (''b'', new_task_state ''b'')]) True = Inr RUNNABLE"
  by (subst task_readiness_runnable_iff)
     (simp_all add: wf_tasks_def wf_task_def new_task_state_def)

end
