(* ===== verification/RunBudget.thy ===== *)
theory RunBudget
  imports Contracts
begin

text \<open>
  The run budget manager (\<open>app/agent/harness/run_budget.py\<close>): token, call and time limits of
  a run, worker leases and in-flight reservations.  The manager's lock makes every operation
  atomic, so an operation is a function of the state; the clock is read once per operation
  and passed in, a fresh \<open>uuid\<close> is an argument, and the denial events an operation emits
  are appended to a log in the state.
\<close>

section \<open>State\<close>

record phase_budget_plan =
  pp_understand_plan :: pyfloat
  pp_research :: pyfloat
  pp_supervisor :: pyfloat
  pp_synthesis :: pyfloat
  pp_quality :: pyfloat

definition default_phase_plan :: phase_budget_plan where
  "default_phase_plan =
     \<lparr>pp_understand_plan = fl (5 / 100), pp_research = fl (55 / 100), pp_supervisor = fl (10 / 100),
      pp_synthesis = fl (25 / 100), pp_quality = fl (5 / 100)\<rparr>"

definition plan_synthesis_reserve_tokens :: "phase_budget_plan \<Rightarrow> int \<Rightarrow> int" where
  "plan_synthesis_reserve_tokens p n = max 0 (trunc (fmul_int n (pp_synthesis p)))"

definition plan_research_cap_tokens :: "phase_budget_plan \<Rightarrow> int \<Rightarrow> int" where
  "plan_research_cap_tokens p n = max 0 (trunc (fmul_int n (fl (pp_research p + pp_supervisor p))))"

definition plan_quality_reserve_tokens :: "phase_budget_plan \<Rightarrow> int \<Rightarrow> int" where
  "plan_quality_reserve_tokens p n = max 0 (trunc (fmul_int n (pp_quality p)))"

record worker_lease =
  wl_lease_id :: string
  wl_task_id :: string
  token_ceiling :: int
  wl_max_llm_calls :: int
  wl_max_output_tokens_per_call :: int
  wl_used_tokens :: int
  in_flight_tokens :: int
  wl_llm_calls :: int
  finalization_calls :: int
  wl_stage :: string

record llm_reservation =
  lr_reservation_id :: string
  estimated_tokens :: int
  lr_worker_task_id :: string
  lr_phase :: string

record denial =
  dn_scope :: string
  dn_resource :: string
  dn_reason :: string
  dn_task_id :: string
  dn_used :: int
  dn_reserved :: int
  dn_limit :: int

record run_budget =
  token_limit :: int
  llm_call_limit :: int
  tool_call_limit :: int
  deadline_sec :: pyfloat
  phase_plan :: phase_budget_plan
  max_llm_calls_per_worker :: int
  synthesis_reserve_sec :: pyfloat
  max_parallel_workers :: int
  stage_reserves :: "pyfloat dict"
  started :: pyfloat
  deadline_at :: "pyfloat option"
  used_tokens :: int
  llm_calls :: int
  tool_calls :: int
  force_synthesis_flag :: bool
  reserved_nonworker_tokens :: int
  reserved_llm_calls :: int
  worker_leases :: "worker_lease dict"
  llm_reservations :: "llm_reservation dict"
  denials :: "denial list"

text \<open>\<open>int(x or d)\<close> on an optional integer argument.\<close>

definition opt_or :: "int option \<Rightarrow> int \<Rightarrow> int" where
  "opt_or x d = (case x of None \<Rightarrow> d | Some n \<Rightarrow> if n = 0 then d else n)"

definition default_stage_reserves :: "pyfloat dict" where
  "default_stage_reserves =
     [(''research'', fl (60 / 100)), (''repair'', fl (15 / 100)), (''report'', fl (15 / 100)),
      (''verification'', fl (10 / 100))]"

definition init_run_budget ::
  "int \<Rightarrow> int \<Rightarrow> int \<Rightarrow> pyfloat \<Rightarrow> phase_budget_plan option \<Rightarrow> int \<Rightarrow> pyfloat \<Rightarrow> pyfloat \<Rightarrow> int \<Rightarrow>
   pyfloat dict \<Rightarrow> run_budget" where
  "init_run_budget tokens calls tools deadline plan per_worker started_at reserve_sec parallel reserves =
     \<lparr>token_limit = max 0 tokens, llm_call_limit = max 0 calls, tool_call_limit = max 0 tools,
      deadline_sec = max 0 deadline,
      phase_plan = (case plan of None \<Rightarrow> default_phase_plan | Some p \<Rightarrow> p),
      max_llm_calls_per_worker = max 1 (if per_worker = 0 then 8 else per_worker),
      synthesis_reserve_sec = max 0 reserve_sec,
      max_parallel_workers = max 1 (if parallel = 0 then 3 else parallel),
      stage_reserves = dmerge default_stage_reserves reserves,
      started = started_at,
      deadline_at = (if max 0 deadline > 0 then Some (fl (started_at + max 0 deadline)) else None),
      used_tokens = 0, llm_calls = 0, tool_calls = 0, force_synthesis_flag = False,
      reserved_nonworker_tokens = 0, reserved_llm_calls = 0, worker_leases = [],
      llm_reservations = [], denials = []\<rparr>"

section \<open>Stage shares and remaining capacity\<close>

definition stage_reserve_tokens :: "run_budget \<Rightarrow> string \<Rightarrow> int" where
  "stage_reserve_tokens b stage =
     (let share = (case dget (stage_reserves b) stage of None \<Rightarrow> 0 | Some s \<Rightarrow> s)
      in max 0 (trunc (fmul_int (token_limit b) (max 0 (min 1 share)))))"

definition research_stage_cap_tokens :: "run_budget \<Rightarrow> string \<Rightarrow> int" where
  "research_stage_cap_tokens b stage =
     (let initial = stage_reserve_tokens b ''research'' in
      if py_lower stage = ''repair''
      then min (token_limit b) (initial + stage_reserve_tokens b ''repair'')
      else initial)"

definition active_worker_reserved_tokens :: "run_budget \<Rightarrow> int" where
  "active_worker_reserved_tokens b = dsum (\<lambda>l. max 0 (in_flight_tokens l)) (worker_leases b)"

definition effective_reserved_tokens :: "run_budget \<Rightarrow> int" where
  "effective_reserved_tokens b = reserved_nonworker_tokens b + active_worker_reserved_tokens b"

text \<open>\<open>reserve\<close>: the stage's reserve, the available tokens and the cap, nothing is spent.\<close>

definition reserve :: "run_budget \<Rightarrow> string \<Rightarrow> int \<times> int \<times> int" where
  "reserve b stage =
     (let reserved = stage_reserve_tokens b stage;
          cap = (if stage \<in> {''research'', ''repair''} then research_stage_cap_tokens b stage else reserved);
          available = max 0 (cap - used_tokens b - effective_reserved_tokens b)
      in (reserved, available, cap))"

definition remaining_run_sec :: "pyfloat \<Rightarrow> run_budget \<Rightarrow> pyfloat" where
  "remaining_run_sec now b =
     (case deadline_at b of None \<Rightarrow> 1000000000 | Some d \<Rightarrow> max 0 (fl (d - now)))"

definition remaining_for_research_sec :: "pyfloat \<Rightarrow> run_budget \<Rightarrow> pyfloat" where
  "remaining_for_research_sec now b = max 0 (fl (remaining_run_sec now b - synthesis_reserve_sec b))"

definition remaining_for_research_tokens :: "run_budget \<Rightarrow> int" where
  "remaining_for_research_tokens b =
     max 0 (research_stage_cap_tokens b ''research'' - used_tokens b - effective_reserved_tokens b)"

definition remaining_for_supervisor_tokens :: "run_budget \<Rightarrow> int" where
  "remaining_for_supervisor_tokens b = remaining_for_research_tokens b"

definition remaining_for_repair_tokens :: "run_budget \<Rightarrow> int" where
  "remaining_for_repair_tokens b =
     max 0 (research_stage_cap_tokens b ''repair'' - used_tokens b - effective_reserved_tokens b)"

definition remaining_for_synthesis_tokens :: "run_budget \<Rightarrow> int" where
  "remaining_for_synthesis_tokens b =
     max 0 (token_limit b - plan_quality_reserve_tokens (phase_plan b) (token_limit b)
            - used_tokens b - effective_reserved_tokens b)"

definition remaining_for_quality_tokens :: "run_budget \<Rightarrow> int" where
  "remaining_for_quality_tokens b =
     max 0 (token_limit b - used_tokens b - effective_reserved_tokens b)"

definition elapsed_sec :: "pyfloat \<Rightarrow> run_budget \<Rightarrow> pyfloat" where
  "elapsed_sec now b = max 0 (fl (now - started b))"

record budget_snapshot =
  sn_token_limit :: int
  sn_used_tokens :: int
  sn_llm_calls :: int
  sn_llm_call_limit :: int
  sn_tool_calls :: int
  sn_tool_call_limit :: int
  sn_research_cap_tokens :: int
  sn_synthesis_reserve_tokens :: int
  sn_force_synthesis :: bool
  sn_deadline_sec :: pyfloat
  sn_elapsed_sec :: pyfloat
  sn_remaining_run_sec :: pyfloat
  sn_remaining_research_sec :: pyfloat
  sn_synthesis_reserve_sec :: pyfloat
  sn_reserved_tokens :: int
  sn_reserved_llm_calls :: int
  sn_active_worker_leases :: int
  sn_remaining_for_research_tokens :: int
  sn_remaining_for_synthesis_tokens :: int
  sn_remaining_for_quality_tokens :: int
  sn_repair_reserve_tokens :: int
  sn_remaining_for_repair_tokens :: int

definition snapshot :: "pyfloat \<Rightarrow> run_budget \<Rightarrow> budget_snapshot" where
  "snapshot now b =
     \<lparr>sn_token_limit = token_limit b, sn_used_tokens = used_tokens b, sn_llm_calls = llm_calls b,
      sn_llm_call_limit = llm_call_limit b, sn_tool_calls = tool_calls b,
      sn_tool_call_limit = tool_call_limit b,
      sn_research_cap_tokens = research_stage_cap_tokens b ''research'',
      sn_synthesis_reserve_tokens = plan_synthesis_reserve_tokens (phase_plan b) (token_limit b),
      sn_force_synthesis = force_synthesis_flag b, sn_deadline_sec = deadline_sec b,
      sn_elapsed_sec = elapsed_sec now b, sn_remaining_run_sec = remaining_run_sec now b,
      sn_remaining_research_sec = max 0 (fl (remaining_run_sec now b - synthesis_reserve_sec b)),
      sn_synthesis_reserve_sec = synthesis_reserve_sec b,
      sn_reserved_tokens = effective_reserved_tokens b, sn_reserved_llm_calls = reserved_llm_calls b,
      sn_active_worker_leases = int (length (worker_leases b)),
      sn_remaining_for_research_tokens = remaining_for_research_tokens b,
      sn_remaining_for_synthesis_tokens = remaining_for_synthesis_tokens b,
      sn_remaining_for_quality_tokens = remaining_for_quality_tokens b,
      sn_repair_reserve_tokens = stage_reserve_tokens b ''repair'',
      sn_remaining_for_repair_tokens = remaining_for_repair_tokens b\<rparr>"

definition research_block_reason :: "pyfloat \<Rightarrow> run_budget \<Rightarrow> string \<Rightarrow> string" where
  "research_block_reason now b stage =
     (let snap = snapshot now b;
          effective_used = sn_used_tokens snap + sn_reserved_tokens snap;
          research_cap = research_stage_cap_tokens b stage
      in if sn_token_limit snap > 0 \<and> effective_used \<ge> sn_token_limit snap then ''run_token_cap''
         else if sn_token_limit snap > 0 \<and> effective_used \<ge> research_cap then ''research_phase_token_cap''
         else if sn_llm_call_limit snap > 0 \<and>
                 sn_llm_calls snap + sn_reserved_llm_calls snap \<ge> sn_llm_call_limit snap
         then ''run_llm_call_cap''
         else if sn_tool_call_limit snap > 0 \<and> sn_tool_calls snap \<ge> sn_tool_call_limit snap
         then ''tool_call_cap''
         else if deadline_sec b > 0 \<and> sn_elapsed_sec snap \<ge> deadline_sec b then ''deadline_exceeded''
         else if deadline_sec b > 0 \<and> sn_remaining_research_sec snap \<le> 0 then ''synthesis_time_reserve''
         else [])"

definition research_allowed :: "pyfloat \<Rightarrow> run_budget \<Rightarrow> bool \<times> string" where
  "research_allowed now b = (let reason = research_block_reason now b ''research'' in (reason = [], reason))"

definition repair_allowed :: "pyfloat \<Rightarrow> run_budget \<Rightarrow> bool \<times> string" where
  "repair_allowed now b = (let reason = research_block_reason now b ''repair'' in (reason = [], reason))"

definition exhaustion_reason :: "pyfloat \<Rightarrow> run_budget \<Rightarrow> string" where
  "exhaustion_reason now b =
     (let snap = snapshot now b
      in if sn_token_limit snap > 0 \<and> sn_used_tokens snap \<ge> sn_token_limit snap then ''run_token_cap''
         else if sn_token_limit snap > 0 \<and> sn_used_tokens snap \<ge> research_stage_cap_tokens b ''research''
         then ''research_phase_token_cap''
         else if sn_llm_call_limit snap > 0 \<and> sn_llm_calls snap \<ge> sn_llm_call_limit snap
         then ''run_llm_call_cap''
         else if sn_tool_call_limit snap > 0 \<and> sn_tool_calls snap \<ge> sn_tool_call_limit snap
         then ''tool_call_cap''
         else if deadline_sec b > 0 \<and> sn_remaining_run_sec snap \<le> 0 then ''deadline_exceeded''
         else if deadline_sec b > 0 \<and> sn_remaining_research_sec snap \<le> 0 then ''synthesis_time_reserve''
         else [])"

end
