(* ===== verification/RunBudgetOps.thy ===== *)
theory RunBudgetOps
  imports RunBudget
begin

text \<open>
  The operations of \<open>RunBudgetManager\<close> that change its state
  (\<open>app/agent/harness/run_budget.py\<close>): reconciliation of usage, worker leases, LLM call
  reservations with their commit and release, and tool call reservations.
\<close>

section \<open>Usage\<close>

definition maybe_force_synthesis :: "pyfloat \<Rightarrow> run_budget \<Rightarrow> run_budget" where
  "maybe_force_synthesis now b =
     (let research_cap = research_stage_cap_tokens b ''research'' in
      b\<lparr>force_synthesis_flag := force_synthesis_flag b \<or>
          (token_limit b > 0 \<and> used_tokens b \<ge> research_cap) \<or>
          (llm_call_limit b > 0 \<and> llm_calls b \<ge> llm_call_limit b) \<or>
          (tool_call_limit b > 0 \<and> tool_calls b \<ge> tool_call_limit b) \<or>
          (remaining_for_research_sec now b \<le> 0 \<and> deadline_sec b > 0)\<rparr>)"

definition force_synthesis :: "pyfloat \<Rightarrow> run_budget \<Rightarrow> run_budget \<times> bool" where
  "force_synthesis now b =
     (let b' = maybe_force_synthesis now b in (b', force_synthesis_flag b'))"

definition mark_force_synthesis :: "run_budget \<Rightarrow> run_budget" where
  "mark_force_synthesis b = b\<lparr>force_synthesis_flag := True\<rparr>"

text \<open>\<open>used\<close> and \<open>calls\<close> are the totals the usage tracker reports, 0 when it has none.\<close>

definition sync_from_usage :: "pyfloat \<Rightarrow> int \<Rightarrow> int \<Rightarrow> int \<Rightarrow> run_budget \<Rightarrow> run_budget" where
  "sync_from_usage now used calls tools b =
     maybe_force_synthesis now
       (b\<lparr>used_tokens := max (used_tokens b) used, llm_calls := max (llm_calls b) calls,
          tool_calls := max (tool_calls b) tools\<rparr>)"

definition cap_tool_calls :: "pyfloat \<Rightarrow> int \<Rightarrow> run_budget \<Rightarrow> run_budget" where
  "cap_tool_calls now limit b =
     (let new_limit = max 0 limit in
      if new_limit \<le> 0 then b
      else if tool_call_limit b \<le> 0 \<or> new_limit < tool_call_limit b
      then maybe_force_synthesis now (b\<lparr>tool_call_limit := new_limit\<rparr>)
      else b)"

definition emit_denied :: "string \<Rightarrow> string \<Rightarrow> string \<Rightarrow> string \<Rightarrow> int \<Rightarrow> int \<Rightarrow> int \<Rightarrow> run_budget \<Rightarrow> run_budget" where
  "emit_denied scope resource reason task_id used reserved limit b =
     b\<lparr>denials := denials b @ [\<lparr>dn_scope = scope, dn_resource = resource, dn_reason = reason,
        dn_task_id = task_id, dn_used = used, dn_reserved = reserved, dn_limit = limit\<rparr>]\<rparr>"

definition commit_tokens :: "pyfloat \<Rightarrow> int \<Rightarrow> run_budget \<Rightarrow> run_budget" where
  "commit_tokens now tokens b =
     maybe_force_synthesis now (b\<lparr>used_tokens := used_tokens b + max 0 tokens\<rparr>)"

definition note_llm_call :: "pyfloat \<Rightarrow> run_budget \<Rightarrow> run_budget" where
  "note_llm_call now b = maybe_force_synthesis now (b\<lparr>llm_calls := llm_calls b + 1\<rparr>)"

definition reserve_tool_calls :: "pyfloat \<Rightarrow> int \<Rightarrow> run_budget \<Rightarrow> run_budget \<times> bool \<times> string" where
  "reserve_tool_calls now n b =
     (let calls = max 1 (if n = 0 then 1 else n) in
      if tool_call_limit b > 0 \<and> tool_calls b + calls > tool_call_limit b
      then (emit_denied ''run'' ''tool_call'' ''tool_call_cap'' [] (tool_calls b) calls (tool_call_limit b) b,
            False, ''tool_call_cap'')
      else (maybe_force_synthesis now (b\<lparr>tool_calls := tool_calls b + calls\<rparr>), True, []))"

definition note_tool_call :: "pyfloat \<Rightarrow> run_budget \<Rightarrow> run_budget \<times> bool" where
  "note_tool_call now b = (let (b', ok, _) = reserve_tool_calls now 1 b in (b', ok))"

section \<open>Worker leases\<close>

text \<open>The first lease of a task, in the order the leases were granted.\<close>

definition find_lease :: "run_budget \<Rightarrow> string \<Rightarrow> worker_lease option" where
  "find_lease b task_id = find (\<lambda>l. wl_task_id l = task_id) (map snd (worker_leases b))"

definition put_lease :: "worker_lease \<Rightarrow> run_budget \<Rightarrow> run_budget" where
  "put_lease l b = b\<lparr>worker_leases := dput (wl_lease_id l) l (worker_leases b)\<rparr>"

definition denied_resource :: "string \<Rightarrow> string" where
  "denied_resource reason =
     (if is_suffix ''token_cap'' reason then ''token''
      else if is_suffix ''llm_call_cap'' reason then ''llm_call''
      else if reason = ''tool_call_cap'' then ''tool_call''
      else ''time'')"

definition reserve_worker_lease ::
  "pyfloat \<Rightarrow> string \<Rightarrow> string \<Rightarrow> int option \<Rightarrow> int option \<Rightarrow> int option \<Rightarrow> int option \<Rightarrow> string \<Rightarrow>
   run_budget \<Rightarrow> run_budget \<times> string \<times> string" where
  "reserve_worker_lease now uuid task_id max_calls ceiling_arg parallel_workers max_output stage b =
     (let normalized_stage = (if py_lower stage = ''repair'' then ''repair'' else ''research'');
          research_cap = research_stage_cap_tokens b normalized_stage;
          workers = max 1 (opt_or parallel_workers (max_parallel_workers b));
          fair_share = (if research_cap > 0 then max 1 (research_cap div workers) else 0);
          requested = max 0 (case ceiling_arg of Some c \<Rightarrow> c | None \<Rightarrow> fair_share);
          reason = research_block_reason now b normalized_stage;
          active = active_worker_reserved_tokens b;
          remaining = research_cap - used_tokens b - active;
          remaining_hard = token_limit b - used_tokens b - reserved_nonworker_tokens b - active
      in if reason \<noteq> []
         then (emit_denied
                 (if is_prefix ''run_'' reason \<or> reason \<in> {''tool_call_cap'', ''deadline_exceeded''}
                  then ''run'' else ''research_phase'')
                 (denied_resource reason) reason task_id 0 0 0 b, [], reason)
         else if research_cap > 0 \<and> remaining \<le> 0
         then (emit_denied ''research_phase'' ''token'' ''research_phase_token_cap'' task_id
                 (used_tokens b) 0 research_cap b, [], ''research_phase_token_cap'')
         else let requested1 = (if research_cap > 0 then min requested remaining else requested) in
         if token_limit b > 0 \<and> remaining_hard \<le> 0
         then (emit_denied ''run'' ''token'' ''run_token_cap'' task_id (used_tokens b) 0 (token_limit b) b,
               [], ''run_token_cap'')
         else let requested2 = (if token_limit b > 0 then min requested1 remaining_hard else requested1);
                  lease_id = ''lease_'' @ uuid
              in (put_lease
                    \<lparr>wl_lease_id = lease_id, wl_task_id = task_id, token_ceiling = max 0 requested2,
                     wl_max_llm_calls = max 1 (opt_or max_calls (max_llm_calls_per_worker b)),
                     wl_max_output_tokens_per_call = max 1 (opt_or max_output 4096),
                     wl_used_tokens = 0, in_flight_tokens = 0, wl_llm_calls = 0,
                     finalization_calls = 0, wl_stage = normalized_stage\<rparr> b,
                  lease_id, []))"

text \<open>
  Taking back the tokens a reservation holds: from the first lease of its worker task, or
  from the run's own reservations.
\<close>

definition unreserve :: "llm_reservation \<Rightarrow> int \<Rightarrow> run_budget \<Rightarrow> run_budget" where
  "unreserve r spent b =
     (if lr_worker_task_id r \<noteq> [] then
        (case find_lease b (lr_worker_task_id r) of
           None \<Rightarrow> b
         | Some l \<Rightarrow> put_lease (l\<lparr>wl_used_tokens := wl_used_tokens l + spent,
               in_flight_tokens := max 0 (in_flight_tokens l - estimated_tokens r)\<rparr>) b)
      else b\<lparr>reserved_nonworker_tokens := max 0 (reserved_nonworker_tokens b - estimated_tokens r)\<rparr>)"

definition release_llm_reservation :: "string \<Rightarrow> run_budget \<Rightarrow> run_budget" where
  "release_llm_reservation rid b =
     (case dget (llm_reservations b) rid of
        None \<Rightarrow> b
      | Some r \<Rightarrow>
          (let b1 = b\<lparr>llm_reservations := dpop rid (llm_reservations b),
                      reserved_llm_calls := max 0 (reserved_llm_calls b - 1)\<rparr>;
               b2 = unreserve r 0 b1
           in b2\<lparr>llm_calls := llm_calls b2 + 1\<rparr>))"

definition release_worker_lease :: "pyfloat \<Rightarrow> string \<Rightarrow> run_budget \<Rightarrow> run_budget" where
  "release_worker_lease now lease_id b =
     (if lease_id = [] then b
      else case dget (worker_leases b) lease_id of
        None \<Rightarrow> b
      | Some lease \<Rightarrow>
          (let b1 = b\<lparr>worker_leases := dpop lease_id (worker_leases b)\<rparr>;
               owned = filter (\<lambda>r. lr_worker_task_id r = wl_task_id lease) (map snd (llm_reservations b1))
           in maybe_force_synthesis now
                (fold (\<lambda>r. release_llm_reservation (lr_reservation_id r)) owned b1)))"

definition worker_output_limit :: "run_budget \<Rightarrow> string \<Rightarrow> int" where
  "worker_output_limit b task_id =
     (case find_lease b task_id of None \<Rightarrow> 4096 | Some l \<Rightarrow> wl_max_output_tokens_per_call l)"

definition worker_lease_snapshot :: "run_budget \<Rightarrow> string \<Rightarrow> string \<Rightarrow> int dict" where
  "worker_lease_snapshot b task_id lease_id =
     (let by_id = (if lease_id \<noteq> [] then dget (worker_leases b) lease_id else None);
          found = (if by_id = None \<and> task_id \<noteq> [] then find_lease b task_id else by_id)
      in case found of
           None \<Rightarrow> []
         | Some l \<Rightarrow>
             [(''llm_calls_used'', wl_llm_calls l), (''llm_calls_limit'', wl_max_llm_calls l),
              (''tokens_used'', wl_used_tokens l), (''token_limit'', token_ceiling l),
              (''in_flight_tokens'', in_flight_tokens l), (''finalization_calls'', finalization_calls l)])"

definition grant_worker_finalization_call :: "string \<Rightarrow> run_budget \<Rightarrow> run_budget \<times> bool" where
  "grant_worker_finalization_call task_id b =
     (case find_lease b task_id of
        None \<Rightarrow> (b, False)
      | Some l \<Rightarrow>
          if finalization_calls l \<ge> 1 then (b, False)
          else if llm_call_limit b > 0 \<and> llm_calls b + reserved_llm_calls b \<ge> llm_call_limit b
          then (b, False)
          else (put_lease (l\<lparr>wl_max_llm_calls := wl_max_llm_calls l + 1,
                             finalization_calls := finalization_calls l + 1\<rparr>) b, True))"

section \<open>LLM call reservations\<close>

definition research_llm_phases :: "string list" where
  "research_llm_phases = [''execute'', ''worker'', ''research'', ''recover'', ''validate'']"

definition finalization_reserve :: "worker_lease \<Rightarrow> int" where
  "finalization_reserve l =
     (if token_ceiling l > 0 then max 1 (trunc (fmul_int (token_ceiling l) (fl (15 / 100)))) else 0)"

definition worker_call_limit :: "worker_lease \<Rightarrow> string \<Rightarrow> int" where
  "worker_call_limit l phase =
     (if token_ceiling l > 0 \<and> phase \<notin> {''finalize'', ''finalization''}
      then max 0 (token_ceiling l - finalization_reserve l) else token_ceiling l)"

text \<open>The worker part of the authorisation: the lease, or the reason and the counters of the denial.\<close>

definition worker_gate ::
  "run_budget \<Rightarrow> string \<Rightarrow> string \<Rightarrow> int \<Rightarrow> (string \<times> string \<times> int \<times> int \<times> int) + worker_lease option" where
  "worker_gate b worker_task_id phase tokens =
     (if worker_task_id = [] then Inr None
      else case find_lease b worker_task_id of
        None \<Rightarrow> Inl (''llm_call'', ''worker_lease_missing'', 0, 0, 0)
      | Some l \<Rightarrow>
          if wl_llm_calls l \<ge> wl_max_llm_calls l
          then Inl (''llm_call'', ''worker_llm_call_cap'', wl_llm_calls l, 0, wl_max_llm_calls l)
          else if token_ceiling l > 0 \<and>
                  wl_used_tokens l + in_flight_tokens l + tokens > worker_call_limit l phase
          then Inl (''token'', ''worker_token_cap'', wl_used_tokens l, in_flight_tokens l,
                    worker_call_limit l phase)
          else Inr (Some l))"

definition reserve_llm_call ::
  "string \<Rightarrow> int \<Rightarrow> string \<Rightarrow> string \<Rightarrow> run_budget \<Rightarrow> run_budget \<times> string \<times> string" where
  "reserve_llm_call uuid estimated worker_task_id phase b =
     (let tokens = max 1 (if estimated = 0 then 1 else estimated);
          normalized_phase = py_lower phase
      in if llm_call_limit b > 0 \<and> llm_calls b + reserved_llm_calls b \<ge> llm_call_limit b
         then (emit_denied ''run'' ''llm_call'' ''run_llm_call_cap'' worker_task_id (llm_calls b)
                 (reserved_llm_calls b) (llm_call_limit b) b, [], ''run_llm_call_cap'')
         else case worker_gate b worker_task_id normalized_phase tokens of
           Inl (resource, reason, used, reserved, limit) \<Rightarrow>
             (emit_denied ''worker'' resource reason worker_task_id used reserved limit b, [], reason)
         | Inr lease \<Rightarrow>
             let effective_after = used_tokens b + effective_reserved_tokens b + tokens;
                 research_stage = (case lease of None \<Rightarrow> ''research'' | Some l \<Rightarrow> wl_stage l)
             in if token_limit b > 0 \<and> effective_after > token_limit b
                then (emit_denied ''run'' ''token'' ''run_token_cap'' worker_task_id (used_tokens b)
                        (effective_reserved_tokens b) (token_limit b) b, [], ''run_token_cap'')
                else if normalized_phase \<in> set research_llm_phases \<and> token_limit b > 0 \<and>
                        effective_after > research_stage_cap_tokens b research_stage
                then (emit_denied ''research_phase'' ''token'' ''research_phase_token_cap'' worker_task_id
                        (used_tokens b) (effective_reserved_tokens b)
                        (research_stage_cap_tokens b research_stage) b, [], ''research_phase_token_cap'')
                else let rid = ''llmres_'' @ uuid;
                         b1 = b\<lparr>llm_reservations := dput rid
                                  \<lparr>lr_reservation_id = rid, estimated_tokens = tokens,
                                   lr_worker_task_id = worker_task_id, lr_phase = normalized_phase\<rparr>
                                  (llm_reservations b),
                                reserved_llm_calls := reserved_llm_calls b + 1\<rparr>
                     in (case lease of
                           Some l \<Rightarrow> put_lease (l\<lparr>in_flight_tokens := in_flight_tokens l + tokens,
                                                  wl_llm_calls := wl_llm_calls l + 1\<rparr>) b1
                         | None \<Rightarrow> b1\<lparr>reserved_nonworker_tokens := reserved_nonworker_tokens b + tokens\<rparr>,
                         rid, []))"

definition commit_llm_usage :: "pyfloat \<Rightarrow> string \<Rightarrow> int \<Rightarrow> run_budget \<Rightarrow> run_budget" where
  "commit_llm_usage now rid actual_tokens b =
     (case dget (llm_reservations b) rid of
        None \<Rightarrow> b
      | Some r \<Rightarrow>
          (let b1 = b\<lparr>llm_reservations := dpop rid (llm_reservations b),
                      reserved_llm_calls := max 0 (reserved_llm_calls b - 1)\<rparr>;
               actual = max 1 (if actual_tokens = 0 then estimated_tokens r else actual_tokens);
               b2 = unreserve r actual b1
           in maybe_force_synthesis now
                (b2\<lparr>used_tokens := used_tokens b2 + actual, llm_calls := llm_calls b2 + 1\<rparr>)))"

end
