(* ===== verification/RunBudgetInv.thy ===== *)
theory RunBudgetInv
  imports RunBudgetOps
begin

text \<open>
  The accounting invariant of the run budget manager: the counters of reserved calls and
  tokens are exactly what the in-flight reservations add up to, whatever order leases,
  reservations, commits and releases come in.  It is stated on the tables alone
  (\<open>accounts\<close>), with a set of task ids whose lease is being released.
\<close>

section \<open>The invariant on the tables\<close>

abbreviation first_lease :: "worker_lease dict \<Rightarrow> string \<Rightarrow> worker_lease option" where
  "first_lease ls t \<equiv> find (\<lambda>l. wl_task_id l = t) (map snd ls)"

definition task_est :: "llm_reservation dict \<Rightarrow> string \<Rightarrow> int" where
  "task_est rs t = dsum (\<lambda>r. if lr_worker_task_id r = t then estimated_tokens r else 0) rs"

definition held :: "worker_lease dict \<Rightarrow> llm_reservation dict \<Rightarrow> worker_lease \<Rightarrow> int" where
  "held ls rs l =
     (if wl_task_id l \<noteq> [] \<and> first_lease ls (wl_task_id l) = Some l then task_est rs (wl_task_id l) else 0)"

definition leases_ok :: "worker_lease dict \<Rightarrow> bool" where
  "leases_ok ls \<longleftrightarrow> distinct (dkeys ls) \<and> (\<forall>(k, l) \<in> set ls. wl_lease_id l = k)"

definition reservations_ok :: "llm_reservation dict \<Rightarrow> bool" where
  "reservations_ok rs \<longleftrightarrow> distinct (dkeys rs) \<and>
     (\<forall>(k, r) \<in> set rs. lr_reservation_id r = k \<and> 1 \<le> estimated_tokens r)"

definition accounts ::
  "string set \<Rightarrow> worker_lease dict \<Rightarrow> llm_reservation dict \<Rightarrow> int \<Rightarrow> int \<Rightarrow> bool" where
  "accounts X ls rs nonworker calls \<longleftrightarrow>
     leases_ok ls \<and> reservations_ok rs \<and>
     calls = int (length rs) \<and> nonworker = task_est rs [] \<and>
     (\<forall>(k, r) \<in> set rs. lr_worker_task_id r \<noteq> [] \<and> lr_worker_task_id r \<notin> X \<longrightarrow>
        first_lease ls (lr_worker_task_id r) \<noteq> None) \<and>
     (\<forall>(k, l) \<in> set ls.
        if wl_task_id l \<in> X then 0 \<le> in_flight_tokens l \<and> in_flight_tokens l \<le> held ls rs l
        else in_flight_tokens l = held ls rs l)"

lemma accountsD:
  assumes "accounts X ls rs nw c"
  shows "leases_ok ls" and "reservations_ok rs" and "c = int (length rs)" and "nw = task_est rs []"
  using assms by (simp_all add: accounts_def)

lemma accounts_lease_exists:
  "accounts X ls rs nw c \<Longrightarrow> (k, r) \<in> set rs \<Longrightarrow> lr_worker_task_id r \<noteq> [] \<Longrightarrow>
     lr_worker_task_id r \<notin> X \<Longrightarrow> first_lease ls (lr_worker_task_id r) \<noteq> None"
  unfolding accounts_def by blast

lemma accounts_in_flight:
  "accounts X ls rs nw c \<Longrightarrow> (k, l) \<in> set ls \<Longrightarrow> wl_task_id l \<notin> X \<Longrightarrow>
     in_flight_tokens l = held ls rs l"
  unfolding accounts_def by (drule conjunct2)+ (drule bspec, assumption, simp)

lemma accounts_in_flight_released:
  "accounts X ls rs nw c \<Longrightarrow> (k, l) \<in> set ls \<Longrightarrow> wl_task_id l \<in> X \<Longrightarrow>
     0 \<le> in_flight_tokens l \<and> in_flight_tokens l \<le> held ls rs l"
  unfolding accounts_def by (drule conjunct2)+ (drule bspec, assumption, simp)

lemma first_leaseD: "first_lease ls t = Some l \<Longrightarrow> wl_task_id l = t \<and> (\<exists>k. (k, l) \<in> set ls)"
  by (induction ls) (auto split: if_splits)

lemma leases_ok_in: "leases_ok ls \<Longrightarrow> (k, l) \<in> set ls \<Longrightarrow> wl_lease_id l = k \<and> dget ls k = Some l"
  by (auto simp: leases_ok_def)

lemma first_lease_dget: "leases_ok ls \<Longrightarrow> first_lease ls t = Some l \<Longrightarrow> dget ls (wl_lease_id l) = Some l"
  by (drule first_leaseD) (auto dest: leases_ok_in)

lemma reservations_ok_in:
  "reservations_ok rs \<Longrightarrow> (k, r) \<in> set rs \<Longrightarrow>
     lr_reservation_id r = k \<and> dget rs k = Some r \<and> 1 \<le> estimated_tokens r"
  by (auto simp: reservations_ok_def)

lemma reservations_ok_dget:
  "reservations_ok rs \<Longrightarrow> dget rs k = Some r \<Longrightarrow> lr_reservation_id r = k \<and> 1 \<le> estimated_tokens r"
  by (auto simp: reservations_ok_def dest!: map_of_SomeD)

section \<open>How the tables change\<close>

lemma set_dput: "distinct (dkeys d) \<Longrightarrow> set (dput k v d) = insert (k, v) {x \<in> set d. fst x \<noteq> k}"
  by (induction d) (auto simp: image_iff)

lemma set_dpop: "set (dpop k d) = {x \<in> set d. fst x \<noteq> k}"
  by (auto simp: AList.delete_eq)

lemma first_lease_update:
  assumes "leases_ok ls" and "first_lease ls (wl_task_id l) = Some l"
    and "wl_lease_id l' = wl_lease_id l" and "wl_task_id l' = wl_task_id l"
  shows "first_lease (dput (wl_lease_id l) l' ls) t = (if t = wl_task_id l then Some l' else first_lease ls t)"
  using assms
proof (induction ls)
  case Nil
  then show ?case by simp
next
  case (Cons kl ls)
  obtain k m where kl: "kl = (k, m)" by (cases kl)
  have k: "wl_lease_id m = k" using Cons.prems(1) kl by (simp add: leases_ok_def)
  show ?case
  proof (cases "wl_task_id m = wl_task_id l")
    case True
    then have "m = l" using Cons.prems(2) kl by simp
    then show ?thesis using kl k Cons.prems(4) by auto
  next
    case False
    then have first: "first_lease ls (wl_task_id l) = Some l" using Cons.prems(2) kl by simp
    have ok: "leases_ok ls" using Cons.prems(1) kl by (simp add: leases_ok_def)
    have "(wl_lease_id l, l) \<in> set ls"
      using first_lease_dget [OF ok first] by (rule map_of_SomeD)
    then have "k \<noteq> wl_lease_id l" using Cons.prems(1) kl by (force simp: leases_ok_def)
    moreover note ok
    ultimately show ?thesis using Cons.IH first Cons.prems(3,4) False kl by auto
  qed
qed

lemma find_append: "find P (xs @ ys) = (case find P xs of None \<Rightarrow> find P ys | Some x \<Rightarrow> Some x)"
  by (induction xs) auto

lemma first_lease_fresh:
  "dget ls k = None \<Longrightarrow> first_lease (dput k l ls) t =
     (case first_lease ls t of Some m \<Rightarrow> Some m | None \<Rightarrow> if wl_task_id l = t then Some l else None)"
  by (simp add: dput_fresh find_append split: option.splits)

lemma first_lease_dpop:
  "leases_ok ls \<Longrightarrow> dget ls k = Some l \<Longrightarrow> t \<noteq> wl_task_id l \<Longrightarrow> first_lease (dpop k ls) t = first_lease ls t"
  by (induction ls) (auto simp: leases_ok_def split: if_splits)

lemma first_lease_dpop_Some:
  "leases_ok ls \<Longrightarrow> first_lease ls t = Some m \<Longrightarrow> wl_lease_id m \<noteq> k \<Longrightarrow> first_lease (dpop k ls) t = Some m"
  by (induction ls) (auto simp: leases_ok_def split: if_splits)

lemma leases_ok_dput: "leases_ok ls \<Longrightarrow> wl_lease_id l = k \<Longrightarrow> leases_ok (dput k l ls)"
  unfolding leases_ok_def using set_dput_subset by fastforce

lemma leases_ok_dpop: "leases_ok ls \<Longrightarrow> leases_ok (dpop k ls)"
  unfolding leases_ok_def using set_dpop_subset by fastforce

lemma reservations_ok_dput:
  "reservations_ok rs \<Longrightarrow> lr_reservation_id r = k \<Longrightarrow> 1 \<le> estimated_tokens r \<Longrightarrow> reservations_ok (dput k r rs)"
  unfolding reservations_ok_def using set_dput_subset by fastforce

lemma reservations_ok_dpop: "reservations_ok rs \<Longrightarrow> reservations_ok (dpop k rs)"
  unfolding reservations_ok_def using set_dpop_subset by fastforce

lemma task_est_dput:
  "reservations_ok rs \<Longrightarrow> dget rs k = None \<Longrightarrow>
     task_est (dput k r rs) t = task_est rs t + (if lr_worker_task_id r = t then estimated_tokens r else 0)"
  by (simp add: task_est_def dsum_dput reservations_ok_def)

lemma task_est_dpop:
  "reservations_ok rs \<Longrightarrow> dget rs k = Some r \<Longrightarrow>
     task_est (dpop k rs) t = task_est rs t - (if lr_worker_task_id r = t then estimated_tokens r else 0)"
  by (simp add: task_est_def dsum_dpop reservations_ok_def)

lemma task_est_nonneg: "reservations_ok rs \<Longrightarrow> 0 \<le> task_est rs t"
  unfolding task_est_def by (rule dsum_nonneg) (auto dest: reservations_ok_in)

lemma task_est_none: "(\<And>k r. (k, r) \<in> set rs \<Longrightarrow> lr_worker_task_id r \<noteq> t) \<Longrightarrow> task_est rs t = 0"
  unfolding task_est_def by (subst dsum_cong [where g = "\<lambda>_. 0"]) (auto simp: dsum_const)

lemma task_est_ge:
  assumes "reservations_ok rs" and "dget rs k = Some r"
  shows "estimated_tokens r \<le> task_est rs (lr_worker_task_id r)"
  using task_est_nonneg [OF reservations_ok_dpop [OF assms(1), of k], of "lr_worker_task_id r"]
    task_est_dpop [OF assms] by simp

lemma length_dpop: "distinct (dkeys d) \<Longrightarrow> dget d k = Some v \<Longrightarrow> int (length (dpop k d)) = int (length d) - 1"
  using dsum_dpop [of d "\<lambda>_. 1" k] by (simp add: dsum_const)

section \<open>The operations keep the accounts\<close>

lemma accounts_Nil: "accounts X [] [] 0 0"
  by (simp add: accounts_def leases_ok_def reservations_ok_def task_est_def)

lemma accounts_new_lease:
  assumes a: "accounts {} ls rs nw c" and fresh: "dget ls k = None"
    and l: "wl_lease_id l = k" "in_flight_tokens l = 0"
  shows "accounts {} (dput k l ls) rs nw c"
proof -
  note D = accountsD [OF a] and ex = accounts_lease_exists [OF a] and fl = accounts_in_flight [OF a]
  have notin: "(k, m) \<notin> set ls" for m using fresh by (auto simp: map_of_eq_None_iff image_iff)
  have new0: "held (dput k l ls) rs l = 0"
  proof (cases "first_lease ls (wl_task_id l)")
    case None
    then have "wl_task_id l \<noteq> [] \<Longrightarrow> task_est rs (wl_task_id l) = 0"
      using ex None by (intro task_est_none) fastforce
    then show ?thesis by (simp add: held_def)
  next
    case (Some m)
    then have "m \<noteq> l" using first_leaseD notin leases_ok_in [OF D(1)] l(1) by metis
    then show ?thesis using Some fresh by (simp add: held_def first_lease_fresh)
  qed
  have old: "held (dput k l ls) rs m = held ls rs m" if "(k', m) \<in> set ls" for k' m
  proof -
    have "first_lease ls (wl_task_id m) \<noteq> None"
      using that by (auto simp: find_None_iff intro!: bexI [of _ "(k', m)"])
    then show ?thesis using fresh by (auto simp: held_def first_lease_fresh)
  qed
  have keep: "first_lease (dput k l ls) t \<noteq> None" if "first_lease ls t \<noteq> None" for t
    using that fresh by (auto simp: first_lease_fresh)
  have rows: "in_flight_tokens m = held (dput k l ls) rs m" if m: "(k', m) \<in> set (dput k l ls)" for k' m
  proof -
    from m set_dput_subset consider "m = l" | "(k', m) \<in> set ls" by fastforce
    then show ?thesis using new0 l(2) old fl by cases auto
  qed
  have "first_lease (dput k l ls) (lr_worker_task_id r) \<noteq> None"
    if "(k', r) \<in> set rs" "lr_worker_task_id r \<noteq> []" for k' r
    using ex [OF that] by (intro keep) simp
  then show ?thesis
    using D(2-4) leases_ok_dput [OF D(1) l(1)] rows unfolding accounts_def by auto
qed

text \<open>Replacing the first lease of a task by one with the same identity.\<close>

lemma held_update_other:
  assumes "leases_ok ls" and "first_lease ls (wl_task_id l) = Some l"
    and "wl_lease_id l' = wl_lease_id l" and "wl_task_id l' = wl_task_id l"
    and "(k, m) \<in> set ls" and "k \<noteq> wl_lease_id l"
    and "wl_task_id m \<noteq> wl_task_id l \<Longrightarrow> task_est rs' (wl_task_id m) = task_est rs (wl_task_id m)"
  shows "held (dput (wl_lease_id l) l' ls) rs' m = held ls rs m"
proof -
  have "m \<noteq> l" using assms(1,5,6) leases_ok_in by blast
  moreover have "m \<noteq> l'" using assms(1,3,5,6) leases_ok_in by metis
  ultimately show ?thesis
    using assms(2,7) by (auto simp: held_def first_lease_update [OF assms(1-4)])
qed

lemma accounts_update:
  assumes a: "accounts X ls rs nw c" and first: "first_lease ls (wl_task_id l) = Some l"
    and same: "wl_lease_id l' = wl_lease_id l" "wl_task_id l' = wl_task_id l"
    and task: "wl_task_id l \<noteq> []"
    and rs': "reservations_ok rs'" "c' = int (length rs')" "nw' = task_est rs' []"
    and other: "\<And>t. t \<noteq> wl_task_id l \<Longrightarrow> t \<noteq> [] \<Longrightarrow> task_est rs' t = task_est rs t"
    and sub: "\<And>k r. (k, r) \<in> set rs' \<Longrightarrow> (k, r) \<in> set rs \<or> lr_worker_task_id r = wl_task_id l"
    and mine: "if wl_task_id l \<in> X
       then 0 \<le> in_flight_tokens l' \<and> in_flight_tokens l' \<le> task_est rs' (wl_task_id l)
       else in_flight_tokens l' = task_est rs' (wl_task_id l)"
  shows "accounts X (dput (wl_lease_id l) l' ls) rs' nw' c'"
proof -
  note D = accountsD [OF a]
  let ?ls = "dput (wl_lease_id l) l' ls"
  note upd = first_lease_update [OF D(1) first same]
  have ok: "leases_ok ?ls" using leases_ok_dput [OF D(1) same(1)] .
  have held_l': "held ?ls rs' l' = task_est rs' (wl_task_id l)"
    using task same(2) by (simp add: held_def upd)
  have rows: "if wl_task_id m \<in> X then 0 \<le> in_flight_tokens m \<and> in_flight_tokens m \<le> held ?ls rs' m
      else in_flight_tokens m = held ?ls rs' m" if m: "(k, m) \<in> set ?ls" for k m
  proof (cases "k = wl_lease_id l")
    case True
    then have "m = l'" using m D(1) by (auto simp: set_dput leases_ok_def)
    then show ?thesis using mine held_l' same(2) by simp
  next
    case False
    then have m': "(k, m) \<in> set ls" using m D(1) by (auto simp: set_dput leases_ok_def)
    have "held ?ls rs' m = held ls rs m"
    proof (cases "wl_task_id m = []")
      case True
      then show ?thesis by (simp add: held_def)
    next
      case notask: False
      show ?thesis
        by (rule held_update_other [OF D(1) first same m' False]) (rule other [OF _ notask])
    qed
    then show ?thesis
      using accounts_in_flight [OF a m'] accounts_in_flight_released [OF a m'] by simp
  qed
  have "first_lease ?ls (lr_worker_task_id r) \<noteq> None"
    if r: "(k, r) \<in> set rs'" "lr_worker_task_id r \<noteq> []" "lr_worker_task_id r \<notin> X" for k r
    using sub [OF r(1)] accounts_lease_exists [OF a _ r(2,3)] by (auto simp: upd)
  then show ?thesis using ok rs' rows unfolding accounts_def by auto
qed

lemma accounts_reserve_worker:
  assumes a: "accounts {} ls rs nw c" and first: "first_lease ls t = Some l" and t: "t \<noteq> []"
    and fresh: "dget rs k = None" and r: "lr_reservation_id r = k" "lr_worker_task_id r = t" "1 \<le> estimated_tokens r"
    and l': "wl_lease_id l' = wl_lease_id l" "wl_task_id l' = wl_task_id l"
       "in_flight_tokens l' = in_flight_tokens l + estimated_tokens r"
  shows "accounts {} (dput (wl_lease_id l) l' ls) (dput k r rs) nw (c + 1)"
proof -
  note D = accountsD [OF a]
  have tl: "wl_task_id l = t" and "\<exists>k. (k, l) \<in> set ls" using first_leaseD [OF first] by auto
  then have "in_flight_tokens l = task_est rs t"
    using accounts_in_flight [OF a] first t by (auto simp: held_def)
  then show ?thesis
    using D r t tl first l' fresh set_dput_subset [of k r rs]
    by (intro accounts_update [OF a]) (auto simp: task_est_dput reservations_ok_dput length_dput)
qed

lemma accounts_reserve_nonworker:
  assumes a: "accounts {} ls rs nw c" and fresh: "dget rs k = None"
    and r: "lr_reservation_id r = k" "lr_worker_task_id r = []" "1 \<le> estimated_tokens r"
  shows "accounts {} ls (dput k r rs) (nw + estimated_tokens r) (c + 1)"
proof -
  note D = accountsD [OF a]
  have "held ls (dput k r rs) m = held ls rs m" for m
    using D(2) fresh r(2) by (simp add: held_def task_est_dput)
  then have rows: "in_flight_tokens m = held ls (dput k r rs) m" if "(k', m) \<in> set ls" for k' m
    using accounts_in_flight [OF a that] by simp
  have "first_lease ls (lr_worker_task_id q) \<noteq> None"
    if "(k', q) \<in> set (dput k r rs)" "lr_worker_task_id q \<noteq> []" for k' q
    using that set_dput_subset [of k r rs] r(2) accounts_lease_exists [OF a] by fastforce
  then show ?thesis
    using D r fresh rows unfolding accounts_def
    by (auto simp: reservations_ok_dput length_dput task_est_dput)
qed

section \<open>The invariant on the manager's state\<close>

definition budget_inv :: "string set \<Rightarrow> run_budget \<Rightarrow> bool" where
  "budget_inv X b \<longleftrightarrow>
     accounts X (worker_leases b) (llm_reservations b) (reserved_nonworker_tokens b) (reserved_llm_calls b)"

lemma budget_inv_frame:
  "worker_leases b' = worker_leases b \<Longrightarrow> llm_reservations b' = llm_reservations b \<Longrightarrow>
   reserved_nonworker_tokens b' = reserved_nonworker_tokens b \<Longrightarrow>
   reserved_llm_calls b' = reserved_llm_calls b \<Longrightarrow> budget_inv X b' = budget_inv X b"
  by (simp add: budget_inv_def)

lemma find_lease_first: "find_lease b t = first_lease (worker_leases b) t"
  by (simp add: find_lease_def)

lemma maybe_force_synthesis_sel [simp]:
  "worker_leases (maybe_force_synthesis now b) = worker_leases b"
  "llm_reservations (maybe_force_synthesis now b) = llm_reservations b"
  "reserved_nonworker_tokens (maybe_force_synthesis now b) = reserved_nonworker_tokens b"
  "reserved_llm_calls (maybe_force_synthesis now b) = reserved_llm_calls b"
  "llm_calls (maybe_force_synthesis now b) = llm_calls b"
  "llm_call_limit (maybe_force_synthesis now b) = llm_call_limit b"
  "used_tokens (maybe_force_synthesis now b) = used_tokens b"
  "token_limit (maybe_force_synthesis now b) = token_limit b"
  "tool_calls (maybe_force_synthesis now b) = tool_calls b"
  "tool_call_limit (maybe_force_synthesis now b) = tool_call_limit b"
  "stage_reserves (maybe_force_synthesis now b) = stage_reserves b"
  "denials (maybe_force_synthesis now b) = denials b"
  "max_parallel_workers (maybe_force_synthesis now b) = max_parallel_workers b"
  by (simp_all add: maybe_force_synthesis_def Let_def)

lemma emit_denied_sel [simp]:
  "worker_leases (emit_denied sc re ra t u r l b) = worker_leases b"
  "llm_reservations (emit_denied sc re ra t u r l b) = llm_reservations b"
  "reserved_nonworker_tokens (emit_denied sc re ra t u r l b) = reserved_nonworker_tokens b"
  "reserved_llm_calls (emit_denied sc re ra t u r l b) = reserved_llm_calls b"
  "llm_calls (emit_denied sc re ra t u r l b) = llm_calls b"
  "llm_call_limit (emit_denied sc re ra t u r l b) = llm_call_limit b"
  "used_tokens (emit_denied sc re ra t u r l b) = used_tokens b"
  "token_limit (emit_denied sc re ra t u r l b) = token_limit b"
  "tool_calls (emit_denied sc re ra t u r l b) = tool_calls b"
  "tool_call_limit (emit_denied sc re ra t u r l b) = tool_call_limit b"
  "stage_reserves (emit_denied sc re ra t u r l b) = stage_reserves b"
  by (simp_all add: emit_denied_def)

lemma put_lease_sel [simp]:
  "worker_leases (put_lease l b) = dput (wl_lease_id l) l (worker_leases b)"
  "llm_reservations (put_lease l b) = llm_reservations b"
  "reserved_nonworker_tokens (put_lease l b) = reserved_nonworker_tokens b"
  "reserved_llm_calls (put_lease l b) = reserved_llm_calls b"
  "llm_calls (put_lease l b) = llm_calls b"
  "llm_call_limit (put_lease l b) = llm_call_limit b"
  "used_tokens (put_lease l b) = used_tokens b"
  "token_limit (put_lease l b) = token_limit b"
  "tool_calls (put_lease l b) = tool_calls b"
  "tool_call_limit (put_lease l b) = tool_call_limit b"
  "stage_reserves (put_lease l b) = stage_reserves b"
  by (simp_all add: put_lease_def)

text \<open>A reservation leaves the table: what it held is taken back exactly.\<close>

lemma accounts_drop_worker:
  assumes a: "accounts X ls rs nw c" and k: "dget rs k = Some r" and t: "lr_worker_task_id r \<noteq> []"
    and first: "first_lease ls (lr_worker_task_id r) = Some l"
    and l': "wl_lease_id l' = wl_lease_id l" "wl_task_id l' = wl_task_id l"
       "in_flight_tokens l' = max 0 (in_flight_tokens l - estimated_tokens r)"
  shows "accounts X (dput (wl_lease_id l) l' ls) (dpop k rs) nw (c - 1)"
proof -
  note D = accountsD [OF a]
  have tl: "wl_task_id l = lr_worker_task_id r" and "\<exists>k. (k, l) \<in> set ls" using first_leaseD [OF first] by auto
  then obtain k' where in_ls: "(k', l) \<in> set ls" by blast
  have h: "held ls rs l = task_est rs (lr_worker_task_id r)"
    using tl first t by (simp add: held_def)
  have ge: "estimated_tokens r \<le> task_est rs (lr_worker_task_id r)" by (rule task_est_ge [OF D(2) k])
  have est: "task_est (dpop k rs) u = task_est rs u - (if lr_worker_task_id r = u then estimated_tokens r else 0)" for u
    by (rule task_est_dpop [OF D(2) k])
  have "if wl_task_id l \<in> X
       then 0 \<le> in_flight_tokens l' \<and> in_flight_tokens l' \<le> task_est (dpop k rs) (wl_task_id l)
       else in_flight_tokens l' = task_est (dpop k rs) (wl_task_id l)"
    using accounts_in_flight [OF a in_ls] accounts_in_flight_released [OF a in_ls] h tl ge l'(3)
    by (auto simp: est)
  moreover have "int (length (dpop k rs)) = c - 1"
    using length_dpop [OF _ k] D(2,3) by (simp add: reservations_ok_def)
  ultimately show ?thesis
    using D t tl first l' est set_dpop_subset [of k rs] reservations_ok_dpop [OF D(2)]
    by (intro accounts_update [OF a]) auto
qed

lemma accounts_drop_rows:
  assumes a: "accounts X ls rs nw c" and k: "dget rs k = Some r"
    and same: "\<And>m k'. (k', m) \<in> set ls \<Longrightarrow> held ls (dpop k rs) m = held ls rs m"
  shows "accounts X ls (dpop k rs) (task_est (dpop k rs) []) (c - 1)"
proof -
  note D = accountsD [OF a]
  have "int (length (dpop k rs)) = c - 1"
    using length_dpop [OF _ k] D(2,3) by (simp add: reservations_ok_def)
  moreover have "if wl_task_id m \<in> X then 0 \<le> in_flight_tokens m \<and> in_flight_tokens m \<le> held ls (dpop k rs) m
      else in_flight_tokens m = held ls (dpop k rs) m" if "(k', m) \<in> set ls" for k' m
    using same [OF that] accounts_in_flight [OF a that] accounts_in_flight_released [OF a that] by auto
  ultimately show ?thesis
    using D(1) reservations_ok_dpop [OF D(2)] set_dpop_subset [of k rs] accounts_lease_exists [OF a]
    unfolding accounts_def by auto
qed

lemma budget_inv_unreserve:
  assumes inv: "budget_inv X b" and k: "dget (llm_reservations b) k = Some r"
  shows "budget_inv X (unreserve r spent (b\<lparr>llm_reservations := dpop k (llm_reservations b),
           reserved_llm_calls := max 0 (reserved_llm_calls b - 1)\<rparr>))"
proof -
  let ?ls = "worker_leases b" and ?rs = "llm_reservations b"
  have a: "accounts X ?ls ?rs (reserved_nonworker_tokens b) (reserved_llm_calls b)"
    using inv by (simp add: budget_inv_def)
  note D = accountsD [OF a]
  have pos: "1 \<le> reserved_llm_calls b" using k D(3) by (cases ?rs) auto
  have in_rs: "(k, r) \<in> set ?rs" using k by (rule map_of_SomeD)
  have est: "task_est (dpop k ?rs) u = task_est ?rs u - (if lr_worker_task_id r = u then estimated_tokens r else 0)" for u
    by (rule task_est_dpop [OF D(2) k])
  show ?thesis
  proof (cases "lr_worker_task_id r = []")
    case True
    have "accounts X ?ls (dpop k ?rs) (task_est (dpop k ?rs) []) (reserved_llm_calls b - 1)"
      by (rule accounts_drop_rows [OF a k]) (simp add: held_def est True)
    moreover have "max 0 (reserved_nonworker_tokens b - estimated_tokens r) = task_est (dpop k ?rs) []"
      using D(4) task_est_ge [OF D(2) k] True by (simp add: est)
    ultimately show ?thesis using True pos by (simp add: budget_inv_def unreserve_def)
  next
    case worker: False
    show ?thesis
    proof (cases "first_lease ?ls (lr_worker_task_id r)")
      case None
      have "accounts X ?ls (dpop k ?rs) (task_est (dpop k ?rs) []) (reserved_llm_calls b - 1)"
        using None by (intro accounts_drop_rows [OF a k]) (auto simp: held_def est)
      then show ?thesis using None worker pos D(4)
        by (simp add: budget_inv_def unreserve_def find_lease_def est)
    next
      case (Some l)
      then show ?thesis
        using accounts_drop_worker [OF a k worker Some] worker pos
        by (simp add: budget_inv_def unreserve_def find_lease_def)
    qed
  qed
qed

lemma budget_inv_release:
  assumes "budget_inv X b"
  shows "budget_inv X (release_llm_reservation k b)"
proof (cases "dget (llm_reservations b) k")
  case None
  then show ?thesis using assms by (simp add: release_llm_reservation_def)
next
  case (Some r)
  then show ?thesis
    using budget_inv_unreserve [OF assms Some, of 0]
    by (simp add: release_llm_reservation_def Let_def budget_inv_def)
qed

text \<open>Releasing a lease: its task's accounts are open until its reservations are gone.\<close>

lemma accounts_open:
  assumes a: "accounts {} ls rs nw c" and k: "dget ls k = Some l"
  shows "accounts {wl_task_id l} (dpop k ls) rs nw c"
proof -
  note D = accountsD [OF a]
  have rows: "if wl_task_id m \<in> {wl_task_id l}
      then 0 \<le> in_flight_tokens m \<and> in_flight_tokens m \<le> held (dpop k ls) rs m
      else in_flight_tokens m = held (dpop k ls) rs m" if m: "(k', m) \<in> set (dpop k ls)" for k' m
  proof -
    have m': "(k', m) \<in> set ls" "k' \<noteq> k" using m by (auto simp: set_dpop)
    have fl: "in_flight_tokens m = held ls rs m" using accounts_in_flight [OF a m'(1)] by simp
    have nonneg: "0 \<le> task_est rs t" for t by (rule task_est_nonneg [OF D(2)])
    have id: "wl_lease_id m \<noteq> k" using m' leases_ok_in [OF D(1)] by blast
    show ?thesis
    proof (cases "wl_task_id m = wl_task_id l")
      case True
      have "held ls rs m \<le> held (dpop k ls) rs m"
        using first_lease_dpop_Some [OF D(1) _ id, of "wl_task_id m"] nonneg by (auto simp: held_def)
      then show ?thesis using True fl nonneg by (auto simp: held_def)
    next
      case False
      then show ?thesis using fl first_lease_dpop [OF D(1) k] by (simp add: held_def)
    qed
  qed
  have "first_lease (dpop k ls) (lr_worker_task_id r) \<noteq> None"
    if r: "(k', r) \<in> set rs" "lr_worker_task_id r \<noteq> []" "lr_worker_task_id r \<notin> {wl_task_id l}" for k' r
    using accounts_lease_exists [OF a r(1,2)] first_lease_dpop [OF D(1) k] r(3) by simp
  then show ?thesis using D rows leases_ok_dpop [OF D(1)] unfolding accounts_def by auto
qed

lemma accounts_close:
  assumes a: "accounts {t} ls rs nw c" and none: "\<And>k r. (k, r) \<in> set rs \<Longrightarrow> lr_worker_task_id r \<noteq> t"
  shows "accounts {} ls rs nw c"
proof -
  note D = accountsD [OF a]
  have "task_est rs t = 0" using none by (rule task_est_none)
  then have rows: "in_flight_tokens m = held ls rs m" if "(k', m) \<in> set ls" for k' m
    using accounts_in_flight [OF a that] accounts_in_flight_released [OF a that]
    by (cases "wl_task_id m = t") (auto simp: held_def split: if_splits)
  have "first_lease ls (lr_worker_task_id r) \<noteq> None"
    if "(k', r) \<in> set rs" "lr_worker_task_id r \<noteq> []" for k' r
    using accounts_lease_exists [OF a that] none [OF that(1)] by auto
  then show ?thesis using D rows unfolding accounts_def by auto
qed

lemma unreserve_sel [simp]:
  "llm_reservations (unreserve r spent b) = llm_reservations b"
  "reserved_llm_calls (unreserve r spent b) = reserved_llm_calls b"
  "llm_calls (unreserve r spent b) = llm_calls b"
  "llm_call_limit (unreserve r spent b) = llm_call_limit b"
  "used_tokens (unreserve r spent b) = used_tokens b"
  "token_limit (unreserve r spent b) = token_limit b"
  "tool_calls (unreserve r spent b) = tool_calls b"
  "tool_call_limit (unreserve r spent b) = tool_call_limit b"
  "stage_reserves (unreserve r spent b) = stage_reserves b"
  by (simp_all add: unreserve_def split: option.splits)

lemma release_sel [simp]:
  "llm_reservations (release_llm_reservation k b) = dpop k (llm_reservations b)"
  "llm_call_limit (release_llm_reservation k b) = llm_call_limit b"
  "used_tokens (release_llm_reservation k b) = used_tokens b"
  "token_limit (release_llm_reservation k b) = token_limit b"
  "tool_calls (release_llm_reservation k b) = tool_calls b"
  "tool_call_limit (release_llm_reservation k b) = tool_call_limit b"
  "stage_reserves (release_llm_reservation k b) = stage_reserves b"
  by (auto simp: release_llm_reservation_def Let_def delete_id dom_map_of_conv_image_fst map_of_eq_None_iff
      split: option.splits)

lemma fold_release_sel [simp]:
  "llm_call_limit (fold (\<lambda>r. release_llm_reservation (f r)) xs b) = llm_call_limit b"
  "used_tokens (fold (\<lambda>r. release_llm_reservation (f r)) xs b) = used_tokens b"
  "token_limit (fold (\<lambda>r. release_llm_reservation (f r)) xs b) = token_limit b"
  "tool_calls (fold (\<lambda>r. release_llm_reservation (f r)) xs b) = tool_calls b"
  "tool_call_limit (fold (\<lambda>r. release_llm_reservation (f r)) xs b) = tool_call_limit b"
  "stage_reserves (fold (\<lambda>r. release_llm_reservation (f r)) xs b) = stage_reserves b"
  by (induction xs arbitrary: b) simp_all

lemma fold_release_reservations:
  "set (llm_reservations (fold (\<lambda>r. release_llm_reservation (f r)) xs b)) =
     {kr \<in> set (llm_reservations b). fst kr \<notin> f ` set xs}"
  by (induction xs arbitrary: b) (auto simp: set_dpop)

lemma budget_inv_fold_release:
  "budget_inv X b \<Longrightarrow> budget_inv X (fold (\<lambda>r. release_llm_reservation (f r)) xs b)"
  by (induction xs arbitrary: b) (auto intro: budget_inv_release)

lemma budget_inv_release_lease:
  assumes "budget_inv {} b"
  shows "budget_inv {} (release_worker_lease now k b)"
proof (cases "k = [] \<or> dget (worker_leases b) k = None")
  case True
  then show ?thesis using assms by (auto simp: release_worker_lease_def)
next
  case False
  then obtain l where l: "dget (worker_leases b) k = Some l" and k: "k \<noteq> []" by auto
  let ?b1 = "b\<lparr>worker_leases := dpop k (worker_leases b)\<rparr>"
  let ?owned = "filter (\<lambda>r. lr_worker_task_id r = wl_task_id l) (map snd (llm_reservations b))"
  let ?b2 = "fold (\<lambda>r. release_llm_reservation (lr_reservation_id r)) ?owned ?b1"
  have rok: "reservations_ok (llm_reservations b)"
    using assms accountsD by (simp add: budget_inv_def)
  have "budget_inv {wl_task_id l} ?b1"
    using assms accounts_open [OF _ l] by (simp add: budget_inv_def)
  then have inv2: "budget_inv {wl_task_id l} ?b2" by (rule budget_inv_fold_release)
  have gone: "lr_worker_task_id r \<noteq> wl_task_id l" if r: "(k', r) \<in> set (llm_reservations ?b2)" for k' r
  proof
    assume "lr_worker_task_id r = wl_task_id l"
    moreover have "(k', r) \<in> set (llm_reservations b)" using r by (simp add: fold_release_reservations)
    ultimately have "k' \<in> lr_reservation_id ` set ?owned"
      using reservations_ok_in [OF rok] by (force simp: image_iff)
    then show False using r by (simp add: fold_release_reservations)
  qed
  have "budget_inv {} ?b2"
    unfolding budget_inv_def by (rule accounts_close [OF inv2 [unfolded budget_inv_def] gone])
  then show ?thesis using l k by (simp add: release_worker_lease_def Let_def budget_inv_def)
qed

end
