(* ===== verification/RunBudgetProps.thy ===== *)
theory RunBudgetProps
  imports RunBudgetInv
begin

text \<open>
  Runs of the run budget manager and what holds in all of them: exact accounting, the call
  and token ceilings, the caps of a worker lease, and the atomicity of a denial.
\<close>

section \<open>Operations and runs\<close>

datatype budget_op =
    OpSync int int int
  | OpCapTools int
  | OpCommitTokens int
  | OpNoteLlm
  | OpTools int
  | OpForce
  | OpMarkForce
  | OpLease string string "int option" "int option" "int option" "int option" string
  | OpReleaseLease string
  | OpGrant string
  | OpReserve string int string string
  | OpCommit string int
  | OpRelease string

fun budget_step :: "pyfloat \<Rightarrow> budget_op \<Rightarrow> run_budget \<Rightarrow> run_budget" where
  "budget_step now (OpSync u c t) b = sync_from_usage now u c t b"
| "budget_step now (OpCapTools n) b = cap_tool_calls now n b"
| "budget_step now (OpCommitTokens n) b = commit_tokens now n b"
| "budget_step now OpNoteLlm b = note_llm_call now b"
| "budget_step now (OpTools n) b = fst (reserve_tool_calls now n b)"
| "budget_step now OpForce b = fst (force_synthesis now b)"
| "budget_step now OpMarkForce b = mark_force_synthesis b"
| "budget_step now (OpLease uuid t mc ce pw mo st) b = fst (reserve_worker_lease now uuid t mc ce pw mo st b)"
| "budget_step now (OpReleaseLease k) b = release_worker_lease now k b"
| "budget_step now (OpGrant t) b = fst (grant_worker_finalization_call t b)"
| "budget_step now (OpReserve uuid n t ph) b = fst (reserve_llm_call uuid n t ph b)"
| "budget_step now (OpCommit k n) b = commit_llm_usage now k n b"
| "budget_step now (OpRelease k) b = release_llm_reservation k b"

text \<open>A generated identifier has not been used by a lease or reservation still in the tables.\<close>

fun fresh_op :: "run_budget \<Rightarrow> budget_op \<Rightarrow> bool" where
  "fresh_op b (OpLease uuid t mc ce pw mo st) = (dget (worker_leases b) (''lease_'' @ uuid) = None)"
| "fresh_op b (OpReserve uuid n t ph) = (dget (llm_reservations b) (''llmres_'' @ uuid) = None)"
| "fresh_op b _ = True"

inductive budget_run :: "(run_budget \<Rightarrow> budget_op \<Rightarrow> bool) \<Rightarrow> run_budget \<Rightarrow> run_budget \<Rightarrow> bool"
  for P :: "run_budget \<Rightarrow> budget_op \<Rightarrow> bool" and b0 :: run_budget where
  initial: "budget_run P b0 b0"
| operate: "budget_run P b0 b \<Longrightarrow> fresh_op b op \<Longrightarrow> P b op \<Longrightarrow> budget_run P b0 (budget_step now op b)"

definition any_op :: "run_budget \<Rightarrow> budget_op \<Rightarrow> bool" where
  "any_op b op = True"

text \<open>
  Operations that go through authorisation: usage reported from outside (\<open>sync_from_usage\<close>,
  \<open>commit_tokens\<close>, \<open>note_llm_call\<close>) is not limited by the manager.
\<close>

fun authorised_op :: "run_budget \<Rightarrow> budget_op \<Rightarrow> bool" where
  "authorised_op b (OpSync u c t) = False"
| "authorised_op b (OpCommitTokens n) = False"
| "authorised_op b OpNoteLlm = False"
| "authorised_op b op = True"

text \<open>\<dots> and the usage committed for a call is within its estimate.\<close>

fun honest_op :: "run_budget \<Rightarrow> budget_op \<Rightarrow> bool" where
  "honest_op b (OpCommit k n) =
     (case dget (llm_reservations b) k of None \<Rightarrow> True | Some r \<Rightarrow> n \<le> estimated_tokens r)"
| "honest_op b op = authorised_op b op"

lemma budget_run_mono: "budget_run P b0 b \<Longrightarrow> (\<And>b op. P b op \<Longrightarrow> Q b op) \<Longrightarrow> budget_run Q b0 b"
  by (induction rule: budget_run.induct) (auto intro: budget_run.intros)

section \<open>Replaying a list of operations\<close>

fun exec_ops :: "(run_budget \<Rightarrow> budget_op \<Rightarrow> bool) \<Rightarrow> pyfloat \<Rightarrow> run_budget \<Rightarrow> budget_op list \<Rightarrow> run_budget option" where
  "exec_ops P now b [] = Some b"
| "exec_ops P now b (op # ops) =
     (if fresh_op b op \<and> P b op then exec_ops P now (budget_step now op b) ops else None)"

lemma budget_run_trans: "budget_run P b1 b2 \<Longrightarrow> budget_run P b0 b1 \<Longrightarrow> budget_run P b0 b2"
  by (induction rule: budget_run.induct) (auto intro: budget_run.operate)

lemma exec_ops_run: "exec_ops P now b ops = Some b' \<Longrightarrow> budget_run P b b'"
  by (induction ops arbitrary: b)
     (auto split: if_splits intro: budget_run.initial budget_run_trans [OF _ budget_run.operate [OF budget_run.initial]])

definition example_budget :: "int \<Rightarrow> int \<Rightarrow> run_budget" where
  "example_budget tokens calls =
     init_run_budget tokens calls 10 0
       (Some \<lparr>pp_understand_plan = 1 / 16, pp_research = 1 / 2, pp_supervisor = 1 / 8,
              pp_synthesis = 1 / 4, pp_quality = 1 / 16\<rparr>) 8 0 0 3
       [(''research'', 1 / 2), (''repair'', 1 / 8), (''report'', 1 / 4), (''verification'', 1 / 8)]"

definition example_ops :: "budget_op list" where
  "example_ops =
     [OpLease ''1'' ''t1'' (Some 3) (Some 300) None None ''research'',
      OpReserve ''a'' 100 ''t1'' ''worker'', OpReserve ''b'' 50 [] ''plan'',
      OpCommit ''llmres_a'' 90, OpGrant ''t1'', OpReserve ''c'' 60 ''t1'' ''Execute'',
      OpRelease ''llmres_b'', OpReserve ''d'' 40 [] ''report'']"

definition example_state :: "(run_budget \<Rightarrow> budget_op \<Rightarrow> bool) \<Rightarrow> run_budget option" where
  "example_state P = exec_ops P 0 (example_budget 1000 5) example_ops"

lemma example_run: "example_state P = Some b \<Longrightarrow> budget_run P (example_budget 1000 5) b"
  unfolding example_state_def by (rule exec_ops_run)

section \<open>Every operation keeps the accounts\<close>

lemma inv_init: "budget_inv {} (init_run_budget t c tools d p pw st rs par sr)"
  by (simp add: budget_inv_def init_run_budget_def accounts_Nil)

text \<open>What requesting a lease can do: a recorded denial, or a new row with the caps clamped.\<close>

definition lease_outcome ::
  "string \<Rightarrow> string \<Rightarrow> run_budget \<Rightarrow> run_budget \<times> string \<times> string \<Rightarrow> bool" where
  "lease_outcome uuid t b res \<longleftrightarrow>
     (\<exists>scope resource reason used reserved limit.
        res = (emit_denied scope resource reason t used reserved limit b, [], reason) \<and> reason \<noteq> []) \<or>
     (\<exists>l. res = (put_lease l b, ''lease_'' @ uuid, []) \<and> wl_lease_id l = ''lease_'' @ uuid \<and>
        wl_task_id l = t \<and> wl_used_tokens l = 0 \<and> in_flight_tokens l = 0 \<and> wl_llm_calls l = 0 \<and>
        finalization_calls l = 0 \<and> 1 \<le> wl_max_llm_calls l \<and> 0 \<le> token_ceiling l \<and>
        wl_stage l \<in> {''research'', ''repair''} \<and>
        (token_limit b > 0 \<longrightarrow> token_ceiling l \<le>
           token_limit b - used_tokens b - reserved_nonworker_tokens b - active_worker_reserved_tokens b))"

lemma lease_outcome_denied:
  "reason \<noteq> [] \<Longrightarrow> lease_outcome uuid t b (emit_denied scope resource reason t used reserved limit b, [], reason)"
  unfolding lease_outcome_def by blast

lemma lease_outcome_granted:
  "wl_lease_id l = ''lease_'' @ uuid \<Longrightarrow> wl_task_id l = t \<Longrightarrow> wl_used_tokens l = 0 \<Longrightarrow>
     in_flight_tokens l = 0 \<Longrightarrow> wl_llm_calls l = 0 \<Longrightarrow> finalization_calls l = 0 \<Longrightarrow>
     1 \<le> wl_max_llm_calls l \<Longrightarrow> 0 \<le> token_ceiling l \<Longrightarrow> wl_stage l \<in> {''research'', ''repair''} \<Longrightarrow>
     (token_limit b > 0 \<Longrightarrow> token_ceiling l \<le>
        token_limit b - used_tokens b - reserved_nonworker_tokens b - active_worker_reserved_tokens b) \<Longrightarrow>
     lease_outcome uuid t b (put_lease l b, ''lease_'' @ uuid, [])"
  unfolding lease_outcome_def by blast

lemma if_intro: "(c \<Longrightarrow> P x) \<Longrightarrow> (\<not> c \<Longrightarrow> P y) \<Longrightarrow> P (if c then x else y)"
  by simp

lemma clamp_le: "\<not> (0 < n \<and> r \<le> 0) \<Longrightarrow> 0 < n \<Longrightarrow> max 0 (if 0 < n then min x r else x) \<le> (r::int)"
  by simp

lemma if_in_pair: "(if c then x else y) \<in> {y, x}"
  by simp

lemma reserve_worker_lease_outcome:
  "lease_outcome uuid t b (reserve_worker_lease now uuid t mc ce pw mo st b)"
  unfolding reserve_worker_lease_def Let_def
  by (rule if_intro [where P = "lease_outcome uuid t b"], erule lease_outcome_denied,
    rule if_intro [where P = "lease_outcome uuid t b"], rule lease_outcome_denied, rule list.distinct(2),
    rule if_intro [where P = "lease_outcome uuid t b"], rule lease_outcome_denied, rule list.distinct(2),
    rule lease_outcome_granted)
   (simp_all (no_asm) only: worker_lease.simps if_in_pair max.cobounded1, rule clamp_le, assumption+)

lemma inv_lease:
  assumes "budget_inv {} b" and "dget (worker_leases b) (''lease_'' @ uuid) = None"
  shows "budget_inv {} (fst (reserve_worker_lease now uuid t mc ce pw mo st b))"
  using reserve_worker_lease_outcome [of uuid t b now mc ce pw mo st] assms
  by (auto simp: lease_outcome_def budget_inv_def put_lease_def intro!: accounts_new_lease)

lemma inv_grant:
  assumes "budget_inv {} b"
  shows "budget_inv {} (fst (grant_worker_finalization_call t b))"
proof (cases "snd (grant_worker_finalization_call t b)")
  case False
  then have "fst (grant_worker_finalization_call t b) = b"
    by (auto simp: grant_worker_finalization_call_def split: option.splits if_splits)
  then show ?thesis using assms by simp
next
  case True
  then obtain l where l: "first_lease (worker_leases b) t = Some l"
    by (auto simp: grant_worker_finalization_call_def find_lease_def split: option.splits)
  have a: "accounts {} (worker_leases b) (llm_reservations b) (reserved_nonworker_tokens b) (reserved_llm_calls b)"
    using assms by (simp add: budget_inv_def)
  note D = accountsD [OF a]
  let ?l = "l\<lparr>wl_max_llm_calls := wl_max_llm_calls l + 1, finalization_calls := finalization_calls l + 1\<rparr>"
  have tl: "wl_task_id l = t" and "\<exists>k. (k, l) \<in> set (worker_leases b)" using first_leaseD [OF l] by auto
  then have fl: "in_flight_tokens l = held (worker_leases b) (llm_reservations b) l"
    using accounts_in_flight [OF a] by auto
  have "accounts {} (dput (wl_lease_id l) ?l (worker_leases b)) (llm_reservations b)
      (reserved_nonworker_tokens b) (reserved_llm_calls b)"
  proof (cases "t = []")
    case False
    then show ?thesis using fl l tl D
      by (intro accounts_update [OF a]) (auto simp: held_def)
  next
    case True
    have "held (dput (wl_lease_id l) ?l (worker_leases b)) (llm_reservations b) m =
        held (worker_leases b) (llm_reservations b) m"
      if "(k, m) \<in> set (worker_leases b)" "k \<noteq> wl_lease_id l" for k m
      using that l tl by (intro held_update_other [OF D(1)]) auto
    moreover have "held (dput (wl_lease_id l) ?l (worker_leases b)) (llm_reservations b) ?l = 0"
      using tl True by (simp add: held_def)
    moreover have "held (worker_leases b) (llm_reservations b) l = 0" using tl True by (simp add: held_def)
    ultimately have rows: "in_flight_tokens m = held (dput (wl_lease_id l) ?l (worker_leases b)) (llm_reservations b) m"
      if "(k, m) \<in> set (dput (wl_lease_id l) ?l (worker_leases b))" for k m
      using that accounts_in_flight [OF a, of k m] fl D(1) by (auto simp: set_dput leases_ok_def)
    have "first_lease (dput (wl_lease_id l) ?l (worker_leases b)) (lr_worker_task_id r) \<noteq> None"
      if "(k, r) \<in> set (llm_reservations b)" "lr_worker_task_id r \<noteq> []" for k r
      using accounts_lease_exists [OF a that] l tl first_lease_update [OF D(1), of l ?l] by auto
    then show ?thesis using D rows leases_ok_dput [OF D(1), of ?l "wl_lease_id l"]
      unfolding accounts_def by auto
  qed
  then show ?thesis using True l
    by (auto simp: grant_worker_finalization_call_def find_lease_def budget_inv_def split: if_splits)
qed

text \<open>A reservation that gives a reason has only recorded a denial.\<close>

definition denied_or_done :: "string \<Rightarrow> run_budget \<Rightarrow> run_budget \<times> string \<times> string \<Rightarrow> bool" where
  "denied_or_done t b res \<longleftrightarrow> snd (snd res) = [] \<or>
     (\<exists>scope resource reason used reserved limit.
        res = (emit_denied scope resource reason t used reserved limit b, [], reason) \<and> reason \<noteq> [])"

lemma denied_or_done_denied:
  "reason \<noteq> [] \<Longrightarrow> denied_or_done t b (emit_denied scope resource reason t used reserved limit b, [], reason)"
  unfolding denied_or_done_def by blast

lemma denied_or_done_ok: "denied_or_done t b (b', rid, [])"
  by (simp add: denied_or_done_def)

lemma worker_gate_reason: "worker_gate b t ph n = Inl (resource, reason, used, reserved, limit) \<Longrightarrow> reason \<noteq> []"
  by (auto simp: worker_gate_def split: if_splits option.splits)

lemma reserve_llm_call_denied_or_done: "denied_or_done t b (reserve_llm_call uuid n t ph b)"
proof (cases "worker_gate b t (py_lower ph) (max 1 (if n = 0 then 1 else n))")
  case (Inl d)
  obtain resource reason used reserved limit where d: "d = (resource, reason, used, reserved, limit)"
    by (cases d)
  show ?thesis
    unfolding reserve_llm_call_def Let_def Inl d sum.case prod.case
    by (intro if_intro [where P = "denied_or_done t b"] denied_or_done_denied list.distinct(2)
        worker_gate_reason [OF Inl [unfolded d]])
next
  case (Inr lease)
  show ?thesis
    unfolding reserve_llm_call_def Let_def Inr sum.case
    by (intro if_intro [where P = "denied_or_done t b"] denied_or_done_denied denied_or_done_ok list.distinct(2))
qed

text \<open>What a successful reservation did, for the proofs about \<open>reserve_llm_call\<close>.\<close>

lemma reserve_llm_call_cases:
  obtains (denied) scope resource reason used reserved limit where
    "reserve_llm_call uuid n t ph b = (emit_denied scope resource reason t used reserved limit b, [], reason)"
    "reason \<noteq> []"
  | (nonworker) tokens where "t = []" "1 \<le> tokens"
    "llm_call_limit b > 0 \<longrightarrow> llm_calls b + reserved_llm_calls b < llm_call_limit b"
    "token_limit b > 0 \<longrightarrow> used_tokens b + effective_reserved_tokens b + tokens \<le> token_limit b"
    "py_lower ph \<in> set research_llm_phases \<and> token_limit b > 0 \<longrightarrow>
       used_tokens b + effective_reserved_tokens b + tokens \<le> research_stage_cap_tokens b ''research''"
    "reserve_llm_call uuid n t ph b =
       (b\<lparr>llm_reservations := dput (''llmres_'' @ uuid)
            \<lparr>lr_reservation_id = ''llmres_'' @ uuid, estimated_tokens = tokens, lr_worker_task_id = [],
             lr_phase = py_lower ph\<rparr> (llm_reservations b),
          reserved_llm_calls := reserved_llm_calls b + 1,
          reserved_nonworker_tokens := reserved_nonworker_tokens b + tokens\<rparr>, ''llmres_'' @ uuid, [])"
  | (worker) l tokens where "t \<noteq> []" "1 \<le> tokens" "find_lease b t = Some l"
    "llm_call_limit b > 0 \<longrightarrow> llm_calls b + reserved_llm_calls b < llm_call_limit b"
    "wl_llm_calls l < wl_max_llm_calls l"
    "token_ceiling l > 0 \<longrightarrow> wl_used_tokens l + in_flight_tokens l + tokens \<le> worker_call_limit l (py_lower ph)"
    "token_limit b > 0 \<longrightarrow> used_tokens b + effective_reserved_tokens b + tokens \<le> token_limit b"
    "py_lower ph \<in> set research_llm_phases \<and> token_limit b > 0 \<longrightarrow>
       used_tokens b + effective_reserved_tokens b + tokens \<le> research_stage_cap_tokens b (wl_stage l)"
    "reserve_llm_call uuid n t ph b =
       (put_lease (l\<lparr>in_flight_tokens := in_flight_tokens l + tokens, wl_llm_calls := wl_llm_calls l + 1\<rparr>)
          (b\<lparr>llm_reservations := dput (''llmres_'' @ uuid)
              \<lparr>lr_reservation_id = ''llmres_'' @ uuid, estimated_tokens = tokens, lr_worker_task_id = t,
               lr_phase = py_lower ph\<rparr> (llm_reservations b),
             reserved_llm_calls := reserved_llm_calls b + 1\<rparr>), ''llmres_'' @ uuid, [])"
proof -
  define tokens where "tokens = max 1 (if n = 0 then 1 else n)"
  have pos: "1 \<le> tokens" by (simp add: tokens_def)
  show thesis
  proof (cases "snd (snd (reserve_llm_call uuid n t ph b)) = []")
    case False
    then have "\<exists>scope resource reason used reserved limit.
        reserve_llm_call uuid n t ph b = (emit_denied scope resource reason t used reserved limit b, [], reason) \<and> reason \<noteq> []"
      using reserve_llm_call_denied_or_done [of t b uuid n ph] by (simp add: denied_or_done_def)
    then show thesis using denied by blast
  next
    case True
    then show thesis
    proof (cases "t = []")
      case True
      show thesis
        by (rule nonworker [OF True pos])
           (use \<open>snd (snd _) = []\<close> True in \<open>auto simp: reserve_llm_call_def Let_def worker_gate_def tokens_def split: if_splits\<close>)
    next
      case False
      then obtain l where l: "find_lease b t = Some l"
        using \<open>snd (snd _) = []\<close>
        by (auto simp: reserve_llm_call_def Let_def worker_gate_def split: if_splits option.splits)
      show thesis
        by (rule worker [OF False pos l])
           (use \<open>snd (snd _) = []\<close> False l in \<open>auto simp: reserve_llm_call_def Let_def worker_gate_def tokens_def split: if_splits\<close>)
    qed
  qed
qed

lemma inv_reserve:
  assumes inv: "budget_inv {} b" and fresh: "dget (llm_reservations b) (''llmres_'' @ uuid) = None"
  shows "budget_inv {} (fst (reserve_llm_call uuid n t ph b))"
proof (cases rule: reserve_llm_call_cases [of uuid n t ph b])
  case denied
  then show ?thesis using inv by (simp add: budget_inv_def)
next
  case (nonworker tokens)
  let ?r = "\<lparr>lr_reservation_id = ''llmres_'' @ uuid, estimated_tokens = tokens, lr_worker_task_id = [],
      lr_phase = py_lower ph\<rparr>"
  show ?thesis
    using accounts_reserve_nonworker [OF inv [unfolded budget_inv_def] fresh, of ?r] nonworker(2,6)
    by (simp add: budget_inv_def)
next
  case (worker l tokens)
  let ?r = "\<lparr>lr_reservation_id = ''llmres_'' @ uuid, estimated_tokens = tokens, lr_worker_task_id = t,
      lr_phase = py_lower ph\<rparr>"
  let ?l = "l\<lparr>in_flight_tokens := in_flight_tokens l + tokens, wl_llm_calls := wl_llm_calls l + 1\<rparr>"
  show ?thesis
    using accounts_reserve_worker [OF inv [unfolded budget_inv_def] _ worker(1) fresh, of l ?r ?l] worker(2,3,9)
    by (simp add: budget_inv_def find_lease_def put_lease_def)
qed

lemma inv_commit:
  assumes "budget_inv {} b"
  shows "budget_inv {} (commit_llm_usage now k n b)"
proof (cases "dget (llm_reservations b) k")
  case None
  then show ?thesis using assms by (simp add: commit_llm_usage_def)
next
  case (Some r)
  then show ?thesis
    using budget_inv_unreserve [OF assms Some, of "max 1 (if n = 0 then estimated_tokens r else n)"]
    by (simp add: commit_llm_usage_def Let_def budget_inv_def)
qed

text \<open>The operations that do not touch the tables.\<close>

lemma inv_usage:
  "budget_inv X b \<Longrightarrow> budget_inv X (sync_from_usage now u c tools b)"
  "budget_inv X b \<Longrightarrow> budget_inv X (cap_tool_calls now n b)"
  "budget_inv X b \<Longrightarrow> budget_inv X (commit_tokens now n b)"
  "budget_inv X b \<Longrightarrow> budget_inv X (note_llm_call now b)"
  "budget_inv X b \<Longrightarrow> budget_inv X (fst (reserve_tool_calls now n b))"
  "budget_inv X b \<Longrightarrow> budget_inv X (fst (force_synthesis now b))"
  "budget_inv X b \<Longrightarrow> budget_inv X (mark_force_synthesis b)"
  by (auto simp: budget_inv_def sync_from_usage_def cap_tool_calls_def commit_tokens_def note_llm_call_def
      reserve_tool_calls_def force_synthesis_def mark_force_synthesis_def Let_def)

lemma inv_step: "budget_inv {} b \<Longrightarrow> fresh_op b op \<Longrightarrow> budget_inv {} (budget_step now op b)"
  by (cases op) (simp_all add: inv_usage inv_lease inv_grant inv_reserve inv_commit budget_inv_release
      budget_inv_release_lease)

lemma inv_run: "budget_run P b0 b \<Longrightarrow> budget_inv {} b0 \<Longrightarrow> budget_inv {} b"
  by (induction rule: budget_run.induct) (auto intro: inv_step)

section \<open>The counters are the sums over the in-flight reservations\<close>

lemma dsum_swap: "dsum (\<lambda>x. dsum (f x) d) e = dsum (\<lambda>y. dsum (\<lambda>x. f x y) e) d"
  by (induction e) (simp_all add: dsum_const dsum_add)

lemma dsum_single: "distinct (map snd d) \<Longrightarrow> m \<in> set (map snd d) \<Longrightarrow> dsum (\<lambda>x. if x = m then e else 0) d = e"
proof (induction d)
  case (Cons kv d)
  show ?case
  proof (cases "snd kv = m")
    case True
    then have "dsum (\<lambda>x. if x = m then e else 0) d = dsum (\<lambda>_. 0) d"
      using Cons.prems(1) True by (intro dsum_cong) (auto simp: image_iff)
    then show ?thesis using True by (simp add: dsum_const)
  next
    case False
    then show ?thesis using Cons by auto
  qed
qed simp

lemma leases_ok_distinct: "leases_ok ls \<Longrightarrow> distinct (map snd ls)"
  by (induction ls) (force simp: leases_ok_def)+

lemma leases_sum:
  assumes a: "accounts {} ls rs nw c"
  shows "dsum (\<lambda>l. max 0 (in_flight_tokens l)) ls + nw = dsum estimated_tokens rs"
proof -
  note D = accountsD [OF a]
  let ?g = "\<lambda>l r. if wl_task_id l \<noteq> [] \<and> first_lease ls (wl_task_id l) = Some l \<and>
      lr_worker_task_id r = wl_task_id l then estimated_tokens r else 0"
  have held: "held ls rs l = dsum (?g l) rs" for l
    by (auto simp: held_def task_est_def dsum_const intro!: dsum_cong)
  have inner: "dsum (\<lambda>l. ?g l r) ls = (if lr_worker_task_id r \<noteq> [] then estimated_tokens r else 0)"
    if r: "(k, r) \<in> set rs" for k r
  proof (cases "lr_worker_task_id r = []")
    case True
    then have "dsum (\<lambda>l. ?g l r) ls = dsum (\<lambda>_. 0) ls" by (intro dsum_cong) auto
    then show ?thesis using True by (simp add: dsum_const)
  next
    case False
    then obtain m where m: "first_lease ls (lr_worker_task_id r) = Some m"
      using accounts_lease_exists [OF a r] by auto
    have "dsum (\<lambda>l. ?g l r) ls = dsum (\<lambda>l. if l = m then estimated_tokens r else 0) ls"
      using m False first_leaseD [OF m] by (intro dsum_cong) auto
    also have "\<dots> = estimated_tokens r"
      using dsum_single [OF leases_ok_distinct [OF D(1)]] first_leaseD [OF m] by force
    finally show ?thesis using False by simp
  qed
  have "dsum (\<lambda>l. max 0 (in_flight_tokens l)) ls = dsum (held ls rs) ls"
    using accounts_in_flight [OF a] task_est_nonneg [OF D(2)]
    by (intro dsum_cong) (auto simp: held_def)
  also have "\<dots> = dsum (\<lambda>r. dsum (\<lambda>l. ?g l r) ls) rs" unfolding held by (rule dsum_swap)
  also have "\<dots> = dsum (\<lambda>r. if lr_worker_task_id r \<noteq> [] then estimated_tokens r else 0) rs"
    by (rule dsum_cong) (rule inner)
  finally have "dsum (\<lambda>l. max 0 (in_flight_tokens l)) ls + nw =
      dsum (\<lambda>r. (if lr_worker_task_id r \<noteq> [] then estimated_tokens r else 0) +
        (if lr_worker_task_id r = [] then estimated_tokens r else 0)) rs"
    unfolding dsum_add D(4) task_est_def by simp
  also have "\<dots> = dsum estimated_tokens rs" by (rule dsum_cong) auto
  finally show ?thesis .
qed

lemma inv_effective: "budget_inv {} b \<Longrightarrow> effective_reserved_tokens b = dsum estimated_tokens (llm_reservations b)"
  unfolding budget_inv_def effective_reserved_tokens_def active_worker_reserved_tokens_def
  by (drule leases_sum) simp

lemma inv_reserved_calls: "budget_inv {} b \<Longrightarrow> reserved_llm_calls b = int (length (llm_reservations b))"
  by (simp add: budget_inv_def accounts_def)

lemma inv_reservations: "budget_inv {} b \<Longrightarrow> reservations_ok (llm_reservations b)"
  by (simp add: budget_inv_def accounts_def)

text \<open>
  C1. In every run of the manager, whatever order leases, reservations, commits and releases
  come in, the reserved call counter is the number of reservations in flight and the reserved
  tokens the manager reports are exactly the sum of their estimates: nothing leaks and nothing is
  counted twice, even when a lease is released with calls outstanding.
\<close>

theorem reservations_accounted:
  assumes "budget_run any_op (init_run_budget t c tools d p pw st rs par sr) b"
  shows "reserved_llm_calls b = int (length (llm_reservations b)) \<and>
    effective_reserved_tokens b = dsum estimated_tokens (llm_reservations b)"
  using inv_run [OF assms inv_init] by (simp add: inv_effective inv_reserved_calls)

theorem reservations_accounted_witness:
  "\<exists>b. example_state any_op = Some b \<and> reserved_llm_calls b = 2 \<and> length (llm_reservations b) = 2 \<and>
     effective_reserved_tokens b = dsum estimated_tokens (llm_reservations b)"
proof -
  have e: "map_option reserved_llm_calls (example_state any_op) = Some 2" by code_simp
  then obtain b where b: "example_state any_op = Some b" by auto
  show ?thesis
    using reservations_accounted [OF example_run [OF b, unfolded example_budget_def]] e b by auto
qed

end
