(* ===== verification/RunBudgetLimits.thy ===== *)
theory RunBudgetLimits
  imports RunBudgetProps
begin

text \<open>
  What the run budget manager promises its clients: the call and token ceilings of the run,
  the caps of a worker lease and its finalization reserve, the stage shares, and denials that
  change nothing.
\<close>

section \<open>Totals\<close>

text \<open>Granting a lease or a finalization call leaves the totals of the run alone.\<close>

lemma lease_sel [simp]:
  "llm_reservations (fst (reserve_worker_lease now uuid t mc ce pw mo st b)) = llm_reservations b"
  "llm_calls (fst (reserve_worker_lease now uuid t mc ce pw mo st b)) = llm_calls b"
  "reserved_llm_calls (fst (reserve_worker_lease now uuid t mc ce pw mo st b)) = reserved_llm_calls b"
  "llm_call_limit (fst (reserve_worker_lease now uuid t mc ce pw mo st b)) = llm_call_limit b"
  "used_tokens (fst (reserve_worker_lease now uuid t mc ce pw mo st b)) = used_tokens b"
  "token_limit (fst (reserve_worker_lease now uuid t mc ce pw mo st b)) = token_limit b"
  using reserve_worker_lease_outcome [of uuid t b now mc ce pw mo st]
  by (auto simp: lease_outcome_def)

lemma grant_sel [simp]:
  "llm_reservations (fst (grant_worker_finalization_call t b)) = llm_reservations b"
  "llm_calls (fst (grant_worker_finalization_call t b)) = llm_calls b"
  "reserved_llm_calls (fst (grant_worker_finalization_call t b)) = reserved_llm_calls b"
  "llm_call_limit (fst (grant_worker_finalization_call t b)) = llm_call_limit b"
  "used_tokens (fst (grant_worker_finalization_call t b)) = used_tokens b"
  "token_limit (fst (grant_worker_finalization_call t b)) = token_limit b"
  by (simp_all add: grant_worker_finalization_call_def split: option.split)

lemma release_calls:
  assumes "budget_inv X b"
  shows "llm_calls (release_llm_reservation k b) + reserved_llm_calls (release_llm_reservation k b) =
    llm_calls b + reserved_llm_calls b"
proof (cases "dget (llm_reservations b) k")
  case None
  then show ?thesis by (simp add: release_llm_reservation_def)
next
  case (Some r)
  then have "1 \<le> reserved_llm_calls b"
    using assms by (cases "llm_reservations b") (auto simp: budget_inv_def accounts_def)
  then show ?thesis using Some by (simp add: release_llm_reservation_def Let_def)
qed

lemma fold_release_calls:
  "budget_inv X b \<Longrightarrow>
     llm_calls (fold (\<lambda>r. release_llm_reservation (f r)) xs b) +
       reserved_llm_calls (fold (\<lambda>r. release_llm_reservation (f r)) xs b) =
     llm_calls b + reserved_llm_calls b"
  by (induction xs arbitrary: b) (simp_all add: budget_inv_release release_calls)

lemma commit_calls:
  assumes "budget_inv X b"
  shows "llm_calls (commit_llm_usage now k n b) + reserved_llm_calls (commit_llm_usage now k n b) =
    llm_calls b + reserved_llm_calls b"
proof (cases "dget (llm_reservations b) k")
  case None
  then show ?thesis by (simp add: commit_llm_usage_def)
next
  case (Some r)
  then have "1 \<le> reserved_llm_calls b"
    using assms by (cases "llm_reservations b") (auto simp: budget_inv_def accounts_def)
  then show ?thesis using Some by (simp add: commit_llm_usage_def Let_def)
qed

section \<open>The call ceiling\<close>

definition calls_capped :: "run_budget \<Rightarrow> bool" where
  "calls_capped b \<longleftrightarrow> (llm_call_limit b > 0 \<longrightarrow> llm_calls b + reserved_llm_calls b \<le> llm_call_limit b)"

lemma reserve_call_limit [simp]: "llm_call_limit (fst (reserve_llm_call uuid n t ph b)) = llm_call_limit b"
  by (cases rule: reserve_llm_call_cases [of uuid n t ph b]) simp_all

lemma calls_capped_reserve: "calls_capped b \<Longrightarrow> calls_capped (fst (reserve_llm_call uuid n t ph b))"
  by (cases rule: reserve_llm_call_cases [of uuid n t ph b]) (auto simp: calls_capped_def)

lemma release_lease_calls:
  assumes "budget_inv {} b"
  shows "llm_calls (release_worker_lease now k b) + reserved_llm_calls (release_worker_lease now k b) =
    llm_calls b + reserved_llm_calls b"
proof (cases "dget (worker_leases b) k")
  case None
  then show ?thesis by (simp add: release_worker_lease_def)
next
  case (Some l)
  have "budget_inv {wl_task_id l} (b\<lparr>worker_leases := dpop k (worker_leases b)\<rparr>)"
    using assms accounts_open [OF _ Some] by (simp add: budget_inv_def)
  then show ?thesis using Some by (auto simp: release_worker_lease_def Let_def fold_release_calls)
qed

lemma release_lease_limits [simp]:
  "llm_call_limit (release_worker_lease now k b) = llm_call_limit b"
  "token_limit (release_worker_lease now k b) = token_limit b"
  "used_tokens (release_worker_lease now k b) = used_tokens b"
  by (simp_all add: release_worker_lease_def Let_def split: option.split)

lemma commit_limits [simp]:
  "llm_call_limit (commit_llm_usage now k n b) = llm_call_limit b"
  "token_limit (commit_llm_usage now k n b) = token_limit b"
  by (simp_all add: commit_llm_usage_def Let_def split: option.split)

lemma calls_capped_step:
  assumes "budget_inv {} b" and "calls_capped b" and "authorised_op b op"
  shows "calls_capped (budget_step now op b)"
proof (cases op)
  case (OpReserve uuid n t ph)
  then show ?thesis using assms by (simp add: calls_capped_reserve)
next
  case (OpCapTools n)
  then show ?thesis using assms by (simp add: calls_capped_def cap_tool_calls_def Let_def)
qed (use assms in \<open>simp_all add: calls_capped_def release_calls release_lease_calls commit_calls
      reserve_tool_calls_def force_synthesis_def mark_force_synthesis_def Let_def\<close>)

lemma calls_capped_run:
  "budget_run authorised_op b0 b \<Longrightarrow> budget_inv {} b0 \<Longrightarrow> calls_capped b0 \<Longrightarrow> calls_capped b"
  by (induction rule: budget_run.induct) (auto intro: calls_capped_step dest: inv_run)

text \<open>
  C20. In every run made of authorised operations (leases, finalization grants, reservations,
  commits, releases, tool calls), the calls already made plus the calls in flight never exceed
  the call limit of the run, however they interleave.
\<close>

theorem llm_call_ceiling:
  assumes "budget_run authorised_op (init_run_budget t c tools d p pw st rs par sr) b"
    and "llm_call_limit b > 0"
  shows "llm_calls b + reserved_llm_calls b \<le> llm_call_limit b"
proof -
  have "calls_capped (init_run_budget t c tools d p pw st rs par sr)"
    by (auto simp: calls_capped_def init_run_budget_def)
  then show ?thesis using calls_capped_run [OF assms(1) inv_init] assms(2) by (simp add: calls_capped_def)
qed

theorem llm_call_ceiling_witness:
  "\<exists>b. example_state authorised_op = Some b \<and> llm_calls b = 2 \<and> reserved_llm_calls b = 2 \<and>
     llm_call_limit b = 5 \<and> llm_calls b + reserved_llm_calls b \<le> llm_call_limit b"
proof -
  have e: "map_option (\<lambda>b. (llm_calls b, reserved_llm_calls b, llm_call_limit b))
      (example_state authorised_op) = Some (2, 2, 5)" by code_simp
  then obtain b where b: "example_state authorised_op = Some b" by auto
  have "llm_call_limit b > 0" using e b by simp
  then show ?thesis
    using llm_call_ceiling [OF example_run [OF b, unfolded example_budget_def]] e b by auto
qed

section \<open>The token ceiling\<close>

definition tokens_capped :: "run_budget \<Rightarrow> bool" where
  "tokens_capped b \<longleftrightarrow>
     (token_limit b > 0 \<longrightarrow> used_tokens b + dsum estimated_tokens (llm_reservations b) \<le> token_limit b)"

lemma dsum_release:
  assumes "reservations_ok rs"
  shows "dsum estimated_tokens (dpop k rs) \<le> dsum estimated_tokens rs"
    and "dget rs k = Some r \<Longrightarrow> dsum estimated_tokens (dpop k rs) = dsum estimated_tokens rs - estimated_tokens r"
  using assms reservations_ok_dget [OF assms, of k]
  by (cases "dget rs k"; force simp: dsum_dpop reservations_ok_def)+

lemma dsum_fold_release:
  "reservations_ok (llm_reservations b) \<Longrightarrow>
     dsum estimated_tokens (llm_reservations (fold (\<lambda>r. release_llm_reservation (f r)) xs b))
       \<le> dsum estimated_tokens (llm_reservations b)"
proof (induction xs arbitrary: b)
  case (Cons x xs)
  show ?case
    using Cons.IH [of "release_llm_reservation (f x) b"] dsum_release(1) [OF Cons.prems, of "f x"]
      reservations_ok_dpop [OF Cons.prems] by simp
qed simp

lemma tokens_capped_commit:
  assumes inv: "budget_inv {} b" and "tokens_capped b"
    and n: "\<And>r. dget (llm_reservations b) k = Some r \<Longrightarrow> n \<le> estimated_tokens r"
  shows "tokens_capped (commit_llm_usage now k n b)"
proof (cases "dget (llm_reservations b) k")
  case None
  then show ?thesis using assms by (simp add: commit_llm_usage_def)
next
  case (Some r)
  have ok: "reservations_ok (llm_reservations b)" using inv by (rule inv_reservations)
  have "max 1 (if n = 0 then estimated_tokens r else n) \<le> estimated_tokens r"
    using n [OF Some] reservations_ok_dget [OF ok Some] by simp
  then show ?thesis
    using assms(2) Some dsum_release(2) [OF ok Some]
    by (auto simp: commit_llm_usage_def Let_def tokens_capped_def)
qed

lemma tokens_capped_reserve:
  assumes inv: "budget_inv {} b" and cap: "tokens_capped b"
    and fresh: "dget (llm_reservations b) (''llmres_'' @ uuid) = None"
  shows "tokens_capped (fst (reserve_llm_call uuid n t ph b))"
proof -
  have add: "dsum estimated_tokens (dput (''llmres_'' @ uuid) r (llm_reservations b)) =
      effective_reserved_tokens b + estimated_tokens r" for r
    using inv_reservations [OF inv] fresh
    by (simp add: dsum_dput reservations_ok_def inv_effective [OF inv])
  show ?thesis
    using cap by (cases rule: reserve_llm_call_cases [of uuid n t ph b])
      (auto simp: tokens_capped_def add [simplified])
qed

lemma tokens_capped_release_lease:
  assumes inv: "budget_inv {} b" and cap: "tokens_capped b"
  shows "tokens_capped (release_worker_lease now k b)"
proof (cases "dget (worker_leases b) k")
  case None
  then show ?thesis using cap by (simp add: release_worker_lease_def)
next
  case (Some l)
  note dsum_fold_release [where b = "b\<lparr>worker_leases := dpop k (worker_leases b)\<rparr>" and f = lr_reservation_id,
      simplified, OF inv_reservations [OF inv]]
  note this [of "filter (\<lambda>r. lr_worker_task_id r = wl_task_id l) (map snd (llm_reservations b))"]
  then show ?thesis using cap Some by (auto simp: tokens_capped_def release_worker_lease_def Let_def)
qed

lemma tokens_capped_step:
  assumes inv: "budget_inv {} b" and cap: "tokens_capped b" and "fresh_op b op" and "honest_op b op"
  shows "tokens_capped (budget_step now op b)"
proof (cases op)
  case (OpReserve uuid n t ph)
  then show ?thesis using assms tokens_capped_reserve [OF inv cap, of uuid] by simp
next
  case (OpCommit k n)
  then show ?thesis using assms(4) tokens_capped_commit [OF inv cap, of k n] by (auto split: option.splits)
next
  case (OpRelease k)
  then show ?thesis using cap dsum_release(1) [OF inv_reservations [OF inv], of k] by (auto simp: tokens_capped_def)
next
  case (OpCapTools n)
  then show ?thesis using cap by (simp add: tokens_capped_def cap_tool_calls_def Let_def)
next
  case (OpReleaseLease k)
  then show ?thesis using tokens_capped_release_lease [OF inv cap] by simp
qed (use assms in \<open>simp_all add: tokens_capped_def
      reserve_tool_calls_def force_synthesis_def mark_force_synthesis_def Let_def\<close>)

lemma tokens_capped_run:
  "budget_run honest_op b0 b \<Longrightarrow> budget_inv {} b0 \<Longrightarrow> tokens_capped b0 \<Longrightarrow> tokens_capped b"
  by (induction rule: budget_run.induct) (auto intro: tokens_capped_step dest: inv_run)

text \<open>
  When every committed call stays within its estimate, the tokens used plus the tokens
  reserved for calls in flight never exceed the token limit of the run: concurrent workers cannot
  overdraw it together.
\<close>

theorem token_ceiling_kept:
  assumes "budget_run honest_op (init_run_budget t c tools d p pw st rs par sr) b"
    and "token_limit b > 0"
  shows "used_tokens b + effective_reserved_tokens b \<le> token_limit b"
proof -
  have "tokens_capped (init_run_budget t c tools d p pw st rs par sr)"
    by (auto simp: tokens_capped_def init_run_budget_def)
  then show ?thesis
    using tokens_capped_run [OF assms(1) inv_init] assms(2) inv_effective [OF inv_run [OF assms(1) inv_init]]
    by (simp add: tokens_capped_def)
qed

theorem token_ceiling_kept_witness:
  "\<exists>b. example_state honest_op = Some b \<and> used_tokens b = 90 \<and> effective_reserved_tokens b = 100 \<and>
     used_tokens b + effective_reserved_tokens b \<le> token_limit b"
proof -
  have e: "map_option (\<lambda>b. (used_tokens b, effective_reserved_tokens b, token_limit b))
      (example_state honest_op) = Some (90, 100, 1000)" by code_simp
  then obtain b where b: "example_state honest_op = Some b" by auto
  have "token_limit b > 0" using e b by simp
  then show ?thesis
    using token_ceiling_kept [OF example_run [OF b, unfolded example_budget_def]] e b by auto
qed

section \<open>Denials\<close>

text \<open>
  C23. Asking for an LLM call is all or nothing: either the reservation is granted, with an
  identifier, and nothing is logged, or the reason is returned without an identifier and the only
  change to the manager is one denial event carrying that reason and the task.
\<close>

theorem reserve_llm_call_atomic:
  "case reserve_llm_call uuid n t ph b of (b', rid, reason) \<Rightarrow>
     if reason = [] then rid = ''llmres_'' @ uuid \<and> denials b' = denials b \<and>
       reserved_llm_calls b' = reserved_llm_calls b + 1
     else rid = [] \<and> (\<exists>d. b' = b\<lparr>denials := denials b @ [d]\<rparr> \<and> dn_reason d = reason \<and> dn_task_id d = t)"
proof (cases rule: reserve_llm_call_cases [of uuid n t ph b])
  case denied
  then show ?thesis by (auto simp: emit_denied_def)
next
  case nonworker
  then show ?thesis by simp
next
  case worker
  then show ?thesis by (simp add: put_lease_def)
qed

section \<open>Worker leases\<close>

definition lease_capped :: "worker_lease \<Rightarrow> bool" where
  "lease_capped l \<longleftrightarrow>
     0 \<le> wl_used_tokens l \<and> 0 \<le> in_flight_tokens l \<and> 0 \<le> finalization_calls l \<and> finalization_calls l \<le> 1 \<and>
     wl_llm_calls l \<le> wl_max_llm_calls l \<and>
     (token_ceiling l > 0 \<longrightarrow> wl_used_tokens l + in_flight_tokens l \<le> token_ceiling l)"

definition leases_capped :: "run_budget \<Rightarrow> bool" where
  "leases_capped b \<longleftrightarrow> (\<forall>(k, l) \<in> set (worker_leases b). lease_capped l)"

lemma leases_capped_put: "leases_capped b \<Longrightarrow> lease_capped l \<Longrightarrow> leases_capped (put_lease l b)"
  using set_dput_subset by (fastforce simp: leases_capped_def put_lease_def)

lemma leases_capped_tables [simp]:
  "leases_capped (b\<lparr>llm_reservations := rs, reserved_llm_calls := c\<rparr>) = leases_capped b"
  "leases_capped (maybe_force_synthesis now b) = leases_capped b"
  "leases_capped (emit_denied scope resource reason t used reserved limit b) = leases_capped b"
  by (simp_all add: leases_capped_def)

lemma leases_cappedD: "leases_capped b \<Longrightarrow> find_lease b t = Some l \<Longrightarrow> lease_capped l"
  by (auto simp: leases_capped_def find_lease_def dest!: first_leaseD)

lemma leases_capped_cong: "worker_leases b' = worker_leases b \<Longrightarrow> leases_capped b' = leases_capped b"
  by (simp add: leases_capped_def)

lemma worker_call_limit_le: "token_ceiling l > 0 \<Longrightarrow> worker_call_limit l ph \<le> token_ceiling l"
  by (auto simp: worker_call_limit_def finalization_reserve_def)

lemma leases_capped_reserve:
  assumes "leases_capped b"
  shows "leases_capped (fst (reserve_llm_call uuid n t ph b))"
proof (cases rule: reserve_llm_call_cases [of uuid n t ph b])
  case denied
  then show ?thesis using assms by (simp add: leases_capped_def)
next
  case nonworker
  then show ?thesis using assms by (simp add: leases_capped_def)
next
  case (worker l tokens)
  have "lease_capped (l\<lparr>in_flight_tokens := in_flight_tokens l + tokens, wl_llm_calls := wl_llm_calls l + 1\<rparr>)"
    using leases_cappedD [OF assms worker(3)] worker(2,5,6) worker_call_limit_le [of l "py_lower ph"]
    by (auto simp: lease_capped_def)
  then show ?thesis using assms unfolding worker(9) fst_conv
    by (intro leases_capped_put) simp_all
qed

lemma leases_capped_unreserve:
  assumes "leases_capped b" and "0 \<le> spent" and "1 \<le> estimated_tokens r"
    and "\<And>l. lr_worker_task_id r \<noteq> [] \<Longrightarrow> find_lease b (lr_worker_task_id r) = Some l \<Longrightarrow>
       spent = 0 \<or> spent \<le> estimated_tokens r \<and> estimated_tokens r \<le> in_flight_tokens l"
  shows "leases_capped (unreserve r spent b)"
proof (cases "lr_worker_task_id r = [] \<or> find_lease b (lr_worker_task_id r) = None")
  case True
  then show ?thesis using assms(1) by (auto simp: unreserve_def leases_capped_def)
next
  case False
  then obtain l where l: "find_lease b (lr_worker_task_id r) = Some l" by auto
  have "lease_capped (l\<lparr>wl_used_tokens := wl_used_tokens l + spent,
      in_flight_tokens := max 0 (in_flight_tokens l - estimated_tokens r)\<rparr>)"
    using leases_cappedD [OF assms(1) l] assms(2,3) assms(4) [OF _ l] False by (auto simp: lease_capped_def)
  then show ?thesis using False l assms(1) by (simp add: unreserve_def leases_capped_put)
qed

lemma leases_capped_release:
  assumes "budget_inv X b" and "leases_capped b"
  shows "leases_capped (release_llm_reservation k b)"
proof (cases "dget (llm_reservations b) k")
  case None
  then show ?thesis using assms by (simp add: release_llm_reservation_def)
next
  case (Some r)
  let ?b1 = "b\<lparr>llm_reservations := dpop k (llm_reservations b), reserved_llm_calls := max 0 (reserved_llm_calls b - 1)\<rparr>"
  have "1 \<le> estimated_tokens r"
    using assms(1) Some reservations_ok_dget accountsD(2) by (metis budget_inv_def)
  then have "leases_capped (unreserve r 0 ?b1)"
    using assms(2) by (intro leases_capped_unreserve) (simp_all add: leases_capped_def)
  then show ?thesis using Some by (simp add: release_llm_reservation_def Let_def leases_capped_def)
qed

lemma leases_capped_commit:
  assumes inv: "budget_inv {} b" and cap: "leases_capped b"
    and n: "\<And>r. dget (llm_reservations b) k = Some r \<Longrightarrow> n \<le> estimated_tokens r"
  shows "leases_capped (commit_llm_usage now k n b)"
proof (cases "dget (llm_reservations b) k")
  case None
  then show ?thesis using cap by (simp add: commit_llm_usage_def)
next
  case (Some r)
  let ?b1 = "b\<lparr>llm_reservations := dpop k (llm_reservations b), reserved_llm_calls := max 0 (reserved_llm_calls b - 1)\<rparr>"
  let ?n = "max 1 (if n = 0 then estimated_tokens r else n)"
  have a: "accounts {} (worker_leases b) (llm_reservations b) (reserved_nonworker_tokens b) (reserved_llm_calls b)"
    using inv by (simp add: budget_inv_def)
  note ok = accountsD(2) [OF a]
  have est: "1 \<le> estimated_tokens r" using reservations_ok_dget [OF ok Some] by simp
  have fl: "estimated_tokens r \<le> in_flight_tokens l"
    if "lr_worker_task_id r \<noteq> []" "find_lease ?b1 (lr_worker_task_id r) = Some l" for l
  proof -
    have first: "first_lease (worker_leases b) (lr_worker_task_id r) = Some l"
      using that(2) by (simp add: find_lease_def)
    then have "in_flight_tokens l = task_est (llm_reservations b) (lr_worker_task_id r)"
      using that(1) accounts_in_flight [OF a] first_leaseD [OF first] by (auto simp: held_def)
    then show ?thesis using task_est_ge [OF ok Some] by simp
  qed
  have "leases_capped (unreserve r ?n ?b1)"
    using cap est fl n [OF Some]
    by (intro leases_capped_unreserve) (auto simp: leases_capped_def)
  then show ?thesis using Some by (simp add: commit_llm_usage_def Let_def leases_capped_def)
qed

lemma leases_capped_fold:
  "budget_inv X b \<Longrightarrow> leases_capped b \<Longrightarrow>
     leases_capped (fold (\<lambda>r. release_llm_reservation (f r)) xs b)"
  by (induction xs arbitrary: b) (auto intro: budget_inv_release leases_capped_release)

lemma leases_capped_release_lease:
  assumes "budget_inv {} b" and "leases_capped b"
  shows "leases_capped (release_worker_lease now k b)"
proof (cases "dget (worker_leases b) k")
  case None
  then show ?thesis using assms(2) by (simp add: release_worker_lease_def)
next
  case (Some l)
  let ?b1 = "b\<lparr>worker_leases := dpop k (worker_leases b)\<rparr>"
  have inv: "budget_inv {wl_task_id l} ?b1"
    using assms(1) accounts_open [OF _ Some] by (simp add: budget_inv_def)
  have "leases_capped ?b1"
    using assms(2) set_dpop_subset by (fastforce simp: leases_capped_def)
  note leases_capped_fold [OF inv this, where f = "lr_reservation_id :: llm_reservation \<Rightarrow> string"]
  then show ?thesis using Some assms(2) by (simp add: release_worker_lease_def Let_def)
qed

lemma leases_capped_grant:
  assumes "leases_capped b"
  shows "leases_capped (fst (grant_worker_finalization_call t b))"
proof (cases "find_lease b t")
  case None
  then show ?thesis using assms by (simp add: grant_worker_finalization_call_def)
next
  case (Some l)
  have "finalization_calls l < 1 \<Longrightarrow> leases_capped (put_lease (l\<lparr>wl_max_llm_calls := wl_max_llm_calls l + 1,
      finalization_calls := finalization_calls l + 1\<rparr>) b)"
    using leases_cappedD [OF assms Some] by (intro leases_capped_put [OF assms]) (simp add: lease_capped_def)
  then show ?thesis using assms Some by (auto simp: grant_worker_finalization_call_def)
qed

lemma leases_capped_lease:
  assumes "leases_capped b"
  shows "leases_capped (fst (reserve_worker_lease now uuid t mc ce pw mo st b))"
proof -
  have "lease_capped l" if "wl_used_tokens l = 0" "in_flight_tokens l = 0" "wl_llm_calls l = 0"
    "finalization_calls l = 0" "1 \<le> wl_max_llm_calls l" "0 \<le> token_ceiling l" for l
    using that by (simp add: lease_capped_def)
  then have "leases_capped (put_lease l b)" if "wl_used_tokens l = 0" "in_flight_tokens l = 0"
    "wl_llm_calls l = 0" "finalization_calls l = 0" "1 \<le> wl_max_llm_calls l" "0 \<le> token_ceiling l" for l
    using that by (intro leases_capped_put [OF assms]) simp
  then show ?thesis
    using reserve_worker_lease_outcome [of uuid t b now mc ce pw mo st] assms
    unfolding lease_outcome_def by (elim disjE exE conjE) simp_all
qed

lemma leases_capped_usage:
  "leases_capped b \<Longrightarrow> leases_capped (cap_tool_calls now n b)"
  "leases_capped b \<Longrightarrow> leases_capped (fst (reserve_tool_calls now n b))"
  "leases_capped b \<Longrightarrow> leases_capped (fst (force_synthesis now b))"
  "leases_capped b \<Longrightarrow> leases_capped (mark_force_synthesis b)"
  "leases_capped b \<Longrightarrow> leases_capped (sync_from_usage now u c n b)"
  "leases_capped b \<Longrightarrow> leases_capped (commit_tokens now n b)"
  "leases_capped b \<Longrightarrow> leases_capped (note_llm_call now b)"
  by (simp_all add: leases_capped_def sync_from_usage_def commit_tokens_def note_llm_call_def cap_tool_calls_def reserve_tool_calls_def force_synthesis_def
      mark_force_synthesis_def Let_def)

text \<open>
  What the caps of a lease depend on: the usage committed for a call is within its estimate.  Usage
  reported from outside is allowed, it does not touch a lease.
\<close>

fun commits_within :: "run_budget \<Rightarrow> budget_op \<Rightarrow> bool" where
  "commits_within b (OpCommit k n) =
     (case dget (llm_reservations b) k of None \<Rightarrow> True | Some r \<Rightarrow> n \<le> estimated_tokens r)"
| "commits_within b op = True"

lemma honest_commits: "honest_op b op \<Longrightarrow> commits_within b op"
  by (cases op) simp_all

lemma leases_capped_step:
  assumes inv: "budget_inv {} b" and cap: "leases_capped b" and "commits_within b op"
  shows "leases_capped (budget_step now op b)"
proof (cases op)
  case (OpCommit k n)
  then show ?thesis using assms(3) leases_capped_commit [OF inv cap, of k n] by (auto split: option.splits)
qed (use assms in \<open>simp_all add: leases_capped_usage leases_capped_lease leases_capped_release_lease
      leases_capped_grant leases_capped_reserve leases_capped_release [OF inv]\<close>)

lemma leases_capped_run:
  "budget_run commits_within b0 b \<Longrightarrow> budget_inv {} b0 \<Longrightarrow> leases_capped b0 \<Longrightarrow> leases_capped b"
  by (induction rule: budget_run.induct) (auto intro: leases_capped_step dest: inv_run)

text \<open>
  C22. In every run in which no call is committed above its estimate, usage reported from outside included,
  every worker lease stays within its own caps: its calls never exceed the calls it may make, at most
  one extra finalization call is ever granted, and under a token ceiling the tokens used and in
  flight never exceed it.
\<close>

theorem worker_lease_capped:
  assumes "budget_run commits_within (init_run_budget t c tools d p pw st rs par sr) b"
    and "dget (worker_leases b) k = Some l"
  shows "wl_llm_calls l \<le> wl_max_llm_calls l \<and> finalization_calls l \<le> 1 \<and>
    (token_ceiling l \<le> 0 \<or> wl_used_tokens l + in_flight_tokens l \<le> token_ceiling l)"
proof -
  have "leases_capped (init_run_budget t c tools d p pw st rs par sr)"
    by (simp add: leases_capped_def init_run_budget_def)
  note leases_capped_run [OF assms(1) inv_init this]
  then show ?thesis using map_of_SomeD [OF assms(2)] by (auto simp: leases_capped_def lease_capped_def)
qed

theorem worker_lease_capped_witness:
  "\<exists>b l. exec_ops commits_within 0 (example_budget 1000 5) (OpSync 5 1 2 # example_ops @ [OpCommitTokens 20]) = Some b \<and>
     dget (worker_leases b) ''lease_1'' = Some l \<and> wl_llm_calls l = 2 \<and> finalization_calls l = 1 \<and>
     wl_llm_calls l \<le> wl_max_llm_calls l \<and> wl_used_tokens l + in_flight_tokens l \<le> token_ceiling l"
proof -
  let ?run = "exec_ops commits_within 0 (example_budget 1000 5) (OpSync 5 1 2 # example_ops @ [OpCommitTokens 20])"
  have e: "map_option (\<lambda>b. map_option (\<lambda>l. (wl_llm_calls l, finalization_calls l, token_ceiling l))
      (dget (worker_leases b) ''lease_1'')) ?run = Some (Some (2, 1, 300))" by code_simp
  then obtain b l where b: "?run = Some b" "dget (worker_leases b) ''lease_1'' = Some l"
    by auto
  show ?thesis
    using worker_lease_capped [OF exec_ops_run [OF b(1), unfolded example_budget_def] b(2)] e b by auto
qed

text \<open>
  An LLM call a worker makes outside finalization never touches the share of its lease kept for
  finalizing: once it is reserved, the tokens used and in flight plus the finalization reserve are
  still within the lease's ceiling.
\<close>

theorem finalization_reserve_kept:
  assumes "budget_run honest_op (init_run_budget tk c tools d p pw st rs par sr) b"
    and "t \<noteq> []" and "py_lower ph \<notin> {''finalize'', ''finalization''}"
    and "reserve_llm_call uuid n t ph b = (b', rid, [])"
    and "find_lease b t = Some l" and "token_ceiling l > 0"
  shows "\<exists>l'. dget (worker_leases b') (wl_lease_id l) = Some l' \<and> token_ceiling l' = token_ceiling l \<and>
    wl_used_tokens l' + in_flight_tokens l' + finalization_reserve l' \<le> token_ceiling l'"
proof -
  have "leases_capped (init_run_budget tk c tools d p pw st rs par sr)"
    by (simp add: leases_capped_def init_run_budget_def)
  note cap = leases_cappedD [OF leases_capped_run [OF budget_run_mono [OF assms(1) honest_commits] inv_init this] assms(5)]
  show ?thesis
  proof (cases rule: reserve_llm_call_cases [of uuid n t ph b])
    case denied
    then show ?thesis using assms(4) by simp
  next
    case nonworker
    then show ?thesis using assms(2) by simp
  next
    case (worker m tokens)
    then have "m = l" using assms(5) by simp
    let ?l = "l\<lparr>in_flight_tokens := in_flight_tokens l + tokens, wl_llm_calls := wl_llm_calls l + 1\<rparr>"
    have "dget (worker_leases b') (wl_lease_id l) = Some ?l"
      using worker(9) assms(4) \<open>m = l\<close> by (auto simp: put_lease_def)
    moreover have "finalization_reserve ?l = finalization_reserve l" by (simp add: finalization_reserve_def)
    moreover have "wl_used_tokens l + in_flight_tokens l + tokens + finalization_reserve l \<le> token_ceiling l"
      using worker(2,6) assms(3,6) cap \<open>m = l\<close> by (auto simp: worker_call_limit_def lease_capped_def)
    ultimately show ?thesis by auto
  qed
qed

theorem finalization_reserve_kept_witness:
  "\<exists>b b' rid l'. example_state honest_op = Some b \<and> reserve_llm_call ''z'' 100 ''t1'' ''worker'' b = (b', rid, []) \<and>
     dget (worker_leases b') ''lease_1'' = Some l' \<and>
     wl_used_tokens l' + in_flight_tokens l' + finalization_reserve l' \<le> 300"
proof -
  have e: "map_option (\<lambda>b. (snd (snd (reserve_llm_call ''z'' 100 ''t1'' ''worker'' b)),
        map_option (\<lambda>l. (wl_lease_id l, token_ceiling l)) (find_lease b ''t1''))) (example_state honest_op)
      = Some ([], Some (''lease_1'', 300))" by code_simp
  then obtain b l where b: "example_state honest_op = Some b" "find_lease b ''t1'' = Some l"
    "wl_lease_id l = ''lease_1''" "token_ceiling l = 300" by auto
  obtain b' rid where r: "reserve_llm_call ''z'' 100 ''t1'' ''worker'' b = (b', rid, [])"
    using e b(1) by (cases "reserve_llm_call ''z'' 100 ''t1'' ''worker'' b") auto
  have ph: "py_lower ''worker'' \<notin> {''finalize'', ''finalization''}" by code_simp
  show ?thesis
    using finalization_reserve_kept [OF example_run [OF b(1), unfolded example_budget_def] _ ph r b(2)] b r by auto
qed

section \<open>Stage shares\<close>

lemma stage_reserve_default:
  assumes "stage_reserves b = default_stage_reserves"
  shows "stage_reserve_tokens b ''research'' = max 0 (trunc (fmul_int (token_limit b) (fl (of_int 60 / of_int 100))))"
    and "stage_reserve_tokens b ''repair'' = max 0 (trunc (fmul_int (token_limit b) (fl (of_int 15 / of_int 100))))"
    and "stage_reserve_tokens b ''report'' = max 0 (trunc (fmul_int (token_limit b) (fl (of_int 15 / of_int 100))))"
    and "stage_reserve_tokens b ''verification'' = max 0 (trunc (fmul_int (token_limit b) (fl (of_int 10 / of_int 100))))"
proof -
  have "max 0 (min 1 (fl (60 / 100))) = fl (60 / 100)" "max 0 (min 1 (fl (15 / 100))) = fl (15 / 100)"
    "max 0 (min 1 (fl (10 / 100))) = fl (10 / 100)" by code_simp+
  then show "stage_reserve_tokens b ''research'' = max 0 (trunc (fmul_int (token_limit b) (fl (of_int 60 / of_int 100))))"
    and "stage_reserve_tokens b ''repair'' = max 0 (trunc (fmul_int (token_limit b) (fl (of_int 15 / of_int 100))))"
    and "stage_reserve_tokens b ''report'' = max 0 (trunc (fmul_int (token_limit b) (fl (of_int 15 / of_int 100))))"
    and "stage_reserve_tokens b ''verification'' = max 0 (trunc (fmul_int (token_limit b) (fl (of_int 10 / of_int 100))))"
    by (simp_all only: stage_reserve_tokens_def assms default_stage_reserves_def Let_def map_of.simps
        fst_conv snd_conv of_int_numeral list.inject char.inject option.case if_True if_False
        list.distinct simp_thms fun_upd_apply)
qed

lemma default_shares_fit:
  assumes "stage_reserves b = default_stage_reserves" and "0 \<le> token_limit b" and "token_limit b < 2 ^ 40"
  shows "stage_reserve_tokens b ''research'' + stage_reserve_tokens b ''repair'' +
    stage_reserve_tokens b ''report'' + stage_reserve_tokens b ''verification'' \<le> token_limit b"
  using trunc_fraction_le [OF assms(2,3), of 60 100] trunc_fraction_le [OF assms(2,3), of 15 100]
    trunc_fraction_le [OF assms(2,3), of 10 100] assms(2)
  unfolding stage_reserve_default [OF assms(1)] by simp

lemma research_call_within_shares:
  assumes inv: "budget_inv {} b" and lim: "token_limit b > 0" and ph: "py_lower ph \<in> set research_llm_phases"
    and fresh: "dget (llm_reservations b) (''llmres_'' @ uuid) = None"
    and ok: "reserve_llm_call uuid n t ph b = (b', rid, [])"
  shows "used_tokens b' + effective_reserved_tokens b' \<le>
      stage_reserve_tokens b ''research'' + stage_reserve_tokens b ''repair''"
    and "token_limit b' = token_limit b" and "stage_reserves b' = stage_reserves b"
proof -
  have inv': "budget_inv {} b'" using inv_reserve [OF inv fresh, of n t ph] ok by simp
  have nonneg: "0 \<le> stage_reserve_tokens b s" for s by (simp add: stage_reserve_tokens_def Let_def)
  have cap: "research_stage_cap_tokens b s \<le> stage_reserve_tokens b ''research'' + stage_reserve_tokens b ''repair''" for s
    using nonneg [of "''repair''"] by (simp add: research_stage_cap_tokens_def Let_def)
  have add: "dsum estimated_tokens (dput (''llmres_'' @ uuid) r (llm_reservations b)) =
      effective_reserved_tokens b + estimated_tokens r" for r
    using inv_reservations [OF inv] fresh
    by (simp add: dsum_dput reservations_ok_def inv_effective [OF inv])
  have "used_tokens b' + dsum estimated_tokens (llm_reservations b') \<le>
      stage_reserve_tokens b ''research'' + stage_reserve_tokens b ''repair'' \<and>
      token_limit b' = token_limit b \<and> stage_reserves b' = stage_reserves b"
  proof (cases rule: reserve_llm_call_cases [of uuid n t ph b])
    case denied
    then show ?thesis using ok by simp
  next
    case (nonworker tokens)
    show ?thesis
      using nonworker(5) lim ph cap [of "''research''"] ok unfolding nonworker(6)
      by (auto simp: add [simplified])
  next
    case (worker l tokens)
    show ?thesis
      using worker(8) lim ph cap [of "wl_stage l"] ok unfolding worker(9)
      by (auto simp: add [simplified] put_lease_def)
  qed
  then show "used_tokens b' + effective_reserved_tokens b' \<le>
      stage_reserve_tokens b ''research'' + stage_reserve_tokens b ''repair''"
    and "token_limit b' = token_limit b" and "stage_reserves b' = stage_reserves b"
    by (simp_all add: inv_effective [OF inv'])
qed

text \<open>
  C21. With the default stage shares (60\% research, 15\% repair, 15\% report, 10\% verification,
  as binary64 products) and a limit below \<open>2 ^ 40\<close>, a research or repair call that is granted
  leaves the report and verification shares untouched: what is used and reserved after it plus both
  shares is within the run's token limit.
\<close>

theorem report_share_protected:
  assumes "budget_run any_op (init_run_budget tk c tools d p pw st rs par sr) b"
    and "stage_reserves b = default_stage_reserves" and "token_limit b > 0" and "token_limit b < 2 ^ 40"
    and "py_lower ph \<in> set research_llm_phases"
    and "dget (llm_reservations b) (''llmres_'' @ uuid) = None"
    and "reserve_llm_call uuid n t ph b = (b', rid, [])"
  shows "used_tokens b' + effective_reserved_tokens b' +
    stage_reserve_tokens b' ''report'' + stage_reserve_tokens b' ''verification'' \<le> token_limit b'"
proof -
  note R = research_call_within_shares [OF inv_run [OF assms(1) inv_init] assms(3,5,6,7)]
  have "stage_reserve_tokens b' s = stage_reserve_tokens b s" for s
    by (simp only: stage_reserve_tokens_def R(2,3))
  then show ?thesis using R default_shares_fit [OF assms(2)] assms(3,4) by simp
qed

theorem report_share_protected_witness:
  "\<exists>b' rid. reserve_llm_call ''a'' 500 [] ''research'' (init_run_budget 1000 0 0 0 None 8 0 0 3 []) = (b', rid, []) \<and>
     used_tokens b' + effective_reserved_tokens b' +
     stage_reserve_tokens b' ''report'' + stage_reserve_tokens b' ''verification'' \<le> token_limit b'"
proof -
  let ?b = "init_run_budget 1000 0 0 0 None 8 0 0 3 []"
  have e: "snd (snd (reserve_llm_call ''a'' 500 [] ''research'' ?b)) = []" by code_simp
  obtain b' rid where r: "reserve_llm_call ''a'' 500 [] ''research'' ?b = (b', rid, [])"
    using e by (cases "reserve_llm_call ''a'' 500 [] ''research'' ?b") auto
  have ph: "py_lower ''research'' \<in> set research_llm_phases" by code_simp
  have d: "stage_reserves ?b = default_stage_reserves"
    and lim: "token_limit ?b = 1000" "llm_reservations ?b = []"
    by (simp_all add: init_run_budget_def dmerge_def)
  show ?thesis
    using report_share_protected [OF budget_run.initial d _ _ ph _ r] lim r by auto
qed

end
