(* ===== verification/StepBudget.thy ===== *)
theory StepBudget
  imports RunBudgetOps PyVal
begin

text \<open>
  The retrieval budget of one worker (\<open>app/agent/harness/step_budget.py\<close>): search queries,
  fetched sources and tool invocations, the soft finalization mode, and the tool calls a worker
  takes from the manager of the run.  The source finds budget, manager and task in context
  variables; they are the fields of one context here, and the manager is any type with the two
  methods the source calls (\<open>reserve_tool_calls\<close>, \<open>worker_lease_snapshot\<close>), which are
  arguments.
\<close>

section \<open>State\<close>

datatype block_message = STOP_JSON_MESSAGE | FINALIZE_JSON_MESSAGE

record budget_block =
  bb_message :: block_message
  bb_resource :: string
  bb_reason :: string
  bb_used :: int
  bb_limit :: int

definition is_soft_finalization :: "budget_block \<Rightarrow> bool" where
  "is_soft_finalization blk \<longleftrightarrow> bb_reason blk \<in> {''soft_deadline_finalize'', ''soft_budget_finalize''}"

record retrieval_budget =
  search_queries_limit :: "int option"
  fetch_sources_limit :: "int option"
  tool_invocations_limit :: "int option"
  search_queries_used :: int
  fetch_sources_used :: int
  tool_invocations_used :: int
  soft_deadline_at :: "pyfloat option"
  finalization_reason :: string
  admitted_evidence_count :: int

definition retrieval_count :: "retrieval_budget \<Rightarrow> int" where
  "retrieval_count w = search_queries_used w + fetch_sources_used w"

definition limit_int :: "int option \<Rightarrow> int" where
  "limit_int x = (case x of None \<Rightarrow> 0 | Some n \<Rightarrow> n)"

definition retrieval_snapshot :: "retrieval_budget \<Rightarrow> int dict" where
  "retrieval_snapshot w =
     [(''search_queries_used'', search_queries_used w),
      (''search_queries_limit'', limit_int (search_queries_limit w)),
      (''fetch_sources_used'', fetch_sources_used w),
      (''fetch_sources_limit'', limit_int (fetch_sources_limit w)),
      (''tool_invocations_used'', tool_invocations_used w),
      (''tool_invocations_limit'', limit_int (tool_invocations_limit w))]"

text \<open>The stored artifacts and evidence spans the evidence count reads.\<close>

record stored_artifact =
  sa_artifact_id :: string
  sa_metadata :: pydict

record evidence_span =
  es_artifact_id :: string
  es_metadata :: pydict

record budget_event =
  be_denied :: bool
  be_resource :: string
  be_reason :: string
  be_task_id :: string
  be_used :: int
  be_limit :: int

record 'm step_context =
  worker_budget :: "retrieval_budget option"
  manager :: "'m option"
  worker_task_id :: string
  worker_run_id :: string
  artifacts :: "stored_artifact list"
  spans :: "evidence_span list"
  budget_events :: "budget_event list"

definition clamp_limit :: "int option \<Rightarrow> int option" where
  "clamp_limit x = map_option (max 0) x"

text \<open>Entering the context manager installs a fresh budget and keeps the one to restore.\<close>

definition enter_worker_budget ::
  "int option \<Rightarrow> int option \<Rightarrow> int option \<Rightarrow> pyfloat option \<Rightarrow> 'm step_context \<Rightarrow>
   'm step_context \<times> retrieval_budget option" where
  "enter_worker_budget search_queries fetch_sources tool_invocations deadline c =
     (c\<lparr>worker_budget := Some
         \<lparr>search_queries_limit = clamp_limit search_queries, fetch_sources_limit = clamp_limit fetch_sources,
          tool_invocations_limit = clamp_limit tool_invocations, search_queries_used = 0,
          fetch_sources_used = 0, tool_invocations_used = 0, soft_deadline_at = deadline,
          finalization_reason = [], admitted_evidence_count = 0\<rparr>\<rparr>,
      worker_budget c)"

definition exit_worker_budget :: "retrieval_budget option \<Rightarrow> 'm step_context \<Rightarrow> 'm step_context" where
  "exit_worker_budget token c = c\<lparr>worker_budget := token\<rparr>"

definition remaining_search_queries :: "'m step_context \<Rightarrow> int option" where
  "remaining_search_queries c =
     (case worker_budget c of None \<Rightarrow> None
      | Some w \<Rightarrow> map_option (\<lambda>n. max 0 (n - search_queries_used w)) (search_queries_limit w))"

definition remaining_fetch_sources :: "'m step_context \<Rightarrow> int option" where
  "remaining_fetch_sources c =
     (case worker_budget c of None \<Rightarrow> None
      | Some w \<Rightarrow> map_option (\<lambda>n. max 0 (n - fetch_sources_used w)) (fetch_sources_limit w))"

definition remaining_tool_invocations :: "'m step_context \<Rightarrow> int option" where
  "remaining_tool_invocations c =
     (case worker_budget c of None \<Rightarrow> None
      | Some w \<Rightarrow> map_option (\<lambda>n. max 0 (n - tool_invocations_used w)) (tool_invocations_limit w))"

section \<open>Denials and soft finalization\<close>

definition emit_event :: "bool \<Rightarrow> string \<Rightarrow> string \<Rightarrow> int \<Rightarrow> int \<Rightarrow> 'm step_context \<Rightarrow> 'm step_context" where
  "emit_event denied resource reason used limit c =
     c\<lparr>budget_events := budget_events c @ [\<lparr>be_denied = denied, be_resource = resource, be_reason = reason,
        be_task_id = worker_task_id c, be_used = used, be_limit = limit\<rparr>]\<rparr>"

definition deny :: "string \<Rightarrow> string \<Rightarrow> int \<Rightarrow> int \<Rightarrow> 'm step_context \<Rightarrow> 'm step_context \<times> budget_block option" where
  "deny resource reason used limit c =
     (emit_event True resource reason used limit c,
      Some \<lparr>bb_message = STOP_JSON_MESSAGE, bb_resource = resource, bb_reason = reason, bb_used = used,
            bb_limit = limit\<rparr>)"

definition soft_finalize ::
  "string \<Rightarrow> string \<Rightarrow> int \<Rightarrow> int \<Rightarrow> 'm step_context \<Rightarrow> 'm step_context \<times> budget_block option" where
  "soft_finalize resource reason used limit c =
     (emit_event False resource reason used limit
        (c\<lparr>worker_budget := map_option (\<lambda>w. w\<lparr>finalization_reason := reason\<rparr>) (worker_budget c)\<rparr>),
      Some \<lparr>bb_message = FINALIZE_JSON_MESSAGE, bb_resource = resource, bb_reason = reason, bb_used = used,
            bb_limit = limit\<rparr>)"

definition belongs_to :: "string \<Rightarrow> string \<Rightarrow> pydict \<Rightarrow> bool" where
  "belongs_to task_id run_id metadata \<longleftrightarrow>
     str_or (pget metadata ''task_id'') [] = task_id \<and> str_or (pget metadata ''run_id'') [] = run_id"

definition existing_worker_evidence_count :: "'m step_context \<Rightarrow> int" where
  "existing_worker_evidence_count c =
     (let task_id = worker_task_id c; run_id = worker_run_id c in
      if task_id = [] \<or> run_id = [] then 0
      else let items = filter (\<lambda>a. belongs_to task_id run_id (sa_metadata a)) (artifacts c);
               ids = map sa_artifact_id items;
               found = filter (\<lambda>s. es_artifact_id s \<in> set ids \<or> belongs_to task_id run_id (es_metadata s)) (spans c)
           in int (length items) + int (length found))"

text \<open>\<open>int(n * 0.8)\<close> and the other shares of the thresholds, and \<open>int((n * 4 + 4) / 5)\<close>.\<close>

definition int_share :: "int \<Rightarrow> pyfloat \<Rightarrow> int" where
  "int_share n s = trunc (fmul_int n s)"

definition four_fifths :: "int \<Rightarrow> int" where
  "four_fifths n = trunc (fl (of_int (n * 4 + 4) / 5))"

definition token_threshold :: "int \<Rightarrow> int \<Rightarrow> int" where
  "token_threshold limit projected =
     (let base = max 1 (int_share limit (fl (8 / 10))) in
      if projected > 0
      then min base (max 1 (max (int_share limit (fl (4 / 10))) (limit - 2 * projected)))
      else base)"

definition call_threshold :: "int \<Rightarrow> int \<Rightarrow> int" where
  "call_threshold limit projected =
     (let base = max 1 (max (four_fifths limit) (limit - 2)) in
      if projected > 0
      then min base (max 1 (max (int_share limit (fl (5 / 10))) (limit - 2 * projected)))
      else base)"

definition snapshot_int :: "int dict \<Rightarrow> string \<Rightarrow> int" where
  "snapshot_int d k = (case dget d k of None \<Rightarrow> 0 | Some n \<Rightarrow> n)"

text \<open>Counting the stored evidence when nothing has been retrieved or admitted so far.\<close>

definition recount_evidence :: "'m step_context \<Rightarrow> retrieval_budget \<Rightarrow> retrieval_budget" where
  "recount_evidence c w =
     (if retrieval_count w = 0 \<and> admitted_evidence_count w = 0
      then w\<lparr>admitted_evidence_count := existing_worker_evidence_count c\<rparr> else w)"

definition trigger_worker_soft_finalization_block ::
  "('m \<Rightarrow> string \<Rightarrow> int dict) \<Rightarrow> pyfloat \<Rightarrow> string \<Rightarrow> int \<Rightarrow> int \<Rightarrow> 'm step_context \<Rightarrow>
   'm step_context \<times> budget_block option" where
  "trigger_worker_soft_finalization_block lease_snapshot now resource projected_tokens projected_calls c =
     (case worker_budget c of
        None \<Rightarrow> (c, None)
      | Some w0 \<Rightarrow>
          if finalization_reason w0 \<noteq> [] then (c, None)
          else let w = recount_evidence c w0; c1 = c\<lparr>worker_budget := Some w\<rparr> in
          if retrieval_count w = 0 \<and> admitted_evidence_count w = 0 then (c1, None)
          else if (case soft_deadline_at w of None \<Rightarrow> False | Some d \<Rightarrow> now \<ge> d)
          then soft_finalize resource ''soft_deadline_finalize'' 0 0 c1
          else (case manager c1 of
             None \<Rightarrow> (c1, None)
           | Some m \<Rightarrow>
               if worker_task_id c1 = [] then (c1, None)
               else let snap = lease_snapshot m (worker_task_id c1);
                        tokens_used = snapshot_int snap ''tokens_used'' + snapshot_int snap ''in_flight_tokens''
                          + max 0 projected_tokens;
                        limit_tokens = snapshot_int snap ''token_limit'';
                        calls_used = snapshot_int snap ''llm_calls_used'' + max 0 projected_calls;
                        limit_calls = snapshot_int snap ''llm_calls_limit''
                    in if limit_tokens > 0 \<and> tokens_used \<ge> token_threshold limit_tokens projected_tokens
                       then soft_finalize ''token'' ''soft_budget_finalize'' tokens_used limit_tokens c1
                       else if limit_calls > 0 \<and> calls_used \<ge> call_threshold limit_calls projected_calls
                       then soft_finalize ''llm_call'' ''soft_budget_finalize'' calls_used limit_calls c1
                       else (c1, None)))"

definition soft_finalization_block ::
  "('m \<Rightarrow> string \<Rightarrow> int dict) \<Rightarrow> pyfloat \<Rightarrow> string \<Rightarrow> 'm step_context \<Rightarrow> 'm step_context \<times> budget_block option" where
  "soft_finalization_block lease_snapshot now resource c =
     (case worker_budget c of
        None \<Rightarrow> (c, None)
      | Some w \<Rightarrow>
          if finalization_reason w \<noteq> []
          then (c, Some \<lparr>bb_message = FINALIZE_JSON_MESSAGE, bb_resource = resource,
                  bb_reason = finalization_reason w, bb_used = 0, bb_limit = 0\<rparr>)
          else trigger_worker_soft_finalization_block lease_snapshot now resource 0 0 c)"

definition arm_worker_soft_finalization ::
  "('m \<Rightarrow> string \<Rightarrow> int dict) \<Rightarrow> pyfloat \<Rightarrow> int \<Rightarrow> int \<Rightarrow> 'm step_context \<Rightarrow> 'm step_context \<times> string" where
  "arm_worker_soft_finalization lease_snapshot now projected_tokens projected_calls c =
     (if (case worker_budget c of None \<Rightarrow> False | Some w \<Rightarrow> finalization_reason w \<noteq> [])
      then (c, finalization_reason (the (worker_budget c)))
      else (case trigger_worker_soft_finalization_block lease_snapshot now ''token'' projected_tokens
                   projected_calls c of
              (c', None) \<Rightarrow> (c', [])
            | (c', Some blk) \<Rightarrow> (c', bb_reason blk)))"

section \<open>Consumption\<close>

definition over_limit :: "int option \<Rightarrow> int \<Rightarrow> bool" where
  "over_limit limit n = (case limit of None \<Rightarrow> False | Some m \<Rightarrow> n > m)"

text \<open>The run's reason for refusing one tool call, empty when it is granted or there is no run.\<close>

definition reserve_run_tool_invocation ::
  "(int \<Rightarrow> 'm \<Rightarrow> 'm \<times> bool \<times> string) \<Rightarrow> 'm step_context \<Rightarrow> 'm step_context \<times> string" where
  "reserve_run_tool_invocation rsv c =
     (case manager c of
        None \<Rightarrow> (c, [])
      | Some m \<Rightarrow>
          (case rsv 1 m of (m', allowed, reason) \<Rightarrow>
             (c\<lparr>manager := Some m'\<rparr>,
              if allowed then [] else if reason \<noteq> [] then reason else ''tool_call_cap'')))"

definition at_least_one :: "int \<Rightarrow> int" where
  "at_least_one n = max 1 (if n = 0 then 1 else n)"

definition consume_search_queries_or_block ::
  "(int \<Rightarrow> 'm \<Rightarrow> 'm \<times> bool \<times> string) \<Rightarrow> ('m \<Rightarrow> string \<Rightarrow> int dict) \<Rightarrow> pyfloat \<Rightarrow> int \<Rightarrow> 'm step_context \<Rightarrow>
   'm step_context \<times> budget_block option" where
  "consume_search_queries_or_block rsv lease_snapshot now n c =
     (let count = at_least_one n in
      if worker_budget c = None then (c, None)
      else case soft_finalization_block lease_snapshot now ''search_query'' c of
        (c1, Some blk) \<Rightarrow> (c1, Some blk)
      | (c1, None) \<Rightarrow>
          let w = the (worker_budget c1) in
          if over_limit (search_queries_limit w) (search_queries_used w + count)
          then deny ''search_query'' ''search_query_cap'' (search_queries_used w)
                 (limit_int (search_queries_limit w)) c1
          else if over_limit (tool_invocations_limit w) (tool_invocations_used w + 1)
          then deny ''tool_call'' ''tool_call_cap'' (tool_invocations_used w)
                 (limit_int (tool_invocations_limit w)) c1
          else case reserve_run_tool_invocation rsv c1 of (c2, run_reason) \<Rightarrow>
            if run_reason \<noteq> []
            then deny ''tool_call'' run_reason (tool_invocations_used w) (limit_int (tool_invocations_limit w)) c2
            else (c2\<lparr>worker_budget := Some (w\<lparr>search_queries_used := search_queries_used w + count,
                       tool_invocations_used := tool_invocations_used w + 1\<rparr>)\<rparr>, None))"

definition consume_fetch_sources_or_block ::
  "(int \<Rightarrow> 'm \<Rightarrow> 'm \<times> bool \<times> string) \<Rightarrow> ('m \<Rightarrow> string \<Rightarrow> int dict) \<Rightarrow> pyfloat \<Rightarrow> int \<Rightarrow> 'm step_context \<Rightarrow>
   'm step_context \<times> budget_block option" where
  "consume_fetch_sources_or_block rsv lease_snapshot now n c =
     (let count = at_least_one n in
      if worker_budget c = None then (c, None)
      else case soft_finalization_block lease_snapshot now ''fetch_source'' c of
        (c1, Some blk) \<Rightarrow> (c1, Some blk)
      | (c1, None) \<Rightarrow>
          let w = the (worker_budget c1) in
          if over_limit (fetch_sources_limit w) (fetch_sources_used w + count)
          then deny ''fetch_source'' ''fetch_source_cap'' (fetch_sources_used w)
                 (limit_int (fetch_sources_limit w)) c1
          else if over_limit (tool_invocations_limit w) (tool_invocations_used w + 1)
          then deny ''tool_call'' ''tool_call_cap'' (tool_invocations_used w)
                 (limit_int (tool_invocations_limit w)) c1
          else case reserve_run_tool_invocation rsv c1 of (c2, run_reason) \<Rightarrow>
            if run_reason \<noteq> []
            then deny ''tool_call'' run_reason (tool_invocations_used w) (limit_int (tool_invocations_limit w)) c2
            else (c2\<lparr>worker_budget := Some (w\<lparr>fetch_sources_used := fetch_sources_used w + count,
                       tool_invocations_used := tool_invocations_used w + 1\<rparr>)\<rparr>, None))"

definition consume_tool_invocations_or_block ::
  "(int \<Rightarrow> 'm \<Rightarrow> 'm \<times> bool \<times> string) \<Rightarrow> int \<Rightarrow> 'm step_context \<Rightarrow> 'm step_context \<times> budget_block option" where
  "consume_tool_invocations_or_block rsv n c =
     (let count = at_least_one n in
      case worker_budget c of
        None \<Rightarrow> (c, None)
      | Some w \<Rightarrow>
          if over_limit (tool_invocations_limit w) (tool_invocations_used w + count)
          then deny ''tool_call'' ''tool_call_cap'' (tool_invocations_used w)
                 (limit_int (tool_invocations_limit w)) c
          else case reserve_run_tool_invocation rsv c of (c2, run_reason) \<Rightarrow>
            if run_reason \<noteq> []
            then deny ''tool_call'' run_reason (tool_invocations_used w) (limit_int (tool_invocations_limit w)) c2
            else (c2\<lparr>worker_budget := Some (w\<lparr>tool_invocations_used := tool_invocations_used w + count\<rparr>)\<rparr>, None))"

end
