(* ===== verification/StepBudgetProps.thy ===== *)
theory StepBudgetProps
  imports StepBudget RunBudgetLimits
begin

text \<open>
  What holds of worker retrieval budgets, proved once for any manager that meters tool calls
  (\<open>tool_meter\<close>) and then for the run budget manager: counters within their limits, denials that
  charge nothing, soft finalization, and a pool of workers that share one manager.
\<close>

section \<open>Charging a worker\<close>

definition charged :: "int \<Rightarrow> int \<Rightarrow> int \<Rightarrow> retrieval_budget \<Rightarrow> retrieval_budget \<Rightarrow> bool" where
  "charged s f t w w' \<longleftrightarrow>
     search_queries_limit w' = search_queries_limit w \<and> fetch_sources_limit w' = fetch_sources_limit w \<and>
     tool_invocations_limit w' = tool_invocations_limit w \<and>
     search_queries_used w' = search_queries_used w + s \<and> fetch_sources_used w' = fetch_sources_used w + f \<and>
     tool_invocations_used w' = tool_invocations_used w + t"

definition within_limits :: "retrieval_budget \<Rightarrow> bool" where
  "within_limits w \<longleftrightarrow> \<not> over_limit (search_queries_limit w) (search_queries_used w) \<and>
     \<not> over_limit (fetch_sources_limit w) (fetch_sources_used w) \<and>
     \<not> over_limit (tool_invocations_limit w) (tool_invocations_used w)"

lemma charged_0: "charged 0 0 0 w w"
  by (simp add: charged_def)

lemma at_least_one_pos [simp]: "1 \<le> at_least_one n" "0 \<le> at_least_one n"
  by (simp_all add: at_least_one_def)

lemma emit_event_sel [simp]:
  "worker_budget (emit_event d r s u l c) = worker_budget c"
  "manager (emit_event d r s u l c) = manager c"
  by (simp_all add: emit_event_def)

lemma soft_finalize_outcome:
  assumes "soft_finalize r s u l c = (c', blk)" and "worker_budget c = Some w"
  shows "blk \<noteq> None \<and> manager c' = manager c \<and> (\<exists>w'. worker_budget c' = Some w' \<and> charged 0 0 0 w w')"
  using assms by (auto simp: soft_finalize_def charged_def)

lemma recount_charged: "charged 0 0 0 w (recount_evidence c w)"
  by (simp add: recount_evidence_def charged_def)

text \<open>Evaluating the soft stop never charges the worker and never touches the manager.\<close>

lemma trigger_outcome:
  assumes "trigger_worker_soft_finalization_block snap now r pt pc c = (c', blk)" and "worker_budget c = Some w"
  shows "manager c' = manager c \<and> (\<exists>w'. worker_budget c' = Some w' \<and> charged 0 0 0 w w')"
proof -
  let ?w = "recount_evidence c w"
  let ?c1 = "c\<lparr>worker_budget := Some ?w\<rparr>"
  have fin: "manager d' = manager c \<and> (\<exists>w'. worker_budget d' = Some w' \<and> charged 0 0 0 w w')"
    if "soft_finalize a s u l ?c1 = (d', b)" for a s u l d' b
    using soft_finalize_outcome [OF that, of ?w] recount_charged [of w c] by (auto simp: charged_def)
  have none: "(\<exists>w'. worker_budget ?c1 = Some w' \<and> charged 0 0 0 w w')"
    by (simp add: recount_charged)
  show ?thesis
    using assms fin none charged_0
    by (auto simp: trigger_worker_soft_finalization_block_def Let_def split: if_splits option.splits)
qed

lemma soft_block_outcome:
  assumes "soft_finalization_block snap now r c = (c', blk)" and "worker_budget c = Some w"
  shows "manager c' = manager c \<and> (\<exists>w'. worker_budget c' = Some w' \<and> charged 0 0 0 w w')"
  using assms trigger_outcome [of snap now r 0 0 c c' blk w] charged_0
  by (auto simp: soft_finalization_block_def split: if_splits)

lemma deny_sel:
  "deny r s u l c = (c', blk) \<Longrightarrow> blk \<noteq> None \<and> worker_budget c' = worker_budget c \<and> manager c' = manager c"
  by (auto simp: deny_def)

section \<open>The interface to the manager\<close>

definition metered :: "('m \<Rightarrow> int) \<Rightarrow> ('m \<Rightarrow> int) \<Rightarrow> int \<Rightarrow> 'm option \<Rightarrow> 'm option \<Rightarrow> bool" where
  "metered tool_used tool_cap k m m' \<longleftrightarrow>
     (case (m, m') of
        (None, None) \<Rightarrow> True
      | (Some a, Some b) \<Rightarrow> tool_used b = tool_used a + k \<and> tool_cap b = tool_cap a \<and>
          (k > 0 \<and> tool_cap a > 0 \<longrightarrow> tool_used b \<le> tool_cap a)
      | _ \<Rightarrow> False)"

datatype step_op = Search pyfloat int | Fetch pyfloat int | Tool pyfloat int | Arm pyfloat int int

fun run_step_op ::
  "(pyfloat \<Rightarrow> int \<Rightarrow> 'm \<Rightarrow> 'm \<times> bool \<times> string) \<Rightarrow> ('m \<Rightarrow> string \<Rightarrow> int dict) \<Rightarrow> step_op \<Rightarrow> 'm step_context \<Rightarrow>
   'm step_context \<times> budget_block option" where
  "run_step_op rsv snap (Search now n) c = consume_search_queries_or_block (rsv now) snap now n c"
| "run_step_op rsv snap (Fetch now n) c = consume_fetch_sources_or_block (rsv now) snap now n c"
| "run_step_op rsv snap (Tool now n) c = consume_tool_invocations_or_block (rsv now) n c"
| "run_step_op rsv snap (Arm now pt pc) c = (fst (arm_worker_soft_finalization snap now pt pc c), None)"

text \<open>What an operation charges the worker's counters and the run's when it is granted.\<close>

fun op_charge :: "step_op \<Rightarrow> int \<times> int \<times> int \<times> int" where
  "op_charge (Search now n) = (at_least_one n, 0, 1, 1)"
| "op_charge (Fetch now n) = (0, at_least_one n, 1, 1)"
| "op_charge (Tool now n) = (0, 0, at_least_one n, 1)"
| "op_charge (Arm now pt pc) = (0, 0, 0, 0)"

text \<open>
  The outcome of an operation on a worker with budget \<open>w\<close>: granted and charged to the worker and
  to the run, within the limits it charges, or blocked with nothing charged.
\<close>

definition op_outcome ::
  "('m \<Rightarrow> int) \<Rightarrow> ('m \<Rightarrow> int) \<Rightarrow> int \<times> int \<times> int \<times> int \<Rightarrow> 'm option \<Rightarrow> retrieval_budget \<Rightarrow>
   'm step_context \<times> budget_block option \<Rightarrow> bool" where
  "op_outcome tool_used tool_cap charge m w res \<longleftrightarrow>
     (case charge of (s, f, t, k) \<Rightarrow>
       \<exists>w'. worker_budget (fst res) = Some w' \<and>
         (if snd res = None
          then charged s f t w w' \<and> metered tool_used tool_cap k m (manager (fst res)) \<and>
            (s > 0 \<longrightarrow> \<not> over_limit (search_queries_limit w') (search_queries_used w')) \<and>
            (f > 0 \<longrightarrow> \<not> over_limit (fetch_sources_limit w') (fetch_sources_used w')) \<and>
            (t > 0 \<longrightarrow> \<not> over_limit (tool_invocations_limit w') (tool_invocations_used w'))
          else charged 0 0 0 w w' \<and> metered tool_used tool_cap 0 m (manager (fst res))))"

lemma op_outcome_denied:
  "worker_budget c = Some w' \<Longrightarrow> charged 0 0 0 w w' \<Longrightarrow> metered tu tc 0 m (manager c) \<Longrightarrow>
     op_outcome tu tc ch m w (deny r s u l c)"
  by (auto simp: op_outcome_def deny_def split: prod.split)

lemma op_outcome_blocked:
  "worker_budget c = Some w' \<Longrightarrow> charged 0 0 0 w w' \<Longrightarrow> metered tu tc 0 m (manager c) \<Longrightarrow>
     op_outcome tu tc ch m w (c, Some blk)"
  by (auto simp: op_outcome_def split: prod.split)

lemma op_outcome_granted:
  "worker_budget c = Some w' \<Longrightarrow> charged s f t w w' \<Longrightarrow> metered tu tc k m (manager c) \<Longrightarrow>
     (s > 0 \<Longrightarrow> \<not> over_limit (search_queries_limit w') (search_queries_used w')) \<Longrightarrow>
     (f > 0 \<Longrightarrow> \<not> over_limit (fetch_sources_limit w') (fetch_sources_used w')) \<Longrightarrow>
     (t > 0 \<Longrightarrow> \<not> over_limit (tool_invocations_limit w') (tool_invocations_used w')) \<Longrightarrow>
     op_outcome tu tc (s, f, t, k) m w (c, None)"
  by (auto simp: op_outcome_def)

section \<open>Workers sharing one manager\<close>

text \<open>Every worker has its own context; the manager is the one all of them call.\<close>

fun pool_step ::
  "(pyfloat \<Rightarrow> int \<Rightarrow> 'm \<Rightarrow> 'm \<times> bool \<times> string) \<Rightarrow> ('m \<Rightarrow> string \<Rightarrow> int dict) \<Rightarrow> nat \<times> step_op \<Rightarrow>
   'm \<times> 'm step_context list \<Rightarrow> 'm \<times> 'm step_context list" where
  "pool_step rsv snap (i, op) (m, cs) =
     (if i < length cs
      then let c' = fst (run_step_op rsv snap op ((cs ! i)\<lparr>manager := Some m\<rparr>))
           in (case manager c' of None \<Rightarrow> m | Some m' \<Rightarrow> m', cs[i := c'])
      else (m, cs))"

definition worker_tools :: "'m step_context \<Rightarrow> int" where
  "worker_tools c = (case worker_budget c of None \<Rightarrow> 0 | Some w \<Rightarrow> tool_invocations_used w)"

definition pool_tools :: "'m step_context list \<Rightarrow> int" where
  "pool_tools cs = sum_list (map worker_tools cs)"

definition pool_ok :: "'m step_context list \<Rightarrow> bool" where
  "pool_ok cs \<longleftrightarrow> (\<forall>c \<in> set cs. \<exists>w. worker_budget c = Some w \<and> within_limits w)"

text \<open>An operation that charges one invocation: every search and fetch, and single tool calls.\<close>

fun unit_op :: "step_op \<Rightarrow> bool" where
  "unit_op (Tool now n) = (at_least_one n = 1)"
| "unit_op _ = True"

lemma sum_list_update_int: "i < length xs \<Longrightarrow> sum_list (xs[i := x]) = sum_list xs - xs ! i + (x :: int)"
  by (induction xs arbitrary: i) (auto split: nat.split)

lemma pool_tools_update:
  "i < length cs \<Longrightarrow> pool_tools (cs[i := c]) = pool_tools cs - worker_tools (cs ! i) + worker_tools c"
  by (simp add: pool_tools_def map_update sum_list_update_int)

locale tool_meter =
  fixes rsv :: "pyfloat \<Rightarrow> int \<Rightarrow> 'm \<Rightarrow> 'm \<times> bool \<times> string"
    and tool_used :: "'m \<Rightarrow> int"
    and tool_cap :: "'m \<Rightarrow> int"
  assumes rsv_granted: "rsv now n m = (m', True, r) \<Longrightarrow>
      tool_used m' = tool_used m + at_least_one n \<and> tool_cap m' = tool_cap m \<and>
      (tool_cap m > 0 \<longrightarrow> tool_used m' \<le> tool_cap m)"
    and rsv_refused: "rsv now n m = (m', False, r) \<Longrightarrow> tool_used m' = tool_used m \<and> tool_cap m' = tool_cap m"
begin

lemma metered_refl: "metered tool_used tool_cap 0 m m"
  by (simp add: metered_def split: option.split)

lemma reserve_run_outcome:
  assumes "reserve_run_tool_invocation (rsv now) c = (c', reason)"
  shows "worker_budget c' = worker_budget c \<and>
    metered tool_used tool_cap (if reason = [] then 1 else 0) (manager c) (manager c')"
proof (cases "manager c")
  case None
  then show ?thesis using assms by (auto simp: reserve_run_tool_invocation_def metered_def)
next
  case (Some m)
  obtain m' ok r where r: "rsv now 1 m = (m', ok, r)" by (cases "rsv now 1 m")
  then show ?thesis
    using assms Some rsv_granted [of now 1 m m' r] rsv_refused [of now 1 m m' r]
    by (cases ok)
       (auto simp: reserve_run_tool_invocation_def metered_def at_least_one_def split: if_splits)
qed

lemma search_outcome:
  assumes w: "worker_budget c = Some w"
  shows "op_outcome tool_used tool_cap (at_least_one n, 0, 1, 1) (manager c) w
    (consume_search_queries_or_block (rsv now) snap now n c)"
proof -
  obtain c1 blk1 where s: "soft_finalization_block snap now ''search_query'' c = (c1, blk1)"
    by (cases "soft_finalization_block snap now ''search_query'' c")
  obtain w1 where w1: "worker_budget c1 = Some w1" "charged 0 0 0 w w1" "manager c1 = manager c"
    using soft_block_outcome [OF s w] by auto
  obtain c2 reason where r: "reserve_run_tool_invocation (rsv now) c1 = (c2, reason)"
    by (cases "reserve_run_tool_invocation (rsv now) c1")
  note R = reserve_run_outcome [OF r, unfolded w1(1,3)]
  have m1: "metered tool_used tool_cap 0 (manager c) (manager c1)" using metered_refl w1(3) by simp
  show ?thesis
  proof (cases blk1)
    case (Some b)
    then show ?thesis
      using w s op_outcome_blocked [OF w1(1,2) m1] by (simp add: Let_def consume_search_queries_or_block_def)
  next
    case None
    show ?thesis
      unfolding consume_search_queries_or_block_def Let_def s None prod.case option.case option.sel r w1(1)
      using R w1 m1 w
      by (auto intro!: op_outcome_denied op_outcome_granted simp: charged_def)
  qed
qed

lemma fetch_outcome:
  assumes w: "worker_budget c = Some w"
  shows "op_outcome tool_used tool_cap (0, at_least_one n, 1, 1) (manager c) w
    (consume_fetch_sources_or_block (rsv now) snap now n c)"
proof -
  obtain c1 blk1 where s: "soft_finalization_block snap now ''fetch_source'' c = (c1, blk1)"
    by (cases "soft_finalization_block snap now ''fetch_source'' c")
  obtain w1 where w1: "worker_budget c1 = Some w1" "charged 0 0 0 w w1" "manager c1 = manager c"
    using soft_block_outcome [OF s w] by auto
  obtain c2 reason where r: "reserve_run_tool_invocation (rsv now) c1 = (c2, reason)"
    by (cases "reserve_run_tool_invocation (rsv now) c1")
  note R = reserve_run_outcome [OF r, unfolded w1(1,3)]
  have m1: "metered tool_used tool_cap 0 (manager c) (manager c1)" using metered_refl w1(3) by simp
  show ?thesis
  proof (cases blk1)
    case (Some b)
    then show ?thesis
      using w s op_outcome_blocked [OF w1(1,2) m1] by (simp add: Let_def consume_fetch_sources_or_block_def)
  next
    case None
    show ?thesis
      unfolding consume_fetch_sources_or_block_def Let_def s None prod.case option.case option.sel r w1(1)
      using R w1 m1 w
      by (auto intro!: op_outcome_denied op_outcome_granted simp: charged_def)
  qed
qed

lemma tool_outcome:
  assumes w: "worker_budget c = Some w"
  shows "op_outcome tool_used tool_cap (0, 0, at_least_one n, 1) (manager c) w
    (consume_tool_invocations_or_block (rsv now) n c)"
proof -
  obtain c2 reason where r: "reserve_run_tool_invocation (rsv now) c = (c2, reason)"
    by (cases "reserve_run_tool_invocation (rsv now) c")
  note R = reserve_run_outcome [OF r, unfolded w]
  have m1: "metered tool_used tool_cap 0 (manager c) (manager c)" by (rule metered_refl)
  show ?thesis
    unfolding consume_tool_invocations_or_block_def Let_def option.case w prod.case option.sel r
    using R w m1
    by (auto intro!: op_outcome_denied op_outcome_granted simp: charged_def)
qed

lemma arm_outcome:
  assumes w: "worker_budget c = Some w"
  shows "op_outcome tool_used tool_cap (0, 0, 0, 0) (manager c) w
    (fst (arm_worker_soft_finalization snap now pt pc c), None)"
proof -
  obtain c1 blk where t: "trigger_worker_soft_finalization_block snap now ''token'' pt pc c = (c1, blk)"
    by (cases "trigger_worker_soft_finalization_block snap now ''token'' pt pc c")
  obtain w1 where w1: "worker_budget c1 = Some w1" "charged 0 0 0 w w1" "manager c1 = manager c"
    using trigger_outcome [OF t w] by auto
  show ?thesis
    using w t w1 metered_refl charged_0
    by (cases "finalization_reason w = []"; cases blk)
       (auto simp: arm_worker_soft_finalization_def intro!: op_outcome_granted)
qed

lemma step_op_outcome:
  "worker_budget c = Some w \<Longrightarrow>
     op_outcome tool_used tool_cap (op_charge op) (manager c) w (run_step_op rsv snap op c)"
  by (cases op) (simp_all add: search_outcome fetch_outcome tool_outcome arm_outcome)

lemma step_op_within_limits:
  assumes "worker_budget c = Some w" and "within_limits w"
  shows "\<exists>w'. worker_budget (fst (run_step_op rsv snap op c)) = Some w' \<and> within_limits w'"
proof -
  obtain s f t k where ch: "op_charge op = (s, f, t, k)" by (cases "op_charge op")
  have nonneg: "0 \<le> s" "0 \<le> f" "0 \<le> t" using ch by (cases op; auto)+
  show ?thesis
    using step_op_outcome [OF assms(1), of op snap] assms(2) nonneg
    by (auto simp: op_outcome_def ch charged_def within_limits_def le_less split: if_splits)
qed

lemma pool_step_keeps:
  assumes "pool_step rsv snap (i, op) (m, cs) = (m', cs')" and "pool_ok cs"
  shows "pool_ok cs' \<and> length cs' = length cs \<and> tool_cap m' = tool_cap m \<and>
    (tool_cap m > 0 \<and> tool_used m \<le> tool_cap m \<longrightarrow> tool_used m' \<le> tool_cap m) \<and>
    (unit_op op \<longrightarrow> tool_used m' - tool_used m = pool_tools cs' - pool_tools cs)"
proof (cases "i < length cs")
  case False
  then show ?thesis using assms by auto
next
  case i: True
  let ?c = "(cs ! i)\<lparr>manager := Some m\<rparr>"
  let ?c' = "fst (run_step_op rsv snap op ?c)"
  obtain w where w: "worker_budget ?c = Some w" "within_limits w"
    using assms(2) i by (auto simp: pool_ok_def dest: nth_mem)
  obtain s f t k where ch: "op_charge op = (s, f, t, k)" by (cases "op_charge op")
  have k: "0 \<le> k" "unit_op op \<Longrightarrow> k = t" using ch by (cases op; auto)+
  have out: "op_outcome tool_used tool_cap (s, f, t, k) (Some m) w (run_step_op rsv snap op ?c)"
    using step_op_outcome [OF w(1), of op snap] ch by simp
  have ok: "\<exists>w'. worker_budget ?c' = Some w' \<and> within_limits w'"
    by (rule step_op_within_limits [OF w])
  have cs': "cs' = cs[i := ?c']" and m': "m' = (case manager ?c' of None \<Rightarrow> m | Some m' \<Rightarrow> m')"
    using assms(1) i by (auto simp: Let_def)
  have "tool_cap m' = tool_cap m \<and> (tool_cap m > 0 \<and> tool_used m \<le> tool_cap m \<longrightarrow> tool_used m' \<le> tool_cap m) \<and>
      (unit_op op \<longrightarrow> tool_used m' - tool_used m = worker_tools ?c' - worker_tools (cs ! i))"
    using out k w(1) unfolding m'
    by (auto simp: op_outcome_def metered_def charged_def worker_tools_def split: option.splits if_splits)
  moreover have "pool_ok cs'"
    using assms(2) ok unfolding cs' pool_ok_def by (auto dest!: set_update_subset_insert [THEN subsetD])
  ultimately show ?thesis using i by (auto simp: cs' pool_tools_update)
qed

lemma pool_run_keeps:
  assumes "fold (pool_step rsv snap) ops (m, cs) = (m', cs')" and "pool_ok cs"
    and "tool_cap m > 0 \<Longrightarrow> tool_used m \<le> tool_cap m"
  shows "pool_ok cs' \<and> tool_cap m' = tool_cap m \<and> (tool_cap m > 0 \<longrightarrow> tool_used m' \<le> tool_cap m) \<and>
    (list_all (\<lambda>iop. unit_op (snd iop)) ops \<longrightarrow>
       tool_used m' - tool_used m = pool_tools cs' - pool_tools cs)"
  using assms
proof (induction ops arbitrary: m cs)
  case Nil
  then show ?case by simp
next
  case (Cons iop ops)
  obtain i op where iop: "iop = (i, op)" by (cases iop)
  obtain m1 cs1 where s: "pool_step rsv snap (i, op) (m, cs) = (m1, cs1)"
    by (cases "pool_step rsv snap (i, op) (m, cs)")
  note S = pool_step_keeps [OF s Cons.prems(2)]
  show ?case
    using Cons.IH [of m1 cs1] Cons.prems S by (auto simp: iop s simp del: pool_step.simps)
qed

end

section \<open>The run budget manager as the meter\<close>

interpretation run_meter: tool_meter reserve_tool_calls tool_calls tool_call_limit
  by unfold_locales (auto simp: reserve_tool_calls_def at_least_one_def Let_def split: if_splits)

definition lease_view :: "run_budget \<Rightarrow> string \<Rightarrow> int dict" where
  "lease_view b task_id = worker_lease_snapshot b task_id []"

definition example_worker :: "run_budget step_context" where
  "example_worker = fst (enter_worker_budget (Some 3) (Some 2) (Some 4) None
     \<lparr>worker_budget = None, manager = None, worker_task_id = ''t1'', worker_run_id = ''r1'', artifacts = [],
      spans = [], budget_events = []\<rparr>)"

text \<open>
  C38. Workers that share one run budget manager never exceed the run's tool call limit, whatever
  order their searches, fetches and tool calls are interleaved in; every worker stays within its
  own three limits, and when each call charges one invocation the run's counter grows by exactly the
  invocations of the workers together.
\<close>

theorem shared_tool_calls_metered:
  assumes "fold (pool_step reserve_tool_calls lease_view) ops (b, cs) = (b', cs')" and "pool_ok cs"
    and "tool_call_limit b > 0" and "tool_calls b \<le> tool_call_limit b"
    and "list_all (\<lambda>iop. unit_op (snd iop)) ops"
  shows "pool_ok cs' \<and> tool_calls b' \<le> tool_call_limit b \<and>
    tool_calls b' - tool_calls b = pool_tools cs' - pool_tools cs"
  using run_meter.pool_run_keeps [OF assms(1,2)] assms(3,4,5) by simp

theorem shared_tool_calls_metered_witness:
  "\<exists>b' cs'. fold (pool_step reserve_tool_calls lease_view)
       [(0, Search 0 2), (1, Fetch 0 1), (0, Search 0 2), (1, Search 0 1), (0, Fetch 0 1)]
       (example_budget 1000 5, [example_worker, example_worker]) = (b', cs') \<and>
     pool_ok cs' \<and> tool_calls b' = 4 \<and> pool_tools cs' = 4"
proof -
  let ?ops = "[(0, Search 0 2), (1, Fetch 0 1), (0, Search 0 2), (1, Search 0 1), (0, Fetch 0 1)]"
  let ?cs = "[example_worker, example_worker]"
  let ?r = "fold (pool_step reserve_tool_calls lease_view) ?ops (example_budget 1000 5, ?cs)"
  have e: "tool_calls (fst ?r) = 4 \<and> tool_calls (example_budget 1000 5) = 0 \<and>
      tool_call_limit (example_budget 1000 5) = 10 \<and> pool_tools ?cs = 0"
    by code_simp
  have ok: "pool_ok ?cs" by (simp add: pool_ok_def example_worker_def enter_worker_budget_def within_limits_def
      over_limit_def clamp_limit_def)
  have u: "list_all (\<lambda>iop. unit_op (snd iop)) ?ops" by simp
  obtain b' cs' where r: "?r = (b', cs')" by (cases ?r)
  show ?thesis
    using shared_tool_calls_metered [OF r ok _ _ u] e r by auto
qed

text \<open>
  A search is granted or denied as a whole.  Granted, it adds its queries to the worker, one tool
  invocation, and one tool call to the run, and leaves the fetch counter alone; blocked, it changes no
  counter of the worker or of the run.
\<close>

theorem search_charges_exactly:
  assumes "worker_budget c = Some w" and "manager c = Some b"
  shows "\<exists>w' b'. case consume_search_queries_or_block (reserve_tool_calls now) lease_view now n c of (c', blk) \<Rightarrow>
    worker_budget c' = Some w' \<and> manager c' = Some b' \<and> fetch_sources_used w' = fetch_sources_used w \<and>
    (if blk = None
     then search_queries_used w' = search_queries_used w + at_least_one n \<and>
       tool_invocations_used w' = tool_invocations_used w + 1 \<and> tool_calls b' = tool_calls b + 1
     else search_queries_used w' = search_queries_used w \<and>
       tool_invocations_used w' = tool_invocations_used w \<and> tool_calls b' = tool_calls b)"
proof -
  obtain c' blk where r: "consume_search_queries_or_block (reserve_tool_calls now) lease_view now n c = (c', blk)"
    by (cases "consume_search_queries_or_block (reserve_tool_calls now) lease_view now n c")
  have "op_outcome tool_calls tool_call_limit (at_least_one n, 0, 1, 1) (Some b) w (c', blk)"
    using run_meter.search_outcome [OF assms(1), where n = n and now = now and snap = lease_view] assms(2) r by simp
  then show ?thesis
    by (auto simp: r op_outcome_def charged_def metered_def split: option.splits if_splits)
qed

theorem search_charges_exactly_witness:
  "\<exists>w' b'. case consume_search_queries_or_block (reserve_tool_calls 0) lease_view 0 2
       (example_worker\<lparr>manager := Some (example_budget 1000 5)\<rparr>) of (c', blk) \<Rightarrow>
     blk = None \<and> worker_budget c' = Some w' \<and> manager c' = Some b' \<and> search_queries_used w' = 2 \<and>
     tool_invocations_used w' = 1 \<and> tool_calls b' = 1"
proof -
  let ?c = "example_worker\<lparr>manager := Some (example_budget 1000 5)\<rparr>"
  let ?r = "consume_search_queries_or_block (reserve_tool_calls 0) lease_view 0 2 ?c"
  have e: "snd ?r = None \<and> tool_calls (example_budget 1000 5) = 0" by code_simp
  obtain w where w: "worker_budget ?c = Some w" "search_queries_used w = 0" "tool_invocations_used w = 0"
    by (simp add: example_worker_def enter_worker_budget_def)
  obtain c' where r: "?r = (c', None)" using e by (cases ?r) auto
  have m: "manager ?c = Some (example_budget 1000 5)" by simp
  show ?thesis
    using search_charges_exactly [OF w(1) m, where n = 2 and now = 0] e w(2,3) unfolding r by (auto simp: at_least_one_def)
qed

section \<open>Soft finalization\<close>

lemma trigger_keeps_reason:
  assumes "trigger_worker_soft_finalization_block snap now r pt pc c = (c', Some blk)"
  shows "\<exists>w'. worker_budget c' = Some w' \<and> finalization_reason w' = bb_reason blk \<and> bb_reason blk \<noteq> [] \<and>
    is_soft_finalization blk"
  using assms
  by (auto simp: trigger_worker_soft_finalization_block_def soft_finalize_def emit_event_def Let_def
      is_soft_finalization_def split: option.splits if_splits)

text \<open>
  A soft stop never preempts the first retrieval: while the worker has retrieved nothing and no
  evidence is stored for its task and run, evaluating the soft stop arms nothing and changes nothing,
  even past the deadline and with the lease used up.
\<close>

theorem first_retrieval_not_preempted:
  assumes "worker_budget c = Some w" and "retrieval_count w = 0" and "admitted_evidence_count w = 0"
    and "existing_worker_evidence_count c = 0"
  shows "trigger_worker_soft_finalization_block snap now resource pt pc c = (c, None)"
proof -
  have "recount_evidence c w = w" using assms by (simp add: recount_evidence_def)
  moreover have "c\<lparr>worker_budget := Some w\<rparr> = c" using assms(1) by simp
  ultimately show ?thesis
    using assms by (simp add: trigger_worker_soft_finalization_block_def Let_def)
qed

theorem first_retrieval_not_preempted_witness:
  "trigger_worker_soft_finalization_block lease_view 100 ''token'' 50 1
     (example_worker\<lparr>worker_budget := map_option (\<lambda>w. w\<lparr>soft_deadline_at := Some 10\<rparr>) (worker_budget example_worker)\<rparr>)
   = (example_worker\<lparr>worker_budget := map_option (\<lambda>w. w\<lparr>soft_deadline_at := Some 10\<rparr>) (worker_budget example_worker)\<rparr>, None)"
proof -
  let ?c = "example_worker\<lparr>worker_budget := map_option (\<lambda>w. w\<lparr>soft_deadline_at := Some 10\<rparr>) (worker_budget example_worker)\<rparr>"
  obtain w where w: "worker_budget ?c = Some w" "retrieval_count w = 0" "admitted_evidence_count w = 0"
    by (simp add: example_worker_def enter_worker_budget_def retrieval_count_def)
  have "existing_worker_evidence_count ?c = 0"
    by (simp add: example_worker_def enter_worker_budget_def existing_worker_evidence_count_def)
  from first_retrieval_not_preempted [OF w this] show ?thesis .
qed

text \<open>
  Soft finalization is final: once an operation has been answered with the finalization
  message, every later search or fetch of the worker is answered with the same reason and the
  finalization message, and changes nothing, in particular it takes no tool call from the run.
\<close>

theorem finalization_is_final:
  assumes "trigger_worker_soft_finalization_block snap now resource pt pc c = (c', Some blk)"
  shows "consume_search_queries_or_block rsv snap' now' n c' =
      (c', Some \<lparr>bb_message = FINALIZE_JSON_MESSAGE, bb_resource = ''search_query'', bb_reason = bb_reason blk,
                 bb_used = 0, bb_limit = 0\<rparr>) \<and>
    consume_fetch_sources_or_block rsv snap' now' n c' =
      (c', Some \<lparr>bb_message = FINALIZE_JSON_MESSAGE, bb_resource = ''fetch_source'', bb_reason = bb_reason blk,
                 bb_used = 0, bb_limit = 0\<rparr>)"
  using trigger_keeps_reason [OF assms]
  by (auto simp: consume_search_queries_or_block_def consume_fetch_sources_or_block_def
      soft_finalization_block_def Let_def)

theorem finalization_is_final_witness:
  "\<exists>c' blk. trigger_worker_soft_finalization_block lease_view 20 ''token'' 0 0
       (example_worker\<lparr>worker_budget := map_option
          (\<lambda>w. w\<lparr>soft_deadline_at := Some 10, search_queries_used := 1\<rparr>) (worker_budget example_worker)\<rparr>) = (c', Some blk) \<and>
     snd (consume_search_queries_or_block (reserve_tool_calls 0) lease_view 30 1 c') \<noteq> None"
proof -
  let ?c = "example_worker\<lparr>worker_budget := map_option
      (\<lambda>w. w\<lparr>soft_deadline_at := Some 10, search_queries_used := 1\<rparr>) (worker_budget example_worker)\<rparr>"
  let ?t = "trigger_worker_soft_finalization_block lease_view 20 ''token'' 0 0 ?c"
  have "snd ?t \<noteq> None" by code_simp
  then obtain c' blk where t: "?t = (c', Some blk)" by (cases ?t) auto
  show ?thesis using finalization_is_final [OF t, where rsv = "reserve_tool_calls 0" and snap' = lease_view and now' = 30 and n = 1] t
    by auto
qed

end
