(* ===== verification/Plan.thy ===== *)
theory Plan
  imports PyVal
begin

text \<open>
  Execution plans (\<open>app/agent/harness/state.py\<close>): plan steps, their identities, and the
  dictionaries plans are stored as.
\<close>

section \<open>Steps and plans\<close>

text \<open>\<open>subagent\<close> is copied from stored rows as it is, so it is any value.\<close>

record plan_step =
  step_type :: string
  description :: string
  subagent :: pyval
  step_metadata :: pydict
  step_task_id :: string
  depends_on :: "string list"
  allowed_tools :: "string list"
  step_objective :: string

record execution_plan =
  plan_steps :: "plan_step list"
  plan_summary :: string
  plan_version :: int
  planning_mode :: string
  plan_brief :: string

definition resolved_task_id :: "plan_step \<Rightarrow> nat \<Rightarrow> string" where
  "resolved_task_id s i =
     (if step_task_id s \<noteq> [] then step_task_id s else ''t'' @ nat_str i @ '':'' @ step_type s)"

lemma resolved_task_id_not_Nil [simp]: "resolved_task_id s i \<noteq> []"
  by (simp add: resolved_task_id_def)

section \<open>Stored form\<close>

definition str_values :: "string list \<Rightarrow> pyval" where
  "str_values xs = PList (map PStr xs)"

definition step_to_dict :: "plan_step \<Rightarrow> pydict" where
  "step_to_dict s =
     [(''step_type'', PStr (step_type s)), (''description'', PStr (description s)),
      (''subagent'', subagent s), (''metadata'', PDict (step_metadata s)),
      (''task_id'', PStr (step_task_id s)), (''depends_on'', str_values (depends_on s)),
      (''allowed_tools'', str_values (allowed_tools s)), (''objective'', PStr (step_objective s))]"

definition step_from_dict :: "pydict \<Rightarrow> plan_step res" where
  "step_from_dict row =
     ebind (dict_or_empty (pget row ''metadata'')) (\<lambda>metadata.
     ebind (str_list (pget row ''depends_on'')) (\<lambda>deps.
     ebind (str_list (pget row ''allowed_tools'')) (\<lambda>tools. Inr
       \<lparr>step_type = py_str (pget_or row ''step_type'' (PStr [])),
        description = py_str (pget_or row ''description'' (PStr [])),
        subagent = pget row ''subagent'', step_metadata = metadata,
        step_task_id = str_or (pget row ''task_id'') [], depends_on = deps, allowed_tools = tools,
        step_objective = str_or (pget row ''objective'') []\<rparr>)))"

definition plan_to_dict :: "execution_plan \<Rightarrow> pydict" where
  "plan_to_dict p =
     [(''summary'', PStr (plan_summary p)),
      (''steps'', PList (map (\<lambda>s. PDict (step_to_dict s)) (plan_steps p))),
      (''plan_version'', PInt (if plan_version p = 0 then 1 else plan_version p)),
      (''planning_mode'', PStr (if planning_mode p = [] then ''template'' else planning_mode p)),
      (''research_brief'', PStr (plan_brief p))]"

text \<open>\<open>PlanStep.from_dict\<close> of a list item: a false item is an empty row, other values have no \<open>get\<close>.\<close>

definition step_from_item :: "pyval \<Rightarrow> plan_step res" where
  "step_from_item v =
     (if truthy v then (case v of PDict d \<Rightarrow> step_from_dict d | _ \<Rightarrow> Inl (AttributeError ''get''))
      else step_from_dict [])"

definition plan_from_dict :: "pydict \<Rightarrow> execution_plan res" where
  "plan_from_dict row =
     ebind (iter_or_empty (pget row ''steps'')) (\<lambda>items.
     ebind (emap step_from_item items) (\<lambda>steps.
     ebind (int_or (pget row ''plan_version'') 1) (\<lambda>version. Inr
       \<lparr>plan_steps = steps, plan_summary = py_str (pget_or row ''summary'' (PStr [])),
        plan_version = version, planning_mode = str_or (pget row ''planning_mode'') ''template'',
        plan_brief = str_or (pget row ''research_brief'') []\<rparr>)))"

section \<open>Round trip\<close>

lemma str_list_str_values [simp]: "str_list (str_values xs) = Inr xs"
  by (simp add: str_values_def)

lemma step_roundtrip: "step_from_dict (step_to_dict s) = Inr s"
  by (cases s) (simp add: step_from_dict_def step_to_dict_def)

lemma step_item_roundtrip: "step_from_item (PDict (step_to_dict s)) = Inr s"
  by (simp add: step_from_item_def step_roundtrip) (simp add: step_to_dict_def)

lemma steps_roundtrip: "emap step_from_item (map (\<lambda>s. PDict (step_to_dict s)) steps) = Inr steps"
  by (induction steps) (simp_all add: step_item_roundtrip)

text \<open>The two fields \<open>to_dict\<close> replaces when they are empty.\<close>

definition stored_plan :: "execution_plan \<Rightarrow> execution_plan" where
  "stored_plan p = p\<lparr>plan_version := if plan_version p = 0 then 1 else plan_version p,
                     planning_mode := if planning_mode p = [] then ''template'' else planning_mode p\<rparr>"

text \<open>
  Storing a plan and reading it back gives the plan: every step with its type, metadata,
  identity, dependencies, tools and objective, in order; only a version 0 and an empty planning
  mode come back as the defaults \<open>to_dict\<close> writes for them.
\<close>

theorem plan_roundtrip: "plan_from_dict (plan_to_dict p) = Inr (stored_plan p)"
  by (cases p) (simp add: plan_from_dict_def plan_to_dict_def stored_plan_def steps_roundtrip)

end
