(* ===== verification/PlanGraph.thy ===== *)
theory PlanGraph
  imports Plan
begin

text \<open>
  The cycle check of plan validation (\<open>_has_cycle\<close> in \<open>app/research/planning/validator.py\<close>): a
  depth-first search over the dependencies of the plan's steps, and that it finds a cycle exactly
  when the dependency relation has one.
\<close>

section \<open>The search\<close>

text \<open>
  \<open>visiting\<close> is the path of the recursion: a call adds its node and takes it off again when
  it finds no cycle; \<open>seen\<close> collects the nodes that are finished.  A node that occurs twice
  keeps the dependencies of its last step.
\<close>

definition named_steps :: "plan_step list \<Rightarrow> plan_step list" where
  "named_steps steps = filter (\<lambda>s. step_task_id s \<noteq> []) steps"

definition step_ids :: "plan_step list \<Rightarrow> string list" where
  "step_ids steps = fromkeys (map step_task_id (named_steps steps))"

definition step_deps :: "plan_step list \<Rightarrow> string list dict" where
  "step_deps steps = dmerge [] (map (\<lambda>s. (step_task_id s, depends_on s)) (named_steps steps))"

definition deps_of :: "string list dict \<Rightarrow> string \<Rightarrow> string list" where
  "deps_of deps i = (case dget deps i of None \<Rightarrow> [] | Some ds \<Rightarrow> ds)"

function visit :: "string list \<Rightarrow> string list dict \<Rightarrow> string list \<Rightarrow> string list \<Rightarrow> string \<Rightarrow> bool \<times> string list"
  and visit_deps :: "string list \<Rightarrow> string list dict \<Rightarrow> string list \<Rightarrow> string list \<Rightarrow> string list \<Rightarrow> bool \<times> string list" where
  "visit ids deps visiting seen i =
     (if i \<in> set seen then (False, seen)
      else if i \<in> set visiting then (True, seen)
      else case visit_deps ids deps (i # visiting) seen (deps_of deps i) of
          (True, seen') \<Rightarrow> (True, seen')
        | (False, seen') \<Rightarrow> (False, i # seen'))"
| "visit_deps ids deps visiting seen [] = (False, seen)"
| "visit_deps ids deps visiting seen (d # ds) =
     (if d \<in> set ids
      then (case visit ids deps visiting seen d of
          (True, seen') \<Rightarrow> (True, seen')
        | (False, seen') \<Rightarrow> visit_deps ids deps visiting seen' ds)
      else visit_deps ids deps visiting seen ds)"
  by pat_completeness auto

termination
proof (relation "inv_image (finite_psubset <*lex*> less_than)
    (\<lambda>x. case x of Inl (ids, deps, visiting, seen, i) \<Rightarrow> (insert i (set ids) - set visiting, 0)
      | Inr (ids, deps, visiting, seen, ds) \<Rightarrow> (set ids - set visiting, Suc (length ds)))",
    goal_cases)
  case 1
  then show ?case by (intro wf_inv_image wf_lex_prod wf_finite_psubset wf_less_than)
next
  case (3 ids deps visiting seen d ds)
  then show ?case by (simp add: insert_absorb)
qed (auto simp: finite_psubset_def)

declare visit.simps [simp del]

text \<open>\<open>any(visit(tid) for tid in ids)\<close>; the order of a set's elements is not specified.\<close>

fun any_cycle :: "string list \<Rightarrow> string list dict \<Rightarrow> string list \<Rightarrow> string list \<Rightarrow> bool" where
  "any_cycle ids deps seen [] = False"
| "any_cycle ids deps seen (i # is) =
     (case visit ids deps [] seen i of (True, seen') \<Rightarrow> True | (False, seen') \<Rightarrow> any_cycle ids deps seen' is)"

definition has_cycle :: "plan_step list \<Rightarrow> bool" where
  "has_cycle steps = any_cycle (step_ids steps) (step_deps steps) [] (step_ids steps)"

section \<open>What it decides\<close>

definition dep_edges :: "string list \<Rightarrow> string list dict \<Rightarrow> (string \<times> string) set" where
  "dep_edges ids deps = {(i, d). i \<in> set ids \<and> d \<in> set ids \<and> d \<in> set (deps_of deps i)}"

text \<open>Finished nodes have finished successors and lie on no cycle.\<close>

definition finished :: "string list \<Rightarrow> string list dict \<Rightarrow> string list \<Rightarrow> bool" where
  "finished ids deps seen \<longleftrightarrow>
     (\<forall>i\<in>set seen. dep_edges ids deps `` {i} \<subseteq> set seen \<and> (i, i) \<notin> (dep_edges ids deps)\<^sup>+)"

lemma finished_reach:
  assumes "finished ids deps seen" "(i, j) \<in> (dep_edges ids deps)\<^sup>+" "i \<in> set seen"
  shows "j \<in> set seen"
  using assms(2,3) by (induction rule: trancl_induct) (use assms(1) in \<open>auto simp: finished_def\<close>)

lemma finished_Cons:
  assumes "finished ids deps seen" "i \<notin> set seen" "dep_edges ids deps `` {i} \<subseteq> set seen"
  shows "finished ids deps (i # seen)"
proof -
  have "(i, i) \<notin> (dep_edges ids deps)\<^sup>+"
  proof
    assume "(i, i) \<in> (dep_edges ids deps)\<^sup>+"
    then obtain j where "(i, j) \<in> dep_edges ids deps" "(j, i) \<in> (dep_edges ids deps)\<^sup>*"
      by (auto dest: tranclD)
    then show False
      using assms finished_reach [OF assms(1), of j i] by (auto simp: rtrancl_eq_or_trancl)
  qed
  then show ?thesis using assms by (auto simp: finished_def)
qed

lemma visit_finished:
  "finished ids deps seen \<Longrightarrow> i \<in> set ids \<Longrightarrow> set visiting \<inter> set seen = {} \<Longrightarrow>
     visit ids deps visiting seen i = (False, seen') \<Longrightarrow>
     finished ids deps seen' \<and> insert i (set seen) \<subseteq> set seen' \<and> set visiting \<inter> set seen' = {}"
  "finished ids deps seen \<Longrightarrow> set visiting \<inter> set seen = {} \<Longrightarrow>
     visit_deps ids deps visiting seen ds = (False, seen') \<Longrightarrow>
     finished ids deps seen' \<and> (set ds \<inter> set ids) \<union> set seen \<subseteq> set seen' \<and> set visiting \<inter> set seen' = {}"
proof (induction ids deps visiting seen i and ids deps visiting seen ds arbitrary: seen' and seen'
    rule: visit_visit_deps.induct)
  case (1 ids deps visiting seen i)
  show ?case
  proof (cases "i \<in> set seen")
    case True
    then show ?thesis using 1(2,4,5) by (auto simp: visit.simps)
  next
    case False
    then obtain seen1 where new: "i \<notin> set visiting"
      and deps: "visit_deps ids deps (i # visiting) seen (deps_of deps i) = (False, seen1)" "seen' = i # seen1"
      using 1(5) by (auto simp: visit.simps [of ids deps visiting seen i] split: if_splits prod.splits bool.splits)
    note IH = 1(1) [OF False new 1(2) _ deps(1)]
    have fin: "finished ids deps seen1" "(set (deps_of deps i) \<inter> set ids) \<union> set seen \<subseteq> set seen1"
      "set (i # visiting) \<inter> set seen1 = {}"
      using IH 1(4) False by auto
    have "finished ids deps (i # seen1)"
      by (rule finished_Cons) (use fin in \<open>auto simp: dep_edges_def\<close>)
    then show ?thesis using fin deps(2) new by auto
  qed
next
  case (3 ids deps visiting seen d ds)
  show ?case
  proof (cases "d \<in> set ids")
    case True
    then obtain seen1 where d: "visit ids deps visiting seen d = (False, seen1)"
      and ds: "visit_deps ids deps visiting seen1 ds = (False, seen')"
      using 3(6) by (auto split: prod.splits bool.splits)
    have fin: "finished ids deps seen1" "insert d (set seen) \<subseteq> set seen1" "set visiting \<inter> set seen1 = {}"
      using 3(1) [OF True 3(4) True 3(5) d] by auto
    show ?thesis using 3(2) [OF True d [symmetric] refl fin(1,3) ds] fin(2) by auto
  next
    case False
    then show ?thesis using 3(3) [OF False 3(4,5)] 3(6) by auto
  qed
qed simp_all

lemma visit_cycle:
  "i \<in> set ids \<Longrightarrow> \<forall>v\<in>set visiting. (v, i) \<in> (dep_edges ids deps)\<^sup>+ \<Longrightarrow> fst (visit ids deps visiting seen i) \<Longrightarrow>
     \<exists>j. (j, j) \<in> (dep_edges ids deps)\<^sup>+"
  "\<forall>v\<in>set visiting. \<forall>d\<in>set ds \<inter> set ids. (v, d) \<in> (dep_edges ids deps)\<^sup>+ \<Longrightarrow>
     fst (visit_deps ids deps visiting seen ds) \<Longrightarrow> \<exists>j. (j, j) \<in> (dep_edges ids deps)\<^sup>+"
proof (induction ids deps visiting seen i and ids deps visiting seen ds rule: visit_visit_deps.induct)
  case (1 ids deps visiting seen i)
  have new: "i \<notin> set seen" using 1(4) by (auto simp: visit.simps)
  show ?case
  proof (cases "i \<in> set visiting")
    case False
    have "(v, d) \<in> (dep_edges ids deps)\<^sup>+" if "v \<in> set (i # visiting)" "d \<in> set (deps_of deps i) \<inter> set ids" for v d
    proof -
      have "(i, d) \<in> dep_edges ids deps" using that 1(2) by (auto simp: dep_edges_def)
      then show ?thesis using that 1(3) by (auto intro: trancl_into_trancl)
    qed
    moreover have "fst (visit_deps ids deps (i # visiting) seen (deps_of deps i))"
      using 1(4) new False by (auto simp: visit.simps [of ids deps visiting seen i] split: prod.splits bool.splits)
    ultimately show ?thesis using 1(1) [OF new False] by blast
  qed (use 1 in auto)
next
  case (3 ids deps visiting seen d ds)
  then show ?case by (cases "visit ids deps visiting seen d") (auto split: if_splits bool.splits)
qed simp_all


lemma any_cycle_False:
  "finished ids deps seen \<Longrightarrow> set todo \<subseteq> set ids \<Longrightarrow> \<not> any_cycle ids deps seen todo \<Longrightarrow> i \<in> set todo \<Longrightarrow>
     (i, i) \<notin> (dep_edges ids deps)\<^sup>+"
proof (induction todo arbitrary: seen)
  case (Cons t todo)
  obtain seen' where v: "visit ids deps [] seen t = (False, seen')" and rest: "\<not> any_cycle ids deps seen' todo"
    using Cons.prems(3) by (auto split: prod.splits bool.splits)
  then have fin: "finished ids deps seen'" "t \<in> set seen'"
    using visit_finished(1) [OF Cons.prems(1) _ _ v] Cons.prems(2) by auto
  show ?case
  proof (cases "i = t")
    case True
    then show ?thesis using fin by (simp add: finished_def)
  next
    case False
    then show ?thesis using Cons.IH [OF fin(1)] Cons.prems rest by auto
  qed
qed simp

lemma any_cycle_True:
  "set todo \<subseteq> set ids \<Longrightarrow> any_cycle ids deps seen todo \<Longrightarrow> \<exists>j. (j, j) \<in> (dep_edges ids deps)\<^sup>+"
  using visit_cycle(1) [of _ ids "[]" deps]
  by (induction todo arbitrary: seen) (auto split: prod.splits bool.splits, metis fst_conv)

text \<open>For every order in which the identities are visited.\<close>

lemma any_cycle_correct:
  assumes "set todo = set ids"
  shows "any_cycle ids deps [] todo \<longleftrightarrow> \<not> acyclic (dep_edges ids deps)"
proof
  assume "any_cycle ids deps [] todo"
  then show "\<not> acyclic (dep_edges ids deps)" using any_cycle_True [of todo ids deps] assms by (auto simp: acyclic_def)
next
  assume "\<not> acyclic (dep_edges ids deps)"
  then obtain i where i: "(i, i) \<in> (dep_edges ids deps)\<^sup>+" by (auto simp: acyclic_def)
  then have "i \<in> set ids" by (auto simp: dep_edges_def dest: tranclD)
  then show "any_cycle ids deps [] todo"
    using any_cycle_False [of ids deps "[]" todo i] i assms by (auto simp: finished_def)
qed

end
