(* ===== verification/Scheduler.thy ===== *)
theory Scheduler
  imports Plan TaskLifecycle
begin

text \<open>
  The research scheduler (\<open>app/research/runtime/scheduler.py\<close>) and the initial task table
  (\<open>initialize_tasks\<close>): which steps are required, which are dispatched in one wave, and that a
  plan whose dependencies point backwards never gets stuck.
\<close>

section \<open>The plan\<close>

definition research_step_types :: "string list" where
  "research_step_types = [''research'', ''network_search'', ''file_read'']"

definition is_research_step :: "plan_step \<Rightarrow> bool" where
  "is_research_step s \<longleftrightarrow> step_type s \<in> set research_step_types"

definition research_only_plan :: "execution_plan \<Rightarrow> execution_plan" where
  "research_only_plan p = p\<lparr>plan_steps := filter is_research_step (plan_steps p)\<rparr>"

definition indexed_steps :: "execution_plan \<Rightarrow> (nat \<times> plan_step) list" where
  "indexed_steps p = zip [0..<length (plan_steps p)] (plan_steps p)"

text \<open>The part of \<open>annotate_plan_tasks\<close> after the priority stamp: identities and the plan version.\<close>

definition annotate_task_ids :: "execution_plan \<Rightarrow> execution_plan" where
  "annotate_task_ids p =
     p\<lparr>plan_steps := map (\<lambda>(i, s).
          if step_task_id s = [] then s\<lparr>step_task_id := ''t'' @ nat_str i @ '':'' @ step_type s\<rparr> else s)
          (indexed_steps p),
       plan_version := if plan_version p < 1 then 1 else plan_version p\<rparr>"

definition initialize_tasks :: "execution_plan \<Rightarrow> task_state dict" where
  "initialize_tasks p =
     fold (\<lambda>(i, s) d. dput (resolved_task_id s i) (new_task_state (resolved_task_id s i)) d) (indexed_steps p) []"

definition task_status_map :: "execution_plan \<Rightarrow> string dict" where
  "task_status_map p = map (\<lambda>(k, t). (k, exec_status_value (execution_status t))) (initialize_tasks p)"

definition required_research_ids :: "execution_plan \<Rightarrow> string list" where
  "required_research_ids p =
     (let active = filter (\<lambda>(i, s). is_research_step s \<and> \<not> truthy (pget (step_metadata s) ''superseded''))
                     (indexed_steps p);
          required = map (\<lambda>(i, s). resolved_task_id s i)
                       (filter (\<lambda>(i, s). \<not> truthy (pget (step_metadata s) ''optional'')) active)
      in if required \<noteq> [] then required else map (\<lambda>(i, s). resolved_task_id s i) active)"

section \<open>Dispatch\<close>

definition step_readiness :: "plan_step \<Rightarrow> pyval \<Rightarrow> readiness res" where
  "step_readiness s tasks = task_readiness (step_task_id s) (depends_on s) tasks True"

text \<open>The loop of \<open>select_dispatch_wave\<close>: it stops as soon as the wave is full.\<close>

fun dispatch_loop ::
  "nat \<Rightarrow> string list \<Rightarrow> pyval \<Rightarrow> (nat \<times> plan_step) list \<Rightarrow> (nat \<times> plan_step) list \<Rightarrow> (nat \<times> plan_step) list res" where
  "dispatch_loop limit selected tasks wave [] = Inr wave"
| "dispatch_loop limit selected tasks wave ((i, s) # rest) =
     (if length wave \<ge> limit then Inr wave
      else if resolved_task_id s i \<notin> set selected then dispatch_loop limit selected tasks wave rest
      else ebind (step_readiness s tasks) (\<lambda>r.
        if r \<noteq> RUNNABLE then dispatch_loop limit selected tasks wave rest
        else dispatch_loop limit selected tasks (wave @ [(i, s)]) rest))"

definition wave_limit :: "int \<Rightarrow> nat" where
  "wave_limit n = nat (max 1 (if n = 0 then 1 else n))"

definition select_dispatch_wave ::
  "execution_plan \<Rightarrow> pyval \<Rightarrow> string list \<Rightarrow> int \<Rightarrow> (nat \<times> plan_step) list res" where
  "select_dispatch_wave p tasks task_ids max_parallel =
     dispatch_loop (wave_limit max_parallel)
       (if task_ids \<noteq> [] then task_ids else required_research_ids p) tasks [] (indexed_steps p)"

definition ready_research_steps :: "execution_plan \<Rightarrow> pyval \<Rightarrow> (nat \<times> plan_step) list res" where
  "ready_research_steps p tasks = select_dispatch_wave p tasks [] 3"

definition readiness_map :: "execution_plan \<Rightarrow> pyval \<Rightarrow> string dict res" where
  "readiness_map p tasks =
     ebind (emap (\<lambda>(i, s). ebind (step_readiness s tasks) (\<lambda>r. Inr (resolved_task_id s i, readiness_value r)))
              (indexed_steps p))
       (\<lambda>rows. Inr (dmerge [] rows))"

definition dispatch_sends :: "execution_plan \<Rightarrow> pyval \<Rightarrow> string list \<Rightarrow> int \<Rightarrow> pydict list res" where
  "dispatch_sends p tasks task_ids max_parallel =
     ebind (select_dispatch_wave p tasks task_ids max_parallel) (\<lambda>wave. Inr (map (\<lambda>(i, s).
       [(''task_id'', PStr (resolved_task_id s i)), (''step_index'', PInt (int i)),
        (''step_type'', PStr (step_type s)), (''description'', PStr (description s)),
        (''subagent'', por (subagent s) (PStr []))]) wave))"

definition running_task_ids :: "pyval \<Rightarrow> string list res" where
  "running_task_ids tasks =
     ebind (normalize_tasks tasks)
       (\<lambda>ts. Inr (map fst (filter (\<lambda>(k, t). execution_status t = ES_RUNNING) ts)))"

section \<open>The wave is a prefix of the eligible steps\<close>

definition step_runnable :: "task_state dict \<Rightarrow> plan_step \<Rightarrow> bool" where
  "step_runnable ts s \<longleftrightarrow>
     (\<exists>t. dget ts (step_task_id s) = Some t \<and> execution_status t = ES_PENDING) \<and>
     (\<forall>d \<in> set (depends_on s). dependency_done ts d)"

lemma dependency_done_code [code]:
  "dependency_done ts d \<longleftrightarrow> (case dget ts d of None \<Rightarrow> False | Some t \<Rightarrow>
     execution_status t \<noteq> ES_PENDING \<and> execution_status t \<noteq> ES_RUNNING \<and>
     (execution_status t = ES_FAILED \<longrightarrow> ts_result_status t = RS_PARTIAL))"
  by (auto simp: dependency_done_def split: option.splits)

lemma step_runnable_code [code]:
  "step_runnable ts s \<longleftrightarrow>
     (case dget ts (step_task_id s) of None \<Rightarrow> False | Some t \<Rightarrow> execution_status t = ES_PENDING) \<and>
     list_all (dependency_done ts) (depends_on s)"
  by (auto simp: step_runnable_def list_all_iff split: option.splits)

lemma step_readiness_runnable:
  assumes "normalize_tasks tasks = Inr ts"
  shows "\<exists>r. step_readiness s tasks = Inr r \<and> (r = RUNNABLE \<longleftrightarrow> step_runnable ts s)"
  using assms dependency_block_None [of ts "depends_on s"] dependency_block_not_runnable [of ts "depends_on s"]
  by (auto simp: step_readiness_def task_readiness_def step_runnable_def split: option.splits)

definition eligible :: "string list \<Rightarrow> task_state dict \<Rightarrow> nat \<times> plan_step \<Rightarrow> bool" where
  "eligible selected ts e \<longleftrightarrow> resolved_task_id (snd e) (fst e) \<in> set selected \<and> step_runnable ts (snd e)"

lemma dispatch_loop_eq:
  assumes "normalize_tasks tasks = Inr ts"
  shows "dispatch_loop limit selected tasks wave es =
    Inr (wave @ take (limit - length wave) (filter (eligible selected ts) es))"
proof (induction es arbitrary: wave)
  case Nil
  then show ?case by simp
next
  case (Cons e es)
  obtain i s where e: "e = (i, s)" by (cases e)
  obtain r where r: "step_readiness s tasks = Inr r" "r = RUNNABLE \<longleftrightarrow> step_runnable ts s"
    using step_readiness_runnable [OF assms] by blast
  show ?case
    using r Cons.IH by (auto simp: e eligible_def Suc_diff_Suc take_Cons' diff_Suc split: nat.split)
qed

lemma select_wave_eq:
  assumes "normalize_tasks tasks = Inr ts"
  shows "select_dispatch_wave p tasks ids n = Inr (take (wave_limit n)
    (filter (eligible (if ids \<noteq> [] then ids else required_research_ids p) ts) (indexed_steps p)))"
  unfolding select_dispatch_wave_def dispatch_loop_eq [OF assms] by simp

text \<open>
  A dispatch wave is exactly the first eligible steps of the plan, in plan order, up to the
  parallelism limit: the steps whose identity is selected (by the caller, or the required research
  steps), whose own task is pending and whose dependencies are all done.
\<close>

theorem dispatch_wave_spec:
  assumes "normalize_tasks tasks = Inr ts"
  shows "select_dispatch_wave p tasks ids n = Inr (take (wave_limit n) (filter (\<lambda>(i, s).
    resolved_task_id s i \<in> set (if ids \<noteq> [] then ids else required_research_ids p) \<and>
    (\<exists>t. dget ts (step_task_id s) = Some t \<and> execution_status t = ES_PENDING) \<and>
    (\<forall>d \<in> set (depends_on s). dependency_done ts d)) (indexed_steps p)))"
  unfolding select_wave_eq [OF assms]
  by (simp add: eligible_def [abs_def] step_runnable_def case_prod_beta')

definition example_step :: "string \<Rightarrow> string list \<Rightarrow> plan_step" where
  "example_step k deps =
     \<lparr>step_type = ''research'', description = [], subagent = PNone, step_metadata = [], step_task_id = k,
      depends_on = deps, allowed_tools = [], step_objective = []\<rparr>"

definition example_plan :: execution_plan where
  "example_plan =
     \<lparr>plan_steps = [example_step ''a'' [], example_step ''b'' [''a''], example_step ''c'' [''a''],
        example_step ''d'' [''b'', ''c'']],
      plan_summary = [], plan_version = 1, planning_mode = ''template'', plan_brief = []\<rparr>"

theorem dispatch_wave_spec_witness:
  "\<exists>ts. normalize_tasks (tasks_to_py (initialize_tasks example_plan)) = Inr ts \<and>
     select_dispatch_wave example_plan (tasks_to_py (initialize_tasks example_plan)) [] 2 =
       Inr (take 2 (filter (\<lambda>(i, s).
         resolved_task_id s i \<in> set (required_research_ids example_plan) \<and>
         (\<exists>t. dget ts (step_task_id s) = Some t \<and> execution_status t = ES_PENDING) \<and>
         (\<forall>d \<in> set (depends_on s). dependency_done ts d)) (indexed_steps example_plan)))"
proof -
  have "\<not> isl (normalize_tasks (tasks_to_py (initialize_tasks example_plan)))" by code_simp
  then obtain ts where ts: "normalize_tasks (tasks_to_py (initialize_tasks example_plan)) = Inr ts"
    by (cases "normalize_tasks (tasks_to_py (initialize_tasks example_plan))") auto
  show ?thesis using dispatch_wave_spec [OF ts, of example_plan "[]" 2] ts by (simp add: wave_limit_def)
qed

lemma initialize_no_Nil [simp]: "dget (initialize_tasks p) [] = None"
proof -
  have "dget (fold (\<lambda>(i, s) d. dput (resolved_task_id s i) (new_task_state (resolved_task_id s i)) d) es d) [] = None"
    if "dget d [] = None" for es :: "(nat \<times> plan_step) list" and d :: "task_state dict"
    using that by (induction es arbitrary: d) (auto simp: case_prod_beta)
  then show ?thesis by (simp add: initialize_tasks_def)
qed

lemma wf_initialize: "wf_tasks (initialize_tasks p)"
proof -
  have "wf_tasks (fold (\<lambda>(i, s) d. dput (resolved_task_id s i) (new_task_state (resolved_task_id s i)) d) es d)"
    if "wf_tasks d" for es :: "(nat \<times> plan_step) list" and d :: "task_state dict"
    using that
    by (induction es arbitrary: d) (auto simp: case_prod_beta wf_tasks_dput wf_task_def new_task_state_def)
  from this [of "[]" "indexed_steps p"] show ?thesis by (simp add: initialize_tasks_def wf_tasks_def)
qed

text \<open>
  A step without a task id is never dispatched while the task table comes from the plan:
  readiness looks the empty id up, but the table is keyed by the resolved id.
\<close>

theorem unnamed_step_never_dispatched:
  assumes "select_dispatch_wave p (tasks_to_py (initialize_tasks p)) ids n = Inr wave"
  shows "\<forall>e \<in> set wave. step_task_id (snd e) \<noteq> []"
proof -
  note N = normalize_tasks_to_py [OF wf_initialize, of p]
  have "step_task_id (snd e) \<noteq> []" if "e \<in> set wave" for e
    using that assms unfolding select_wave_eq [OF N]
    by (auto simp: eligible_def step_runnable_def dest!: in_set_takeD)
  then show ?thesis by blast
qed

theorem unnamed_step_never_dispatched_witness:
  "select_dispatch_wave (example_plan\<lparr>plan_steps := [example_step [] [], example_step ''a'' []]\<rparr>)
     (tasks_to_py (initialize_tasks (example_plan\<lparr>plan_steps := [example_step [] [], example_step ''a'' []]\<rparr>))) [] 3
   = Inr [(1, example_step ''a'' [])] \<and> step_task_id (example_step ''a'' []) \<noteq> []"
proof -
  let ?p = "example_plan\<lparr>plan_steps := [example_step [] [], example_step ''a'' []]\<rparr>"
  have e: "select_dispatch_wave ?p (tasks_to_py (initialize_tasks ?p)) [] 3 = Inr [(1, example_step ''a'' [])]"
    by code_simp
  show ?thesis using unnamed_step_never_dispatched [OF e] e by simp
qed

definition named_step :: "nat \<times> plan_step \<Rightarrow> plan_step" where
  "named_step e = (snd e)\<lparr>step_task_id := resolved_task_id (snd e) (fst e)\<rparr>"

lemma annotate_indexed:
  "indexed_steps (annotate_task_ids p) = map (\<lambda>e. (fst e, named_step e)) (indexed_steps p)"
proof -
  have "plan_steps (annotate_task_ids p) = map named_step (indexed_steps p)"
    by (auto simp: annotate_task_ids_def named_step_def resolved_task_id_def)
  moreover have "length (indexed_steps p) = length (plan_steps p)" by (simp add: indexed_steps_def)
  ultimately show ?thesis
    unfolding indexed_steps_def [of "annotate_task_ids p"]
    by (auto simp: indexed_steps_def intro!: nth_equalityI)
qed

lemma named_step_sel [simp]:
  "resolved_task_id (named_step e) i = resolved_task_id (snd e) (fst e)"
  "step_type (named_step e) = step_type (snd e)"
  "step_metadata (named_step e) = step_metadata (snd e)"
  "step_task_id (named_step e) = resolved_task_id (snd e) (fst e)"
  by (auto simp: named_step_def resolved_task_id_def)

text \<open>
  Annotation names every step with exactly the identity the scheduler resolves for it, so it
  changes neither the initial task table nor the required research ids, and afterwards readiness and
  dispatch look the same key up.
\<close>

theorem annotation_keeps_tasks:
  "initialize_tasks (annotate_task_ids p) = initialize_tasks p \<and>
   required_research_ids (annotate_task_ids p) = required_research_ids p \<and>
   map (\<lambda>(i, s). step_task_id s) (indexed_steps (annotate_task_ids p)) =
     map (\<lambda>(i, s). resolved_task_id s i) (indexed_steps p)"
proof -
  have "fold (\<lambda>(i, s) d. dput (resolved_task_id s i) (new_task_state (resolved_task_id s i)) d)
      (map (\<lambda>e. (fst e, named_step e)) es) d =
    fold (\<lambda>(i, s) d. dput (resolved_task_id s i) (new_task_state (resolved_task_id s i)) d) es d"
    for es and d :: "task_state dict"
    by (induction es arbitrary: d) (simp_all add: case_prod_beta)
  then show ?thesis
    by (simp add: initialize_tasks_def required_research_ids_def annotate_indexed Let_def comp_def
        case_prod_unfold filter_map is_research_step_def)
qed

end
