(* ===== verification/SchedulerRun.thy ===== *)
theory SchedulerRun
  imports Scheduler
begin

text \<open>
  Waves until nothing is left to dispatch: the scheduler and the task table together, with
  workers that succeed.  A plan whose dependencies have no cycle is worked off completely.
\<close>

section \<open>Running the waves\<close>

text \<open>A worker takes its task to running and then to succeeded.\<close>

definition complete_task :: "string \<Rightarrow> task_state dict \<Rightarrow> task_state dict res" where
  "complete_task k ts =
     ebind (transition_task (tasks_to_py ts) k (to_status ES_RUNNING))
       (\<lambda>ts1. transition_task (tasks_to_py ts1) k (to_status ES_SUCCEEDED))"

fun complete_all :: "string list \<Rightarrow> task_state dict \<Rightarrow> task_state dict res" where
  "complete_all [] ts = Inr ts"
| "complete_all (k # ks) ts = ebind (complete_task k ts) (complete_all ks)"

fun run_waves :: "nat \<Rightarrow> execution_plan \<Rightarrow> string list \<Rightarrow> int \<Rightarrow> task_state dict \<Rightarrow> task_state dict res" where
  "run_waves 0 p ids n ts = Inr ts"
| "run_waves (Suc m) p ids n ts =
     ebind (select_dispatch_wave p (tasks_to_py ts) ids n) (\<lambda>wave.
       if wave = [] then Inr ts
       else ebind (complete_all (map (\<lambda>(i, s). resolved_task_id s i) wave) ts) (run_waves m p ids n))"

definition chosen_ids :: "execution_plan \<Rightarrow> string list \<Rightarrow> string list" where
  "chosen_ids p ids = (if ids \<noteq> [] then ids else required_research_ids p)"

definition task_in :: "exec_status \<Rightarrow> task_state dict \<Rightarrow> string \<Rightarrow> bool" where
  "task_in e ts k \<longleftrightarrow> (case dget ts k of None \<Rightarrow> False | Some t \<Rightarrow> execution_status t = e)"

text \<open>Named, distinct steps whose dependencies are earlier steps, selected when the step is.\<close>

definition backward_plan :: "execution_plan \<Rightarrow> string list \<Rightarrow> bool" where
  "backward_plan p ids \<longleftrightarrow>
     list_all (\<lambda>s. step_task_id s \<noteq> []) (plan_steps p) \<and> distinct (map step_task_id (plan_steps p)) \<and>
     list_all (\<lambda>(j, s). list_all (\<lambda>d. d \<in> set (map step_task_id (take j (plan_steps p))) \<and>
         (step_task_id s \<in> set (chosen_ids p ids) \<longrightarrow> d \<in> set (chosen_ids p ids))) (depends_on s)) (indexed_steps p)"

text \<open>The same without an order: the dependencies of a selected step are selected steps, and have no cycle.\<close>

definition dep_rel :: "plan_step list \<Rightarrow> (string \<times> string) set" where
  "dep_rel steps = (\<Union>s\<in>set steps. {(d, step_task_id s) | d. d \<in> set (depends_on s)})"

definition closed_plan :: "execution_plan \<Rightarrow> string list \<Rightarrow> bool" where
  "closed_plan p ids \<longleftrightarrow>
     list_all (\<lambda>s. step_task_id s \<noteq> []) (plan_steps p) \<and> distinct (map step_task_id (plan_steps p)) \<and>
     list_all (\<lambda>s. list_all (\<lambda>d. d \<in> set (map step_task_id (plan_steps p)) \<and>
         (step_task_id s \<in> set (chosen_ids p ids) \<longrightarrow> d \<in> set (chosen_ids p ids))) (depends_on s)) (plan_steps p)"

definition acyclic_plan :: "execution_plan \<Rightarrow> string list \<Rightarrow> bool" where
  "acyclic_plan p ids \<longleftrightarrow> closed_plan p ids \<and> acyclic (dep_rel (plan_steps p))"

definition fresh_or_done :: "execution_plan \<Rightarrow> task_state dict \<Rightarrow> bool" where
  "fresh_or_done p ts \<longleftrightarrow> wf_tasks ts \<and>
     list_all (\<lambda>s. task_in ES_PENDING ts (step_task_id s) \<or> task_in ES_SUCCEEDED ts (step_task_id s)) (plan_steps p)"

definition open_steps :: "execution_plan \<Rightarrow> string list \<Rightarrow> task_state dict \<Rightarrow> plan_step list" where
  "open_steps p ids ts =
     filter (\<lambda>s. step_task_id s \<in> set (chosen_ids p ids) \<and> task_in ES_PENDING ts (step_task_id s)) (plan_steps p)"

section \<open>One task\<close>

lemma complete_task_eq:
  assumes "wf_tasks ts" and "task_in ES_PENDING ts k"
  shows "\<exists>t. complete_task k ts = Inr (dput k t ts) \<and> execution_status t = ES_SUCCEEDED \<and> wf_task k t"
proof -
  obtain t where t: "dget ts k = Some t" "execution_status t = ES_PENDING"
    using assms(2) by (auto simp: task_in_def split: option.splits)
  have cur: "current_task ts k = t" using t by (simp add: current_task_def)
  let ?t1 = "apply_transition (to_status ES_RUNNING) t"
  let ?ts1 = "dput k ?t1 ts"
  have v: "valid_op (Transition k (to_status e))" for e by (simp add: to_status_def)
  have wt: "wf_task k t" using wf_tasks_dget [OF assms(1) t(1)] .
  have wf1: "wf_task k ?t1" by (rule wf_apply_transition [OF wt v])
  have s: "tr_execution_status (to_status e) = e" for e by (simp add: to_status_def)
  have g1: "guard_transition ES_PENDING ES_RUNNING = Inr ()" "guard_transition ES_RUNNING ES_SUCCEEDED = Inr ()"
    by (simp_all add: guard_transition_def)
  have step1: "transition_task (tasks_to_py ts) k (to_status ES_RUNNING) = Inr ?ts1"
    using assms(1) by (simp add: transition_task_eq cur t(2) s g1)
  have step2: "transition_task (tasks_to_py ?ts1) k (to_status ES_SUCCEEDED) =
      Inr (dput k (apply_transition (to_status ES_SUCCEEDED) ?t1) ?ts1)"
    using wf_tasks_dput [OF assms(1) wf1]
    by (simp add: transition_task_eq current_task_def s g1)
  have "dput k x (dput k y ts) = dput k x ts" for x y by (induction ts) auto
  then show ?thesis
    using step1 step2 wf_apply_transition [OF wf1 v]
    by (auto simp: complete_task_def s)
qed

lemma complete_all_eq:
  assumes "wf_tasks ts" and "distinct ks" and "\<And>k. k \<in> set ks \<Longrightarrow> task_in ES_PENDING ts k"
  shows "\<exists>ts'. complete_all ks ts = Inr ts' \<and> wf_tasks ts' \<and>
    (\<forall>k e. task_in e ts' k = (if k \<in> set ks then e = ES_SUCCEEDED else task_in e ts k))"
  using assms
proof (induction ks arbitrary: ts)
  case Nil
  then show ?case by simp
next
  case (Cons k ks)
  obtain t where t: "complete_task k ts = Inr (dput k t ts)" "execution_status t = ES_SUCCEEDED" "wf_task k t"
    using complete_task_eq [OF Cons.prems(1)] Cons.prems(3) by force
  have in1: "task_in e (dput k t ts) j = (if j = k then e = ES_SUCCEEDED else task_in e ts j)" for e j
    using t(2) by (auto simp: task_in_def)
  have "\<exists>ts'. complete_all ks (dput k t ts) = Inr ts' \<and> wf_tasks ts' \<and>
      (\<forall>j e. task_in e ts' j = (if j \<in> set ks then e = ES_SUCCEEDED else task_in e (dput k t ts) j))"
    using Cons.prems by (intro Cons.IH wf_tasks_dput t(3)) (auto simp: in1)
  then show ?case using t(1) Cons.prems(2) by (auto simp: in1)
qed

section \<open>Progress\<close>

lemma indexed_nth: "(i, s) \<in> set (indexed_steps p) \<longleftrightarrow> i < length (plan_steps p) \<and> plan_steps p ! i = s"
  by (auto simp: indexed_steps_def set_zip intro!: exI [of _ i])

lemma finite_dep_rel [simp]: "finite (dep_rel steps)"
  by (simp add: dep_rel_def)

lemma index_of_nth:
  assumes "distinct ks" "j < length ks"
  shows "length (takeWhile (\<lambda>x. x \<noteq> ks ! j) ks) = j"
  using assms by (induction ks arbitrary: j) (auto simp: nth_Cons split: nat.split)

lemma backward_acyclic:
  assumes "backward_plan p ids"
  shows "acyclic_plan p ids"
proof -
  let ?ks = "map step_task_id (plan_steps p)"
  let ?pos = "\<lambda>k. length (takeWhile (\<lambda>x. x \<noteq> k) ?ks)"
  have dist: "distinct ?ks" using assms by (simp add: backward_plan_def)
  have pos: "?pos (?ks ! j) = j" if "j < length ?ks" for j
    by (rule index_of_nth [OF dist that])
  have step: "d \<in> set (take j ?ks) \<and>
      (step_task_id (plan_steps p ! j) \<in> set (chosen_ids p ids) \<longrightarrow> d \<in> set (chosen_ids p ids))"
    if "j < length (plan_steps p)" "d \<in> set (depends_on (plan_steps p ! j))" for j d
    using that assms by (auto simp: backward_plan_def list_all_iff indexed_nth take_map dest!: bspec [of _ _ "(j, plan_steps p ! j)"])
  have "dep_rel (plan_steps p) \<subseteq> measure ?pos"
  proof clarify
    fix d k
    assume "(d, k) \<in> dep_rel (plan_steps p)"
    then obtain j where j: "j < length (plan_steps p)" "k = ?ks ! j" "d \<in> set (depends_on (plan_steps p ! j))"
      by (auto simp: dep_rel_def in_set_conv_nth [of _ "plan_steps p"])
    then obtain i where "i < j" "d = ?ks ! i" using step [OF j(1,3)] by (auto simp: in_set_conv_nth)
    then show "(d, k) \<in> measure ?pos" using j pos by simp
  qed
  then have "acyclic (dep_rel (plan_steps p))" by (blast intro: wf_acyclic wf_subset)
  moreover have "d \<in> set ?ks \<and> (step_task_id s \<in> set (chosen_ids p ids) \<longrightarrow> d \<in> set (chosen_ids p ids))"
    if "s \<in> set (plan_steps p)" "d \<in> set (depends_on s)" for s d
  proof -
    obtain j where "j < length (plan_steps p)" "s = plan_steps p ! j" using \<open>s \<in> set (plan_steps p)\<close> by (auto simp: in_set_conv_nth)
    then show ?thesis using step [of j d] that(2) by (auto simp del: set_map dest: in_set_takeD)
  qed
  ultimately show ?thesis using assms by (simp add: acyclic_plan_def closed_plan_def list_all_iff backward_plan_def)
qed

lemma wave_not_empty:
  assumes plan: "acyclic_plan p ids" and tab: "fresh_or_done p ts" and opn: "open_steps p ids ts \<noteq> []"
  shows "\<exists>wave. select_dispatch_wave p (tasks_to_py ts) ids n = Inr wave \<and> wave \<noteq> []"
proof -
  have wf: "wf_tasks ts" using tab by (simp add: fresh_or_done_def)
  let ?open = "step_task_id ` set (open_steps p ids ts)"
  have "wf (dep_rel (plan_steps p))" using plan by (simp add: acyclic_plan_def finite_acyclic_wf)
  moreover obtain s0 where "s0 \<in> set (open_steps p ids ts)" using opn by (cases "open_steps p ids ts") auto
  ultimately obtain k where k: "k \<in> ?open" "\<And>d. (d, k) \<in> dep_rel (plan_steps p) \<Longrightarrow> d \<notin> ?open"
    using wfE_min [of "dep_rel (plan_steps p)" "step_task_id s0" ?open] by blast
  then obtain s where s: "s \<in> set (plan_steps p)" "step_task_id s \<in> set (chosen_ids p ids)"
      "task_in ES_PENDING ts (step_task_id s)" "k = step_task_id s"
    by (auto simp: open_steps_def)
  have "dependency_done ts d" if d: "d \<in> set (depends_on s)" for d
  proof -
    have "d \<in> set (map step_task_id (plan_steps p))" "d \<in> set (chosen_ids p ids)"
      using plan s d by (auto simp: acyclic_plan_def closed_plan_def list_all_iff)
    moreover have "d \<notin> ?open" using k(2) s d by (auto simp: dep_rel_def)
    ultimately have "task_in ES_SUCCEEDED ts d"
      using tab by (auto simp: fresh_or_done_def list_all_iff open_steps_def)
    then show ?thesis by (auto simp: dependency_done_def task_in_def split: option.splits)
  qed
  moreover obtain j where j: "(j, s) \<in> set (indexed_steps p)"
    using s(1) unfolding indexed_nth by (auto simp: in_set_conv_nth [of s])
  moreover have "step_task_id s \<noteq> []" using plan s by (auto simp: acyclic_plan_def closed_plan_def list_all_iff)
  ultimately have "eligible (chosen_ids p ids) ts (j, s)"
    using s by (auto simp: eligible_def step_runnable_def resolved_task_id_def task_in_def split: option.splits)
  then have "(j, s) \<in> set (filter (eligible (chosen_ids p ids) ts) (indexed_steps p))" using j by simp
  then have "take (wave_limit n) (filter (eligible (chosen_ids p ids) ts) (indexed_steps p)) \<noteq> []"
    by (cases "filter (eligible (chosen_ids p ids) ts) (indexed_steps p)") (auto simp: wave_limit_def)
  then show ?thesis
    using select_wave_eq [OF normalize_tasks_to_py [OF wf]] by (simp add: chosen_ids_def)
qed

lemma wave_ids:
  assumes plan: "acyclic_plan p ids" and wf: "wf_tasks ts"
    and wave: "select_dispatch_wave p (tasks_to_py ts) ids n = Inr wave"
  shows "distinct (map (\<lambda>(i, s). resolved_task_id s i) wave)"
    and "k \<in> set (map (\<lambda>(i, s). resolved_task_id s i) wave) \<Longrightarrow>
       task_in ES_PENDING ts k \<and> k \<in> set (chosen_ids p ids) \<and> k \<in> step_task_id ` set (plan_steps p)"
proof -
  have w: "wave = take (wave_limit n) (filter (eligible (chosen_ids p ids) ts) (indexed_steps p))"
    using wave select_wave_eq [OF normalize_tasks_to_py [OF wf]] by (simp add: chosen_ids_def)
  have named: "resolved_task_id s i = step_task_id s" if "(i, s) \<in> set (indexed_steps p)" for i s
    using that plan by (auto simp: indexed_nth acyclic_plan_def closed_plan_def list_all_iff resolved_task_id_def)
  have ids: "map (\<lambda>(i, s). resolved_task_id s i) (indexed_steps p) = map step_task_id (plan_steps p)"
    by (rule nth_equalityI) (auto simp: indexed_steps_def intro!: named [unfolded indexed_nth])
  have "distinct (map (\<lambda>(i, s). resolved_task_id s i) (indexed_steps p))"
    unfolding ids using plan by (simp add: acyclic_plan_def closed_plan_def)
  then show "distinct (map (\<lambda>(i, s). resolved_task_id s i) wave)"
    unfolding w take_map [symmetric] by (intro distinct_take distinct_map_filter)
  assume "k \<in> set (map (\<lambda>(i, s). resolved_task_id s i) wave)"
  then obtain i s where e: "(i, s) \<in> set wave" "k = resolved_task_id s i" by auto
  then have f: "(i, s) \<in> set (indexed_steps p)" "eligible (chosen_ids p ids) ts (i, s)"
    unfolding w by (auto dest: in_set_takeD)
  then show "task_in ES_PENDING ts k \<and> k \<in> set (chosen_ids p ids) \<and> k \<in> step_task_id ` set (plan_steps p)"
    using named [OF f(1)] e(2) by (auto simp: eligible_def step_runnable_def task_in_def indexed_nth)
qed

lemma open_steps_shrink:
  assumes "wave \<noteq> []"
    and ids: "\<And>k. k \<in> set ks \<Longrightarrow> task_in ES_PENDING ts k \<and> k \<in> set (chosen_ids p ids) \<and> k \<in> step_task_id ` set (plan_steps p)"
    and ks: "ks \<noteq> []"
    and new: "\<And>k e. task_in e ts' k = (if k \<in> set ks then e = ES_SUCCEEDED else task_in e ts k)"
  shows "length (open_steps p ids ts') < length (open_steps p ids ts)"
proof -
  have sub: "open_steps p ids ts' = filter (\<lambda>s. step_task_id s \<notin> set ks) (open_steps p ids ts)"
    by (auto simp: open_steps_def new intro!: filter_cong)
  obtain k where k: "k \<in> set ks" using ks by (cases ks) auto
  then obtain s where "s \<in> set (open_steps p ids ts)" "step_task_id s \<in> set ks"
    using ids [OF k] by (auto simp: open_steps_def)
  then show ?thesis unfolding sub by (intro length_filter_less) auto
qed

lemma run_waves_complete:
  assumes "acyclic_plan p ids" and "fresh_or_done p ts" and "length (open_steps p ids ts) \<le> m"
  shows "\<exists>ts'. run_waves m p ids n ts = Inr ts' \<and> fresh_or_done p ts' \<and> open_steps p ids ts' = []"
  using assms
proof (induction m arbitrary: ts)
  case 0
  then show ?case by auto
next
  case (Suc m)
  have wf: "wf_tasks ts" using Suc.prems(2) by (simp add: fresh_or_done_def)
  obtain wave where w: "select_dispatch_wave p (tasks_to_py ts) ids n = Inr wave"
    using select_wave_eq [OF normalize_tasks_to_py [OF wf]] by blast
  show ?case
  proof (cases "wave = []")
    case True
    then have "open_steps p ids ts = []" using wave_not_empty [OF Suc.prems(1,2), of n] w by auto
    then show ?thesis using True w Suc.prems(2) by auto
  next
    case False
    let ?ks = "map (\<lambda>(i, s). resolved_task_id s i) wave"
    note W = wave_ids [OF Suc.prems(1) wf w]
    have pend: "\<And>k. k \<in> set ?ks \<Longrightarrow> task_in ES_PENDING ts k" using W(2) by blast
    obtain ts1 where ts1: "complete_all ?ks ts = Inr ts1" "wf_tasks ts1"
      "\<And>k e. task_in e ts1 k = (if k \<in> set ?ks then e = ES_SUCCEEDED else task_in e ts k)"
      using complete_all_eq [OF wf W(1) pend] by blast
    have "fresh_or_done p ts1" using Suc.prems(2) ts1 by (auto simp: fresh_or_done_def list_all_iff)
    moreover have "length (open_steps p ids ts1) < length (open_steps p ids ts)"
      using False by (intro open_steps_shrink [OF False W(2) _ ts1(3)]) auto
    ultimately show ?thesis using Suc.IH [OF Suc.prems(1)] Suc.prems(3) w False ts1(1) by auto
  qed
qed

lemma acyclic_plan_worked_off:
  assumes "acyclic_plan p ids" and "fresh_or_done p ts"
  shows "\<exists>ts'. run_waves (length (plan_steps p)) p ids n ts = Inr ts' \<and>
    (\<forall>s \<in> set (plan_steps p). step_task_id s \<in> set (chosen_ids p ids) \<longrightarrow> task_in ES_SUCCEEDED ts' (step_task_id s))"
proof -
  have "length (open_steps p ids ts) \<le> length (plan_steps p)" by (simp add: open_steps_def)
  then obtain ts' where "run_waves (length (plan_steps p)) p ids n ts = Inr ts'" "fresh_or_done p ts'"
    "open_steps p ids ts' = []"
    using run_waves_complete [OF assms] by blast
  then show ?thesis by (auto simp: fresh_or_done_def open_steps_def list_all_iff filter_empty_conv)
qed

text \<open>
  A plan of distinct, named steps whose dependencies are earlier selected steps never gets stuck:
  dispatching waves and completing their workers takes, from a table where the plan's tasks are pending
  or succeeded, at most as many waves as the plan has steps until every selected step has succeeded.
\<close>

theorem plan_worked_off:
  assumes "backward_plan p ids" and "fresh_or_done p ts"
  shows "\<exists>ts'. run_waves (length (plan_steps p)) p ids n ts = Inr ts' \<and>
    (\<forall>s \<in> set (plan_steps p). step_task_id s \<in> set (chosen_ids p ids) \<longrightarrow> task_in ES_SUCCEEDED ts' (step_task_id s))"
  by (rule acyclic_plan_worked_off [OF backward_acyclic [OF assms(1)] assms(2)])

theorem plan_worked_off_witness:
  "\<exists>ts'. run_waves 4 example_plan [] 2 (initialize_tasks example_plan) = Inr ts' \<and>
     task_in ES_SUCCEEDED ts' ''d''"
proof -
  have p: "backward_plan example_plan []" and t: "fresh_or_done example_plan (initialize_tasks example_plan)"
    and d: "example_step ''d'' [''b'', ''c''] \<in> set (plan_steps example_plan)"
    and c: "''d'' \<in> set (chosen_ids example_plan [])"
    and l: "length (plan_steps example_plan) = 4" and i: "step_task_id (example_step ''d'' [''b'', ''c'']) = ''d''"
    by (code_simp | simp add: example_plan_def example_step_def)+
  show ?thesis using plan_worked_off [OF p t, of 2] d c unfolding l by (auto simp: i dest!: bspec [OF _ d])
qed

end
