(* ===== verification/PlanValidator.thy ===== *)
theory PlanValidator
  imports PlanGraph SchedulerRun
begin

text \<open>
  Validation of execution plans (\<open>app/research/planning/validator.py\<close>): artifact producers and the
  structural and semantic checks of \<open>validate_execution_plan\<close>, and that a plan they accept is
  worked off by the scheduler.
\<close>

section \<open>Artifacts\<close>

definition produced_artifact :: "plan_step \<Rightarrow> string" where
  "produced_artifact s = str_or (pget (step_metadata s) ''produces_artifact'') []"

definition is_optional :: "plan_step \<Rightarrow> bool" where
  "is_optional s = truthy (pget (step_metadata s) ''optional'')"

definition producers_of :: "plan_step list \<Rightarrow> string \<Rightarrow> plan_step list" where
  "producers_of steps a = filter (\<lambda>s. produced_artifact s \<noteq> [] \<and> produced_artifact s = a) steps"

definition artifact_issue :: "plan_step list \<Rightarrow> plan_step \<Rightarrow> string \<Rightarrow> string list" where
  "artifact_issue steps s a =
     (let producers = producers_of steps a in
      if producers = [] then [''missing_artifact_producer:'' @ a @ '':'' @ step_task_id s]
      else if list_all is_optional producers
        then [''required_task_depends_on_optional_artifact:'' @ a @ '':'' @ step_task_id s]
      else [])"

definition step_artifact_issues :: "plan_step list \<Rightarrow> plan_step \<Rightarrow> string list res" where
  "step_artifact_issues steps s =
     (if is_optional s then Inr []
      else ebind (str_list (pget (step_metadata s) ''requires_artifacts'')) (\<lambda>artifacts.
             Inr (concat (map (artifact_issue steps s) artifacts))))"

definition validate_artifact_dependencies :: "execution_plan \<Rightarrow> string list res" where
  "validate_artifact_dependencies p =
     ebind (emap (step_artifact_issues (plan_steps p)) (plan_steps p)) (\<lambda>rows. Inr (concat rows))"

section \<open>The plan of a specification\<close>

text \<open>
  What the validation reads of the specification, the coverage contract and the candidate set:
  the task shape, the identities of the contract's units and whether the set was expanded.
\<close>

record plan_context =
  pc_task_shape :: string
  pc_coverage_ids :: "string list"
  pc_expanded :: bool

definition landscape_shape :: "string \<Rightarrow> bool" where
  "landscape_shape shape \<longleftrightarrow> shape \<in> {''BREADTH_HEAVY'', ''DYNAMIC_DISCOVERY''}"

text \<open>\<open>x in v\<close> for a text \<open>x\<close>: elements of a list, keys of a dictionary, parts of a text.\<close>

fun text_in :: "string \<Rightarrow> pyval \<Rightarrow> bool res" where
  "text_in x (PList vs) = Inr (py_in (PStr x) vs)"
| "text_in x (PDict d) = Inr (x \<in> set (dkeys d))"
| "text_in x (PStr s) = Inr (is_infix x s)"
| "text_in x v = Inl (TypeError ''argument is not iterable'')"

definition web_forbidden :: "plan_step \<Rightarrow> bool res" where
  "web_forbidden s =
     ebind (text_in ''web'' (pget_or (step_metadata s) ''allowed_sources'' (strs [''web'']))) (\<lambda>b. Inr (\<not> b))"

definition dependency_issues :: "string list \<Rightarrow> plan_step \<Rightarrow> string list" where
  "dependency_issues ids s =
     map (\<lambda>d. ''missing_dependency:'' @ step_task_id s) (filter (\<lambda>d. d \<notin> set ids) (depends_on s))"

definition structure_issues :: "plan_step list \<Rightarrow> int \<Rightarrow> string list" where
  "structure_issues steps max_tasks =
     (let ids = map step_task_id steps in
      (if list_ex (\<lambda>s. \<not> is_research_step s) steps then [''non_research_step''] else [])
      @ (if list_ex (\<lambda>i. i = []) ids then [''missing_task_id''] else [])
      @ (if length ids \<noteq> length (fromkeys ids) then [''duplicate_task_id''] else [])
      @ concat (map (dependency_issues ids) steps)
      @ (if has_cycle steps then [''cycle_in_dependencies''] else [])
      @ (if max_tasks < int (length steps) then [''too_many_tasks''] else []))"

definition step_kind :: "plan_step \<Rightarrow> string" where
  "step_kind s = str_or (pget (step_metadata s) ''task_kind'') []"

definition owned_coverage :: "plan_step list \<Rightarrow> string list res" where
  "owned_coverage steps =
     ebind (emap (\<lambda>s. ebind (py_iter (pget_or (step_metadata s) ''coverage_ids'' (PList []))) (\<lambda>vs. Inr (map py_str vs))) steps)
       (\<lambda>rows. Inr (concat rows))"

definition coverage_issues :: "plan_context \<Rightarrow> plan_step list \<Rightarrow> string list \<Rightarrow> string list" where
  "coverage_issues c steps owned =
     (if \<not> landscape_shape (pc_task_shape c)
      then (let missing = filter (\<lambda>i. i \<notin> set owned) (fromkeys (pc_coverage_ids c)) in
            if missing \<noteq> [] then [''required_coverage_without_owner:'' @ nat_str (length missing)] else [])
      else (let discovery = filter (\<lambda>s. step_kind s = ''discovery'') steps in
            (if discovery = [] \<and> \<not> pc_expanded c then [''landscape_missing_discovery_contract''] else [])
            @ (if discovery \<noteq> [] \<and> \<not> list_ex (\<lambda>s. pget (step_metadata s) ''produces_artifact'' = PStr ''candidate_set'') discovery
               then [''discovery_missing_candidate_artifact''] else [])))"

definition gap_fill_issues :: "plan_step \<Rightarrow> string list" where
  "gap_fill_issues s =
     (let m = step_metadata s in
      if step_kind s = ''gap_fill''
      then (if \<not> truthy (pget m ''resolves_gap_ids'') then [''gap_fill_missing_gap_binding:'' @ step_task_id s] else [])
           @ (if \<not> truthy (pget m ''coverage_ids'') \<and> \<not> truthy (pget m ''coverage_keys'')
              then [''gap_fill_missing_coverage:'' @ step_task_id s] else [])
      else [])"

definition deep_dive_issues :: "plan_context \<Rightarrow> plan_step \<Rightarrow> string list res" where
  "deep_dive_issues c s =
     (if step_kind s = ''deep_dive'' \<and> landscape_shape (pc_task_shape c)
      then (case pget_or (step_metadata s) ''subject_id'' (PStr []) of
              PStr i \<Rightarrow> Inr (if is_prefix ''candidate:'' i then []
                             else [''landscape_deep_dive_missing_candidate:'' @ step_task_id s])
            | _ \<Rightarrow> Inl (AttributeError ''startswith''))
      else Inr [])"

definition validate_execution_plan :: "execution_plan \<Rightarrow> plan_context \<Rightarrow> int \<Rightarrow> string list res" where
  "validate_execution_plan p c max_tasks =
     (let steps = plan_steps p in
      if steps = [] then Inr [''empty_plan'']
      else ebind (eany web_forbidden steps) (\<lambda>forbidden.
           ebind (owned_coverage steps) (\<lambda>owned.
           ebind (emap (\<lambda>s. ebind (deep_dive_issues c s) (\<lambda>rows. Inr (gap_fill_issues s @ rows))) steps) (\<lambda>rows.
             Inr (structure_issues steps max_tasks @ (if forbidden then [''forbidden_source''] else [])
                  @ coverage_issues c steps owned @ concat rows)))))"

section \<open>The dependency graph of a validated plan\<close>

lemma fromkeys_length_distinct: "length (fromkeys xs) = length xs \<longleftrightarrow> distinct xs"
proof
  assume "length (fromkeys xs) = length xs"
  then show "distinct xs" by (metis card_distinct distinct_card distinct_fromkeys set_fromkeys)
qed (simp add: fromkeys_distinct)

lemma deps_of_steps:
  assumes "distinct (map step_task_id steps)" "s \<in> set steps" "step_task_id s \<noteq> []"
  shows "deps_of (step_deps steps) (step_task_id s) = depends_on s"
proof -
  let ?rows = "map (\<lambda>s. (step_task_id s, depends_on s)) (named_steps steps)"
  have dist: "distinct (dkeys ?rows)"
    using assms(1) by (simp add: named_steps_def comp_def distinct_map_filter)
  have "(step_task_id s, depends_on s) \<in> set ?rows" using assms by (force simp: named_steps_def)
  with dist show ?thesis by (simp add: step_deps_def deps_of_def dget_dmerge)
qed

text \<open>
  With distinct names and known dependencies the edges the cycle check walks are the dependencies of
  the plan, read backwards.
\<close>

lemma dep_edges_steps:
  assumes "distinct (map step_task_id steps)" "\<forall>s\<in>set steps. step_task_id s \<noteq> []"
    and "\<forall>s\<in>set steps. set (depends_on s) \<subseteq> step_task_id ` set steps"
  shows "dep_edges (step_ids steps) (step_deps steps) = (dep_rel steps)\<inverse>"
proof -
  have named: "named_steps steps = steps" using assms(2) by (simp add: named_steps_def)
  have "(i, d) \<in> dep_edges (step_ids steps) (step_deps steps) \<longleftrightarrow> (d, i) \<in> dep_rel steps" for i d
    using deps_of_steps [OF assms(1)] assms(2,3)
    by (fastforce simp: dep_edges_def dep_rel_def step_ids_def named)
  then show ?thesis by auto
qed

lemma structure_issues_Nil:
  assumes "structure_issues steps n = []"
  shows "list_all is_research_step steps" "\<forall>s\<in>set steps. step_task_id s \<noteq> []"
    "distinct (map step_task_id steps)" "\<forall>s\<in>set steps. set (depends_on s) \<subseteq> step_task_id ` set steps"
    "\<not> has_cycle steps" "int (length steps) \<le> n"
proof -
  note issues = assms [unfolded structure_issues_def Let_def append_is_Nil_conv]
  show "list_all is_research_step steps" using issues by (auto simp: list_all_iff list_ex_iff split: if_splits)
  show "\<forall>s\<in>set steps. step_task_id s \<noteq> []" using issues by (force simp: list_ex_iff split: if_splits)
  show "distinct (map step_task_id steps)"
    using issues by (auto simp flip: fromkeys_length_distinct split: if_splits)
  show "\<forall>s\<in>set steps. set (depends_on s) \<subseteq> step_task_id ` set steps"
    using issues by (auto simp: dependency_issues_def filter_empty_conv)
  show "\<not> has_cycle steps" "int (length steps) \<le> n" using issues by (auto split: if_splits)
qed

text \<open>
  C39. The cycle check of a plan is exact, whatever the order in which the set of identities is walked:
  it reports a cycle exactly when some step depends on itself, directly or through other steps.
\<close>

theorem cycle_check_exact:
  assumes "set todo = set (step_ids steps)"
  shows "any_cycle (step_ids steps) (step_deps steps) [] todo \<longleftrightarrow>
    (\<exists>i. (i, i) \<in> {(i, d). i \<in> set (step_ids steps) \<and> d \<in> set (step_ids steps)
       \<and> d \<in> set (deps_of (step_deps steps) i)}\<^sup>+)"
  using any_cycle_correct [OF assms] by (simp add: acyclic_def dep_edges_def)

theorem cycle_check_exact_witness:
  "any_cycle (step_ids [example_step ''a'' [''b''], example_step ''b'' [''a'']])
     (step_deps [example_step ''a'' [''b''], example_step ''b'' [''a'']]) [] [''b'', ''a'']
   \<and> (\<exists>i. (i, i) \<in> {(i, d). i \<in> {''a'', ''b''} \<and> d \<in> {''a'', ''b''}
       \<and> d \<in> set (deps_of (step_deps [example_step ''a'' [''b''], example_step ''b'' [''a'']]) i)}\<^sup>+)"
proof -
  let ?steps = "[example_step ''a'' [''b''], example_step ''b'' [''a'']]"
  have ids: "step_ids ?steps = [''a'', ''b'']" by code_simp
  have "any_cycle [''a'', ''b''] (step_deps ?steps) [] [''b'', ''a'']" by code_simp
  then show ?thesis using cycle_check_exact [of "[''b'', ''a'']" ?steps] by (simp add: ids insert_commute)
qed

text \<open>For distinct names and known dependencies this is a cycle of the dependency relation.\<close>

lemma has_cycle_iff_acyclic:
  assumes "distinct (map step_task_id steps)" "\<forall>s\<in>set steps. step_task_id s \<noteq> []"
    and "\<forall>s\<in>set steps. set (depends_on s) \<subseteq> step_task_id ` set steps"
  shows "has_cycle steps \<longleftrightarrow> \<not> acyclic (dep_rel steps)"
  unfolding has_cycle_def any_cycle_correct [OF refl] dep_edges_steps [OF assms] by simp

lemma validated_plan_acyclic:
  assumes "validate_execution_plan p c n = Inr []"
    and "\<forall>s\<in>set (plan_steps p). step_task_id s \<in> set (chosen_ids p ids) \<longrightarrow> set (depends_on s) \<subseteq> set (chosen_ids p ids)"
  shows "acyclic_plan p ids"
proof -
  have "structure_issues (plan_steps p) n = []"
    using assms(1) by (auto simp: validate_execution_plan_def Let_def ebind_eq_Inr split: if_splits)
  note valid = structure_issues_Nil [OF this]
  have "acyclic (dep_rel (plan_steps p))"
    using valid(5) has_cycle_iff_acyclic [OF valid(3,2,4)] by simp
  then show ?thesis
    using valid(2,3,4) assms(2) by (auto simp: acyclic_plan_def closed_plan_def list_all_iff)
qed

section \<open>Validated plans are worked off\<close>

text \<open>
  C35. A plan the validation accepts is worked off: when the tasks are fresh or done, the selection takes the
  dependencies of a selected step along and every dispatched worker succeeds, dispatching waves and
  completing their workers ends, within as many waves as the plan has steps, with every selected step
  succeeded.
\<close>

theorem validated_plan_worked_off:
  assumes "validate_execution_plan p c max_tasks = Inr []" and "fresh_or_done p ts"
    and "\<forall>s\<in>set (plan_steps p). step_task_id s \<in> set (chosen_ids p ids) \<longrightarrow> set (depends_on s) \<subseteq> set (chosen_ids p ids)"
  shows "\<exists>ts'. run_waves (length (plan_steps p)) p ids n ts = Inr ts' \<and>
    (\<forall>s\<in>set (plan_steps p). step_task_id s \<in> set (chosen_ids p ids) \<longrightarrow> task_in ES_SUCCEEDED ts' (step_task_id s))"
  by (rule acyclic_plan_worked_off [OF validated_plan_acyclic [OF assms(1,3)] assms(2)])

text \<open>A plan whose later step comes first.\<close>

definition shuffled_plan :: execution_plan where
  "shuffled_plan = example_plan\<lparr>plan_steps := [example_step ''b'' [''a''], example_step ''a'' []]\<rparr>"

definition open_context :: plan_context where
  "open_context = \<lparr>pc_task_shape = ''FACT'', pc_coverage_ids = [], pc_expanded = False\<rparr>"

theorem validated_plan_worked_off_witness:
  "\<exists>ts'. run_waves 2 shuffled_plan [''b'', ''a''] 3 (initialize_tasks shuffled_plan) = Inr ts' \<and>
     task_in ES_SUCCEEDED ts' ''b''"
proof -
  have v: "validate_execution_plan shuffled_plan open_context 12 = Inr []" by code_simp
  have t: "fresh_or_done shuffled_plan (initialize_tasks shuffled_plan)" by code_simp
  have c: "\<forall>s\<in>set (plan_steps shuffled_plan). step_task_id s \<in> set (chosen_ids shuffled_plan [''b'', ''a''])
      \<longrightarrow> set (depends_on s) \<subseteq> set (chosen_ids shuffled_plan [''b'', ''a''])"
    by (simp add: shuffled_plan_def chosen_ids_def example_step_def)
  have l: "length (plan_steps shuffled_plan) = 2" and b: "example_step ''b'' [''a''] \<in> set (plan_steps shuffled_plan)"
    by (simp_all add: shuffled_plan_def)
  show ?thesis
    using validated_plan_worked_off [OF v t c, of 3] b unfolding l
    by (auto simp: chosen_ids_def example_step_def dest!: bspec [OF _ b])
qed

text \<open>
  The validation does not look at optional steps that required ones depend on.  The default
  selection leaves the optional step out, and the required step then waits forever.
\<close>

definition optional_first :: execution_plan where
  "optional_first = example_plan\<lparr>plan_steps :=
     [(example_step ''a'' [])\<lparr>step_metadata := [(''optional'', PBool True)]\<rparr>, example_step ''b'' [''a'']]\<rparr>"

lemma optional_dependency_stuck:
  "validate_execution_plan optional_first open_context 12 = Inr [] \<and> required_research_ids optional_first = [''b'']
   \<and> (\<forall>n. select_dispatch_wave optional_first (tasks_to_py (initialize_tasks optional_first)) [] n = Inr [])"
proof -
  have v: "validate_execution_plan optional_first open_context 12 = Inr []" by code_simp
  have r: "required_research_ids optional_first = [''b'']" by code_simp
  have e: "filter (eligible [''b''] (initialize_tasks optional_first)) (indexed_steps optional_first) = []" by code_simp
  show ?thesis using v r e select_wave_eq [OF normalize_tasks_to_py [OF wf_initialize [of optional_first]], of optional_first "[]"]
    by simp
qed

end
