(* ===== verification/Sha256.thy ===== *)
theory Sha256
  imports Prelude "HOL-Library.Word"
begin

text \<open>
  The library functions the identities rest on: SHA-256 of a byte string on 32 bit words, and
  its hexadecimal digest.
\<close>

unbundle bit_operations_syntax

type_synonym w32 = "32 word"

definition ror :: "nat \<Rightarrow> w32 \<Rightarrow> w32" where
  "ror n w = (drop_bit n w) OR (push_bit (32 - n) w)"

text \<open>
  The constants are the first 32 bits of the fractional parts of the cube roots of the first 64
  primes and of the square roots of the first 8.
\<close>

fun root_bits :: "nat \<Rightarrow> nat \<Rightarrow> int \<Rightarrow> int \<Rightarrow> int" where
  "root_bits k 0 n r = r"
| "root_bits k (Suc b) n r = (let t = r + 2 ^ b in root_bits k b n (if t ^ k \<le> n then t else r))"

definition sha_primes :: "int list" where
  "sha_primes = filter (\<lambda>p. list_all (\<lambda>q. p mod q \<noteq> 0) [2..p - 1]) [2..311]"

definition sha_k :: "w32 list" where
  "sha_k = map (\<lambda>p. word_of_int (root_bits 3 36 (p * 2 ^ 96) 0)) sha_primes"

definition sha_init :: "w32 list" where
  "sha_init = map (\<lambda>p. word_of_int (root_bits 2 36 (p * 2 ^ 64) 0)) (take 8 sha_primes)"

definition sha_pad :: "int list \<Rightarrow> int list" where
  "sha_pad bs =
     (let n = length bs; zeros = (119 - n mod 64) mod 64; bits = 8 * int n
      in bs @ [128] @ replicate zeros 0 @ map (\<lambda>i. bits div 2 ^ (8 * (7 - i)) mod 256) [0..<8])"

fun be_words :: "int list \<Rightarrow> w32 list" where
  "be_words (a # b # c # d # r) = word_of_int (((a * 256 + b) * 256 + c) * 256 + d) # be_words r"
| "be_words _ = []"

fun chunks16 :: "nat \<Rightarrow> 'a list \<Rightarrow> 'a list list" where
  "chunks16 0 xs = []"
| "chunks16 (Suc n) xs = (if xs = [] then [] else take 16 xs # chunks16 n (drop 16 xs))"

text \<open>The message schedule, newest word first.\<close>

fun extend_schedule :: "nat \<Rightarrow> w32 list \<Rightarrow> w32 list" where
  "extend_schedule 0 ws = ws"
| "extend_schedule (Suc n) ws =
     (let a = ws ! 14; b = ws ! 1;
          s0 = ror 7 a XOR ror 18 a XOR drop_bit 3 a;
          s1 = ror 17 b XOR ror 19 b XOR drop_bit 10 b
      in extend_schedule n ((ws ! 15 + s0 + ws ! 6 + s1) # ws))"

fun sha_round :: "w32 \<times> w32 \<Rightarrow> w32 list \<Rightarrow> w32 list" where
  "sha_round (k, w) [a, b, c, d, e, f, g, h] =
     (let s1 = ror 6 e XOR ror 11 e XOR ror 25 e;
          ch = (e AND f) XOR (NOT e AND g);
          t1 = h + s1 + ch + k + w;
          s0 = ror 2 a XOR ror 13 a XOR ror 22 a;
          maj = (a AND b) XOR (a AND c) XOR (b AND c)
      in [t1 + s0 + maj, a, b, c, d + t1, e, f, g])"
| "sha_round _ st = st"

definition sha_block :: "w32 list \<Rightarrow> w32 list \<Rightarrow> w32 list" where
  "sha_block chunk st = map2 (+) st (fold sha_round (zip sha_k (rev (extend_schedule 48 (rev chunk)))) st)"

definition hex_digit :: "int \<Rightarrow> char" where
  "hex_digit n = char_of (if n < 10 then 48 + n else 87 + n)"

definition hex_word :: "w32 \<Rightarrow> string" where
  "hex_word w = map (\<lambda>i. hex_digit (uint w div 16 ^ (7 - i) mod 16)) [0..<8]"

definition sha256_hex :: "string \<Rightarrow> string" where
  "sha256_hex s =
     (let ws = be_words (sha_pad (map of_char s))
      in concat (map hex_word (fold sha_block (chunks16 (length ws) ws) sha_init)))"

end
