(* ===== verification/TaskIdentity.thy ===== *)
theory TaskIdentity
  imports Sha256 PyVal "HOL-Library.Char_ord" "HOL-Library.List_Lexorder" "HOL-Library.Multiset"
begin

text \<open>
  Deterministic identities of research requests and worker results
  (\<open>app/research/runtime/task_identity.py\<close>).  Text is normalised code point by code point:
  a code point is its UTF-8 encoding, as everywhere in the development.
\<close>

section \<open>Normalisation\<close>

text \<open>The code points the two regular expressions match: white space, and the punctuation class.\<close>

definition is_white_point :: "string \<Rightarrow> bool" where
  "is_white_point p \<longleftrightarrow>
     (case p of
        [c] \<Rightarrow> is_space c
      | _ \<Rightarrow> p \<in> set ([utf8 [0xC2, 0x85], utf8 [0xC2, 0xA0], utf8 [0xE1, 0x9A, 0x80], utf8 [0xE2, 0x80, 0xA8],
                      utf8 [0xE2, 0x80, 0xA9], utf8 [0xE2, 0x80, 0xAF], utf8 [0xE2, 0x81, 0x9F],
                      utf8 [0xE3, 0x80, 0x80]] @ map (\<lambda>i. utf8 [0xE2, 0x80, 0x80 + i]) [0..<11]))"

definition is_punctuation_point :: "string \<Rightarrow> bool" where
  "is_punctuation_point p \<longleftrightarrow>
     p \<in> set [utf8 [0xEF, 0xBC, 0x8C], utf8 [0xE3, 0x80, 0x82], utf8 [0xEF, 0xBC, 0x81], utf8 [0xEF, 0xBC, 0x9F],
              utf8 [0xEF, 0xBC, 0x9B], utf8 [0xEF, 0xBC, 0x9A], utf8 [0xE3, 0x80, 0x81], '','', ''.'', ''!'',
              ''?'', '';'', '':'', utf8 [10], utf8 [13], utf8 [9]]"

text \<open>The words between runs of white space; joining them with one space also strips the ends.\<close>

fun words_of :: "string \<Rightarrow> string list \<Rightarrow> string list" where
  "words_of cur [] = (if cur = [] then [] else [cur])"
| "words_of cur (p # ps) =
     (if is_white_point p then (if cur = [] then words_of [] ps else cur # words_of [] ps)
      else words_of (cur @ p) ps)"

definition normalize_text :: "string \<Rightarrow> string" where
  "normalize_text s =
     join '' '' (words_of [] (map (\<lambda>p. if is_punctuation_point p then '' '' else p) (code_points (py_lower s))))"

definition normalize_value :: "pyval \<Rightarrow> string" where
  "normalize_value v = normalize_text (str_or v [])"

definition normalize_search_query :: "string \<Rightarrow> string" where
  "normalize_search_query query = normalize_text query"

section \<open>Identities\<close>

definition sorted_terms :: "pyval list \<Rightarrow> string" where
  "sorted_terms vs = join ''|'' (sort (filter (\<lambda>t. t \<noteq> []) (map normalize_value vs)))"

definition semantic_fingerprint :: "string \<Rightarrow> pyval list \<Rightarrow> pyval list \<Rightarrow> string" where
  "semantic_fingerprint objective target_gaps target_criteria =
     take 16 (sha256_hex (join ''|''
       [normalize_text objective, sorted_terms target_gaps, sorted_terms target_criteria]))"

definition format_03d :: "int \<Rightarrow> string" where
  "format_03d n = (if n < 0 then ''-'' @ pad_zeros 2 (nat_str (nat (- n))) else pad_zeros 3 (nat_str (nat n)))"

definition execution_task_id :: "int \<Rightarrow> string \<Rightarrow> string" where
  "execution_task_id wave_id fingerprint = ''task_'' @ format_03d wave_id @ ''_'' @ take 12 fingerprint"

definition request_fingerprint :: "pydict \<Rightarrow> string res" where
  "request_fingerprint item =
     ebind (iter_or_empty (pget item ''target_gaps'')) (\<lambda>gaps.
     ebind (iter_or_empty (pget item ''target_criteria'')) (\<lambda>criteria.
       Inr (semantic_fingerprint (str_or (pget item ''objective'') []) gaps criteria)))"

definition worker_result_id :: "pydict \<Rightarrow> string res" where
  "worker_result_id row =
     (let task_id = str_or (pget row ''task_id'') [];
          attempt = str_or (pget row ''attempt'') ''1'';
          wave_id = str_or (por (pget row ''dispatch_wave_id'') (pget row ''wave_id'')) ''0'';
          payload = as_dict (pget row ''payload'');
          summary = str_or (por (pget row ''summary'') (pget payload ''summary'')) []
      in ebind (str_list (por (pget payload ''evidence_ids'') (pget row ''evidence_ids''))) (\<lambda>ids.
           let evidence_ids = join ''|'' ids;
               digest = take 16 (sha256_hex (join ''|'' [task_id, wave_id, attempt, summary, evidence_ids]))
           in Inr (''worker_result_'' @ digest)))"

section \<open>What the fingerprint ignores\<close>

lemma ascii_lower_idem: "ascii_lower (ascii_lower c) = ascii_lower c"
proof -
  have "\<not> (65 \<le> of_char c + 32 \<and> of_char c + (32::nat) \<le> 90)" if "65 \<le> (of_char c :: nat)" using that by simp
  moreover have "(of_char c :: nat) \<le> 90 \<Longrightarrow> of_char (char_of (of_char c + (32::nat))) = of_char c + (32::nat)"
    by simp
  ultimately show ?thesis by (simp add: ascii_lower_def Let_def)
qed

lemma normalize_text_lower: "normalize_text (py_lower s) = normalize_text s"
  by (simp add: normalize_text_def py_lower_def ascii_lower_idem comp_def)

lemma sorted_terms_mset: "mset vs = mset vs' \<Longrightarrow> sorted_terms vs = sorted_terms vs'"
proof -
  assume "mset vs = mset vs'"
  then have "mset (filter (\<lambda>t. t \<noteq> []) (map normalize_value vs)) = mset (filter (\<lambda>t. t \<noteq> []) (map normalize_value vs'))"
    by simp
  then have "sort (filter (\<lambda>t. t \<noteq> []) (map normalize_value vs)) = sort (filter (\<lambda>t. t \<noteq> []) (map normalize_value vs'))"
    by (metis properties_for_sort mset_sort sorted_sort)
  then show ?thesis by (simp add: sorted_terms_def)
qed

text \<open>
  Two requests with the same objective up to letter case and the same target gaps and criteria in
  any order have the same semantic fingerprint, so the second is refused as a duplicate.
\<close>

theorem fingerprint_ignores_order_and_case:
  assumes "py_lower objective = py_lower objective'" and "mset gaps = mset gaps'" and "mset criteria = mset criteria'"
  shows "semantic_fingerprint objective gaps criteria = semantic_fingerprint objective' gaps' criteria'"
  using normalize_text_lower [of objective] normalize_text_lower [of objective'] assms
    sorted_terms_mset [OF assms(2)] sorted_terms_mset [OF assms(3)]
  by (simp add: semantic_fingerprint_def)

theorem fingerprint_ignores_order_and_case_witness:
  "semantic_fingerprint ''Battery Cost'' [PStr ''g1'', PStr ''g2''] [] =
   semantic_fingerprint ''battery cost'' [PStr ''g2'', PStr ''g1''] []"
  by (rule fingerprint_ignores_order_and_case) (code_simp, simp_all)

end
