(* ===== verification/Supervisor.thy ===== *)
theory Supervisor
  imports Contracts PyVal
begin

text \<open>
  The supervisor's action contracts (\<open>app/research/supervisor/models.py\<close>): research task
  requests and actions, read from untyped rows and written back.
\<close>

section \<open>Requests\<close>

record research_task_request =
  rq_objective :: string
  rq_ask_id :: string
  rq_question_id :: string
  rq_target_criteria :: "string list"
  rq_target_gaps :: "string list"
  rq_criterion_id :: string
  rq_hypothesis_id :: string
  rq_gap_id :: string
  rq_missing_evidence_types :: "string list"
  rq_blocking_conflict_ids :: "string list"
  rq_priority :: string
  rq_expected_evidence :: "string list"
  rq_source_hints :: "string list"
  rq_novelty_reason :: string
  rq_estimated_effort :: string
  rq_task_id :: string
  rq_repair :: bool
  rq_repair_id :: string
  rq_gap_reason :: string
  rq_missing_evidence :: "string list"
  rq_max_queries :: int
  rq_max_fetches :: int
  rq_max_llm_calls :: int

definition request_to_dict :: "research_task_request \<Rightarrow> pydict" where
  "request_to_dict r =
     [(''objective'', PStr (rq_objective r)), (''ask_id'', PStr (rq_ask_id r)),
      (''question_id'', PStr (rq_question_id r)), (''target_criteria'', strs (rq_target_criteria r)),
      (''target_gaps'', strs (rq_target_gaps r)), (''criterion_id'', PStr (rq_criterion_id r)),
      (''hypothesis_id'', PStr (rq_hypothesis_id r)), (''gap_id'', PStr (rq_gap_id r)),
      (''missing_evidence_types'', strs (rq_missing_evidence_types r)),
      (''blocking_conflict_ids'', strs (rq_blocking_conflict_ids r)), (''priority'', PStr (rq_priority r)),
      (''expected_evidence'', strs (rq_expected_evidence r)), (''source_hints'', strs (rq_source_hints r)),
      (''novelty_reason'', PStr (rq_novelty_reason r)), (''estimated_effort'', PStr (rq_estimated_effort r)),
      (''task_id'', PStr (rq_task_id r)), (''repair'', PBool (rq_repair r)), (''repair_id'', PStr (rq_repair_id r)),
      (''gap_reason'', PStr (rq_gap_reason r)), (''missing_evidence'', strs (rq_missing_evidence r)),
      (''max_queries'', PInt (rq_max_queries r)), (''max_fetches'', PInt (rq_max_fetches r)),
      (''max_llm_calls'', PInt (rq_max_llm_calls r))]"

definition clamp_between :: "int \<Rightarrow> int \<Rightarrow> int \<Rightarrow> int" where
  "clamp_between lo hi n = max lo (min hi n)"

text \<open>The evaluation order of the keyword arguments: the first conversion that raises decides.\<close>

definition request_from_dict :: "pydict \<Rightarrow> research_task_request res" where
  "request_from_dict row =
     (let expected = (case pget row ''expected_evidence'' of PStr s \<Rightarrow> PList [PStr s] | v \<Rightarrow> v)
      in ebind (str_list (pget row ''target_criteria'')) (\<lambda>criteria.
         ebind (str_list (pget row ''target_gaps'')) (\<lambda>gaps.
         ebind (str_list (pget row ''missing_evidence_types'')) (\<lambda>types.
         ebind (str_list (pget row ''blocking_conflict_ids'')) (\<lambda>conflicts.
         ebind (str_list expected) (\<lambda>expected_evidence.
         ebind (str_list (pget row ''source_hints'')) (\<lambda>hints.
         ebind (str_list (pget row ''missing_evidence'')) (\<lambda>missing.
         ebind (int_or (pget row ''max_queries'') 7) (\<lambda>queries.
         ebind (int_or (pget row ''max_fetches'') 7) (\<lambda>fetches.
         ebind (int_or (pget row ''max_llm_calls'') 4) (\<lambda>calls. Inr
           \<lparr>rq_objective = str_or (pget row ''objective'') [], rq_ask_id = str_or (pget row ''ask_id'') [],
            rq_question_id = str_or (pget row ''question_id'') [], rq_target_criteria = criteria,
            rq_target_gaps = gaps, rq_criterion_id = str_or (pget row ''criterion_id'') [],
            rq_hypothesis_id = str_or (pget row ''hypothesis_id'') [], rq_gap_id = str_or (pget row ''gap_id'') [],
            rq_missing_evidence_types = types, rq_blocking_conflict_ids = conflicts,
            rq_priority = str_or (pget row ''priority'') ''normal'', rq_expected_evidence = expected_evidence,
            rq_source_hints = hints, rq_novelty_reason = str_or (pget row ''novelty_reason'') [],
            rq_estimated_effort = str_or (pget row ''estimated_effort'') ''medium'',
            rq_task_id = str_or (pget row ''task_id'') [], rq_repair = truthy (pget row ''repair''),
            rq_repair_id = str_or (pget row ''repair_id'') [], rq_gap_reason = str_or (pget row ''gap_reason'') [],
            rq_missing_evidence = missing, rq_max_queries = clamp_between 1 7 queries,
            rq_max_fetches = clamp_between 1 7 fetches, rq_max_llm_calls = clamp_between 1 8 calls\<rparr>)))))))))))"

section \<open>Actions\<close>

datatype action_name = CONDUCT_RESEARCH | COMPLETE | STOP_BUDGET_PARTIAL | STOP_FAILURE

fun action_value :: "action_name \<Rightarrow> string" where
  "action_value CONDUCT_RESEARCH = ''CONDUCT_RESEARCH''"
| "action_value COMPLETE = ''COMPLETE''"
| "action_value STOP_BUDGET_PARTIAL = ''STOP_BUDGET_PARTIAL''"
| "action_value STOP_FAILURE = ''STOP_FAILURE''"

definition supervisor_actions :: "action_name list" where
  "supervisor_actions = [CONDUCT_RESEARCH, COMPLETE, STOP_BUDGET_PARTIAL, STOP_FAILURE]"

record supervisor_action =
  sv_action :: action_name
  sv_reason :: string
  sv_research_tasks :: "research_task_request list"
  sv_source :: string

definition action_to_dict :: "supervisor_action \<Rightarrow> pydict" where
  "action_to_dict a =
     [(''action'', PStr (action_value (sv_action a))),
      (''semantic_action'', PStr (if sv_action a = CONDUCT_RESEARCH then ''TARGETED_RESEARCH'' else ''SYNTHESIZE'')),
      (''runtime_action'', PStr (action_value (sv_action a))), (''reason'', PStr (sv_reason a)),
      (''research_tasks'', PList (map (\<lambda>r. PDict (request_to_dict r)) (sv_research_tasks a))),
      (''source'', PStr (sv_source a))]"

definition action_from_dict :: "pydict \<Rightarrow> supervisor_action res" where
  "action_from_dict row =
     (let name = str_or (pget row ''action'') ''CONDUCT_RESEARCH'';
          action = (case enum_parse action_value supervisor_actions name of Some a \<Rightarrow> a | None \<Rightarrow> CONDUCT_RESEARCH)
      in ebind (dict_rows (pget row ''research_tasks'')) (\<lambda>rows.
         ebind (emap request_from_dict rows) (\<lambda>tasks. Inr
           \<lparr>sv_action = action, sv_reason = str_or (pget row ''reason'') [], sv_research_tasks = tasks,
            sv_source = str_or (pget row ''source'') ''deterministic_fallback''\<rparr>)))"

interpretation action_enum: str_enum action_value supervisor_actions
  by unfold_locales (auto simp: supervisor_actions_def elim: action_value.elims intro: action_name.exhaust)

section \<open>Lemmas\<close>

lemma action_value_not_Nil [simp]: "action_value a \<noteq> []"
  by (cases a) simp_all


definition bounded_request :: "research_task_request \<Rightarrow> bool" where
  "bounded_request r \<longleftrightarrow> 1 \<le> rq_max_queries r \<and> rq_max_queries r \<le> 7 \<and> 1 \<le> rq_max_fetches r \<and>
     rq_max_fetches r \<le> 7 \<and> 1 \<le> rq_max_llm_calls r \<and> rq_max_llm_calls r \<le> 8 \<and>
     rq_priority r \<noteq> [] \<and> rq_estimated_effort r \<noteq> []"

lemma request_from_dict_bounded: "request_from_dict row = Inr r \<Longrightarrow> bounded_request r"
  by (auto simp: request_from_dict_def Let_def ebind_eq_Inr bounded_request_def clamp_between_def str_or_eq_Nil)

lemma request_roundtrip:
  assumes "bounded_request r"
  shows "request_from_dict (request_to_dict r) = Inr r"
  using assms
  by (cases r) (simp add: request_from_dict_def request_to_dict_def bounded_request_def clamp_between_def strs_def
      str_list_def Let_def comp_def)

lemma action_tasks_bounded: "action_from_dict row = Inr a \<Longrightarrow> r \<in> set (sv_research_tasks a) \<Longrightarrow> bounded_request r"
proof -
  have "emap request_from_dict rows = Inr rs \<Longrightarrow> r \<in> set rs \<Longrightarrow> bounded_request r" for rows rs
    by (induction rows arbitrary: rs) (auto simp: ebind_eq_Inr intro: request_from_dict_bounded)
  then show "action_from_dict row = Inr a \<Longrightarrow> r \<in> set (sv_research_tasks a) \<Longrightarrow> bounded_request r"
    by (auto simp: action_from_dict_def Let_def ebind_eq_Inr)
qed

lemma action_source: "action_from_dict row = Inr a \<Longrightarrow> sv_source a \<noteq> []"
  by (auto simp: action_from_dict_def Let_def ebind_eq_Inr str_or_eq_Nil)

lemma emap_requests:
  "(\<And>r. r \<in> set rs \<Longrightarrow> bounded_request r) \<Longrightarrow> emap request_from_dict (map request_to_dict rs) = Inr rs"
  by (induction rs) (simp_all add: request_roundtrip)

text \<open>
  Reading a supervisor action is idempotent: whatever untyped row the model returned, the action
  read from it, stored and read again is the same action, with every request's query, fetch and call
  allowance inside its bounds.
\<close>

theorem action_read_idempotent:
  assumes "action_from_dict row = Inr a"
  shows "action_from_dict (action_to_dict a) = Inr a \<and> (\<forall>r \<in> set (sv_research_tasks a). bounded_request r)"
proof -
  have b: "\<And>r. r \<in> set (sv_research_tasks a) \<Longrightarrow> bounded_request r"
    by (rule action_tasks_bounded [OF assms])
  have "dict_rows (PList (map (\<lambda>r. PDict (request_to_dict r)) rs)) = Inr (map request_to_dict rs)" for rs
    by (simp add: dict_rows_def filter_map comp_def)
  then show ?thesis
    using b emap_requests [OF b] action_source [OF assms]
    by (cases a) (simp add: action_from_dict_def action_to_dict_def Let_def action_enum.parse_val)
qed

theorem action_read_idempotent_witness:
  "\<exists>a. action_from_dict [(''action'', PStr ''STOP''), (''research_tasks'',
       PList [PDict [(''objective'', PStr ''x''), (''max_queries'', PInt 99)], PNone])] = Inr a \<and>
     action_from_dict (action_to_dict a) = Inr a \<and> sv_action a = CONDUCT_RESEARCH \<and>
     map rq_max_queries (sv_research_tasks a) = [7]"
proof -
  let ?row = "[(''action'', PStr ''STOP''), (''research_tasks'',
       PList [PDict [(''objective'', PStr ''x''), (''max_queries'', PInt 99)], PNone])]"
  have e: "(case action_from_dict ?row of Inl _ \<Rightarrow> False
      | Inr a \<Rightarrow> sv_action a = CONDUCT_RESEARCH \<and> map rq_max_queries (sv_research_tasks a) = [7])" by code_simp
  then obtain a where a: "action_from_dict ?row = Inr a" by (cases "action_from_dict ?row") auto
  show ?thesis using action_read_idempotent [OF a] e a by auto
qed

end
