(* ===== verification/Admission.thy ===== *)
theory Admission
  imports TaskIdentity Supervisor RunBudgetLimits
begin

text \<open>
  Dispatch admission (\<open>app/research/runtime/admission.py\<close>) with the worker budget profiles it
  charges (\<open>app/research/runtime/task_budget.py\<close>).  The environment variables a profile reads
  are an argument.  The budget manager is a run budget manager or absent, the two cases the
  source distinguishes by looking its methods up.
\<close>

section \<open>Budget profiles\<close>

record task_budget_profile =
  bp_token_ceiling :: int
  bp_max_llm_calls :: int
  bp_max_search_queries :: int
  bp_max_fetch_sources :: int
  bp_max_tool_invocations :: int
  bp_max_output_tokens_per_call :: int

text \<open>\<open>max(1, int(os.getenv(name, str(default)) or default))\<close>, the default when it is no integer.\<close>

definition env_int :: "(string \<Rightarrow> string option) \<Rightarrow> string \<Rightarrow> int \<Rightarrow> int" where
  "env_int env name dflt =
     (case env name of
        None \<Rightarrow> max 1 dflt
      | Some s \<Rightarrow> if s = [] then max 1 dflt
                 else (case parse_int s of None \<Rightarrow> dflt | Some n \<Rightarrow> max 1 n))"

definition profile_defaults :: "string \<Rightarrow> (int \<times> int \<times> int \<times> int \<times> int \<times> int) option" where
  "profile_defaults effort =
     (if effort = ''small'' then Some (40000, 10, 6, 10, 10, 2500)
      else if effort = ''medium'' then Some (80000, 16, 10, 16, 16, 3500)
      else if effort = ''large'' then Some (120000, 24, 16, 24, 24, 5000)
      else None)"

definition task_budget_profile_of :: "(string \<Rightarrow> string option) \<Rightarrow> string \<Rightarrow> task_budget_profile" where
  "task_budget_profile_of env effort =
     (let lowered = py_lower (if effort = [] then ''medium'' else effort);
          normalized = (if profile_defaults lowered = None then ''medium'' else lowered);
          prefix = ''HARNESS_TASK_'' @ py_upper normalized @ ''_''
      in case the (profile_defaults normalized) of (tokens, calls, queries, fetches, tools, output) \<Rightarrow>
        \<lparr>bp_token_ceiling = env_int env (prefix @ ''TOKEN_CEILING'') tokens,
         bp_max_llm_calls = env_int env (prefix @ ''MAX_LLM_CALLS'') calls,
         bp_max_search_queries = env_int env (prefix @ ''MAX_SEARCH_QUERIES'') queries,
         bp_max_fetch_sources = env_int env (prefix @ ''MAX_FETCH_SOURCES'') fetches,
         bp_max_tool_invocations = env_int env (prefix @ ''MAX_TOOL_INVOCATIONS'') tools,
         bp_max_output_tokens_per_call = env_int env (prefix @ ''MAX_OUTPUT_TOKENS_PER_CALL'') output\<rparr>)"

definition task_budget_metadata :: "task_budget_profile \<Rightarrow> int dict" where
  "task_budget_metadata p =
     [(''max_llm_calls'', bp_max_llm_calls p), (''max_search_queries'', bp_max_search_queries p),
      (''max_fetch_sources'', bp_max_fetch_sources p), (''max_tool_invocations'', bp_max_tool_invocations p),
      (''max_output_tokens_per_call'', bp_max_output_tokens_per_call p)]"

section \<open>What admission reads of the budget\<close>

record approved_task =
  ap_request :: research_task_request
  ap_task_id :: string
  ap_fingerprint :: string

record dispatch_admission =
  da_approved :: "approved_task list"
  da_deferred :: "string list"
  da_denied :: "string dict"
  da_requested_count :: nat
  da_approved_count :: nat

definition approved_task_ids :: "dispatch_admission \<Rightarrow> string list" where
  "approved_task_ids a = map ap_task_id (da_approved a)"

definition admission_to_dict :: "dispatch_admission \<Rightarrow> pydict" where
  "admission_to_dict a =
     [(''approved_task_ids'', strs (approved_task_ids a)), (''deferred_task_ids'', strs (da_deferred a)),
      (''denied_reason'', PDict (map (\<lambda>(k, v). (k, PStr v)) (da_denied a))),
      (''requested_count'', PInt (int (da_requested_count a))), (''approved_count'', PInt (int (da_approved_count a))),
      (''fingerprints'', strs (map ap_fingerprint (da_approved a)))]"

record admission_limits =
  al_slots :: int
  al_tokens :: int
  al_allowed :: bool
  al_block_reason :: string
  al_remaining_sec :: pyfloat
  al_llm_calls :: int
  al_reserved_calls :: int
  al_max_calls :: int

definition is_repair_wave :: "int \<Rightarrow> bool" where
  "is_repair_wave wave_id \<longleftrightarrow> wave_id > 1"

definition worker_slots :: "run_budget option \<Rightarrow> pydict \<Rightarrow> int res" where
  "worker_slots mgr budget =
     (let configured = (case mgr of None \<Rightarrow> 3 | Some b \<Rightarrow> max_parallel_workers b) in
      ebind (int_or (por (pget budget ''max_parallel_workers'') (PInt configured)) 3) (\<lambda>workers.
      ebind (int_or (pget budget ''max_active_tasks'') (max 1 workers)) (\<lambda>active.
        Inr (min (max 1 workers) (max 1 active)))))"

definition read_limits :: "pyfloat \<Rightarrow> int \<Rightarrow> run_budget option \<Rightarrow> pydict \<Rightarrow> admission_limits res" where
  "read_limits now wave_id mgr budget =
     ebind (worker_slots mgr budget) (\<lambda>slots.
       case mgr of
         Some b \<Rightarrow>
           (let repair = is_repair_wave wave_id;
                allowed = (if repair then repair_allowed now b else research_allowed now b);
                snap = snapshot now b
            in Inr \<lparr>al_slots = slots,
                 al_tokens = (if repair then remaining_for_repair_tokens b else remaining_for_research_tokens b),
                 al_allowed = fst allowed, al_block_reason = snd allowed,
                 al_remaining_sec = remaining_for_research_sec now b,
                 al_llm_calls = sn_llm_calls snap, al_reserved_calls = sn_reserved_llm_calls snap,
                 al_max_calls = sn_llm_call_limit snap\<rparr>)
       | None \<Rightarrow>
           ebind (int_or (pget budget ''max_total_tokens'') 0) (\<lambda>total_tokens.
           ebind (int_or (pget budget ''total_tokens'') 0) (\<lambda>spent.
           ebind (py_float (por (pget budget ''deadline_remaining_sec'') (PInt 1000000000))) (\<lambda>sec.
           ebind (int_or (pget budget ''llm_calls'') 0) (\<lambda>calls.
           ebind (int_or (pget budget ''max_llm_calls'') 0) (\<lambda>max_calls.
             Inr \<lparr>al_slots = slots, al_tokens = max 0 (total_tokens - spent), al_allowed = True,
                  al_block_reason = [], al_remaining_sec = sec, al_llm_calls = calls, al_reserved_calls = 0,
                  al_max_calls = max_calls\<rparr>))))))"

section \<open>The admission loop\<close>

definition priority_rank :: "string \<Rightarrow> int" where
  "priority_rank p = (if p = ''high'' then 0 else if p = ''normal'' then 1 else if p = ''low'' then 2 else 1)"

definition admission_order :: "research_task_request list \<Rightarrow> (nat \<times> research_task_request) list" where
  "admission_order requests = sort_key (\<lambda>e. priority_rank (rq_priority (snd e))) (zip [0..<length requests] requests)"

record admission_state =
  ad_approved :: "approved_task list"
  ad_deferred :: "string list"
  ad_denied :: "string dict"
  ad_used :: "string list"
  ad_tokens :: int
  ad_calls :: int

definition request_key :: "nat \<Rightarrow> string" where
  "request_key i = ''request_'' @ nat_str i"

definition deny_request :: "nat \<Rightarrow> string \<Rightarrow> admission_state \<Rightarrow> admission_state" where
  "deny_request i reason st = st\<lparr>ad_denied := dput (request_key i) reason (ad_denied st)\<rparr>"

definition admit_request ::
  "(string \<Rightarrow> string option) \<Rightarrow> int \<Rightarrow> admission_limits \<Rightarrow> nat \<times> research_task_request \<Rightarrow>
   admission_state \<Rightarrow> admission_state" where
  "admit_request env wave_id al e st =
     (let i = fst e; request = snd e; objective = py_strip (rq_objective request) in
      if objective = [] then deny_request i ''empty_objective'' st
      else let fingerprint = semantic_fingerprint objective (map PStr (rq_target_gaps request))
                 (map PStr (rq_target_criteria request)) in
      if fingerprint \<in> set (ad_used st) then deny_request i ''duplicate_semantic_task'' st
      else if \<not> al_allowed al
      then deny_request i (if al_block_reason al \<noteq> [] then al_block_reason al else ''budget_unavailable'') st
      else if al_remaining_sec al \<le> 0 then deny_request i ''synthesis_time_reserve'' st
      else let profile = task_budget_profile_of env (rq_estimated_effort request) in
      if int (length (ad_approved st)) \<ge> al_slots al
      then st\<lparr>ad_deferred := ad_deferred st @ [request_key i]\<rparr>
      else if ad_tokens st < bp_token_ceiling profile then deny_request i ''research_phase_token_cap'' st
      else if al_max_calls al \<noteq> 0 \<and>
              ad_calls st + al_reserved_calls al + bp_max_llm_calls profile > al_max_calls al
      then deny_request i ''run_llm_call_cap'' st
      else let task_id = execution_task_id wave_id fingerprint in
        st\<lparr>ad_approved := ad_approved st @
              [\<lparr>ap_request = request\<lparr>rq_task_id := task_id\<rparr>, ap_task_id = task_id, ap_fingerprint = fingerprint\<rparr>],
           ad_used := fingerprint # ad_used st,
           ad_tokens := ad_tokens st - bp_token_ceiling profile,
           ad_calls := ad_calls st + bp_max_llm_calls profile\<rparr>)"

definition previous_fingerprints :: "pydict \<Rightarrow> string list res" where
  "previous_fingerprints state =
     ebind (case por (pget state ''task_fingerprints'') (PDict []) of
              PDict d \<Rightarrow> Inr d | _ \<Rightarrow> Inl (AttributeError ''keys''))
       (\<lambda>d. Inr (filter (\<lambda>k. py_strip k \<noteq> []) (dkeys d)))"

definition admit_dispatch ::
  "(string \<Rightarrow> string option) \<Rightarrow> pyfloat \<Rightarrow> research_task_request list \<Rightarrow> int \<Rightarrow> run_budget option \<Rightarrow> pydict \<Rightarrow>
   dispatch_admission res" where
  "admit_dispatch env now requests wave_id mgr state =
     (let budget = as_dict (pget state ''budget'') in
      ebind (previous_fingerprints state) (\<lambda>previous.
      ebind (read_limits now wave_id mgr budget) (\<lambda>al.
        let st = fold (admit_request env wave_id al) (admission_order requests)
              \<lparr>ad_approved = [], ad_deferred = [], ad_denied = [], ad_used = previous,
               ad_tokens = al_tokens al, ad_calls = al_llm_calls al\<rparr>
        in Inr \<lparr>da_approved = ad_approved st, da_deferred = ad_deferred st, da_denied = ad_denied st,
                da_requested_count = length requests, da_approved_count = length (ad_approved st)\<rparr>)))"

end
