(* ===== verification/AdmissionProps.thy ===== *)
theory AdmissionProps
  imports Admission
begin

text \<open>
  What dispatch admission guarantees: every request has one disposition, approved tasks are new,
  pairwise different and within the slots, and together they fit the tokens and calls the budget
  manager had left.
\<close>

section \<open>Request keys\<close>

fun decimal_value :: "nat \<Rightarrow> string \<Rightarrow> nat" where
  "decimal_value acc [] = acc"
| "decimal_value acc (c # s) = decimal_value (10 * acc + (of_char c - 48)) s"

lemma decimal_value_append: "decimal_value acc (s @ t) = decimal_value (decimal_value acc s) t"
  by (induction s arbitrary: acc) auto

lemma decimal_value_nat_str: "decimal_value 0 (nat_str n) = n"
proof (induction n rule: nat_str.induct)
  case (1 n)
  have digit: "of_char (digit_char d) - (48 :: nat) = d" if "d < 10" for d
    using that by (simp add: digit_char_def)
  show ?case
  proof (cases "n < 10")
    case True
    then show ?thesis by (subst nat_str.simps) (simp add: digit)
  next
    case False
    then show ?thesis
      using 1 by (subst nat_str.simps) (simp add: decimal_value_append digit)
  qed
qed

lemma request_key_inject [simp]: "request_key i = request_key j \<longleftrightarrow> i = j"
  unfolding request_key_def using decimal_value_nat_str by (metis same_append_eq)

section \<open>One request\<close>

definition approved_tokens :: "(string \<Rightarrow> string option) \<Rightarrow> approved_task list \<Rightarrow> int" where
  "approved_tokens env as = sum_list (map (\<lambda>a. bp_token_ceiling (task_budget_profile_of env (rq_estimated_effort (ap_request a)))) as)"

definition approved_calls :: "(string \<Rightarrow> string option) \<Rightarrow> approved_task list \<Rightarrow> int" where
  "approved_calls env as = sum_list (map (\<lambda>a. bp_max_llm_calls (task_budget_profile_of env (rq_estimated_effort (ap_request a)))) as)"

lemma env_int_pos: "1 \<le> d \<Longrightarrow> 1 \<le> env_int env name d"
  by (simp add: env_int_def split: option.split)

lemma profile_pos:
  "1 \<le> bp_token_ceiling (task_budget_profile_of env e)" "1 \<le> bp_max_llm_calls (task_budget_profile_of env e)"
  by (auto simp: task_budget_profile_of_def profile_defaults_def Let_def intro: env_int_pos split: if_splits)

text \<open>The dispositions recorded so far are those of the requests already handled.\<close>

definition admission_inv ::
  "(string \<Rightarrow> string option) \<Rightarrow> admission_limits \<Rightarrow> string list \<Rightarrow> nat list \<Rightarrow> admission_state \<Rightarrow> bool" where
  "admission_inv env al previous done st \<longleftrightarrow>
     set (dkeys (ad_denied st)) \<subseteq> request_key ` set done \<and> distinct (dkeys (ad_denied st)) \<and>
     length (ad_approved st) + length (ad_deferred st) + length (ad_denied st) = length done \<and>
     ad_used st = rev (map ap_fingerprint (ad_approved st)) @ previous \<and>
     distinct (map ap_fingerprint (ad_approved st)) \<and>
     set (map ap_fingerprint (ad_approved st)) \<inter> set previous = {} \<and>
     (ad_approved st \<noteq> [] \<longrightarrow> int (length (ad_approved st)) \<le> al_slots al) \<and>
     ad_tokens st = al_tokens al - approved_tokens env (ad_approved st) \<and>
     ad_calls st = al_llm_calls al + approved_calls env (ad_approved st) \<and>
     (ad_approved st \<noteq> [] \<longrightarrow> al_allowed al \<and> 0 < al_remaining_sec al \<and> 0 \<le> ad_tokens st \<and>
        (al_max_calls al \<noteq> 0 \<longrightarrow> ad_calls st + al_reserved_calls al \<le> al_max_calls al)) \<and>
     (\<forall>a \<in> set (ad_approved st). rq_task_id (ap_request a) = ap_task_id a)"

lemma denied_inv:
  assumes inv: "admission_inv env al previous done st" and i: "i \<notin> set done"
  shows "admission_inv env al previous (i # done) (deny_request i reason st)"
proof -
  have "fst ` set (ad_denied st) \<subseteq> request_key ` set done"
    using inv by (auto simp: admission_inv_def)
  then have notin: "request_key i \<notin> fst ` set (ad_denied st)" using i by auto
  then have fresh: "dget (ad_denied st) (request_key i) = None" by (simp add: map_of_eq_None_iff)
  show ?thesis
    using inv notin by (auto simp: admission_inv_def deny_request_def dput_fresh [OF fresh])
qed

lemma deferred_inv:
  "admission_inv env al previous done st \<Longrightarrow>
     admission_inv env al previous (i # done) (st\<lparr>ad_deferred := ad_deferred st @ [request_key i]\<rparr>)"
  by (auto simp: admission_inv_def)

lemma admit_request_inv:
  assumes inv: "admission_inv env al previous done st" and i: "fst e \<notin> set done"
  shows "admission_inv env al previous (fst e # done) (admit_request env wave al e st)"
  unfolding admit_request_def Let_def
proof (intro if_intro [where P = "admission_inv env al previous (fst e # done)"]
    denied_inv [OF inv i] deferred_inv [OF inv], goal_cases)
  case 1
  let ?fp = "semantic_fingerprint (py_strip (rq_objective (snd e))) (map PStr (rq_target_gaps (snd e)))
      (map PStr (rq_target_criteria (snd e)))"
  have new: "?fp \<notin> set previous" "?fp \<notin> ap_fingerprint ` set (ad_approved st)"
    using 1(2) inv by (auto simp: admission_inv_def)
  have eff: "rq_estimated_effort (r\<lparr>rq_task_id := k\<rparr>) = rq_estimated_effort r" for r :: research_task_request and k
    by simp
  show ?case
    using inv 1 new by (auto simp: admission_inv_def approved_tokens_def approved_calls_def not_le)
qed

lemma admit_all_inv:
  assumes "distinct (map fst es @ done)" and "admission_inv env al previous done st"
  shows "admission_inv env al previous (rev (map fst es) @ done) (fold (admit_request env wave al) es st)"
  using assms
proof (induction es arbitrary: "done" st)
  case Nil
  then show ?case by simp
next
  case (Cons e es)
  have "admission_inv env al previous (fst e # done) (admit_request env wave al e st)"
    using Cons.prems by (intro admit_request_inv) auto
  then show ?case using Cons.IH [of "fst e # done"] Cons.prems(1) by simp
qed

section \<open>A whole dispatch\<close>

lemma admission_order_fst: "distinct (map fst (admission_order requests))"
  "length (admission_order requests) = length requests"
proof -
  have "mset (map fst (admission_order requests)) = mset (map fst (zip [0..<length requests] requests))"
    by (simp only: admission_order_def mset_map mset_sort)
  also have "map fst (zip [0..<length requests] requests) = [0..<length requests]" by simp
  finally have "mset (map fst (admission_order requests)) = mset [0..<length requests]" .
  then show "distinct (map fst (admission_order requests))"
    by (metis distinct_upt mset_eq_imp_distinct_iff)
  show "length (admission_order requests) = length requests" by (simp add: admission_order_def)
qed

lemma admit_dispatch_inv:
  assumes "admit_dispatch env now requests wave mgr state = Inr a"
  obtains al previous st where "previous_fingerprints state = Inr previous"
    "read_limits now wave mgr (as_dict (pget state ''budget'')) = Inr al"
    "admission_inv env al previous (rev (map fst (admission_order requests))) st"
    "a = \<lparr>da_approved = ad_approved st, da_deferred = ad_deferred st, da_denied = ad_denied st,
          da_requested_count = length requests, da_approved_count = length (ad_approved st)\<rparr>"
proof -
  obtain previous al where p: "previous_fingerprints state = Inr previous"
    and l: "read_limits now wave mgr (as_dict (pget state ''budget'')) = Inr al"
    using assms by (auto simp: admit_dispatch_def ebind_eq_Inr)
  let ?st0 = "\<lparr>ad_approved = [], ad_deferred = [], ad_denied = [], ad_used = previous,
      ad_tokens = al_tokens al, ad_calls = al_llm_calls al\<rparr>"
  have "admission_inv env al previous [] ?st0"
    by (simp add: admission_inv_def approved_tokens_def approved_calls_def)
  then have "admission_inv env al previous (rev (map fst (admission_order requests)) @ [])
      (fold (admit_request env wave al) (admission_order requests) ?st0)"
    by (intro admit_all_inv) (simp_all add: admission_order_fst)
  then show thesis
    using that [OF p l] assms by (simp add: admit_dispatch_def p l Let_def)
qed

definition example_request :: "string \<Rightarrow> string \<Rightarrow> research_task_request" where
  "example_request objective priority =
     \<lparr>rq_objective = objective, rq_ask_id = [], rq_question_id = [], rq_target_criteria = [], rq_target_gaps = [],
      rq_criterion_id = [], rq_hypothesis_id = [], rq_gap_id = [], rq_missing_evidence_types = [],
      rq_blocking_conflict_ids = [], rq_priority = priority, rq_expected_evidence = [], rq_source_hints = [],
      rq_novelty_reason = [], rq_estimated_effort = ''small'', rq_task_id = [], rq_repair = False,
      rq_repair_id = [], rq_gap_reason = [], rq_missing_evidence = [], rq_max_queries = 7, rq_max_fetches = 7,
      rq_max_llm_calls = 4\<rparr>"

lemma example_request_sel [simp]:
  "rq_objective (example_request k p) = k" "rq_estimated_effort (example_request k p) = ''small''"
  by (simp_all add: example_request_def)

text \<open>One request with an objective, admitted by a manager of 100000 tokens: it is approved.\<close>

lemma example_admission:
  "\<exists>a. admit_dispatch (\<lambda>_. None) 0 [example_request ''x'' ''normal'', example_request [] ''high''] 1
       (Some (example_budget 100000 0)) [] = Inr a \<and> length (da_approved a) = 1 \<and> da_denied a = [(''request_1'', ''empty_objective'')]"
proof -
  let ?b = "example_budget 100000 0"
  have l: "read_limits 0 1 (Some ?b) [] = Inr \<lparr>al_slots = 3, al_tokens = 50000, al_allowed = True, al_block_reason = [],
      al_remaining_sec = 1000000000, al_llm_calls = 0, al_reserved_calls = 0, al_max_calls = 0\<rparr>"
    by code_simp
  have o: "admission_order [example_request ''x'' ''normal'', example_request [] ''high''] =
      [(1, example_request [] ''high''), (0, example_request ''x'' ''normal'')]" by code_simp
  have p: "previous_fingerprints [] = Inr []" by code_simp
  have t: "bp_token_ceiling (task_budget_profile_of (\<lambda>_. None) ''small'') = 40000"
    "bp_max_llm_calls (task_budget_profile_of (\<lambda>_. None) ''small'') = 10" by code_simp+
  have s: "py_strip ''x'' \<noteq> []" "py_strip [] = []" by code_simp+
  have k: "request_key 1 = ''request_1''" by code_simp
  show ?thesis
    by (simp add: admit_dispatch_def p l o admit_request_def deny_request_def Let_def s t k del: One_nat_def)
qed

text \<open>
  Every request of a dispatch gets exactly one disposition: approved, deferred for want of a slot,
  or denied with a reason; the approved tasks have pairwise different fingerprints, none of which was
  dispatched before, and each carries the task id computed for it.
\<close>

theorem admission_disposes_each_request:
  assumes "admit_dispatch env now requests wave mgr state = Inr a"
  shows "length (da_approved a) + length (da_deferred a) + length (da_denied a) = length requests \<and>
    distinct (map ap_fingerprint (da_approved a)) \<and>
    (\<forall>x \<in> set (da_approved a). dget (as_dict (pget state ''task_fingerprints'')) (ap_fingerprint x) = None \<or>
       py_strip (ap_fingerprint x) = []) \<and>
    list_all (\<lambda>x. rq_task_id (ap_request x) = ap_task_id x) (da_approved a)"
proof -
  obtain al previous st where p: "previous_fingerprints state = Inr previous"
    and i: "admission_inv env al previous (rev (map fst (admission_order requests))) st"
    and a: "da_approved a = ad_approved st" "da_deferred a = ad_deferred st" "da_denied a = ad_denied st"
    by (rule admit_dispatch_inv [OF assms]) simp
  have "dget (as_dict (pget state ''task_fingerprints'')) k = None \<or> py_strip k = []" if "k \<notin> set previous" for k
    using p that
    by (cases "pget state ''task_fingerprints''")
       (force simp: previous_fingerprints_def por_def map_of_eq_None_iff split: if_splits)+
  moreover have "ap_fingerprint x \<notin> set previous" if "x \<in> set (ad_approved st)" for x
    using i that by (auto simp: admission_inv_def)
  ultimately have "\<forall>x \<in> set (da_approved a). dget (as_dict (pget state ''task_fingerprints'')) (ap_fingerprint x) = None \<or>
       py_strip (ap_fingerprint x) = []" unfolding a by blast
  then show ?thesis
    using i a by (simp add: admission_inv_def admission_order_fst list_all_iff)
qed

theorem admission_disposes_each_request_witness:
  "\<exists>a. admit_dispatch (\<lambda>_. None) 0 [example_request ''x'' ''normal'', example_request [] ''high''] 1
       (Some (example_budget 100000 0)) [] = Inr a \<and>
     length (da_approved a) + length (da_deferred a) + length (da_denied a) = 2 \<and> length (da_approved a) = 1"
proof -
  obtain a where a: "admit_dispatch (\<lambda>_. None) 0 [example_request ''x'' ''normal'', example_request [] ''high''] 1
      (Some (example_budget 100000 0)) [] = Inr a" "length (da_approved a) = 1"
    using example_admission by blast
  show ?thesis using admission_disposes_each_request [OF a(1)] a by auto
qed

text \<open>
  The part of the budget manager admission relies on: what is left in a window, added to what is
  committed, fits the window's cap.
\<close>

locale token_window =
  fixes left :: "'m \<Rightarrow> int" and committed :: "'m \<Rightarrow> int" and cap :: "'m \<Rightarrow> int"
  assumes left_fits: "0 < left m \<Longrightarrow> committed m + left m \<le> cap m"
begin

lemma charge_fits: "0 < c \<Longrightarrow> c \<le> left m \<Longrightarrow> committed m + c \<le> cap m"
  using left_fits [of m] by simp

lemma approved_fit:
  assumes "as \<noteq> []" and "approved_tokens env as \<le> left m"
  shows "committed m + approved_tokens env as \<le> cap m"
proof (rule charge_fits [OF _ assms(2)])
  have "length as \<le> approved_tokens env as"
    unfolding approved_tokens_def using profile_pos(1) by (induction as) (auto simp: add_increasing intro: add_mono)
  then show "0 < approved_tokens env as" using assms(1) by (cases as) auto
qed

end

interpretation research_window: token_window remaining_for_research_tokens
  "\<lambda>b. used_tokens b + effective_reserved_tokens b" "\<lambda>b. research_stage_cap_tokens b ''research''"
  by unfold_locales (simp add: remaining_for_research_tokens_def)

interpretation repair_window: token_window remaining_for_repair_tokens
  "\<lambda>b. used_tokens b + effective_reserved_tokens b" "\<lambda>b. research_stage_cap_tokens b ''repair''"
  by unfold_locales (simp add: remaining_for_repair_tokens_def)

text \<open>
  What a dispatch approves fits the run: if any task is approved, the approved tasks are no more
  than the worker slots, the manager allows research (or repair, from the second wave on), and the
  tokens used and reserved plus all approved ceilings are within the stage's cap; likewise for the call
  limit when the run has one.
\<close>

theorem admission_within_budget:
  assumes "admit_dispatch env now requests wave (Some b) state = Inr a" and "da_approved a \<noteq> []"
  shows "research_block_reason now b (if is_repair_wave wave then ''repair'' else ''research'') = [] \<and>
    used_tokens b + effective_reserved_tokens b + approved_tokens env (da_approved a) \<le>
      research_stage_cap_tokens b (if is_repair_wave wave then ''repair'' else ''research'') \<and>
    (llm_call_limit b = 0 \<or>
      llm_calls b + reserved_llm_calls b + approved_calls env (da_approved a) \<le> llm_call_limit b) \<and>
    (\<exists>slots. worker_slots (Some b) (as_dict (pget state ''budget'')) = Inr slots \<and>
      int (da_approved_count a) \<le> slots)"
proof -
  obtain al previous st where l: "read_limits now wave (Some b) (as_dict (pget state ''budget'')) = Inr al"
    and i: "admission_inv env al previous (rev (map fst (admission_order requests))) st"
    and a: "da_approved a = ad_approved st" "da_approved_count a = length (ad_approved st)"
    by (rule admit_dispatch_inv [OF assms(1)]) simp
  obtain slots where s: "worker_slots (Some b) (as_dict (pget state ''budget'')) = Inr slots"
    and al: "al_slots al = slots" "al_llm_calls al = llm_calls b" "al_reserved_calls al = reserved_llm_calls b"
      "al_max_calls al = llm_call_limit b"
      "al_allowed al = fst (if is_repair_wave wave then repair_allowed now b else research_allowed now b)"
      "al_tokens al = (if is_repair_wave wave then remaining_for_repair_tokens b else remaining_for_research_tokens b)"
    using l by (auto simp: read_limits_def ebind_eq_Inr Let_def snapshot_def)
  have fit: "approved_tokens env (da_approved a) \<le> al_tokens al" and ok: "al_allowed al"
    and calls: "al_max_calls al \<noteq> 0 \<longrightarrow> al_llm_calls al + approved_calls env (da_approved a) + al_reserved_calls al \<le> al_max_calls al"
    and n: "int (length (da_approved a)) \<le> al_slots al"
    using i assms(2) a(1) by (auto simp: admission_inv_def)
  have "research_block_reason now b (if is_repair_wave wave then ''repair'' else ''research'') = []"
    using ok al(5) by (simp add: repair_allowed_def research_allowed_def Let_def split: if_splits)
  moreover have "used_tokens b + effective_reserved_tokens b + approved_tokens env (da_approved a) \<le>
      research_stage_cap_tokens b (if is_repair_wave wave then ''repair'' else ''research'')"
    using research_window.approved_fit [OF assms(2), of env b] repair_window.approved_fit [OF assms(2), of env b]
      fit al(6) by (simp split: if_splits)
  ultimately show ?thesis using calls al s n a by auto
qed

theorem admission_within_budget_witness:
  "\<exists>a. admit_dispatch (\<lambda>_. None) 0 [example_request ''x'' ''normal'', example_request [] ''high''] 1
       (Some (example_budget 100000 0)) [] = Inr a \<and>
     used_tokens (example_budget 100000 0) + effective_reserved_tokens (example_budget 100000 0) +
       approved_tokens (\<lambda>_. None) (da_approved a) \<le> research_stage_cap_tokens (example_budget 100000 0) ''research''"
proof -
  obtain a where a: "admit_dispatch (\<lambda>_. None) 0 [example_request ''x'' ''normal'', example_request [] ''high''] 1
      (Some (example_budget 100000 0)) [] = Inr a" "length (da_approved a) = 1"
    using example_admission by blast
  then have ne: "da_approved a \<noteq> []" by auto
  show ?thesis using admission_within_budget [OF a(1) ne] a by (simp add: is_repair_wave_def)
qed

end
