(* ===== verification/Brief.thy ===== *)
theory Brief
  imports PyVal
begin

text \<open>
  The structured brief of a run (\<open>app/research/brief/models.py\<close>) and the user's asks it traces
  back to (\<open>app/research/intent/user_ask.py\<close>): the records, reading them from stored rows, and
  the lineage from a question back to its ask.
\<close>

section \<open>Asks\<close>

record user_ask =
  ua_ask_id :: string
  ua_text :: string
  ua_ask_type :: string
  ua_subject :: string
  ua_time_scope :: string
  ua_required :: bool
  ua_answer_requirements :: "string list"

definition user_ask_to_dict :: "user_ask \<Rightarrow> pydict" where
  "user_ask_to_dict u =
     [(''ask_id'', PStr (ua_ask_id u)), (''text'', PStr (ua_text u)), (''ask_type'', PStr (ua_ask_type u)),
      (''subject'', PStr (ua_subject u)), (''time_scope'', PStr (ua_time_scope u)),
      (''required'', PBool (ua_required u)), (''answer_requirements'', strs (ua_answer_requirements u))]"

definition ask_types :: "string list" where
  "ask_types = [''current_state'', ''forecast'', ''comparison'', ''recommendation'', ''explanation'', ''fact'']"

definition known_ask_type :: "string \<Rightarrow> string" where
  "known_ask_type t = (if t \<in> set ask_types then t else ''current_state'')"

definition user_ask_from_dict :: "pydict \<Rightarrow> user_ask res" where
  "user_ask_from_dict row =
     ebind (nonblank_strs (pget row ''answer_requirements'')) (\<lambda>requirements. Inr
           \<lparr>ua_ask_id = str_or (pget row ''ask_id'') [], ua_text = str_or (pget row ''text'') [],
            ua_ask_type = known_ask_type (str_or (pget row ''ask_type'') ''current_state''),
            ua_subject = str_or (pget row ''subject'') [], ua_time_scope = str_or (pget row ''time_scope'') [],
            ua_required = truthy (pget_or row ''required'' (PBool True)),
            ua_answer_requirements = requirements\<rparr>)"

text \<open>\<open>Class.from_dict(item) for item in v or [] if isinstance(item, dict) and text is not blank\<close>.\<close>

definition texted_rows :: "pyval \<Rightarrow> pydict list res" where
  "texted_rows v =
     ebind (dict_rows v) (\<lambda>rows. Inr (filter (\<lambda>row. py_strip (str_or (pget row ''text'') []) \<noteq> []) rows))"

record ask_contract =
  ac_contract_id :: string
  ac_raw_query :: string
  ac_asks :: "user_ask list"
  ac_source :: string

definition required_asks :: "ask_contract \<Rightarrow> user_ask list" where
  "required_asks c = filter ua_required (ac_asks c)"

definition contract_ask :: "ask_contract \<Rightarrow> string \<Rightarrow> user_ask option" where
  "contract_ask c ask_id = find (\<lambda>a. ua_ask_id a = ask_id) (ac_asks c)"

definition ask_contract_to_dict :: "ask_contract \<Rightarrow> pydict" where
  "ask_contract_to_dict c =
     [(''contract_id'', PStr (ac_contract_id c)), (''raw_query'', PStr (ac_raw_query c)),
      (''asks'', PList (map PDict (map user_ask_to_dict (ac_asks c)))), (''source'', PStr (ac_source c))]"

definition ask_contract_from_dict :: "pydict \<Rightarrow> ask_contract res" where
  "ask_contract_from_dict row =
     ebind (texted_rows (pget row ''asks'')) (\<lambda>rows.
     ebind (emap user_ask_from_dict rows) (\<lambda>asks. Inr
       \<lparr>ac_contract_id = str_or (pget row ''contract_id'') [], ac_raw_query = str_or (pget row ''raw_query'') [],
        ac_asks = asks, ac_source = str_or (pget row ''source'') ''deterministic_clause_split''\<rparr>))"

section \<open>Questions\<close>

record research_question =
  rqn_question_id :: string
  rqn_ask_id :: string
  rqn_text :: string

definition research_question_from_dict :: "pydict \<Rightarrow> research_question" where
  "research_question_from_dict row =
     \<lparr>rqn_question_id = str_or (pget row ''question_id'') [], rqn_ask_id = str_or (pget row ''ask_id'') [],
      rqn_text = str_or (pget row ''text'') []\<rparr>"

section \<open>The brief\<close>

record source_requirements =
  sr_min_independent_sources :: int
  sr_primary_required :: bool
  sr_preferred :: "string list"
  sr_forbidden :: "string list"

record freshness_requirements =
  fr_required :: bool
  fr_time_horizon :: string

record deliverable_requirements =
  dr_format :: string
  dr_depth :: string

record structured_brief =
  sb_brief_id :: string
  sb_version :: int
  sb_objective :: string
  sb_user_intent :: string
  sb_explicit_subjects :: "string list"
  sb_key_questions :: "string list"
  sb_user_asks :: "user_ask list"
  sb_research_questions :: "research_question list"
  sb_constraints :: "string list"
  sb_source_requirements :: source_requirements
  sb_freshness_requirements :: freshness_requirements
  sb_deliverable :: deliverable_requirements
  sb_success_criteria :: "string list"
  sb_assumptions :: "string list"
  sb_clarification_needed :: bool
  sb_compiler_source :: string
  sb_confidence :: pyfloat
  sb_raw_query :: string
  sb_answer_spec :: pydict
  sb_engine_version :: string

definition required_ask_ids :: "structured_brief \<Rightarrow> string list" where
  "required_ask_ids b = map ua_ask_id (filter (\<lambda>a. ua_required a \<and> ua_ask_id a \<noteq> []) (sb_user_asks b))"

definition question_id_of :: "nat \<Rightarrow> string" where
  "question_id_of i = ''q'' @ nat_str i"

fun ask_id_for_question :: "string \<Rightarrow> research_question list \<Rightarrow> string" where
  "ask_id_for_question qid [] = []"
| "ask_id_for_question qid (q # qs) =
     (if rqn_question_id q = qid then rqn_ask_id q else ask_id_for_question qid qs)"

definition ask_id_for_question_index :: "structured_brief \<Rightarrow> nat \<Rightarrow> string" where
  "ask_id_for_question_index b i = ask_id_for_question (question_id_of i) (sb_research_questions b)"

definition source_requirements_from_dict :: "pydict \<Rightarrow> source_requirements res" where
  "source_requirements_from_dict source =
     ebind (int_or (pget source ''min_independent_sources'') 1) (\<lambda>n.
     ebind (py_iter (por (pget source ''preferred'') (strs [''official'', ''primary'']))) (\<lambda>preferred.
     ebind (str_list (pget source ''forbidden'')) (\<lambda>forbidden. Inr
       \<lparr>sr_min_independent_sources = max 1 n, sr_primary_required = truthy (pget source ''primary_required''),
        sr_preferred = map py_str preferred, sr_forbidden = forbidden\<rparr>)))"

text \<open>\<open>max(0.0, min(1.0, float(v or 0.5)))\<close>.\<close>

definition confidence_of :: "pyval \<Rightarrow> pyfloat res" where
  "confidence_of v = ebind (if truthy v then py_float v else Inr (1 / 2)) (\<lambda>q. Inr (max 0 (min 1 q)))"

definition brief_from_dict :: "pydict \<Rightarrow> structured_brief res" where
  "brief_from_dict row =
     (let freshness = as_dict (pget row ''freshness_requirements'');
          deliverable = as_dict (pget row ''deliverable'')
      in ebind (int_or (pget row ''version'') 1) (\<lambda>version.
         ebind (nonblank_strs (pget row ''explicit_subjects'')) (\<lambda>subjects.
         ebind (nonblank_strs (pget row ''key_questions'')) (\<lambda>questions.
         ebind (texted_rows (pget row ''user_asks'')) (\<lambda>ask_rows.
         ebind (emap user_ask_from_dict ask_rows) (\<lambda>asks.
         ebind (texted_rows (pget row ''research_questions'')) (\<lambda>question_rows.
         ebind (nonblank_strs (pget row ''constraints'')) (\<lambda>constraints.
         ebind (source_requirements_from_dict (as_dict (pget row ''source_requirements''))) (\<lambda>sources.
         ebind (nonblank_strs (pget row ''success_criteria'')) (\<lambda>criteria.
         ebind (nonblank_strs (pget row ''assumptions'')) (\<lambda>assumptions.
         ebind (confidence_of (pget row ''confidence'')) (\<lambda>confidence.
         ebind (dict_or_empty (pget row ''answer_spec'')) (\<lambda>spec. Inr
           \<lparr>sb_brief_id = str_or (pget row ''brief_id'') [], sb_version = max 1 version,
            sb_objective = str_or (pget row ''objective'') [],
            sb_user_intent = str_or (pget row ''user_intent'') ''research'',
            sb_explicit_subjects = subjects, sb_key_questions = questions, sb_user_asks = asks,
            sb_research_questions = map research_question_from_dict question_rows,
            sb_constraints = constraints, sb_source_requirements = sources,
            sb_freshness_requirements = \<lparr>fr_required = truthy (pget freshness ''required''),
              fr_time_horizon = str_or (pget freshness ''time_horizon'') ''any''\<rparr>,
            sb_deliverable = \<lparr>dr_format = str_or (pget deliverable ''format'') ''text'',
              dr_depth = str_or (pget deliverable ''depth'') ''standard''\<rparr>,
            sb_success_criteria = criteria, sb_assumptions = assumptions,
            sb_clarification_needed = truthy (pget row ''clarification_needed''),
            sb_compiler_source = str_or (pget row ''compiler_source'') ''deterministic_fallback'',
            sb_confidence = confidence, sb_raw_query = str_or (pget row ''raw_query'') [],
            sb_answer_spec = spec,
            sb_engine_version = str_or (pget row ''engine_version'') ''legacy_v1''\<rparr>)))))))))))))"

text \<open>Whether a brief is simple enough for the fast path, with the reasons against it.\<close>

definition fast_path_reasons :: "structured_brief \<Rightarrow> string list" where
  "fast_path_reasons b =
     (if py_strip (sb_objective b) = [] then [''empty_objective''] else [])
     @ (if sb_user_intent b \<noteq> ''atomic_fact'' then [''not_atomic_fact''] else [])
     @ (if length (sb_explicit_subjects b) \<noteq> 1 then [''subject_count_not_one''] else [])
     @ (if length (sb_key_questions b) \<noteq> 1 then [''question_count_not_one''] else [])
     @ (if sb_clarification_needed b then [''clarification_needed''] else [])
     @ (if dr_format (sb_deliverable b) \<noteq> ''text'' \<or> dr_depth (sb_deliverable b) \<noteq> ''brief''
        then [''deliverable_not_brief_text''] else [])
     @ (if fr_required (sb_freshness_requirements b)
           \<and> fr_time_horizon (sb_freshness_requirements b) \<noteq> ''point_in_time''
        then [''freshness_not_point_in_time''] else [])"

definition fast_path_eligible :: "structured_brief \<Rightarrow> bool" where
  "fast_path_eligible b = (fast_path_reasons b = [])"

section \<open>What reading a brief guarantees\<close>

definition wf_user_ask :: "user_ask \<Rightarrow> bool" where
  "wf_user_ask u \<longleftrightarrow> py_strip (ua_text u) \<noteq> [] \<and> ua_ask_type u \<in> set ask_types \<and>
     (\<forall>s\<in>set (ua_answer_requirements u). py_strip s \<noteq> [])"

definition wf_brief :: "structured_brief \<Rightarrow> bool" where
  "wf_brief b \<longleftrightarrow> 1 \<le> sb_version b \<and> 0 \<le> sb_confidence b \<and> sb_confidence b \<le> 1 \<and>
     1 \<le> sr_min_independent_sources (sb_source_requirements b) \<and>
     sb_user_intent b \<noteq> [] \<and> sb_engine_version b \<noteq> [] \<and>
     (\<forall>s\<in>set (sb_explicit_subjects b @ sb_key_questions b @ sb_constraints b @ sb_success_criteria b @ sb_assumptions b).
        py_strip s \<noteq> []) \<and>
     (\<forall>u\<in>set (sb_user_asks b). wf_user_ask u) \<and>
     (\<forall>q\<in>set (sb_research_questions b). py_strip (rqn_text q) \<noteq> [])"

lemma texted_rows_text:
  "texted_rows v = Inr rows \<Longrightarrow> row \<in> set rows \<Longrightarrow> py_strip (str_or (pget row ''text'') []) \<noteq> []"
  by (auto simp: texted_rows_def ebind_eq_Inr)

lemma known_ask_type_member [simp]: "known_ask_type t \<in> set ask_types"
  by (simp add: known_ask_type_def ask_types_def)

lemma known_ask_type_id: "t \<in> set ask_types \<Longrightarrow> known_ask_type t = t \<and> t \<noteq> []"
  by (auto simp: known_ask_type_def ask_types_def)

lemma user_ask_from_dict_wf:
  assumes "user_ask_from_dict row = Inr u" "py_strip (str_or (pget row ''text'') []) \<noteq> []"
  shows "wf_user_ask u"
  using assms
  by (auto simp: user_ask_from_dict_def wf_user_ask_def ebind_eq_Inr dest: nonblank_strs_nonblank)

lemma emap_set: "emap f xs = Inr ys \<Longrightarrow> y \<in> set ys \<Longrightarrow> \<exists>x\<in>set xs. f x = Inr y"
  by (induction xs arbitrary: ys) (auto simp: ebind_eq_Inr)

lemma asks_wf:
  assumes "texted_rows v = Inr rows" "emap user_ask_from_dict rows = Inr asks" "u \<in> set asks"
  shows "wf_user_ask u"
  using emap_set [OF assms(2,3)] texted_rows_text [OF assms(1)] user_ask_from_dict_wf by blast

lemma user_ask_roundtrip:
  "wf_user_ask u \<Longrightarrow> user_ask_from_dict (user_ask_to_dict u) = Inr u"
  by (cases u) (auto simp: user_ask_from_dict_def user_ask_to_dict_def wf_user_ask_def nonblank_strs_strs
      dest: known_ask_type_id)

text \<open>Whatever row a brief is read from, the result is in range: version and source minimum at least
  one, confidence between zero and one, intent and engine named, no blank subject, question,
  constraint, criterion or assumption, every ask with a text and a known type, every research
  question with a text.
\<close>

theorem brief_read_in_range:
  assumes "brief_from_dict row = Inr b"
  shows "wf_brief b"
  using assms unfolding brief_from_dict_def Let_def ebind_eq_Inr
  by (auto simp: wf_brief_def confidence_of_def source_requirements_from_dict_def ebind_eq_Inr str_or_eq_Nil
      research_question_from_dict_def dest: nonblank_strs_nonblank asks_wf)
    (use texted_rows_text in blast)

text \<open>Storing an ask contract and reading it back gives the contract, provided its asks are well
  formed and its source is named.
\<close>

theorem ask_contract_roundtrip:
  assumes "\<forall>u\<in>set (ac_asks c). wf_user_ask u" "ac_source c \<noteq> []"
  shows "ask_contract_from_dict (ask_contract_to_dict c) = Inr c"
proof -
  have "py_strip (str_or (pget (user_ask_to_dict u) ''text'') []) \<noteq> []" if "u \<in> set (ac_asks c)" for u
    using assms(1) that by (auto simp: wf_user_ask_def user_ask_to_dict_def)
  then have rows: "texted_rows (PList (map PDict (map user_ask_to_dict (ac_asks c)))) = Inr (map user_ask_to_dict (ac_asks c))"
    unfolding texted_rows_def by (subst dict_rows_PDicts) (auto simp: filter_id_conv)
  have "emap user_ask_from_dict (map user_ask_to_dict (ac_asks c)) = Inr (ac_asks c)"
    using assms(1) by (auto simp: emap_eq_Inr_iff list_all2_map1 list_all2_same user_ask_roundtrip)
  then show ?thesis
    using rows assms(2) by (cases c) (simp add: ask_contract_from_dict_def ask_contract_to_dict_def)
qed

section \<open>Examples\<close>

definition example_brief_row :: pydict where
  "example_brief_row =
     [(''objective'', PStr ''Founding year''), (''version'', PInt (-3)),
      (''key_questions'', PList [PStr ''When was it founded?'', PStr '' '']),
      (''user_asks'', PList [PDict [(''ask_id'', PStr ''ask1''), (''text'', PStr ''When?''), (''ask_type'', PStr ''poem'')],
         PDict [(''ask_id'', PStr ''ask2'')]]),
      (''research_questions'', PList [PDict [(''question_id'', PStr ''q1''), (''ask_id'', PStr ''ask1''), (''text'', PStr ''When?'')]])]"

definition example_structured_brief :: structured_brief where
  "example_structured_brief = (case brief_from_dict example_brief_row of Inr b \<Rightarrow> b)"

lemma example_structured_brief_eq: "brief_from_dict example_brief_row = Inr example_structured_brief"
  by code_simp

lemma brief_read_in_range_witness: "wf_brief example_structured_brief"
  by (rule brief_read_in_range [OF example_structured_brief_eq])

definition example_ask_contract :: ask_contract where
  "example_ask_contract = \<lparr>ac_contract_id = ''c1'', ac_raw_query = ''When?'',
     ac_asks = [\<lparr>ua_ask_id = ''ask1'', ua_text = ''When?'', ua_ask_type = ''fact'', ua_subject = [],
       ua_time_scope = [], ua_required = True, ua_answer_requirements = [''a year'']\<rparr>],
     ac_source = ''deterministic_clause_split''\<rparr>"

lemma ask_contract_roundtrip_witness:
  "ask_contract_from_dict (ask_contract_to_dict example_ask_contract) = Inr example_ask_contract"
  by (rule ask_contract_roundtrip) code_simp+

end
