(* ===== verification/Completion.thy ===== *)
theory Completion
  imports Brief
begin

text \<open>
  The completion contract (\<open>app/research/domain/completion.py\<close>): whether a delivered report
  answers the questions of its brief, from the answer rows and the evidence records alone.  The
  keyword arguments of the entry point are a record.  A brief is a dictionary or a structured
  brief object (\<open>app/research/brief/models.py\<close>), of which the contract reads the questions,
  the user's asks and the question lineage.
\<close>

section \<open>Results\<close>

record question_completion =
  qc_question_id :: string
  qc_answered :: bool
  qc_direct_answer_present :: bool
  qc_evidence_refs :: "string list"
  qc_blocking_gap :: bool

definition question_to_dict :: "question_completion \<Rightarrow> pydict" where
  "question_to_dict q =
     [(''question_id'', PStr (qc_question_id q)), (''answered'', PBool (qc_answered q)),
      (''direct_answer_present'', PBool (qc_direct_answer_present q)),
      (''evidence_refs'', strs (qc_evidence_refs q)), (''blocking_gap'', PBool (qc_blocking_gap q))]"

record partial_contract =
  pc_answered_required_asks :: nat
  pc_grounded_claim_count :: nat
  pc_recoverable_evidence_count :: nat
  pc_safe_delivery_present :: bool
  pc_source_quality_pass :: bool
  pc_relevance_pass :: bool

definition partial_passed :: "partial_contract \<Rightarrow> bool" where
  "partial_passed p =
     (let grounded_answer = (1 \<le> pc_answered_required_asks p \<and> 1 \<le> pc_grounded_claim_count p);
          evidence_backed_limitation = (1 \<le> pc_recoverable_evidence_count p \<and> pc_safe_delivery_present p)
      in (grounded_answer \<or> evidence_backed_limitation) \<and> pc_source_quality_pass p \<and> pc_relevance_pass p)"

definition partial_failure_reason :: "partial_contract \<Rightarrow> string" where
  "partial_failure_reason p =
     (if pc_answered_required_asks p < 1 \<and> pc_recoverable_evidence_count p < 1
        then ''partial_contract:no_answered_required_ask''
      else if pc_grounded_claim_count p < 1 \<and> \<not> pc_safe_delivery_present p
        then ''partial_contract:no_grounded_claim''
      else if 1 \<le> pc_recoverable_evidence_count p \<and> \<not> pc_safe_delivery_present p
        then ''partial_contract:no_safe_delivery''
      else if \<not> pc_source_quality_pass p then ''partial_contract:source_quality_failed''
      else if \<not> pc_relevance_pass p then ''partial_contract:relevance_failed''
      else [])"

definition partial_to_dict :: "partial_contract \<Rightarrow> pydict" where
  "partial_to_dict p =
     [(''answered_required_asks'', PInt (int (pc_answered_required_asks p))),
      (''grounded_claim_count'', PInt (int (pc_grounded_claim_count p))),
      (''recoverable_evidence_count'', PInt (int (pc_recoverable_evidence_count p))),
      (''safe_delivery_present'', PBool (pc_safe_delivery_present p)),
      (''source_quality_pass'', PBool (pc_source_quality_pass p)),
      (''relevance_pass'', PBool (pc_relevance_pass p)),
      (''passed'', PBool (partial_passed p)), (''failure_reason'', PStr (partial_failure_reason p))]"

text \<open>The failure reason is \<open>None\<close> or the first blocker, which comes from the caller.\<close>

record completion_result =
  cr_passed :: bool
  cr_question_results :: "question_completion list"
  cr_evidence_valid :: bool
  cr_citation_valid :: bool
  cr_answer_complete :: bool
  cr_unresolved_blocking :: "pyval list"
  cr_failure_reason :: pyval
  cr_partial_contract :: partial_contract
  cr_ask_results :: "bool dict"

definition completion_outcome :: "completion_result \<Rightarrow> string" where
  "completion_outcome r =
     (if cr_passed r then ''success''
      else if partial_passed (cr_partial_contract r) then ''partial'' else ''failed'')"

definition completion_to_dict :: "completion_result \<Rightarrow> pydict" where
  "completion_to_dict r =
     [(''passed'', PBool (cr_passed r)),
      (''question_results'', PList (map (\<lambda>q. PDict (question_to_dict q)) (cr_question_results r))),
      (''ask_results'', PList (map (\<lambda>(k, v). PDict [(''ask_id'', PStr k), (''answered'', PBool v)]) (cr_ask_results r))),
      (''evidence_valid'', PBool (cr_evidence_valid r)), (''citation_valid'', PBool (cr_citation_valid r)),
      (''answer_complete'', PBool (cr_answer_complete r)),
      (''unresolved_blocking'', PList (cr_unresolved_blocking r)),
      (''failure_reason'', cr_failure_reason r),
      (''partial_contract'', PDict (partial_to_dict (cr_partial_contract r))),
      (''outcome'', PStr (completion_outcome r))]"

section \<open>Briefs\<close>

datatype brief = DictBrief pydict | StructuredBrief structured_brief

text \<open>The numbers of \<open>enumerate(xs, 1)\<close> for \<open>n\<close> items.\<close>

definition numbers :: "nat \<Rightarrow> nat list" where
  "numbers n = [1..<n + 1]"

definition brief_question_values :: "brief \<Rightarrow> pyval" where
  "brief_question_values b =
     (case b of
        DictBrief d \<Rightarrow> por (por (pget d ''key_questions'') (pget d ''questions'')) (PList [])
      | StructuredBrief s \<Rightarrow> por (strs (sb_key_questions s)) (PList []))"

definition questions_of :: "brief \<Rightarrow> string \<Rightarrow> string list res" where
  "questions_of b objective =
     ebind (py_iter (brief_question_values b)) (\<lambda>values.
       let questions = filter (\<lambda>q. q \<noteq> []) (map (\<lambda>v. py_strip (py_str v)) values)
       in Inr (if questions \<noteq> [] then questions
               else if py_strip objective \<noteq> [] then [py_strip objective] else []))"

definition required_by_id :: "brief \<Rightarrow> bool dict" where
  "required_by_id b =
     (case b of DictBrief d \<Rightarrow> []
      | StructuredBrief s \<Rightarrow> fold (\<lambda>a. dput (ua_ask_id a) (ua_required a)) (sb_user_asks s) [])"

text \<open>For every question index of the brief its ask and whether that ask is required.\<close>

definition ask_ids :: "brief \<Rightarrow> (nat \<times> string \<times> bool) list res" where
  "ask_ids b =
     ebind (questions_of b []) (\<lambda>questions.
       Inr (map (\<lambda>i.
              let ask = (case b of DictBrief d \<Rightarrow> [] | StructuredBrief s \<Rightarrow> ask_id_for_question_index s i)
              in (i, ask, case dget (required_by_id b) ask of None \<Rightarrow> True | Some r \<Rightarrow> r))
            (numbers (length questions))))"

section \<open>Answer rows and evidence records\<close>

definition answer_rows :: "pyval \<Rightarrow> pydict list res" where
  "answer_rows contract =
     (if \<not> is_dict contract then Inr []
      else let c = as_dict contract;
               raw = por (por (pget c ''answers'') (pget c ''question_answers'')) (PList []);
               f = as_dict (pget c ''final_answer'');
               raw = (if \<not> truthy raw \<and> is_dict (pget c ''final_answer'')
                      then por (por (pget f ''answers'') (pget f ''question_answers'')) (PList []) else raw)
           in ebind (py_iter raw) (\<lambda>vs. Inr (map as_dict (filter is_dict vs))))"

definition record_keys :: "string list" where
  "record_keys = [''evidence_id'', ''artifact_ref'', ''artifact_id'', ''source_id'', ''source'', ''url'', ''source_url'']"

definition row_ids :: "pydict \<Rightarrow> string list" where
  "row_ids row = filter (\<lambda>v. v \<noteq> []) (map (\<lambda>k. py_strip (str_or (pget row k) [])) record_keys)"

definition record_ids :: "pydict list \<Rightarrow> string list" where
  "record_ids records = concat (map row_ids records)"

text \<open>The last record that carries an identifier wins.\<close>

definition records_by_id :: "pydict list \<Rightarrow> pydict dict" where
  "records_by_id records =
     fold (\<lambda>row m. fold (\<lambda>i. dput i row) (row_ids row) m) records []"

definition ref_keys :: "string list" where
  "ref_keys = [''evidence_refs'', ''evidence_ids'', ''finding_refs'', ''artifact_ids'', ''source_ids'']"

definition ref_values :: "pydict \<Rightarrow> string \<Rightarrow> string list res" where
  "ref_values row k =
     (let values = por (pget row k) (PList []);
          values = (case values of PStr s \<Rightarrow> PList [PStr s] | _ \<Rightarrow> values)
      in ebind (py_iter values) (\<lambda>vs.
           Inr (filter (\<lambda>v. v \<noteq> []) (map (\<lambda>v. py_strip (py_str v)) vs))))"

definition refs_of :: "pydict \<Rightarrow> string list res" where
  "refs_of row = ebind (emap (ref_values row) ref_keys) (\<lambda>vss. Inr (fromkeys (concat vss)))"

text \<open>The three sentences that decline to answer.\<close>

definition refusal_markers :: "string list" where
  "refusal_markers =
     [[CHR 0xE5, CHR 0xBD, CHR 0x93, CHR 0xE5, CHR 0x89, CHR 0x8D, CHR 0xE8, CHR 0xAF, CHR 0x81, CHR
       0xE6, CHR 0x8D, CHR 0xAE, CHR 0xE4, CHR 0xB8, CHR 0x8D, CHR 0xE8, CHR 0xB6, CHR 0xB3],
      [CHR 0xE6, CHR 0x97, CHR 0xA0, CHR 0xE6, CHR 0xB3, CHR 0x95, CHR 0xE5, CHR 0x8F, CHR 0xAF, CHR
       0xE9, CHR 0x9D, CHR 0xA0, CHR 0xE5, CHR 0x9B, CHR 0x9E, CHR 0xE7, CHR 0xAD, CHR 0x94],
      [CHR 0xE6, CHR 0x97, CHR 0xA0, CHR 0xE6, CHR 0xB3, CHR 0x95, CHR 0xE5, CHR 0xBD, CHR 0xA2, CHR
       0xE6, CHR 0x88, CHR 0x90, CHR 0xE5, CHR 0x8F, CHR 0xAF, CHR 0xE9, CHR 0x9D, CHR 0xA0, CHR 0xE7,
       CHR 0xBB, CHR 0xBC, CHR 0xE5, CHR 0x90, CHR 0x88, CHR 0xE5, CHR 0x88, CHR 0xA4, CHR 0xE6, CHR
       0x96, CHR 0xAD]]"

definition is_refusal :: "string \<Rightarrow> bool" where
  "is_refusal text = (let v = py_strip text in v \<noteq> [] \<and> list_ex (\<lambda>m. is_infix m v) refusal_markers)"

definition authoritative_row :: "pydict \<Rightarrow> bool res" where
  "authoritative_row row =
     (if py_upper (str_or (pget row ''source_tier'') []) \<in> {''PRIMARY'', ''HIGH_QUALITY_SECONDARY''} then Inr True
      else ebind (float_or_zero (pget row ''authority_score'')) (\<lambda>q. Inr (3 / 4 \<le> q)))"

section \<open>The contract\<close>

record completion_args =
  ca_brief :: brief
  ca_answer_contract :: pyval
  ca_evidence_records :: "pyval list"
  ca_final_content :: string
  ca_citation_valid :: bool
  ca_unresolved_blocking :: "pyval list"
  ca_coverage :: pydict
  ca_broken_evidence_count :: int
  ca_minimum_high_authority_ratio :: pyfloat
  ca_require_authoritative_per_question :: bool
  ca_source_quality_pass :: bool
  ca_relevance_pass :: bool
  ca_relevance_partial_pass :: "bool option"
  ca_source_quality_partial_pass :: "bool option"

text \<open>The defaults of the keyword arguments.\<close>

definition completion_defaults :: "brief \<Rightarrow> pyval \<Rightarrow> pyval list \<Rightarrow> completion_args" where
  "completion_defaults b contract records =
     \<lparr>ca_brief = b, ca_answer_contract = contract, ca_evidence_records = records, ca_final_content = [],
      ca_citation_valid = True, ca_unresolved_blocking = [], ca_coverage = [], ca_broken_evidence_count = 0,
      ca_minimum_high_authority_ratio = 0, ca_require_authoritative_per_question = False,
      ca_source_quality_pass = True, ca_relevance_pass = True, ca_relevance_partial_pass = None,
      ca_source_quality_partial_pass = None\<rparr>"

definition ca_records :: "completion_args \<Rightarrow> pydict list" where
  "ca_records a = map as_dict (filter is_dict (ca_evidence_records a))"

definition contract_objective :: "pyval \<Rightarrow> string" where
  "contract_objective contract =
     (let c = as_dict contract; s = str_or (pget c ''objective'') []
      in if s = [] \<and> is_dict (pget c ''final_answer'')
         then str_or (pget (as_dict (pget c ''final_answer'')) ''objective'') [] else s)"

definition coverage_blockers :: "pydict \<Rightarrow> pyval list res" where
  "coverage_blockers coverage =
     ebind (dict_rows (pget coverage ''key_question_coverage'')) (\<lambda>rows.
       Inr (map (\<lambda>row. PStr (str_or (pget row ''question_id'') ''question'' @ '':blocking_coverage_gap''))
             (filter (\<lambda>row. truthy (pget row ''blocking'') \<or> str_or (pget row ''status'') [] = ''uncovered'') rows)))"

definition authority_blockers :: "completion_args \<Rightarrow> pyval list res" where
  "authority_blockers a =
     (if 0 < ca_minimum_high_authority_ratio a then
        ebind (emap authoritative_row (ca_records a)) (\<lambda>flags.
          let high = length (filter id flags); n = length (ca_records a)
          in Inr (if ca_records a = [] \<or> fl (of_nat high / of_nat n) < ca_minimum_high_authority_ratio a
                  then [PStr ''minimum_source_quality_not_met''] else []))
      else Inr [])"

text \<open>The blockers known before the questions are looked at.\<close>

definition initial_blockers :: "completion_args \<Rightarrow> pyval list res" where
  "initial_blockers a =
     ebind (coverage_blockers (ca_coverage a)) (\<lambda>gaps.
     ebind (authority_blockers a) (\<lambda>weak.
       Inr (ca_unresolved_blocking a @ gaps
            @ (if 0 < ca_broken_evidence_count a then [PStr ''broken_evidence_present''] else []) @ weak)))"

definition answer_row_for :: "pydict list \<Rightarrow> string \<Rightarrow> pydict" where
  "answer_row_for rows qid =
     (case find (\<lambda>row. str_or (pget row ''question_id'') [] = qid) rows of None \<Rightarrow> [] | Some row \<Rightarrow> row)"

text \<open>One question: its result, whether its answer is grounded, and its blocker if unanswered.\<close>

record question_judgement =
  qj_completion :: question_completion
  qj_grounded :: bool
  qj_blocker :: "pyval list"

definition question_verdict :: "string \<Rightarrow> string \<Rightarrow> string list \<Rightarrow> bool \<Rightarrow> bool \<Rightarrow> question_judgement" where
  "question_verdict qid direct refs strict authoritative =
     (let blocking_gap = (refs = [] \<or> (strict \<and> \<not> authoritative));
          grounded = (direct \<noteq> [] \<and> \<not> is_refusal direct \<and> refs \<noteq> []);
          answered = (grounded \<and> \<not> blocking_gap)
      in \<lparr>qj_completion = \<lparr>qc_question_id = qid, qc_answered = answered,
             qc_direct_answer_present = (direct \<noteq> []), qc_evidence_refs = refs,
             qc_blocking_gap = blocking_gap\<rparr>,
          qj_grounded = grounded,
          qj_blocker = (if answered then []
            else [PStr (qid @ (if refs \<noteq> [] \<and> strict \<and> \<not> authoritative
                   then '':authoritative_evidence_missing''
                   else '':evidence_or_direct_answer_missing''))])\<rparr>)"

definition authoritative_id :: "completion_args \<Rightarrow> string \<Rightarrow> bool res" where
  "authoritative_id a r =
     (case dget (records_by_id (ca_records a)) r of None \<Rightarrow> Inr False | Some rec \<Rightarrow> authoritative_row rec)"

definition judge_question :: "completion_args \<Rightarrow> pydict list \<Rightarrow> nat \<Rightarrow> question_judgement res" where
  "judge_question a rows i =
     (let row = answer_row_for rows (question_id_of i)
      in ebind (refs_of row) (\<lambda>all_refs.
           let refs = filter (\<lambda>r. r \<in> set (record_ids (ca_records a))) all_refs
           in ebind (eany (authoritative_id a) refs) (\<lambda>authoritative.
                Inr (question_verdict (question_id_of i) (py_strip (str_or (pget row ''direct_answer'') []))
                       refs (ca_require_authoritative_per_question a) authoritative))))"

text \<open>\<open>answered_asks\<close>: an ask is answered when one of its questions is grounded and required.\<close>

definition note_ask :: "(nat \<times> string \<times> bool) list \<Rightarrow> nat \<times> question_judgement \<Rightarrow> bool dict \<Rightarrow> bool dict" where
  "note_ask lineage ij asks =
     (case ij of (i, j) \<Rightarrow>
        case (case map_of lineage i of None \<Rightarrow> ([], True) | Some p \<Rightarrow> p) of (ask, req) \<Rightarrow>
          if ask = [] then asks
          else dput ask ((case dget asks ask of None \<Rightarrow> False | Some b \<Rightarrow> b) \<or> (qj_grounded j \<and> req)) asks)"

definition assemble_completion ::
  "completion_args \<Rightarrow> (nat \<times> string \<times> bool) list \<Rightarrow> question_judgement list \<Rightarrow> pyval list
   \<Rightarrow> completion_result" where
  "assemble_completion a lineage js blocking =
     (let results = map qj_completion js; records = ca_records a;
          answered_asks = fold (note_ask lineage) (zip (numbers (length js)) js) [];
          answer_complete = (results \<noteq> [] \<and> list_all qc_answered results);
          evidence_valid = (records \<noteq> [] \<and> list_ex (\<lambda>q. qc_evidence_refs q \<noteq> []) results);
          answered_required = (if answered_asks = [] then length (filter qc_answered results)
                               else length (filter snd answered_asks));
          delivered = (py_strip (ca_final_content a) \<noteq> []);
          partial = \<lparr>pc_answered_required_asks = answered_required,
             pc_grounded_claim_count = length (filter qj_grounded js),
             pc_recoverable_evidence_count = length records, pc_safe_delivery_present = delivered,
             pc_source_quality_pass = (case ca_source_quality_partial_pass a of
                None \<Rightarrow> ca_source_quality_pass a | Some b \<Rightarrow> b),
             pc_relevance_pass = (case ca_relevance_partial_pass a of
                None \<Rightarrow> ca_relevance_pass a | Some b \<Rightarrow> b)\<rparr>;
          passed = (delivered \<and> answer_complete \<and> evidence_valid \<and> ca_citation_valid a \<and> blocking = []
                    \<and> ca_source_quality_pass a \<and> ca_relevance_pass a);
          reason = (if passed then PNone
                    else if \<not> ca_source_quality_pass a then PStr ''source_quality_failed''
                    else if \<not> ca_relevance_pass a then PStr ''answer_relevance_failed''
                    else case blocking of [] \<Rightarrow> PStr ''completion_contract_failed'' | b # _ \<Rightarrow> b)
      in \<lparr>cr_passed = passed, cr_question_results = results, cr_evidence_valid = evidence_valid,
          cr_citation_valid = ca_citation_valid a, cr_answer_complete = answer_complete,
          cr_unresolved_blocking = blocking, cr_failure_reason = reason, cr_partial_contract = partial,
          cr_ask_results = answered_asks\<rparr>)"

definition evaluate_completion :: "completion_args \<Rightarrow> completion_result res" where
  "evaluate_completion a =
     ebind (answer_rows (ca_answer_contract a)) (\<lambda>rows.
     ebind (questions_of (ca_brief a) (contract_objective (ca_answer_contract a))) (\<lambda>questions.
     ebind (ask_ids (ca_brief a)) (\<lambda>lineage.
     ebind (initial_blockers a) (\<lambda>initial.
     ebind (emap (judge_question a rows) (numbers (length questions))) (\<lambda>js.
     ebind (py_fromkeys (initial @ concat (map qj_blocker js))) (\<lambda>blocking.
       Inr (assemble_completion a lineage js blocking)))))))"

end
