(* ===== verification/CompletionProps.thy ===== *)
theory CompletionProps
  imports Completion
begin

text \<open>
  What the completion contract guarantees: a run passes exactly when its report is delivered and
  every question of the brief has a direct, non-refusing answer with a reference to a recorded
  source, with nothing blocking; and when a partial delivery passes.
\<close>

section \<open>Questions\<close>

definition question_refs :: "completion_args \<Rightarrow> pydict \<Rightarrow> string \<Rightarrow> bool" where
  "question_refs a row r \<longleftrightarrow> (\<exists>rs. refs_of row = Inr rs \<and> r \<in> set rs) \<and> r \<in> set (record_ids (ca_records a))"

definition authoritative_ref :: "completion_args \<Rightarrow> string \<Rightarrow> bool" where
  "authoritative_ref a r \<longleftrightarrow>
     (\<exists>rec. dget (records_by_id (ca_records a)) r = Some rec \<and> authoritative_row rec = Inr True)"

definition question_grounded :: "completion_args \<Rightarrow> pydict list \<Rightarrow> nat \<Rightarrow> bool" where
  "question_grounded a rows i \<longleftrightarrow>
     (let row = answer_row_for rows (question_id_of i);
          direct = py_strip (str_or (pget row ''direct_answer'') [])
      in direct \<noteq> [] \<and> \<not> is_refusal direct \<and> (\<exists>r. question_refs a row r) \<and>
         (ca_require_authoritative_per_question a \<longrightarrow>
            (\<exists>r. question_refs a row r \<and> authoritative_ref a r)))"

lemma eany_eq_InrD: "eany f xs = Inr b \<Longrightarrow> b \<longleftrightarrow> (\<exists>x\<in>set xs. f x = Inr True)"
  by (induction xs arbitrary: b) (auto simp: ebind_eq_Inr split: if_splits)

lemma eany_eq_Inr_set: "eany f xs = Inr b \<Longrightarrow> b \<longleftrightarrow> (\<exists>x. x \<in> set xs \<and> f x = Inr True)"
  using eany_eq_InrD by blast

lemma judge_question_inv:
  assumes "judge_question a rows i = Inr j"
  obtains rs b where "refs_of (answer_row_for rows (question_id_of i)) = Inr rs"
    and "eany (authoritative_id a) (filter (\<lambda>r. r \<in> set (record_ids (ca_records a))) rs) = Inr b"
    and "j = question_verdict (question_id_of i)
           (py_strip (str_or (pget (answer_row_for rows (question_id_of i)) ''direct_answer'') []))
           (filter (\<lambda>r. r \<in> set (record_ids (ca_records a))) rs) (ca_require_authoritative_per_question a) b"
  using assms unfolding judge_question_def Let_def ebind_eq_Inr by auto

lemma verdict_answered:
  "qc_answered (qj_completion (question_verdict qid direct refs strict b)) \<longleftrightarrow>
     direct \<noteq> [] \<and> \<not> is_refusal direct \<and> refs \<noteq> [] \<and> (strict \<longrightarrow> b)"
  by (auto simp: question_verdict_def Let_def)

lemma verdict_grounded:
  "qj_grounded (question_verdict qid direct refs strict b) \<longleftrightarrow> direct \<noteq> [] \<and> \<not> is_refusal direct \<and> refs \<noteq> []"
  by (simp add: question_verdict_def Let_def)

lemma verdict_refs [simp]: "qc_evidence_refs (qj_completion (question_verdict qid direct refs strict b)) = refs"
  by (simp add: question_verdict_def Let_def)

lemma verdict_blocker:
  "qj_blocker (question_verdict qid direct refs strict b) = []
     \<longleftrightarrow> qc_answered (qj_completion (question_verdict qid direct refs strict b))"
  by (simp add: question_verdict_def Let_def)

lemma authoritative_id_iff: "authoritative_id a r = Inr True \<longleftrightarrow> authoritative_ref a r"
  by (auto simp: authoritative_id_def authoritative_ref_def split: option.split)

lemma judge_question_answered:
  assumes "judge_question a rows i = Inr j"
  shows "qc_answered (qj_completion j) \<longleftrightarrow> question_grounded a rows i"
proof -
  define row where "row = answer_row_for rows (question_id_of i)"
  obtain rs b where rs: "refs_of row = Inr rs"
    and b: "eany (authoritative_id a) (filter (\<lambda>r. r \<in> set (record_ids (ca_records a))) rs) = Inr b"
    and j: "j = question_verdict (question_id_of i) (py_strip (str_or (pget row ''direct_answer'') []))
           (filter (\<lambda>r. r \<in> set (record_ids (ca_records a))) rs) (ca_require_authoritative_per_question a) b"
    using judge_question_inv [OF assms] unfolding row_def by blast
  have refs: "question_refs a row r \<longleftrightarrow> r \<in> set (filter (\<lambda>r. r \<in> set (record_ids (ca_records a))) rs)" for r
    using rs by (auto simp: question_refs_def)
  have nonempty: "xs \<noteq> [] \<longleftrightarrow> (\<exists>r. r \<in> set xs)" for xs :: "string list"
    by (cases xs) auto
  show ?thesis
    unfolding question_grounded_def Let_def row_def [symmetric] refs nonempty [symmetric] j verdict_answered
    using eany_eq_Inr_set [OF b] by (auto simp: authoritative_id_iff)
qed

lemma judge_question_blocker:
  assumes "judge_question a rows i = Inr j"
  shows "qj_blocker j = [] \<longleftrightarrow> qc_answered (qj_completion j)"
  using judge_question_inv [OF assms] verdict_blocker by metis

lemma judge_question_refs:
  assumes "judge_question a rows i = Inr j" "qc_evidence_refs (qj_completion j) \<noteq> []"
  shows "ca_records a \<noteq> []"
  by (rule judge_question_inv [OF assms(1)]) (use assms(2) in \<open>auto simp: record_ids_def\<close>)

lemma judge_question_grounded_refs:
  assumes "judge_question a rows i = Inr j" "qj_grounded j"
  shows "qc_evidence_refs (qj_completion j) \<noteq> []"
  by (rule judge_question_inv [OF assms(1)]) (use assms(2) in \<open>auto simp: verdict_grounded\<close>)

lemma judge_question_answered_grounded:
  assumes "judge_question a rows i = Inr j" "qc_answered (qj_completion j)"
  shows "qj_grounded j"
  by (rule judge_question_inv [OF assms(1)]) (use assms(2) in \<open>auto simp: verdict_grounded verdict_answered\<close>)

lemma length_numbers [simp]: "length (numbers n) = n"
  by (simp add: numbers_def)

lemma set_numbers [simp]: "set (numbers n) = {1..n}"
  by (auto simp: numbers_def)

section \<open>The whole contract\<close>

lemma evaluate_completion_inv:
  assumes "evaluate_completion a = Inr r"
  obtains rows questions lineage initial js blocking where
    "answer_rows (ca_answer_contract a) = Inr rows"
    "questions_of (ca_brief a) (contract_objective (ca_answer_contract a)) = Inr questions"
    "initial_blockers a = Inr initial"
    "list_all2 (\<lambda>i j. judge_question a rows i = Inr j) (numbers (length questions)) js"
    "py_fromkeys (initial @ concat (map qj_blocker js)) = Inr blocking"
    "r = assemble_completion a lineage js blocking"
  using assms unfolding evaluate_completion_def ebind_eq_Inr emap_eq_Inr_iff by blast

lemma assemble_passed:
  "cr_passed (assemble_completion a lineage js blocking) \<longleftrightarrow>
     py_strip (ca_final_content a) \<noteq> [] \<and> js \<noteq> [] \<and> list_all (\<lambda>j. qc_answered (qj_completion j)) js \<and>
     ca_records a \<noteq> [] \<and> list_ex (\<lambda>j. qc_evidence_refs (qj_completion j) \<noteq> []) js \<and>
     ca_citation_valid a \<and> blocking = [] \<and> ca_source_quality_pass a \<and> ca_relevance_pass a"
  by (auto simp: assemble_completion_def Let_def list_all_iff list_ex_iff)

lemma judged_all_iff:
  assumes "list_all2 (\<lambda>i j. judge_question a rows i = Inr j) is js"
  shows "list_all (\<lambda>j. qc_answered (qj_completion j)) js \<longleftrightarrow> (\<forall>i\<in>set is. question_grounded a rows i)"
  using assms by (induction rule: list_all2_induct) (auto simp: judge_question_answered)

lemma judged_blockers:
  assumes "list_all2 (\<lambda>i j. judge_question a rows i = Inr j) is js"
  shows "concat (map qj_blocker js) = [] \<longleftrightarrow> list_all (\<lambda>j. qc_answered (qj_completion j)) js"
  using assms by (induction rule: list_all2_induct) (auto simp: judge_question_blocker)

lemma judged_refs:
  assumes "list_all2 (\<lambda>i j. judge_question a rows i = Inr j) is js"
    and "j \<in> set js" "qj_grounded j \<or> qc_answered (qj_completion j)"
  shows "qc_evidence_refs (qj_completion j) \<noteq> [] \<and> qj_grounded j \<and> ca_records a \<noteq> []"
  using assms
  by (induction rule: list_all2_induct)
    (auto dest: judge_question_answered_grounded judge_question_grounded_refs judge_question_refs)

lemma passed_iff_grounded:
  assumes "evaluate_completion a = Inr r"
    and "answer_rows (ca_answer_contract a) = Inr rows"
    and "questions_of (ca_brief a) (contract_objective (ca_answer_contract a)) = Inr questions"
  shows "cr_passed r \<longleftrightarrow>
    py_strip (ca_final_content a) \<noteq> [] \<and> questions \<noteq> [] \<and>
    (\<forall>i\<in>{1..length questions}. question_grounded a rows i) \<and> initial_blockers a = Inr [] \<and>
    ca_citation_valid a \<and> ca_source_quality_pass a \<and> ca_relevance_pass a"
proof -
  obtain lineage initial js blocking where
    init: "initial_blockers a = Inr initial"
    and js: "list_all2 (\<lambda>i j. judge_question a rows i = Inr j) (numbers (length questions)) js"
    and blocking: "py_fromkeys (initial @ concat (map qj_blocker js)) = Inr blocking"
    and r: "r = assemble_completion a lineage js blocking"
    by (rule evaluate_completion_inv [OF assms(1)]) (use assms(2,3) in simp)
  let ?all = "list_all (\<lambda>j. qc_answered (qj_completion j)) js"
  have len: "length js = length questions"
    using list_all2_lengthD [OF js] by simp
  have every: "?all \<longleftrightarrow> (\<forall>i\<in>{1..length questions}. question_grounded a rows i)"
    using judged_all_iff [OF js] by simp
  have none: "blocking = [] \<longleftrightarrow> initial = [] \<and> ?all"
    using py_fromkeys_Inr_Nil [OF blocking] judged_blockers [OF js] by (metis append_is_Nil_conv)
  have evidence: "ca_records a \<noteq> [] \<and> list_ex (\<lambda>j. qc_evidence_refs (qj_completion j) \<noteq> []) js" if "?all" "js \<noteq> []"
    using that judged_refs [OF js, of "hd js"] by (cases js) auto
  have "js \<noteq> [] \<longleftrightarrow> questions \<noteq> []" using len by auto
  then show ?thesis
    unfolding r assemble_passed every [symmetric] init using none evidence by auto
qed

text \<open>C25. Success is earned: an evaluation passes exactly when the report is not blank, the brief has
  questions, each of them has an answer row whose direct answer is present, is no refusal and
  cites a reference found among the evidence records (an authoritative one where the caller
  requires it), no blocker was known beforehand, and the citation, source and relevance verdicts
  are positive.
\<close>

theorem success_iff_grounded:
  assumes "evaluate_completion a = Inr r"
    and "answer_rows (ca_answer_contract a) = Inr rows"
    and "questions_of (ca_brief a) (contract_objective (ca_answer_contract a)) = Inr questions"
  shows "cr_passed r \<longleftrightarrow>
    py_strip (ca_final_content a) \<noteq> [] \<and> questions \<noteq> [] \<and>
    (\<forall>i\<in>{1..length questions}. question_grounded a rows i) \<and> initial_blockers a = Inr [] \<and>
    ca_citation_valid a \<and> ca_source_quality_pass a \<and> ca_relevance_pass a"
  by (rule passed_iff_grounded [OF assms])

section \<open>Partial delivery\<close>

lemma filter_positive: "0 < length (filter P xs) \<longleftrightarrow> (\<exists>x\<in>set xs. P x)"
  by (induction xs) auto

lemma values_dput: "snd ` set (dput k v d) \<subseteq> insert v (snd ` set d)"
  using set_dput_subset [of k v d] by (metis image_insert image_mono snd_conv)

lemma note_ask_true:
  assumes "True \<in> snd ` set (note_ask lineage (i, j) asks)"
  shows "True \<in> snd ` set asks \<or> qj_grounded j"
proof -
  obtain ask req where ask: "(case map_of lineage i of None \<Rightarrow> ([], True) | Some p \<Rightarrow> p) = (ask, req)"
    by fastforce
  define known where "known = (case dget asks ask of None \<Rightarrow> False | Some b \<Rightarrow> b)"
  have noted: "note_ask lineage (i, j) asks =
      (if ask = [] then asks else dput ask (known \<or> (qj_grounded j \<and> req)) asks)"
    unfolding note_ask_def known_def by (simp add: ask)
  have "True \<in> snd ` set asks" if "known"
    using that by (force simp: known_def dest!: map_of_SomeD split: option.splits)
  then show ?thesis
    using assms values_dput [of ask "known \<or> (qj_grounded j \<and> req)" asks] unfolding noted
    by (auto split: if_splits)
qed

lemma fold_note_ask_true:
  "True \<in> snd ` set (fold (note_ask lineage) ijs asks) \<Longrightarrow>
     True \<in> snd ` set asks \<or> (\<exists>j\<in>snd ` set ijs. qj_grounded j)"
proof (induction ijs arbitrary: asks)
  case (Cons ij ijs)
  then show ?case using note_ask_true [of lineage "fst ij" "snd ij" asks] by simp blast
qed simp

text \<open>The partial contract and its failure reason agree on every evaluated run, up to delivery: no
  reason is given exactly when the partial contract passes and the report is not blank.
\<close>

theorem partial_reason_complete:
  assumes "evaluate_completion a = Inr r"
  shows "partial_failure_reason (cr_partial_contract r) = [] \<longleftrightarrow>
    partial_passed (cr_partial_contract r) \<and> py_strip (ca_final_content a) \<noteq> []"
proof -
  obtain rows and questions :: "string list" and lineage js blocking where
    js: "list_all2 (\<lambda>i j. judge_question a rows i = Inr j) (numbers (length questions)) js"
    and r: "r = assemble_completion a lineage js blocking"
    by (rule evaluate_completion_inv [OF assms]) blast
  let ?p = "cr_partial_contract r"
  have delivered: "pc_safe_delivery_present ?p \<longleftrightarrow> py_strip (ca_final_content a) \<noteq> []"
    by (simp add: r assemble_completion_def Let_def)
  have records: "pc_recoverable_evidence_count ?p = length (ca_records a)"
    by (simp add: r assemble_completion_def Let_def)
  have grounded: "ca_records a \<noteq> []" if "j \<in> set js" "qj_grounded j \<or> qc_answered (qj_completion j)" for j
    using judged_refs [OF js that] by simp
  have "ca_records a \<noteq> []" if "0 < pc_answered_required_asks ?p"
  proof (cases "fold (note_ask lineage) (zip (numbers (length js)) js) [] = []")
    case True
    then show ?thesis
      using that grounded by (auto simp: r assemble_completion_def Let_def filter_empty_conv)
  next
    case False
    then have "filter snd (fold (note_ask lineage) (zip (numbers (length js)) js) []) \<noteq> []"
      using that by (auto simp: r assemble_completion_def Let_def)
    then have "True \<in> snd ` set (fold (note_ask lineage) (zip (numbers (length js)) js) [])"
      by (force simp: filter_empty_conv)
    then obtain j where "j \<in> snd ` set (zip (numbers (length js)) js)" "qj_grounded j"
      using fold_note_ask_true by force
    then show ?thesis using grounded [of j] by (auto dest: set_zip_rightD)
  qed
  then have backed: "1 \<le> pc_recoverable_evidence_count ?p" if "1 \<le> pc_answered_required_asks ?p"
    using that records by (cases "ca_records a") auto
  show ?thesis
    unfolding delivered [symmetric] partial_failure_reason_def partial_passed_def Let_def
    using backed by (cases "1 \<le> pc_recoverable_evidence_count ?p"; cases "1 \<le> pc_answered_required_asks ?p") auto
qed

section \<open>Examples\<close>

definition example_record :: pyval where
  "example_record = PDict [(''evidence_id'', PStr ''ev1''), (''source_tier'', PStr ''primary'')]"

definition example_answer :: pyval where
  "example_answer = PDict [(''answers'', PList [PDict [(''question_id'', PStr ''q1''),
     (''direct_answer'', PStr ''It was founded in 1998.''), (''evidence_refs'', PList [PStr ''ev1''])]])]"

definition example_brief :: brief where
  "example_brief = StructuredBrief example_structured_brief"

definition example_args :: completion_args where
  "example_args = (completion_defaults example_brief example_answer [example_record])
     \<lparr>ca_final_content := ''Founded in 1998 [1].'', ca_require_authoritative_per_question := True,
      ca_minimum_high_authority_ratio := 3 / 5\<rparr>"

definition example_completion :: completion_result where
  "example_completion = (case evaluate_completion example_args of Inr r \<Rightarrow> r)"

lemma example_completion_eq:
  "evaluate_completion example_args = Inr example_completion"
  "cr_passed example_completion"
  by code_simp+

text \<open>A blank report can still be graded a partial delivery: one grounded answer among the questions
  is enough, although the partial contract itself then names the missing delivery as its failure.
\<close>

theorem blank_report_passes_as_partial:
  "\<exists>a r. evaluate_completion a = Inr r \<and> ca_final_content a = [] \<and> completion_outcome r = ''partial'' \<and>
     partial_failure_reason (cr_partial_contract r) = ''partial_contract:no_safe_delivery''"
proof (intro exI conjI)
  let ?a = "example_args\<lparr>ca_final_content := []\<rparr>"
  show "evaluate_completion ?a = Inr (case evaluate_completion ?a of Inr r \<Rightarrow> r)"
    by code_simp
  show "ca_final_content ?a = []" by simp
  show "completion_outcome (case evaluate_completion ?a of Inr r \<Rightarrow> r) = ''partial''"
    by code_simp
  show "partial_failure_reason (cr_partial_contract (case evaluate_completion ?a of Inr r \<Rightarrow> r))
     = ''partial_contract:no_safe_delivery''"
    by code_simp
qed

lemma success_iff_grounded_witness:
  "cr_passed example_completion \<longleftrightarrow>
    py_strip (ca_final_content example_args) \<noteq> [] \<and> [''When was it founded?''] \<noteq> [] \<and>
    (\<forall>i\<in>{1..length [''When was it founded?'']}. question_grounded example_args
       (case answer_rows example_answer of Inr rows \<Rightarrow> rows) i) \<and> initial_blockers example_args = Inr [] \<and>
    ca_citation_valid example_args \<and> ca_source_quality_pass example_args \<and> ca_relevance_pass example_args"
proof (rule success_iff_grounded)
  show "evaluate_completion example_args = Inr example_completion" by (rule example_completion_eq)
  show "answer_rows (ca_answer_contract example_args) = Inr (case answer_rows example_answer of Inr rows \<Rightarrow> rows)"
    by code_simp
  show "questions_of (ca_brief example_args) (contract_objective (ca_answer_contract example_args))
     = Inr [''When was it founded?'']"
    by code_simp
qed

lemma partial_reason_complete_witness:
  "partial_failure_reason (cr_partial_contract example_completion) = [] \<longleftrightarrow>
    partial_passed (cr_partial_contract example_completion) \<and> py_strip (ca_final_content example_args) \<noteq> []"
  by (rule partial_reason_complete [OF example_completion_eq(1)])

end
