(* ===== verification/Termination.thy ===== *)
theory Termination
  imports Contracts CompletionProps
begin

text \<open>
  Terminal outcomes: the one decision of how a run ended
  (\<open>app/research/domain/termination.py\<close>) and its projection into the final state
  (\<open>app/research/control/terminal_policy.py\<close>), with the interface between them and the
  completion evaluations that are persisted in the state.
\<close>

section \<open>The decision\<close>

datatype final_outcome = FO_SUCCESS | FO_PARTIAL | FO_FAILED | FO_CANCELLED

fun outcome_value :: "final_outcome \<Rightarrow> string" where
  "outcome_value FO_SUCCESS = ''success''"
| "outcome_value FO_PARTIAL = ''partial''"
| "outcome_value FO_FAILED = ''failed''"
| "outcome_value FO_CANCELLED = ''cancelled''"

definition quality_of :: "pydict \<Rightarrow> pydict" where
  "quality_of s = as_dict (pget s ''quality_assessment'')"

definition legacy_snapshot :: "pydict \<Rightarrow> bool" where
  "legacy_snapshot s = (\<not> truthy (pget s ''brief'') \<and> \<not> truthy (pget s ''answer_contract''))"

text \<open>A run of the second engine is graded by its persisted evaluation alone.\<close>

definition decide_v2 :: "pyval \<Rightarrow> final_outcome res" where
  "decide_v2 completion =
     (if \<not> is_dict completion then Inr FO_FAILED
      else let c = as_dict completion
           in ebind (int_or (pget c ''schema_version'') 0) (\<lambda>version.
                Inr (if version \<noteq> 2 then FO_FAILED
                     else if pget c ''outcome'' = PStr ''success'' \<and> pget c ''passed'' = PBool True then FO_SUCCESS
                     else if pget c ''outcome'' = PStr ''partial'' then FO_PARTIAL
                     else FO_FAILED)))"

definition decide_legacy :: "pydict \<Rightarrow> pydict list \<Rightarrow> final_outcome" where
  "decide_legacy s records =
     (let assessment = pget s ''evidence_assessment'';
          status = (if is_dict assessment then str_or (pget (as_dict assessment) ''status'') [] else []);
          usable = (status \<in> {''partial'', ''sufficient''} \<or> records \<noteq> [])
      in if str_or (pget (quality_of s) ''verdict'') [] = ''pass'' then FO_SUCCESS
         else if py_strip (str_or (pget s ''final_content'') []) \<noteq> [] \<and> usable then FO_PARTIAL
         else FO_FAILED)"

definition decide_evaluated :: "pydict \<Rightarrow> final_outcome" where
  "decide_evaluated c =
     (if truthy (pget c ''passed'') then FO_SUCCESS
      else if str_or (pget c ''outcome'') [] = ''partial'' then FO_PARTIAL
      else FO_FAILED)"

text \<open>A gate verdict \<open>passed\<close> with its partial floor, both from an optional row.\<close>

definition gate_pass :: "pydict \<Rightarrow> string \<Rightarrow> bool" where
  "gate_pass s gate = truthy (pget_or (as_dict (pget s gate)) ''passed'' (PBool False))"

definition gate_partial_pass :: "pydict \<Rightarrow> string \<Rightarrow> bool" where
  "gate_partial_pass s gate =
     truthy (pget_or (as_dict (pget s gate)) ''partial_passed'' (PBool (gate_pass s gate)))"

text \<open>The arguments with which the contract is evaluated when no evaluation was persisted.\<close>

definition terminal_completion_args :: "pydict \<Rightarrow> pydict list \<Rightarrow> completion_args res" where
  "terminal_completion_args s records =
     ebind (case pget_or (quality_of s) ''citation_metrics'' (PDict []) of
              PDict m \<Rightarrow> Inr (truthy (pget_or m ''citation_valid'' (PBool True)))
            | _ \<Rightarrow> Inl (AttributeError ''get'')) (\<lambda>citation_valid.
     ebind (if is_dict (pget s ''coverage_failure'')
            then iter_or_empty (pget (as_dict (pget s ''coverage_failure'')) ''blocking_gaps'') else Inr []) (\<lambda>gaps.
       Inr \<lparr>ca_brief = DictBrief (as_dict (pget s ''brief'')),
            ca_answer_contract = (if is_dict (pget s ''answer_contract'') then pget s ''answer_contract'' else PNone),
            ca_evidence_records = map PDict records,
            ca_final_content = py_strip (str_or (pget s ''final_content'') []),
            ca_citation_valid = citation_valid, ca_unresolved_blocking = gaps, ca_coverage = [],
            ca_broken_evidence_count = 0, ca_minimum_high_authority_ratio = 0,
            ca_require_authoritative_per_question = False,
            ca_source_quality_pass = gate_pass s ''source_quality'',
            ca_relevance_pass = gate_pass s ''relevance_assessment'',
            ca_relevance_partial_pass = Some (gate_partial_pass s ''relevance_assessment''),
            ca_source_quality_partial_pass = Some (gate_partial_pass s ''source_quality'')\<rparr>))"

definition result_outcome :: "completion_result \<Rightarrow> final_outcome" where
  "result_outcome r =
     (if cr_passed r then FO_SUCCESS
      else if completion_outcome r = ''partial'' then FO_PARTIAL else FO_FAILED)"

definition decide_terminal_outcome :: "pydict \<Rightarrow> final_outcome res" where
  "decide_terminal_outcome s =
     (if str_or (pget s ''cancel_reason'') [] \<in> {''cancelled'', ''user_cancelled''} then Inr FO_CANCELLED
      else if str_or (pget s ''engine_version'') [] = ''answer_contract_v2''
        then decide_v2 (pget (quality_of s) ''completion_contract'')
      else ebind (dict_rows (pget s ''evidence_records'')) (\<lambda>records.
        let evaluated = pget (quality_of s) ''completion_contract''
        in if legacy_snapshot s then Inr (decide_legacy s records)
           else if is_dict evaluated \<and> truthy evaluated then Inr (decide_evaluated (as_dict evaluated))
           else ebind (terminal_completion_args s records) (\<lambda>a.
                ebind (evaluate_completion a) (\<lambda>r. Inr (result_outcome r)))))"

section \<open>The terminal update\<close>

record terminal_args =
  ta_reason :: string
  ta_stage :: string
  ta_detected_stage :: string
  ta_origin_stage :: string
  ta_cause_event_id :: string
  ta_research_completed :: bool
  ta_synthesis_attempted :: bool
  ta_quality_attempted :: bool

definition usable_evidence_like :: "pydict \<Rightarrow> bool res" where
  "usable_evidence_like s =
     ebind (dict_rows (pget s ''evidence_records'')) (\<lambda>records.
       if records \<noteq> [] then Inr True
       else if is_dict (pget s ''evidence_assessment'')
         then ebind (int_or (pget (as_dict (pget s ''evidence_assessment'')) ''evidence_count'') 0) (\<lambda>n. Inr (0 < n))
       else Inr False)"

definition terminal_runtime_status :: "pydict \<Rightarrow> runtime_status" where
  "terminal_runtime_status s =
     (if str_or (pget s ''cancel_reason'') [] \<noteq> [] then RT_CANCELLED
      else if is_dict (pget s ''internal_error'') \<and> truthy (pget s ''internal_error'') then RT_CRASHED
      else RT_FINISHED)"

definition resolved_reason :: "pydict \<Rightarrow> string \<Rightarrow> string res" where
  "resolved_reason s reason =
     (let verdict = str_or (pget (quality_of s) ''verdict'') [] in
      if reason \<noteq> [] then Inr reason
      else if str_or (pget s ''stop_reason'') [] = ''marginal_gain_low'' then Inr ''MARGINAL_GAIN_LOW''
      else ebind (if str_or (pget s ''budget_status'') [] = ''exhausted'' then usable_evidence_like s else Inr False)
        (\<lambda>stopped_by_budget.
          if stopped_by_budget then Inr ''BUDGET_EXHAUSTED''
          else if verdict = ''pass'' then Inr ''COVERAGE_SUFFICIENT''
          else ebind (usable_evidence_like s) (\<lambda>usable.
            Inr (if \<not> usable then ''NO_USABLE_EVIDENCE''
                 else if verdict \<in> {''partial'', ''fail''} then ''QUALITY_REJECTED''
                 else ''INTERNAL_ERROR''))))"

definition terminated_update :: "pydict \<Rightarrow> pydict" where
  "terminated_update t =
     [(''lifecycle'', PDict [(''status'', PStr ''terminated'')]), (''termination'', PDict t)]"

definition terminal_update :: "pydict \<Rightarrow> terminal_args \<Rightarrow> pydict res" where
  "terminal_update s a =
     (let existing = pget s ''termination'' in
      if is_dict existing \<and> str_or (pget (as_dict existing) ''outcome'') []
           \<in> {''success'', ''partial'', ''failed'', ''cancelled''}
      then Inr (terminated_update (as_dict existing))
      else ebind (decide_terminal_outcome s) (\<lambda>outcome.
           ebind (resolved_reason s (ta_reason a)) (\<lambda>reason.
             Inr (terminated_update
               [(''runtime_status'', PStr (runtime_status_value (terminal_runtime_status s))),
                (''outcome'', PStr (outcome_value outcome)), (''reason'', PStr reason),
                (''stage'', PStr (ta_stage a)),
                (''detected_stage'', PStr (if ta_detected_stage a = [] then ta_stage a else ta_detected_stage a)),
                (''origin_stage'', PStr (if ta_origin_stage a = [] then ta_stage a else ta_origin_stage a)),
                (''cause_event_id'', PStr (ta_cause_event_id a)),
                (''research_completed'', PBool (ta_research_completed a)),
                (''synthesis_attempted'', PBool (ta_synthesis_attempted a)),
                (''quality_attempted'', PBool (ta_quality_attempted a))]))))"

lemma outcome_value_members: "outcome_value f \<in> {''success'', ''partial'', ''failed'', ''cancelled''}"
  by (cases f) simp_all

lemma outcome_value_inject [simp]: "outcome_value f = outcome_value g \<longleftrightarrow> f = g"
  by (cases f; cases g) simp_all

section \<open>Persisted evaluations\<close>

text \<open>
  What the decision relies on when it reads an evaluation back from the state: the outcome is one
  of three, and the row says so under \<open>outcome\<close> and \<open>passed\<close>.
\<close>

locale persisted_evaluation =
  fixes outcome_of :: "'r \<Rightarrow> string" and row_of :: "'r \<Rightarrow> pydict"
  assumes outcome_cases: "outcome_of r \<in> {''success'', ''partial'', ''failed''}"
    and row_outcome: "pget (row_of r) ''outcome'' = PStr (outcome_of r)"
    and row_passed: "pget (row_of r) ''passed'' = PBool (outcome_of r = ''success'')"
begin

lemma row_not_empty: "row_of r \<noteq> []"
  using row_outcome [of r] by auto

lemma evaluated_agrees: "outcome_value (decide_evaluated (row_of r)) = outcome_of r"
  using outcome_cases [of r] by (auto simp: decide_evaluated_def row_outcome row_passed)

lemma v2_agrees:
  assumes "pget (row_of r) ''schema_version'' = PInt 2"
  shows "decide_v2 (PDict (row_of r)) = Inr f \<Longrightarrow> outcome_value f = outcome_of r"
  using outcome_cases [of r] assms by (auto simp: decide_v2_def Let_def row_outcome row_passed)

lemma gate_outcome_kept:
  assumes "pget s ''quality_assessment'' = PDict q" "pget q ''completion_contract'' = PDict (row_of r)"
    and "str_or (pget s ''cancel_reason'') [] \<notin> {''cancelled'', ''user_cancelled''}"
    and "str_or (pget s ''engine_version'') [] \<noteq> ''answer_contract_v2''" "\<not> legacy_snapshot s"
    and "decide_terminal_outcome s = Inr f"
  shows "outcome_value f = outcome_of r"
  using assms row_not_empty [of r] evaluated_agrees [of r]
  by (auto simp: decide_terminal_outcome_def quality_of_def ebind_eq_Inr Let_def)

end

interpretation completion_contract: persisted_evaluation completion_outcome completion_to_dict
  by unfold_locales (auto simp: completion_outcome_def completion_to_dict_def)

end
