(* ===== verification/TerminationProps.thy ===== *)
theory TerminationProps
  imports Termination
begin

text \<open>
  What the terminal decision guarantees: the first outcome is final, the verdict of the quality
  gate is the outcome of the run, and success without a persisted verdict is earned by the
  completion contract.
\<close>

section \<open>The first outcome is final\<close>

lemma pget_terminated_update [simp]:
  "pget (terminated_update t) ''termination'' = PDict t"
  "pget (terminated_update t) ''lifecycle'' = PDict [(''status'', PStr ''terminated'')]"
  by (simp_all add: terminated_update_def)

lemma outcome_value_not_Nil [simp]: "outcome_value f \<noteq> []"
  by (cases f) simp_all

lemma terminal_update_recorded:
  assumes "terminal_update s a = Inr u"
  shows "\<exists>t. u = terminated_update t \<and>
    str_or (pget t ''outcome'') [] \<in> {''success'', ''partial'', ''failed'', ''cancelled''}"
proof (cases "is_dict (pget s ''termination'') \<and> str_or (pget (as_dict (pget s ''termination'')) ''outcome'') []
           \<in> {''success'', ''partial'', ''failed'', ''cancelled''}")
  case True
  then show ?thesis using assms unfolding terminal_update_def Let_def by auto
next
  case False
  obtain f t where u: "u = terminated_update t" and t: "pget t ''outcome'' = PStr (outcome_value f)"
    using assms unfolding terminal_update_def Let_def if_not_P [OF False] ebind_eq_Inr by auto
  have "str_or (pget t ''outcome'') [] = outcome_value f"
    by (simp add: t)
  then show ?thesis using u outcome_value_members [of f] by auto
qed

text \<open>C27. The first terminal outcome is final: once the termination of a state is the one a terminal
  update produced, any later terminal update, whatever its arguments and whatever else changed in
  the state, produces the same update again.
\<close>

theorem terminal_outcome_is_final:
  assumes "terminal_update s a = Inr u"
    and "pget later ''termination'' = pget u ''termination''"
  shows "terminal_update later b = Inr u"
proof -
  obtain t where "u = terminated_update t"
    "str_or (pget t ''outcome'') [] \<in> {''success'', ''partial'', ''failed'', ''cancelled''}"
    using terminal_update_recorded [OF assms(1)] by blast
  then show ?thesis using assms(2) by (simp add: terminal_update_def)
qed

section \<open>Cancellation\<close>

lemma decided_not_cancelled:
  "decide_v2 v \<noteq> Inr FO_CANCELLED" "decide_legacy s records \<noteq> FO_CANCELLED"
  "decide_evaluated c \<noteq> FO_CANCELLED" "result_outcome r \<noteq> FO_CANCELLED"
  by (auto simp: decide_v2_def decide_legacy_def decide_evaluated_def result_outcome_def Let_def ebind_eq_Inr)

text \<open>A run ends cancelled exactly when the state records a cancellation: whatever was evaluated or
  persisted, cancellation wins, and nothing else produces it.
\<close>

theorem cancelled_iff_requested:
  "decide_terminal_outcome s = Inr FO_CANCELLED \<longleftrightarrow>
     str_or (pget s ''cancel_reason'') [] \<in> {''cancelled'', ''user_cancelled''}"
  by (auto simp: decide_terminal_outcome_def Let_def ebind_eq_Inr decided_not_cancelled split: if_splits)

section \<open>The verdict of the gate\<close>

text \<open>The verdict of the quality gate is the outcome of the run: a state that carries the persisted
  evaluation of the completion contract, is not cancelled and belongs to neither the second engine
  nor a legacy snapshot, ends with exactly the outcome of that evaluation.
\<close>

theorem gate_verdict_is_terminal:
  assumes "pget s ''quality_assessment'' = PDict q" "pget q ''completion_contract'' = PDict (completion_to_dict r)"
    and "str_or (pget s ''cancel_reason'') [] \<notin> {''cancelled'', ''user_cancelled''}"
    and "str_or (pget s ''engine_version'') [] \<noteq> ''answer_contract_v2''" "\<not> legacy_snapshot s"
    and "decide_terminal_outcome s = Inr f"
  shows "outcome_value f = completion_outcome r"
  by (rule completion_contract.gate_outcome_kept [OF assms])

text \<open>Without a persisted evaluation success is earned: the decision evaluates the contract itself, and
  answers success only when the report is not blank, every question of the brief has a grounded
  answer, nothing blocks, and the source and relevance assessments of the state have passed.
\<close>

theorem success_without_verdict_is_grounded:
  assumes "decide_terminal_outcome s = Inr FO_SUCCESS" "\<not> legacy_snapshot s"
    and "str_or (pget s ''engine_version'') [] \<noteq> ''answer_contract_v2''"
    and "\<not> truthy (pget (quality_of s) ''completion_contract'')"
  shows "\<exists>records a rows questions. dict_rows (pget s ''evidence_records'') = Inr records \<and>
    terminal_completion_args s records = Inr a \<and> answer_rows (ca_answer_contract a) = Inr rows \<and>
    questions_of (ca_brief a) (contract_objective (ca_answer_contract a)) = Inr questions \<and> questions \<noteq> [] \<and>
    (\<forall>i\<in>{1..length questions}. question_grounded a rows i) \<and> initial_blockers a = Inr [] \<and>
    py_strip (py_strip (str_or (pget s ''final_content'') [])) \<noteq> [] \<and>
    gate_pass s ''source_quality'' \<and> gate_pass s ''relevance_assessment''"
proof -
  obtain records a r where parts: "dict_rows (pget s ''evidence_records'') = Inr records"
    "terminal_completion_args s records = Inr a" "evaluate_completion a = Inr r" "result_outcome r = FO_SUCCESS"
    using assms by (auto simp: decide_terminal_outcome_def Let_def ebind_eq_Inr split: if_splits)
  then have passed: "cr_passed r" by (auto simp: result_outcome_def split: if_splits)
  obtain rows questions where
    rows: "answer_rows (ca_answer_contract a) = Inr rows" and
    questions: "questions_of (ca_brief a) (contract_objective (ca_answer_contract a)) = Inr questions"
    by (rule evaluate_completion_inv [OF parts(3)]) blast
  have args: "ca_final_content a = py_strip (str_or (pget s ''final_content'') [])"
    "ca_source_quality_pass a = gate_pass s ''source_quality''"
    "ca_relevance_pass a = gate_pass s ''relevance_assessment''"
    using parts(2) by (auto simp: terminal_completion_args_def ebind_eq_Inr)
  show ?thesis
    using passed_iff_grounded [OF parts(3) rows questions] passed parts(1,2) rows questions args by auto
qed

section \<open>Examples\<close>

definition example_final_state :: pydict where
  "example_final_state =
     [(''brief'', PDict [(''key_questions'', PList [PStr ''When was it founded?''])]),
      (''answer_contract'', example_answer), (''evidence_records'', PList [example_record]),
      (''final_content'', PStr ''Founded in 1998 [1].''),
      (''source_quality'', PDict [(''passed'', PBool True)]),
      (''relevance_assessment'', PDict [(''passed'', PBool True)])]"

definition example_terminal_args :: terminal_args where
  "example_terminal_args = \<lparr>ta_reason = [], ta_stage = ''finalize'', ta_detected_stage = [], ta_origin_stage = [],
     ta_cause_event_id = ''ev-7'', ta_research_completed = True, ta_synthesis_attempted = True,
     ta_quality_attempted = True\<rparr>"

definition example_gated_state :: pydict where
  "example_gated_state = dput ''quality_assessment''
     (PDict [(''verdict'', PStr ''pass''), (''completion_contract'', PDict (completion_to_dict example_completion))])
     example_final_state"

definition example_termination :: pydict where
  "example_termination =
     [(''runtime_status'', PStr ''finished''), (''outcome'', PStr ''success''), (''reason'', PStr ''INTERNAL_ERROR''),
      (''stage'', PStr ''finalize''), (''detected_stage'', PStr ''finalize''), (''origin_stage'', PStr ''finalize''),
      (''cause_event_id'', PStr ''ev-7''), (''research_completed'', PBool True),
      (''synthesis_attempted'', PBool True), (''quality_attempted'', PBool True)]"

lemma example_final_outcome: "decide_terminal_outcome example_final_state = Inr FO_SUCCESS"
  by code_simp

lemma example_final_reason: "resolved_reason example_final_state [] = Inr ''INTERNAL_ERROR''"
  by code_simp

lemma example_gated_outcome: "decide_terminal_outcome example_gated_state = Inr FO_SUCCESS"
proof -
  have "decide_evaluated (completion_to_dict example_completion) = FO_SUCCESS"
    using completion_contract.evaluated_agrees [of example_completion] example_completion_eq(2)
    by (metis completion_outcome_def outcome_value.simps(1) outcome_value_inject)
  then show ?thesis
    using completion_contract.row_not_empty [of example_completion]
    by (simp add: decide_terminal_outcome_def example_gated_state_def example_final_state_def Let_def
        quality_of_def legacy_snapshot_def dict_rows_def)
qed

lemma terminal_outcome_is_final_witness:
  "terminal_update ((''termination'', PDict example_termination) # (''cancel_reason'', PStr ''user_cancelled'') # example_final_state)
     (example_terminal_args\<lparr>ta_reason := ''CANCELLED''\<rparr>) = Inr (terminated_update example_termination)"
proof (rule terminal_outcome_is_final)
  show "terminal_update example_final_state example_terminal_args = Inr (terminated_update example_termination)"
  proof -
    have "pget example_final_state ''termination'' = PNone" "terminal_runtime_status example_final_state = RT_FINISHED"
      by (simp_all add: example_final_state_def terminal_runtime_status_def)
    then show ?thesis
      by (simp add: terminal_update_def example_final_outcome example_terminal_args_def example_final_reason
          example_termination_def)
  qed
  show "pget ((''termination'', PDict example_termination) # (''cancel_reason'', PStr ''user_cancelled'') # example_final_state)
      ''termination'' = pget (terminated_update example_termination) ''termination''"
    by simp
qed

lemma gate_verdict_is_terminal_witness:
  "outcome_value FO_SUCCESS = completion_outcome example_completion"
proof (rule gate_verdict_is_terminal)
  show "pget example_gated_state ''quality_assessment'' =
      PDict [(''verdict'', PStr ''pass''), (''completion_contract'', PDict (completion_to_dict example_completion))]"
    by (simp add: example_gated_state_def)
  show "decide_terminal_outcome example_gated_state = Inr FO_SUCCESS"
    by (rule example_gated_outcome)
qed (simp_all add: example_gated_state_def example_final_state_def legacy_snapshot_def)

lemma success_without_verdict_is_grounded_witness:
  "\<exists>records a rows questions. dict_rows (pget example_final_state ''evidence_records'') = Inr records \<and>
    terminal_completion_args example_final_state records = Inr a \<and> answer_rows (ca_answer_contract a) = Inr rows \<and>
    questions_of (ca_brief a) (contract_objective (ca_answer_contract a)) = Inr questions \<and> questions \<noteq> [] \<and>
    (\<forall>i\<in>{1..length questions}. question_grounded a rows i) \<and> initial_blockers a = Inr [] \<and>
    py_strip (py_strip (str_or (pget example_final_state ''final_content'') [])) \<noteq> [] \<and>
    gate_pass example_final_state ''source_quality'' \<and> gate_pass example_final_state ''relevance_assessment''"
  by (rule success_without_verdict_is_grounded [OF example_final_outcome])
    (simp_all add: example_final_state_def legacy_snapshot_def quality_of_def)

end
