(* ===== verification/AnswerUnits.thy ===== *)
theory AnswerUnits
  imports PyVal
begin

text \<open>
  The data of the second answer engine: the answer specification and its asks
  (\<open>app/research/spec/models.py\<close>), answer units with their validation
  (\<open>app/research/delivery/unit_models.py\<close>), claims and support edges
  (\<open>app/research/claims/models.py\<close>), each with the reading of stored rows.  Literal types
  stay strings, as the rows carry them.
\<close>

section \<open>Answer specifications\<close>

record field_requirement =
  fq_field_id :: string
  fq_value_type :: string
  fq_support_policy :: string
  fq_unknown_allowed :: bool

definition field_requirement_from_dict :: "pydict \<Rightarrow> field_requirement" where
  "field_requirement_from_dict row =
     \<lparr>fq_field_id = str_or (pget row ''field_id'') [], fq_value_type = str_or (pget row ''value_type'') [],
      fq_support_policy = str_or (pget row ''support_policy'') [],
      fq_unknown_allowed = truthy (pget_or row ''unknown_allowed'' (PBool False))\<rparr>"

record ask_spec =
  as_ask_id :: string
  as_question_id :: string
  as_original_text :: string
  as_kind :: string
  as_required :: bool
  as_entity_scope :: pydict
  as_time_scope :: pydict
  as_required_fields :: "field_requirement list"
  as_target_units :: int
  as_min_partial_units :: int
  as_max_units :: int
  as_partial_allowed :: bool
  as_selection_criteria :: "string list"
  as_current_fact_max_age_days :: int

definition ask_kinds :: "string list" where
  "ask_kinds = [''fact'', ''recommendation'', ''comparison'', ''explanation'', ''current_state'', ''forecast'']"

definition ask_spec_from_dict :: "pydict \<Rightarrow> ask_spec res" where
  "ask_spec_from_dict row =
     (let kind = str_or (pget row ''kind'') []
      in if kind \<notin> set ask_kinds then Inl (ValueError (''unknown ask kind: '' @ repr_str kind))
         else ebind (dict_or_empty (pget row ''entity_scope'')) (\<lambda>entity.
              ebind (dict_or_empty (pget row ''time_scope'')) (\<lambda>time.
              ebind (dict_rows (pget row ''required_fields'')) (\<lambda>fields.
              ebind (int_or (pget row ''target_units'') 0) (\<lambda>target.
              ebind (int_or (pget row ''min_partial_units'') 0) (\<lambda>min_partial.
              ebind (int_or (pget row ''max_units'') 0) (\<lambda>max_units.
              ebind (str_list (pget row ''selection_criteria'')) (\<lambda>criteria.
              ebind (int_or (pget row ''current_fact_max_age_days'') 180) (\<lambda>age. Inr
                \<lparr>as_ask_id = str_or (pget row ''ask_id'') [], as_question_id = str_or (pget row ''question_id'') [],
                 as_original_text = str_or (pget row ''original_text'') [], as_kind = kind,
                 as_required = truthy (pget_or row ''required'' (PBool True)),
                 as_entity_scope = entity, as_time_scope = time,
                 as_required_fields = map field_requirement_from_dict fields,
                 as_target_units = target, as_min_partial_units = min_partial, as_max_units = max_units,
                 as_partial_allowed = truthy (pget_or row ''partial_allowed'' (PBool True)),
                 as_selection_criteria = criteria, as_current_fact_max_age_days = age\<rparr>)))))))))"

record answer_spec =
  sp_schema_version :: int
  sp_spec_id :: string
  sp_revision :: int
  sp_objective :: string
  sp_as_of :: string
  sp_timezone :: string
  sp_asks :: "ask_spec list"
  sp_assumptions :: "string list"
  sp_policy_version :: string

definition answer_spec_from_dict :: "pydict \<Rightarrow> answer_spec res" where
  "answer_spec_from_dict row =
     ebind (int_or (pget row ''schema_version'') 0) (\<lambda>schema.
     ebind (int_or (pget row ''revision'') 0) (\<lambda>revision.
     ebind (dict_rows (pget row ''asks'')) (\<lambda>ask_rows.
     ebind (emap ask_spec_from_dict ask_rows) (\<lambda>asks.
     ebind (str_list (pget row ''assumptions'')) (\<lambda>assumptions. Inr
       \<lparr>sp_schema_version = schema, sp_spec_id = str_or (pget row ''spec_id'') [], sp_revision = revision,
        sp_objective = str_or (pget row ''objective'') [], sp_as_of = str_or (pget row ''as_of'') [],
        sp_timezone = str_or (pget row ''timezone'') [], sp_asks = asks, sp_assumptions = assumptions,
        sp_policy_version = str_or (pget row ''policy_version'') []\<rparr>)))))"

section \<open>Answer units\<close>

record unit_field =
  uf_value :: pyval
  uf_value_kind :: string
  uf_claim_ids :: "string list"
  uf_premise_claim_ids :: "string list"
  uf_rationale :: string
  uf_limitation_status :: string

definition unit_field_to_dict :: "unit_field \<Rightarrow> pydict" where
  "unit_field_to_dict f =
     [(''value'', uf_value f), (''value_kind'', PStr (uf_value_kind f)), (''claim_ids'', strs (uf_claim_ids f)),
      (''premise_claim_ids'', strs (uf_premise_claim_ids f)), (''rationale'', PStr (uf_rationale f)),
      (''limitation_status'', PStr (uf_limitation_status f))]"

definition unit_field_from_dict :: "pydict \<Rightarrow> unit_field res" where
  "unit_field_from_dict row =
     ebind (nonempty_strs (pget row ''claim_ids'')) (\<lambda>claims.
     ebind (nonempty_strs (pget row ''premise_claim_ids'')) (\<lambda>premises. Inr
       \<lparr>uf_value = pget row ''value'', uf_value_kind = str_or (pget row ''value_kind'') ''unknown'',
        uf_claim_ids = claims, uf_premise_claim_ids = premises,
        uf_rationale = str_or (pget row ''rationale'') [],
        uf_limitation_status = str_or (pget row ''limitation_status'') []\<rparr>))"

record validation_check =
  vc_check_id :: string
  vc_status :: string
  vc_reason_codes :: "string list"

definition validation_check_to_dict :: "validation_check \<Rightarrow> pydict" where
  "validation_check_to_dict c =
     [(''check_id'', PStr (vc_check_id c)), (''status'', PStr (vc_status c)), (''reason_codes'', strs (vc_reason_codes c))]"

definition validation_check_from_dict :: "pydict \<Rightarrow> validation_check res" where
  "validation_check_from_dict row =
     (let status = py_str (pget row ''status'')
      in ebind (str_list (pget row ''reason_codes'')) (\<lambda>codes. Inr
           \<lparr>vc_check_id = str_or (pget row ''check_id'') [],
            vc_status = (if status \<in> {''pass'', ''fail'', ''unknown''} then status else ''unknown''),
            vc_reason_codes = codes\<rparr>))"

record unit_validation =
  uv_status :: string
  uv_validator_version :: string
  uv_checks :: "validation_check list"
  uv_evidence_version :: string

definition pending_validation :: unit_validation where
  "pending_validation =
     \<lparr>uv_status = ''pending'', uv_validator_version = ''unit-validator-v2'', uv_checks = [], uv_evidence_version = []\<rparr>"

definition unit_validation_to_dict :: "unit_validation \<Rightarrow> pydict" where
  "unit_validation_to_dict v =
     [(''status'', PStr (uv_status v)), (''validator_version'', PStr (uv_validator_version v)),
      (''checks'', PList (map PDict (map validation_check_to_dict (uv_checks v)))),
      (''evidence_version'', PStr (uv_evidence_version v))]"

definition unit_statuses :: "string list" where
  "unit_statuses = [''pending'', ''valid'', ''invalid'', ''unknown'']"

definition unit_validation_from_dict :: "pydict \<Rightarrow> unit_validation res" where
  "unit_validation_from_dict row =
     (let status = str_or (pget row ''status'') ''pending''
      in ebind (dict_rows (pget row ''checks'')) (\<lambda>rows.
         ebind (emap validation_check_from_dict rows) (\<lambda>checks. Inr
           \<lparr>uv_status = (if status \<in> set unit_statuses then status else ''unknown''),
            uv_validator_version = str_or (pget row ''validator_version'') ''unit-validator-v2'',
            uv_checks = checks, uv_evidence_version = str_or (pget row ''evidence_version'') []\<rparr>)))"

record answer_unit =
  un_unit_id :: string
  un_ask_id :: string
  un_spec_revision :: int
  un_kind :: string
  un_entity_ids :: "string list"
  un_fields :: "unit_field dict"
  un_validation :: unit_validation

definition answer_unit_to_dict :: "answer_unit \<Rightarrow> pydict" where
  "answer_unit_to_dict u =
     [(''unit_id'', PStr (un_unit_id u)), (''ask_id'', PStr (un_ask_id u)),
      (''spec_revision'', PInt (un_spec_revision u)), (''kind'', PStr (un_kind u)),
      (''entity_ids'', strs (un_entity_ids u)),
      (''fields'', PDict (map (\<lambda>(k, f). (k, PDict (unit_field_to_dict f))) (un_fields u))),
      (''validation'', PDict (unit_validation_to_dict (un_validation u)))]"

definition answer_unit_from_dict :: "pydict \<Rightarrow> answer_unit res" where
  "answer_unit_from_dict row =
     ebind (int_or (pget row ''spec_revision'') 0) (\<lambda>revision.
     ebind (nonempty_strs (pget row ''entity_ids'')) (\<lambda>entities.
     ebind (dict_or_empty (pget row ''fields'')) (\<lambda>field_rows.
     ebind (emap (\<lambda>(k, v). ebind (unit_field_from_dict (as_dict v)) (\<lambda>f. Inr (k, f)))
              (filter (\<lambda>kv. is_dict (snd kv)) field_rows)) (\<lambda>fields.
     ebind (unit_validation_from_dict (as_dict (pget row ''validation''))) (\<lambda>validation. Inr
       \<lparr>un_unit_id = str_or (pget row ''unit_id'') [], un_ask_id = str_or (pget row ''ask_id'') [],
        un_spec_revision = revision, un_kind = str_or (pget row ''kind'') [], un_entity_ids = entities,
        un_fields = fields, un_validation = validation\<rparr>)))))"

text \<open>A unit as its callers pass it: an object or a stored row.\<close>

datatype 'a item = Obj 'a | Row pydict

definition read_item :: "(pydict \<Rightarrow> 'a res) \<Rightarrow> 'a item \<Rightarrow> 'a res" where
  "read_item from_dict i = (case i of Obj x \<Rightarrow> Inr x | Row d \<Rightarrow> from_dict d)"

section \<open>Claims\<close>

record claim_record =
  cl_claim_id :: string
  cl_text :: string
  cl_task_id :: string
  cl_ask_id :: string
  cl_question_id :: string
  cl_subject :: string
  cl_subject_id :: string
  cl_dimension_id :: string
  cl_criterion_id :: string
  cl_metric :: string
  cl_value :: "pyfloat option"
  cl_unit :: string
  cl_period :: string
  cl_scope :: string
  cl_sources :: "string list"
  cl_evidence_ids :: "string list"
  cl_confidence :: pyfloat
  cl_source_quality :: string
  cl_authority_score :: pyfloat
  cl_normalized_key :: string
  cl_claim_type :: string
  cl_provenance :: string
  cl_validated :: bool
  cl_publishability_score :: pyfloat
  cl_admission_reasons :: "string list"
  cl_field_ids :: "string list"
  cl_validation_status :: string
  cl_validation_version :: string
  cl_support_edge_ids :: "string list"

text \<open>\<open>float(value) if value is not None and value != "" else None\<close>, \<open>None\<close> when it raises.\<close>

definition optional_float :: "pyval \<Rightarrow> pyfloat option" where
  "optional_float v =
     (if v = PNone \<or> v = PStr [] then None else case py_float v of Inl e \<Rightarrow> None | Inr q \<Rightarrow> Some q)"

definition truthy_strs :: "pyval \<Rightarrow> string list res" where
  "truthy_strs v = ebind (iter_or_empty v) (\<lambda>vs. Inr (map py_str (filter truthy vs)))"

definition float_or :: "pyval \<Rightarrow> pyfloat \<Rightarrow> pyfloat res" where
  "float_or v q = (if truthy v then py_float v else Inr q)"

definition claim_statuses :: "string list" where
  "claim_statuses = [''pending'', ''supported'', ''rejected'', ''unknown'']"

definition claim_from_dict :: "pydict \<Rightarrow> claim_record res" where
  "claim_from_dict row =
     (let status = py_str (pget row ''validation_status'')
      in ebind (truthy_strs (pget row ''sources'')) (\<lambda>sources.
         ebind (truthy_strs (pget row ''evidence_ids'')) (\<lambda>evidence.
         ebind (float_or (pget row ''confidence'') 1) (\<lambda>confidence.
         ebind (float_or (pget row ''authority_score'') 0) (\<lambda>authority.
         ebind (float_or (pget row ''publishability_score'') 0) (\<lambda>publishability.
         ebind (nonblank_strs (pget row ''admission_reasons'')) (\<lambda>reasons.
         ebind (nonblank_strs (pget row ''field_ids'')) (\<lambda>fields.
         ebind (nonblank_strs (pget row ''support_edge_ids'')) (\<lambda>edges. Inr
           \<lparr>cl_claim_id = str_or (pget row ''claim_id'') [],
            cl_text = str_or (por (pget row ''text'') (pget row ''claim'')) [],
            cl_task_id = str_or (pget row ''task_id'') [], cl_ask_id = str_or (pget row ''ask_id'') [],
            cl_question_id = str_or (pget row ''question_id'') [], cl_subject = str_or (pget row ''subject'') [],
            cl_subject_id = str_or (pget row ''subject_id'') [],
            cl_dimension_id = str_or (pget row ''dimension_id'') [],
            cl_criterion_id = str_or (pget row ''criterion_id'') [], cl_metric = str_or (pget row ''metric'') [],
            cl_value = optional_float (pget row ''value''), cl_unit = str_or (pget row ''unit'') [],
            cl_period = str_or (pget row ''period'') [], cl_scope = str_or (pget row ''scope'') [],
            cl_sources = sources, cl_evidence_ids = evidence, cl_confidence = confidence,
            cl_source_quality = str_or (pget row ''source_quality'') ''unknown'',
            cl_authority_score = authority, cl_normalized_key = str_or (pget row ''normalized_key'') [],
            cl_claim_type = str_or (pget row ''claim_type'') ''fact'',
            cl_provenance = str_or (pget row ''provenance'') ''worker'',
            cl_validated = truthy (pget_or row ''validated'' (PBool False)),
            cl_publishability_score = max 0 (min 1 publishability), cl_admission_reasons = reasons,
            cl_field_ids = fields,
            cl_validation_status = (if status \<in> set claim_statuses then status else ''pending''),
            cl_validation_version = str_or (pget row ''validation_version'') [],
            cl_support_edge_ids = edges\<rparr>)))))))))"

definition claim_is_supported :: "claim_record \<Rightarrow> bool" where
  "claim_is_supported c = (cl_validation_status c = ''supported'')"

record support_edge =
  se_edge_id :: string
  se_claim_id :: string
  se_evidence_id :: string
  se_span_id :: string
  se_relation :: string
  se_checked_by :: string
  se_validator_version :: string
  se_reason_codes :: "string list"

definition support_relations :: "string list" where
  "support_relations = [''supports'', ''contradicts'', ''context_only'', ''unknown'']"

definition support_edge_from_dict :: "pydict \<Rightarrow> support_edge res" where
  "support_edge_from_dict row =
     (let relation = str_or (pget row ''relation'') ''unknown''
      in ebind (str_list (pget row ''reason_codes'')) (\<lambda>codes. Inr
           \<lparr>se_edge_id = str_or (pget row ''edge_id'') [], se_claim_id = str_or (pget row ''claim_id'') [],
            se_evidence_id = str_or (pget row ''evidence_id'') [], se_span_id = str_or (pget row ''span_id'') [],
            se_relation = (if relation \<in> set support_relations then relation else ''unknown''),
            se_checked_by = str_or (pget row ''checked_by'') [],
            se_validator_version = str_or (pget row ''validator_version'') [],
            se_reason_codes = codes\<rparr>))"

section \<open>Round trips\<close>

definition wf_unit_field :: "unit_field \<Rightarrow> bool" where
  "wf_unit_field f \<longleftrightarrow> uf_value_kind f \<noteq> [] \<and> [] \<notin> set (uf_claim_ids f) \<and> [] \<notin> set (uf_premise_claim_ids f)"

definition wf_validation :: "unit_validation \<Rightarrow> bool" where
  "wf_validation v \<longleftrightarrow> uv_status v \<in> set unit_statuses \<and> uv_validator_version v \<noteq> [] \<and>
     (\<forall>c\<in>set (uv_checks v). vc_status c \<in> {''pass'', ''fail'', ''unknown''})"

definition wf_unit :: "answer_unit \<Rightarrow> bool" where
  "wf_unit u \<longleftrightarrow> [] \<notin> set (un_entity_ids u) \<and> (\<forall>kf\<in>set (un_fields u). wf_unit_field (snd kf)) \<and>
     wf_validation (un_validation u)"

lemma unit_field_roundtrip [simp]:
  "wf_unit_field f \<Longrightarrow> unit_field_from_dict (unit_field_to_dict f) = Inr f"
  by (cases f) (simp add: wf_unit_field_def unit_field_from_dict_def unit_field_to_dict_def nonempty_strs_strs)

lemma validation_check_roundtrip:
  "vc_status c \<in> {''pass'', ''fail'', ''unknown''} \<Longrightarrow> validation_check_from_dict (validation_check_to_dict c) = Inr c"
  by (cases c) (auto simp: validation_check_from_dict_def validation_check_to_dict_def Let_def)

lemma emap_map_inverse: "(\<And>x. x \<in> set xs \<Longrightarrow> f (g x) = Inr x) \<Longrightarrow> emap f (map g xs) = Inr xs"
  by (induction xs) auto

lemma unit_validation_roundtrip:
  assumes "wf_validation v"
  shows "unit_validation_from_dict (unit_validation_to_dict v) = Inr v"
proof -
  have "emap validation_check_from_dict (map validation_check_to_dict (uv_checks v)) = Inr (uv_checks v)"
    using assms by (intro emap_map_inverse validation_check_roundtrip) (auto simp: wf_validation_def)
  moreover have "uv_status v \<noteq> []" using assms by (auto simp: wf_validation_def unit_statuses_def)
  ultimately show ?thesis
    using assms by (cases v) (simp add: unit_validation_from_dict_def unit_validation_to_dict_def wf_validation_def Let_def)
qed

text \<open>Storing an answer unit and reading it back gives the unit with every field, binding, check and
  version, provided its lists hold no empty identifiers and its statuses are known ones.
\<close>

theorem answer_unit_roundtrip:
  assumes "wf_unit u"
  shows "answer_unit_from_dict (answer_unit_to_dict u) = Inr u"
proof -
  have "emap (\<lambda>(k, v). ebind (unit_field_from_dict (as_dict v)) (\<lambda>f. Inr (k, f)))
      (map (\<lambda>(k, f). (k, PDict (unit_field_to_dict f))) (un_fields u)) = Inr (un_fields u)"
    using assms by (intro emap_map_inverse) (auto simp: wf_unit_def)
  moreover have "filter (\<lambda>kv. is_dict (snd kv)) (map (\<lambda>(k, f). (k, PDict (unit_field_to_dict f))) (un_fields u))
      = map (\<lambda>(k, f). (k, PDict (unit_field_to_dict f))) (un_fields u)"
    by (auto simp: filter_id_conv)
  moreover have "unit_validation_from_dict (unit_validation_to_dict (un_validation u)) = Inr (un_validation u)"
    using assms by (intro unit_validation_roundtrip) (simp add: wf_unit_def)
  ultimately show ?thesis
    using assms by (cases u) (simp add: answer_unit_from_dict_def answer_unit_to_dict_def wf_unit_def nonempty_strs_strs)
qed

definition example_unit :: answer_unit where
  "example_unit = \<lparr>un_unit_id = ''unit:t1:1'', un_ask_id = ''ask1'', un_spec_revision = 3, un_kind = ''fact'',
     un_entity_ids = [''acme''],
     un_fields = [(''answer'', \<lparr>uf_value = PInt 1998, uf_value_kind = ''fact'', uf_claim_ids = [''t1:c1''],
       uf_premise_claim_ids = [], uf_rationale = [], uf_limitation_status = []\<rparr>)],
     un_validation = pending_validation\<rparr>"

lemma answer_unit_roundtrip_witness:
  "answer_unit_from_dict (answer_unit_to_dict example_unit) = Inr example_unit"
  by (rule answer_unit_roundtrip) code_simp

end
