(* ===== verification/UnitValidator.thy ===== *)
theory UnitValidator
  imports AnswerUnits
begin

text \<open>
  Validation of answer units against a frozen answer specification
  (\<open>app/research/delivery/unit_validator.py\<close>): the checks of one unit, its status, and what a
  valid unit is known to rest on.  Case folding acts on the ASCII range.
\<close>

section \<open>Checks\<close>

definition mk_check :: "string \<Rightarrow> bool option \<Rightarrow> string list \<Rightarrow> validation_check" where
  "mk_check check_id passed reasons =
     \<lparr>vc_check_id = check_id,
      vc_status = (case passed of None \<Rightarrow> ''unknown'' | Some b \<Rightarrow> if b then ''pass'' else ''fail''),
      vc_reason_codes = filter (\<lambda>r. r \<noteq> []) reasons\<rparr>"

abbreviation check_that :: "string \<Rightarrow> bool \<Rightarrow> string list \<Rightarrow> validation_check" where
  "check_that check_id b reasons \<equiv> mk_check check_id (Some b) reasons"

definition claims_by_id :: "claim_record list \<Rightarrow> claim_record dict" where
  "claims_by_id cs = fold (\<lambda>c. dput (cl_claim_id c) c) (filter (\<lambda>c. cl_claim_id c \<noteq> []) cs) []"

definition supporting_claims :: "support_edge list \<Rightarrow> string list" where
  "supporting_claims es =
     map se_claim_id (filter (\<lambda>e. se_relation e = ''supports'' \<and> se_evidence_id e \<noteq> [] \<and> se_validator_version e \<noteq> []) es)"

definition asks_by_id :: "ask_spec list \<Rightarrow> ask_spec dict" where
  "asks_by_id asks = fold (\<lambda>a. dput (as_ask_id a) a) asks []"

definition claim_grounded :: "claim_record dict \<Rightarrow> string list \<Rightarrow> string \<Rightarrow> bool" where
  "claim_grounded claims supporting i =
     ((case dget claims i of None \<Rightarrow> False | Some c \<Rightarrow> cl_validation_status c = ''supported'') \<and> i \<in> set supporting)"

definition value_present :: "pyval \<Rightarrow> bool" where
  "value_present v = (v \<notin> {PNone, PStr [], PList [], PDict []})"

definition is_inferred :: "field_requirement \<Rightarrow> bool" where
  "is_inferred q = (fq_value_type q \<in> {''inference'', ''forecast''})"

text \<open>The claims a field is bound to: premises for inferences and forecasts, facts otherwise.\<close>

definition bound_ids :: "field_requirement \<Rightarrow> unit_field \<Rightarrow> string list" where
  "bound_ids q f = (if is_inferred q then fromkeys (uf_premise_claim_ids f) else fromkeys (uf_claim_ids f))"

definition requirement_checks ::
  "claim_record dict \<Rightarrow> string list \<Rightarrow> answer_unit \<Rightarrow> field_requirement \<Rightarrow> validation_check list" where
  "requirement_checks claims supporting u q =
     (let name = ''field:'' @ fq_field_id q in
      case dget (un_fields u) (fq_field_id q) of
        None \<Rightarrow> [check_that name (fq_unknown_allowed q) [''required_field_missing'']]
      | Some f \<Rightarrow>
          if \<not> value_present (uf_value f) \<and> \<not> fq_unknown_allowed q
            then [check_that name False [''required_value_missing'']]
          else if \<not> value_present (uf_value f) \<and> fq_unknown_allowed q then [check_that name True []]
          else if fq_value_type q = ''limitation''
                  \<and> uf_limitation_status f \<in> {''unknown'', ''not_verified'', ''explicit''}
            then [check_that name True []]
          else [check_that name (bound_ids q f \<noteq> [] \<and> list_all (claim_grounded claims supporting) (bound_ids q f))
                  [''unsupported_claim_binding'']]
               @ (if is_inferred q
                  then [check_that (''rationale:'' @ fq_field_id q) (py_strip (uf_rationale f) \<noteq> []) [''missing_grounded_rationale'']]
                  else []))"

definition ranking_tokens :: "string list" where
  "ranking_tokens =
     [[CHR 0xE6, CHR 0xA6, CHR 0x9C, CHR 0xE5, CHR 0x8D, CHR 0x95], ''ranking'', ''top 10'', ''listicle'']"

definition recommendation_checks :: "answer_unit \<Rightarrow> validation_check list" where
  "recommendation_checks u =
     (let entity = py_lower (join '' '' (un_entity_ids u)) in
      [check_that ''recommendation_entity'' (length (un_entity_ids u) = 1) [''recommendation_requires_one_entity''],
       check_that ''entity_not_ranking'' (\<not> list_ex (\<lambda>t. is_infix t entity) ranking_tokens) [''ranking_is_not_entity'']])"

definition comparison_checks :: "ask_spec \<Rightarrow> answer_unit \<Rightarrow> validation_check list res" where
  "comparison_checks ask u =
     ebind (nonblank_strs (pget (as_entity_scope ask) ''subjects'')) (\<lambda>subjects.
       let wanted = map (\<lambda>s. py_lower (py_strip s)) subjects;
           delivered = map (\<lambda>s. py_lower (py_strip s)) (filter (\<lambda>s. py_strip s \<noteq> []) (un_entity_ids u))
       in Inr (if wanted = [] then []
               else [check_that ''comparison_subjects''
                       (length delivered = length wanted \<and> set delivered = set wanted)
                       [''comparison_subjects_mismatch'']]))"

text \<open>The three checks that need no ask, then those of the ask.\<close>

definition identity_checks :: "answer_spec \<Rightarrow> answer_unit \<Rightarrow> ask_spec option \<Rightarrow> validation_check list" where
  "identity_checks spec u ask =
     [check_that ''identity'' (un_unit_id u \<noteq> [] \<and> ask \<noteq> None) [''unknown_ask_or_unit''],
      check_that ''spec_revision'' (un_spec_revision u = sp_revision spec) [''spec_revision_mismatch''],
      check_that ''kind'' (case ask of None \<Rightarrow> False | Some a \<Rightarrow> un_kind u = as_kind a) [''kind_mismatch'']]"

definition checks_status :: "validation_check list \<Rightarrow> string" where
  "checks_status cs =
     (if cs \<noteq> [] \<and> list_all (\<lambda>c. vc_status c = ''pass'') cs then ''valid''
      else if cs \<noteq> [] \<and> \<not> list_ex (\<lambda>c. vc_status c = ''fail'') cs then ''unknown'' else ''invalid'')"

definition validator_version :: string where
  "validator_version = ''unit-validator-v2''"

definition validated_as :: "answer_unit \<Rightarrow> string \<Rightarrow> validation_check list \<Rightarrow> string \<Rightarrow> answer_unit" where
  "validated_as u status checks evidence_version =
     u\<lparr>un_validation := \<lparr>uv_status = status, uv_validator_version = validator_version, uv_checks = checks,
        uv_evidence_version = evidence_version\<rparr>\<rparr>"

definition validate_unit ::
  "answer_spec \<Rightarrow> claim_record list \<Rightarrow> support_edge list \<Rightarrow> string \<Rightarrow> answer_unit \<Rightarrow> answer_unit res" where
  "validate_unit spec claims edges evidence_version u =
     (case dget (asks_by_id (sp_asks spec)) (un_ask_id u) of
        None \<Rightarrow> Inr (validated_as u ''invalid'' (identity_checks spec u None) evidence_version)
      | Some ask \<Rightarrow>
          ebind (if as_kind ask = ''comparison'' then comparison_checks ask u else Inr []) (\<lambda>comparison.
            let checks = identity_checks spec u (Some ask)
                  @ concat (map (requirement_checks (claims_by_id claims) (supporting_claims edges) u) (as_required_fields ask))
                  @ (if as_kind ask = ''recommendation'' then recommendation_checks u else [])
                  @ comparison
            in Inr (validated_as u (checks_status checks) checks evidence_version)))"

definition validate_answer_units ::
  "answer_spec \<Rightarrow> answer_unit item list \<Rightarrow> claim_record item list \<Rightarrow> support_edge item list \<Rightarrow> string
   \<Rightarrow> answer_unit list res" where
  "validate_answer_units spec units claims edges evidence_version =
     ebind (emap (read_item answer_unit_from_dict) units) (\<lambda>us.
     ebind (emap (read_item claim_from_dict) claims) (\<lambda>cs.
     ebind (emap (read_item support_edge_from_dict) edges) (\<lambda>es.
       emap (validate_unit spec cs es evidence_version) us)))"

section \<open>What a valid unit rests on\<close>

lemma fold_dput_map_of:
  "dget (fold (\<lambda>x. dput (key x) x) xs d) k = Some y \<Longrightarrow> (y \<in> set xs \<and> key y = k) \<or> dget d k = Some y"
proof (induction xs arbitrary: d)
  case (Cons x xs)
  then show ?case using Cons.IH [of "dput (key x) x d"] by (auto split: if_splits)
qed simp

lemma asks_by_id_Some: "dget (asks_by_id asks) i = Some a \<Longrightarrow> a \<in> set asks \<and> as_ask_id a = i"
  using fold_dput_map_of [of as_ask_id asks "[]" i a] by (simp add: asks_by_id_def)

lemma claims_by_id_Some: "dget (claims_by_id cs) i = Some c \<Longrightarrow> c \<in> set cs \<and> cl_claim_id c = i \<and> i \<noteq> []"
  using fold_dput_map_of [of cl_claim_id "filter (\<lambda>c. cl_claim_id c \<noteq> []) cs" "[]" i c]
  by (auto simp: claims_by_id_def)

text \<open>A claim is supported by its own status and by a support edge to evidence.\<close>

definition supported_claim :: "claim_record list \<Rightarrow> support_edge list \<Rightarrow> string \<Rightarrow> bool" where
  "supported_claim cs es i \<longleftrightarrow>
     (\<exists>c\<in>set cs. cl_claim_id c = i \<and> cl_validation_status c = ''supported'') \<and>
     (\<exists>e\<in>set es. se_claim_id e = i \<and> se_relation e = ''supports'' \<and> se_evidence_id e \<noteq> [])"

lemma claim_grounded_supported:
  "claim_grounded (claims_by_id cs) (supporting_claims es) i \<Longrightarrow> supported_claim cs es i"
  by (auto simp: claim_grounded_def supported_claim_def supporting_claims_def dest: claims_by_id_Some split: option.splits)

text \<open>
  What a required field of a valid unit looks like: left open where the specification allows it,
  a declared limitation, or bound to supported claims, with a rationale if it is inferred.
\<close>

definition field_justified :: "claim_record list \<Rightarrow> support_edge list \<Rightarrow> answer_unit \<Rightarrow> field_requirement \<Rightarrow> bool" where
  "field_justified cs es u q \<longleftrightarrow>
     (case dget (un_fields u) (fq_field_id q) of
        None \<Rightarrow> fq_unknown_allowed q
      | Some f \<Rightarrow>
          (if value_present (uf_value f)
           then (fq_value_type q = ''limitation'' \<and> uf_limitation_status f \<in> {''unknown'', ''not_verified'', ''explicit''}) \<or>
                (bound_ids q f \<noteq> [] \<and> (\<forall>i\<in>set (bound_ids q f). supported_claim cs es i) \<and>
                 (is_inferred q \<longrightarrow> py_strip (uf_rationale f) \<noteq> []))
           else fq_unknown_allowed q))"

definition all_pass :: "validation_check list \<Rightarrow> bool" where
  "all_pass cs = list_all (\<lambda>c. vc_status c = ''pass'') cs"

lemma all_pass_simps [simp]:
  "all_pass []" "all_pass (c # cs) \<longleftrightarrow> vc_status c = ''pass'' \<and> all_pass cs"
  "all_pass (cs @ cs') \<longleftrightarrow> all_pass cs \<and> all_pass cs'"
  by (simp_all add: all_pass_def)

lemma all_pass_concat: "all_pass (concat (map f xs)) \<longleftrightarrow> (\<forall>x\<in>set xs. all_pass (f x))"
  by (induction xs) auto

lemma check_that_pass [simp]: "vc_status (check_that n b rs) = ''pass'' \<longleftrightarrow> b"
  by (simp add: mk_check_def)

lemma requirement_checks_justified:
  assumes "all_pass (requirement_checks (claims_by_id cs) (supporting_claims es) u q)"
  shows "field_justified cs es u q"
proof (cases "dget (un_fields u) (fq_field_id q)")
  case None
  then show ?thesis using assms by (simp add: requirement_checks_def field_justified_def)
next
  case (Some f)
  have "list_all (claim_grounded (claims_by_id cs) (supporting_claims es)) is \<Longrightarrow> i \<in> set is \<Longrightarrow> supported_claim cs es i" for "is" i
    by (auto simp: list_all_iff intro: claim_grounded_supported)
  then show ?thesis
    using assms Some by (auto simp: requirement_checks_def field_justified_def Let_def split: if_splits)
qed

lemma checks_status_valid [simp]: "checks_status cs = ''valid'' \<longleftrightarrow> cs \<noteq> [] \<and> all_pass cs"
  by (simp add: checks_status_def all_pass_def)

lemma validate_unit_valid:
  assumes "validate_unit spec cs es ev u = Inr v" "uv_status (un_validation v) = ''valid''"
  obtains ask where "ask \<in> set (sp_asks spec)" "as_ask_id ask = un_ask_id v" "un_unit_id v \<noteq> []"
    "un_kind v = as_kind ask" "un_spec_revision v = sp_revision spec"
    "\<forall>q\<in>set (as_required_fields ask). field_justified cs es v q"
proof (cases "dget (asks_by_id (sp_asks spec)) (un_ask_id u)")
  case None
  then show ?thesis using assms by (auto simp: validate_unit_def validated_as_def)
next
  case (Some ask)
  then obtain extra checks where v: "v = validated_as u (checks_status checks) checks ev"
    and checks: "checks = identity_checks spec u (Some ask)
        @ concat (map (requirement_checks (claims_by_id cs) (supporting_claims es) u) (as_required_fields ask)) @ extra"
    using assms(1) by (auto simp: validate_unit_def Let_def ebind_eq_Inr)
  have "all_pass checks" using assms(2) by (simp add: v validated_as_def)
  then have "un_unit_id u \<noteq> []" "un_spec_revision u = sp_revision spec" "un_kind u = as_kind ask"
    "\<forall>q\<in>set (as_required_fields ask). field_justified cs es u q"
    by (auto simp: checks identity_checks_def all_pass_concat intro: requirement_checks_justified)
  moreover have "field_justified cs es v q = field_justified cs es u q" for q
    by (simp add: field_justified_def v validated_as_def)
  ultimately show ?thesis
    using asks_by_id_Some [OF Some] by (intro that [of ask]) (simp_all add: v validated_as_def)
qed

lemma validated_as_simps [simp]:
  "un_ask_id (validated_as u st cs ev) = un_ask_id u"
  "validated_as (validated_as u st cs ev) st' cs' ev' = validated_as u st' cs' ev'"
  "identity_checks spec (validated_as u st cs ev) a = identity_checks spec u a"
  "requirement_checks claims supporting (validated_as u st cs ev) q = requirement_checks claims supporting u q"
  "recommendation_checks (validated_as u st cs ev) = recommendation_checks u"
  "comparison_checks ask (validated_as u st cs ev) = comparison_checks ask u"
  by (simp_all add: validated_as_def identity_checks_def requirement_checks_def recommendation_checks_def
      comparison_checks_def split: option.split)

lemma requirement_checks_validated [simp]:
  "requirement_checks claims supporting (validated_as u st cs ev) = requirement_checks claims supporting u"
  by (rule ext) simp

lemma validate_unit_forgets: "validate_unit spec cs es ev u = Inr v \<Longrightarrow> validate_unit spec cs es ev v = Inr v"
  by (auto simp: validate_unit_def Let_def ebind_eq_Inr split: option.splits)

lemma validate_unit_keeps: "validate_unit spec cs es ev u = Inr v \<Longrightarrow> un_ask_id v = un_ask_id u \<and> un_unit_id v = un_unit_id u \<and> un_fields v = un_fields u"
  by (auto simp: validate_unit_def validated_as_def Let_def ebind_eq_Inr split: option.splits)

section \<open>Properties\<close>

lemma emap_Obj [simp]: "emap (read_item f) (map Obj xs) = Inr xs"
  by (induction xs) (auto simp: read_item_def)

lemma validate_answer_units_inv:
  assumes "validate_answer_units spec units claims edges ev = Inr vs"
  obtains us cs es where "emap (read_item answer_unit_from_dict) units = Inr us"
    "emap (read_item claim_from_dict) claims = Inr cs" "emap (read_item support_edge_from_dict) edges = Inr es"
    "list_all2 (\<lambda>u v. validate_unit spec cs es ev u = Inr v) us vs"
  using assms unfolding validate_answer_units_def ebind_eq_Inr emap_eq_Inr_iff by blast

lemma validated_units_justified:
  assumes "validate_answer_units spec units claims edges ev = Inr vs"
    and "emap (read_item claim_from_dict) claims = Inr cs" "emap (read_item support_edge_from_dict) edges = Inr es"
    and "v \<in> set vs" "uv_status (un_validation v) = ''valid''"
  shows "\<exists>ask\<in>set (sp_asks spec). as_ask_id ask = un_ask_id v \<and> un_unit_id v \<noteq> [] \<and>
    un_kind v = as_kind ask \<and> un_spec_revision v = sp_revision spec \<and>
    (\<forall>q\<in>set (as_required_fields ask). field_justified cs es v q)"
proof -
  obtain us where "list_all2 (\<lambda>u v. validate_unit spec cs es ev u = Inr v) us vs"
    by (rule validate_answer_units_inv [OF assms(1)]) (use assms(2,3) in simp)
  then obtain u where "validate_unit spec cs es ev u = Inr v"
    using assms(4) by (auto simp: list_all2_conv_all_nth in_set_conv_nth)
  then show ?thesis by (rule validate_unit_valid [OF _ assms(5)]) blast
qed

text \<open>C37. A valid unit is justified: whatever units, claims and support edges were handed in, a unit that
  validation calls valid belongs to an ask of the specification, has its kind and the current
  revision, and each required field of the ask is either allowed to stay open, a declared
  limitation, or bound to claims that are supported and backed by evidence, with a rationale where
  it is an inference.
\<close>

theorem valid_units_are_justified:
  assumes "validate_answer_units spec units claims edges ev = Inr vs"
    and "emap (read_item claim_from_dict) claims = Inr cs" "emap (read_item support_edge_from_dict) edges = Inr es"
    and "v \<in> set vs" "uv_status (un_validation v) = ''valid''"
  shows "\<exists>ask\<in>set (sp_asks spec). as_ask_id ask = un_ask_id v \<and> un_unit_id v \<noteq> [] \<and>
    un_kind v = as_kind ask \<and> un_spec_revision v = sp_revision spec \<and>
    (\<forall>q\<in>set (as_required_fields ask). field_justified cs es v q)"
  by (rule validated_units_justified [OF assms])

text \<open>Validation is idempotent: it looks at nothing it writes, so that validating validated units
  against the same claims and edges returns them unchanged.
\<close>

theorem validation_idempotent:
  assumes "validate_answer_units spec units claims edges ev = Inr vs"
  shows "validate_answer_units spec (map Obj vs) claims edges ev = Inr vs"
proof -
  obtain us cs es where parts: "emap (read_item claim_from_dict) claims = Inr cs"
    "emap (read_item support_edge_from_dict) edges = Inr es"
    "list_all2 (\<lambda>u v. validate_unit spec cs es ev u = Inr v) us vs"
    by (rule validate_answer_units_inv [OF assms])
  have "emap (validate_unit spec cs es ev) vs = Inr vs"
    using parts(3) unfolding emap_eq_Inr_iff
    by (auto simp: list_all2_conv_all_nth intro: validate_unit_forgets)
  then show ?thesis using parts(1,2) by (simp add: validate_answer_units_def)
qed

section \<open>Examples\<close>

definition example_requirement :: field_requirement where
  "example_requirement = \<lparr>fq_field_id = ''answer'', fq_value_type = ''fact'', fq_support_policy = ''direct'', fq_unknown_allowed = False\<rparr>"

definition example_ask :: ask_spec where
  "example_ask = \<lparr>as_ask_id = ''ask1'', as_question_id = ''q1'', as_original_text = ''When?'', as_kind = ''fact'',
     as_required = True, as_entity_scope = [], as_time_scope = [], as_required_fields = [example_requirement],
     as_target_units = 1, as_min_partial_units = 1, as_max_units = 1, as_partial_allowed = True,
     as_selection_criteria = [], as_current_fact_max_age_days = 180\<rparr>"

definition example_spec :: answer_spec where
  "example_spec = \<lparr>sp_schema_version = 2, sp_spec_id = ''s1'', sp_revision = 3, sp_objective = ''Founding year'',
     sp_as_of = ''2025-01-01T00:00:00+00:00'', sp_timezone = ''UTC'', sp_asks = [example_ask], sp_assumptions = [],
     sp_policy_version = ''answer-policy-v2''\<rparr>"

definition example_claim_row :: pydict where
  "example_claim_row = [(''claim_id'', PStr ''t1:c1''), (''text'', PStr ''Founded in 1998.''),
     (''validation_status'', PStr ''supported'')]"

definition example_edge_row :: pydict where
  "example_edge_row = [(''edge_id'', PStr ''e1''), (''claim_id'', PStr ''t1:c1''), (''evidence_id'', PStr ''ev1''),
     (''relation'', PStr ''supports''), (''validator_version'', PStr ''claim-validator-v2'')]"

definition example_claim :: claim_record where
  "example_claim = (case claim_from_dict example_claim_row of Inr c \<Rightarrow> c)"

definition example_edge :: support_edge where
  "example_edge = (case support_edge_from_dict example_edge_row of Inr e \<Rightarrow> e)"

definition example_validated :: answer_unit where
  "example_validated = (case validate_unit example_spec [example_claim] [example_edge] ''evidence-v1'' example_unit of Inr v \<Rightarrow> v)"

lemma example_claim_eq: "emap (read_item claim_from_dict) [Row example_claim_row] = Inr [example_claim]"
  by code_simp

lemma example_edge_eq: "emap (read_item support_edge_from_dict) [Row example_edge_row] = Inr [example_edge]"
  by code_simp

lemma example_validated_eq:
  "validate_answer_units example_spec [Obj example_unit] [Row example_claim_row] [Row example_edge_row] ''evidence-v1''
     = Inr [example_validated]"
  by code_simp

lemma example_validated_valid: "uv_status (un_validation example_validated) = ''valid''"
  by code_simp

lemma valid_units_are_justified_witness:
  "\<exists>ask\<in>set (sp_asks example_spec). as_ask_id ask = un_ask_id example_validated \<and> un_unit_id example_validated \<noteq> [] \<and>
    un_kind example_validated = as_kind ask \<and> un_spec_revision example_validated = sp_revision example_spec \<and>
    (\<forall>q\<in>set (as_required_fields ask). field_justified [example_claim] [example_edge] example_validated q)"
  by (rule valid_units_are_justified
      [OF example_validated_eq example_claim_eq example_edge_eq _ example_validated_valid]) simp

lemma validation_idempotent_witness:
  "validate_answer_units example_spec (map Obj [example_validated]) [Row example_claim_row] [Row example_edge_row] ''evidence-v1''
     = Inr [example_validated]"
  by (rule validation_idempotent [OF example_validated_eq])

end
