(* ===== verification/CompletionV2.thy ===== *)
theory CompletionV2
  imports UnitValidator Termination "HOL-Library.Char_ord" "HOL-Library.List_Lexorder" "HOL-Library.Sublist"
begin

text \<open>
  The completion authority of the second answer engine
  (\<open>app/research/domain/completion_v2.py\<close>): asks are complete when enough valid units of the
  current revision cover their fields.  Case folding acts on the ASCII range.
\<close>

section \<open>Results\<close>

record ask_completion =
  qa_ask_id :: string
  qa_valid_units :: int
  qa_target_units :: int
  qa_complete :: bool
  qa_partial_eligible :: bool
  qa_missing_fields :: "string list"
  qa_rejected_unit_ids :: "string list"

definition ask_completion_to_dict :: "ask_completion \<Rightarrow> pydict" where
  "ask_completion_to_dict q =
     [(''ask_id'', PStr (qa_ask_id q)), (''valid_units'', PInt (qa_valid_units q)),
      (''target_units'', PInt (qa_target_units q)), (''complete'', PBool (qa_complete q)),
      (''partial_eligible'', PBool (qa_partial_eligible q)), (''missing_fields'', strs (qa_missing_fields q)),
      (''rejected_unit_ids'', strs (qa_rejected_unit_ids q))]"

datatype v2_outcome = V2_SUCCESS | V2_PARTIAL | V2_FAILED

fun v2_outcome_value :: "v2_outcome \<Rightarrow> string" where
  "v2_outcome_value V2_SUCCESS = ''success''"
| "v2_outcome_value V2_PARTIAL = ''partial''"
| "v2_outcome_value V2_FAILED = ''failed''"

record completion_v2 =
  c2_spec_revision :: int
  c2_evidence_version :: string
  c2_answer_version :: string
  c2_evaluated_unit_ids :: "string list"
  c2_per_ask :: "ask_completion list"
  c2_outcome :: v2_outcome
  c2_blockers :: "string list"
  c2_degraded :: bool
  c2_recovery_mode :: string
  c2_quality_dimensions :: "string dict"

definition c2_passed :: "completion_v2 \<Rightarrow> bool" where
  "c2_passed r = (c2_outcome r = V2_SUCCESS)"

text \<open>The schema version of every result is two.\<close>

definition completion_v2_to_dict :: "completion_v2 \<Rightarrow> pydict" where
  "completion_v2_to_dict r =
     [(''schema_version'', PInt 2), (''spec_revision'', PInt (c2_spec_revision r)),
      (''evidence_version'', PStr (c2_evidence_version r)), (''answer_version'', PStr (c2_answer_version r)),
      (''evaluated_unit_ids'', strs (c2_evaluated_unit_ids r)),
      (''per_ask'', PList (map (\<lambda>q. PDict (ask_completion_to_dict q)) (c2_per_ask r))),
      (''outcome'', PStr (v2_outcome_value (c2_outcome r))), (''blockers'', strs (c2_blockers r)),
      (''degraded'', PBool (c2_degraded r)), (''recovery_mode'', PStr (c2_recovery_mode r)),
      (''quality_dimensions'', PDict (map (\<lambda>(k, v). (k, PStr v)) (c2_quality_dimensions r))),
      (''passed'', PBool (c2_passed r))]"

interpretation completion_v2: persisted_evaluation "\<lambda>r :: completion_v2. v2_outcome_value (c2_outcome r)" completion_v2_to_dict
proof unfold_locales
  fix r :: completion_v2
  show "v2_outcome_value (c2_outcome r) \<in> {''success'', ''partial'', ''failed''}"
    by (cases "c2_outcome r") simp_all
  show "pget (completion_v2_to_dict r) ''outcome'' = PStr (v2_outcome_value (c2_outcome r))"
    by (simp add: completion_v2_to_dict_def)
  show "pget (completion_v2_to_dict r) ''passed'' = PBool (v2_outcome_value (c2_outcome r) = ''success'')"
    by (cases "c2_outcome r") (simp_all add: completion_v2_to_dict_def c2_passed_def)
qed

section \<open>Asks\<close>

text \<open>Units of a recommendation count once per entity set, and not at all without entities.\<close>

definition unit_identity :: "answer_unit \<Rightarrow> string" where
  "unit_identity u =
     join ''|'' (sort (map (\<lambda>s. py_strip (py_lower s)) (filter (\<lambda>s. py_strip s \<noteq> []) (un_entity_ids u))))"

fun dedupe_units :: "string list \<Rightarrow> answer_unit list \<Rightarrow> answer_unit list" where
  "dedupe_units seen [] = []"
| "dedupe_units seen (u # us) =
     (let i = unit_identity u in
      if i = [] \<or> i \<in> set seen then dedupe_units seen us else u # dedupe_units (i # seen) us)"

definition counted_units :: "answer_spec \<Rightarrow> answer_unit list \<Rightarrow> ask_spec \<Rightarrow> answer_unit list" where
  "counted_units spec parsed ask =
     (let valid = filter (\<lambda>u. uv_status (un_validation u) = ''valid'')
                    (filter (\<lambda>u. un_spec_revision u = sp_revision spec)
                      (filter (\<lambda>u. un_ask_id u = as_ask_id ask) parsed))
      in if as_kind ask = ''recommendation'' then dedupe_units [] valid else valid)"

definition missing_fields :: "ask_spec \<Rightarrow> answer_unit list \<Rightarrow> string list" where
  "missing_fields ask us =
     map fq_field_id (filter (\<lambda>q. \<not> fq_unknown_allowed q
       \<and> \<not> list_ex (\<lambda>u. fq_field_id q \<in> set (dkeys (un_fields u))) us) (as_required_fields ask))"

definition complete_ask :: "answer_spec \<Rightarrow> answer_unit list \<Rightarrow> ask_spec \<Rightarrow> ask_completion" where
  "complete_ask spec parsed ask =
     (let valid = counted_units spec parsed ask; missing = missing_fields ask valid;
          n = min (int (length valid)) (as_max_units ask)
      in \<lparr>qa_ask_id = as_ask_id ask, qa_valid_units = n, qa_target_units = as_target_units ask,
          qa_complete = (as_target_units ask \<le> n \<and> missing = []),
          qa_partial_eligible = (as_partial_allowed ask \<and> as_min_partial_units ask \<le> n),
          qa_missing_fields = missing,
          qa_rejected_unit_ids = map un_unit_id (filter (\<lambda>u. uv_status (un_validation u) \<noteq> ''valid''
             \<or> un_spec_revision u \<noteq> sp_revision spec) (filter (\<lambda>u. un_ask_id u = as_ask_id ask) parsed))\<rparr>)"

section \<open>The evaluation\<close>

record v2_args =
  va_evidence_version :: string
  va_answer_version :: string
  va_final_document :: string
  va_validation_versions :: "string dict"
  va_citation_valid :: "bool option"
  va_quality_dimensions :: "string dict"
  va_degraded :: bool
  va_recovery_mode :: string

definition v2_dimensions :: "v2_args \<Rightarrow> string dict" where
  "v2_dimensions a =
     dmerge [(''citation'', case va_citation_valid a of None \<Rightarrow> ''unknown'' | Some b \<Rightarrow> if b then ''pass'' else ''fail'')]
       (va_quality_dimensions a)"

definition v2_entry_blockers :: "v2_args \<Rightarrow> string list" where
  "v2_entry_blockers a =
     (if dget (va_validation_versions a) ''unit'' \<noteq> Some ''unit-validator-v2'' then [''unit_validation_version_mismatch''] else [])
     @ (case va_citation_valid a of None \<Rightarrow> [''citation_validation_unknown'']
        | Some b \<Rightarrow> if b then [] else [''citation_validation_failed''])
     @ (if py_strip (va_final_document a) = [] then [''final_document_missing''] else [])
     @ map (\<lambda>(k, v). ''quality_'' @ k @ ''_'' @ v) (filter (\<lambda>kv. snd kv \<noteq> ''pass'') (v2_dimensions a))"

definition ask_blocker :: "ask_spec \<Rightarrow> ask_completion \<Rightarrow> string list" where
  "ask_blocker ask q =
     (if as_required ask \<and> \<not> qa_complete q then [as_ask_id ask @ '':target_or_fields_incomplete''] else [])"

definition v2_decide :: "ask_spec list \<Rightarrow> ask_completion list \<Rightarrow> string list \<Rightarrow> string \<Rightarrow> v2_outcome" where
  "v2_decide asks per_ask blockers document =
     (let req = map fst (filter (\<lambda>qa. as_required (snd qa)) (zip per_ask asks));
          all_complete = (req \<noteq> [] \<and> list_all qa_complete req);
          any_partial = list_ex qa_partial_eligible req
      in if all_complete \<and> blockers = [] then V2_SUCCESS
         else if any_partial \<and> py_strip document \<noteq> [] then V2_PARTIAL else V2_FAILED)"

definition evaluate_completion_v2 :: "answer_spec \<Rightarrow> answer_unit item list \<Rightarrow> v2_args \<Rightarrow> completion_v2 res" where
  "evaluate_completion_v2 spec units a =
     ebind (emap (read_item answer_unit_from_dict) units) (\<lambda>parsed.
       let per_ask = map (complete_ask spec parsed) (sp_asks spec);
           blockers = v2_entry_blockers a @ concat (map (\<lambda>(q, ask). ask_blocker ask q) (zip per_ask (sp_asks spec)))
       in Inr \<lparr>c2_spec_revision = sp_revision spec, c2_evidence_version = va_evidence_version a,
            c2_answer_version = va_answer_version a, c2_evaluated_unit_ids = map un_unit_id parsed,
            c2_per_ask = per_ask,
            c2_outcome = v2_decide (sp_asks spec) per_ask blockers (va_final_document a),
            c2_blockers = fromkeys blockers, c2_degraded = va_degraded a, c2_recovery_mode = va_recovery_mode a,
            c2_quality_dimensions = v2_dimensions a\<rparr>)"

section \<open>What success means\<close>

lemma dedupe_units_subset: "set (dedupe_units seen us) \<subseteq> set us"
  by (induction seen us rule: dedupe_units.induct) (auto simp: Let_def)

lemma dedupe_units_fresh: "u \<in> set (dedupe_units seen us) \<Longrightarrow> unit_identity u \<notin> set seen \<and> unit_identity u \<noteq> []"
  by (induction seen us rule: dedupe_units.induct) (auto simp: Let_def split: if_splits)

lemma dedupe_units_distinct: "distinct (map unit_identity (dedupe_units seen us))"
  by (induction seen us rule: dedupe_units.induct) (use dedupe_units_fresh in \<open>fastforce simp: Let_def\<close>)+

lemma dedupe_units_subseq: "subseq (dedupe_units seen us) us"
  by (induction seen us rule: dedupe_units.induct) (auto simp: Let_def)

lemma counted_units_subseq: "subseq (counted_units spec parsed ask) parsed"
  unfolding counted_units_def Let_def
  by (auto intro: subseq_order.trans [OF dedupe_units_subseq] subseq_order.trans [OF subseq_filter_left] simp del: filter_filter)

lemma subseq_subset: "subseq xs ys \<Longrightarrow> set xs \<subseteq> set ys"
  by (auto dest: list_emb_set)

lemma counted_units_valid:
  "u \<in> set (counted_units spec parsed ask) \<Longrightarrow>
     u \<in> set parsed \<and> un_ask_id u = as_ask_id ask \<and> un_spec_revision u = sp_revision spec \<and>
     uv_status (un_validation u) = ''valid''"
  using dedupe_units_subset by (fastforce simp: counted_units_def Let_def split: if_splits)

text \<open>
  A delivery for an ask: units of the evaluation, all valid for the ask and its revision, at least
  the target number, covering every required field, of distinct entities for a recommendation.
\<close>

definition delivers :: "answer_spec \<Rightarrow> answer_unit list \<Rightarrow> ask_spec \<Rightarrow> answer_unit list \<Rightarrow> bool" where
  "delivers spec parsed ask us \<longleftrightarrow>
     subseq us parsed \<and> as_target_units ask \<le> int (length us) \<and>
     (\<forall>u\<in>set us. un_ask_id u = as_ask_id ask \<and> un_spec_revision u = sp_revision spec \<and>
        uv_status (un_validation u) = ''valid'') \<and>
     (\<forall>q\<in>set (as_required_fields ask). fq_unknown_allowed q \<or> (\<exists>u\<in>set us. fq_field_id q \<in> set (dkeys (un_fields u)))) \<and>
     (as_kind ask = ''recommendation'' \<longrightarrow> distinct (map unit_identity us))"

lemma complete_ask_delivers:
  assumes "qa_complete (complete_ask spec parsed ask)"
  shows "delivers spec parsed ask (counted_units spec parsed ask)"
proof -
  let ?us = "counted_units spec parsed ask"
  have "missing_fields ask ?us = []" "as_target_units ask \<le> int (length ?us)"
    using assms by (simp_all add: complete_ask_def Let_def)
  moreover have "distinct (map unit_identity ?us)" if "as_kind ask = ''recommendation''"
    using that dedupe_units_distinct by (simp add: counted_units_def Let_def)
  ultimately show ?thesis
    using counted_units_valid counted_units_subseq unfolding delivers_def missing_fields_def
    by (auto simp: filter_empty_conv list_ex_iff)
qed

lemma zip_map_self: "zip (map f xs) xs = map (\<lambda>x. (f x, x)) xs"
  by (induction xs) auto

lemma v2_decide_success:
  assumes "v2_decide asks (map f asks) blockers document = V2_SUCCESS"
  shows "blockers = [] \<and> (\<exists>ask\<in>set asks. as_required ask) \<and> (\<forall>ask\<in>set asks. as_required ask \<longrightarrow> qa_complete (f ask))"
  using assms
  by (auto simp: v2_decide_def Let_def zip_map_self filter_map comp_def list_all_iff filter_empty_conv split: if_splits)

lemma v2_entry_clear:
  assumes "v2_entry_blockers a = []"
  shows "va_citation_valid a = Some True" "py_strip (va_final_document a) \<noteq> []"
    "list_all (\<lambda>kv. snd kv = ''pass'') (v2_dimensions a)"
    "dget (va_validation_versions a) ''unit'' = Some ''unit-validator-v2''"
  using assms by (auto simp: v2_entry_blockers_def filter_empty_conv list_all_iff split: if_splits option.splits)

lemma v2_success_delivers:
  assumes "evaluate_completion_v2 spec units a = Inr r" "c2_passed r"
    and "emap (read_item answer_unit_from_dict) units = Inr parsed"
  shows "(\<exists>ask\<in>set (sp_asks spec). as_required ask) \<and>
    (\<forall>ask\<in>set (sp_asks spec). as_required ask \<longrightarrow> (\<exists>us. delivers spec parsed ask us)) \<and>
    v2_entry_blockers a = []"
proof -
  have "v2_decide (sp_asks spec) (map (complete_ask spec parsed) (sp_asks spec))
      (v2_entry_blockers a @ concat (map (\<lambda>(q, ask). ask_blocker ask q)
        (zip (map (complete_ask spec parsed) (sp_asks spec)) (sp_asks spec)))) (va_final_document a) = V2_SUCCESS"
    using assms by (auto simp: evaluate_completion_v2_def c2_passed_def Let_def)
  from v2_decide_success [OF this] show ?thesis using complete_ask_delivers by auto blast+
qed

text \<open>Success of the second engine: there is a required ask; every required ask is delivered by enough
  valid units of the current revision, covering its fields, with distinct entities where it asks
  for recommendations; citations were checked and hold, the document is not blank, and every
  quality dimension, including those supplied by the caller, is a pass.
\<close>

theorem v2_success_means_delivered:
  assumes "evaluate_completion_v2 spec units a = Inr r" "c2_passed r"
    and "emap (read_item answer_unit_from_dict) units = Inr parsed"
  shows "(\<exists>ask\<in>set (sp_asks spec). as_required ask) \<and>
    (\<forall>ask\<in>set (sp_asks spec). as_required ask \<longrightarrow> (\<exists>us. delivers spec parsed ask us)) \<and>
    va_citation_valid a = Some True \<and> py_strip (va_final_document a) \<noteq> [] \<and>
    list_all (\<lambda>kv. snd kv = ''pass'') (v2_dimensions a)"
  using v2_success_delivers [OF assms] v2_entry_clear by blast

text \<open>C24. The answer engine end to end: when the units that validation returned are evaluated and the
  result passes, and the asks have distinct identifiers, every required ask is delivered by as many of those
  units as it asks for, each of its kind with every required field justified: by supported claims
  of that very validation, or left open where the ask allows an unknown, or declared as a limitation.
\<close>

theorem v2_success_is_supported:
  assumes "validate_answer_units spec units claims edges ev = Inr vs"
    and "emap (read_item claim_from_dict) claims = Inr cs" "emap (read_item support_edge_from_dict) edges = Inr es"
    and "evaluate_completion_v2 spec (map Obj vs) a = Inr r" "c2_passed r"
    and "ask \<in> set (sp_asks spec)" "as_required ask" "distinct (map as_ask_id (sp_asks spec))"
  shows "\<exists>us. subseq us vs \<and> as_target_units ask \<le> int (length us) \<and>
    (\<forall>u\<in>set us. un_kind u = as_kind ask \<and> (\<forall>q\<in>set (as_required_fields ask). field_justified cs es u q))"
proof -
  obtain us where us: "delivers spec vs ask us"
    using v2_success_delivers [OF assms(4,5) emap_Obj] assms(6,7) by blast
  have "un_kind u = as_kind ask \<and> (\<forall>q\<in>set (as_required_fields ask). field_justified cs es u q)" if "u \<in> set us" for u
  proof -
    have u: "u \<in> set vs" "uv_status (un_validation u) = ''valid''" "un_ask_id u = as_ask_id ask"
      using us that subseq_subset by (auto simp: delivers_def)
    obtain a' where "a' \<in> set (sp_asks spec)" "as_ask_id a' = un_ask_id u" "un_kind u = as_kind a'"
      "\<forall>q\<in>set (as_required_fields a'). field_justified cs es u q"
      using validated_units_justified [OF assms(1-3) u(1,2)] by blast
    moreover have "a' = ask"
      using assms(6,8) u(3) calculation(1,2) by (metis distinct_map inj_on_def)
    ultimately show ?thesis by simp
  qed
  then show ?thesis using us by (auto simp: delivers_def)
qed

section \<open>Examples\<close>

definition example_v2_args :: v2_args where
  "example_v2_args = \<lparr>va_evidence_version = ''evidence-v1'', va_answer_version = ''answer-v1'',
     va_final_document = ''Founded in 1998.'', va_validation_versions = [(''unit'', ''unit-validator-v2'')],
     va_citation_valid = Some True, va_quality_dimensions = [(''source'', ''pass''), (''relevance'', ''pass'')],
     va_degraded = False, va_recovery_mode = ''none''\<rparr>"

definition example_v2 :: completion_v2 where
  "example_v2 = (case evaluate_completion_v2 example_spec [Obj example_validated] example_v2_args of Inr r \<Rightarrow> r)"

lemma example_v2_eq:
  "evaluate_completion_v2 example_spec (map Obj [example_validated]) example_v2_args = Inr example_v2"
  by code_simp

lemma example_v2_passed: "c2_passed example_v2"
  by code_simp

lemma v2_success_means_delivered_witness:
  "(\<exists>us. delivers example_spec [example_validated] example_ask us) \<and>
    va_citation_valid example_v2_args = Some True \<and> py_strip (va_final_document example_v2_args) \<noteq> [] \<and>
    list_all (\<lambda>kv. snd kv = ''pass'') (v2_dimensions example_v2_args)"
proof -
  have "example_ask \<in> set (sp_asks example_spec)" "as_required example_ask"
    by (simp_all add: example_spec_def example_ask_def)
  then show ?thesis
    using v2_success_means_delivered [OF example_v2_eq example_v2_passed emap_Obj] by blast
qed

lemma v2_success_is_supported_witness:
  "\<exists>us. subseq us [example_validated] \<and> as_target_units example_ask \<le> int (length us) \<and>
    (\<forall>u\<in>set us. un_kind u = as_kind example_ask \<and>
       (\<forall>q\<in>set (as_required_fields example_ask). field_justified [example_claim] [example_edge] u q))"
  by (rule v2_success_is_supported [OF example_validated_eq example_claim_eq example_edge_eq example_v2_eq example_v2_passed])
    (simp_all add: example_spec_def example_ask_def)

end
