(* ===== verification/AnswerCoverage.thy ===== *)
theory AnswerCoverage
  imports CompletionV2
begin

text \<open>
  Field-slot coverage of an answer specification (\<open>app/research/coverage/answer_units.py\<close>), and how
  its verdict relates to the completion authority of the second engine.  Case folding acts on the
  ASCII range.
\<close>

section \<open>Units that count\<close>

text \<open>A unit's entities, without the trimming that the completion authority does.\<close>

definition coverage_identity :: "answer_unit \<Rightarrow> string" where
  "coverage_identity u = join ''|'' (sort (map py_lower (un_entity_ids u)))"

fun dedupe_identities :: "string list \<Rightarrow> answer_unit list \<Rightarrow> answer_unit list" where
  "dedupe_identities seen [] = []"
| "dedupe_identities seen (u # us) =
     (let i = coverage_identity u in
      if i = [] \<or> i \<in> set seen then dedupe_identities seen us else u # dedupe_identities (i # seen) us)"

definition coverage_units :: "answer_spec \<Rightarrow> answer_unit list \<Rightarrow> ask_spec \<Rightarrow> answer_unit list" where
  "coverage_units spec parsed ask =
     (let valid = filter (\<lambda>u. un_ask_id u = as_ask_id ask \<and> un_spec_revision u = sp_revision spec
                    \<and> uv_status (un_validation u) = ''valid'') parsed
      in slice_to (as_max_units ask)
           (if as_kind ask = ''recommendation'' then dedupe_identities [] valid else valid))"

section \<open>Slots\<close>

definition ask_slots :: "ask_spec \<Rightarrow> (nat \<times> field_requirement) list" where
  "ask_slots ask = concat (map (\<lambda>slot. map (\<lambda>q. (slot, q)) (as_required_fields ask)) [0..<nat (as_target_units ask)])"

definition slot_satisfied :: "answer_unit list \<Rightarrow> nat \<times> field_requirement \<Rightarrow> bool" where
  "slot_satisfied valid e \<longleftrightarrow>
     fst e < length valid
     \<and> (fq_field_id (snd e) \<in> set (dkeys (un_fields (valid ! fst e))) \<or> fq_unknown_allowed (snd e))"

record slot_gap =
  sg_gap_id :: string
  sg_ask_id :: string
  sg_question_id :: string
  sg_field_id :: string
  sg_slot :: nat
  sg_description :: string
  sg_missing_evidence_type :: "string list"
  sg_blocking :: bool

definition slot_gap_of :: "ask_spec \<Rightarrow> nat \<times> field_requirement \<Rightarrow> slot_gap" where
  "slot_gap_of ask e =
     (let number = nat_str (fst e + 1); field = fq_field_id (snd e) in
      \<lparr>sg_gap_id = ''gap:'' @ as_ask_id ask @ '':slot'' @ number @ '':'' @ field, sg_ask_id = as_ask_id ask,
       sg_question_id = as_question_id ask, sg_field_id = field, sg_slot = fst e + 1,
       sg_description = as_ask_id ask @ '' slot '' @ number @ '' missing '' @ field,
       sg_missing_evidence_type = [fq_support_policy (snd e)], sg_blocking = as_required ask\<rparr>)"

definition ask_gaps :: "answer_unit list \<Rightarrow> ask_spec \<Rightarrow> slot_gap list" where
  "ask_gaps valid ask = map (slot_gap_of ask) (filter (\<lambda>e. \<not> slot_satisfied valid e) (ask_slots ask))"

record ask_coverage =
  ac_ask_id :: string
  ac_valid_units :: nat
  ac_target_units :: int
  ac_covered_slots :: nat
  ac_slots :: int
  ac_complete :: bool
  ac_partial_eligible :: bool

definition cover_ask :: "answer_unit list \<Rightarrow> ask_spec \<Rightarrow> ask_coverage" where
  "cover_ask valid ask =
     (let total_slots = as_target_units ask * int (length (as_required_fields ask));
          covered = length (filter (slot_satisfied valid) (ask_slots ask))
      in \<lparr>ac_ask_id = as_ask_id ask, ac_valid_units = length valid, ac_target_units = as_target_units ask,
          ac_covered_slots = covered, ac_slots = total_slots,
          ac_complete = (as_target_units ask \<le> int (length valid) \<and> int covered = total_slots),
          ac_partial_eligible = (as_partial_allowed ask \<and> as_min_partial_units ask \<le> int (length valid))\<rparr>)"

record question_coverage =
  qv_question_id :: string
  qv_status :: string
  qv_blocking :: bool
  qv_question :: string
  qv_support_count :: nat
  qv_reason :: string

definition cover_question :: "ask_spec \<Rightarrow> ask_coverage \<Rightarrow> question_coverage" where
  "cover_question ask row =
     \<lparr>qv_question_id = as_question_id ask,
      qv_status = (if ac_complete row then ''covered'' else if 0 < ac_valid_units row then ''partial'' else ''uncovered''),
      qv_blocking = (as_required ask \<and> \<not> ac_complete row), qv_question = as_original_text ask,
      qv_support_count = ac_valid_units row,
      qv_reason = (if ac_complete row then ''target answer units satisfied''
                   else ''validated answer-unit slots remain open'')\<rparr>"

section \<open>The report\<close>

record answer_coverage =
  av_spec_revision :: int
  av_sufficient :: bool
  av_coverage_ratio :: pyfloat
  av_covered_slots :: nat
  av_slots :: nat
  av_per_ask :: "ask_coverage list"
  av_gaps :: "slot_gap list"
  av_missing :: "string list"
  av_next_questions :: "string list"
  av_key_questions :: "question_coverage list"

definition coverage_sufficient :: "ask_spec list \<Rightarrow> ask_coverage list \<Rightarrow> bool" where
  "coverage_sufficient asks per_ask \<longleftrightarrow>
     list_all (\<lambda>(row, ask). as_required ask \<longrightarrow> ac_complete row) (zip per_ask asks) \<and> list_ex as_required asks"

definition cover_parsed :: "answer_spec \<Rightarrow> answer_unit list \<Rightarrow> answer_coverage" where
  "cover_parsed spec parsed =
     (let asks = sp_asks spec;
          per_ask = map (\<lambda>ask. cover_ask (coverage_units spec parsed ask) ask) asks;
          gaps = concat (map (\<lambda>ask. ask_gaps (coverage_units spec parsed ask) ask) asks);
          all_slots = sum_list (map (\<lambda>ask. length (ask_slots ask)) asks);
          covered = sum_list (map ac_covered_slots per_ask)
      in \<lparr>av_spec_revision = sp_revision spec, av_sufficient = coverage_sufficient asks per_ask,
          av_coverage_ratio = round4 (if all_slots = 0 then 0 else fl (of_nat covered / of_nat all_slots)),
          av_covered_slots = covered, av_slots = all_slots, av_per_ask = per_ask, av_gaps = gaps,
          av_missing = map sg_description gaps, av_next_questions = map sg_description (take 4 gaps),
          av_key_questions = map (\<lambda>(ask, row). cover_question ask row) (zip asks per_ask)\<rparr>)"

definition answer_unit_coverage :: "answer_spec \<Rightarrow> answer_unit item list \<Rightarrow> answer_coverage res" where
  "answer_unit_coverage spec units =
     ebind (emap (read_item answer_unit_from_dict) units) (\<lambda>parsed. Inr (cover_parsed spec parsed))"

section \<open>Slots are covered or gaps\<close>

lemma slots_split: "length (filter (slot_satisfied valid) (ask_slots ask)) + length (ask_gaps valid ask) = length (ask_slots ask)"
  by (simp add: ask_gaps_def sum_length_filter_compl)

lemma length_ask_slots: "int (length (ask_slots ask)) = max 0 (as_target_units ask) * int (length (as_required_fields ask))"
  by (simp add: ask_slots_def length_concat comp_def sum_list_triv)

lemma in_ask_slots: "(i, q) \<in> set (ask_slots ask) \<longleftrightarrow> int i < as_target_units ask \<and> q \<in> set (as_required_fields ask)"
  by (auto simp: ask_slots_def)

lemma cover_ask_complete:
  assumes "ac_complete (cover_ask valid ask)" "0 \<le> as_target_units ask" "e \<in> set (ask_slots ask)"
  shows "slot_satisfied valid e"
proof -
  have "length (filter (slot_satisfied valid) (ask_slots ask)) = length (ask_slots ask)"
    using assms(1,2) length_ask_slots [of ask] by (simp add: cover_ask_def Let_def)
  then have "filter (slot_satisfied valid) (ask_slots ask) = ask_slots ask" by (metis filter_True length_filter_less less_irrefl)
  then show ?thesis using assms(3) by (metis filter_id_conv)
qed

section \<open>Coverage and completion\<close>

lemma py_strip_lower: "py_strip (py_lower s) = py_lower (py_strip s)"
proof -
  have space: "is_space (ascii_lower c) = is_space c" for c
  proof (cases "(65::nat) \<le> of_char c \<and> (of_char c :: nat) \<le> 90")
    case True
    then have "(of_char (ascii_lower c) :: nat) = of_char c + 32" by (simp add: ascii_lower_def Let_def)
    then show ?thesis using True by (simp add: is_space_def Let_def)
  qed (auto simp: ascii_lower_def Let_def)
  have "dropWhile is_space (py_lower t) = py_lower (dropWhile is_space t)" for t
    unfolding py_lower_def dropWhile_map by (simp add: comp_def space)
  moreover have "rev (py_lower t) = py_lower (rev t)" for t by (simp add: py_lower_def rev_map)
  ultimately show ?thesis by (simp add: py_strip_def)
qed

definition clean_entities :: "answer_unit \<Rightarrow> bool" where
  "clean_entities u \<longleftrightarrow> list_all (\<lambda>e. py_strip e = e \<and> e \<noteq> []) (un_entity_ids u)"

lemma clean_identity: "clean_entities u \<Longrightarrow> unit_identity u = coverage_identity u"
proof -
  assume clean: "clean_entities u"
  then have "filter (\<lambda>s. py_strip s \<noteq> []) (un_entity_ids u) = un_entity_ids u"
    by (intro filter_True) (auto simp: clean_entities_def list_all_iff)
  moreover have "map (\<lambda>s. py_strip (py_lower s)) (un_entity_ids u) = map py_lower (un_entity_ids u)"
    using clean by (auto simp: clean_entities_def list_all_iff py_strip_lower)
  ultimately show ?thesis unfolding unit_identity_def coverage_identity_def by (simp only:)
qed

lemma clean_dedupe: "list_all clean_entities us \<Longrightarrow> dedupe_identities seen us = dedupe_units seen us"
  by (induction us arbitrary: seen) (simp_all add: clean_identity Let_def)

definition comparable_ask :: "answer_unit list \<Rightarrow> ask_spec \<Rightarrow> bool" where
  "comparable_ask parsed ask \<longleftrightarrow>
     0 < as_target_units ask \<and> 0 \<le> as_max_units ask
     \<and> (as_kind ask = ''recommendation'' \<longrightarrow> list_all clean_entities (filter (\<lambda>u. un_ask_id u = as_ask_id ask) parsed))"

lemma coverage_units_counted:
  assumes "comparable_ask parsed ask"
  shows "coverage_units spec parsed ask = take (nat (as_max_units ask)) (counted_units spec parsed ask)"
proof -
  let ?valid = "filter (\<lambda>u. un_ask_id u = as_ask_id ask \<and> un_spec_revision u = sp_revision spec
                    \<and> uv_status (un_validation u) = ''valid'') parsed"
  have same: "filter (\<lambda>u. uv_status (un_validation u) = ''valid'')
      (filter (\<lambda>u. un_spec_revision u = sp_revision spec) (filter (\<lambda>u. un_ask_id u = as_ask_id ask) parsed)) = ?valid"
    by (simp add: conj_assoc)
  have "dedupe_identities [] ?valid = dedupe_units [] ?valid" if "as_kind ask = ''recommendation''"
    using assms that by (intro clean_dedupe) (auto simp: comparable_ask_def list_all_iff)
  then show ?thesis
    using assms unfolding coverage_units_def counted_units_def Let_def same
    by (simp add: slice_to_def comparable_ask_def)
qed

lemma covered_ask_complete:
  assumes "comparable_ask parsed ask" "ac_complete (cover_ask (coverage_units spec parsed ask) ask)"
  shows "qa_complete (complete_ask spec parsed ask)"
proof -
  let ?us = "counted_units spec parsed ask" and ?m = "nat (as_max_units ask)"
  note units = coverage_units_counted [OF assms(1), of spec]
  have target: "0 < as_target_units ask" "0 \<le> as_max_units ask" using assms(1) by (simp_all add: comparable_ask_def)
  have enough: "as_target_units ask \<le> int (length (take ?m ?us))"
    using assms(2) unfolding units by (simp add: cover_ask_def Let_def)
  have "q \<in> set (as_required_fields ask) \<Longrightarrow> fq_unknown_allowed q \<or> (\<exists>u\<in>set ?us. fq_field_id q \<in> set (dkeys (un_fields u)))" for q
  proof -
    assume "q \<in> set (as_required_fields ask)"
    then have "(0, q) \<in> set (ask_slots ask)" using target by (simp add: in_ask_slots)
    then have slot: "slot_satisfied (take ?m ?us) (0, q)"
      using cover_ask_complete [OF assms(2)] target unfolding units by simp
    then have "take ?m ?us ! 0 \<in> set ?us" unfolding slot_satisfied_def by (metis fst_conv in_set_takeD nth_mem)
    then show ?thesis using slot by (auto simp: slot_satisfied_def)
  qed
  then have "missing_fields ask ?us = []" by (auto simp: missing_fields_def filter_empty_conv list_ex_iff)
  then show ?thesis using enough target by (simp add: complete_ask_def Let_def) linarith
qed

lemma ask_blockers_clear:
  assumes "\<And>ask. ask \<in> set asks \<Longrightarrow> as_required ask \<Longrightarrow> qa_complete (f ask)"
  shows "concat (map (\<lambda>(q, ask). ask_blocker ask q) (zip (map f asks) asks)) = []"
  using assms by (auto simp: zip_map_self ask_blocker_def)

text \<open>
  C40. The two readings of the validated units agree: when the coverage calls a specification sufficient,
  and every required ask has a positive target, a bound that is not negative and, for
  recommendations, entities without outer blanks, an evaluation that nothing else blocks passes.
\<close>

theorem sufficient_coverage_passes:
  assumes "answer_unit_coverage spec units = Inr v" "av_sufficient v"
    and "emap (read_item answer_unit_from_dict) units = Inr parsed"
    and "list_all (\<lambda>ask. as_required ask \<longrightarrow> comparable_ask parsed ask) (sp_asks spec)"
    and "evaluate_completion_v2 spec units a = Inr r" "v2_entry_blockers a = []"
  shows "c2_passed r \<and> c2_blockers r = []"
proof -
  let ?f = "complete_ask spec parsed"
  have "coverage_sufficient (sp_asks spec) (map (\<lambda>ask. cover_ask (coverage_units spec parsed ask) ask) (sp_asks spec))"
    using assms(1-3) by (auto simp: answer_unit_coverage_def cover_parsed_def Let_def)
  then have sufficient: "\<exists>ask\<in>set (sp_asks spec). as_required ask"
    "\<And>ask. ask \<in> set (sp_asks spec) \<Longrightarrow> as_required ask \<Longrightarrow> ac_complete (cover_ask (coverage_units spec parsed ask) ask)"
    by (auto simp: coverage_sufficient_def zip_map_self list_all_iff list_ex_iff)
  have complete: "qa_complete (?f ask)" if "ask \<in> set (sp_asks spec)" "as_required ask" for ask
    by (rule covered_ask_complete) (use assms(4) sufficient(2) that in \<open>auto simp: list_all_iff\<close>)
  have "v2_decide (sp_asks spec) (map ?f (sp_asks spec)) [] document = V2_SUCCESS" for document
    using complete sufficient(1)
    by (auto simp: v2_decide_def Let_def zip_map_self filter_map comp_def list_all_iff filter_empty_conv)
  then show ?thesis
    using assms(3,5,6) ask_blockers_clear [of "sp_asks spec" ?f] complete
    by (auto simp: evaluate_completion_v2_def c2_passed_def Let_def)
qed

text \<open>Every slot of a specification is either covered or a gap.\<close>

lemma coverage_slots_add_up:
  "av_covered_slots (cover_parsed spec parsed) + length (av_gaps (cover_parsed spec parsed)) = av_slots (cover_parsed spec parsed)"
proof -
  have "sum_list (map (\<lambda>ask. ac_covered_slots (cover_ask (f ask) ask)) asks) + length (concat (map (\<lambda>ask. ask_gaps (f ask) ask) asks))
      = sum_list (map (\<lambda>ask. length (ask_slots ask)) asks)" for f asks
  proof (induction asks)
    case (Cons a asks)
    then show ?case using slots_split [of "f a" a] by (simp add: cover_ask_def Let_def)
  qed simp
  then show ?thesis by (simp add: cover_parsed_def Let_def comp_def)
qed

section \<open>Examples\<close>

definition example_coverage :: answer_coverage where
  "example_coverage = (case answer_unit_coverage example_spec [Obj example_validated] of Inr v \<Rightarrow> v)"

lemma example_coverage_eq: "answer_unit_coverage example_spec [Obj example_validated] = Inr example_coverage"
  by (simp add: answer_unit_coverage_def example_coverage_def read_item_def)

lemma example_coverage_sufficient: "av_sufficient example_coverage"
proof -
  have "av_sufficient (cover_parsed example_spec [example_validated])" by code_simp
  then show ?thesis by (simp add: example_coverage_def answer_unit_coverage_def read_item_def)
qed

lemma example_comparable: "list_all (\<lambda>ask. as_required ask \<longrightarrow> comparable_ask [example_validated] ask) (sp_asks example_spec)"
  by code_simp

lemma example_entry_clear: "v2_entry_blockers example_v2_args = []"
  by code_simp

lemma sufficient_coverage_passes_witness: "c2_passed example_v2 \<and> c2_blockers example_v2 = []"
  by (rule sufficient_coverage_passes [OF example_coverage_eq example_coverage_sufficient _ example_comparable
      example_v2_eq [simplified] example_entry_clear])
    (use emap_Obj [of answer_unit_from_dict "[example_validated]"] in simp)

text \<open>
  Why recommendations need entities without outer blanks: the coverage folds case only, the
  completion authority trims as well, so the two count different units.
\<close>

definition blank_twin :: "string \<Rightarrow> answer_unit" where
  "blank_twin e = example_validated\<lparr>un_entity_ids := [e]\<rparr>"

lemma identities_disagree:
  "length (dedupe_identities [] [blank_twin ''x'', blank_twin '' x'']) = 2 \<and>
   length (dedupe_units [] [blank_twin ''x'', blank_twin '' x'']) = 1"
  by code_simp

end
