(* ===== verification/Control.thy ===== *)
theory Control
  imports Supervisor Termination
begin

text \<open>
  Deterministic control of a run: the check before a second supervisor call
  (\<open>app/research/control/gap_precheck.py\<close>) and the runtime policy that picks the next action
  (\<open>app/research/control/runtime_policy.py\<close>), both on the untyped state.
\<close>

section \<open>Gaps before a second supervisor\<close>

datatype precheck_action = PA_RETRY_EXECUTION | PA_REPAIR_GAP | PA_RESEARCH_COMPLETE | PA_STOP_BUDGET_PARTIAL | PA_STOP_FAILURE

fun precheck_action_value :: "precheck_action \<Rightarrow> string" where
  "precheck_action_value PA_RETRY_EXECUTION = ''RETRY_EXECUTION''"
| "precheck_action_value PA_REPAIR_GAP = ''REPAIR_GAP''"
| "precheck_action_value PA_RESEARCH_COMPLETE = ''RESEARCH_COMPLETE''"
| "precheck_action_value PA_STOP_BUDGET_PARTIAL = ''STOP_BUDGET_PARTIAL''"
| "precheck_action_value PA_STOP_FAILURE = ''STOP_FAILURE''"

record gap_precheck =
  gp_action :: precheck_action
  gp_blocking_gaps :: "string list"
  gp_actionable_gaps :: "string list"
  gp_reason :: string
  gp_supervisor_calls_avoided :: int
  gp_wave :: int
  gp_budget_available :: bool
  gp_blocking_worker_failures :: "string list"

definition gap_precheck_to_dict :: "gap_precheck \<Rightarrow> pydict" where
  "gap_precheck_to_dict g =
     [(''action'', PStr (precheck_action_value (gp_action g))), (''blocking_gaps'', strs (gp_blocking_gaps g)),
      (''actionable_gaps'', strs (gp_actionable_gaps g)), (''reason'', PStr (gp_reason g)),
      (''supervisor_calls_avoided'', PInt (gp_supervisor_calls_avoided g)), (''wave'', PInt (gp_wave g)),
      (''budget_available'', PBool (gp_budget_available g)),
      (''blocking_worker_failures'', strs (gp_blocking_worker_failures g))]"

definition budget_of :: "pydict \<Rightarrow> pydict" where
  "budget_of s = as_dict (pget s ''budget'')"

definition budget_exhausted :: "pydict \<Rightarrow> bool" where
  "budget_exhausted s =
     (truthy (pget (budget_of s) ''exhausted'') \<or> str_or (pget s ''budget_status'') [] = ''exhausted'')"

definition append_new :: "'a \<Rightarrow> 'a list \<Rightarrow> 'a list" where
  "append_new x xs = (if x \<in> set xs then xs else xs @ [x])"

text \<open>One gap row, with its position: its identifier and whether it blocks.\<close>

definition gap_entry :: "nat \<Rightarrow> pyval \<Rightarrow> string \<times> bool" where
  "gap_entry i v =
     (let fallback = ''gap_'' @ nat_str i in
      case v of
        PDict d \<Rightarrow>
          (str_or (por (por (pget d ''gap_id'') (pget d ''criterion_id'')) (pget d ''description'')) fallback,
           truthy (pget_or d ''blocking'' (PBool True)))
      | _ \<Rightarrow> (if py_strip (py_str v) = [] then fallback else py_strip (py_str v), True))"

definition note_gap :: "string \<times> bool \<Rightarrow> string list \<times> string list \<Rightarrow> string list \<times> string list" where
  "note_gap e st =
     (case st of (blocking, actionable) \<Rightarrow>
        if snd e then (blocking @ [fst e], append_new (fst e) actionable) else (blocking, actionable))"

definition collect_gaps :: "pydict \<Rightarrow> string list \<times> string list" where
  "collect_gaps judgement =
     (let gaps = as_list (pget judgement ''gaps''); missing = as_list (pget judgement ''missing'');
          items = (if gaps \<noteq> [] then gaps else missing)
      in fold note_gap (map (\<lambda>(i, v). gap_entry i v) (zip (numbers (length items)) items)) ([], []))"

text \<open>The questions whose coverage is blocked by a failed worker.\<close>

definition failed_question :: "pydict \<Rightarrow> string list res" where
  "failed_question row =
     (if \<not> truthy (pget row ''blocking'') then Inr []
      else ebind (str_list (pget row ''missing_evidence_types'')) (\<lambda>types.
             let qid = py_strip (str_or (pget row ''question_id'') [])
             in Inr (if qid \<noteq> [] \<and> ''worker_failed'' \<in> set types then [qid] else [])))"

definition failed_questions :: "pydict \<Rightarrow> string list res" where
  "failed_questions judgement =
     ebind (dict_rows (pget judgement ''key_question_coverage'')) (\<lambda>rows.
     ebind (emap failed_question rows) (\<lambda>qss. Inr (concat qss)))"

definition note_failed :: "string \<Rightarrow> string list \<times> string list \<Rightarrow> string list \<times> string list" where
  "note_failed qid st =
     (case st of (blocking, actionable) \<Rightarrow>
        (append_new (''worker_failed:'' @ qid) blocking, append_new (''worker_failed:'' @ qid) actionable))"

definition failure_retryable :: "pydict \<Rightarrow> bool res" where
  "failure_retryable task = ebind (attr_get (por (pget task ''failure'') (PDict [])) ''retryable'') (\<lambda>v. Inr (truthy v))"

definition task_failed :: "pyval \<Rightarrow> bool" where
  "task_failed v = (is_dict v \<and> str_or (pget (as_dict v) ''execution_status'') [] = ''failed'')"

text \<open>A comprehension \<open>[k for k, v in tasks.items() if p(v)]\<close> whose test can raise.\<close>

fun keys_where :: "(pyval \<Rightarrow> bool res) \<Rightarrow> pydict \<Rightarrow> string list res" where
  "keys_where p [] = Inr []"
| "keys_where p ((k, v) # d) =
     ebind (p v) (\<lambda>b. ebind (keys_where p d) (\<lambda>ks. Inr (if b then k # ks else ks)))"

definition precheck_result ::
  "precheck_action \<Rightarrow> string \<Rightarrow> int \<Rightarrow> int \<Rightarrow> bool \<Rightarrow> string list \<times> string list \<Rightarrow> string list \<Rightarrow> gap_precheck" where
  "precheck_result action reason avoided wave available gaps failures =
     \<lparr>gp_action = action, gp_blocking_gaps = fst gaps, gp_actionable_gaps = snd gaps, gp_reason = reason,
      gp_supervisor_calls_avoided = avoided, gp_wave = wave, gp_budget_available = available,
      gp_blocking_worker_failures = failures\<rparr>"

definition repair_budget_of :: "pydict \<Rightarrow> int \<Rightarrow> int res" where
  "repair_budget_of s max_repairs =
     (let raw = pget_or (budget_of s) ''max_replan_count'' (PInt max_repairs)
      in if raw = PNone then Inr max_repairs else py_int raw)"

definition retryable_execution :: "pydict \<Rightarrow> string list res" where
  "retryable_execution tasks =
     keys_where (\<lambda>v. if task_failed v then failure_retryable (as_dict v) else Inr False) tasks"

text \<open>The semantic part: repair while gaps and repair budget are left, stop otherwise.\<close>

definition precheck_semantic :: "pydict \<Rightarrow> int \<Rightarrow> int \<Rightarrow> string list \<times> string list \<Rightarrow> gap_precheck res" where
  "precheck_semantic s wave repair_budget gaps =
     ebind (int_or (pget s ''semantic_repairs'') 0) (\<lambda>repairs.
       let exhausted = budget_exhausted s; blocked = (fst gaps \<noteq> []) in Inr
       (if blocked \<and> \<not> exhausted \<and> repairs < repair_budget
          then precheck_result PA_REPAIR_GAP ''blocking_actionable_gap'' 0 wave True gaps []
        else if blocked \<and> (exhausted \<or> repair_budget \<le> repairs)
          then precheck_result PA_STOP_BUDGET_PARTIAL
                 (if exhausted then ''budget_exhausted'' else ''semantic_repair_budget_exhausted'')
                 1 wave (\<not> exhausted) gaps []
        else precheck_result PA_STOP_FAILURE ''no_blocking_actionable_gap'' 1 wave (\<not> exhausted) gaps []))"

definition precheck_decide :: "pydict \<Rightarrow> int \<Rightarrow> int \<Rightarrow> string list \<Rightarrow> string list \<times> string list \<Rightarrow> gap_precheck res" where
  "precheck_decide s max_repairs wave failed gaps =
     (let tasks = as_dict (pget s ''tasks''); available = (\<not> budget_exhausted s)
      in ebind (repair_budget_of s max_repairs) (\<lambda>repair_budget.
         ebind (retryable_execution tasks) (\<lambda>retryable.
           if retryable \<noteq> [] \<or> (failed \<noteq> [] \<and> tasks = [])
             then Inr (precheck_result PA_RETRY_EXECUTION ''retryable_execution_failure'' 1 wave available gaps failed)
           else if truthy (pget (as_dict (pget s ''coverage_judgement'')) ''sufficient'')
             then Inr (precheck_result PA_RESEARCH_COMPLETE ''coverage_sufficient'' 1 wave available gaps [])
           else precheck_semantic s wave repair_budget gaps)))"

definition precheck_gap :: "pydict \<Rightarrow> int \<Rightarrow> gap_precheck res" where
  "precheck_gap s max_repairs =
     (let judgement = as_dict (pget s ''coverage_judgement'')
      in ebind (int_or (pget s ''dispatch_wave_id'') 0) (\<lambda>wave.
         ebind (failed_questions judgement) (\<lambda>failed.
           precheck_decide s max_repairs wave failed (fold note_failed failed (collect_gaps judgement)))))"

section \<open>The runtime policy\<close>

datatype runtime_action = RA_CANCEL | RA_SYNTHESIZE | RA_DELIVER_PARTIAL | RA_FINALIZE_FAILURE | RA_RETRY | RA_WAIT
  | RA_DISPATCH | RA_RUN_SUPERVISOR

fun runtime_action_value :: "runtime_action \<Rightarrow> string" where
  "runtime_action_value RA_CANCEL = ''cancel''"
| "runtime_action_value RA_SYNTHESIZE = ''synthesize''"
| "runtime_action_value RA_DELIVER_PARTIAL = ''deliver_partial''"
| "runtime_action_value RA_FINALIZE_FAILURE = ''finalize_failure''"
| "runtime_action_value RA_RETRY = ''retry''"
| "runtime_action_value RA_WAIT = ''wait''"
| "runtime_action_value RA_DISPATCH = ''dispatch''"
| "runtime_action_value RA_RUN_SUPERVISOR = ''run_supervisor''"

record runtime_decision =
  rd_action :: runtime_action
  rd_reason_codes :: "string list"
  rd_task_ids :: "string list"

abbreviation runtime_decide :: "runtime_action \<Rightarrow> string list \<Rightarrow> string list \<Rightarrow> runtime_decision" where
  "runtime_decide a reasons ids \<equiv> \<lparr>rd_action = a, rd_reason_codes = reasons, rd_task_ids = ids\<rparr>"

definition max_execution_attempts :: int where
  "max_execution_attempts = 3"

definition usable_evidence :: "pydict \<Rightarrow> bool res" where
  "usable_evidence s =
     ebind (dict_rows (pget s ''evidence_records'')) (\<lambda>records.
       if records \<noteq> [] then Inr True
       else if is_dict (pget s ''evidence_assessment'')
         then ebind (int_or (pget (as_dict (pget s ''evidence_assessment'')) ''evidence_count'') 0) (\<lambda>n. Inr (0 < n))
       else Inr False)"

definition criterion_answerable :: "pydict \<Rightarrow> bool" where
  "criterion_answerable row =
     (str_or (pget row ''status'') [] \<in> {''supported'', ''partial''} \<and> truthy (pget row ''evidence_ids''))"

definition finding_grounded :: "pyval \<Rightarrow> bool" where
  "finding_grounded v =
     (is_dict v \<and> py_strip (str_or (por (pget (as_dict v) ''claim'') (pget (as_dict v) ''summary'')) []) \<noteq> []
      \<and> (truthy (pget (as_dict v) ''evidence_ids'') \<or> truthy (pget (as_dict v) ''artifact_ids'')))"

definition answerable_user_ask :: "pydict \<Rightarrow> bool res" where
  "answerable_user_ask s =
     ebind (usable_evidence s) (\<lambda>usable.
       if \<not> usable then Inr False
       else ebind (if is_dict (pget s ''answerability'') then dict_rows (pget (as_dict (pget s ''answerability'')) ''question_status'') else Inr []) (\<lambda>statuses.
         if statuses \<noteq> [] then Inr (list_ex (\<lambda>row. truthy (pget row ''answerable'')) statuses)
         else ebind (if is_dict (pget s ''coverage_judgement'') then dict_rows (pget (as_dict (pget s ''coverage_judgement'')) ''criteria'') else Inr []) (\<lambda>criteria.
           if criteria \<noteq> [] then Inr (list_ex criterion_answerable criteria)
           else ebind (iter_or_empty (pget s ''findings'')) (\<lambda>findings. Inr (list_ex finding_grounded findings)))))"

definition coverage_sufficient :: "pydict \<Rightarrow> bool" where
  "coverage_sufficient s = truthy (pget (as_dict (pget s ''coverage_judgement'')) ''sufficient'')"

definition task_retryable :: "pyval \<Rightarrow> bool res" where
  "task_retryable v =
     (if task_failed v
      then ebind (failure_retryable (as_dict v)) (\<lambda>b.
             if b then ebind (int_or (pget (as_dict v) ''attempt'') 0) (\<lambda>n. Inr (n < max_execution_attempts))
             else Inr False)
      else Inr False)"

definition retryable_tasks :: "pydict \<Rightarrow> string list res" where
  "retryable_tasks s = ebind (dict_or_empty (pget s ''tasks'')) (keys_where task_retryable)"

definition stop_decision :: "pydict \<Rightarrow> string \<Rightarrow> runtime_decision res" where
  "stop_decision s reason =
     ebind (answerable_user_ask s) (\<lambda>b. Inr
       (if b then runtime_decide RA_DELIVER_PARTIAL [reason, ''answerable_user_ask''] []
        else runtime_decide RA_FINALIZE_FAILURE [reason, ''no_answerable_user_ask''] []))"

text \<open>\<open>_coverage_sufficient(state) and _usable_evidence(state)\<close>.\<close>

definition sufficient_and_usable :: "pydict \<Rightarrow> bool res" where
  "sufficient_and_usable s = (if coverage_sufficient s then usable_evidence s else Inr False)"

definition requested_tasks :: "pydict \<Rightarrow> pydict \<Rightarrow> string list res" where
  "requested_tasks supervisor tasks =
     ebind (dict_rows (pget supervisor ''research_tasks'')) (\<lambda>rows.
       let ids = filter (\<lambda>i. py_strip i \<noteq> []) (map (\<lambda>row. str_or (pget row ''task_id'') []) rows)
       in if ids \<noteq> [] then Inr ids
          else keys_where (\<lambda>v. ebind (attr_get v ''execution_status'') (\<lambda>st. Inr (str_or st [] = ''pending''))) tasks)"

text \<open>What is decided once no budget stop, internal error or retry is pending.\<close>

definition decide_semantic :: "pydict \<Rightarrow> string \<Rightarrow> string list \<Rightarrow> pydict \<Rightarrow> runtime_decision res" where
  "decide_semantic s action running tasks =
     (if action = ''COMPLETE''
        then ebind (usable_evidence s) (\<lambda>usable. Inr
               (if usable then runtime_decide RA_SYNTHESIZE [''supervisor_complete'', ''usable_evidence''] []
                else runtime_decide RA_FINALIZE_FAILURE [''supervisor_complete'', ''no_usable_evidence''] []))
      else if running \<noteq> [] then Inr (runtime_decide RA_WAIT [''workers_running''] running)
      else ebind (requested_tasks (as_dict (pget s ''supervisor_action'')) tasks) (\<lambda>requested.
        if action = ''CONDUCT_RESEARCH'' \<and> requested \<noteq> []
          then Inr (runtime_decide RA_DISPATCH [''supervisor_conduct_research''] requested)
        else ebind (sufficient_and_usable s) (\<lambda>ready.
          if ready then Inr (runtime_decide RA_SYNTHESIZE [''coverage_sufficient''] [])
          else ebind (answerable_user_ask s) (\<lambda>answerable. Inr
            (if answerable then runtime_decide RA_DELIVER_PARTIAL [''answerable_user_ask''] []
             else runtime_decide RA_RUN_SUPERVISOR [''semantic_strategy_required''] [])))))"

definition decide_active :: "pydict \<Rightarrow> string \<Rightarrow> int \<Rightarrow> pydict \<Rightarrow> string list \<Rightarrow> runtime_decision res" where
  "decide_active s action iteration_limit tasks retryable =
     (let running = map fst (filter (\<lambda>kv. is_dict (snd kv)
               \<and> str_or (pget (as_dict (snd kv)) ''execution_status'') [] = ''running'') tasks)
      in if retryable \<noteq> [] then Inr (runtime_decide RA_RETRY [''transient_execution_failure''] retryable)
         else if action \<in> {''STOP_BUDGET_PARTIAL'', ''STOP_FAILURE''} then stop_decision s (py_lower action)
         else ebind (int_or (pget (as_dict (pget s ''supervisor'')) ''iteration'') 0) (\<lambda>iteration.
           if iteration_limit < iteration \<and> action \<noteq> ''COMPLETE'' then stop_decision s ''supervisor_iteration_limit''
           else decide_semantic s action running tasks))"

definition supervisor_action_of :: "pydict \<Rightarrow> string" where
  "supervisor_action_of s = str_or (pget (as_dict (pget s ''supervisor_action'')) ''action'') []"

definition decide_running :: "pydict \<Rightarrow> runtime_decision res" where
  "decide_running s =
     (let raw_limit = pget (budget_of s) ''max_replan_count''
      in ebind (if raw_limit = PNone then Inr 3 else ebind (py_int raw_limit) (\<lambda>n. Inr (max 0 n))) (\<lambda>iteration_limit.
         ebind (dict_or_empty (pget s ''tasks'')) (\<lambda>tasks.
         ebind (retryable_tasks s) (\<lambda>retryable.
           decide_active s (supervisor_action_of s) iteration_limit tasks retryable))))"

definition budget_stop_decision :: "pydict \<Rightarrow> runtime_decision res" where
  "budget_stop_decision s =
     ebind (sufficient_and_usable s) (\<lambda>ready.
       if ready then Inr (runtime_decide RA_SYNTHESIZE [''budget_stop'', ''coverage_sufficient''] [])
       else stop_decision s ''budget_stop'')"

definition decide_control :: "pydict \<Rightarrow> runtime_decision res" where
  "decide_control s =
     (if str_or (pget s ''cancel_reason'') [] \<noteq> [] then Inr (runtime_decide RA_CANCEL [''user_cancelled''] [])
      else if budget_exhausted s then budget_stop_decision s
      else if is_dict (pget s ''internal_error'') \<and> truthy (pget s ''internal_error'')
        then stop_decision s ''internal_error''
      else decide_running s)"

end
