(* ===== verification/ControlProps.thy ===== *)
theory ControlProps
  imports Control
begin

text \<open>
  What the control decisions guarantee: an action is only taken on the facts that justify it, an
  exhausted budget admits no further work, and the check before a second supervisor asks for a
  repair only while blocking gaps and repair budget are left.
\<close>

section \<open>The runtime policy\<close>

lemma keys_where_member:
  "keys_where p d = Inr ks \<Longrightarrow> k \<in> set ks \<Longrightarrow> \<exists>v. (k, v) \<in> set d \<and> p v = Inr True"
proof (induction p d arbitrary: ks rule: keys_where.induct)
  case (2 p k' v d)
  then obtain b rest where "p v = Inr b" "keys_where p d = Inr rest" "ks = (if b then k' # rest else rest)"
    by (auto simp: ebind_eq_Inr)
  then show ?case using 2 by (cases b) auto
qed simp

definition retry_justified :: "pydict \<Rightarrow> string \<Rightarrow> bool" where
  "retry_justified s k \<longleftrightarrow>
     (\<exists>tasks task n. pget s ''tasks'' = PDict tasks \<and> (k, PDict task) \<in> set tasks \<and>
        str_or (pget task ''execution_status'') [] = ''failed'' \<and> failure_retryable task = Inr True \<and>
        int_or (pget task ''attempt'') 0 = Inr n \<and> n < max_execution_attempts)"

lemma dict_or_empty_member:
  "dict_or_empty v = Inr d \<Longrightarrow> kv \<in> set d \<Longrightarrow> v = PDict d"
  by (auto simp: dict_or_empty_def split: if_splits pyval.splits)

lemma retryable_tasks_justified:
  assumes "retryable_tasks s = Inr ks" "k \<in> set ks"
  shows "retry_justified s k"
proof -
  obtain d where d: "dict_or_empty (pget s ''tasks'') = Inr d" "keys_where task_retryable d = Inr ks"
    using assms(1) by (auto simp: retryable_tasks_def ebind_eq_Inr)
  obtain v where v: "(k, v) \<in> set d" "task_retryable v = Inr True"
    using keys_where_member [OF d(2) assms(2)] by blast
  then obtain task where "v = PDict task"
    by (auto simp: task_retryable_def task_failed_def is_dict_iff split: if_splits)
  then show ?thesis
    using v dict_or_empty_member [OF d(1) v(1)]
    by (auto simp: retry_justified_def task_retryable_def task_failed_def ebind_eq_Inr split: if_splits)
qed

text \<open>The facts an action needs.\<close>

fun action_justified :: "pydict \<Rightarrow> runtime_decision \<Rightarrow> bool" where
  "action_justified s d =
     (case rd_action d of
        RA_CANCEL \<Rightarrow> str_or (pget s ''cancel_reason'') [] \<noteq> []
      | RA_SYNTHESIZE \<Rightarrow> usable_evidence s = Inr True
      | RA_DELIVER_PARTIAL \<Rightarrow> answerable_user_ask s = Inr True
      | RA_FINALIZE_FAILURE \<Rightarrow> answerable_user_ask s = Inr False \<or> usable_evidence s = Inr False
      | RA_RETRY \<Rightarrow> rd_task_ids d \<noteq> [] \<and> \<not> budget_exhausted s \<and> (\<forall>k\<in>set (rd_task_ids d). retry_justified s k)
      | RA_WAIT \<Rightarrow> rd_task_ids d \<noteq> [] \<and> \<not> budget_exhausted s
      | RA_DISPATCH \<Rightarrow> rd_task_ids d \<noteq> [] \<and> \<not> budget_exhausted s \<and>
          supervisor_action_of s = ''CONDUCT_RESEARCH''
      | RA_RUN_SUPERVISOR \<Rightarrow> answerable_user_ask s = Inr False \<and> \<not> budget_exhausted s)"

declare action_justified.simps [simp del]

lemma stop_decision_justified: "stop_decision s r = Inr d \<Longrightarrow> action_justified s d"
  by (auto simp: stop_decision_def ebind_eq_Inr action_justified.simps split: if_splits)

lemma stop_decision_stops:
  "stop_decision s r = Inr d \<Longrightarrow> rd_action d = RA_DELIVER_PARTIAL \<or> rd_action d = RA_FINALIZE_FAILURE"
  by (auto simp: stop_decision_def ebind_eq_Inr split: if_splits)

lemma sufficient_and_usable_True: "sufficient_and_usable s = Inr True \<Longrightarrow> usable_evidence s = Inr True"
  by (simp add: sufficient_and_usable_def split: if_splits)

lemma decide_semantic_justified:
  assumes "decide_semantic s (supervisor_action_of s) running tasks = Inr d" "\<not> budget_exhausted s"
  shows "action_justified s d"
  using assms
  by (auto simp: decide_semantic_def ebind_eq_Inr action_justified.simps
      dest: sufficient_and_usable_True split: if_splits)

lemma decide_active_justified:
  assumes "decide_active s (supervisor_action_of s) iteration_limit tasks retryable = Inr d" "\<not> budget_exhausted s"
    and "retryable_tasks s = Inr retryable"
  shows "action_justified s d"
proof (cases "retryable = []")
  case False
  then show ?thesis
    using assms retryable_tasks_justified [OF assms(3)] by (auto simp: decide_active_def action_justified.simps)
next
  case True
  then show ?thesis
    using assms(1,2) stop_decision_justified decide_semantic_justified
    by (auto simp: decide_active_def Let_def ebind_eq_Inr split: if_splits)
qed

lemma decide_running_justified:
  assumes "decide_running s = Inr d" "\<not> budget_exhausted s"
  shows "action_justified s d"
proof -
  obtain iteration_limit tasks retryable where "retryable_tasks s = Inr retryable"
    "decide_active s (supervisor_action_of s) iteration_limit tasks retryable = Inr d"
    using assms(1) unfolding decide_running_def Let_def ebind_eq_Inr by blast
  then show ?thesis using assms(2) decide_active_justified by blast
qed

lemma budget_stop_justified: "budget_stop_decision s = Inr d \<Longrightarrow> action_justified s d"
  using stop_decision_justified sufficient_and_usable_True
  by (auto simp: budget_stop_decision_def ebind_eq_Inr action_justified.simps split: if_splits)

text \<open>C26. Every control decision is justified by the state: synthesis needs usable evidence, partial
  delivery an answerable ask, a retry failed tasks that are retryable and below three attempts,
  dispatch a request of the supervisor; retries, waiting, dispatch and another supervisor call need
  a budget that is not exhausted.
\<close>

theorem control_decision_justified:
  assumes "decide_control s = Inr d"
  shows "action_justified s d"
proof (cases "str_or (pget s ''cancel_reason'') [] = []")
  case True
  then show ?thesis
    using assms budget_stop_justified stop_decision_justified decide_running_justified
    unfolding decide_control_def by (metis (full_types))
next
  case False
  then show ?thesis using assms by (auto simp: decide_control_def action_justified.simps)
qed

text \<open>An exhausted budget stops the run: without a cancellation the decision is synthesis, partial
  delivery or failure, whatever tasks are running, retryable or requested.
\<close>

theorem exhausted_budget_stops:
  assumes "decide_control s = Inr d" "budget_exhausted s" "str_or (pget s ''cancel_reason'') [] = []"
  shows "rd_action d \<in> {RA_SYNTHESIZE, RA_DELIVER_PARTIAL, RA_FINALIZE_FAILURE}"
  using assms stop_decision_stops
  by (auto simp: decide_control_def budget_stop_decision_def ebind_eq_Inr split: if_splits)

section \<open>The precheck\<close>

definition gaps_agree :: "string list \<times> string list \<Rightarrow> bool" where
  "gaps_agree st \<longleftrightarrow> set (snd st) = set (fst st) \<and> distinct (snd st)"

lemma append_new_set [simp]: "set (append_new x xs) = insert x (set xs)"
  by (auto simp: append_new_def)

lemma append_new_distinct [simp]: "distinct (append_new x xs) \<longleftrightarrow> distinct xs"
  by (auto simp: append_new_def)

lemma note_gap_agree: "gaps_agree st \<Longrightarrow> gaps_agree (note_gap e st)"
  by (cases st) (auto simp: note_gap_def gaps_agree_def)

lemma note_failed_agree: "gaps_agree st \<Longrightarrow> gaps_agree (note_failed q st)"
  by (cases st) (auto simp: note_failed_def gaps_agree_def)

lemma fold_agree: "(\<And>x st. gaps_agree st \<Longrightarrow> gaps_agree (f x st)) \<Longrightarrow> gaps_agree st \<Longrightarrow> gaps_agree (fold f xs st)"
  by (induction xs arbitrary: st) auto

lemma collected_agree: "gaps_agree (fold note_failed qs (collect_gaps judgement))"
  unfolding collect_gaps_def Let_def
  by (intro fold_agree note_failed_agree note_gap_agree) (auto simp: gaps_agree_def)

text \<open>What each precheck verdict says of the state.\<close>

definition repair_left :: "pydict \<Rightarrow> int \<Rightarrow> bool" where
  "repair_left s max_repairs \<longleftrightarrow>
     (\<exists>budget repairs. repair_budget_of s max_repairs = Inr budget \<and>
        int_or (pget s ''semantic_repairs'') 0 = Inr repairs \<and> repairs < budget)"

definition precheck_justified :: "pydict \<Rightarrow> int \<Rightarrow> gap_precheck \<Rightarrow> bool" where
  "precheck_justified s max_repairs g \<longleftrightarrow>
     (let sufficient = truthy (pget (as_dict (pget s ''coverage_judgement'')) ''sufficient'')
      in case gp_action g of
           PA_RETRY_EXECUTION \<Rightarrow> True
         | PA_RESEARCH_COMPLETE \<Rightarrow> sufficient
         | PA_REPAIR_GAP \<Rightarrow> \<not> sufficient \<and> gp_blocking_gaps g \<noteq> [] \<and> \<not> budget_exhausted s \<and> repair_left s max_repairs
         | PA_STOP_BUDGET_PARTIAL \<Rightarrow>
             \<not> sufficient \<and> gp_blocking_gaps g \<noteq> [] \<and> (budget_exhausted s \<or> \<not> repair_left s max_repairs)
         | PA_STOP_FAILURE \<Rightarrow> \<not> sufficient \<and> gp_blocking_gaps g = [])"

lemma precheck_result_simps [simp]:
  "gp_action (precheck_result action reason n w b gaps fs) = action"
  "gp_blocking_gaps (precheck_result action reason n w b gaps fs) = fst gaps"
  "gp_actionable_gaps (precheck_result action reason n w b gaps fs) = snd gaps"
  by (simp_all add: precheck_result_def)

lemma precheck_result_inject [simp]:
  "precheck_result action reason n w b gaps fs = precheck_result action' reason' n' w' b' gaps' fs' \<longleftrightarrow>
     action = action' \<and> reason = reason' \<and> n = n' \<and> w = w' \<and> b = b' \<and> gaps = gaps' \<and> fs = fs'"
  by (auto simp: precheck_result_def prod_eq_iff)

lemma precheck_semantic_justified:
  assumes "precheck_semantic s wave repair_budget gaps = Inr g"
    and "repair_budget_of s max_repairs = Inr repair_budget"
    and "\<not> truthy (pget (as_dict (pget s ''coverage_judgement'')) ''sufficient'')"
  shows "precheck_justified s max_repairs g \<and> gp_blocking_gaps g = fst gaps \<and> gp_actionable_gaps g = snd gaps"
  using assms
  by (auto simp: precheck_semantic_def ebind_eq_Inr Let_def precheck_justified_def repair_left_def split: if_splits)

lemma precheck_decide_justified:
  assumes "precheck_decide s max_repairs wave failed gaps = Inr g"
  shows "precheck_justified s max_repairs g \<and> gp_blocking_gaps g = fst gaps \<and> gp_actionable_gaps g = snd gaps"
proof -
  obtain repair_budget and retryable :: "string list" where budget: "repair_budget_of s max_repairs = Inr repair_budget"
    and g: "(if retryable \<noteq> [] \<or> (failed \<noteq> [] \<and> as_dict (pget s ''tasks'') = [])
             then Inr (precheck_result PA_RETRY_EXECUTION ''retryable_execution_failure'' 1 wave (\<not> budget_exhausted s) gaps failed)
           else if truthy (pget (as_dict (pget s ''coverage_judgement'')) ''sufficient'')
             then Inr (precheck_result PA_RESEARCH_COMPLETE ''coverage_sufficient'' 1 wave (\<not> budget_exhausted s) gaps [])
           else precheck_semantic s wave repair_budget gaps) = Inr g"
    using assms unfolding precheck_decide_def Let_def ebind_eq_Inr by blast
  show ?thesis
  proof (cases "retryable \<noteq> [] \<or> (failed \<noteq> [] \<and> as_dict (pget s ''tasks'') = []) \<or>
      truthy (pget (as_dict (pget s ''coverage_judgement'')) ''sufficient'')")
    case True
    then show ?thesis using g by (auto simp: precheck_justified_def split: if_splits)
  next
    case False
    then show ?thesis using g budget by (intro precheck_semantic_justified) auto
  qed
qed

text \<open>The verdict of the precheck: research is complete only when coverage is sufficient; a repair is
  asked for only when blocking gaps remain, the budget is not exhausted and the repair counter is
  below its limit; the stops say which of these failed.  The actionable gaps are the blocking
  gaps, each once.
\<close>

theorem precheck_verdict_justified:
  assumes "precheck_gap s max_repairs = Inr g"
  shows "precheck_justified s max_repairs g \<and>
    set (gp_actionable_gaps g) = set (gp_blocking_gaps g) \<and> distinct (gp_actionable_gaps g)"
proof -
  obtain wave failed where "precheck_decide s max_repairs wave failed
      (fold note_failed failed (collect_gaps (as_dict (pget s ''coverage_judgement'')))) = Inr g"
    using assms by (auto simp: precheck_gap_def Let_def ebind_eq_Inr)
  from precheck_decide_justified [OF this] show ?thesis
    using collected_agree [of failed] by (simp add: gaps_agree_def)
qed

text \<open>
  The precheck has five answers; the values its caller compares with, a synthesis and a targeted
  research, are not among them.
\<close>

lemma precheck_never_synthesizes:
  "precheck_action_value (gp_action g) \<notin> {''SYNTHESIZE'', ''TARGETED_RESEARCH''}"
  by (cases "gp_action g") simp_all

text \<open>
  The precheck asks for a retry of a task the runtime policy will not retry any more: it does not
  look at the number of attempts.
\<close>

definition example_spent_state :: pydict where
  "example_spent_state = [(''tasks'', PDict [(''t1'', PDict [(''execution_status'', PStr ''failed''),
     (''attempt'', PInt 3), (''failure'', PDict [(''retryable'', PBool True)])])]),
     (''supervisor_action'', PDict [(''action'', PStr ''COMPLETE'')])]"

lemma precheck_retry_unbounded:
  "\<exists>g d. precheck_gap example_spent_state 1 = Inr g \<and> gp_action g = PA_RETRY_EXECUTION \<and>
     decide_control example_spent_state = Inr d \<and> rd_action d = RA_FINALIZE_FAILURE"
proof (intro exI conjI)
  show "precheck_gap example_spent_state 1 = Inr (case precheck_gap example_spent_state 1 of Inr g \<Rightarrow> g)"
    "gp_action (case precheck_gap example_spent_state 1 of Inr g \<Rightarrow> g) = PA_RETRY_EXECUTION"
    "decide_control example_spent_state = Inr (case decide_control example_spent_state of Inr d \<Rightarrow> d)"
    "rd_action (case decide_control example_spent_state of Inr d \<Rightarrow> d) = RA_FINALIZE_FAILURE"
    by code_simp+
qed

section \<open>Examples\<close>

definition example_failed_state :: pydict where
  "example_failed_state = [(''tasks'', PDict [(''t1'', PDict [(''execution_status'', PStr ''failed''),
     (''attempt'', PInt 1), (''failure'', PDict [(''retryable'', PBool True)])])])]"

lemma control_decision_justified_witness:
  "action_justified example_failed_state
     (runtime_decide RA_RETRY [''transient_execution_failure''] [''t1''])"
  by (rule control_decision_justified) code_simp

definition example_exhausted_state :: pydict where
  "example_exhausted_state = (''budget_status'', PStr ''exhausted'') # example_failed_state"

lemma exhausted_budget_stops_witness:
  "rd_action (runtime_decide RA_FINALIZE_FAILURE [''budget_stop'', ''no_answerable_user_ask''] [])
     \<in> {RA_SYNTHESIZE, RA_DELIVER_PARTIAL, RA_FINALIZE_FAILURE}"
  by (rule exhausted_budget_stops [of example_exhausted_state]) code_simp+

definition example_gap_state :: pydict where
  "example_gap_state = [(''coverage_judgement'', PDict [(''gaps'', PList
     [PDict [(''gap_id'', PStr ''g1'')], PStr ''g1'', PDict [(''blocking'', PBool False)]])])]"

lemma precheck_verdict_justified_witness:
  "precheck_justified example_gap_state 1
     (precheck_result PA_REPAIR_GAP ''blocking_actionable_gap'' 0 0 True ([''g1'', ''g1''], [''g1'']) []) \<and>
   set [''g1''] = set [''g1'', ''g1''] \<and> distinct [''g1'']"
proof -
  let ?g = "precheck_result PA_REPAIR_GAP ''blocking_actionable_gap'' 0 0 True ([''g1'', ''g1''], [''g1'']) []"
  have "precheck_gap example_gap_state 1 = Inr ?g" by code_simp
  from precheck_verdict_justified [OF this] show ?thesis by simp
qed

end
