(* ===== verification/RunQueue.thy ===== *)
theory RunQueue
  imports Prelude
begin

text \<open>
  The durable queue between the API and the workers (\<open>app/run_queue/service.py\<close>) and the worker
  loop's use of it (\<open>app/run_queue/worker.py\<close>).  The table is the list of its rows in insertion
  order.  A timestamp is its instant in microseconds: the texts of the table come from one clock
  format, whose order is that of the instants, and every operation takes the instants it reads.
  Rows of equal age are taken in insertion order.
\<close>

section \<open>Rows\<close>

datatype job_status = JQ_PENDING | JQ_RUNNING | JQ_COMPLETED | JQ_FAILED

fun job_status_value :: "job_status \<Rightarrow> string" where
  "job_status_value JQ_PENDING = ''pending''"
| "job_status_value JQ_RUNNING = ''running''"
| "job_status_value JQ_COMPLETED = ''completed''"
| "job_status_value JQ_FAILED = ''failed''"

record run_job =
  rj_job_id :: string
  rj_session_id :: string
  rj_query :: string
  rj_mode :: string
  rj_user_id :: string
  rj_tenant_id :: string
  rj_project_id :: string
  rj_status :: job_status
  rj_claimed_by :: "string option"
  rj_created_at :: int
  rj_updated_at :: int
  rj_claimed_at :: "int option"
  rj_heartbeat_at :: "int option"
  rj_error :: string

type_synonym job_table = "run_job list"

definition or_default :: "string \<Rightarrow> string \<Rightarrow> string" where
  "or_default s d = (if s = [] then d else s)"

text \<open>Reading a row fills in the column defaults for empty values.\<close>

definition job_from_row :: "run_job \<Rightarrow> run_job" where
  "job_from_row r =
     r\<lparr>rj_mode := or_default (rj_mode r) ''agent'', rj_user_id := or_default (rj_user_id r) ''me'',
       rj_tenant_id := or_default (rj_tenant_id r) ''local'', rj_project_id := or_default (rj_project_id r) ''Inbox''\<rparr>"

section \<open>Operations\<close>

definition find_job :: "job_table \<Rightarrow> string \<Rightarrow> run_job option" where
  "find_job q i = find (\<lambda>r. rj_job_id r = i) q"

definition get_job :: "job_table \<Rightarrow> string \<Rightarrow> run_job option" where
  "get_job q i = map_option job_from_row (find_job q i)"

record enqueue_args =
  ea_job_id :: string
  ea_session_id :: string
  ea_query :: string
  ea_mode :: string
  ea_user_id :: string
  ea_tenant_id :: string
  ea_project_id :: string

definition new_job :: "enqueue_args \<Rightarrow> int \<Rightarrow> run_job" where
  "new_job a now =
     \<lparr>rj_job_id = ea_job_id a, rj_session_id = ea_session_id a, rj_query = ea_query a, rj_mode = ea_mode a,
      rj_user_id = ea_user_id a, rj_tenant_id = ea_tenant_id a, rj_project_id = ea_project_id a,
      rj_status = JQ_PENDING, rj_claimed_by = None, rj_created_at = now, rj_updated_at = now,
      rj_claimed_at = None, rj_heartbeat_at = None, rj_error = []\<rparr>"

text \<open>The job identifier is the primary key.\<close>

definition enqueue :: "job_table \<Rightarrow> enqueue_args \<Rightarrow> int \<Rightarrow> (job_table \<times> run_job option) res" where
  "enqueue q a now =
     (if find_job q (ea_job_id a) \<noteq> None then Inl (IntegrityError ''UNIQUE constraint failed: run_jobs.job_id'')
      else let q' = q @ [new_job a now] in Inr (q', get_job q' (ea_job_id a)))"

fun oldest :: "run_job list \<Rightarrow> run_job option" where
  "oldest [] = None"
| "oldest (r # rs) =
     (case oldest rs of None \<Rightarrow> Some r
      | Some s \<Rightarrow> if rj_created_at r \<le> rj_created_at s then Some r else Some s)"

definition oldest_pending :: "job_table \<Rightarrow> run_job option" where
  "oldest_pending q = oldest (filter (\<lambda>r. rj_status r = JQ_PENDING) q)"

definition mark_claimed :: "string \<Rightarrow> int \<Rightarrow> run_job \<Rightarrow> run_job" where
  "mark_claimed worker now r =
     r\<lparr>rj_status := JQ_RUNNING, rj_claimed_by := Some worker, rj_claimed_at := Some now,
       rj_heartbeat_at := Some now, rj_updated_at := now\<rparr>"

definition claim_next :: "job_table \<Rightarrow> string \<Rightarrow> int \<Rightarrow> job_table \<times> run_job option" where
  "claim_next q worker now =
     (case oldest_pending q of
        None \<Rightarrow> (q, None)
      | Some row \<Rightarrow>
          let q' = map (\<lambda>r. if rj_job_id r = rj_job_id row \<and> rj_status r = JQ_PENDING
                            then mark_claimed worker now r else r) q
          in (q', get_job q' (rj_job_id row)))"

text \<open>The rows an owner updates: \<open>WHERE job_id=? AND claimed_by=?\<close>.\<close>

definition update_owned :: "string \<Rightarrow> string \<Rightarrow> (run_job \<Rightarrow> run_job) \<Rightarrow> job_table \<Rightarrow> job_table" where
  "update_owned i worker f q = map (\<lambda>r. if rj_job_id r = i \<and> rj_claimed_by r = Some worker then f r else r) q"

definition heartbeat_job :: "job_table \<Rightarrow> string \<Rightarrow> string \<Rightarrow> int \<Rightarrow> int \<Rightarrow> job_table" where
  "heartbeat_job q i worker beat now =
     update_owned i worker (\<lambda>r. r\<lparr>rj_heartbeat_at := Some beat, rj_updated_at := now\<rparr>) q"

definition complete_job :: "job_table \<Rightarrow> string \<Rightarrow> string \<Rightarrow> int \<Rightarrow> job_table" where
  "complete_job q i worker now =
     update_owned i worker (\<lambda>r. r\<lparr>rj_status := JQ_COMPLETED, rj_updated_at := now\<rparr>) q"

definition fail_job :: "job_table \<Rightarrow> string \<Rightarrow> string \<Rightarrow> string \<Rightarrow> int \<Rightarrow> job_table" where
  "fail_job q i worker err now =
     update_owned i worker (\<lambda>r. r\<lparr>rj_status := JQ_FAILED, rj_error := take_chars 2000 err, rj_updated_at := now\<rparr>) q"

text \<open>Newest first, at most \<open>limit\<close> rows unless it is negative, of one status unless it is empty.\<close>

definition list_jobs :: "job_table \<Rightarrow> string \<Rightarrow> int \<Rightarrow> run_job list" where
  "list_jobs q status limit =
     (let rows = sort_key (\<lambda>r. - rj_created_at r)
                   (if status = [] then q else filter (\<lambda>r. job_status_value (rj_status r) = status) q)
      in map job_from_row (if limit < 0 then rows else take (nat limit) rows))"

section \<open>The worker\<close>

datatype job_outcome = Job_done | Job_cancelled | Job_raised string

datatype once_result = Idle | Worked | Raised_cancelled

text \<open>
  One round of a worker is a claim and, after the execution of the job, a settlement; other
  processes act on the table in between.
\<close>

definition settle_job :: "job_table \<Rightarrow> string \<Rightarrow> run_job \<Rightarrow> job_outcome \<Rightarrow> int \<Rightarrow> job_table \<times> once_result" where
  "settle_job q worker job outcome now =
     (case outcome of
        Job_done \<Rightarrow> (complete_job q (rj_job_id job) worker now, Worked)
      | Job_cancelled \<Rightarrow> (fail_job q (rj_job_id job) worker ''cancelled'' now, Raised_cancelled)
      | Job_raised err \<Rightarrow> (fail_job q (rj_job_id job) worker err now, Worked))"

definition run_once ::
  "job_table \<Rightarrow> string \<Rightarrow> int \<Rightarrow> (job_table \<Rightarrow> job_table) \<Rightarrow> (run_job \<Rightarrow> job_outcome) \<Rightarrow> int \<Rightarrow> job_table \<times> once_result" where
  "run_once q worker claim_time meanwhile execute settle_time =
     (case claim_next q worker claim_time of
        (q', None) \<Rightarrow> (q', Idle)
      | (q', Some job) \<Rightarrow> settle_job (meanwhile q') worker job (execute job) settle_time)"

section \<open>Histories\<close>

datatype queue_op =
    Enqueue enqueue_args int
  | Claim string int
  | Heartbeat string string int int
  | Complete string string int
  | Fail string string string int

text \<open>The table after an operation, and the job and worker of a claim it granted.\<close>

fun queue_step :: "job_table \<Rightarrow> queue_op \<Rightarrow> job_table \<times> (string \<times> string) list" where
  "queue_step q (Enqueue a now) = (case enqueue q a now of Inl e \<Rightarrow> (q, []) | Inr (q', r) \<Rightarrow> (q', []))"
| "queue_step q (Claim w now) =
     (case claim_next q w now of (q', None) \<Rightarrow> (q', []) | (q', Some j) \<Rightarrow> (q', [(rj_job_id j, w)]))"
| "queue_step q (Heartbeat i w beat now) = (heartbeat_job q i w beat now, [])"
| "queue_step q (Complete i w now) = (complete_job q i w now, [])"
| "queue_step q (Fail i w err now) = (fail_job q i w err now, [])"

inductive queue_history :: "job_table \<Rightarrow> (string \<times> string) list \<Rightarrow> bool" where
  empty_queue: "queue_history [] []"
| queue_op: "queue_history q grants \<Longrightarrow> queue_step q op = (q', granted) \<Longrightarrow> queue_history q' (grants @ granted)"

inductive_cases queue_history_cases: "queue_history q grants"

fun exec_queue :: "job_table \<Rightarrow> queue_op list \<Rightarrow> job_table \<times> (string \<times> string) list" where
  "exec_queue q [] = (q, [])"
| "exec_queue q (op # ops) =
     (case queue_step q op of (q', granted) \<Rightarrow>
        case exec_queue q' ops of (q'', later) \<Rightarrow> (q'', granted @ later))"

lemma exec_queue_history: "queue_history q grants \<Longrightarrow> exec_queue q ops = (q', granted) \<Longrightarrow> queue_history q' (grants @ granted)"
proof (induction ops arbitrary: q grants q' granted)
  case (Cons op ops)
  obtain q1 g1 where step: "queue_step q op = (q1, g1)" by fastforce
  obtain q2 g2 where rest: "exec_queue q1 ops = (q2, g2)" by fastforce
  have "queue_history q1 (grants @ g1)" by (rule queue_op [OF Cons.prems(1) step])
  from Cons.IH [OF this rest] show ?case using Cons.prems(2) step rest by simp
qed simp

section \<open>Exclusive claims\<close>

text \<open>
  What makes claims exclusive, for any table of owned jobs: an operation never takes an owner
  away, and it grants a job only while it has none.
\<close>

locale exclusive_claims =
  fixes step :: "'s \<Rightarrow> 'op \<Rightarrow> 's \<times> (string \<times> string) list"
    and owner :: "'s \<Rightarrow> string \<Rightarrow> string option"
    and invar :: "'s \<Rightarrow> bool"
  assumes invar_step: "invar s \<Longrightarrow> invar (fst (step s op))"
    and owner_kept: "invar s \<Longrightarrow> owner s j = Some w \<Longrightarrow> owner (fst (step s op)) j = Some w"
    and grant_fresh: "invar s \<Longrightarrow> (j, w) \<in> set (snd (step s op)) \<Longrightarrow> owner s j = None \<and> owner (fst (step s op)) j = Some w"
    and grant_single: "distinct (map fst (snd (step s op)))"
begin

definition consistent :: "'s \<Rightarrow> (string \<times> string) list \<Rightarrow> bool" where
  "consistent s grants \<longleftrightarrow> invar s \<and> distinct (map fst grants) \<and> (\<forall>(j, w)\<in>set grants. owner s j = Some w)"

lemma consistent_step:
  assumes "consistent s grants" "step s op = (s', granted)"
  shows "consistent s' (grants @ granted)"
proof -
  have invar: "invar s" and grants: "distinct (map fst grants)" "\<And>j w. (j, w) \<in> set grants \<Longrightarrow> owner s j = Some w"
    using assms(1) by (auto simp: consistent_def)
  have kept: "owner s' j = Some w" if "(j, w) \<in> set (grants @ granted)" for j w
    using that grants(2) owner_kept [OF invar, of j w op] grant_fresh [OF invar, of j w op] assms(2) by auto
  have "fst p \<noteq> fst p'" if "p \<in> set grants" "p' \<in> set granted" for p p'
    using that grants(2) [of "fst p" "snd p"] grant_fresh [OF invar, of "fst p'" "snd p'" op] assms(2) by auto
  then have "distinct (map fst (grants @ granted))"
    using grants(1) grant_single [of s op] assms(2) by auto
  then show ?thesis using kept invar_step [OF invar, of op] assms(2) by (auto simp: consistent_def)
qed

end

section \<open>The queue grants exclusive claims\<close>

definition job_owner :: "job_table \<Rightarrow> string \<Rightarrow> string option" where
  "job_owner q i = (case find_job q i of None \<Rightarrow> None | Some r \<Rightarrow> rj_claimed_by r)"

definition wf_table :: "job_table \<Rightarrow> bool" where
  "wf_table q \<longleftrightarrow> distinct (map rj_job_id q) \<and>
     (\<forall>r\<in>set q. rj_status r = JQ_PENDING \<longleftrightarrow> rj_claimed_by r = None)"

lemma find_job_Some: "find_job q i = Some r \<Longrightarrow> r \<in> set q \<and> rj_job_id r = i"
  by (auto simp: find_job_def find_Some_iff)

lemma find_job_unique: "distinct (map rj_job_id q) \<Longrightarrow> r \<in> set q \<Longrightarrow> find_job q (rj_job_id r) = Some r"
  by (induction q) (auto simp: find_job_def)

lemma find_job_map: "(\<And>r. rj_job_id (f r) = rj_job_id r) \<Longrightarrow> find_job (map f q) i = map_option f (find_job q i)"
  by (induction q) (auto simp: find_job_def)

lemma find_job_append: "find_job (q @ q') i = (case find_job q i of None \<Rightarrow> find_job q' i | Some r \<Rightarrow> Some r)"
  by (induction q) (auto simp: find_job_def)

lemma oldest_None [simp]: "oldest rs = None \<longleftrightarrow> rs = []"
  by (cases rs) (auto split: option.splits)

lemma oldest_Some: "oldest rs = Some r \<Longrightarrow> r \<in> set rs \<and> (\<forall>s\<in>set rs. rj_created_at r \<le> rj_created_at s)"
proof (induction rs arbitrary: r)
  case (Cons a rs)
  show ?case
  proof (cases "oldest rs")
    case None
    then show ?thesis using Cons.prems by simp
  next
    case (Some s)
    then show ?thesis using Cons.IH [OF Some] Cons.prems by (fastforce split: if_splits)
  qed
qed simp

lemma oldest_pending_Some:
  "oldest_pending q = Some r \<Longrightarrow> r \<in> set q \<and> rj_status r = JQ_PENDING \<and>
     (\<forall>s\<in>set q. rj_status s = JQ_PENDING \<longrightarrow> rj_created_at r \<le> rj_created_at s)"
  using oldest_Some by (fastforce simp: oldest_pending_def)

definition claimed_row :: "run_job \<Rightarrow> string \<Rightarrow> int \<Rightarrow> run_job \<Rightarrow> run_job" where
  "claimed_row row worker now r =
     (if rj_job_id r = rj_job_id row \<and> rj_status r = JQ_PENDING then mark_claimed worker now r else r)"

lemma claimed_row_id [simp]: "rj_job_id (claimed_row row w now r) = rj_job_id r"
  by (simp add: claimed_row_def mark_claimed_def)

lemma claim_next_eq:
  assumes "wf_table q"
  shows "claim_next q w now =
    (case oldest_pending q of None \<Rightarrow> (q, None)
     | Some row \<Rightarrow> (map (claimed_row row w now) q, Some (job_from_row (mark_claimed w now row))))"
proof (cases "oldest_pending q")
  case (Some row)
  have row: "row \<in> set q" "rj_status row = JQ_PENDING" using oldest_pending_Some [OF Some] by auto
  have f: "(\<lambda>r. if rj_job_id r = rj_job_id row \<and> rj_status r = JQ_PENDING then mark_claimed w now r else r)
      = claimed_row row w now"
    by (rule ext) (simp add: claimed_row_def)
  have "find_job q (rj_job_id row) = Some row"
    using assms row by (intro find_job_unique) (auto simp: wf_table_def)
  then have "find_job (map (claimed_row row w now) q) (rj_job_id row) = Some (mark_claimed w now row)"
    using row by (simp add: find_job_map) (simp add: claimed_row_def)
  then show ?thesis using Some by (simp add: claim_next_def f get_job_def)
qed (simp add: claim_next_def)

lemma wf_table_map:
  assumes "wf_table q" "\<And>r. rj_job_id (f r) = rj_job_id r"
    and "\<And>r. r \<in> set q \<Longrightarrow> rj_status (f r) = JQ_PENDING \<longleftrightarrow> rj_claimed_by (f r) = None"
  shows "wf_table (map f q)"
  using assms by (simp add: wf_table_def comp_def)

lemma wf_table_owned:
  assumes "wf_table q" "\<And>r. rj_job_id (f r) = rj_job_id r" "\<And>r. rj_claimed_by (f r) = rj_claimed_by r"
    and "\<And>r. rj_status r \<noteq> JQ_PENDING \<Longrightarrow> rj_status (f r) \<noteq> JQ_PENDING"
  shows "wf_table (update_owned i w f q)"
  unfolding update_owned_def
  by (rule wf_table_map [OF assms(1)]) (use assms in \<open>auto simp: wf_table_def\<close>)

lemma job_owner_owned:
  assumes "\<And>r. rj_job_id (f r) = rj_job_id r" "\<And>r. rj_claimed_by (f r) = rj_claimed_by r"
  shows "job_owner (update_owned i w f q) j = job_owner q j"
  using assms unfolding update_owned_def job_owner_def
  by (subst find_job_map) (auto split: option.split)

lemma wf_enqueue:
  assumes "wf_table q" "find_job q (ea_job_id a) = None"
  shows "wf_table (q @ [new_job a now])"
  using assms by (auto simp: wf_table_def new_job_def find_job_def find_None_iff)

lemma queue_step_wf: "wf_table q \<Longrightarrow> wf_table (fst (queue_step q op))"
proof (cases op)
  case (Claim w now)
  assume wf: "wf_table q"
  have "wf_table (map (claimed_row row w now) q)" for row
    by (rule wf_table_map [OF wf]) (use wf in \<open>auto simp: claimed_row_def mark_claimed_def wf_table_def\<close>)
  then show ?thesis using wf Claim by (auto simp: claim_next_eq split: option.splits)
qed (auto simp: enqueue_def wf_enqueue heartbeat_job_def complete_job_def fail_job_def Let_def
    intro!: wf_table_owned)

lemma enqueue_grants_nothing [simp]: "snd (queue_step q (Enqueue a now)) = []"
  by (simp split: sum.split)

interpretation run_queue: exclusive_claims queue_step job_owner wf_table
proof unfold_locales
  fix q op
  assume "wf_table q"
  then show "wf_table (fst (queue_step q op))" by (rule queue_step_wf)
next
  fix q j w op
  assume wf: "wf_table q" and owner: "job_owner q j = Some w"
  have claim: "job_owner (map (claimed_row row v now) q) j = Some w" for row v now
  proof -
    obtain r where r: "find_job q j = Some r" "rj_claimed_by r = Some w"
      using owner by (auto simp: job_owner_def split: option.splits)
    then have "rj_status r \<noteq> JQ_PENDING" using wf find_job_Some [OF r(1)] by (auto simp: wf_table_def)
    then show ?thesis using r by (simp add: job_owner_def find_job_map) (simp add: claimed_row_def)
  qed
  show "job_owner (fst (queue_step q op)) j = Some w"
  proof (cases op)
    case (Enqueue a now)
    then show ?thesis using owner
      by (auto simp: enqueue_def Let_def job_owner_def find_job_append split: option.splits)
  next
    case (Claim v now)
    then show ?thesis using wf owner claim by (auto simp: claim_next_eq split: option.splits)
  qed (auto simp: heartbeat_job_def complete_job_def fail_job_def job_owner_owned owner)
next
  fix q j w op
  assume wf: "wf_table q" and "(j, w) \<in> set (snd (queue_step q op))"
  then obtain now row where op: "op = Claim w now" and row: "oldest_pending q = Some row" "j = rj_job_id row"
    by (cases op) (auto simp del: queue_step.simps(1)
        simp: claim_next_eq job_from_row_def mark_claimed_def split: option.splits)
  have "row \<in> set q" "rj_status row = JQ_PENDING" using oldest_pending_Some [OF row(1)] by auto
  then have "find_job q j = Some row" "rj_claimed_by row = None"
    using wf row(2) by (auto simp: find_job_unique wf_table_def)
  then show "job_owner q j = None \<and> job_owner (fst (queue_step q op)) j = Some w"
    using wf op row \<open>rj_status row = JQ_PENDING\<close>
    by (simp add: job_owner_def claim_next_eq find_job_map) (simp add: claimed_row_def mark_claimed_def)
next
  fix q op
  show "distinct (map fst (snd (queue_step q op)))"
    by (cases op) (auto simp del: queue_step.simps(1) split: option.splits prod.splits)
qed

lemma queue_history_consistent: "queue_history q grants \<Longrightarrow> run_queue.consistent q grants"
proof (induction rule: queue_history.induct)
  case empty_queue
  show ?case unfolding run_queue.consistent_def by (simp add: wf_table_def)
next
  case (queue_op q grants op q' granted)
  then show ?case by (intro run_queue.consistent_step)
qed

section \<open>What the queue promises\<close>

text \<open>C28. No job is ever granted twice, and the table keeps naming the worker it was granted to.\<close>

theorem job_granted_once:
  assumes "queue_history q grants"
  shows "distinct (map fst grants) \<and> (\<forall>(j, w)\<in>set grants. job_owner q j = Some w)"
  using queue_history_consistent [OF assms] by (auto simp: run_queue.consistent_def)

definition sample_args :: "string \<Rightarrow> enqueue_args" where
  "sample_args i = \<lparr>ea_job_id = i, ea_session_id = ''s'', ea_query = ''q'', ea_mode = ''agent'', ea_user_id = ''u'',
     ea_tenant_id = ''t'', ea_project_id = ''p''\<rparr>"

definition sample_ops :: "queue_op list" where
  "sample_ops = [Enqueue (sample_args ''a'') 1, Enqueue (sample_args ''b'') 2, Enqueue (sample_args ''a'') 3,
     Claim ''w'' 4, Fail ''b'' ''w'' ''x'' 5, Claim ''v'' 6, Complete ''a'' ''w'' 7, Claim ''w'' 8]"

lemma sample_run: "snd (exec_queue [] sample_ops) = [(''a'', ''w''), (''b'', ''v'')]"
  by code_simp

theorem job_granted_once_witness:
  "\<exists>q. queue_history q [(''a'', ''w''), (''b'', ''v'')] \<and> job_owner q ''a'' = Some ''w''"
proof -
  obtain q where "exec_queue [] sample_ops = (q, [(''a'', ''w''), (''b'', ''v'')])"
    using sample_run by (metis prod.collapse)
  from exec_queue_history [OF empty_queue this]
  have history: "queue_history q [(''a'', ''w''), (''b'', ''v'')]" by simp
  from job_granted_once [OF this] have "job_owner q ''a'' = Some ''w''" by simp
  with history show ?thesis by blast
qed

text \<open>
  On every table a history reaches, a claim finds a job exactly when one is pending; it takes one of
  the oldest, hands it over as the claiming worker's running job, and changes no other row.
\<close>

theorem claim_takes_oldest:
  assumes "queue_history q grants"
  shows "(case claim_next q w now of
      (q', None) \<Rightarrow> q' = q \<and> (\<forall>r\<in>set q. rj_status r \<noteq> JQ_PENDING)
    | (q', Some job) \<Rightarrow> (\<exists>row\<in>set q. rj_status row = JQ_PENDING
          \<and> (\<forall>r\<in>set q. rj_status r = JQ_PENDING \<longrightarrow> rj_created_at row \<le> rj_created_at r)
          \<and> job = job_from_row (mark_claimed w now row)
          \<and> (\<forall>i. find_job q' i = (if i = rj_job_id row then Some (mark_claimed w now row) else find_job q i))))"
proof -
  have wf: "wf_table q" using queue_history_consistent [OF assms] by (simp add: run_queue.consistent_def)
  show ?thesis
  proof (cases "oldest_pending q")
    case None
    then have "\<forall>r\<in>set q. rj_status r \<noteq> JQ_PENDING" by (simp add: oldest_pending_def filter_empty_conv)
    then show ?thesis using None by (simp add: claim_next_eq [OF wf])
  next
    case (Some row)
    note row = oldest_pending_Some [OF Some]
    have "find_job q (rj_job_id row) = Some row" using wf row by (auto simp: wf_table_def find_job_unique)
    moreover have "claimed_row row w now r = r" if "find_job q i = Some r" "i \<noteq> rj_job_id row" for i r
      using find_job_Some [OF that(1)] that(2) by (simp add: claimed_row_def)
    ultimately have "find_job (map (claimed_row row w now) q) i =
        (if i = rj_job_id row then Some (mark_claimed w now row) else find_job q i)" for i
      using row by (cases "find_job q i") (auto simp: find_job_map, simp add: claimed_row_def)
    then show ?thesis using Some row by (auto simp: claim_next_eq [OF wf])
  qed
qed

theorem claim_takes_oldest_witness:
  "\<exists>q. queue_history q [] \<and> length q = 1
     \<and> (case claim_next q ''w'' 2 of (q', None) \<Rightarrow> False | (q', Some job) \<Rightarrow> rj_job_id job = ''a'')"
proof -
  let ?q = "[new_job (sample_args ''a'') 1]"
  have "queue_step [] (Enqueue (sample_args ''a'') 1) = (?q, [])"
    by (simp add: enqueue_def find_job_def Let_def)
  from queue_op [OF empty_queue this] have history: "queue_history ?q []" by simp
  have "oldest_pending ?q \<noteq> None" by (simp add: oldest_pending_def new_job_def)
  with claim_takes_oldest [OF history, of "''w''" 2] history show ?thesis
    by (intro exI [of _ ?q]) (auto simp: new_job_def sample_args_def job_from_row_def mark_claimed_def
        split: prod.splits option.splits)
qed

text \<open>
  A job that left the pending state never returns to it, but the settlement of a job does not look
  at its status: its owner may settle a settled job again, and then the later call wins.
\<close>

lemma settled_update:
  assumes "find_job q i = Some r" "rj_status r \<noteq> JQ_PENDING"
    and "\<And>r. rj_job_id (f r) = rj_job_id r" "\<And>r. rj_status r \<noteq> JQ_PENDING \<Longrightarrow> rj_status (f r) \<noteq> JQ_PENDING"
  shows "\<exists>r'. find_job (update_owned j w f q) i = Some r' \<and> rj_status r' \<noteq> JQ_PENDING"
  unfolding update_owned_def using assms by (subst find_job_map) auto

lemma never_pending_again:
  assumes "find_job q i = Some r" "rj_status r \<noteq> JQ_PENDING"
  shows "\<exists>r'. find_job (fst (queue_step q op)) i = Some r' \<and> rj_status r' \<noteq> JQ_PENDING"
proof (cases op)
  case (Enqueue a now)
  then show ?thesis using assms by (auto simp: enqueue_def Let_def find_job_append)
next
  case (Claim w now)
  have "find_job (map (claimed_row row w now) q) i = Some (claimed_row row w now r)" for row
    using assms(1) by (simp add: find_job_map)
  then show ?thesis using Claim assms
    by (auto simp: claim_next_def Let_def claimed_row_def [abs_def] split: option.splits)
qed (use settled_update [OF assms] in \<open>simp_all add: heartbeat_job_def complete_job_def fail_job_def\<close>)

lemma settled_again:
  assumes "find_job q i = Some r" "rj_claimed_by r = Some w"
  shows "map_option rj_status (find_job (fail_job q i w err now) i) = Some JQ_FAILED
    \<and> map_option rj_status (find_job (complete_job q i w now) i) = Some JQ_COMPLETED"
  using assms find_job_Some [OF assms(1)]
  by (simp add: fail_job_def complete_job_def update_owned_def find_job_map)

end
