(* ===== verification/RunStore.thy ===== *)
theory RunStore
  imports RunQueue PyVal
begin

text \<open>
  The durable projection of sessions, runs and uploads behind the user interface
  (\<open>app/run_store/models.py\<close>, \<open>service.py\<close>, \<open>sqlite.py\<close>) and the parts of the API that write it
  (\<open>app/api/server.py\<close>).  A table is the list of its rows in insertion order.  As in the queue a
  timestamp is its instant in microseconds, and every operation takes the instants it reads from
  the clock.  Rows of equal age come in insertion order, the last of them is the latest.  The
  payload of an approval, stored as its JSON text, is the dictionary that the text encodes.
\<close>

section \<open>Statuses\<close>

abbreviation "STATUS_QUEUED \<equiv> ''queued''"
abbreviation "STATUS_RUNNING \<equiv> ''running''"
abbreviation "STATUS_AWAITING_APPROVAL \<equiv> ''awaiting_approval''"
abbreviation "STATUS_CANCELLING \<equiv> ''cancelling''"
abbreviation "STATUS_COMPLETED \<equiv> ''completed''"
abbreviation "STATUS_FAILED \<equiv> ''failed''"
abbreviation "STATUS_PARTIAL \<equiv> ''partial''"
abbreviation "STATUS_RECOVERABLE \<equiv> ''recoverable''"
abbreviation "STATUS_INTERRUPTED \<equiv> ''interrupted''"

definition active_statuses :: "string list" where
  "active_statuses = [STATUS_QUEUED, STATUS_RUNNING, STATUS_AWAITING_APPROVAL, STATUS_CANCELLING]"

definition terminal_statuses :: "string list" where
  "terminal_statuses = [STATUS_COMPLETED, STATUS_FAILED, STATUS_PARTIAL, STATUS_INTERRUPTED]"

definition recoverable_on_startup :: "string list" where
  "recoverable_on_startup = [STATUS_QUEUED, STATUS_RUNNING, STATUS_CANCELLING]"

section \<open>Rows\<close>

record session_row =
  se_session_id :: string
  se_created_at :: int
  se_updated_at :: int
  se_tenant_id :: string
  se_user_id :: string
  se_project_id :: string
  se_archived :: bool

record run_row =
  ru_run_id :: string
  ru_session_id :: string
  ru_query :: string
  ru_status :: string
  ru_created_at :: int
  ru_mode :: string
  ru_started_at :: "int option"
  ru_ended_at :: "int option"
  ru_current_phase :: "string option"
  ru_plan_version :: "int option"
  ru_final_result :: string
  ru_error :: string
  ru_workspace :: string
  ru_last_event_seq :: int
  ru_hitl_status :: "string option"
  ru_hitl_payload :: "pydict option"
  ru_paused_total_ms :: int
  ru_pause_started_at :: "int option"
  ru_tool_calls :: int
  ru_assistant_calls :: int
  ru_errors :: int
  ru_tenant_id :: string
  ru_user_id :: string
  ru_project_id :: string

record upload_row =
  up_id :: int
  up_session_id :: string
  up_name :: string
  up_size :: int
  up_uploaded_at :: int
  up_server_path :: string

record run_store =
  rs_sessions :: "session_row list"
  rs_runs :: "run_row list"
  rs_uploads :: "upload_row list"
  rs_last_upload_id :: int

definition empty_store :: run_store where
  "empty_store = \<lparr>rs_sessions = [], rs_runs = [], rs_uploads = [], rs_last_upload_id = 0\<rparr>"

text \<open>Reading a row fills in the defaults for empty columns.\<close>

definition session_from_row :: "session_row \<Rightarrow> session_row" where
  "session_from_row r =
     r\<lparr>se_tenant_id := or_default (se_tenant_id r) ''local'', se_user_id := or_default (se_user_id r) ''me'',
       se_project_id := or_default (se_project_id r) ''Inbox''\<rparr>"

definition run_from_row :: "run_row \<Rightarrow> run_row" where
  "run_from_row r =
     r\<lparr>ru_mode := or_default (ru_mode r) ''agent'', ru_tenant_id := or_default (ru_tenant_id r) ''local'',
       ru_user_id := or_default (ru_user_id r) ''me'', ru_project_id := or_default (ru_project_id r) ''Inbox''\<rparr>"

text \<open>
  The milliseconds between two instants: \<open>total_seconds()\<close> is a float, its product with 1000
  another one, which is truncated.
\<close>

definition delta_ms :: "int \<Rightarrow> int \<Rightarrow> int" where
  "delta_ms start stop = trunc (fl (fl (of_int (stop - start) / 1000000) * 1000))"

definition iso_delta_ms :: "int \<Rightarrow> int \<Rightarrow> int" where
  "iso_delta_ms start stop = max 0 (delta_ms start stop)"

definition elapsed_ms :: "run_row \<Rightarrow> int \<Rightarrow> int" where
  "elapsed_ms r now =
     (case ru_started_at r of
        None \<Rightarrow> 0
      | Some start \<Rightarrow>
          let stop = (case ru_ended_at r of Some e \<Rightarrow> e
                      | None \<Rightarrow> (case ru_pause_started_at r of Some p \<Rightarrow> p | None \<Rightarrow> now))
          in max 0 (delta_ms start stop - ru_paused_total_ms r))"

section \<open>Lookups\<close>

definition find_session :: "run_store \<Rightarrow> string \<Rightarrow> session_row option" where
  "find_session st i = find (\<lambda>r. se_session_id r = i) (rs_sessions st)"

definition find_run :: "run_store \<Rightarrow> string \<Rightarrow> run_row option" where
  "find_run st i = find (\<lambda>r. ru_run_id r = i) (rs_runs st)"

definition get_session :: "run_store \<Rightarrow> string \<Rightarrow> session_row option" where
  "get_session st i = map_option session_from_row (find_session st i)"

definition get_run :: "run_store \<Rightarrow> string \<Rightarrow> run_row option" where
  "get_run st i = map_option run_from_row (find_run st i)"

definition get_run_scoped :: "run_store \<Rightarrow> string \<Rightarrow> string \<Rightarrow> run_row option" where
  "get_run_scoped st i tenant =
     (case get_run st i of None \<Rightarrow> None
      | Some r \<Rightarrow> if ru_tenant_id r \<noteq> tenant then None else Some r)"

definition list_sessions :: "run_store \<Rightarrow> string \<Rightarrow> bool \<Rightarrow> session_row list" where
  "list_sessions st tenant include_archived =
     map session_from_row
       (sort_key (\<lambda>r. - se_updated_at r)
         (filter (\<lambda>r. se_tenant_id r = tenant \<and> (include_archived \<or> \<not> se_archived r)) (rs_sessions st)))"

definition list_runs :: "run_store \<Rightarrow> string \<Rightarrow> run_row list" where
  "list_runs st sid = map run_from_row (sort_key ru_created_at (filter (\<lambda>r. ru_session_id r = sid) (rs_runs st)))"

definition latest_run :: "run_store \<Rightarrow> string \<Rightarrow> run_row option" where
  "latest_run st sid = (let rows = list_runs st sid in if rows = [] then None else Some (last rows))"

definition list_active_runs :: "run_store \<Rightarrow> run_row list" where
  "list_active_runs st =
     map run_from_row (sort_key ru_created_at
       (filter (\<lambda>r. ru_status r \<in> set (active_statuses @ [STATUS_RECOVERABLE])) (rs_runs st)))"

definition list_uploads :: "run_store \<Rightarrow> string \<Rightarrow> upload_row list" where
  "list_uploads st sid = sort_key up_uploaded_at (filter (\<lambda>r. up_session_id r = sid) (rs_uploads st))"

section \<open>Sessions\<close>

record owner =
  ow_tenant_id :: string
  ow_user_id :: string
  ow_project_id :: string

definition local_owner :: owner where
  "local_owner = \<lparr>ow_tenant_id = ''local'', ow_user_id = ''me'', ow_project_id = ''Inbox''\<rparr>"

definition new_session :: "string \<Rightarrow> owner \<Rightarrow> int \<Rightarrow> int \<Rightarrow> session_row" where
  "new_session sid ow created updated =
     \<lparr>se_session_id = sid, se_created_at = created, se_updated_at = updated, se_tenant_id = ow_tenant_id ow,
      se_user_id = ow_user_id ow, se_project_id = ow_project_id ow, se_archived = False\<rparr>"

definition update_session :: "string \<Rightarrow> (session_row \<Rightarrow> session_row) \<Rightarrow> run_store \<Rightarrow> run_store" where
  "update_session sid f st = st\<lparr>rs_sessions := map (\<lambda>r. if se_session_id r = sid then f r else r) (rs_sessions st)\<rparr>"

text \<open>For a known session the returned record has the default owner, whoever owns the row.\<close>

definition ensure_session_owned :: "run_store \<Rightarrow> string \<Rightarrow> owner \<Rightarrow> int \<Rightarrow> run_store \<times> session_row" where
  "ensure_session_owned st sid ow now =
     (case get_session st sid of
        Some existing \<Rightarrow>
          (update_session sid (\<lambda>r. r\<lparr>se_updated_at := now\<rparr>) st, new_session sid local_owner (se_created_at existing) now)
      | None \<Rightarrow>
          (st\<lparr>rs_sessions := rs_sessions st @ [new_session sid ow now now]\<rparr>, new_session sid ow now now))"

definition ensure_session :: "run_store \<Rightarrow> string \<Rightarrow> int \<Rightarrow> run_store \<times> session_row" where
  "ensure_session st sid now = ensure_session_owned st sid local_owner now"

definition set_session_archived ::
  "run_store \<Rightarrow> string \<Rightarrow> bool \<Rightarrow> string option \<Rightarrow> int \<Rightarrow> run_store \<times> session_row option" where
  "set_session_archived st sid archived tenant now =
     (case get_session st sid of
        None \<Rightarrow> (st, None)
      | Some s \<Rightarrow>
          if tenant \<noteq> None \<and> tenant \<noteq> Some (se_tenant_id s) then (st, None)
          else let st' = update_session sid (\<lambda>r. r\<lparr>se_archived := archived, se_updated_at := now\<rparr>) st
               in (st', get_session st' sid))"

section \<open>Runs\<close>

record create_args =
  cr_run_id :: string
  cr_session_id :: string
  cr_query :: string
  cr_mode :: string
  cr_workspace :: string
  cr_owner :: owner

definition new_run :: "create_args \<Rightarrow> int \<Rightarrow> run_row" where
  "new_run a now =
     \<lparr>ru_run_id = cr_run_id a, ru_session_id = cr_session_id a, ru_query = cr_query a, ru_status = STATUS_QUEUED,
      ru_created_at = now, ru_mode = cr_mode a, ru_started_at = None, ru_ended_at = None, ru_current_phase = None,
      ru_plan_version = None, ru_final_result = [], ru_error = [],
      ru_workspace = or_default (cr_workspace a) (''session_'' @ cr_session_id a), ru_last_event_seq = 0,
      ru_hitl_status = None, ru_hitl_payload = None, ru_paused_total_ms = 0, ru_pause_started_at = None,
      ru_tool_calls = 0, ru_assistant_calls = 0, ru_errors = 0, ru_tenant_id = ow_tenant_id (cr_owner a),
      ru_user_id = ow_user_id (cr_owner a), ru_project_id = ow_project_id (cr_owner a)\<rparr>"

text \<open>The session is written before the insertion of the run can fail, and stays.\<close>

definition create_run :: "run_store \<Rightarrow> create_args \<Rightarrow> int \<Rightarrow> int \<Rightarrow> run_store \<times> run_row res" where
  "create_run st a session_time now =
     (let st1 = fst (ensure_session_owned st (cr_session_id a) (cr_owner a) session_time) in
      if find_run st1 (cr_run_id a) \<noteq> None then (st1, Inl (IntegrityError ''UNIQUE constraint failed: runs.run_id''))
      else let st2 = st1\<lparr>rs_runs := rs_runs st1 @ [new_run a now]\<rparr> in
        (st2, case get_run st2 (cr_run_id a) of None \<Rightarrow> Inl AssertionError | Some r \<Rightarrow> Inr r))"

definition update_run :: "string \<Rightarrow> (run_row \<Rightarrow> run_row) \<Rightarrow> run_store \<Rightarrow> run_store" where
  "update_run i f st = st\<lparr>rs_runs := map (\<lambda>r. if ru_run_id r = i then f r else r) (rs_runs st)\<rparr>"

definition mark_running :: "run_store \<Rightarrow> string \<Rightarrow> string \<Rightarrow> int \<Rightarrow> int \<Rightarrow> run_store \<times> run_row option" where
  "mark_running st i workspace now later =
     (case get_run st i of
        None \<Rightarrow> (st, None)
      | Some run \<Rightarrow>
          let started = (case ru_started_at run of None \<Rightarrow> now | Some t \<Rightarrow> t);
              st1 = update_run i (\<lambda>r. r\<lparr>ru_status := STATUS_RUNNING, ru_started_at := Some started,
                      ru_workspace := or_default workspace (ru_workspace run), ru_hitl_status := None,
                      ru_pause_started_at := None\<rparr>) st;
              st2 = fst (ensure_session st1 (ru_session_id run) later)
          in (st2, get_run st2 i))"

definition set_status :: "run_store \<Rightarrow> string \<Rightarrow> string \<Rightarrow> run_store \<times> run_row option" where
  "set_status st i status =
     (let st' = update_run i (\<lambda>r. r\<lparr>ru_status := status\<rparr>) st in (st', get_run st' i))"

definition mark_cancelling :: "run_store \<Rightarrow> string \<Rightarrow> run_store \<times> run_row option" where
  "mark_cancelling st i = set_status st i STATUS_CANCELLING"

definition stale_row :: "string \<Rightarrow> int \<Rightarrow> run_row \<Rightarrow> run_row" where
  "stale_row err now r =
     r\<lparr>ru_status := STATUS_RECOVERABLE, ru_error := err,
       ru_ended_at := (case ru_ended_at r of None \<Rightarrow> Some now | Some t \<Rightarrow> Some t)\<rparr>"

definition mark_recoverable :: "run_store \<Rightarrow> string \<Rightarrow> string \<Rightarrow> int \<Rightarrow> run_store \<times> run_row option" where
  "mark_recoverable st i err now =
     (case get_run st i of
        None \<Rightarrow> (st, None)
      | Some run \<Rightarrow> let st' = update_run i (stale_row err now) st in (st', get_run st' i))"

definition final_status :: "string \<Rightarrow> string \<Rightarrow> string" where
  "final_status status result =
     (if status \<notin> {STATUS_COMPLETED, STATUS_PARTIAL, STATUS_INTERRUPTED, STATUS_FAILED}
      then if result \<noteq> [] then STATUS_COMPLETED else STATUS_PARTIAL
      else status)"

definition complete_run :: "run_store \<Rightarrow> string \<Rightarrow> string \<Rightarrow> string \<Rightarrow> string \<Rightarrow> int \<Rightarrow> int \<Rightarrow> run_store \<times> run_row option" where
  "complete_run st i result status err now later =
     (let st1 = update_run i (\<lambda>r. r\<lparr>ru_status := final_status status result, ru_final_result := result,
                  ru_error := err, ru_ended_at := Some now, ru_hitl_status := None, ru_hitl_payload := None,
                  ru_pause_started_at := None\<rparr>) st
      in case get_run st1 i of
           None \<Rightarrow> (st1, None)
         | Some run \<Rightarrow> (fst (ensure_session st1 (ru_session_id run) later), Some run))"

definition fail_run :: "run_store \<Rightarrow> string \<Rightarrow> string \<Rightarrow> int \<Rightarrow> int \<Rightarrow> run_store \<times> run_row option" where
  "fail_run st i err now later = complete_run st i [] STATUS_FAILED err now later"

definition interrupt_run :: "run_store \<Rightarrow> string \<Rightarrow> string \<Rightarrow> int \<Rightarrow> int \<Rightarrow> run_store \<times> run_row option" where
  "interrupt_run st i err now later =
     complete_run st i (case get_run st i of None \<Rightarrow> [] | Some r \<Rightarrow> ru_final_result r) STATUS_INTERRUPTED err now later"

definition set_phase :: "run_store \<Rightarrow> string \<Rightarrow> string \<Rightarrow> int option \<Rightarrow> run_store" where
  "set_phase st i phase plan_version =
     (case plan_version of
        None \<Rightarrow> update_run i (\<lambda>r. r\<lparr>ru_current_phase := Some phase\<rparr>) st
      | Some v \<Rightarrow> update_run i (\<lambda>r. r\<lparr>ru_current_phase := Some phase, ru_plan_version := Some v\<rparr>) st)"

text \<open>An empty payload clears the approval like no payload does.\<close>

definition set_hitl :: "run_store \<Rightarrow> string \<Rightarrow> pydict option \<Rightarrow> string \<Rightarrow> int \<Rightarrow> run_store" where
  "set_hitl st i payload status now =
     (let waiting = (payload \<noteq> None \<and> payload \<noteq> Some []) in
      update_run i (\<lambda>r. r\<lparr>ru_status := (if waiting then status else STATUS_RUNNING),
        ru_hitl_status := (if waiting then Some ''waiting'' else None),
        ru_hitl_payload := (if waiting then payload else None),
        ru_pause_started_at := (if waiting then (case ru_pause_started_at r of None \<Rightarrow> Some now | Some t \<Rightarrow> Some t) else None)\<rparr>) st)"

definition clear_hitl :: "run_store \<Rightarrow> string \<Rightarrow> int \<Rightarrow> run_store" where
  "clear_hitl st i now =
     (let run = get_run st i;
          extra = (case run of None \<Rightarrow> 0
                   | Some r \<Rightarrow> (case ru_pause_started_at r of None \<Rightarrow> 0 | Some p \<Rightarrow> iso_delta_ms p now));
          next_status = (case run of None \<Rightarrow> STATUS_RUNNING
                   | Some r \<Rightarrow> if ru_status r \<in> set (terminal_statuses @ [STATUS_RECOVERABLE, STATUS_CANCELLING])
                               then ru_status r else STATUS_RUNNING)
      in update_run i (\<lambda>r. r\<lparr>ru_status := next_status, ru_hitl_status := None, ru_hitl_payload := None,
           ru_pause_started_at := None, ru_paused_total_ms := ru_paused_total_ms r + extra\<rparr>) st)"

section \<open>Uploads\<close>

text \<open>The identifier grows and is never used again.\<close>

definition add_upload :: "run_store \<Rightarrow> string \<Rightarrow> string \<Rightarrow> int \<Rightarrow> string \<Rightarrow> int \<Rightarrow> int \<Rightarrow> run_store \<times> upload_row" where
  "add_upload st sid name bytes server_path session_time now =
     (let st1 = fst (ensure_session st sid session_time);
          i = rs_last_upload_id st1 + 1;
          row = \<lparr>up_id = i, up_session_id = sid, up_name = name, up_size = bytes, up_uploaded_at = now,
                 up_server_path = or_default server_path name\<rparr>
      in (st1\<lparr>rs_uploads := rs_uploads st1 @ [row], rs_last_upload_id := i\<rparr>, row))"

section \<open>Events\<close>

record store_event =
  sv_run_id :: string
  sv_seq :: int
  sv_type :: string
  sv_phase :: string
  sv_plan_version :: "int option"

definition count_event :: "store_event \<Rightarrow> run_row \<Rightarrow> run_row" where
  "count_event e r =
     (let r1 = (if sv_seq e \<noteq> 0 then r\<lparr>ru_last_event_seq := max (ru_last_event_seq r) (sv_seq e)\<rparr> else r);
          r2 = (if sv_type e = ''phase'' \<and> sv_phase e \<noteq> []
                then (case sv_plan_version e of None \<Rightarrow> r1\<lparr>ru_current_phase := Some (sv_phase e)\<rparr>
                      | Some v \<Rightarrow> r1\<lparr>ru_current_phase := Some (sv_phase e), ru_plan_version := Some v\<rparr>)
                else r1);
          r3 = (if sv_type e = ''tool.started'' then r2\<lparr>ru_tool_calls := ru_tool_calls r2 + 1\<rparr> else r2);
          r4 = (if sv_type e = ''worker.started'' then r3\<lparr>ru_assistant_calls := ru_assistant_calls r3 + 1\<rparr> else r3)
      in if sv_type e \<in> {''tool.failed'', ''worker.failed'', ''run.failed''} then r4\<lparr>ru_errors := ru_errors r4 + 1\<rparr> else r4)"

text \<open>The updates of one event all address one row, so that they are one update of it.\<close>

definition on_event :: "run_store \<Rightarrow> store_event \<Rightarrow> run_store" where
  "on_event st e =
     (if sv_run_id e = [] \<or> get_run st (sv_run_id e) = None then st
      else update_run (sv_run_id e) (count_event e) st)"

section \<open>Recovery and deletion\<close>

definition recovery_needed :: "string list \<Rightarrow> run_row \<Rightarrow> bool" where
  "recovery_needed live r \<longleftrightarrow>
     ru_status r \<noteq> STATUS_AWAITING_APPROVAL \<and> ru_status r \<in> set recoverable_on_startup \<and> ru_session_id r \<notin> set live"

fun recover_runs :: "string list \<Rightarrow> (string \<Rightarrow> int) \<Rightarrow> run_row list \<Rightarrow> run_store \<Rightarrow> run_store \<times> run_row list" where
  "recover_runs live clock [] st = (st, [])"
| "recover_runs live clock (run # runs) st =
     (if recovery_needed live run
      then case mark_recoverable st (ru_run_id run) ''backend restarted'' (clock (ru_run_id run)) of
             (st', marked) \<Rightarrow> case recover_runs live clock runs st' of
               (st'', recovered) \<Rightarrow> (st'', (case marked of None \<Rightarrow> recovered | Some r \<Rightarrow> r # recovered))
      else recover_runs live clock runs st)"

text \<open>The clock is read once per run.\<close>

definition recover_stale_runs :: "run_store \<Rightarrow> string list \<Rightarrow> (string \<Rightarrow> int) \<Rightarrow> run_store \<times> run_row list" where
  "recover_stale_runs st live clock = recover_runs live clock (list_active_runs st) st"

datatype deletion = Not_found | Forbidden | Deleted nat

definition delete_session_rows :: "string \<Rightarrow> run_store \<Rightarrow> run_store" where
  "delete_session_rows sid st =
     st\<lparr>rs_runs := filter (\<lambda>r. ru_session_id r \<noteq> sid) (rs_runs st),
        rs_uploads := filter (\<lambda>r. up_session_id r \<noteq> sid) (rs_uploads st),
        rs_sessions := filter (\<lambda>r. se_session_id r \<noteq> sid) (rs_sessions st)\<rparr>"

text \<open>The number of a deleted session is that of its runs.\<close>

definition delete_session :: "run_store \<Rightarrow> string \<Rightarrow> string option \<Rightarrow> run_store \<times> deletion" where
  "delete_session st sid tenant =
     (case get_session st sid of
        None \<Rightarrow> (st, Not_found)
      | Some s \<Rightarrow>
          if tenant \<noteq> None \<and> tenant \<noteq> Some (se_tenant_id s) then (st, Forbidden)
          else (delete_session_rows sid st, Deleted (length (list_runs st sid))))"

definition delete_run :: "run_store \<Rightarrow> string \<Rightarrow> string option \<Rightarrow> run_store \<times> deletion" where
  "delete_run st i tenant =
     (case get_run st i of
        None \<Rightarrow> (st, Not_found)
      | Some r \<Rightarrow>
          if tenant \<noteq> None \<and> tenant \<noteq> Some (ru_tenant_id r) then (st, Forbidden)
          else (st\<lparr>rs_runs := filter (\<lambda>q. ru_run_id q \<noteq> i) (rs_runs st)\<rparr>, Deleted 1))"

section \<open>The session after a reload\<close>

text \<open>The output files, a listing of the file system, and the events handed in are left out.\<close>

record session_bootstrap =
  sb_session_id :: string
  sb_found :: bool
  sb_runs :: "run_row list"
  sb_current_run :: "run_row option"
  sb_hitl :: "pydict option"
  sb_uploaded_files :: "upload_row list"
  sb_stats :: "int \<times> int \<times> int"
  sb_last_event_seq :: int
  sb_notice :: string

definition dict_setdefault :: "string \<Rightarrow> pyval \<Rightarrow> pydict \<Rightarrow> pydict" where
  "dict_setdefault k v d = (if dget d k = None then dput k v d else d)"

definition bootstrap_session :: "run_store \<Rightarrow> string \<Rightarrow> session_bootstrap" where
  "bootstrap_session st sid =
     (if get_session st sid = None \<and> list_runs st sid = [] \<and> list_uploads st sid = []
      then \<lparr>sb_session_id = sid, sb_found = False, sb_runs = [], sb_current_run = None, sb_hitl = None,
            sb_uploaded_files = [], sb_stats = (0, 0, 0), sb_last_event_seq = 0, sb_notice = ''session_not_found''\<rparr>
      else let current = latest_run st sid in
        \<lparr>sb_session_id = sid, sb_found = True, sb_runs = list_runs st sid, sb_current_run = current,
         sb_hitl = (case current of None \<Rightarrow> None
           | Some r \<Rightarrow> (case ru_hitl_payload r of None \<Rightarrow> None
               | Some p \<Rightarrow> if p = [] then None
                   else Some (dict_setdefault ''run_id'' (PStr (ru_run_id r)) (dict_setdefault ''session_id'' (PStr sid) p)))),
         sb_uploaded_files = list_uploads st sid,
         sb_stats = (case current of None \<Rightarrow> (0, 0, 0) | Some r \<Rightarrow> (ru_tool_calls r, ru_assistant_calls r, ru_errors r)),
         sb_last_event_seq = (case current of None \<Rightarrow> 0 | Some r \<Rightarrow> ru_last_event_seq r), sb_notice = []\<rparr>)"

section \<open>The API\<close>

text \<open>
  Starting a task writes the session without an owner first.  A queued task returns before the
  previous run is looked at; otherwise a live task of the session is replaced.  \<open>clock k\<close> is the
  \<open>k\<close>-th reading of the clock by the request.
\<close>

record task_request =
  tq_query :: string
  tq_thread_id :: string
  tq_mode :: string
  tq_owner :: owner

definition task_args :: "task_request \<Rightarrow> string \<Rightarrow> create_args" where
  "task_args q run_id =
     \<lparr>cr_run_id = run_id, cr_session_id = tq_thread_id q, cr_query = tq_query q,
      cr_mode = or_default (tq_mode q) ''agent'', cr_workspace = ''session_'' @ tq_thread_id q,
      cr_owner = \<lparr>ow_tenant_id = or_default (ow_tenant_id (tq_owner q)) ''local'',
        ow_user_id = or_default (ow_user_id (tq_owner q)) ''me'',
        ow_project_id = or_default (ow_project_id (tq_owner q)) ''Inbox''\<rparr>\<rparr>"

definition submit_task ::
  "run_store \<Rightarrow> task_request \<Rightarrow> string \<Rightarrow> bool \<Rightarrow> bool \<Rightarrow> (nat \<Rightarrow> int) \<Rightarrow> run_store \<times> run_row res" where
  "submit_task st q run_id queued old_task_live clock =
     (let st1 = fst (ensure_session st (tq_thread_id q) (clock 0));
          previous = latest_run st1 (tq_thread_id q)
      in case create_run st1 (task_args q run_id) (clock 1) (clock 2) of
           (st2, Inl e) \<Rightarrow> (st2, Inl e)
         | (st2, Inr r) \<Rightarrow>
             (if \<not> queued \<and> old_task_live
              then case previous of None \<Rightarrow> st2
                   | Some p \<Rightarrow> if ru_run_id p \<noteq> run_id
                               then fst (interrupt_run st2 (ru_run_id p) ''replaced by new run'' (clock 3) (clock 4)) else st2
              else st2, Inr r))"

datatype cancel_reply = Cancelled | Task_not_found | Signal_sent

definition cancel_task :: "run_store \<Rightarrow> string \<Rightarrow> bool \<Rightarrow> (nat \<Rightarrow> int) \<Rightarrow> run_store \<times> cancel_reply" where
  "cancel_task st sid task_live clock =
     (let latest = latest_run st sid;
          st1 = (case latest of None \<Rightarrow> st | Some r \<Rightarrow> fst (mark_cancelling st (ru_run_id r)))
      in if task_live then (st1, Signal_sent)
         else case latest of
                None \<Rightarrow> (st1, Task_not_found)
              | Some r \<Rightarrow>
                  if ru_status r \<in> {''running'', ''awaiting_approval'', ''cancelling'', ''queued'', ''recoverable''}
                  then (fst (interrupt_run st1 (ru_run_id r) ''cancelled with no live task'' (clock 0) (clock 1)), Cancelled)
                  else (st1, Task_not_found))"

end
