(* ===== verification/RunStoreProps.thy ===== *)
theory RunStoreProps
  imports RunStore "HOL-Library.Multiset"
begin

text \<open>
  Correctness of the run store: the invariant of its tables in every history, startup recovery,
  the counters of the event projection, ownership by tenants, and elapsed time.
\<close>

section \<open>Histories\<close>

datatype store_op =
    Ensure_session string owner int
  | Archive_session string bool "string option" int
  | Create_run create_args int int
  | Mark_running string string int int
  | Mark_cancelling string
  | Mark_recoverable string string int
  | Complete_run string string string string int int
  | Fail_run string string int int
  | Interrupt_run string string int int
  | Set_phase string string "int option"
  | Await_approval string "pydict option" int
  | Clear_approval string int
  | Add_upload string string int string int int
  | Event store_event
  | Recover_stale "string list" "string \<Rightarrow> int"
  | Delete_session string "string option"
  | Delete_run string "string option"
  | Submit_task task_request string bool bool "nat \<Rightarrow> int"
  | Cancel_task string bool "nat \<Rightarrow> int"

fun store_step :: "run_store \<Rightarrow> store_op \<Rightarrow> run_store" where
  "store_step st (Ensure_session sid ow now) = fst (ensure_session_owned st sid ow now)"
| "store_step st (Archive_session sid b tenant now) = fst (set_session_archived st sid b tenant now)"
| "store_step st (Create_run a t now) = fst (create_run st a t now)"
| "store_step st (Mark_running i ws now later) = fst (mark_running st i ws now later)"
| "store_step st (Mark_cancelling i) = fst (mark_cancelling st i)"
| "store_step st (Mark_recoverable i err now) = fst (mark_recoverable st i err now)"
| "store_step st (Complete_run i result status err now later) = fst (complete_run st i result status err now later)"
| "store_step st (Fail_run i err now later) = fst (fail_run st i err now later)"
| "store_step st (Interrupt_run i err now later) = fst (interrupt_run st i err now later)"
| "store_step st (Set_phase i phase v) = set_phase st i phase v"
| "store_step st (Await_approval i payload now) = set_hitl st i payload STATUS_AWAITING_APPROVAL now"
| "store_step st (Clear_approval i now) = clear_hitl st i now"
| "store_step st (Add_upload sid name bytes path t now) = fst (add_upload st sid name bytes path t now)"
| "store_step st (Event e) = on_event st e"
| "store_step st (Recover_stale live clock) = fst (recover_stale_runs st live clock)"
| "store_step st (Delete_session sid tenant) = fst (delete_session st sid tenant)"
| "store_step st (Delete_run i tenant) = fst (delete_run st i tenant)"
| "store_step st (Submit_task q i queued live clock) = fst (submit_task st q i queued live clock)"
| "store_step st (Cancel_task sid live clock) = fst (cancel_task st sid live clock)"

inductive reachable_store :: "run_store \<Rightarrow> bool" where
  fresh_store: "reachable_store empty_store"
| store_op: "reachable_store st \<Longrightarrow> reachable_store (store_step st op)"

section \<open>The invariant\<close>

definition all_statuses :: "string list" where
  "all_statuses = active_statuses @ terminal_statuses @ [STATUS_RECOVERABLE]"

definition run_ok :: "run_row \<Rightarrow> bool" where
  "run_ok r \<longleftrightarrow>
     ru_status r \<in> set all_statuses
     \<and> (ru_status r = STATUS_AWAITING_APPROVAL \<longrightarrow>
          ru_hitl_status r = Some ''waiting'' \<and> ru_hitl_payload r \<noteq> None \<and> ru_pause_started_at r \<noteq> None)
     \<and> (ru_status r \<in> set terminal_statuses \<longrightarrow>
          ru_ended_at r \<noteq> None \<and> ru_hitl_status r = None \<and> ru_hitl_payload r = None \<and> ru_pause_started_at r = None)
     \<and> (ru_status r = STATUS_RECOVERABLE \<longrightarrow> ru_ended_at r \<noteq> None)
     \<and> 0 \<le> ru_paused_total_ms r \<and> 0 \<le> ru_last_event_seq r
     \<and> 0 \<le> ru_tool_calls r \<and> 0 \<le> ru_assistant_calls r \<and> 0 \<le> ru_errors r"

definition session_ids :: "run_store \<Rightarrow> string set" where
  "session_ids st = se_session_id ` set (rs_sessions st)"

definition store_wf :: "run_store \<Rightarrow> bool" where
  "store_wf st \<longleftrightarrow>
     distinct (map se_session_id (rs_sessions st)) \<and> distinct (map ru_run_id (rs_runs st)) \<and>
     distinct (map up_id (rs_uploads st)) \<and>
     (\<forall>r\<in>set (rs_runs st). ru_session_id r \<in> session_ids st \<and> run_ok r) \<and>
     (\<forall>u\<in>set (rs_uploads st). up_session_id u \<in> session_ids st \<and> up_id u \<le> rs_last_upload_id st)"

lemma wf_empty: "store_wf empty_store"
  by (simp add: store_wf_def empty_store_def)

lemma find_session_None: "find_session st i = None \<longleftrightarrow> i \<notin> session_ids st"
  by (auto simp: find_session_def find_None_iff session_ids_def)

lemma get_session_None: "get_session st i = None \<longleftrightarrow> i \<notin> session_ids st"
  by (simp add: get_session_def find_session_None)

lemma find_run_None: "find_run st i = None \<longleftrightarrow> i \<notin> ru_run_id ` set (rs_runs st)"
  by (auto simp: find_run_def find_None_iff)

lemma find_run_Some: "find_run st i = Some r \<Longrightarrow> r \<in> set (rs_runs st) \<and> ru_run_id r = i"
  by (auto simp: find_run_def find_Some_iff)

lemma find_run_unique: "distinct (map ru_run_id (rs_runs st)) \<Longrightarrow> r \<in> set (rs_runs st) \<Longrightarrow> find_run st (ru_run_id r) = Some r"
proof -
  have "distinct (map ru_run_id rs) \<Longrightarrow> r \<in> set rs \<Longrightarrow> find (\<lambda>q. ru_run_id q = ru_run_id r) rs = Some r" for rs
    by (induction rs) auto
  then show "distinct (map ru_run_id (rs_runs st)) \<Longrightarrow> r \<in> set (rs_runs st) \<Longrightarrow> ?thesis" by (simp add: find_run_def)
qed

lemma run_from_row_simps [simp]:
  "ru_run_id (run_from_row r) = ru_run_id r" "ru_session_id (run_from_row r) = ru_session_id r"
  "ru_status (run_from_row r) = ru_status r" "ru_started_at (run_from_row r) = ru_started_at r"
  "ru_pause_started_at (run_from_row r) = ru_pause_started_at r" "ru_final_result (run_from_row r) = ru_final_result r"
  "ru_ended_at (run_from_row r) = ru_ended_at r" "ru_paused_total_ms (run_from_row r) = ru_paused_total_ms r"
  "ru_created_at (run_from_row r) = ru_created_at r"
  by (simp_all add: run_from_row_def)

lemma get_run_Some: "get_run st i = Some r \<Longrightarrow> \<exists>q. q \<in> set (rs_runs st) \<and> ru_run_id q = i \<and> r = run_from_row q"
  by (auto simp: get_run_def dest: find_run_Some)

lemma update_session_simps [simp]:
  "rs_runs (update_session i f st) = rs_runs st" "rs_uploads (update_session i f st) = rs_uploads st"
  "rs_last_upload_id (update_session i f st) = rs_last_upload_id st"
  by (simp_all add: update_session_def)

lemma update_run_simps [simp]:
  "rs_sessions (update_run i f st) = rs_sessions st" "rs_uploads (update_run i f st) = rs_uploads st"
  "rs_last_upload_id (update_run i f st) = rs_last_upload_id st" "session_ids (update_run i f st) = session_ids st"
  by (simp_all add: update_run_def session_ids_def)

lemma session_ids_update:
  assumes "\<And>r. se_session_id (f r) = se_session_id r"
  shows "map se_session_id (rs_sessions (update_session i f st)) = map se_session_id (rs_sessions st)"
    "session_ids (update_session i f st) = session_ids st"
proof -
  show ids: "map se_session_id (rs_sessions (update_session i f st)) = map se_session_id (rs_sessions st)"
    using assms by (simp add: update_session_def)
  show "session_ids (update_session i f st) = session_ids st"
    using arg_cong [OF ids, of set] by (simp add: session_ids_def)
qed

lemma wf_update_session:
  assumes "store_wf st" "\<And>r. se_session_id (f r) = se_session_id r"
  shows "store_wf (update_session i f st)"
  using assms session_ids_update [of f i st] by (simp add: store_wf_def)

lemma wf_update_run:
  assumes "store_wf st" "\<And>r. ru_run_id (f r) = ru_run_id r" "\<And>r. ru_session_id (f r) = ru_session_id r"
    and "\<And>r. r \<in> set (rs_runs st) \<Longrightarrow> ru_run_id r = i \<Longrightarrow> run_ok r \<Longrightarrow> run_ok (f r)"
  shows "store_wf (update_run i f st)"
proof -
  have "map ru_run_id (rs_runs (update_run i f st)) = map ru_run_id (rs_runs st)"
    using assms(2) by (simp add: update_run_def)
  moreover have "ru_session_id r \<in> session_ids st \<and> run_ok r" if "r \<in> set (rs_runs (update_run i f st))" for r
    using that assms(1,3,4) by (auto simp: update_run_def store_wf_def)
  ultimately show ?thesis using assms(1) by (simp add: store_wf_def)
qed

lemma ensure_runs [simp]:
  "rs_runs (fst (ensure_session_owned st sid ow now)) = rs_runs st"
  "rs_uploads (fst (ensure_session_owned st sid ow now)) = rs_uploads st"
  "rs_last_upload_id (fst (ensure_session_owned st sid ow now)) = rs_last_upload_id st"
  by (simp_all add: ensure_session_owned_def split: option.split)

lemma ensure_session_ids: "session_ids (fst (ensure_session_owned st sid ow now)) = insert sid (session_ids st)"
proof (cases "get_session st sid")
  case None
  then show ?thesis by (simp add: ensure_session_owned_def session_ids_def new_session_def)
next
  case (Some s)
  then have "sid \<in> session_ids st" using get_session_None [of st sid] by auto
  then show ?thesis using Some by (simp add: ensure_session_owned_def session_ids_update insert_absorb)
qed

lemma wf_ensure: "store_wf st \<Longrightarrow> store_wf (fst (ensure_session_owned st sid ow now))"
proof (cases "get_session st sid")
  case None
  assume wf: "store_wf st"
  let ?st = "fst (ensure_session_owned st sid ow now)"
  have "distinct (map se_session_id (rs_sessions ?st))"
    using wf None get_session_None [of st sid]
    by (auto simp: ensure_session_owned_def store_wf_def session_ids_def new_session_def)
  then show ?thesis using wf unfolding store_wf_def ensure_session_ids ensure_runs by blast
qed (simp add: ensure_session_owned_def wf_update_session)

section \<open>Every operation keeps it\<close>

lemmas statuses = all_statuses_def active_statuses_def terminal_statuses_def recoverable_on_startup_def

lemma wf_set_phase: "store_wf st \<Longrightarrow> store_wf (set_phase st i phase v)"
  by (cases v) (auto simp: set_phase_def run_ok_def intro!: wf_update_run)

lemma wf_set_hitl: "store_wf st \<Longrightarrow> store_wf (set_hitl st i payload STATUS_AWAITING_APPROVAL now)"
  unfolding set_hitl_def Let_def
  by (rule wf_update_run) (auto simp: run_ok_def statuses split: option.split)

lemma iso_delta_nonneg [simp]: "0 \<le> iso_delta_ms s t"
  by (simp add: iso_delta_ms_def)

lemma wf_clear_hitl: "store_wf st \<Longrightarrow> store_wf (clear_hitl st i now)"
proof -
  assume wf: "store_wf st"
  have "get_run st i = Some (run_from_row r)" if "r \<in> set (rs_runs st)" "ru_run_id r = i" for r
    using find_run_unique [of st r] that wf by (auto simp: get_run_def store_wf_def)
  then show ?thesis unfolding clear_hitl_def Let_def
    by (intro wf_update_run [OF wf]) (auto simp: run_ok_def statuses split: option.splits)
qed

lemma wf_set_status: "store_wf st \<Longrightarrow> store_wf (fst (mark_cancelling st i))"
  unfolding mark_cancelling_def set_status_def Let_def fst_conv
  by (rule wf_update_run) (auto simp: run_ok_def statuses)

lemma stale_row_ok: "run_ok r \<Longrightarrow> run_ok (stale_row err now r)"
  by (auto simp: run_ok_def stale_row_def statuses split: option.split)

lemma wf_mark_recoverable: "store_wf st \<Longrightarrow> store_wf (fst (mark_recoverable st i err now))"
  by (auto simp: mark_recoverable_def Let_def stale_row_def stale_row_ok [unfolded stale_row_def] intro!: wf_update_run
      split: option.split)

lemma final_status_terminal: "final_status status result \<in> set terminal_statuses"
  by (simp add: final_status_def terminal_statuses_def)

lemma terminal_known: "s \<in> set terminal_statuses \<Longrightarrow> s \<in> set all_statuses \<and> s \<noteq> STATUS_AWAITING_APPROVAL \<and> s \<noteq> STATUS_RECOVERABLE"
  by (auto simp: statuses)

lemma settled_row_ok:
  assumes "s \<in> set terminal_statuses" "run_ok r"
  shows "run_ok (r\<lparr>ru_status := s, ru_final_result := result, ru_error := err, ru_ended_at := Some now,
    ru_hitl_status := None, ru_hitl_payload := None, ru_pause_started_at := None\<rparr>)"
  using assms(2) terminal_known [OF assms(1)] by (simp add: run_ok_def)

lemma wf_complete_run: "store_wf st \<Longrightarrow> store_wf (fst (complete_run st i result status err now later))"
proof -
  assume wf: "store_wf st"
  have "store_wf (update_run i (\<lambda>r. r\<lparr>ru_status := final_status status result, ru_final_result := result,
          ru_error := err, ru_ended_at := Some now, ru_hitl_status := None, ru_hitl_payload := None,
          ru_pause_started_at := None\<rparr>) st)" (is "store_wf ?st1")
    by (rule wf_update_run [OF wf]) (simp_all add: settled_row_ok final_status_terminal)
  then show ?thesis by (auto simp: complete_run_def Let_def ensure_session_def wf_ensure split: option.split)
qed

lemma wf_mark_running: "store_wf st \<Longrightarrow> store_wf (fst (mark_running st i ws now later))"
proof -
  assume wf: "store_wf st"
  have "store_wf (update_run i (\<lambda>r. r\<lparr>ru_status := STATUS_RUNNING, ru_started_at := Some t, ru_workspace := w,
           ru_hitl_status := None, ru_pause_started_at := None\<rparr>) st)" for t w
    by (rule wf_update_run [OF wf]) (auto simp: run_ok_def statuses)
  then show ?thesis using wf by (auto simp: mark_running_def Let_def ensure_session_def wf_ensure split: option.split)
qed

lemma count_event_keeps [simp]:
  "ru_run_id (count_event e r) = ru_run_id r" "ru_session_id (count_event e r) = ru_session_id r"
  "ru_status (count_event e r) = ru_status r"
  by (simp_all add: count_event_def Let_def split: option.split)

lemma count_event_ok: "run_ok r \<Longrightarrow> run_ok (count_event e r)"
  by (auto simp: run_ok_def count_event_def Let_def split: option.split)

lemma wf_on_event: "store_wf st \<Longrightarrow> store_wf (on_event st e)"
  by (auto simp: on_event_def count_event_ok intro!: wf_update_run)

lemma new_run_ok: "run_ok (new_run a now)"
  by (simp add: run_ok_def new_run_def statuses)

lemma wf_create_run: "store_wf st \<Longrightarrow> store_wf (fst (create_run st a t now))"
proof -
  assume "store_wf st"
  then have wf: "store_wf (fst (ensure_session_owned st (cr_session_id a) (cr_owner a) t))" (is "store_wf ?st1") by (rule wf_ensure)
  have "store_wf (?st1\<lparr>rs_runs := rs_runs ?st1 @ [new_run a now]\<rparr>)" if "cr_run_id a \<notin> ru_run_id ` set (rs_runs ?st1)"
  proof -
    have "session_ids (?st1\<lparr>rs_runs := rs_runs ?st1 @ [new_run a now]\<rparr>) = session_ids ?st1" by (simp add: session_ids_def)
    moreover have "ru_session_id (new_run a now) \<in> session_ids ?st1" by (simp add: new_run_def ensure_session_ids)
    ultimately show ?thesis using wf that new_run_ok [of a now] unfolding store_wf_def
      by (auto simp: new_run_def)
  qed
  then show ?thesis using wf by (auto simp: create_run_def Let_def find_run_None)
qed

lemma wf_add_upload: "store_wf st \<Longrightarrow> store_wf (fst (add_upload st sid name bytes path t now))"
proof -
  assume "store_wf st"
  then have wf: "store_wf (fst (ensure_session st sid t))" (is "store_wf ?st1") unfolding ensure_session_def by (rule wf_ensure)
  have ids: "session_ids (?st1\<lparr>rs_uploads := us, rs_last_upload_id := n\<rparr>) = session_ids ?st1" for us n
    by (simp add: session_ids_def)
  have "sid \<in> session_ids ?st1" by (simp add: ensure_session_def ensure_session_ids)
  then show ?thesis using wf unfolding add_upload_def Let_def fst_conv store_wf_def ids
    by (auto simp: less_imp_neq)
qed

lemma wf_delete_rows: "store_wf st \<Longrightarrow> store_wf (delete_session_rows sid st)"
proof -
  have "session_ids (delete_session_rows sid st) = session_ids st - {sid}"
    by (auto simp: session_ids_def delete_session_rows_def)
  then show "store_wf st \<Longrightarrow> ?thesis"
    by (auto simp: store_wf_def delete_session_rows_def distinct_map inj_on_def)
qed

lemma wf_delete_run: "store_wf st \<Longrightarrow> store_wf (fst (delete_run st i tenant))"
proof -
  have "session_ids (st\<lparr>rs_runs := rs\<rparr>) = session_ids st" for rs by (simp add: session_ids_def)
  then show "store_wf st \<Longrightarrow> ?thesis"
    by (auto simp: delete_run_def store_wf_def distinct_map inj_on_def split: option.split)
qed

lemma wf_recover: "store_wf st \<Longrightarrow> store_wf (fst (recover_runs live clock runs st))"
proof (induction runs arbitrary: st)
  case (Cons r runs)
  obtain st' m where step: "mark_recoverable st (ru_run_id r) ''backend restarted'' (clock (ru_run_id r)) = (st', m)" by fastforce
  obtain st'' rec where rest: "recover_runs live clock runs st' = (st'', rec)" by fastforce
  have "store_wf st'" using wf_mark_recoverable [OF Cons.prems, of "ru_run_id r" "''backend restarted''" "clock (ru_run_id r)"] step by simp
  then show ?case using Cons.IH [of st] Cons.IH [of st'] Cons.prems step rest by simp
qed simp

lemma wf_submit: "store_wf st \<Longrightarrow> store_wf (fst (submit_task st q i queued live clock))"
proof -
  assume "store_wf st"
  then have wf: "store_wf (fst (ensure_session st (tq_thread_id q) (clock 0)))" (is "store_wf ?st1")
    unfolding ensure_session_def by (rule wf_ensure)
  obtain st2 r where create: "create_run ?st1 (task_args q i) (clock 1) (clock 2) = (st2, r)" by fastforce
  then have "store_wf st2" using wf_create_run [OF wf, of "task_args q i" "clock 1" "clock 2"] by simp
  then show ?thesis using create
    by (auto simp: submit_task_def Let_def interrupt_run_def wf_complete_run split: sum.split option.split)
qed

lemma wf_cancel: "store_wf st \<Longrightarrow> store_wf (fst (cancel_task st sid live clock))"
  by (auto simp: cancel_task_def Let_def interrupt_run_def wf_complete_run wf_set_status split: option.split)

lemma store_step_wf: "store_wf st \<Longrightarrow> store_wf (store_step st op)"
  by (cases op)
    (auto simp: wf_ensure set_session_archived_def Let_def wf_update_session wf_create_run wf_mark_running wf_set_status
      wf_mark_recoverable wf_complete_run fail_run_def interrupt_run_def wf_set_phase wf_set_hitl wf_clear_hitl
      wf_add_upload wf_on_event recover_stale_runs_def wf_recover delete_session_def wf_delete_rows wf_delete_run
      wf_submit wf_cancel split: option.split)

lemma reachable_store_wf: "reachable_store st \<Longrightarrow> store_wf st"
  by (induction rule: reachable_store.induct) (simp_all add: wf_empty store_step_wf)

text \<open>
  C30. The tables in every history: identifiers are unique, every run and upload has its session, a run
  that waits for an approval has the approval and the start of its pause, and a settled run has its
  end and neither.
\<close>

theorem run_tables_consistent:
  assumes "reachable_store st"
  shows "distinct (map ru_run_id (rs_runs st)) \<and> distinct (map se_session_id (rs_sessions st)) \<and>
    (\<forall>r\<in>set (rs_runs st). (\<exists>s\<in>set (rs_sessions st). se_session_id s = ru_session_id r) \<and>
       ru_status r \<in> set all_statuses \<and>
       (ru_status r = STATUS_AWAITING_APPROVAL \<longrightarrow> ru_hitl_payload r \<noteq> None \<and> ru_pause_started_at r \<noteq> None) \<and>
       (ru_status r \<in> set terminal_statuses \<longrightarrow>
          ru_ended_at r \<noteq> None \<and> ru_hitl_payload r = None \<and> ru_pause_started_at r = None)) \<and>
    (\<forall>u\<in>set (rs_uploads st). \<exists>s\<in>set (rs_sessions st). se_session_id s = up_session_id u)"
proof -
  have wf: "store_wf st" by (rule reachable_store_wf [OF assms])
  have session: "\<exists>s\<in>set (rs_sessions st). se_session_id s = i" if "i \<in> session_ids st" for i
    using that by (auto simp: session_ids_def)
  show ?thesis using wf session unfolding store_wf_def run_ok_def by blast
qed

section \<open>Startup recovery\<close>

definition stale_in :: "(string \<Rightarrow> int) \<Rightarrow> string set \<Rightarrow> run_row \<Rightarrow> run_row" where
  "stale_in clock is r = (if ru_run_id r \<in> is then stale_row ''backend restarted'' (clock (ru_run_id r)) r else r)"

definition mark_stale :: "(string \<Rightarrow> int) \<Rightarrow> string set \<Rightarrow> run_store \<Rightarrow> run_store" where
  "mark_stale clock is st = st\<lparr>rs_runs := map (stale_in clock is) (rs_runs st)\<rparr>"

lemma stale_row_simps [simp]:
  "ru_run_id (stale_row err now r) = ru_run_id r" "ru_session_id (stale_row err now r) = ru_session_id r"
  "ru_status (stale_row err now r) = STATUS_RECOVERABLE"
  by (simp_all add: stale_row_def)

lemma stale_in_id [simp]: "ru_run_id (stale_in clock is r) = ru_run_id r"
  by (simp add: stale_in_def)

lemma find_run_map:
  "(\<And>r. ru_run_id (f r) = ru_run_id r) \<Longrightarrow> find_run (st\<lparr>rs_runs := map f (rs_runs st)\<rparr>) i = map_option f (find_run st i)"
proof -
  assume f: "\<And>r. ru_run_id (f r) = ru_run_id r"
  have "find (\<lambda>r. ru_run_id r = i) (map f rs) = map_option f (find (\<lambda>r. ru_run_id r = i) rs)" for rs
    using f by (induction rs) auto
  then show ?thesis by (simp add: find_run_def)
qed

lemma mark_recoverable_eq:
  assumes "find_run st i = Some r"
  shows "mark_recoverable st i ''backend restarted'' (clock i) =
    (mark_stale clock {i} st, Some (run_from_row (stale_row ''backend restarted'' (clock i) r)))"
proof -
  have i: "ru_run_id r = i" using find_run_Some [OF assms] by simp
  have upd: "update_run i (stale_row ''backend restarted'' (clock i)) st = mark_stale clock {i} st"
    by (auto simp: update_run_def mark_stale_def stale_in_def)
  have "find_run (mark_stale clock {i} st) i = Some (stale_row ''backend restarted'' (clock i) r)"
    using assms i unfolding mark_stale_def by (subst find_run_map) (auto simp: stale_in_def)
  then show ?thesis using assms by (simp add: mark_recoverable_def get_run_def upd)
qed

lemma mark_stale_twice: "is \<inter> js = {} \<Longrightarrow> mark_stale clock is (mark_stale clock js st) = mark_stale clock (is \<union> js) st"
proof -
  assume "is \<inter> js = {}"
  then have "stale_in clock is (stale_in clock js r) = stale_in clock (is \<union> js) r" for r
    by (auto simp: stale_in_def)
  then show ?thesis by (simp add: mark_stale_def)
qed

lemma find_mark_stale: "i \<notin> is \<Longrightarrow> find_run (mark_stale clock is st) i = find_run st i"
  by (cases "find_run st i") (auto simp: mark_stale_def find_run_map stale_in_def dest: find_run_Some)

lemma recover_runs_eq:
  assumes "distinct (map ru_run_id runs)"
    and "\<And>r. r \<in> set runs \<Longrightarrow> \<exists>q. find_run st (ru_run_id r) = Some q"
  shows "recover_runs live clock runs st =
    (mark_stale clock (ru_run_id ` set (filter (recovery_needed live) runs)) st,
     map (\<lambda>r. run_from_row (stale_row ''backend restarted'' (clock (ru_run_id r)) (the (find_run st (ru_run_id r)))))
       (filter (recovery_needed live) runs))"
  using assms
proof (induction runs arbitrary: st)
  case Nil
  then show ?case by (simp add: mark_stale_def stale_in_def map_idI)
next
  case (Cons r runs)
  obtain q where q: "find_run st (ru_run_id r) = Some q" using Cons.prems(2) by auto
  have fresh: "ru_run_id s \<noteq> ru_run_id r" if "s \<in> set runs" for s
    using that Cons.prems(1) by (metis distinct.simps(2) image_eqI list.set_map list.simps(9))
  have notin: "ru_run_id r \<notin> ru_run_id ` set (filter (recovery_needed live) runs)" using Cons.prems(1) by auto
  show ?case
  proof (cases "recovery_needed live r")
    case True
    let ?st = "mark_stale clock {ru_run_id r} st"
    have same: "find_run ?st (ru_run_id s) = find_run st (ru_run_id s)" if "s \<in> set runs" for s
      using fresh [OF that] by (simp add: find_mark_stale)
    have "recover_runs live clock runs ?st =
      (mark_stale clock (ru_run_id ` set (filter (recovery_needed live) runs)) ?st,
       map (\<lambda>r. run_from_row (stale_row ''backend restarted'' (clock (ru_run_id r)) (the (find_run ?st (ru_run_id r)))))
         (filter (recovery_needed live) runs))"
      by (rule Cons.IH) (use Cons.prems same in auto)
    moreover have "mark_stale clock (ru_run_id ` set (filter (recovery_needed live) runs)) ?st
        = mark_stale clock (insert (ru_run_id r) (ru_run_id ` set (filter (recovery_needed live) runs))) st"
      using notin by (subst mark_stale_twice) auto
    ultimately show ?thesis using True q same by (simp add: mark_recoverable_eq [OF q])
  next
    case False
    then show ?thesis using Cons.IH [of st] Cons.prems by simp
  qed
qed

lemma recovery_needed_row [simp]: "recovery_needed live (run_from_row r) = recovery_needed live r"
  by (simp add: recovery_needed_def)

lemma recovery_needed_active: "recovery_needed live r \<Longrightarrow> ru_status r \<in> set (active_statuses @ [STATUS_RECOVERABLE])"
  by (auto simp: recovery_needed_def statuses)

lemma active_needed:
  "filter (recovery_needed live) (list_active_runs st) =
     map run_from_row (sort_key ru_created_at (filter (recovery_needed live) (rs_runs st)))"
proof -
  have "filter (\<lambda>r. ru_status r \<in> set (active_statuses @ [STATUS_RECOVERABLE]) \<and> recovery_needed live r) (rs_runs st)
      = filter (recovery_needed live) (rs_runs st)"
    by (rule filter_cong) (use recovery_needed_active in auto)
  then show ?thesis
    by (simp only: list_active_runs_def filter_map comp_def recovery_needed_row filter_sort filter_filter)
qed

lemma recover_stale_eq:
  assumes "store_wf st"
  shows "recover_stale_runs st live clock =
    (st\<lparr>rs_runs := map (\<lambda>r. if recovery_needed live r then stale_row ''backend restarted'' (clock (ru_run_id r)) r else r)
        (rs_runs st)\<rparr>,
     map (\<lambda>r. run_from_row (stale_row ''backend restarted'' (clock (ru_run_id r)) r))
       (sort_key ru_created_at (filter (recovery_needed live) (rs_runs st))))"
proof -
  have ids: "distinct (map ru_run_id (rs_runs st))" using assms by (simp add: store_wf_def)
  have row: "find_run st (ru_run_id r) = Some r" if "r \<in> set (rs_runs st)" for r
    by (rule find_run_unique [OF ids that])
  have active: "distinct (map ru_run_id (list_active_runs st))"
    unfolding list_active_runs_def using ids by (auto simp: distinct_map comp_def inj_on_def)
  have known: "\<exists>q. find_run st (ru_run_id r) = Some q" if "r \<in> set (list_active_runs st)" for r
    using that row by (auto simp: list_active_runs_def)
  have "ru_run_id r \<in> ru_run_id ` set (filter (recovery_needed live) (list_active_runs st)) \<longleftrightarrow> recovery_needed live r"
    if "r \<in> set (rs_runs st)" for r
    using that row unfolding active_needed by (auto simp: image_image) (metis option.inject row)
  then have stale: "mark_stale clock (ru_run_id ` set (filter (recovery_needed live) (list_active_runs st))) st =
      st\<lparr>rs_runs := map (\<lambda>r. if recovery_needed live r then stale_row ''backend restarted'' (clock (ru_run_id r)) r else r) (rs_runs st)\<rparr>"
    by (simp add: mark_stale_def stale_in_def cong: map_cong)
  have "recover_stale_runs st live clock =
      (mark_stale clock (ru_run_id ` set (filter (recovery_needed live) (list_active_runs st))) st,
       map (\<lambda>r. run_from_row (stale_row ''backend restarted'' (clock (ru_run_id r)) (the (find_run st (ru_run_id r)))))
         (filter (recovery_needed live) (list_active_runs st)))"
    unfolding recover_stale_runs_def by (rule recover_runs_eq [OF active known])
  then show ?thesis unfolding stale unfolding active_needed by (simp add: comp_def row)
qed

text \<open>
  C29. Recovery after a restart, in every reachable store: exactly the queued, running and cancelling
  runs whose session has no live task become recoverable, all other rows stay as they are, the runs
  are reported oldest first, and a second recovery finds nothing more to do.
\<close>

theorem startup_recovery:
  assumes "reachable_store st" "recover_stale_runs st live clock = (st', recovered)"
  shows "st' = st\<lparr>rs_runs := map (\<lambda>r. if ru_status r \<in> set recoverable_on_startup \<and> ru_session_id r \<notin> set live
           then stale_row ''backend restarted'' (clock (ru_run_id r)) r else r) (rs_runs st)\<rparr> \<and>
    map ru_run_id recovered = map ru_run_id (sort_key ru_created_at
       (filter (\<lambda>r. ru_status r \<in> set recoverable_on_startup \<and> ru_session_id r \<notin> set live) (rs_runs st))) \<and>
    (\<forall>r\<in>set recovered. get_run st' (ru_run_id r) = Some r \<and> ru_status r = STATUS_RECOVERABLE) \<and>
    recover_stale_runs st' live clock' = (st', [])"
proof -
  have wf: "store_wf st" by (rule reachable_store_wf [OF assms(1)])
  have needed: "recovery_needed live = (\<lambda>r. ru_status r \<in> set recoverable_on_startup \<and> ru_session_id r \<notin> set live)"
    by (auto simp: fun_eq_iff recovery_needed_def recoverable_on_startup_def)
  let ?f = "\<lambda>r. if recovery_needed live r then stale_row ''backend restarted'' (clock (ru_run_id r)) r else r"
  have st': "st' = st\<lparr>rs_runs := map ?f (rs_runs st)\<rparr>" and recovered: "recovered =
      map (\<lambda>r. run_from_row (stale_row ''backend restarted'' (clock (ru_run_id r)) r))
        (sort_key ru_created_at (filter (recovery_needed live) (rs_runs st)))"
    using recover_stale_eq [OF wf, of live clock] assms(2) by simp_all
  have wf': "store_wf st'" using wf_recover [OF wf, of live clock "list_active_runs st"] assms(2)
    by (simp add: recover_stale_runs_def)
  have settled: "\<not> recovery_needed live r" if "r \<in> set (rs_runs st')" for r
    using that by (auto simp: st' recovery_needed_def recoverable_on_startup_def split: if_splits)
  have "get_run st' (ru_run_id r) = Some (run_from_row (?f r))" if "r \<in> set (rs_runs st)" for r
  proof -
    have "find_run st (ru_run_id r) = Some r" using find_run_unique [of st r] wf that by (simp add: store_wf_def)
    then show ?thesis unfolding st' get_run_def by (subst find_run_map) auto
  qed
  then have "get_run st' (ru_run_id r) = Some r \<and> ru_status r = STATUS_RECOVERABLE" if "r \<in> set recovered" for r
    using that by (auto simp: recovered)
  moreover have "recover_stale_runs st' live clock' = (st', [])"
  proof -
    have "map (\<lambda>r. if recovery_needed live r then stale_row ''backend restarted'' (clock' (ru_run_id r)) r else r) (rs_runs st')
        = rs_runs st'" by (rule map_idI) (use settled in auto)
    moreover have "filter (recovery_needed live) (rs_runs st') = []" using settled by (simp add: filter_empty_conv)
    ultimately show ?thesis by (simp add: recover_stale_eq [OF wf'])
  qed
  moreover have "map ru_run_id recovered = map ru_run_id (sort_key ru_created_at (filter (recovery_needed live) (rs_runs st)))"
    by (simp add: recovered comp_def)
  ultimately show ?thesis using st' unfolding needed by blast
qed

section \<open>Examples\<close>

definition acme_request :: task_request where
  "acme_request = \<lparr>tq_query = ''q'', tq_thread_id = ''t1'', tq_mode = ''agent'',
     tq_owner = \<lparr>ow_tenant_id = ''acme'', ow_user_id = ''ann'', ow_project_id = ''p''\<rparr>\<rparr>"

definition acme_store :: run_store where
  "acme_store = fst (submit_task empty_store acme_request ''r1'' False False (\<lambda>k. 100 + int k))"

lemma acme_reachable: "reachable_store acme_store"
  using store_op [OF fresh_store, of "Submit_task acme_request ''r1'' False False (\<lambda>k. 100 + int k)"]
  by (simp add: acme_store_def)

lemma run_tables_consistent_witness: "distinct (map ru_run_id (rs_runs acme_store))"
  using run_tables_consistent [OF acme_reachable] by blast

lemma startup_recovery_witness:
  "\<exists>st' recovered. recover_stale_runs acme_store [] (\<lambda>i. 400) = (st', recovered) \<and>
     recover_stale_runs st' [] (\<lambda>i. 500) = (st', [])"
proof -
  obtain st' recovered where step: "recover_stale_runs acme_store [] (\<lambda>i. 400) = (st', recovered)" by fastforce
  then show ?thesis using startup_recovery [OF acme_reachable step, of "\<lambda>i. 500"] by blast
qed

end
