(* ===== verification/RunStoreScope.thy ===== *)
theory RunStoreScope
  imports RunStoreProps
begin

text \<open>
  The event projection of the run store, the ownership of sessions by tenants, cancellation and
  elapsed time, with concrete stores.
\<close>

section \<open>Projections that do not depend on the order of events\<close>

text \<open>
  A projection of a state whose change by an event depends on the projection only, and on which two
  events commute, is the same for every order in which events are delivered.
\<close>

locale order_free_projection =
  fixes note_event :: "'e \<Rightarrow> 's \<Rightarrow> 's"
    and view :: "'s \<Rightarrow> 'v"
  assumes view_cong: "view s = view t \<Longrightarrow> view (note_event e s) = view (note_event e t)"
    and view_commute: "view (note_event e (note_event e' s)) = view (note_event e' (note_event e s))"
begin

lemma fold_cong_view: "view s = view t \<Longrightarrow> view (fold note_event es s) = view (fold note_event es t)"
proof (induction es arbitrary: s t)
  case (Cons e es)
  show ?case using Cons.IH [OF view_cong [OF Cons.prems]] by simp
qed simp

lemma fold_front: "view (fold note_event (us @ e # vs) s) = view (fold note_event (e # us @ vs) s)"
proof (induction us arbitrary: s)
  case (Cons u us)
  have "view (fold note_event (us @ e # vs) (note_event u s)) = view (fold note_event (us @ vs) (note_event e (note_event u s)))"
    using Cons.IH by simp
  also have "\<dots> = view (fold note_event (us @ vs) (note_event u (note_event e s)))"
    by (rule fold_cong_view) (rule view_commute)
  finally show ?case by simp
qed simp

lemma order_free: "mset es = mset es' \<Longrightarrow> view (fold note_event es s) = view (fold note_event es' s)"
proof (induction es arbitrary: es' s)
  case (Cons e es)
  then have "e \<in> set es'" by (metis list.set_intros(1) set_mset_mset)
  then obtain us vs where es': "es' = us @ e # vs" by (meson split_list)
  have "mset es = mset (us @ vs)" using Cons.prems es' by simp
  then have "view (fold note_event es (note_event e s)) = view (fold note_event (us @ vs) (note_event e s))" by (rule Cons.IH)
  then show ?case by (simp add: es' fold_front del: fold_append)
qed simp

end

definition run_counters :: "run_row \<Rightarrow> string \<times> int \<times> int \<times> int \<times> int" where
  "run_counters r = (ru_run_id r, ru_last_event_seq r, ru_tool_calls r, ru_assistant_calls r, ru_errors r)"

definition counters_view :: "run_store \<Rightarrow> (string \<times> int \<times> int \<times> int \<times> int) list" where
  "counters_view st = map run_counters (rs_runs st)"

definition bump :: "store_event \<Rightarrow> string \<times> int \<times> int \<times> int \<times> int \<Rightarrow> string \<times> int \<times> int \<times> int \<times> int" where
  "bump e = (\<lambda>(i, s, t, a, k).
     (i, if sv_seq e \<noteq> 0 then max s (sv_seq e) else s, if sv_type e = ''tool.started'' then t + 1 else t,
      if sv_type e = ''worker.started'' then a + 1 else a,
      if sv_type e \<in> {''tool.failed'', ''worker.failed'', ''run.failed''} then k + 1 else k))"

lemma count_event_counters: "run_counters (count_event e r) = bump e (run_counters r)"
  by (auto simp: run_counters_def count_event_def bump_def Let_def split: option.split)

lemma on_event_counters:
  "counters_view (on_event st e) =
     map (\<lambda>c. if sv_run_id e \<noteq> [] \<and> fst c = sv_run_id e then bump e c else c) (counters_view st)"
proof (cases "sv_run_id e = [] \<or> get_run st (sv_run_id e) = None")
  case True
  have "\<not> (sv_run_id e \<noteq> [] \<and> fst (run_counters r) = sv_run_id e)" if "r \<in> set (rs_runs st)" for r
    using True that by (auto simp: get_run_def find_run_None image_iff run_counters_def)
  then show ?thesis using True by (auto simp: on_event_def counters_view_def)
next
  case False
  have "fst (run_counters r) = ru_run_id r" for r by (simp add: run_counters_def)
  then show ?thesis using False
    by (auto simp: on_event_def counters_view_def update_run_def count_event_counters if_distrib [of run_counters])
qed

lemma bump_commute: "bump e (bump e' c) = bump e' (bump e c)"
  by (cases c) (simp add: bump_def max.left_commute max.commute)

lemma bump_fst [simp]: "fst (bump e c) = fst c"
  by (cases c) (simp add: bump_def)

interpretation run_events: order_free_projection "\<lambda>e st. on_event st e" counters_view
proof unfold_locales
  show "counters_view (on_event s e) = counters_view (on_event t e)" if "counters_view s = counters_view t" for s t e
    using that by (simp add: on_event_counters)
  show "counters_view (on_event (on_event s e') e) = counters_view (on_event (on_event s e) e')" for s e e'
    by (auto simp: on_event_counters bump_commute)
qed

text \<open>
  C32. The counters and the last sequence number of every run depend on which events were recorded, not
  on the order in which the recorder delivers them.
\<close>

theorem event_counters_order_free:
  assumes "mset es = mset es'"
  shows "map run_counters (rs_runs (fold (\<lambda>e st. on_event st e) es st)) =
    map run_counters (rs_runs (fold (\<lambda>e st. on_event st e) es' st))"
  using run_events.order_free [OF assms, of st] by (simp add: counters_view_def)

section \<open>Tenants\<close>

lemma find_session_Some: "find_session st i = Some s \<Longrightarrow> s \<in> set (rs_sessions st) \<and> se_session_id s = i"
  by (auto simp: find_session_def find_Some_iff)

lemma find_session_unique:
  "distinct (map se_session_id (rs_sessions st)) \<Longrightarrow> s \<in> set (rs_sessions st) \<Longrightarrow> find_session st (se_session_id s) = Some s"
proof -
  have "distinct (map se_session_id ss) \<Longrightarrow> s \<in> set ss \<Longrightarrow> find (\<lambda>q. se_session_id q = se_session_id s) ss = Some s" for ss
    by (induction ss) auto
  then show "distinct (map se_session_id (rs_sessions st)) \<Longrightarrow> s \<in> set (rs_sessions st) \<Longrightarrow> ?thesis"
    by (simp add: find_session_def)
qed

definition session_tenant :: "session_row \<Rightarrow> string" where
  "session_tenant s = or_default (se_tenant_id s) ''local''"

lemma get_session_tenant: "get_session st i = Some s \<Longrightarrow> \<exists>q. find_session st i = Some q \<and> se_tenant_id s = session_tenant q"
  by (auto simp: get_session_def session_from_row_def session_tenant_def)

text \<open>
  C31. A tenant deletes sessions of its own only, and then the session with every run and upload filed under
  it: the sessions of other tenants keep their rows and the runs and uploads filed under them.  Whose
  tenant a run in a deleted session carries is not asked.
\<close>

theorem session_deletion_scoped:
  assumes "reachable_store st" "delete_session st sid (Some tenant) = (st', d)"
  shows "(\<forall>s\<in>set (rs_sessions st). session_tenant s = tenant \<or> s \<in> set (rs_sessions st')) \<and>
    (\<forall>s\<in>set (rs_sessions st). session_tenant s = tenant \<or>
       (list_runs st' (se_session_id s) = list_runs st (se_session_id s) \<and>
        list_uploads st' (se_session_id s) = list_uploads st (se_session_id s))) \<and>
    (st' = st \<or> d = Deleted (length (list_runs st sid)) \<and> get_session st' sid = None \<and>
       list_runs st' sid = [] \<and> list_uploads st' sid = [])"
proof (cases "get_session st sid")
  case None
  then show ?thesis using assms(2) by (simp add: delete_session_def)
next
  case (Some s)
  have wf: "store_wf st" by (rule reachable_store_wf [OF assms(1)])
  show ?thesis
  proof (cases "tenant = se_tenant_id s")
    case False
    then show ?thesis using assms(2) Some by (simp add: delete_session_def)
  next
    case True
    obtain q where q: "find_session st sid = Some q" "se_tenant_id s = session_tenant q"
      using get_session_tenant [OF Some] by blast
    have st': "st' = delete_session_rows sid st" and d: "d = Deleted (length (list_runs st sid))"
      using assms(2) Some True by (simp_all add: delete_session_def)
    have other: "se_session_id t \<noteq> sid" if "t \<in> set (rs_sessions st)" "session_tenant t \<noteq> tenant" for t
      using find_session_unique [of st t] wf q True that by (auto simp: store_wf_def)
    have kept: "list_runs st' i = list_runs st i" "list_uploads st' i = list_uploads st i" if "i \<noteq> sid" for i
    proof -
      have "filter (\<lambda>r. ru_session_id r = i) (rs_runs st') = filter (\<lambda>r. ru_session_id r = i) (rs_runs st)"
        using that by (auto simp: st' delete_session_rows_def intro!: filter_cong)
      then show "list_runs st' i = list_runs st i" by (simp add: list_runs_def)
      have "filter (\<lambda>r. up_session_id r = i) (rs_uploads st') = filter (\<lambda>r. up_session_id r = i) (rs_uploads st)"
        using that by (auto simp: st' delete_session_rows_def intro!: filter_cong)
      then show "list_uploads st' i = list_uploads st i" by (simp add: list_uploads_def)
    qed
    have "get_session st' sid = None" by (auto simp: get_session_None st' session_ids_def delete_session_rows_def)
    moreover have "list_runs st' sid = [] \<and> list_uploads st' sid = []"
      by (simp add: st' list_runs_def list_uploads_def delete_session_rows_def filter_empty_conv)
    moreover have "t \<in> set (rs_sessions st')" if "t \<in> set (rs_sessions st)" "session_tenant t \<noteq> tenant" for t
      using other [OF that] that(1) by (simp add: st' delete_session_rows_def)
    ultimately show ?thesis using kept other d by blast
  qed
qed

text \<open>
  Starting a task in a new session writes the session before the owner of the request is looked at:
  the run belongs to the tenant of the request, its session to the default tenant.
\<close>

lemma submitted_session_is_local:
  assumes "tq_thread_id q \<notin> session_ids st"
  shows "\<exists>s. find_session (fst (ensure_session st (tq_thread_id q) now)) (tq_thread_id q) = Some s \<and> session_tenant s = ''local''"
proof -
  have none: "find_session st (tq_thread_id q) = None" using assms by (simp add: find_session_None)
  have "find P (xs @ [x]) = Some x" if "find P xs = None" "P x" for P and xs :: "session_row list" and x
    using that by (induction xs) (auto split: if_splits)
  then show ?thesis using none
    by (auto simp: ensure_session_def ensure_session_owned_def get_session_def find_session_def new_session_def
        session_tenant_def local_owner_def or_default_def)
qed

lemma foreign_run_deleted:
  "map ru_tenant_id (rs_runs acme_store) = [''acme''] \<and> map se_tenant_id (rs_sessions acme_store) = [''local''] \<and>
   rs_runs (fst (delete_session acme_store ''t1'' (Some ''local''))) = [] \<and>
   snd (delete_session acme_store ''t1'' (Some ''acme'')) = Forbidden"
  by code_simp

lemma session_deletion_scoped_witness:
  "get_session (fst (delete_session acme_store ''t1'' (Some ''local''))) ''t1'' = None"
proof -
  have "fst (delete_session acme_store ''t1'' (Some ''local'')) \<noteq> acme_store" by code_simp
  then show ?thesis
    using session_deletion_scoped [OF acme_reachable, of "''t1''" "''local''"] by (metis prod.collapse)
qed

section \<open>Cancellation\<close>

text \<open>Cancelling a session whose latest run has settled answers that there is no task, but overwrites the status.\<close>

definition settled_store :: run_store where
  "settled_store = fst (complete_run acme_store ''r1'' ''answer'' STATUS_COMPLETED [] 200 201)"

lemma cancel_loses_completion:
  "map ru_status (rs_runs settled_store) = [STATUS_COMPLETED] \<and>
   snd (cancel_task settled_store ''t1'' False (\<lambda>k. 300)) = Task_not_found \<and>
   map ru_status (rs_runs (fst (cancel_task settled_store ''t1'' False (\<lambda>k. 300)))) = [STATUS_CANCELLING] \<and>
   map ru_status (rs_runs (fst (recover_stale_runs (fst (cancel_task settled_store ''t1'' False (\<lambda>k. 300))) [] (\<lambda>i. 400))))
     = [STATUS_RECOVERABLE]"
  by code_simp

section \<open>Elapsed time\<close>

text \<open>While a run waits for an approval its elapsed time stands still.\<close>

lemma elapsed_frozen_while_waiting:
  "ru_ended_at r = None \<Longrightarrow> ru_pause_started_at r \<noteq> None \<Longrightarrow> elapsed_ms r now = elapsed_ms r later"
  by (auto simp: elapsed_ms_def split: option.split)

text \<open>
  A recovered run that is started again keeps the end that its recovery wrote, so that its elapsed
  time never moves again.
\<close>

lemma restarted_run_stands_still:
  assumes "store_wf st" "find_run st i = Some r"
    and "mark_running (fst (mark_recoverable st i err t)) i ws now later = (st', Some r')"
  shows "ru_status r' = STATUS_RUNNING \<and> ru_ended_at r' \<noteq> None \<and> elapsed_ms r' n1 = elapsed_ms r' n2"
proof -
  have i: "ru_run_id r = i" using find_run_Some [OF assms(2)] by simp
  let ?st1 = "update_run i (stale_row err t) st"
  have upd: "find_run (update_run i f s) i = map_option f (find_run s i)" if "\<And>r. ru_run_id (f r) = ru_run_id r" for f s
  proof -
    have "find_run (update_run i f s) i = map_option (\<lambda>r. if ru_run_id r = i then f r else r) (find_run s i)"
      unfolding update_run_def by (rule find_run_map) (use that in auto)
    then show ?thesis by (cases "find_run s i") (auto dest: find_run_Some)
  qed
  have st1: "find_run ?st1 i = Some (stale_row err t r)" using upd [of "stale_row err t" st] assms(2) by simp
  have ensure: "find_run (fst (ensure_session s j n)) i = find_run s i" for s j n
    by (simp add: find_run_def ensure_session_def)
  have "ru_status r' = STATUS_RUNNING \<and> ru_ended_at r' = ru_ended_at (stale_row err t r)"
    using assms(2,3) st1
    by (auto simp: mark_recoverable_def mark_running_def get_run_def Let_def ensure upd)
  then show ?thesis by (auto simp: elapsed_ms_def stale_row_def split: option.split)
qed

section \<open>Examples\<close>

definition example_event :: "string \<Rightarrow> int \<Rightarrow> store_event" where
  "example_event kind n = \<lparr>sv_run_id = ''r1'', sv_seq = n, sv_type = kind, sv_phase = [], sv_plan_version = None\<rparr>"

lemma event_counters_order_free_witness:
  "map run_counters (rs_runs (fold (\<lambda>e st. on_event st e)
      [example_event ''tool.started'' 1, example_event ''tool.failed'' 2] acme_store)) =
   map run_counters (rs_runs (fold (\<lambda>e st. on_event st e)
      [example_event ''tool.failed'' 2, example_event ''tool.started'' 1] acme_store))"
  by (rule event_counters_order_free) simp

end
