(* ===== verification/ProjectionStore.thy ===== *)
theory ProjectionStore
  imports PyVal "HOL-Library.Product_Lexorder" "HOL-Library.Char_ord" "HOL-Library.List_Lexorder"
begin

text \<open>
  The query store of run events and cached trace projections
  (\<open>app/observability/projection_store.py\<close>).  A payload, stored as its JSON text, is the
  dictionary that the text encodes.  Rows of one sequence number come in the order of the primary
  key, by event identifier.
\<close>

section \<open>Tables\<close>

record event_row =
  er_run_id :: string
  er_seq :: int
  er_event_id :: string
  er_session_id :: string
  er_type :: string
  er_payload :: pydict

record projection_row =
  pj_run_id :: string
  pj_kind :: string
  pj_max_seq :: int
  pj_payload :: pydict

record projection_store =
  ps_events :: "event_row list"
  ps_projections :: "projection_row list"

definition event_key :: "event_row \<Rightarrow> string \<times> int \<times> string" where
  "event_key e = (er_run_id e, er_seq e, er_event_id e)"

section \<open>Operations\<close>

text \<open>A new event replaces the row of its key and drops the cached projections of its run.\<close>

definition append_event :: "projection_store \<Rightarrow> event_row \<Rightarrow> projection_store" where
  "append_event st e =
     \<lparr>ps_events = filter (\<lambda>r. event_key r \<noteq> event_key e) (ps_events st) @ [e],
      ps_projections = filter (\<lambda>p. pj_run_id p \<noteq> er_run_id e) (ps_projections st)\<rparr>"

definition run_rows :: "projection_store \<Rightarrow> string \<Rightarrow> event_row list" where
  "run_rows st i = sort_key (\<lambda>r. (er_seq r, er_event_id r)) (filter (\<lambda>r. er_run_id r = i) (ps_events st))"

definition in_window :: "int \<Rightarrow> int option \<Rightarrow> event_row \<Rightarrow> bool" where
  "in_window after before r \<longleftrightarrow> after < er_seq r \<and> (case before of None \<Rightarrow> True | Some b \<Rightarrow> er_seq r < b)"

definition sql_limit :: "int option \<Rightarrow> 'a list \<Rightarrow> 'a list" where
  "sql_limit n rows = (case n of None \<Rightarrow> rows | Some k \<Rightarrow> if k < 0 then rows else take (nat k) rows)"

text \<open>Without a lower bound, or with an upper one, the rows are selected newest first.\<close>

definition newest_first :: "int \<Rightarrow> int option \<Rightarrow> bool" where
  "newest_first after before \<longleftrightarrow> before \<noteq> None \<or> after = 0"

definition window_rows :: "projection_store \<Rightarrow> string \<Rightarrow> int \<Rightarrow> int option \<Rightarrow> int option \<Rightarrow> event_row list" where
  "window_rows st i after before n =
     (let rows = filter (in_window after before) (run_rows st i)
      in if newest_first after before then rev (sql_limit n (rev rows)) else sql_limit n rows)"

definition events_of :: "projection_store \<Rightarrow> string \<Rightarrow> int \<Rightarrow> int option \<Rightarrow> int option \<Rightarrow> pydict list" where
  "events_of st i after before n = map er_payload (window_rows st i after before n)"

definition max_seq :: "projection_store \<Rightarrow> string \<Rightarrow> int" where
  "max_seq st i =
     (case map er_seq (filter (\<lambda>r. er_run_id r = i) (ps_events st)) of [] \<Rightarrow> 0 | s # ss \<Rightarrow> fold max ss s)"

definition delete_run_events :: "projection_store \<Rightarrow> string \<Rightarrow> projection_store \<times> nat" where
  "delete_run_events st i =
     (\<lparr>ps_events = filter (\<lambda>r. er_run_id r \<noteq> i) (ps_events st),
       ps_projections = filter (\<lambda>p. pj_run_id p \<noteq> i) (ps_projections st)\<rparr>,
      length (filter (\<lambda>r. er_run_id r = i) (ps_events st)))"

definition delete_session_events :: "projection_store \<Rightarrow> string \<Rightarrow> projection_store \<times> nat" where
  "delete_session_events st sid =
     (\<lparr>ps_events = filter (\<lambda>r. er_session_id r \<noteq> sid) (ps_events st),
       ps_projections = filter (\<lambda>p. \<not> list_ex (\<lambda>r. er_session_id r = sid \<and> er_run_id r = pj_run_id p) (ps_events st))
         (ps_projections st)\<rparr>,
      length (filter (\<lambda>r. er_session_id r = sid) (ps_events st)))"

definition find_projection :: "projection_store \<Rightarrow> string \<Rightarrow> string \<Rightarrow> projection_row option" where
  "find_projection st i kind = find (\<lambda>p. pj_run_id p = i \<and> pj_kind p = kind) (ps_projections st)"

definition get_projection :: "projection_store \<Rightarrow> string \<Rightarrow> string \<Rightarrow> pydict option" where
  "get_projection st i kind =
     (case find_projection st i kind of None \<Rightarrow> None
      | Some p \<Rightarrow> if pj_max_seq p = max_seq st i then Some (pj_payload p) else None)"

definition put_projection :: "projection_store \<Rightarrow> string \<Rightarrow> string \<Rightarrow> pydict \<Rightarrow> projection_store" where
  "put_projection st i kind payload =
     st\<lparr>ps_projections := filter (\<lambda>p. \<not> (pj_run_id p = i \<and> pj_kind p = kind)) (ps_projections st)
         @ [\<lparr>pj_run_id = i, pj_kind = kind, pj_max_seq = max_seq st i, pj_payload = payload\<rparr>]\<rparr>"

section \<open>Pages\<close>

lemma run_rows_sorted: "sorted (map (\<lambda>r. (er_seq r, er_event_id r)) (run_rows st i))"
  by (simp add: run_rows_def)

lemma run_rows_seqs: "sorted (map er_seq (run_rows st i))"
proof -
  have "sorted_wrt (\<lambda>r q. (er_seq r, er_event_id r) \<le> (er_seq q, er_event_id q)) (run_rows st i)"
    using run_rows_sorted by (simp add: sorted_map)
  then show ?thesis by (simp add: sorted_map) (erule sorted_wrt_mono_rel [rotated], auto simp: less_eq_prod_def)
qed

lemma sorted_split:
  assumes "sorted (map f (xs @ ys))" "distinct (map f (xs @ ys))" "ys \<noteq> []"
  shows "filter (\<lambda>r. f r < f (hd ys)) (xs @ ys) = xs"
proof -
  obtain y ys' where ys: "ys = y # ys'" using assms(3) by (cases ys) auto
  have "f x < f y" if "x \<in> set xs" for x
    using assms(1,2) that unfolding ys by (simp add: sorted_append) (metis image_eqI order_le_imp_less_or_eq)
  moreover have "\<not> f z < f y" if "z \<in> set ys'" for z
    using assms(1) that unfolding ys by (simp add: sorted_append not_less)
  ultimately show ?thesis unfolding ys by (simp add: filter_empty_conv)
qed

lemma sorted_split_after:
  assumes "sorted (map f (xs @ ys))" "distinct (map f (xs @ ys))" "xs \<noteq> []"
  shows "filter (\<lambda>r. f (last xs) < f r) (xs @ ys) = ys"
proof -
  obtain xs' x where xs: "xs = xs' @ [x]" using assms(3) by (metis rev_exhaust)
  have "f x < f y" if "y \<in> set ys" for y
    using assms(1,2) that unfolding xs by (simp add: sorted_append) (metis image_eqI order_le_imp_less_or_eq)
  moreover have "\<not> f x < f z" if "z \<in> set xs'" for z
    using assms(1) that unfolding xs by (simp add: sorted_append not_less)
  ultimately show ?thesis unfolding xs by (simp add: filter_empty_conv)
qed

text \<open>What one selection leaves: the older rows for a bound from above, the newer ones for one from below.\<close>

lemma filtered_order:
  assumes "distinct (map er_seq (run_rows st i))"
  shows "sorted (map er_seq (filter P (run_rows st i)))" "distinct (map er_seq (filter P (run_rows st i)))"
proof -
  show "sorted (map er_seq (filter P (run_rows st i)))" by (rule sorted_filter) (rule run_rows_seqs)
  show "distinct (map er_seq (filter P (run_rows st i)))" by (rule distinct_map_filter) (rule assms)
qed

lemma older_rows:
  assumes "distinct (map er_seq (run_rows st i))" "filter (in_window after (Some b)) (run_rows st i) = older @ page" "page \<noteq> []"
  shows "filter (in_window after (Some (er_seq (hd page)))) (run_rows st i) = older"
proof -
  have "hd page \<in> set (filter (in_window after (Some b)) (run_rows st i))" using assms(2,3) by simp
  then have "er_seq (hd page) < b" by (simp add: in_window_def)
  then have same: "in_window after (Some (er_seq (hd page))) = (\<lambda>r. in_window after (Some b) r \<and> er_seq r < er_seq (hd page))"
    by (auto simp: in_window_def fun_eq_iff)
  have "filter (in_window after (Some (er_seq (hd page)))) (run_rows st i)
      = filter (\<lambda>r. er_seq r < er_seq (hd page)) (filter (in_window after (Some b)) (run_rows st i))"
    unfolding same filter_filter ..
  also have "\<dots> = older" unfolding assms(2)
    by (rule sorted_split) (use filtered_order [OF assms(1), of "in_window after (Some b)"] assms(2,3) in simp_all)
  finally show ?thesis .
qed

lemma newer_rows:
  assumes "distinct (map er_seq (run_rows st i))" "filter (in_window after None) (run_rows st i) = page @ newer" "page \<noteq> []"
  shows "filter (in_window (er_seq (last page)) None) (run_rows st i) = newer"
proof -
  have "last page \<in> set (filter (in_window after None) (run_rows st i))" using assms(2,3) by simp
  then have "after < er_seq (last page)" by (simp add: in_window_def)
  then have same: "in_window (er_seq (last page)) None = (\<lambda>r. in_window after None r \<and> er_seq (last page) < er_seq r)"
    by (auto simp: in_window_def fun_eq_iff)
  have "filter (in_window (er_seq (last page)) None) (run_rows st i)
      = filter (\<lambda>r. er_seq (last page) < er_seq r) (filter (in_window after None) (run_rows st i))"
    unfolding same filter_filter ..
  also have "\<dots> = newer" unfolding assms(2)
    by (rule sorted_split_after) (use filtered_order [OF assms(1), of "in_window after None"] assms(2,3) in simp_all)
  finally show ?thesis .
qed

lemma sql_limit_split: "\<exists>rest. rows = sql_limit n rows @ rest"
proof (cases n)
  case (Some k)
  then have "rows = sql_limit n rows @ (if k < 0 then [] else drop (nat k) rows)" by (simp add: sql_limit_def)
  then show ?thesis ..
qed (simp add: sql_limit_def)

text \<open>
  Reading a run in pages misses nothing and repeats nothing: a page before a bound ends its window,
  and the rest of the window is what comes before the first event of the page; a page after a
  positive bound begins its window, and the rest is what comes after its last event.
\<close>

theorem pages_chain:
  assumes "distinct (map er_seq (run_rows st i))"
    and "page = window_rows st i after (Some b) n" "page \<noteq> []"
    and "later = window_rows st i (int (Suc k)) None n" "later \<noteq> []"
  shows "window_rows st i after (Some b) None = window_rows st i after (Some (er_seq (hd page))) None @ page \<and>
    window_rows st i (int (Suc k)) None None = later @ window_rows st i (er_seq (last later)) None None"
proof
  obtain rest where "rev (filter (in_window after (Some b)) (run_rows st i)) =
      sql_limit n (rev (filter (in_window after (Some b)) (run_rows st i))) @ rest"
    using sql_limit_split by blast
  then have split: "filter (in_window after (Some b)) (run_rows st i) = rev rest @ page"
    using assms(2) by (simp add: window_rows_def newest_first_def) (metis rev_append rev_rev_ident)
  have whole: "window_rows st i after (Some c) None = filter (in_window after (Some c)) (run_rows st i)" for c
    by (simp add: window_rows_def newest_first_def sql_limit_def)
  show "window_rows st i after (Some b) None = window_rows st i after (Some (er_seq (hd page))) None @ page"
    unfolding whole older_rows [OF assms(1) split assms(3)] by (rule split)
next
  obtain rest where "filter (in_window (int (Suc k)) None) (run_rows st i) =
      sql_limit n (filter (in_window (int (Suc k)) None) (run_rows st i)) @ rest"
    using sql_limit_split by blast
  then have split: "filter (in_window (int (Suc k)) None) (run_rows st i) = later @ rest"
    using assms(4) by (simp add: window_rows_def newest_first_def)
  have whole: "window_rows st i c None None = filter (in_window c None) (run_rows st i)" for c
    by (simp add: window_rows_def Let_def sql_limit_def)
  show "window_rows st i (int (Suc k)) None None = later @ window_rows st i (er_seq (last later)) None None"
    unfolding whole newer_rows [OF assms(1) split assms(5)] by (rule split)
qed

section \<open>Cached projections\<close>

datatype ps_op =
    Append event_row
  | Put string string pydict
  | Drop_run string
  | Drop_session string

fun ps_step :: "ps_op \<Rightarrow> projection_store \<Rightarrow> projection_store" where
  "ps_step (Append e) st = append_event st e"
| "ps_step (Put i kind payload) st = put_projection st i kind payload"
| "ps_step (Drop_run i) st = fst (delete_run_events st i)"
| "ps_step (Drop_session sid) st = fst (delete_session_events st sid)"

text \<open>An operation that may change what is cached for a run under a kind.\<close>

fun touches :: "string \<Rightarrow> string \<Rightarrow> ps_op \<Rightarrow> bool" where
  "touches i kind (Append e) = (er_run_id e = i)"
| "touches i kind (Put j k payload) = (j = i \<and> k = kind)"
| "touches i kind (Drop_run j) = (j = i)"
| "touches i kind (Drop_session sid) = True"

lemma find_filter_kept: "(\<And>x. P x \<Longrightarrow> Q x) \<Longrightarrow> find P (filter Q xs) = find P xs"
  by (induction xs) auto

lemma find_appended: "find P (xs @ ys) = (case find P xs of None \<Rightarrow> find P ys | Some x \<Rightarrow> Some x)"
  by (induction xs) auto

lemma find_filtered_out: "(\<And>x. P x \<Longrightarrow> \<not> Q x) \<Longrightarrow> find P (filter Q xs) = None"
  by (induction xs) auto

lemma projections_of_run [simp]:
  "j \<noteq> i \<Longrightarrow> find (\<lambda>p. pj_run_id p = i \<and> pj_kind p = k) (filter (\<lambda>p. pj_run_id p \<noteq> j) ps)
     = find (\<lambda>p. pj_run_id p = i \<and> pj_kind p = k) ps"
  "find (\<lambda>p. pj_run_id p = i \<and> pj_kind p = k) (filter (\<lambda>p. pj_run_id p \<noteq> i) ps) = None"
  by (rule find_filter_kept, auto, rule find_filtered_out, auto)

lemma untouched_step:
  assumes "\<not> touches i kind op"
  shows "find_projection (ps_step op st) i kind = find_projection st i kind \<and> max_seq (ps_step op st) i = max_seq st i"
proof (cases op)
  case (Append e)
  have "filter (\<lambda>r. er_run_id r = i) (filter (\<lambda>r. event_key r \<noteq> event_key e) (ps_events st))
      = filter (\<lambda>r. er_run_id r = i) (ps_events st)"
    unfolding filter_filter using assms Append by (intro filter_cong) (auto simp: event_key_def)
  then show ?thesis using assms Append
    by (simp add: append_event_def find_projection_def max_seq_def)
next
  case (Put j k payload)
  have "find (\<lambda>p. pj_run_id p = i \<and> pj_kind p = kind) (filter (\<lambda>p. \<not> (pj_run_id p = j \<and> pj_kind p = k)) (ps_projections st))
      = find (\<lambda>p. pj_run_id p = i \<and> pj_kind p = kind) (ps_projections st)"
    by (rule find_filter_kept) (use assms Put in auto)
  then show ?thesis using assms Put
    by (auto simp: put_projection_def find_projection_def max_seq_def find_appended split: option.split)
next
  case (Drop_run j)
  have "filter (\<lambda>r. er_run_id r = i) (filter (\<lambda>r. er_run_id r \<noteq> j) (ps_events st)) = filter (\<lambda>r. er_run_id r = i) (ps_events st)"
    unfolding filter_filter using assms Drop_run by (intro filter_cong) auto
  then show ?thesis using assms Drop_run
    by (simp add: delete_run_events_def find_projection_def max_seq_def)
qed (use assms in simp)

lemma untouched_steps:
  "list_all (\<lambda>op. \<not> touches i kind op) ops \<Longrightarrow>
     find_projection (fold ps_step ops st) i kind = find_projection st i kind \<and>
     max_seq (fold ps_step ops st) i = max_seq st i"
  by (induction ops arbitrary: st) (use untouched_step in auto)

lemma put_found:
  "find_projection (put_projection st i kind payload) i kind =
     Some \<lparr>pj_run_id = i, pj_kind = kind, pj_max_seq = max_seq st i, pj_payload = payload\<rparr>"
  by (simp add: put_projection_def find_projection_def find_appended find_filtered_out)

text \<open>
  A cached projection is read back through any operations on other runs and kinds, and never
  survives the next event of its run.
\<close>

theorem projection_cached_until_event:
  assumes "list_all (\<lambda>op. \<not> touches i kind op) ops"
  shows "get_projection (fold ps_step ops (put_projection st i kind payload)) i kind = Some payload \<and>
    get_projection (append_event (fold ps_step ops (put_projection st i kind payload)) (e\<lparr>er_run_id := i\<rparr>)) i kind = None"
proof
  have "max_seq (put_projection st i kind payload) i = max_seq st i" by (simp add: put_projection_def max_seq_def)
  then show "get_projection (fold ps_step ops (put_projection st i kind payload)) i kind = Some payload"
    using untouched_steps [OF assms, of "put_projection st i kind payload"] by (simp add: get_projection_def put_found)
  have "find_projection (append_event s (e\<lparr>er_run_id := i\<rparr>)) i kind = None" for s
    by (simp add: append_event_def find_projection_def)
  then show "get_projection (append_event (fold ps_step ops (put_projection st i kind payload)) (e\<lparr>er_run_id := i\<rparr>)) i kind = None"
    by (simp add: get_projection_def)
qed

section \<open>Examples\<close>

definition example_row :: "int \<Rightarrow> event_row" where
  "example_row n = \<lparr>er_run_id = ''r1'', er_seq = n, er_event_id = ''e'', er_session_id = ''t1'', er_type = ''phase'',
     er_payload = [(''seq'', PInt n)]\<rparr>"

definition example_events :: projection_store where
  "example_events = fold (\<lambda>n st. append_event st (example_row n)) [1, 2, 3, 4, 5] \<lparr>ps_events = [], ps_projections = []\<rparr>"

lemma pages_chain_witness:
  "window_rows example_events ''r1'' 0 (Some 5) None =
     window_rows example_events ''r1'' 0 (Some 3) None @ window_rows example_events ''r1'' 0 (Some 5) (Some 2) \<and>
   window_rows example_events ''r1'' 1 None None =
     window_rows example_events ''r1'' 1 None (Some 2) @ window_rows example_events ''r1'' 3 None None"
proof -
  have "distinct (map er_seq (run_rows example_events ''r1''))" by code_simp
  moreover have "window_rows example_events ''r1'' 0 (Some 5) (Some 2) \<noteq> []" by code_simp
  moreover have "window_rows example_events ''r1'' (int (Suc 0)) None (Some 2) \<noteq> []" by code_simp
  moreover have "er_seq (last (window_rows example_events ''r1'' (int (Suc 0)) None (Some 2))) = 3" by code_simp
  moreover have "er_seq (hd (window_rows example_events ''r1'' 0 (Some 5) (Some 2))) = 3" by code_simp
  ultimately show ?thesis
    using pages_chain [of example_events "''r1''" "window_rows example_events ''r1'' 0 (Some 5) (Some 2)" 0 5 "Some 2"
      "window_rows example_events ''r1'' (int (Suc 0)) None (Some 2)" 0] by simp
qed

lemma projection_cached_until_event_witness:
  "get_projection (fold ps_step [Append ((example_row 6)\<lparr>er_run_id := ''r2''\<rparr>)]
     (put_projection example_events ''r1'' ''tree'' [])) ''r1'' ''tree'' = Some []"
  using projection_cached_until_event [of "''r1''" "''tree''" "[Append ((example_row 6)\<lparr>er_run_id := ''r2''\<rparr>)]"]
  by simp

end
