(* ===== verification/RunDeletion.thy ===== *)
theory RunDeletion
  imports RunStoreScope ProjectionStore
begin

text \<open>
  Deletion of runs and sessions across the stores (\<open>app/run_store/deletion.py\<close>, and the file part
  of \<open>app/run_store/service.py\<close>) and the retention of intermediate files
  (\<open>app/run_store/retention.py\<close>).  A path is the list of its segments, the file system the list of
  the paths that exist; a directory exists when something at or below it does.  A removal removes
  everything at and below a path; one that the operating system refuses, wholly or in part, which the
  sources ignore, is outside the model.  Identifiers are single segments; of the letters and digits
  of \<open>str.isalnum\<close> the ASCII ones are treated.
\<close>

section \<open>Files\<close>

type_synonym path = "string list"
type_synonym files = "path list"

definition below :: "path \<Rightarrow> path \<Rightarrow> bool" where
  "below p f \<longleftrightarrow> take (length p) f = p"

definition path_exists :: "files \<Rightarrow> path \<Rightarrow> bool" where
  "path_exists fs p = list_ex (below p) fs"

definition rmtree :: "path \<Rightarrow> files \<Rightarrow> files" where
  "rmtree p fs = filter (\<lambda>f. \<not> below p f) fs"

definition is_alnum :: "char \<Rightarrow> bool" where
  "is_alnum c = (let n = (of_char c :: nat) in
     (48 \<le> n \<and> n \<le> 57) \<or> (65 \<le> n \<and> n \<le> 90) \<or> (97 \<le> n \<and> n \<le> 122) \<or> 128 \<le> n)"

definition safe_segment :: "string \<Rightarrow> string" where
  "safe_segment s =
     or_default (take_chars 120 (map (\<lambda>c. if is_alnum c \<or> c = CHR ''-'' \<or> c = CHR ''_'' then c else CHR ''_'') s)) ''unknown''"

section \<open>The world of a deployment\<close>

text \<open>The checkpoint file may be missing or unreadable; its tables hold one thread per run.\<close>

datatype checkpoint_file = No_file | Broken_file | Checkpoints "string list" "string list"

record 'm world =
  wd_store :: run_store
  wd_files :: files
  wd_traces :: projection_store
  wd_checkpoints :: checkpoint_file
  wd_memory :: 'm

record roots =
  rt_output :: path
  rt_updated :: path
  rt_traces :: path

definition session_dir :: "string \<Rightarrow> string" where
  "session_dir sid = ''session_'' @ sid"

definition run_dir :: "roots \<Rightarrow> string \<Rightarrow> string \<Rightarrow> path" where
  "run_dir rt sid i = rt_output rt @ [session_dir sid, ''runs'', i]"

definition trace_file :: "roots \<Rightarrow> string \<Rightarrow> string \<Rightarrow> path" where
  "trace_file rt sid i = rt_traces rt @ [safe_segment sid, safe_segment i @ ''.jsonl'']"

definition payload_dir :: "roots \<Rightarrow> string \<Rightarrow> path" where
  "payload_dir rt i = rt_traces rt @ [''payloads'', safe_segment i]"

section \<open>Traces and checkpoints\<close>

definition delete_trace_run :: "roots \<Rightarrow> string \<Rightarrow> string \<Rightarrow> projection_store \<Rightarrow> files \<Rightarrow> projection_store \<times> files \<times> (nat \<times> bool \<times> bool)" where
  "delete_trace_run rt sid i traces fs =
     (case delete_run_events traces i of
        (traces', n) \<Rightarrow>
          let removed = path_exists fs (trace_file rt sid i); fs1 = rmtree (trace_file rt sid i) fs;
              payload = path_exists fs1 (payload_dir rt i); fs2 = (if payload then rmtree (payload_dir rt i) fs1 else fs1)
          in (traces', fs2, (n, removed, payload)))"

definition delete_trace_session ::
  "roots \<Rightarrow> string \<Rightarrow> string list \<Rightarrow> projection_store \<Rightarrow> files \<Rightarrow> projection_store \<times> files \<times> (nat \<times> bool)" where
  "delete_trace_session rt sid run_ids traces fs =
     (case delete_session_events traces sid of
        (traces', n) \<Rightarrow>
          let fs1 = fold (\<lambda>i fs. if path_exists fs (payload_dir rt i) then rmtree (payload_dir rt i) fs else fs) run_ids fs;
              dir = rt_traces rt @ [safe_segment sid];
              removed = path_exists fs1 dir
          in (traces', if removed then rmtree dir fs1 else fs1, (n, removed)))"

definition delete_checkpoint_run :: "string \<Rightarrow> checkpoint_file \<Rightarrow> checkpoint_file \<times> nat \<times> nat" where
  "delete_checkpoint_run i cp =
     (case cp of
        Checkpoints cs ws \<Rightarrow>
          (Checkpoints (filter (\<lambda>t. t \<noteq> i) cs) (filter (\<lambda>t. t \<noteq> i) ws),
           length (filter (\<lambda>t. t = i) cs), length (filter (\<lambda>t. t = i) ws))
      | _ \<Rightarrow> (cp, 0, 0))"

section \<open>Cascades\<close>

text \<open>The memory store, where there is one, forgets by its own operation and says how much.\<close>

type_synonym 'm forget = "string \<Rightarrow> string \<Rightarrow> string \<Rightarrow> 'm \<Rightarrow> 'm \<times> nat"

record cascade_result =
  cd_deletion :: deletion
  cd_memory_deleted :: nat
  cd_dir_removed :: bool
  cd_trace_events :: nat
  cd_checkpoints :: nat
  cd_writes :: nat

definition refused :: "deletion \<Rightarrow> cascade_result" where
  "refused d = \<lparr>cd_deletion = d, cd_memory_deleted = 0, cd_dir_removed = False, cd_trace_events = 0,
     cd_checkpoints = 0, cd_writes = 0\<rparr>"

definition delete_run_cascade :: "'m forget option \<Rightarrow> roots \<Rightarrow> string \<Rightarrow> string \<Rightarrow> 'm world \<Rightarrow> 'm world \<times> cascade_result" where
  "delete_run_cascade forget rt i tenant w =
     (case get_run (wd_store w) i of
        None \<Rightarrow> (w, refused Not_found)
      | Some run \<Rightarrow>
          if ru_tenant_id run \<noteq> tenant then (w, refused Forbidden)
          else
            case (case forget of None \<Rightarrow> (wd_memory w, 0) | Some g \<Rightarrow> g i (ru_user_id run) (ru_tenant_id run) (wd_memory w)) of
              (memory, forgotten) \<Rightarrow>
            case delete_run (wd_store w) i (Some tenant) of (store, d) \<Rightarrow>
            let dir = run_dir rt (ru_session_id run) i;
                removed = path_exists (wd_files w) dir;
                fs = (if removed then rmtree dir (wd_files w) else wd_files w) in
            case delete_trace_run rt (ru_session_id run) i (wd_traces w) fs of (traces, fs', (n, file_removed, payload)) \<Rightarrow>
            case delete_checkpoint_run i (wd_checkpoints w) of (cp, cs, ws) \<Rightarrow>
              (\<lparr>wd_store = store, wd_files = fs', wd_traces = traces, wd_checkpoints = cp, wd_memory = memory\<rparr>,
               \<lparr>cd_deletion = d, cd_memory_deleted = forgotten, cd_dir_removed = removed, cd_trace_events = n,
                cd_checkpoints = cs, cd_writes = ws\<rparr>))"

definition delete_session_files :: "roots \<Rightarrow> string \<Rightarrow> files \<Rightarrow> files" where
  "delete_session_files rt sid fs =
     fold (\<lambda>root fs. if path_exists fs root then rmtree root fs else fs)
       [rt_output rt @ [session_dir sid], rt_updated rt @ [session_dir sid]] fs"

definition delete_checkpoints :: "string list \<Rightarrow> checkpoint_file \<Rightarrow> checkpoint_file \<times> nat \<times> nat" where
  "delete_checkpoints run_ids cp =
     fold (\<lambda>i (cp, cs, ws). case delete_checkpoint_run i cp of (cp', c, w) \<Rightarrow> (cp', cs + c, ws + w)) run_ids (cp, 0, 0)"

definition delete_session_cascade :: "'m forget option \<Rightarrow> roots \<Rightarrow> string \<Rightarrow> string \<Rightarrow> 'm world \<Rightarrow> 'm world \<times> cascade_result" where
  "delete_session_cascade forget rt sid tenant w =
     (case get_session (wd_store w) sid of
        None \<Rightarrow> (w, refused Not_found)
      | Some s \<Rightarrow>
          if se_tenant_id s \<noteq> tenant then (w, refused Forbidden)
          else
            let run_ids = map ru_run_id (list_runs (wd_store w) sid) in
            case (case forget of None \<Rightarrow> (wd_memory w, 0) | Some g \<Rightarrow> g sid (se_user_id s) (se_tenant_id s) (wd_memory w)) of
              (memory, forgotten) \<Rightarrow>
            case delete_session (wd_store w) sid (Some tenant) of (store, d) \<Rightarrow>
            case delete_trace_session rt sid run_ids (wd_traces w) (delete_session_files rt sid (wd_files w)) of
              (traces, fs, (n, dir_removed)) \<Rightarrow>
            case delete_checkpoints run_ids (wd_checkpoints w) of (cp, cs, ws) \<Rightarrow>
              (\<lparr>wd_store = store, wd_files = fs, wd_traces = traces, wd_checkpoints = cp, wd_memory = memory\<rparr>,
               \<lparr>cd_deletion = d, cd_memory_deleted = forgotten, cd_dir_removed = dir_removed, cd_trace_events = n,
                cd_checkpoints = cs, cd_writes = ws\<rparr>))"

section \<open>Retention\<close>

definition intermediate_dirs :: "string list" where
  "intermediate_dirs = [''artifacts'', ''evidence'', ''state'']"

definition day_us :: int where
  "day_us = 24 * 60 * 60 * 1000000"

text \<open>A settled run whose end, or else whose creation, lies before the cutoff.\<close>

definition run_expired :: "int \<Rightarrow> run_row \<Rightarrow> bool" where
  "run_expired cutoff r \<longleftrightarrow>
     ru_status r \<in> set terminal_statuses \<and> (case ru_ended_at r of Some e \<Rightarrow> e | None \<Rightarrow> ru_created_at r) < cutoff"

fun purge_dirs :: "path list \<Rightarrow> files \<Rightarrow> files \<times> path list" where
  "purge_dirs [] fs = (fs, [])"
| "purge_dirs (p # ps) fs =
     (if path_exists fs p then (case purge_dirs ps (rmtree p fs) of (fs', purged) \<Rightarrow> (fs', p # purged))
      else purge_dirs ps fs)"

definition purge_run :: "roots \<Rightarrow> int \<Rightarrow> string \<Rightarrow> run_row \<Rightarrow> files \<Rightarrow> files \<times> path list" where
  "purge_run rt cutoff sid r fs =
     (if \<not> run_expired cutoff r then (fs, [])
      else if \<not> path_exists fs (run_dir rt sid (ru_run_id r)) then (fs, [])
      else purge_dirs (map (\<lambda>sub. run_dir rt sid (ru_run_id r) @ [sub]) intermediate_dirs) fs)"

fun purge_runs :: "roots \<Rightarrow> int \<Rightarrow> (string \<times> run_row) list \<Rightarrow> files \<Rightarrow> files \<times> nat \<times> path list" where
  "purge_runs rt cutoff [] fs = (fs, 0, [])"
| "purge_runs rt cutoff ((sid, r) # rs) fs =
     (case purge_run rt cutoff sid r fs of (fs1, here) \<Rightarrow>
        case purge_runs rt cutoff rs fs1 of (fs2, n, later) \<Rightarrow>
          (fs2, (if here = [] then n else Suc n), here @ later))"

text \<open>The sessions are those of the default tenant.\<close>

definition retained_runs :: "run_store \<Rightarrow> (string \<times> run_row) list" where
  "retained_runs st =
     concat (map (\<lambda>s. map (\<lambda>r. (se_session_id s, r)) (list_runs st (se_session_id s))) (list_sessions st ''local'' True))"

definition apply_retention :: "run_store \<Rightarrow> roots \<Rightarrow> int \<Rightarrow> int \<Rightarrow> files \<Rightarrow> files \<times> nat \<times> path list" where
  "apply_retention st rt days now fs = purge_runs rt (now - days * day_us) (retained_runs st) fs"

section \<open>What a removal leaves\<close>

lemma below_refl [simp]: "below p p"
  by (simp add: below_def)

lemma below_append [simp]: "below p (p @ q)"
  by (simp add: below_def)

lemma in_rmtree [simp]: "f \<in> set (rmtree p fs) \<longleftrightarrow> f \<in> set fs \<and> \<not> below p f"
  by (simp add: rmtree_def)

lemma no_path_exists: "\<not> path_exists fs p \<Longrightarrow> rmtree p fs = fs"
  by (simp add: path_exists_def rmtree_def list_ex_iff filter_id_conv)

lemma rmtree_if [simp]: "(if path_exists fs p then rmtree p fs else fs) = rmtree p fs"
  by (simp add: no_path_exists)

lemma path_removed [simp]: "\<not> path_exists (rmtree p fs) p"
  by (simp add: path_exists_def rmtree_def list_ex_iff)

lemma path_still_removed: "\<not> path_exists fs p \<Longrightarrow> \<not> path_exists (rmtree q fs) p"
  by (auto simp: path_exists_def rmtree_def list_ex_iff)

text \<open>
  C33. When its files can be removed, deleting a run leaves nothing of it in the run store, the files, the
  events and projections, and the checkpoints of a readable checkpoint file; the memory store is asked
  to forget exactly this run.  Rows, events, cached projections and checkpoints of other runs stay, as do
  sessions, uploads and every file that lies under other paths.
\<close>

theorem run_cascade_exact:
  assumes "delete_run_cascade forget rt i tenant w = (w', res)" "get_run (wd_store w) i = Some run" "ru_tenant_id run = tenant"
  shows "get_run (wd_store w') i = None \<and>
    \<not> path_exists (wd_files w') (run_dir rt (ru_session_id run) i) \<and>
    \<not> path_exists (wd_files w') (trace_file rt (ru_session_id run) i) \<and>
    \<not> path_exists (wd_files w') (payload_dir rt i) \<and>
    run_rows (wd_traces w') i = [] \<and> get_projection (wd_traces w') i kind = None \<and>
    wd_checkpoints w' = (case wd_checkpoints w of Checkpoints cs ws \<Rightarrow> Checkpoints (filter (\<lambda>t. t \<noteq> i) cs) (filter (\<lambda>t. t \<noteq> i) ws)
      | cp \<Rightarrow> cp) \<and>
    wd_memory w' = (case forget of None \<Rightarrow> wd_memory w | Some g \<Rightarrow> fst (g i (ru_user_id run) tenant (wd_memory w))) \<and>
    (\<forall>j. j = i \<or> (get_run (wd_store w') j = get_run (wd_store w) j \<and> run_rows (wd_traces w') j = run_rows (wd_traces w) j
       \<and> get_projection (wd_traces w') j kind = get_projection (wd_traces w) j kind)) \<and>
    rs_sessions (wd_store w') = rs_sessions (wd_store w) \<and> rs_uploads (wd_store w') = rs_uploads (wd_store w) \<and>
    (\<forall>f\<in>set (wd_files w). below (run_dir rt (ru_session_id run) i) f \<or> below (trace_file rt (ru_session_id run) i) f
       \<or> below (payload_dir rt i) f \<or> f \<in> set (wd_files w'))"
proof -
  let ?st = "wd_store w" and ?tr = "wd_traces w" and ?fs = "wd_files w"
  have store: "wd_store w' = ?st\<lparr>rs_runs := filter (\<lambda>q. ru_run_id q \<noteq> i) (rs_runs ?st)\<rparr>"
    and traces: "wd_traces w' = ps_step (Drop_run i) ?tr"
    and files: "wd_files w' = rmtree (payload_dir rt i) (rmtree (trace_file rt (ru_session_id run) i) (rmtree (run_dir rt (ru_session_id run) i) ?fs))"
    and cps: "wd_checkpoints w' = fst (delete_checkpoint_run i (wd_checkpoints w))"
    and memory: "wd_memory w' = (case forget of None \<Rightarrow> wd_memory w | Some g \<Rightarrow> fst (g i (ru_user_id run) tenant (wd_memory w)))"
    using assms
    by (auto simp: delete_run_cascade_def delete_trace_run_def delete_run_def Let_def split: prod.splits option.splits)
  have "find (\<lambda>r. ru_run_id r = j) (filter (\<lambda>q. ru_run_id q \<noteq> i) rs) = (if j = i then None else find (\<lambda>r. ru_run_id r = j) rs)" for j and rs :: "run_row list"
    by (induction rs) auto
  then have runs: "get_run (wd_store w') j = (if j = i then None else get_run ?st j)" for j
    by (simp add: store get_run_def find_run_def)
  have rows: "run_rows (wd_traces w') j = (if j = i then [] else run_rows ?tr j)" for j
    by (auto simp: traces run_rows_def delete_run_events_def filter_empty_conv intro!: arg_cong [of _ _ "sort_key _"] filter_cong)
  have projections: "get_projection (wd_traces w') j kind = get_projection ?tr j kind" if "j \<noteq> i" for j
    using untouched_step [of j kind "Drop_run i" ?tr] that by (simp add: traces get_projection_def del: ps_step.simps split: option.split)
  have "get_projection (wd_traces w') i kind = None"
    by (simp add: traces get_projection_def find_projection_def delete_run_events_def)
  moreover have "wd_checkpoints w' = (case wd_checkpoints w of Checkpoints cs ws \<Rightarrow> Checkpoints (filter (\<lambda>t. t \<noteq> i) cs) (filter (\<lambda>t. t \<noteq> i) ws)
      | cp \<Rightarrow> cp)"
    by (auto simp: cps delete_checkpoint_run_def split: checkpoint_file.split)
  moreover have "\<not> path_exists (wd_files w') (run_dir rt (ru_session_id run) i)"
    "\<not> path_exists (wd_files w') (trace_file rt (ru_session_id run) i)" "\<not> path_exists (wd_files w') (payload_dir rt i)"
    by (simp_all add: files path_still_removed)
  moreover have "\<forall>j. j = i \<or> (get_run (wd_store w') j = get_run ?st j \<and> run_rows (wd_traces w') j = run_rows ?tr j
       \<and> get_projection (wd_traces w') j kind = get_projection ?tr j kind)"
    using runs rows projections by simp
  ultimately show ?thesis using memory runs [of i] rows [of i] by (simp add: store files) blast
qed

section \<open>What retention removes\<close>

lemma path_exists_iff: "path_exists fs p \<longleftrightarrow> (\<exists>f\<in>set fs. below p f)"
  by (simp add: path_exists_def list_ex_iff)

lemma below_longer: "below (p @ q) f \<Longrightarrow> below p f"
proof -
  assume "below (p @ q) f"
  then have "take (length p) (take (length (p @ q)) f) = take (length p) (p @ q)" by (simp only: below_def)
  then show ?thesis by (simp add: below_def min_def)
qed

lemma purge_dirs_keeps: "f \<in> set (fst (purge_dirs ps fs)) \<longleftrightarrow> f \<in> set fs \<and> \<not> (\<exists>p\<in>set ps. below p f)"
proof (induction ps arbitrary: fs)
  case (Cons p ps)
  have "purge_dirs (p # ps) fs = (fst (purge_dirs ps (rmtree p fs)), snd (purge_dirs (p # ps) fs))"
    by (cases "path_exists fs p") (simp_all add: no_path_exists split: prod.split)
  then have "fst (purge_dirs (p # ps) fs) = fst (purge_dirs ps (rmtree p fs))" by (metis fst_conv)
  then show ?case by (simp add: Cons.IH del: purge_dirs.simps)
qed simp

lemma purge_dirs_idle: "(\<And>p. p \<in> set ps \<Longrightarrow> \<not> path_exists fs p) \<Longrightarrow> purge_dirs ps fs = (fs, [])"
  by (induction ps) auto

definition purged_by :: "roots \<Rightarrow> int \<Rightarrow> string \<Rightarrow> run_row \<Rightarrow> path \<Rightarrow> bool" where
  "purged_by rt cutoff sid r f \<longleftrightarrow>
     run_expired cutoff r \<and> (\<exists>sub\<in>set intermediate_dirs. below (run_dir rt sid (ru_run_id r) @ [sub]) f)"

lemma purge_run_keeps: "f \<in> set (fst (purge_run rt cutoff sid r fs)) \<longleftrightarrow> f \<in> set fs \<and> \<not> purged_by rt cutoff sid r f"
proof (cases "run_expired cutoff r \<and> path_exists fs (run_dir rt sid (ru_run_id r))")
  case True
  then show ?thesis by (auto simp: purge_run_def purged_by_def purge_dirs_keeps)
next
  case False
  then have "purge_run rt cutoff sid r fs = (fs, [])" by (auto simp: purge_run_def)
  moreover have "\<not> purged_by rt cutoff sid r f" if "f \<in> set fs"
    using False that below_longer by (auto simp: purged_by_def path_exists_iff)
  ultimately show ?thesis by auto
qed

lemma purge_run_idle:
  assumes "\<And>f. f \<in> set fs \<Longrightarrow> \<not> purged_by rt cutoff sid r f"
  shows "purge_run rt cutoff sid r fs = (fs, [])"
proof -
  have "purge_dirs (map (\<lambda>sub. run_dir rt sid (ru_run_id r) @ [sub]) intermediate_dirs) fs = (fs, [])" if "run_expired cutoff r"
    by (rule purge_dirs_idle) (use assms that in \<open>auto simp: path_exists_iff purged_by_def\<close>)
  then show ?thesis by (auto simp: purge_run_def)
qed

lemma purge_runs_keeps:
  "f \<in> set (fst (purge_runs rt cutoff rs fs)) \<longleftrightarrow> f \<in> set fs \<and> \<not> (\<exists>(sid, r)\<in>set rs. purged_by rt cutoff sid r f)"
proof (induction rs arbitrary: fs)
  case (Cons q rs)
  obtain sid r where q: "q = (sid, r)" by (cases q)
  obtain fs1 here where run: "purge_run rt cutoff sid r fs = (fs1, here)" by fastforce
  have "f \<in> set fs1 \<longleftrightarrow> f \<in> set fs \<and> \<not> purged_by rt cutoff sid r f"
    using purge_run_keeps [of f rt cutoff sid r fs] run by simp
  then show ?case using Cons.IH [of fs1] by (auto simp: q run split: prod.splits)
qed simp

lemma purge_runs_idle:
  "(\<And>f sid r. f \<in> set fs \<Longrightarrow> (sid, r) \<in> set rs \<Longrightarrow> \<not> purged_by rt cutoff sid r f) \<Longrightarrow> purge_runs rt cutoff rs fs = (fs, 0, [])"
proof (induction rs)
  case (Cons q rs)
  obtain sid r where q: "q = (sid, r)" by (cases q)
  have "purge_run rt cutoff sid r fs = (fs, [])" by (rule purge_run_idle) (use Cons.prems q in auto)
  then show ?case using Cons.IH Cons.prems by (simp add: q)
qed simp

lemma in_retained_runs:
  "(sid, r) \<in> set (retained_runs st) \<longleftrightarrow>
     (\<exists>s\<in>set (rs_sessions st). se_session_id s = sid \<and> se_tenant_id s = ''local'') \<and> r \<in> set (list_runs st sid)"
  by (auto simp: retained_runs_def list_sessions_def session_from_row_def)

text \<open>
  C34. Retention removes exactly the intermediate files of runs that settled before the cutoff, in
  sessions of the default tenant: deliverables and summaries, younger and unfinished runs and the
  files of other tenants stay, and applying it again removes nothing more.
\<close>

theorem retention_exact:
  "(f \<in> set (fst (apply_retention st rt days now fs)) \<longleftrightarrow>
      f \<in> set fs \<and>
      \<not> (\<exists>s\<in>set (rs_sessions st). se_tenant_id s = ''local'' \<and>
          (\<exists>r\<in>set (list_runs st (se_session_id s)). ru_status r \<in> set terminal_statuses \<and>
            (case ru_ended_at r of Some e \<Rightarrow> e | None \<Rightarrow> ru_created_at r) < now - days * day_us \<and>
            (\<exists>sub\<in>set intermediate_dirs. below (run_dir rt (se_session_id s) (ru_run_id r) @ [sub]) f)))) \<and>
   apply_retention st rt days now (fst (apply_retention st rt days now fs)) = (fst (apply_retention st rt days now fs), 0, [])"
proof
  have keeps: "f \<in> set (fst (apply_retention st rt days now fs)) \<longleftrightarrow>
      f \<in> set fs \<and> \<not> (\<exists>(sid, r)\<in>set (retained_runs st). purged_by rt (now - days * day_us) sid r f)" for f
    by (simp add: apply_retention_def purge_runs_keeps)
  have retained: "(\<exists>(sid, r)\<in>set (retained_runs st). P sid r) \<longleftrightarrow>
      (\<exists>s\<in>set (rs_sessions st). se_tenant_id s = ''local'' \<and> (\<exists>r\<in>set (list_runs st (se_session_id s)). P (se_session_id s) r))" for P
    using in_retained_runs [of _ _ st] by fastforce
  show "f \<in> set (fst (apply_retention st rt days now fs)) \<longleftrightarrow>
      f \<in> set fs \<and>
      \<not> (\<exists>s\<in>set (rs_sessions st). se_tenant_id s = ''local'' \<and>
          (\<exists>r\<in>set (list_runs st (se_session_id s)). ru_status r \<in> set terminal_statuses \<and>
            (case ru_ended_at r of Some e \<Rightarrow> e | None \<Rightarrow> ru_created_at r) < now - days * day_us \<and>
            (\<exists>sub\<in>set intermediate_dirs. below (run_dir rt (se_session_id s) (ru_run_id r) @ [sub]) f)))"
    unfolding keeps retained purged_by_def run_expired_def conj_assoc ..
  have "\<not> purged_by rt (now - days * day_us) sid r g"
    if "g \<in> set (fst (apply_retention st rt days now fs))" "(sid, r) \<in> set (retained_runs st)" for g sid r
    using that keeps by blast
  then show "apply_retention st rt days now (fst (apply_retention st rt days now fs)) = (fst (apply_retention st rt days now fs), 0, [])"
    unfolding apply_retention_def by (intro purge_runs_idle) (simp add: apply_retention_def)
qed

section \<open>Examples\<close>

definition example_roots :: roots where
  "example_roots = \<lparr>rt_output = [''output''], rt_updated = [''updated''], rt_traces = [''logs'', ''traces'']\<rparr>"

definition example_world :: "unit world" where
  "example_world = \<lparr>wd_store = acme_store,
     wd_files = [[''output'', ''session_t1'', ''runs'', ''r1'', ''report.md''], [''output'', ''session_t1'', ''runs'', ''r2'', ''report.md''],
       [''logs'', ''traces'', ''t1'', ''r1.jsonl'']],
     wd_traces = example_events, wd_checkpoints = Checkpoints [''r1'', ''r2''] [''r1''], wd_memory = ()\<rparr>"

lemma run_cascade_exact_witness:
  "get_run (wd_store (fst (delete_run_cascade None example_roots ''r1'' ''acme'' example_world))) ''r1'' = None
   \<and> wd_checkpoints (fst (delete_run_cascade None example_roots ''r1'' ''acme'' example_world)) = Checkpoints [''r2''] []"
proof -
  obtain w' res where step: "delete_run_cascade None example_roots ''r1'' ''acme'' example_world = (w', res)" by fastforce
  obtain run where run: "get_run (wd_store example_world) ''r1'' = Some run" "ru_tenant_id run = ''acme''"
  proof -
    have "(case get_run (wd_store example_world) ''r1'' of None \<Rightarrow> False | Some r \<Rightarrow> ru_tenant_id r = ''acme'')" by code_simp
    then show ?thesis using that by (auto split: option.splits)
  qed
  have "wd_checkpoints example_world = Checkpoints [''r1'', ''r2''] [''r1'']" by (simp add: example_world_def)
  then show ?thesis using run_cascade_exact [OF step run] step by simp
qed

text \<open>Two identifiers that differ in punctuation only share their trace files and payloads.\<close>

lemma safe_segments_collide: "payload_dir rt ''run.1'' = payload_dir rt ''run_1'' \<and> trace_file rt sid ''run.1'' = trace_file rt sid ''run_1''"
proof -
  have "safe_segment ''run.1'' = safe_segment ''run_1''" by code_simp
  then show ?thesis by (simp add: payload_dir_def trace_file_def)
qed

text \<open>Runs in a session of another tenant are never expired by retention.\<close>

lemma foreign_sessions_retained:
  "list_all (\<lambda>s. se_tenant_id s \<noteq> ''local'') (rs_sessions st) \<Longrightarrow> apply_retention st rt days now fs = (fs, 0, [])"
proof -
  assume "list_all (\<lambda>s. se_tenant_id s \<noteq> ''local'') (rs_sessions st)"
  then have "retained_runs st = []" by (simp add: retained_runs_def list_sessions_def list_all_iff filter_empty_conv)
  then show ?thesis by (simp add: apply_retention_def)
qed

end
