(* ===== verification/Reducers.thy ===== *)
theory Reducers
  imports PyVal
begin

text \<open>
  The reducers that merge the results of parallel workers into the workflow state
  (\<open>app/research/runtime/reducers.py\<close>).
\<close>

section \<open>Records\<close>

definition record_keys :: "string list" where
  "record_keys = [''evidence_id'', ''claim_id'', ''finding_id'', ''edge_id'', ''gap_id'', ''candidate_id'', ''unit_id'']"

definition record_id :: "pydict \<Rightarrow> string" where
  "record_id row = py_str (foldr (\<lambda>k v. por (pget row k) v) record_keys (PStr []))"

text \<open>The list of rows merged so far and the position of each identity in it.\<close>

type_synonym merge_state = "pyval list \<times> nat dict"

definition merge_row :: "pyval \<Rightarrow> merge_state \<Rightarrow> merge_state" where
  "merge_row row st =
     (let merged = fst st; indexes = snd st in
      case row of
        PDict d \<Rightarrow>
          (case (if record_id d = [] then None else dget indexes (record_id d)) of
             Some i \<Rightarrow> (merged[i := row], indexes)
           | None \<Rightarrow> (merged @ [row],
               if record_id d = [] then indexes else dput (record_id d) (length merged) indexes))
      | _ \<Rightarrow> (if py_in row merged then st else (merged @ [row], indexes)))"

definition merge_rows :: "pyval list \<Rightarrow> merge_state \<Rightarrow> merge_state" where
  "merge_rows rows st = fold merge_row rows st"

definition merge_records :: "pyval list \<Rightarrow> pyval list \<Rightarrow> pyval list" where
  "merge_records left right = fst (merge_rows (left @ right) ([], []))"

definition merge_findings :: "pyval list \<Rightarrow> pyval list \<Rightarrow> pyval list" where
  "merge_findings left right = merge_records left right"

text \<open>\<open>keep_last\<close> and \<open>merge_dicts\<close>.\<close>

definition keep_last :: "pyval \<Rightarrow> pyval \<Rightarrow> pyval" where
  "keep_last left right = (if right \<noteq> PNone then right else left)"

definition merge_dicts :: "pydict \<Rightarrow> pydict \<Rightarrow> pydict" where
  "merge_dicts left right = dmerge left right"

definition merge_strings :: "string list \<Rightarrow> string list \<Rightarrow> string list" where
  "merge_strings left right = fromkeys (left @ right)"

section \<open>Worker payloads\<close>

text \<open>Texts that agree up to case and outer blanks are kept once.\<close>

definition text_key :: "pyval \<Rightarrow> string" where
  "text_key v = py_lower (py_strip (py_str v))"

definition note_text :: "pyval \<Rightarrow> string list \<times> string list \<Rightarrow> string list \<times> string list" where
  "note_text v st =
     (let key = text_key v in
      if key \<noteq> [] \<and> key \<notin> set (snd st) then (fst st @ [py_str v], snd st @ [key]) else st)"

definition note_texts :: "pyval \<Rightarrow> string list \<times> string list \<Rightarrow> (string list \<times> string list) res" where
  "note_texts v st = ebind (iter_or_empty v) (\<lambda>vs. Inr (fold note_text vs st))"

record merged_texts =
  mt_facts :: "string list \<times> string list"
  mt_sources :: "string list \<times> string list"

definition merge_payload :: "pydict \<Rightarrow> merged_texts \<Rightarrow> merged_texts res" where
  "merge_payload row m =
     (case por (pget row ''payload'') (PDict []) of
        PDict payload \<Rightarrow>
          ebind (note_texts (pget payload ''facts'') (mt_facts m)) (\<lambda>facts.
          ebind (note_texts (pget payload ''sources'') (mt_sources m)) (\<lambda>sources.
            Inr \<lparr>mt_facts = facts, mt_sources = sources\<rparr>))
      | _ \<Rightarrow> Inr m)"

fun merge_payloads :: "pydict list \<Rightarrow> merged_texts \<Rightarrow> merged_texts res" where
  "merge_payloads [] m = Inr m"
| "merge_payloads (row # rows) m = ebind (merge_payload row m) (merge_payloads rows)"

definition merge_worker_payloads :: "pydict list \<Rightarrow> pydict res" where
  "merge_worker_payloads results =
     ebind (merge_payloads results \<lparr>mt_facts = ([], []), mt_sources = ([], [])\<rparr>) (\<lambda>m. Inr
       [(''facts'', strs (take 40 (fst (mt_facts m)))), (''sources'', strs (take 30 (fst (mt_sources m)))),
        (''worker_count'', PInt (int (length results)))])"

section \<open>The merge state\<close>

text \<open>The index holds exactly the positions of the named rows, and no plain value repeats.\<close>

definition row_id :: "pyval \<Rightarrow> string" where
  "row_id v = (case v of PDict d \<Rightarrow> record_id d | _ \<Rightarrow> [])"

definition merge_ok :: "merge_state \<Rightarrow> bool" where
  "merge_ok st \<longleftrightarrow>
     (\<forall>k i. dget (snd st) k = Some i \<longleftrightarrow> k \<noteq> [] \<and> i < length (fst st) \<and> row_id (fst st ! i) = k) \<and>
     (\<forall>i < length (fst st). \<not> is_dict (fst st ! i) \<longrightarrow> \<not> py_in (fst st ! i) (take i (fst st)))"

lemma merge_ok_index:
  "merge_ok (vs, ix) \<Longrightarrow> dget ix k = Some i \<longleftrightarrow> k \<noteq> [] \<and> i < length vs \<and> row_id (vs ! i) = k"
  by (simp add: merge_ok_def)

lemma merge_ok_plain:
  "merge_ok (vs, ix) \<Longrightarrow> i < length vs \<Longrightarrow> \<not> is_dict (vs ! i) \<Longrightarrow> \<not> py_in (vs ! i) (take i vs)"
  by (simp add: merge_ok_def)

lemma merge_row_eq:
  "merge_row row (merged, indexes) =
     (if is_dict row
      then (case (if row_id row = [] then None else dget indexes (row_id row)) of
              Some i \<Rightarrow> (merged[i := row], indexes)
            | None \<Rightarrow> (merged @ [row], if row_id row = [] then indexes else dput (row_id row) (length merged) indexes))
      else if py_in row merged then (merged, indexes) else (merged @ [row], indexes))"
  by (cases row) (simp_all add: merge_row_def row_id_def split: option.split)

lemma py_in_dict_update:
  assumes "\<not> is_dict v" "is_dict row" "i < length vs" "is_dict (vs ! i)"
  shows "py_in v (vs[i := row]) \<longleftrightarrow> py_in v vs"
proof -
  have no: "\<not> py_eq w v" if "is_dict w" for w using that assms(1) by (cases w; cases v) auto
  show ?thesis
  proof
    assume "py_in v (vs[i := row])"
    then obtain w where "w \<in> set (vs[i := row])" "py_eq w v" by (auto simp: py_in_def list_ex_iff)
    then show "py_in v vs" using no assms(2) set_update_subset_insert [of vs i row]
      by (auto simp: py_in_def list_ex_iff)
  next
    assume "py_in v vs"
    then obtain j where "j < length vs" "py_eq (vs ! j) v" by (auto simp: py_in_def list_ex_iff in_set_conv_nth)
    moreover then have "j \<noteq> i" using no assms(4) by auto
    ultimately have "vs[i := row] ! j = vs ! j" "j < length (vs[i := row])" by auto
    then show "py_in v (vs[i := row])" using \<open>py_eq (vs ! j) v\<close>
      by (metis list_ex_iff nth_mem py_in_def)
  qed
qed

lemma row_id_dict: "row_id v \<noteq> [] \<Longrightarrow> is_dict v"
  by (cases v) (auto simp: row_id_def)

lemma merge_row_ok:
  assumes "merge_ok st"
  shows "merge_ok (merge_row row st)"
proof -
  obtain vs ix where st: "st = (vs, ix)" by (cases st)
  have ix: "dget ix k = Some i \<longleftrightarrow> k \<noteq> [] \<and> i < length vs \<and> row_id (vs ! i) = k" for k i
    using assms by (simp add: merge_ok_def st)
  have plain: "\<not> py_in (vs ! i) (take i vs)" if "i < length vs" "\<not> is_dict (vs ! i)" for i
    using assms that by (simp add: merge_ok_def st)
  show ?thesis
  proof (cases "is_dict row \<and> row_id row \<noteq> [] \<and> dget ix (row_id row) \<noteq> None")
    case True
    then obtain i where i: "dget ix (row_id row) = Some i" by auto
    then have pos: "i < length vs" "row_id (vs ! i) = row_id row" using ix by auto
    have d: "is_dict (vs ! i)" using pos True row_id_dict by simp
    have "dget ix k = Some j \<longleftrightarrow> k \<noteq> [] \<and> j < length vs \<and> row_id (vs[i := row] ! j) = k" for k j
      using ix [of k j] pos by (cases "j = i") auto
    moreover have "\<not> py_in (vs[i := row] ! j) (take j (vs[i := row]))"
      if j: "j < length vs" "\<not> is_dict (vs[i := row] ! j)" for j
    proof -
      have ne: "j \<noteq> i" using j True by auto
      show ?thesis
      proof (cases "i < j")
        case less: True
        have "py_in (vs ! j) ((take j vs)[i := row]) \<longleftrightarrow> py_in (vs ! j) (take j vs)"
          by (rule py_in_dict_update) (use less j ne True d in auto)
        then show ?thesis using plain [of j] j ne by (simp add: take_update_swap)
      qed (use plain [of j] j ne in auto)
    qed
    moreover have "merge_row row st = (vs[i := row], ix)" using True i by (simp add: st merge_row_eq)
    ultimately show ?thesis by (simp add: merge_ok_def)
  next
    case new: False
    show ?thesis
    proof (cases "is_dict row \<or> \<not> py_in row vs")
      case True
      let ?ix = "if is_dict row \<and> row_id row \<noteq> [] then dput (row_id row) (length vs) ix else ix"
      have eq: "merge_row row st = (vs @ [row], ?ix)" using new True by (auto simp: st merge_row_eq)
      have "dget ?ix k = Some i \<longleftrightarrow> k \<noteq> [] \<and> i < Suc (length vs) \<and> row_id ((vs @ [row]) ! i) = k" for k i
        using new ix [of k i] row_id_dict [of row] by (auto simp: nth_append less_Suc_eq)
      then show ?thesis using plain True by (auto simp: eq merge_ok_def nth_append less_Suc_eq)
    qed (use assms in \<open>auto simp: st merge_row_eq\<close>)
  qed
qed

lemma merge_rows_ok: "merge_ok st \<Longrightarrow> merge_ok (merge_rows rows st)"
  unfolding merge_rows_def by (induction rows arbitrary: st) (simp_all add: merge_row_ok)

lemma merge_ok_empty [simp]: "merge_ok ([], [])"
  by (simp add: merge_ok_def)

lemma merge_rows_append: "merge_rows (xs @ ys) st = merge_rows ys (merge_rows xs st)"
  by (simp add: merge_rows_def)

text \<open>Merging the rows of a merged list again rebuilds it, and its index.\<close>

lemma merge_again:
  assumes "merge_ok (vs, ix)"
  shows "\<exists>ix'. merge_rows vs ([], []) = (vs, ix')"
proof -
  note ix = merge_ok_index [OF assms]
  have "\<exists>ix'. merge_rows (take n vs) ([], []) = (take n vs, ix')" if "n \<le> length vs" for n
    using that
  proof (induction n)
    case (Suc n)
    then obtain ix' where ix': "merge_rows (take n vs) ([], []) = (take n vs, ix')" by auto
    have ok: "merge_ok (take n vs, ix')" using merge_rows_ok [of "([], [])" "take n vs"] ix' by simp
    have take: "take (Suc n) vs = take n vs @ [vs ! n]" using Suc.prems by (simp add: take_Suc_conv_app_nth)
    have "dget ix' (row_id (vs ! n)) = None" if "row_id (vs ! n) \<noteq> []"
    proof (rule ccontr)
      assume "dget ix' (row_id (vs ! n)) \<noteq> None"
      then obtain i where "i < n" "row_id (vs ! i) = row_id (vs ! n)"
        using merge_ok_index [OF ok] Suc.prems by auto
      then show False using ix [of "row_id (vs ! n)" i] ix [of "row_id (vs ! n)" n] that Suc.prems by auto
    qed
    moreover have "\<not> py_in (vs ! n) (take n vs)" if "\<not> is_dict (vs ! n)"
      using merge_ok_plain [OF assms] that Suc.prems by simp
    ultimately show ?case
      unfolding take merge_rows_append ix' by (auto simp: merge_rows_def merge_row_eq)
  qed (simp add: merge_rows_def)
  from this [of "length vs"] show ?thesis by simp
qed

lemma option_eqI:
  assumes "\<And>i. x = Some i \<longleftrightarrow> y = Some i"
  shows "x = y"
  using assms [of "the x"] assms [of "the y"] by (cases x; cases y) auto

lemma merge_ok_same_list:
  assumes "merge_ok (vs, ix)" "merge_ok (vs, ix')"
  shows "dget ix = dget ix'"
proof
  fix k
  have "dget ix k = Some i \<longleftrightarrow> dget ix' k = Some i" for i
    unfolding merge_ok_index [OF assms(1)] merge_ok_index [OF assms(2)] ..
  then show "dget ix k = dget ix' k" by (rule option_eqI)
qed

lemma merge_row_cong:
  "dget ix = dget ix' \<Longrightarrow> fst (merge_row row (vs, ix)) = fst (merge_row row (vs, ix'))
     \<and> dget (snd (merge_row row (vs, ix))) = dget (snd (merge_row row (vs, ix')))"
  by (auto simp: merge_row_eq fun_eq_iff split: option.splits)

lemma merge_rows_cong:
  "dget ix = dget ix' \<Longrightarrow> fst (merge_rows rows (vs, ix)) = fst (merge_rows rows (vs, ix'))"
proof (induction rows arbitrary: vs ix ix')
  case (Cons row rows)
  obtain vs1 ix1 vs2 ix2 where m: "merge_row row (vs, ix) = (vs1, ix1)" "merge_row row (vs, ix') = (vs2, ix2)"
    by fastforce
  then have "vs2 = vs1" "dget ix1 = dget ix2" using merge_row_cong [OF Cons.prems, of row vs] by simp_all
  then show ?case using Cons.IH [of ix1 ix2 vs1] by (simp add: merge_rows_def m)
qed (simp add: merge_rows_def)

text \<open>
  Results may be merged in batches: merging the rows of two batches one after the other gives the
  same list as merging them at once.
\<close>

theorem merge_in_batches:
  "merge_records (merge_records xs ys) zs = merge_records xs (ys @ zs)"
proof -
  obtain vs ix where m: "merge_rows (xs @ ys) ([], []) = (vs, ix)" by fastforce
  then have ok: "merge_ok (vs, ix)" using merge_rows_ok [of "([], [])" "xs @ ys"] by simp
  from merge_again [OF this] obtain ix' where again: "merge_rows vs ([], []) = (vs, ix')" by blast
  then have ok': "merge_ok (vs, ix')" using merge_rows_ok [of "([], [])" vs] by simp
  have first: "merge_records xs ys = vs" by (simp only: merge_records_def m fst_conv)
  have "merge_records (merge_records xs ys) zs = fst (merge_rows zs (vs, ix'))"
    unfolding first by (simp only: merge_records_def merge_rows_append again)
  also have "\<dots> = fst (merge_rows zs (vs, ix))"
    by (rule merge_rows_cong) (rule merge_ok_same_list [OF ok' ok])
  also have "\<dots> = merge_records xs (ys @ zs)"
    using m by (simp add: merge_records_def merge_rows_append)
  finally show ?thesis .
qed

lemma named_rows_step:
  assumes "merge_ok st" "k \<noteq> []"
  shows "filter (\<lambda>v. row_id v = k) (fst (merge_row row st)) =
    (if row_id row = k then [row] else filter (\<lambda>v. row_id v = k) (fst st))"
proof -
  obtain vs ix where st: "st = (vs, ix)" by (cases st)
  have ix: "dget ix j = Some i \<longleftrightarrow> j \<noteq> [] \<and> i < length vs \<and> row_id (vs ! i) = j" for j i
    using assms(1) by (simp add: merge_ok_def st)
  show ?thesis
  proof (cases "is_dict row \<and> row_id row \<noteq> [] \<and> dget ix (row_id row) \<noteq> None")
    case True
    then obtain i where i: "dget ix (row_id row) = Some i" by auto
    then have pos: "i < length vs" "row_id (vs ! i) = row_id row" using ix by auto
    have split: "vs = take i vs @ vs ! i # drop (Suc i) vs" using pos(1) by (simp add: id_take_nth_drop)
    have upd: "vs[i := row] = take i vs @ row # drop (Suc i) vs" using pos(1) by (simp add: upd_conv_take_nth_drop)
    have single: "row_id (vs ! j) \<noteq> row_id row" if "j < length vs" "j \<noteq> i" for j
      using that i ix [of "row_id row" j] True by auto
    have rest: "filter (\<lambda>v. row_id v = k) (take i vs) = []" "filter (\<lambda>v. row_id v = k) (drop (Suc i) vs) = []"
      if "row_id row = k"
      using that single pos(1) by (auto simp: filter_empty_conv in_set_conv_nth)
    have "filter (\<lambda>v. row_id v = k) (vs[i := row]) = (if row_id row = k then [row] else filter (\<lambda>v. row_id v = k) vs)"
      using rest pos(2) by (subst (2) split) (simp add: upd)
    moreover have "merge_row row st = (vs[i := row], ix)" using True i by (simp add: st merge_row_eq)
    ultimately show ?thesis by (simp add: st)
  next
    case new: False
    have "filter (\<lambda>v. row_id v = k) vs = []" if "row_id row = k"
    proof -
      have "is_dict row" using that assms(2) row_id_dict by simp
      then have "dget ix k = None" using new that assms(2) by auto
      then have "\<forall>i < length vs. row_id (vs ! i) \<noteq> k" using ix [of k] assms(2) by auto
      then show ?thesis by (auto simp: filter_empty_conv in_set_conv_nth)
    qed
    moreover have "fst (merge_row row st) = vs @ [row] \<or> row_id row = [] \<and> fst (merge_row row st) = vs"
      using new row_id_dict [of row] by (auto simp: st merge_row_eq)
    ultimately show ?thesis using assms(2) by (auto simp: st)
  qed
qed

lemma named_rows:
  assumes "merge_ok st" "k \<noteq> []"
  shows "filter (\<lambda>v. row_id v = k) (fst (merge_rows rows st)) =
    (case find (\<lambda>v. row_id v = k) (rev rows) of None \<Rightarrow> filter (\<lambda>v. row_id v = k) (fst st) | Some v \<Rightarrow> [v])"
proof (induction rows rule: rev_induct)
  case (snoc row rows)
  then show ?case
    using named_rows_step [OF merge_rows_ok [OF assms(1)] assms(2), of row rows]
    by (simp add: merge_rows_append) (simp add: merge_rows_def)
qed (simp add: merge_rows_def)

text \<open>
  Of the rows delivered under one identity exactly the last one is in the merged list.
\<close>

theorem merge_keeps_last:
  assumes "k \<noteq> []"
  shows "filter (\<lambda>v. row_id v = k) (merge_records left right) =
    (case find (\<lambda>v. row_id v = k) (rev (left @ right)) of None \<Rightarrow> [] | Some v \<Rightarrow> [v])"
  using named_rows [OF merge_ok_empty assms, of "left @ right"] by (simp only: merge_records_def fst_conv filter.simps)

definition sample_row :: "string \<Rightarrow> int \<Rightarrow> pyval" where
  "sample_row k n = PDict [(''claim_id'', PStr k), (''rank'', PInt n)]"

theorem merge_keeps_last_witness:
  "filter (\<lambda>v. row_id v = ''c'') (merge_records [sample_row ''c'' 1, sample_row ''d'' 2] [sample_row ''c'' 3]) = [sample_row ''c'' 3]"
proof -
  have ids: "row_id (sample_row ''c'' n) = ''c''" "row_id (sample_row ''d'' n) = ''d''" for n
    by (simp_all add: row_id_def sample_row_def record_id_def record_keys_def)
  show ?thesis
    using merge_keeps_last [of "''c''" "[sample_row ''c'' 1, sample_row ''d'' 2]" "[sample_row ''c'' 3]"] by (simp add: ids)
qed

text \<open>
  Delivering a batch again changes nothing when its rows are named; rows without an identity are
  appended once more.
\<close>

lemma unnamed_row_repeats:
  "merge_records [PDict [(''x'', PInt 1)]] [PDict [(''x'', PInt 1)]] = [PDict [(''x'', PInt 1)], PDict [(''x'', PInt 1)]]"
  by code_simp

section \<open>The merged texts\<close>

definition texts_ok :: "string list \<times> string list \<Rightarrow> bool" where
  "texts_ok st \<longleftrightarrow> snd st = map (\<lambda>s. py_lower (py_strip s)) (fst st) \<and> distinct (snd st) \<and> [] \<notin> set (snd st)"

lemma note_text_ok: "texts_ok st \<Longrightarrow> texts_ok (note_text v st)"
  by (auto simp: texts_ok_def note_text_def text_key_def Let_def)

lemma fold_note_text_ok: "texts_ok st \<Longrightarrow> texts_ok (fold note_text vs st)"
  by (induction vs arbitrary: st) (simp_all add: note_text_ok)

lemma merge_payload_ok:
  assumes "merge_payload row m = Inr m'" "texts_ok (mt_facts m)" "texts_ok (mt_sources m)"
  shows "texts_ok (mt_facts m')" "texts_ok (mt_sources m')"
  using assms by (auto simp: merge_payload_def note_texts_def ebind_eq_Inr split: pyval.splits) (metis fold_note_text_ok)+

lemma merge_payloads_ok:
  "merge_payloads rows m = Inr m' \<Longrightarrow> texts_ok (mt_facts m) \<Longrightarrow> texts_ok (mt_sources m) \<Longrightarrow>
     texts_ok (mt_facts m') \<and> texts_ok (mt_sources m')"
  by (induction rows arbitrary: m) (auto simp: ebind_eq_Inr dest: merge_payload_ok)

text \<open>At most 40 facts and 30 sources, none of them blank, no two equal up to case and outer blanks.\<close>

lemma worker_payloads_bounded:
  assumes "merge_worker_payloads rows = Inr d"
  obtains facts sources where
    "d = [(''facts'', strs facts), (''sources'', strs sources), (''worker_count'', PInt (int (length rows)))]"
    "length facts \<le> 40" "length sources \<le> 30"
    "distinct (map (\<lambda>s. py_lower (py_strip s)) facts)" "distinct (map (\<lambda>s. py_lower (py_strip s)) sources)"
proof -
  obtain m where m: "merge_payloads rows \<lparr>mt_facts = ([], []), mt_sources = ([], [])\<rparr> = Inr m"
    and d: "d = [(''facts'', strs (take 40 (fst (mt_facts m)))), (''sources'', strs (take 30 (fst (mt_sources m)))),
      (''worker_count'', PInt (int (length rows)))]"
    using assms by (auto simp: merge_worker_payloads_def ebind_eq_Inr)
  have "texts_ok ([], [])" by (simp add: texts_ok_def)
  then have "texts_ok (mt_facts m)" "texts_ok (mt_sources m)"
    using merge_payloads_ok [OF m] by simp_all
  then have "distinct (map (\<lambda>s. py_lower (py_strip s)) (take n (fst (mt_facts m))))"
    "distinct (map (\<lambda>s. py_lower (py_strip s)) (take n (fst (mt_sources m))))" for n
    by (metis distinct_take take_map texts_ok_def)+
  then show ?thesis by (intro that [OF d]) auto
qed

end
