(* ===== verification/Bounded.thy ===== *)
theory Bounded
  imports Plan
begin

text \<open>
  Worker-sized tasks (\<open>app/research/planning/bounded.py\<close>): the limits of a task, and the split of a
  task that exceeds them into bounded copies that together cover it.
\<close>

section \<open>Limits\<close>

definition max_task_entities :: nat where
  "max_task_entities = 2"

definition max_task_dimensions :: nat where
  "max_task_dimensions = 2"

definition default_worker_query_budget :: int where
  "default_worker_query_budget = 10"

record plan_issue =
  pi_code :: string
  pi_task_id :: string
  pi_detail :: string

definition plan_issue_to_dict :: "plan_issue \<Rightarrow> pydict" where
  "plan_issue_to_dict i =
     [(''code'', PStr (pi_code i)), (''task_id'', PStr (pi_task_id i)), (''detail'', PStr (pi_detail i))]"

text \<open>The texts of a metadata entry: the nonblank elements of a list, or the one value.\<close>

definition listed_texts :: "pyval \<Rightarrow> string list" where
  "listed_texts raw =
     (case raw of
        PNone \<Rightarrow> []
      | PList vs \<Rightarrow> filter (\<lambda>s. s \<noteq> []) (map (\<lambda>v. py_strip (py_str v)) vs)
      | _ \<Rightarrow> filter (\<lambda>s. s \<noteq> []) [py_strip (py_str raw)])"

definition fallback_key :: "string \<Rightarrow> string" where
  "fallback_key k = (if k = ''dimensions'' then ''coverage_keys''
     else if k = ''queries'' then ''estimated_queries'' else k)"

definition task_values :: "plan_step \<Rightarrow> string \<Rightarrow> string list" where
  "task_values s k =
     (let m = step_metadata s; raw = pget m k
      in listed_texts (if raw = PNone then pget m (fallback_key k) else raw))"

definition estimated_queries :: "plan_step \<Rightarrow> int \<Rightarrow> int" where
  "estimated_queries s default_count =
     (let raw = pget (step_metadata s) ''estimated_queries''
      in if raw = PNone then max 0 default_count
         else (case py_int raw of Inr n \<Rightarrow> max 0 n | Inl e \<Rightarrow> max 0 default_count))"

text \<open>\<open>max(1, int(query_budget * 0.7))\<close>.\<close>

definition allowed_queries :: "int \<Rightarrow> int" where
  "allowed_queries query_budget = max 1 (trunc (fmul_int query_budget (fl (7 / 10))))"

definition limit_issue :: "string \<Rightarrow> plan_step \<Rightarrow> int \<Rightarrow> int \<Rightarrow> plan_issue list" where
  "limit_issue code s n limit =
     (if limit < n
      then [\<lparr>pi_code = code, pi_task_id = step_task_id s, pi_detail = int_str n @ ''>'' @ int_str limit\<rparr>] else [])"

definition validate_task :: "int \<Rightarrow> plan_step \<Rightarrow> plan_issue list" where
  "validate_task query_budget s =
     limit_issue ''entities_limit'' s (int (length (task_values s ''entities''))) (int max_task_entities)
     @ limit_issue ''dimensions_limit'' s (int (length (task_values s ''dimensions''))) (int max_task_dimensions)
     @ limit_issue ''estimated_queries_limit'' s (estimated_queries s 1) (allowed_queries query_budget)"

definition validate_tasks :: "int \<Rightarrow> plan_step list \<Rightarrow> plan_issue list" where
  "validate_tasks query_budget steps = concat (map (validate_task query_budget) steps)"

section \<open>Splitting\<close>

text \<open>The slices \<open>xs[i : i + n]\<close> for \<open>i\<close> in \<open>range(0, len(xs), n)\<close>, for a positive \<open>n\<close>.\<close>

fun slices :: "nat \<Rightarrow> 'a list \<Rightarrow> 'a list list" where
  "slices n [] = []"
| "slices n (x # xs) = (x # take (n - 1) xs) # slices n (drop (n - 1) xs)"

definition or_blank :: "string list \<Rightarrow> string list" where
  "or_blank xs = (if xs = [] then [[]] else xs)"

definition split_chunks :: "plan_step \<Rightarrow> (string list \<times> string list) list" where
  "split_chunks s =
     concat (map (\<lambda>es. map (\<lambda>ds. (es, ds)) (slices max_task_dimensions (or_blank (task_values s ''dimensions''))))
       (slices max_task_entities (or_blank (task_values s ''entities''))))"

definition group_value :: "string list \<Rightarrow> pyval" where
  "group_value xs = strs (if xs = [[]] then [] else xs)"

definition bounded_metadata :: "int \<Rightarrow> plan_step \<Rightarrow> string list \<times> string list \<Rightarrow> pydict" where
  "bounded_metadata query_budget s chunk =
     dput ''bounded_split_from'' (PStr (step_task_id s))
     (dput ''estimated_queries'' (PInt (min (max 1 (estimated_queries s 1)) (allowed_queries query_budget)))
     (dput ''all_dimensions'' (group_value (snd chunk))
     (dput ''dimensions'' (group_value (snd chunk))
     (dput ''coverage_keys'' (group_value (snd chunk))
     (dput ''entities'' (group_value (fst chunk)) (step_metadata s))))))"

definition bounded_id :: "plan_step \<Rightarrow> nat \<Rightarrow> string" where
  "bounded_id s index = (if index = 1 then step_task_id s else step_task_id s @ ''_b'' @ nat_str index)"

definition bounded_copy :: "int \<Rightarrow> plan_step \<Rightarrow> nat \<times> string list \<times> string list \<Rightarrow> plan_step" where
  "bounded_copy query_budget s e =
     s\<lparr>step_metadata := bounded_metadata query_budget s (snd e), step_task_id := bounded_id s (fst e)\<rparr>"

definition split_task :: "int \<Rightarrow> plan_step \<Rightarrow> plan_step list" where
  "split_task query_budget s =
     (if validate_task query_budget s = [] then [s]
      else map (bounded_copy query_budget s) (zip [1..<Suc (length (split_chunks s))] (split_chunks s)))"

section \<open>Slices\<close>

lemma concat_slices: "0 < n \<Longrightarrow> concat (slices n xs) = xs"
  by (induction n xs rule: slices.induct) auto

lemma slices_bounded: "0 < n \<Longrightarrow> ys \<in> set (slices n xs) \<Longrightarrow> length ys \<le> n \<and> set ys \<subseteq> set xs \<and> ys \<noteq> []"
proof (induction n xs rule: slices.induct)
  case (2 n x xs)
  then show ?case by (auto dest: in_set_takeD in_set_dropD)
qed simp

lemma in_some_slice: "0 < n \<Longrightarrow> x \<in> set xs \<Longrightarrow> \<exists>ys\<in>set (slices n xs). x \<in> set ys"
  using concat_slices [of n xs] by (metis UN_iff set_concat)

section \<open>A split task is bounded and complete\<close>

declare py_strip_idem [simp]

lemma listed_texts_stripped:
  "x \<in> set (listed_texts raw) \<Longrightarrow> py_strip x = x \<and> x \<noteq> []"
  by (auto simp: listed_texts_def split: pyval.splits if_splits)

lemma listed_texts_strs: "\<forall>x\<in>set xs. py_strip x = x \<and> x \<noteq> [] \<Longrightarrow> listed_texts (strs xs) = xs"
  by (induction xs) (auto simp: listed_texts_def strs_def)

lemma task_values_stripped: "x \<in> set (task_values s k) \<Longrightarrow> py_strip x = x \<and> x \<noteq> []"
  using listed_texts_stripped by (auto simp: task_values_def Let_def split: if_splits)

lemma group_value_texts:
  assumes "ys \<in> set (slices n (or_blank (task_values s k)))" "0 < n"
  shows "listed_texts (group_value ys) = (if task_values s k = [] then [] else ys)" "length ys \<le> n"
proof -
  note b = slices_bounded [OF assms(2,1)]
  show "length ys \<le> n" using b by simp
  show "listed_texts (group_value ys) = (if task_values s k = [] then [] else ys)"
  proof (cases "task_values s k = []")
    case True
    then have "set ys \<subseteq> {[]}" "ys \<noteq> []" "ys \<in> set (slices n [[]])" using b assms by (auto simp: or_blank_def)
    then have "ys = [[]]" by simp
    then show ?thesis using True by (simp add: group_value_def listed_texts_def strs_def)
  next
    case False
    then have ok: "\<forall>x\<in>set ys. py_strip x = x \<and> x \<noteq> []"
      using b task_values_stripped [of _ s k] by (auto simp: or_blank_def)
    then have "ys \<noteq> [[]]" by auto
    then show ?thesis using False listed_texts_strs [OF ok] by (simp add: group_value_def)
  qed
qed

lemma group_value_not_None [simp]: "group_value ys \<noteq> PNone"
  by (simp add: group_value_def strs_def)

lemma bounded_copy_values:
  "task_values (bounded_copy b s (i, es, ds)) ''entities'' = listed_texts (group_value es)"
  "task_values (bounded_copy b s (i, es, ds)) ''dimensions'' = listed_texts (group_value ds)"
  "estimated_queries (bounded_copy b s (i, es, ds)) 1 = max 0 (min (max 1 (estimated_queries s 1)) (allowed_queries b))"
  by (simp_all add: task_values_def bounded_copy_def bounded_metadata_def
      estimated_queries_def [of "s\<lparr>step_metadata := m, step_task_id := i\<rparr>" for m i])

lemma in_split_chunks:
  "(es, ds) \<in> set (split_chunks s) \<longleftrightarrow>
     es \<in> set (slices max_task_entities (or_blank (task_values s ''entities''))) \<and>
     ds \<in> set (slices max_task_dimensions (or_blank (task_values s ''dimensions'')))"
  by (auto simp: split_chunks_def)

lemma split_task_copies:
  assumes "validate_task b s \<noteq> []"
  shows "split_task b s = map (\<lambda>j. bounded_copy b s (Suc j, split_chunks s ! j)) [0..<length (split_chunks s)]"
  using assms by (intro nth_equalityI) (simp_all add: split_task_def del: upt_Suc)

lemma in_split_task:
  assumes "validate_task b s \<noteq> []"
  shows "s' \<in> set (split_task b s) \<longleftrightarrow>
    (\<exists>j < length (split_chunks s). s' = bounded_copy b s (Suc j, split_chunks s ! j))"
  unfolding split_task_copies [OF assms] by auto

lemma bounded_copy_valid:
  assumes "(es, ds) \<in> set (split_chunks s)"
  shows "validate_task b (bounded_copy b s (i, es, ds)) = []"
proof -
  have "length (listed_texts (group_value es)) \<le> max_task_entities"
    "length (listed_texts (group_value ds)) \<le> max_task_dimensions"
    using assms group_value_texts [of es max_task_entities s "''entities''"]
      group_value_texts [of ds max_task_dimensions s "''dimensions''"]
    by (auto simp: in_split_chunks max_task_entities_def max_task_dimensions_def)
  moreover have "1 \<le> allowed_queries b" by (simp add: allowed_queries_def)
  ultimately show ?thesis by (simp add: validate_task_def limit_issue_def bounded_copy_values)
qed

text \<open>
  Splitting a task gives tasks within the limits that together cover it: every entity and dimension
  of the task is a pair of one of the parts, where a task without entities or without dimensions has
  parts without them, and no part has an entity or a dimension of its own.
\<close>

theorem split_task_bounded:
  "(\<forall>s'\<in>set (split_task b s). validate_task b s' = []
      \<and> set (task_values s' ''entities'') \<subseteq> set (task_values s ''entities'')
      \<and> set (task_values s' ''dimensions'') \<subseteq> set (task_values s ''dimensions''))
   \<and> (\<forall>e\<in>set (or_blank (task_values s ''entities'')). \<forall>d\<in>set (or_blank (task_values s ''dimensions'')).
      \<exists>s'\<in>set (split_task b s). e \<in> set (or_blank (task_values s' ''entities''))
        \<and> d \<in> set (or_blank (task_values s' ''dimensions'')))"
proof (cases "validate_task b s = []")
  case True
  then show ?thesis by (simp add: split_task_def)
next
  case False
  let ?es = "task_values s ''entities''" and ?ds = "task_values s ''dimensions''"
  have pos: "0 < max_task_entities" "0 < max_task_dimensions" by (simp_all add: max_task_entities_def max_task_dimensions_def)
  have parts: "listed_texts (group_value es) = (if ?es = [] then [] else es)"
      "listed_texts (group_value ds) = (if ?ds = [] then [] else ds)"
      "set es \<subseteq> set (or_blank ?es)" "set ds \<subseteq> set (or_blank ?ds)" "es \<noteq> []" "ds \<noteq> []"
    if "(es, ds) \<in> set (split_chunks s)" for es ds
  proof -
    have es: "es \<in> set (slices max_task_entities (or_blank ?es))" and ds: "ds \<in> set (slices max_task_dimensions (or_blank ?ds))"
      using that by (simp_all add: in_split_chunks)
    show "listed_texts (group_value es) = (if ?es = [] then [] else es)"
      "listed_texts (group_value ds) = (if ?ds = [] then [] else ds)"
      by (rule group_value_texts(1) [OF es pos(1)], rule group_value_texts(1) [OF ds pos(2)])
    show "set es \<subseteq> set (or_blank ?es)" "set ds \<subseteq> set (or_blank ?ds)" "es \<noteq> []" "ds \<noteq> []"
      using slices_bounded [OF pos(1) es] slices_bounded [OF pos(2) ds] by simp_all
  qed
  have sub: "set (listed_texts (group_value es)) \<subseteq> set ?es" "set (listed_texts (group_value ds)) \<subseteq> set ?ds"
    if "(es, ds) \<in> set (split_chunks s)" for es ds
    using parts [OF that] by (auto simp: or_blank_def split: if_splits)
  have "validate_task b s' = [] \<and> set (task_values s' ''entities'') \<subseteq> set ?es \<and> set (task_values s' ''dimensions'') \<subseteq> set ?ds"
    if s': "s' \<in> set (split_task b s)" for s'
  proof -
    obtain j where "j < length (split_chunks s)" "s' = bounded_copy b s (Suc j, split_chunks s ! j)"
      using s' unfolding in_split_task [OF False] by blast
    moreover obtain es ds where "split_chunks s ! j = (es, ds)" by fastforce
    ultimately have "s' = bounded_copy b s (Suc j, es, ds)" "(es, ds) \<in> set (split_chunks s)"
      by (simp, metis nth_mem)
    then show ?thesis using bounded_copy_valid sub by (auto simp: bounded_copy_values)
  qed
  moreover have "\<exists>s'\<in>set (split_task b s). e \<in> set (or_blank (task_values s' ''entities'')) \<and> d \<in> set (or_blank (task_values s' ''dimensions''))"
    if e: "e \<in> set (or_blank ?es)" and d: "d \<in> set (or_blank ?ds)" for e d
  proof -
    obtain es ds where c: "(es, ds) \<in> set (split_chunks s)" "e \<in> set es" "d \<in> set ds"
      using in_some_slice [OF pos(1) e] in_some_slice [OF pos(2) d] by (auto simp: in_split_chunks)
    then obtain j where j: "j < length (split_chunks s)" "split_chunks s ! j = (es, ds)" by (auto simp: in_set_conv_nth)
    have "bounded_copy b s (Suc j, es, ds) \<in> set (split_task b s)"
      unfolding in_split_task [OF False] using j by (intro exI [of _ j]) simp
    moreover have "e \<in> set (or_blank (listed_texts (group_value es)))" "d \<in> set (or_blank (listed_texts (group_value ds)))"
      using c e d parts [OF c(1)] by (auto simp: or_blank_def split: if_splits)
    ultimately show ?thesis by (intro bexI [of _ "bounded_copy b s (Suc j, es, ds)"]) (simp_all add: bounded_copy_values)
  qed
  ultimately show ?thesis by blast
qed

definition wide_step :: plan_step where
  "wide_step = \<lparr>step_type = ''research'', description = [], subagent = PNone,
     step_metadata = [(''entities'', strs [''a'', ''b'', ''c'']), (''token_ceiling'', PInt 80000)],
     step_task_id = ''t'', depends_on = [], allowed_tools = [], step_objective = []\<rparr>"

theorem split_task_bounded_witness:
  "\<exists>s'\<in>set (split_task 10 wide_step). ''c'' \<in> set (or_blank (task_values s' ''entities''))"
proof -
  have "''c'' \<in> set (or_blank (task_values wide_step ''entities''))" "[] \<in> set (or_blank (task_values wide_step ''dimensions''))"
    by code_simp+
  then show ?thesis using split_task_bounded [of 10 wide_step] by blast
qed

text \<open>The parts have identities of their own.\<close>

lemma digit_char_inject: "m < 10 \<Longrightarrow> n < 10 \<Longrightarrow> digit_char m = digit_char n \<longleftrightarrow> m = n"
  by (auto simp: digit_char_def dest: arg_cong [of _ _ "of_char :: char \<Rightarrow> nat"])

lemma nat_str_inject: "nat_str m = nat_str n \<longleftrightarrow> m = n"
proof
  show "nat_str m = nat_str n \<Longrightarrow> m = n"
  proof (induction m arbitrary: n rule: nat_str.induct)
    case (1 m)
    show ?case
    proof (cases "m < 10 \<or> n < 10")
      case True
      then show ?thesis
        using 1(2) by (auto simp: nat_str.simps [of m] nat_str.simps [of n] digit_char_inject nat_str_not_Nil [THEN not_sym] split: if_splits)
    next
      case False
      then have "nat_str (m div 10) = nat_str (n div 10)" "m mod 10 = n mod 10"
        using 1(2) by (simp_all add: nat_str.simps [of m] nat_str.simps [of n] digit_char_inject)
      then show ?thesis using 1(1) False by (metis div_mult_mod_eq)
    qed
  qed
qed simp

lemma split_task_ids: "distinct (map step_task_id (split_task b s))"
proof (cases "validate_task b s = []")
  case False
  have inj: "i = j" if "bounded_id s i = bounded_id s j" "1 \<le> i" "1 \<le> j" for i j
    using that by (auto simp: bounded_id_def nat_str_inject split: if_splits)
  have ids: "map step_task_id (split_task b s) = map (bounded_id s) [1..<Suc (length (split_chunks s))]"
    unfolding split_task_copies [OF False] by (intro nth_equalityI) (simp_all add: bounded_copy_def del: upt_Suc)
  have "inj_on (bounded_id s) (set [1..<Suc (length (split_chunks s))])"
    by (rule inj_onI, erule inj) auto
  then show ?thesis unfolding ids by (simp add: distinct_map del: upt_Suc)
qed (simp add: split_task_def)

text \<open>
  Every part keeps the other metadata of the task, its token ceiling among them: the parts of one
  admitted task may together spend a multiple of what was admitted, and a step that depends on the
  task waits only for its first part.
\<close>

lemma split_task_keeps_metadata:
  assumes "s' \<in> set (split_task b s)"
    and "k \<notin> {''entities'', ''coverage_keys'', ''dimensions'', ''all_dimensions'', ''estimated_queries'', ''bounded_split_from''}"
  shows "pget (step_metadata s') k = pget (step_metadata s) k"
proof (cases "validate_task b s = []")
  case True
  then show ?thesis using assms(1) by (simp add: split_task_def)
next
  case False
  then obtain j where "s' = bounded_copy b s (Suc j, split_chunks s ! j)" using assms(1) by (auto simp: in_split_task)
  then show ?thesis using assms(2) by (auto simp: bounded_copy_def bounded_metadata_def)
qed

lemma split_task_multiplies_ceiling:
  "map (\<lambda>s. (step_task_id s, pget (step_metadata s) ''token_ceiling'')) (split_task 10 wide_step)
     = [(''t'', PInt 80000), (''t_b2'', PInt 80000)]"
  by code_simp

end
