(* ===== verification/BriefPlan.thy ===== *)
theory BriefPlan
  imports Bounded Brief AnswerUnits Admission
begin

text \<open>
  The initial plan of a brief (\<open>app/research/planning/brief_plan.py\<close>): one bounded task per key
  question, its plan steps, and the validation of the plan, with the tools a research step gets
  (\<open>app/agent/harness/worker_profiles.py\<close>).
\<close>

section \<open>Tasks\<close>

record research_task_spec =
  rt_task_id :: string
  rt_question_id :: string
  rt_objective :: string
  rt_hypotheses :: "string list"
  rt_evidence_needed :: "string list"
  rt_preferred_source_types :: "string list"
  rt_counter_evidence_needed :: "string list"
  rt_search_hints :: "string list"
  rt_entities :: "string list"
  rt_dimensions :: "string list"
  rt_max_queries :: int
  rt_max_fetches :: int
  rt_max_llm_calls :: int
  rt_priority :: int
  rt_plan_version :: int
  rt_spec_revision :: int
  rt_ask_id :: string
  rt_target_field_ids :: "string list"
  rt_unit_assembly_field_ids :: "string list"
  rt_candidate_entity_ids :: "string list"
  rt_expected_claim_types :: "string list"
  rt_source_strategy :: "string list"
  rt_done_condition :: string
  rt_lease_id :: string
  rt_wave_id :: int
  rt_repair_of_gap_ids :: "string list"

definition max_estimated_queries :: int where
  "max_estimated_queries = 7"

definition analysis_intents :: "string list" where
  "analysis_intents = [''comparison'', ''trend_forecast'', ''conflict_analysis'', ''recommendation'',
     ''structured_report'', ''explanation'']"

definition is_analysis :: "structured_brief \<Rightarrow> bool" where
  "is_analysis b \<longleftrightarrow> sb_user_intent b \<in> set analysis_intents"

definition has_word :: "string \<Rightarrow> string list \<Rightarrow> bool" where
  "has_word s ws = list_ex (\<lambda>w. is_infix w s) ws"

text \<open>The words for a hot topic, the future, the direction of development and a trend.\<close>

definition hot_word :: string where
  "hot_word = utf8 [231, 131, 173, 231, 130, 185]"

definition future_word :: string where
  "future_word = utf8 [230, 156, 170, 230, 157, 165]"

definition direction_word :: string where
  "direction_word = utf8 [229, 143, 145, 229, 177, 149, 230, 150, 185, 229, 144, 145]"

definition trend_word :: string where
  "trend_word = utf8 [232, 182, 139, 229, 138, 191]"

definition dimensions_for_question :: "string \<Rightarrow> string \<Rightarrow> string list" where
  "dimensions_for_question question intent =
     (let t = py_lower question in
      if has_word t [hot_word, ''hot trend'', ''hotspot'']
      then [''enterprise adoption and commercialization'', ''interoperability: MCP and A2A'',
        ''computer-use and multimodal agents'', ''reliability and evaluation'', ''governance and security'']
      else if has_word t [future_word, direction_word, trend_word, ''forecast'', ''future'']
      then [''outcome-oriented agent products'', ''long-running agents and recovery'',
        ''protocol and interoperability ecosystem'', ''reliability, evaluation and governance infrastructure'']
      else if intent \<in> {''comparison'', ''recommendation''}
      then [''capability and commercialization'', ''evidence, risks and alternatives'']
      else if intent \<in> {''trend_forecast'', ''structured_report'', ''explanation'', ''conflict_analysis''}
      then [''current signals and evidence'', ''mechanisms, counter-evidence and uncertainty'']
      else [take_chars 120 question])"

definition trend_question :: "structured_brief \<Rightarrow> string \<Rightarrow> bool" where
  "trend_question b question \<longleftrightarrow>
     has_word (py_lower question) [hot_word, future_word, direction_word, trend_word, ''forecast'', ''future'', ''trend'']
     \<or> sb_user_intent b = ''trend_forecast''"

definition evidence_for_question :: "structured_brief \<Rightarrow> string \<Rightarrow> string list" where
  "evidence_for_question b question =
     (let preferred = take 2 (sr_preferred (sb_source_requirements b));
          items = (if preferred = [] then [''reliable source''] else preferred)
      in fromkeys (items @ (if trend_question b question
           then [''independent current signals supporting each trend'',
             ''source-backed explanation of the mechanism linking signals to outcomes'',
             ''counter-signals and uncertainty that could weaken the trend'']
           else [])))"

text \<open>The sentence that the question can be confirmed or refuted by independent sources.\<close>

definition hypothesis_prefix :: string where
  "hypothesis_prefix = utf8 [229, 143, 175, 231, 148, 177, 231, 139, 172, 231, 171, 139, 230, 157, 165, 230, 186, 144,
     232, 175, 129, 230, 141, 174, 233, 170, 140, 232, 175, 129, 230, 136, 150, 229, 143, 141, 233, 169, 179, 239, 188, 154]"

definition question_id_at :: "nat \<Rightarrow> string" where
  "question_id_at i = CHR ''q'' # nat_str i"

definition brief_spec :: "structured_brief \<Rightarrow> answer_spec option res" where
  "brief_spec b =
     (if sb_answer_spec b = [] then Inr None
      else ebind (answer_spec_from_dict (sb_answer_spec b)) (\<lambda>spec. Inr (Some spec)))"

definition uses_v2 :: "structured_brief \<Rightarrow> bool" where
  "uses_v2 b \<longleftrightarrow> sb_engine_version b = ''answer_contract_v2''"

definition key_questions :: "structured_brief \<Rightarrow> string list" where
  "key_questions b = (if sb_key_questions b = [] then [sb_objective b] else sb_key_questions b)"

definition plan_questions :: "structured_brief \<Rightarrow> answer_spec option \<Rightarrow> string list" where
  "plan_questions b spec =
     (case spec of Some sp \<Rightarrow> if uses_v2 b then map as_original_text (sp_asks sp) else key_questions b
      | None \<Rightarrow> key_questions b)"

text \<open>A dictionary keyed by the question identities: the last ask of an identity counts.\<close>

definition ask_of_question :: "answer_spec option \<Rightarrow> string \<Rightarrow> ask_spec option" where
  "ask_of_question spec qid =
     (case spec of None \<Rightarrow> None | Some sp \<Rightarrow> find (\<lambda>a. as_question_id a = qid) (rev (sp_asks sp)))"

definition task_entities :: "structured_brief \<Rightarrow> string list" where
  "task_entities b =
     (let subjects = take max_task_entities (sb_explicit_subjects b)
      in if subjects = [] then [take_chars 100 (sb_objective b)] else subjects)"

definition base_strategy :: "string list" where
  "base_strategy = [''primary_source'', ''independent_corroboration'']"

definition question_task ::
  "structured_brief \<Rightarrow> int \<Rightarrow> answer_spec option \<Rightarrow> nat \<Rightarrow> nat \<times> string \<Rightarrow> research_task_spec" where
  "question_task b version spec questions e =
     (let i = fst e; question = snd e; qid = question_id_at i; ask = ask_of_question spec qid;
          analysis = is_analysis b; entities = task_entities b;
          preferred = sr_preferred (sb_source_requirements b); short = take_chars 120 question
      in \<lparr>rt_task_id = ''plan_'' @ int_str version @ ''_'' @ nat_str i, rt_question_id = qid, rt_objective = question,
          rt_hypotheses = [hypothesis_prefix @ question], rt_evidence_needed = evidence_for_question b question,
          rt_preferred_source_types = preferred,
          rt_counter_evidence_needed = (if analysis then [''counter-evidence or competing estimate''] else []),
          rt_search_hints = [short @ '' official newsroom docs announcement'', short @ '' original paper regulator filing'',
            take_chars 180 (sb_objective b)],
          rt_entities = entities, rt_dimensions = dimensions_for_question question (sb_user_intent b),
          rt_max_queries = min max_estimated_queries (if 1 < questions then 3 else 4), rt_max_fetches = 5, rt_max_llm_calls = 4,
          rt_priority = (if i = 1 then 1 else 2), rt_plan_version = version,
          rt_spec_revision = (case spec of Some sp \<Rightarrow> sp_revision sp | None \<Rightarrow> sb_version b),
          rt_ask_id = (case ask of Some a \<Rightarrow> as_ask_id a | None \<Rightarrow> []),
          rt_target_field_ids = (case ask of Some a \<Rightarrow> map fq_field_id (take 3 (as_required_fields a)) | None \<Rightarrow> []),
          rt_unit_assembly_field_ids = (case ask of Some a \<Rightarrow> map fq_field_id (as_required_fields a) | None \<Rightarrow> []),
          rt_candidate_entity_ids = take (min 3 (length entities)) entities,
          rt_expected_claim_types = (case ask of Some a \<Rightarrow> map fq_value_type (as_required_fields a) | None \<Rightarrow> [''fact'']),
          rt_source_strategy = base_strategy @ (if analysis then [''counter_evidence''] else []),
          rt_done_condition = (case ask of
              Some a \<Rightarrow> ''produce validated fields for '' @ int_str (as_target_units a) @ '' answer unit(s)''
            | None \<Rightarrow> ''produce cited evidence for the question''),
          rt_lease_id = ''lease:'' @ sb_brief_id b @ '':'' @ int_str version @ '':'' @ nat_str i,
          rt_wave_id = 1, rt_repair_of_gap_ids = []\<rparr>)"

text \<open>\<open>enumerate(xs, 1)\<close>.\<close>

definition numbered :: "'a list \<Rightarrow> (nat \<times> 'a) list" where
  "numbered xs = zip [1..<Suc (length xs)] xs"

definition build_brief_and_plan :: "structured_brief \<Rightarrow> int \<Rightarrow> research_task_spec list res" where
  "build_brief_and_plan b version =
     ebind (brief_spec b) (\<lambda>spec.
       let questions = plan_questions b spec
       in Inr (map (question_task b version spec (length questions)) (numbered questions)))"

section \<open>Plan steps\<close>

text \<open>The tools of the mixed worker profile, which research steps resolve to.\<close>

definition research_tools :: "string list" where
  "research_tools = fromkeys ([''internet_search'', ''fetch_url'', ''batch_search'', ''batch_fetch'']
     @ [''read_file_content''] @ [''read_artifact'', ''read_evidence''])"

definition ask_rows_by_id :: "structured_brief \<Rightarrow> pydict dict res" where
  "ask_rows_by_id b =
     ebind (dict_rows (pget (sb_answer_spec b) ''asks'')) (\<lambda>rows.
       Inr (dmerge [] (map (\<lambda>row. (str_or (pget row ''ask_id'') [], row)) rows)))"

definition research_lanes :: "structured_brief \<Rightarrow> string list" where
  "research_lanes b =
     (if is_analysis b then [''primary_source'', ''supporting_evidence'', ''counter_evidence'']
      else [''primary_source'', ''supporting_evidence''])"

definition task_identity_metadata :: "structured_brief \<Rightarrow> research_task_spec \<Rightarrow> pydict" where
  "task_identity_metadata b t =
     [(''kind'', PStr ''research_task''), (''engine_version'', PStr (sb_engine_version b)),
      (''task_kind'', PStr ''initial_bounded_plan''), (''question_id'', PStr (rt_question_id t)),
      (''ask_id'', PStr (rt_ask_id t)), (''spec_revision'', PInt (rt_spec_revision t)),
      (''target_field_ids'', strs (rt_target_field_ids t)),
      (''unit_assembly_field_ids'', strs (rt_unit_assembly_field_ids t))]"

definition task_research_metadata :: "int \<Rightarrow> structured_brief \<Rightarrow> research_task_spec \<Rightarrow> pydict" where
  "task_research_metadata query_budget b t =
     (let queries = PInt (min (rt_max_queries t) (allowed_queries query_budget)) in
      [(''candidate_entity_ids'', strs (rt_candidate_entity_ids t)),
       (''expected_claim_types'', strs (rt_expected_claim_types t)), (''done_condition'', PStr (rt_done_condition t)),
       (''lease_id'', PStr (rt_lease_id t)), (''wave_id'', PInt (rt_wave_id t)),
       (''repair_of_gap_ids'', strs (rt_repair_of_gap_ids t)), (''hypotheses'', strs (rt_hypotheses t)),
       (''hypothesis'', PStr (case rt_hypotheses t of [] \<Rightarrow> [] | h # hs \<Rightarrow> h)),
       (''hypothesis_id'', PStr (''h_'' @ rt_question_id t)), (''criterion_id'', PStr (rt_objective t)),
       (''target_criteria'', strs [rt_objective t]), (''target_gaps'', strs [rt_objective t]),
       (''coverage_keys'', strs (rt_dimensions t)), (''evidence_needed'', strs (rt_evidence_needed t)),
       (''counter_evidence_needed'', strs (rt_counter_evidence_needed t)),
       (''source_strategy'', strs (rt_source_strategy t)), (''research_lanes'', strs (research_lanes b)),
       (''search_hints'', strs (rt_search_hints t)),
       (''entities'', strs (take max_task_entities (rt_entities t))),
       (''dimensions'', strs (take max_task_dimensions (rt_dimensions t))),
       (''all_dimensions'', strs (rt_dimensions t)), (''estimated_queries'', queries), (''max_queries'', queries),
       (''max_fetches'', PInt (rt_max_fetches t)),
       (''preferred_source_types'', strs (rt_preferred_source_types t)), (''priority'', PInt (rt_priority t)),
       (''plan_version'', PInt (rt_plan_version t)), (''analysis_type'', PStr (sb_user_intent b))])"

definition ask_row_metadata :: "pydict \<Rightarrow> pydict res" where
  "ask_row_metadata row =
     ebind (iter_or_empty (pget row ''required_fields'')) (\<lambda>fields.
     ebind (int_or (pget row ''target_units'') 1) (\<lambda>units. Inr
       [(''unit_assembly_field_specs'', PList fields), (''target_units'', PInt units),
        (''ask_kind'', PStr (str_or (pget row ''kind'') ''fact''))]))"

definition profile_metadata :: "task_budget_profile \<Rightarrow> pydict" where
  "profile_metadata profile =
     (''token_ceiling'', PInt (bp_token_ceiling profile))
     # map (\<lambda>(k, n). (k, PInt n)) (task_budget_metadata profile)
     @ [(''required'', PBool True), (''optional'', PBool False)]"

definition task_step ::
  "(string \<Rightarrow> string option) \<Rightarrow> int \<Rightarrow> structured_brief \<Rightarrow> pydict dict \<Rightarrow> research_task_spec \<Rightarrow> plan_step res" where
  "task_step env query_budget b rows t =
     ebind (ask_row_metadata (case dget rows (rt_ask_id t) of None \<Rightarrow> [] | Some row \<Rightarrow> row)) (\<lambda>ask_row. Inr
       \<lparr>step_type = ''research'', description = rt_objective t, subagent = PNone,
        step_metadata = task_identity_metadata b t @ ask_row @ task_research_metadata query_budget b t
          @ profile_metadata (task_budget_profile_of env ''medium''),
        step_task_id = rt_task_id t, depends_on = [], allowed_tools = research_tools,
        step_objective = rt_objective t\<rparr>)"

definition execution_plan_from_brief ::
  "(string \<Rightarrow> string option) \<Rightarrow> structured_brief \<Rightarrow> int \<Rightarrow> int \<Rightarrow> execution_plan res" where
  "execution_plan_from_brief env b version query_budget =
     ebind (build_brief_and_plan b version) (\<lambda>tasks.
     ebind (ask_rows_by_id b) (\<lambda>rows.
     ebind (emap (task_step env query_budget b rows) tasks) (\<lambda>steps. Inr
       \<lparr>plan_steps = concat (map (split_task query_budget) steps),
        plan_summary = ''Bounded initial research plan derived from brief'', plan_version = version,
        planning_mode = ''brief_and_plan'', plan_brief = sb_objective b\<rparr>)))"

section \<open>Coverage and validation\<close>

record plan_coverage =
  cov_required :: "string list"
  cov_covered :: "string list"
  cov_uncovered :: "string list"
  cov_duplicate :: "string list"

definition coverage_complete :: "plan_coverage \<Rightarrow> bool" where
  "coverage_complete c \<longleftrightarrow> cov_uncovered c = []"

definition required_questions :: "structured_brief \<Rightarrow> answer_spec option \<Rightarrow> string list" where
  "required_questions b spec =
     (case spec of
        Some sp \<Rightarrow> if uses_v2 b then map as_question_id (sp_asks sp)
                   else map (\<lambda>(i, q). question_id_at i) (numbered (key_questions b))
      | None \<Rightarrow> map (\<lambda>(i, q). question_id_at i) (numbered (key_questions b)))"

definition step_question :: "plan_step \<Rightarrow> string" where
  "step_question s = py_strip (str_or (pget (step_metadata s) ''question_id'') [])"

definition question_count :: "execution_plan \<Rightarrow> string \<Rightarrow> nat" where
  "question_count p q = length (filter (\<lambda>s. step_question s \<noteq> [] \<and> step_question s = q) (plan_steps p))"

definition plan_coverage_of :: "execution_plan \<Rightarrow> structured_brief \<Rightarrow> plan_coverage res" where
  "plan_coverage_of p b =
     ebind (brief_spec b) (\<lambda>spec.
       let required = required_questions b spec in Inr
         \<lparr>cov_required = required, cov_covered = filter (\<lambda>q. 0 < question_count p q) required,
          cov_uncovered = filter (\<lambda>q. question_count p q = 0) required,
          cov_duplicate = filter (\<lambda>q. 1 < question_count p q) required\<rparr>)"

definition issue_if :: "bool \<Rightarrow> string \<Rightarrow> string \<Rightarrow> string \<Rightarrow> plan_issue list" where
  "issue_if c code task detail = (if c then [\<lparr>pi_code = code, pi_task_id = task, pi_detail = detail\<rparr>] else [])"

definition v2_step_keys :: "string list" where
  "v2_step_keys = [''ask_id'', ''spec_revision'', ''target_field_ids'', ''done_condition'', ''lease_id'', ''wave_id'']"

definition is_missing :: "pyval \<Rightarrow> bool" where
  "is_missing v \<longleftrightarrow> v = PNone \<or> v = PStr [] \<or> v = PList []"

definition analysis_issues :: "plan_step \<Rightarrow> plan_issue list" where
  "analysis_issues s =
     (let m = step_metadata s; k = step_task_id s; analysis = str_or (pget m ''analysis_type'') [] in
      issue_if (analysis \<in> set analysis_intents \<and> \<not> truthy (pget m ''counter_evidence_needed''))
        ''missing_counter_evidence'' k analysis
      @ issue_if (analysis \<in> set analysis_intents \<and> \<not> truthy (por (pget m ''all_dimensions'') (pget m ''dimensions'')))
        ''missing_analysis_dimensions'' k analysis
      @ issue_if (analysis \<noteq> [] \<and> \<not> truthy (pget m ''research_lanes'')) ''missing_research_lanes'' k analysis)"

definition step_issues :: "structured_brief option \<Rightarrow> plan_step \<Rightarrow> plan_issue list" where
  "step_issues brief s =
     (let m = step_metadata s; k = step_task_id s in
      issue_if (step_question s = []) ''missing_question_id'' k []
      @ (if (case brief of None \<Rightarrow> False | Some b \<Rightarrow> uses_v2 b)
         then concat (map (\<lambda>key. issue_if (is_missing (pget m key)) (''missing_'' @ key) k []) v2_step_keys) else [])
      @ issue_if (\<not> truthy (por (pget m ''hypotheses'') (pget m ''hypothesis''))) ''missing_hypothesis'' k []
      @ issue_if (py_strip (if step_objective s \<noteq> [] then step_objective s else description s) = []) ''missing_objective'' k []
      @ issue_if (\<not> truthy (por (pget m ''evidence_needed'') (pget m ''expected_evidence''))) ''missing_evidence_needed'' k []
      @ analysis_issues s)"

definition step_queries :: "plan_step \<Rightarrow> int res" where
  "step_queries s =
     ebind (int_or (por (pget (step_metadata s) ''max_queries'') (pget (step_metadata s) ''estimated_queries'')) 0)
       (\<lambda>n. Inr (max 0 n))"

definition brief_issues :: "int \<Rightarrow> execution_plan \<Rightarrow> structured_brief \<Rightarrow> plan_issue list res" where
  "brief_issues query_budget p b =
     ebind (plan_coverage_of p b) (\<lambda>c.
     ebind (emap step_queries (plan_steps p)) (\<lambda>queries.
       let used = sum_list queries; limit = max 1 query_budget * max 1 (int (length (cov_required c))) in Inr
         (map (\<lambda>q. \<lparr>pi_code = ''uncovered_key_question'', pi_task_id = [], pi_detail = q\<rparr>) (cov_uncovered c)
          @ issue_if (limit < used) ''first_wave_budget_exceeded'' [] (int_str used @ ''>'' @ int_str limit))))"

definition validate_brief_plan ::
  "int \<Rightarrow> execution_plan \<Rightarrow> structured_brief option \<Rightarrow> plan_issue list res" where
  "validate_brief_plan query_budget p brief =
     (let issues = validate_tasks query_budget (plan_steps p) @ concat (map (step_issues brief) (plan_steps p))
      in case brief of
           None \<Rightarrow> Inr issues
         | Some b \<Rightarrow> ebind (brief_issues query_budget p b) (\<lambda>rest. Inr (issues @ rest)))"

end
