(* ===== verification/BriefPlanProps.thy ===== *)
theory BriefPlanProps
  imports BriefPlan
begin

text \<open>
  What the initial plan of a brief guarantees: one bounded step per key question, and no issue when it
  is validated.
\<close>

section \<open>Reading the metadata of a step\<close>

lemma pget_append: "pget_or (a @ b) k v = (if k \<in> set (dkeys a) then pget_or a k v else pget_or b k v)"
  by (induction a) (auto, metis fst_conv image_eqI)

lemma identity_keys:
  "dkeys (task_identity_metadata b t) = [''kind'', ''engine_version'', ''task_kind'', ''question_id'', ''ask_id'',
     ''spec_revision'', ''target_field_ids'', ''unit_assembly_field_ids'']"
  by (simp add: task_identity_metadata_def)

lemma ask_row_keys:
  "ask_row_metadata row = Inr m \<Longrightarrow> dkeys m = [''unit_assembly_field_specs'', ''target_units'', ''ask_kind'']"
  by (auto simp: ask_row_metadata_def ebind_eq_Inr)

lemma identity_question: "pget (task_identity_metadata b t) ''question_id'' = PStr (rt_question_id t)"
  by (simp add: task_identity_metadata_def)

lemma research_lookups:
  "pget (task_research_metadata qb b t @ m) ''hypotheses'' = strs (rt_hypotheses t)"
  "pget (task_research_metadata qb b t @ m) ''evidence_needed'' = strs (rt_evidence_needed t)"
  "pget (task_research_metadata qb b t @ m) ''counter_evidence_needed'' = strs (rt_counter_evidence_needed t)"
  "pget (task_research_metadata qb b t @ m) ''research_lanes'' = strs (research_lanes b)"
  "pget (task_research_metadata qb b t @ m) ''entities'' = strs (take max_task_entities (rt_entities t))"
  "pget (task_research_metadata qb b t @ m) ''dimensions'' = strs (take max_task_dimensions (rt_dimensions t))"
  "pget (task_research_metadata qb b t @ m) ''all_dimensions'' = strs (rt_dimensions t)"
  "pget (task_research_metadata qb b t @ m) ''estimated_queries'' = PInt (min (rt_max_queries t) (allowed_queries qb))"
  "pget (task_research_metadata qb b t @ m) ''max_queries'' = PInt (min (rt_max_queries t) (allowed_queries qb))"
  "pget (task_research_metadata qb b t @ m) ''analysis_type'' = PStr (sb_user_intent b)"
  by (simp_all add: task_research_metadata_def Let_def)

lemma task_step_shape:
  assumes "task_step env qb b rows t = Inr s"
  obtains m where "dkeys m = [''unit_assembly_field_specs'', ''target_units'', ''ask_kind'']"
    "step_metadata s = task_identity_metadata b t @ m @ task_research_metadata qb b t
       @ profile_metadata (task_budget_profile_of env ''medium'')"
    "step_task_id s = rt_task_id t" "step_objective s = rt_objective t" "step_type s = ''research''" "depends_on s = []"
proof -
  obtain m where "ask_row_metadata (case dget rows (rt_ask_id t) of None \<Rightarrow> [] | Some row \<Rightarrow> row) = Inr m"
    and s: "s = \<lparr>step_type = ''research'', description = rt_objective t, subagent = PNone,
        step_metadata = task_identity_metadata b t @ m @ task_research_metadata qb b t
          @ profile_metadata (task_budget_profile_of env ''medium''),
        step_task_id = rt_task_id t, depends_on = [], allowed_tools = research_tools, step_objective = rt_objective t\<rparr>"
    using assms unfolding task_step_def ebind_eq_Inr by (auto simp only: sum.inject)
  then show ?thesis using ask_row_keys by (intro that [of m]) simp_all
qed

lemma task_step_question:
  assumes "task_step env qb b rows t = Inr s"
  shows "pget (step_metadata s) ''question_id'' = PStr (rt_question_id t)"
  by (rule task_step_shape [OF assms]) (simp add: pget_append identity_keys identity_question)

lemma task_step_meta:
  assumes "task_step env qb b rows t = Inr s"
    and "k \<in> set [''hypotheses'', ''evidence_needed'', ''counter_evidence_needed'', ''research_lanes'', ''entities'',
      ''dimensions'', ''all_dimensions'', ''estimated_queries'', ''max_queries'', ''analysis_type'']"
  shows "pget (step_metadata s) k = pget (task_research_metadata qb b t @ profile_metadata (task_budget_profile_of env ''medium'')) k"
proof -
  obtain m where keys: "dkeys m = [''unit_assembly_field_specs'', ''target_units'', ''ask_kind'']"
    and meta: "step_metadata s = task_identity_metadata b t @ m @ task_research_metadata qb b t
       @ profile_metadata (task_budget_profile_of env ''medium'')"
    by (rule task_step_shape [OF assms(1)])
  have "k \<notin> set (dkeys (task_identity_metadata b t))" "k \<notin> set (dkeys m)"
    using assms(2) unfolding keys identity_keys by auto
  then show ?thesis unfolding meta by (simp add: pget_append)
qed

lemma task_step_reads:
  assumes "task_step env qb b rows t = Inr s"
  shows "pget (step_metadata s) ''hypotheses'' = strs (rt_hypotheses t)"
    "pget (step_metadata s) ''evidence_needed'' = strs (rt_evidence_needed t)"
    "pget (step_metadata s) ''counter_evidence_needed'' = strs (rt_counter_evidence_needed t)"
    "pget (step_metadata s) ''research_lanes'' = strs (research_lanes b)"
    "pget (step_metadata s) ''entities'' = strs (take max_task_entities (rt_entities t))"
    "pget (step_metadata s) ''dimensions'' = strs (take max_task_dimensions (rt_dimensions t))"
    "pget (step_metadata s) ''all_dimensions'' = strs (rt_dimensions t)"
    "pget (step_metadata s) ''estimated_queries'' = PInt (min (rt_max_queries t) (allowed_queries qb))"
    "pget (step_metadata s) ''max_queries'' = PInt (min (rt_max_queries t) (allowed_queries qb))"
    "pget (step_metadata s) ''analysis_type'' = PStr (sb_user_intent b)"
  by (subst task_step_meta [OF assms], simp, simp only: research_lookups)+

lemma listed_texts_length: "length (listed_texts (strs xs)) \<le> length xs"
  by (simp add: listed_texts_def strs_def comp_def filter_map)

lemma allowed_queries_pos: "1 \<le> allowed_queries qb"
  by (simp add: allowed_queries_def)

lemma task_step_valid:
  assumes "task_step env qb b rows t = Inr s" "0 \<le> rt_max_queries t"
  shows "validate_task qb s = []"
proof -
  have "task_values s ''entities'' = listed_texts (strs (take max_task_entities (rt_entities t)))"
    "task_values s ''dimensions'' = listed_texts (strs (take max_task_dimensions (rt_dimensions t)))"
    by (simp_all add: task_values_def task_step_reads [OF assms(1)]) (simp_all add: strs_def)
  then have "length (task_values s ''entities'') \<le> max_task_entities" "length (task_values s ''dimensions'') \<le> max_task_dimensions"
    using listed_texts_length by (metis length_take min.cobounded2 order_trans)+
  moreover have "estimated_queries s 1 = min (rt_max_queries t) (allowed_queries qb)"
    using assms(2) allowed_queries_pos [of qb] by (simp add: estimated_queries_def task_step_reads [OF assms(1)])
  ultimately show ?thesis by (simp add: validate_task_def limit_issue_def)
qed

lemma question_task_queries: "3 \<le> rt_max_queries (question_task b v spec n e)" "rt_max_queries (question_task b v spec n e) \<le> 4"
  by (simp_all add: question_task_def Let_def max_estimated_queries_def)

text \<open>The steps of a brief's plan are the steps of its tasks, none of them split.\<close>

definition brief_tasks :: "structured_brief \<Rightarrow> int \<Rightarrow> answer_spec option \<Rightarrow> research_task_spec list" where
  "brief_tasks b v spec = map (question_task b v spec (length (plan_questions b spec))) (numbered (plan_questions b spec))"

lemma brief_plan_steps:
  assumes "execution_plan_from_brief env b v qb = Inr p" "brief_spec b = Inr spec"
  obtains rows where "list_all2 (\<lambda>t s. task_step env qb b rows t = Inr s) (brief_tasks b v spec) (plan_steps p)"
proof -
  obtain rows steps where "emap (task_step env qb b rows) (brief_tasks b v spec) = Inr steps"
    and p: "plan_steps p = concat (map (split_task qb) steps)"
    using assms by (auto simp: execution_plan_from_brief_def build_brief_and_plan_def brief_tasks_def ebind_eq_Inr Let_def)
  then have rel: "list_all2 (\<lambda>t s. task_step env qb b rows t = Inr s) (brief_tasks b v spec) steps"
    by (simp only: emap_eq_Inr_iff)
  have "split_task qb s = [s]" if s: "s \<in> set steps" for s
  proof -
    obtain j where "j < length steps" "s = steps ! j" using s by (auto simp: in_set_conv_nth)
    then have "task_step env qb b rows (brief_tasks b v spec ! j) = Inr s" "brief_tasks b v spec ! j \<in> set (brief_tasks b v spec)"
      using list_all2_nthD2 [OF rel] list_all2_lengthD [OF rel] by simp_all
    then obtain t where "task_step env qb b rows t = Inr s" "t \<in> set (brief_tasks b v spec)" by blast
    moreover then obtain e where "t = question_task b v spec (length (plan_questions b spec)) e"
      by (auto simp: brief_tasks_def)
    then have "0 \<le> rt_max_queries t" using question_task_queries(1) by (simp add: order_trans [of 0 3])
    ultimately have "validate_task qb s = []" by (simp add: task_step_valid)
    then show ?thesis by (simp add: split_task_def)
  qed
  then have "concat (map (split_task qb) steps) = concat (map (\<lambda>s. [s]) steps)" by (metis (no_types, lifting) map_eq_conv)
  then have "plan_steps p = steps" using p by simp
  then show ?thesis using rel that by simp
qed

section \<open>What the plan of a brief covers\<close>

lemma py_strip_no_space: "\<forall>c\<in>set s. \<not> is_space c \<Longrightarrow> py_strip s = s"
proof -
  assume s: "\<forall>c\<in>set s. \<not> is_space c"
  then have "dropWhile is_space s = s" "dropWhile is_space (rev s) = rev s"
    by (auto simp: dropWhile_eq_self_iff hd_rev)
  then show ?thesis by (simp add: py_strip_def)
qed

lemma digit_char_no_space: "n < 10 \<Longrightarrow> \<not> is_space (digit_char n)"
  by (simp add: digit_char_def is_space_def Let_def)

lemma nat_str_no_space: "c \<in> set (nat_str n) \<Longrightarrow> \<not> is_space c"
proof (induction n rule: nat_str.induct)
  case (1 n)
  then show ?case
    by (cases "n < 10") (auto simp: nat_str.simps [of n] digit_char_no_space)
qed

lemma question_id_strip [simp]: "py_strip (question_id_at i) = question_id_at i"
proof (rule py_strip_no_space)
  have "\<not> is_space CHR ''q''" by (simp add: is_space_def Let_def)
  then show "\<forall>c\<in>set (question_id_at i). \<not> is_space c" by (auto simp: question_id_at_def nat_str_no_space)
qed

lemma question_id_inject [simp]: "question_id_at i = question_id_at j \<longleftrightarrow> i = j"
  by (simp add: question_id_at_def nat_str_inject)

lemma numbered_nth: "i < length xs \<Longrightarrow> numbered xs ! i = (Suc i, xs ! i)"
  by (simp add: numbered_def del: upt_Suc)

lemma length_numbered [simp]: "length (numbered xs) = length xs"
  by (simp add: numbered_def del: upt_Suc)

lemma question_task_reads [simp]:
  "rt_question_id (question_task b v spec n (i, q)) = question_id_at i"
  "rt_objective (question_task b v spec n (i, q)) = q"
  "rt_hypotheses (question_task b v spec n (i, q)) = [hypothesis_prefix @ q]"
  "rt_evidence_needed (question_task b v spec n (i, q)) = evidence_for_question b q"
  "rt_counter_evidence_needed (question_task b v spec n (i, q)) = (if is_analysis b then [''counter-evidence or competing estimate''] else [])"
  "rt_dimensions (question_task b v spec n (i, q)) = dimensions_for_question q (sb_user_intent b)"
  by (simp_all add: question_task_def Let_def)

lemma brief_plan_step:
  assumes "execution_plan_from_brief env b v qb = Inr p" "brief_spec b = Inr spec"
  shows "length (plan_steps p) = length (plan_questions b spec)"
    and "i < length (plan_questions b spec) \<Longrightarrow> \<exists>rows. task_step env qb b rows
      (question_task b v spec (length (plan_questions b spec)) (Suc i, plan_questions b spec ! i)) = Inr (plan_steps p ! i)"
proof -
  obtain rows where rel: "list_all2 (\<lambda>t s. task_step env qb b rows t = Inr s) (brief_tasks b v spec) (plan_steps p)"
    by (rule brief_plan_steps [OF assms])
  show "length (plan_steps p) = length (plan_questions b spec)"
    using list_all2_lengthD [OF rel] by (simp add: brief_tasks_def)
  show "\<exists>rows. task_step env qb b rows
      (question_task b v spec (length (plan_questions b spec)) (Suc i, plan_questions b spec ! i)) = Inr (plan_steps p ! i)"
    if "i < length (plan_questions b spec)"
    using list_all2_nthD [OF rel, of i] that by (auto simp: brief_tasks_def numbered_nth)
qed

lemma brief_plan_questions:
  assumes "execution_plan_from_brief env b v qb = Inr p" "brief_spec b = Inr spec"
  shows "map step_question (plan_steps p) = map question_id_at [1..<Suc (length (plan_questions b spec))]"
proof (rule nth_equalityI)
  show "length (map step_question (plan_steps p)) = length (map question_id_at [1..<Suc (length (plan_questions b spec))])"
    using brief_plan_step(1) [OF assms] by (simp del: upt_Suc)
next
  fix i
  assume "i < length (map step_question (plan_steps p))"
  then have i: "i < length (plan_questions b spec)" using brief_plan_step(1) [OF assms] by simp
  obtain rows where "task_step env qb b rows
      (question_task b v spec (length (plan_questions b spec)) (Suc i, plan_questions b spec ! i)) = Inr (plan_steps p ! i)"
    using brief_plan_step(2) [OF assms i] by blast
  from task_step_question [OF this]
  have "step_question (plan_steps p ! i) = question_id_at (Suc i)"
    by (simp add: step_question_def)
  then show "map step_question (plan_steps p) ! i = map question_id_at [1..<Suc (length (plan_questions b spec))] ! i"
    using i brief_plan_step(1) [OF assms] by (simp del: upt_Suc)
qed

lemma question_count_brief:
  assumes "execution_plan_from_brief env b v qb = Inr p" "brief_spec b = Inr spec"
  shows "question_count p q = (if q \<in> question_id_at ` {1..length (plan_questions b spec)} then 1 else 0)"
proof -
  let ?n = "length (plan_questions b spec)"
  have "question_count p q = length (filter (\<lambda>x. x \<noteq> [] \<and> x = q) (map step_question (plan_steps p)))"
    by (simp add: question_count_def filter_map comp_def)
  also have "\<dots> = length (filter (\<lambda>i. question_id_at i = q) [1..<Suc ?n])"
    unfolding brief_plan_questions [OF assms]
    by (simp add: filter_map comp_def question_id_at_def cong: filter_cong)
  also have "\<dots> = card {i \<in> {1..?n}. question_id_at i = q}"
    by (subst distinct_card [symmetric]) (auto intro!: arg_cong [of _ _ card])
  also have "\<dots> = (if q \<in> question_id_at ` {1..?n} then 1 else 0)"
  proof (cases "q \<in> question_id_at ` {1..?n}")
    case True
    then obtain i where "i \<in> {1..?n}" "q = question_id_at i" by blast
    then have "{i \<in> {1..?n}. question_id_at i = q} = {i}" by auto
    then show ?thesis using True by simp
  next
    case False
    then have none: "{i \<in> {1..?n}. question_id_at i = q} = {}" by blast
    show ?thesis unfolding none using False by simp
  qed
  finally show ?thesis .
qed

lemma brief_plan_coverage_lemma:
  assumes "execution_plan_from_brief env b v qb = Inr p" "brief_spec b = Inr spec" "plan_coverage_of p b = Inr c"
  shows "cov_uncovered c = filter (\<lambda>q. q \<notin> question_id_at ` {1..length (plan_questions b spec)}) (cov_required c)
    \<and> cov_duplicate c = [] \<and> (uses_v2 b \<or> coverage_complete c)"
proof -
  have required: "cov_required c = required_questions b spec"
    "cov_uncovered c = filter (\<lambda>q. question_count p q = 0) (required_questions b spec)"
    "cov_duplicate c = filter (\<lambda>q. 1 < question_count p q) (required_questions b spec)"
    using assms(2,3) by (auto simp: plan_coverage_of_def Let_def)
  have uncovered: "cov_uncovered c = filter (\<lambda>q. q \<notin> question_id_at ` {1..length (plan_questions b spec)}) (cov_required c)"
    unfolding required by (simp add: question_count_brief [OF assms(1,2)] cong: filter_cong)
  have "cov_duplicate c = []" unfolding required by (simp add: question_count_brief [OF assms(1,2)] filter_empty_conv)
  moreover have "coverage_complete c" if "\<not> uses_v2 b"
  proof -
    have "plan_questions b spec = key_questions b" "required_questions b spec = map (\<lambda>(i, q). question_id_at i) (numbered (key_questions b))"
      using that by (auto simp: plan_questions_def required_questions_def split: option.splits)
    then show ?thesis unfolding coverage_complete_def uncovered required
      by (auto simp: filter_empty_conv numbered_def set_zip simp del: upt_Suc)
  qed
  ultimately show ?thesis using uncovered by blast
qed

section \<open>The plan of a brief passes its validation\<close>

lemma allowed_queries_small:
  assumes "n \<le> 4"
  shows "min n (allowed_queries qb) \<le> max 1 qb"
proof -
  consider "qb \<le> 0" | "0 < qb" "qb < 4" | "4 \<le> qb" by linarith
  then show ?thesis
  proof cases
    case 1
    then have "fl (of_int qb) * fl (7 / 10) \<le> 0" by (intro mult_nonpos_nonneg) simp_all
    then have "trunc (fmul_int qb (fl (7 / 10))) \<le> 0" by (auto simp: fmul_int_def trunc_def)
    then show ?thesis by (simp add: allowed_queries_def)
  next
    case 2
    have "fl (7 / 10) \<le> of_int 1" by (rule fl_le_int) simp_all
    then have "trunc (fmul_int qb (fl (7 / 10))) \<le> qb" using 2 by (intro trunc_share_bounds(2)) simp_all
    then show ?thesis using 2 by (simp add: allowed_queries_def)
  qed (use assms in simp)
qed

lemma step_queries_brief:
  assumes "task_step env qb b rows t = Inr s" "3 \<le> rt_max_queries t"
  shows "step_queries s = Inr (min (rt_max_queries t) (allowed_queries qb))"
  using assms(2) allowed_queries_pos [of qb]
  by (simp add: step_queries_def task_step_reads [OF assms(1)] por_def)

lemma evidence_not_Nil: "evidence_for_question b q \<noteq> []"
  by (simp add: evidence_for_question_def Let_def)

lemma dimensions_not_Nil: "dimensions_for_question q i \<noteq> []"
  by (simp add: dimensions_for_question_def Let_def)

lemma truthy_strs [simp]: "truthy (strs xs) \<longleftrightarrow> xs \<noteq> []"
  by (simp add: strs_def)

lemma step_issues_brief:
  assumes "task_step env qb b rows (question_task b v spec n (i, q)) = Inr s" "\<not> uses_v2 b" "py_strip q \<noteq> []"
  shows "step_issues (Some b) s = []"
proof -
  let ?t = "question_task b v spec n (i, q)"
  note reads = task_step_reads [OF assms(1)]
  have "step_objective s = q" by (rule task_step_shape [OF assms(1)]) simp
  moreover have "q \<noteq> []" using assms(3) by (auto simp: py_strip_def)
  moreover have "step_question s = question_id_at i" "question_id_at i \<noteq> []"
    by (simp_all add: step_question_def task_step_question [OF assms(1)], simp add: question_id_at_def)
  moreover have "truthy (pget (step_metadata s) ''hypotheses'')" "truthy (pget (step_metadata s) ''evidence_needed'')"
    "truthy (pget (step_metadata s) ''all_dimensions'')" "truthy (pget (step_metadata s) ''research_lanes'')"
    "truthy (pget (step_metadata s) ''counter_evidence_needed'') \<longleftrightarrow> is_analysis b"
    by (simp_all add: reads evidence_not_Nil dimensions_not_Nil research_lanes_def)
  moreover have "str_or (pget (step_metadata s) ''analysis_type'') [] = sb_user_intent b" by (simp add: reads)
  ultimately show ?thesis using assms(2,3)
    by (simp add: step_issues_def analysis_issues_def issue_if_def Let_def is_analysis_def)
qed

lemma sum_list_bound: "(\<And>x. x \<in> set xs \<Longrightarrow> x \<le> c) \<Longrightarrow> sum_list xs \<le> c * int (length xs)" for c :: int
  by (induction xs) (auto simp: algebra_simps add_mono)

lemma brief_plan_validates:
  assumes "execution_plan_from_brief env b v qb = Inr p" "brief_spec b = Inr spec"
    and "\<not> uses_v2 b" "\<forall>q\<in>set (key_questions b). py_strip q \<noteq> []"
  shows "validate_brief_plan qb p (Some b) = Inr []"
proof -
  let ?qs = "key_questions b"
  have qs: "plan_questions b spec = ?qs" using assms(3) by (simp add: plan_questions_def split: option.splits)
  note len = brief_plan_step(1) [OF assms(1,2), unfolded qs]
  have step: "\<exists>rows. task_step env qb b rows (question_task b v spec (length ?qs) (Suc i, ?qs ! i)) = Inr (plan_steps p ! i)"
    if "i < length ?qs" for i
    using brief_plan_step(2) [OF assms(1,2), unfolded qs, OF that] .
  have each: "validate_task qb s = [] \<and> step_issues (Some b) s = [] \<and>
      (\<exists>n. step_queries s = Inr n \<and> n \<le> max 1 qb)" if s: "s \<in> set (plan_steps p)" for s
  proof -
    obtain i where i: "i < length ?qs" "s = plan_steps p ! i" using s len by (auto simp: in_set_conv_nth)
    then obtain rows where rows: "task_step env qb b rows (question_task b v spec (length ?qs) (Suc i, ?qs ! i)) = Inr s"
      using step by blast
    note queries = question_task_queries [of b v spec "length ?qs" "(Suc i, ?qs ! i)"]
    have "validate_task qb s = []" using task_step_valid [OF rows] queries by simp
    moreover have "step_issues (Some b) s = []"
      by (rule step_issues_brief [OF rows assms(3)]) (use assms(4) i in simp)
    moreover have "step_queries s = Inr (min (rt_max_queries (question_task b v spec (length ?qs) (Suc i, ?qs ! i))) (allowed_queries qb))"
      by (rule step_queries_brief [OF rows queries(1)])
    ultimately show ?thesis using allowed_queries_small [OF queries(2)] by blast
  qed
  obtain ns where ns: "emap step_queries (plan_steps p) = Inr ns" "\<And>n. n \<in> set ns \<Longrightarrow> n \<le> max 1 qb" "length ns = length ?qs"
  proof -
    let ?f = "\<lambda>s. case step_queries s of Inr n \<Rightarrow> n | Inl e \<Rightarrow> 0"
    have "emap step_queries (plan_steps p) = Inr (map ?f (plan_steps p))"
      by (rule emap_all_Inr) (use each in fastforce)
    moreover have "?f s \<le> max 1 qb" if "s \<in> set (plan_steps p)" for s using each [OF that] by auto
    ultimately show ?thesis using len by (intro that [of "map ?f (plan_steps p)"]) auto
  qed
  obtain c where c: "plan_coverage_of p b = Inr c" "cov_required c = map (\<lambda>(i, q). question_id_at i) (numbered ?qs)"
    using assms(2,3) by (auto simp: plan_coverage_of_def Let_def required_questions_def split: option.splits)
  have uncovered: "cov_uncovered c = []"
    using brief_plan_coverage_lemma [OF assms(1,2) c(1)] assms(3) by (metis coverage_complete_def)
  have "sum_list ns \<le> max 1 qb * int (length ns)" by (rule sum_list_bound) (rule ns(2))
  also have "\<dots> \<le> max 1 qb * max 1 (int (length (cov_required c)))"
    using ns(3) c(2) by (intro mult_left_mono) simp_all
  finally have "brief_issues qb p b = Inr []"
    using c(1) ns(1) uncovered by (simp add: brief_issues_def Let_def issue_if_def)
  moreover have "validate_tasks qb (plan_steps p) = []" "concat (map (step_issues (Some b)) (plan_steps p)) = []"
    using each by (auto simp: validate_tasks_def)
  ultimately show ?thesis by (simp add: validate_brief_plan_def)
qed

lemma brief_plan_objectives:
  assumes "execution_plan_from_brief env b v qb = Inr p" "brief_spec b = Inr spec"
  shows "map step_objective (plan_steps p) = plan_questions b spec"
proof (rule nth_equalityI)
  fix i
  assume "i < length (map step_objective (plan_steps p))"
  then have i: "i < length (plan_questions b spec)" using brief_plan_step(1) [OF assms] by simp
  obtain rows where "task_step env qb b rows
      (question_task b v spec (length (plan_questions b spec)) (Suc i, plan_questions b spec ! i)) = Inr (plan_steps p ! i)"
    using brief_plan_step(2) [OF assms i] by blast
  then have "step_objective (plan_steps p ! i) = plan_questions b spec ! i" by (rule task_step_shape) simp
  then show "map step_objective (plan_steps p) ! i = plan_questions b spec ! i"
    using i brief_plan_step(1) [OF assms] by simp
qed (use brief_plan_step(1) [OF assms] in simp)

text \<open>A specification that can be read has rows of asks whose metadata can be read.\<close>

lemma dmerge_values: "(k, v) \<in> set (dmerge a b) \<Longrightarrow> (k, v) \<in> set a \<or> (k, v) \<in> set b"
proof (induction b arbitrary: a)
  case (Cons x b)
  then have "(k, v) \<in> set (dmerge (dput (fst x) (snd x) a) b)" by (simp add: dmerge_def split_beta)
  from Cons.IH [OF this] show ?case using set_dput_subset [of "fst x" "snd x" a] by (cases x) auto
qed (simp add: dmerge_def)

lemma int_or_readable: "int_or v n = Inr i \<Longrightarrow> \<exists>j. int_or v m = Inr j"
  by (cases "truthy v") (simp_all add: int_or_def por_def)

lemma ask_row_readable:
  assumes "ask_spec_from_dict row = Inr ask"
  shows "\<exists>m. ask_row_metadata row = Inr m"
proof -
  obtain fields target where "dict_rows (pget row ''required_fields'') = Inr fields" "int_or (pget row ''target_units'') 0 = Inr target"
    using assms by (auto simp: ask_spec_from_dict_def Let_def ebind_eq_Inr split: if_splits)
  then show ?thesis
    using int_or_readable [of "pget row ''target_units''" 0 target 1]
    by (auto simp: ask_row_metadata_def dict_rows_def ebind_eq_Inr)
qed

lemma ask_rows_readable:
  assumes "brief_spec b = Inr spec"
  shows "\<exists>rows. ask_rows_by_id b = Inr rows \<and> (\<forall>(k, row)\<in>set rows. \<exists>m. ask_row_metadata row = Inr m)"
proof (cases "sb_answer_spec b = []")
  case True
  then show ?thesis by (simp add: ask_rows_by_id_def dict_rows_def iter_or_empty_def por_def dmerge_def)
next
  case False
  then obtain rows asks where rows: "dict_rows (pget (sb_answer_spec b) ''asks'') = Inr rows"
    and asks: "emap ask_spec_from_dict rows = Inr asks"
    using assms by (auto simp: brief_spec_def answer_spec_from_dict_def ebind_eq_Inr)
  have "\<exists>m. ask_row_metadata row = Inr m" if "row \<in> set rows" for row
    using asks that ask_row_readable by (fastforce simp: emap_eq_Inr_iff list_all2_conv_all_nth in_set_conv_nth)
  then show ?thesis using rows dmerge_values by (fastforce simp: ask_rows_by_id_def)
qed

lemma brief_plan_total:
  assumes "brief_spec b = Inr spec"
  shows "\<exists>p. execution_plan_from_brief env b v qb = Inr p"
proof -
  obtain rows where rows: "ask_rows_by_id b = Inr rows" "\<forall>(k, row)\<in>set rows. \<exists>m. ask_row_metadata row = Inr m"
    using ask_rows_readable [OF assms] by blast
  have none: "\<exists>m. ask_row_metadata [] = Inr m"
    by (simp add: ask_row_metadata_def iter_or_empty_def por_def int_or_def)
  have "\<exists>m. ask_row_metadata (case dget rows k of None \<Rightarrow> [] | Some row \<Rightarrow> row) = Inr m" for k
  proof (cases "dget rows k")
    case (Some row)
    then have "(k, row) \<in> set rows" by (rule map_of_SomeD)
    then show ?thesis using rows(2) Some by fastforce
  qed (use none in simp)
  then have "\<exists>s. task_step env qb b rows t = Inr s" for t
    unfolding task_step_def by (metis ebind_simps(2))
  then obtain f where "\<And>t. task_step env qb b rows t = Inr (f t)" by metis
  then have "\<exists>steps. emap (task_step env qb b rows) ts = Inr steps" for ts
    using emap_all_Inr [of ts "task_step env qb b rows" f] by blast
  then show ?thesis
    by (simp add: execution_plan_from_brief_def build_brief_and_plan_def assms rows(1) Let_def) (metis ebind_simps(2))
qed

section \<open>Properties\<close>

text \<open>
  The plan of a brief has one task per key question: no question is covered twice, the uncovered ones
  are those whose identity is not a position of the question list, and a brief of the first engine is
  covered completely.
\<close>

theorem brief_plan_coverage:
  assumes "execution_plan_from_brief env b v qb = Inr p" "brief_spec b = Inr spec" "plan_coverage_of p b = Inr c"
  shows "cov_uncovered c = filter (\<lambda>q. q \<notin> question_id_at ` {1..length (plan_questions b spec)}) (cov_required c)
    \<and> cov_duplicate c = [] \<and> (uses_v2 b \<or> coverage_complete c)"
  by (rule brief_plan_coverage_lemma [OF assms])

text \<open>
  A brief of the first engine as the compiler makes it: with an answer specification, which the first
  engine carries along.
\<close>

definition sample_ask_row :: pydict where
  "sample_ask_row =
     [(''ask_id'', PStr ''a1''), (''question_id'', PStr ''q1''), (''original_text'', PStr ''one''), (''kind'', PStr ''fact''),
      (''required_fields'', PList [PDict [(''field_id'', PStr ''answer'')]]), (''target_units'', PInt 1)]"

definition sample_brief :: structured_brief where
  "sample_brief =
     \<lparr>sb_brief_id = ''b'', sb_version = 1, sb_objective = ''o'', sb_user_intent = ''comparison'', sb_explicit_subjects = [''x''],
      sb_key_questions = [''one'', ''two''], sb_user_asks = [], sb_research_questions = [], sb_constraints = [],
      sb_source_requirements = \<lparr>sr_min_independent_sources = 1, sr_primary_required = False, sr_preferred = [], sr_forbidden = []\<rparr>,
      sb_freshness_requirements = \<lparr>fr_required = False, fr_time_horizon = []\<rparr>,
      sb_deliverable = \<lparr>dr_format = [], dr_depth = []\<rparr>, sb_success_criteria = [], sb_assumptions = [],
      sb_clarification_needed = False, sb_compiler_source = [], sb_confidence = 0, sb_raw_query = [],
      sb_answer_spec = [(''spec_id'', PStr ''s''), (''asks'', PList [PDict sample_ask_row])],
      sb_engine_version = []\<rparr>"

lemma sample_spec: "\<exists>spec. brief_spec sample_brief = Inr (Some spec)"
  by (simp add: brief_spec_def sample_brief_def answer_spec_from_dict_def ask_spec_from_dict_def sample_ask_row_def
      dict_rows_def iter_or_empty_def por_def int_or_def str_or_def str_list_def dict_or_empty_def ask_kinds_def)

theorem brief_plan_coverage_witness:
  "\<exists>p c. execution_plan_from_brief (\<lambda>_. None) sample_brief 1 10 = Inr p \<and> plan_coverage_of p sample_brief = Inr c
     \<and> coverage_complete c"
proof -
  obtain spec where spec: "brief_spec sample_brief = Inr spec" using sample_spec by blast
  have v1: "\<not> uses_v2 sample_brief" by (simp add: sample_brief_def uses_v2_def)
  obtain p where p: "execution_plan_from_brief (\<lambda>_. None) sample_brief 1 10 = Inr p" using brief_plan_total [OF spec] by blast
  obtain c where c: "plan_coverage_of p sample_brief = Inr c"
    using spec by (simp add: plan_coverage_of_def Let_def)
  show ?thesis using brief_plan_coverage [OF p spec c] p c v1 by blast
qed

text \<open>
  C36. A brief of the first engine whose key questions are not blank and whose answer specification, if it
  has one, can be read always gets a plan: the steps pursue its questions in order, every one is within
  the limits of a task, and the validation of the plan finds nothing.
\<close>

theorem brief_plan_valid:
  assumes "brief_spec b = Inr spec" "sb_engine_version b \<noteq> ''answer_contract_v2''"
    and "\<forall>q\<in>set (key_questions b). py_strip q \<noteq> []"
  shows "\<exists>p. execution_plan_from_brief env b v qb = Inr p \<and> map step_objective (plan_steps p) = key_questions b
    \<and> validate_tasks qb (plan_steps p) = [] \<and> validate_brief_plan qb p (Some b) = Inr []"
proof -
  have v1: "\<not> uses_v2 b" using assms(2) by (simp add: uses_v2_def)
  obtain p where p: "execution_plan_from_brief env b v qb = Inr p" using brief_plan_total [OF assms(1)] by blast
  have valid: "validate_brief_plan qb p (Some b) = Inr []"
    by (rule brief_plan_validates [OF p assms(1) v1 assms(3)])
  moreover have "validate_tasks qb (plan_steps p) = []"
    using valid by (auto simp: validate_brief_plan_def ebind_eq_Inr)
  moreover have "map step_objective (plan_steps p) = key_questions b"
    using brief_plan_objectives [OF p assms(1)] v1 by (simp add: plan_questions_def split: option.splits)
  ultimately show ?thesis using p by blast
qed

theorem brief_plan_valid_witness:
  "\<exists>p. execution_plan_from_brief (\<lambda>_. None) sample_brief 2 3 = Inr p \<and> map step_objective (plan_steps p) = [''one'', ''two'']
     \<and> validate_brief_plan 3 p (Some sample_brief) = Inr []"
proof -
  obtain spec where spec: "brief_spec sample_brief = Inr spec" using sample_spec by blast
  have "sb_engine_version sample_brief \<noteq> ''answer_contract_v2''" "\<forall>q\<in>set (key_questions sample_brief). py_strip q \<noteq> []"
      "key_questions sample_brief = [''one'', ''two'']"
    by (simp_all add: sample_brief_def key_questions_def py_strip_def is_space_def)
  with brief_plan_valid [OF spec this(1,2), of "\<lambda>_. None" 2 3] show ?thesis by auto
qed

end
