(* ===== verification/FloatRepr.thy ===== *)
theory FloatRepr
  imports PyVal
begin

text \<open>
  The text \<open>repr\<close> prints for a float: the shortest decimal numeral that reads back as the
  float, in positional notation for exponents from -4 to 15 and in scientific notation
  otherwise.  With it a float a program computes becomes a value of a stored row.
\<close>

text \<open>The decimal exponent of a positive number: \<open>10 ^ e \<le> x < 10 ^ (e + 1)\<close>.\<close>

definition dec_exponent :: "rat \<Rightarrow> int" where
  "dec_exponent x =
     (let (n, d) = quotient_of x; e = int (length (int_str n)) - int (length (int_str d))
      in if 10 powi e \<le> x then e else e - 1)"

text \<open>
  The digits and the exponent of the last digit of the shortest numeral; seventeen digits always
  determine a float, so the search starts at one digit and tries at most seventeen.
\<close>

fun shortest_numeral :: "nat \<Rightarrow> int \<Rightarrow> rat \<Rightarrow> int \<times> int" where
  "shortest_numeral fuel e x =
     (let m = round_half_even (x / 10 powi e)
      in case fuel of 0 \<Rightarrow> (m, e)
         | Suc k \<Rightarrow> if fl (of_int m * 10 powi e) = x then (m, e) else shortest_numeral k (e - 1) x)"

definition drop_zeros :: "string \<Rightarrow> string" where
  "drop_zeros s = rev (dropWhile (\<lambda>c. c = CHR ''0'') (rev s))"

definition format_positional :: "string \<Rightarrow> int \<Rightarrow> string" where
  "format_positional s point =
     (if point \<le> 0 then ''0.'' @ replicate (nat (- point)) (CHR ''0'') @ s
      else if int (length s) \<le> point then s @ replicate (nat point - length s) (CHR ''0'') @ ''.0''
      else take (nat point) s @ ''.'' @ drop (nat point) s)"

definition format_scientific :: "string \<Rightarrow> int \<Rightarrow> string" where
  "format_scientific s e =
     take 1 s @ (if length s = 1 then [] else ''.'' @ drop 1 s) @ ''e''
     @ (if e < 0 then ''-'' else ''+'') @ pad_zeros 2 (nat_str (nat \<bar>e\<bar>))"

definition positive_repr :: "pyfloat \<Rightarrow> string" where
  "positive_repr x =
     (case shortest_numeral 16 (dec_exponent x) x of (m, e) \<Rightarrow>
        let s = drop_zeros (int_str m); point = e + int (length (int_str m))
        in if -4 \<le> point - 1 \<and> point - 1 < 16 then format_positional s point
           else format_scientific s (point - 1))"

definition float_repr :: "pyfloat \<Rightarrow> string" where
  "float_repr x =
     (if x = 0 then ''0.0'' else if x < 0 then ''-'' @ positive_repr (- x) else positive_repr x)"

text \<open>A computed float as a value.\<close>

definition float_value :: "pyfloat \<Rightarrow> pyval" where
  "float_value x = PFloat x (hd (float_repr x)) (List.tl (float_repr x))"

lemma py_float_value [simp]: "py_float (float_value x) = Inr x"
  by (simp add: float_value_def)

lemma truthy_float_value [simp]: "truthy (float_value x) \<longleftrightarrow> x \<noteq> 0"
  by (simp add: float_value_def)

lemma float_value_inject [simp]: "float_value x = float_value y \<longleftrightarrow> x = y"
  by (auto simp: float_value_def)

lemma float_repr_zero [simp]: "float_repr 0 = ''0.0''"
  by (simp add: float_repr_def)

end
