(* ===== verification/BriefRows.thy ===== *)
theory BriefRows
  imports BriefPlan FloatRepr
begin

text \<open>
  The rows a brief and its initial plan are stored as in the workflow state
  (\<open>app/research/brief/models.py\<close>, \<open>app/research/planning/brief_plan.py\<close>), and what a stored
  brief reads back as.
\<close>

section \<open>Briefs\<close>

definition research_question_to_dict :: "research_question \<Rightarrow> pydict" where
  "research_question_to_dict q =
     [(''question_id'', PStr (rqn_question_id q)), (''ask_id'', PStr (rqn_ask_id q)), (''text'', PStr (rqn_text q))]"

definition source_requirements_to_dict :: "source_requirements \<Rightarrow> pydict" where
  "source_requirements_to_dict s =
     [(''min_independent_sources'', PInt (sr_min_independent_sources s)),
      (''primary_required'', PBool (sr_primary_required s)), (''preferred'', strs (sr_preferred s)),
      (''forbidden'', strs (sr_forbidden s))]"

definition brief_to_dict :: "structured_brief \<Rightarrow> pydict" where
  "brief_to_dict b =
     [(''brief_id'', PStr (sb_brief_id b)), (''version'', PInt (sb_version b)), (''objective'', PStr (sb_objective b)),
      (''user_intent'', PStr (sb_user_intent b)), (''explicit_subjects'', strs (sb_explicit_subjects b)),
      (''key_questions'', strs (sb_key_questions b)),
      (''user_asks'', PList (map PDict (map user_ask_to_dict (sb_user_asks b)))),
      (''research_questions'', PList (map PDict (map research_question_to_dict (sb_research_questions b)))),
      (''constraints'', strs (sb_constraints b)),
      (''source_requirements'', PDict (source_requirements_to_dict (sb_source_requirements b))),
      (''freshness_requirements'', PDict [(''required'', PBool (fr_required (sb_freshness_requirements b))),
         (''time_horizon'', PStr (fr_time_horizon (sb_freshness_requirements b)))]),
      (''deliverable'', PDict [(''format'', PStr (dr_format (sb_deliverable b))),
         (''depth'', PStr (dr_depth (sb_deliverable b)))]),
      (''success_criteria'', strs (sb_success_criteria b)), (''assumptions'', strs (sb_assumptions b)),
      (''clarification_needed'', PBool (sb_clarification_needed b)),
      (''compiler_source'', PStr (sb_compiler_source b)), (''confidence'', float_value (sb_confidence b)),
      (''raw_query'', PStr (sb_raw_query b)), (''answer_spec'', PDict (sb_answer_spec b)),
      (''engine_version'', PStr (sb_engine_version b))]"

section \<open>Plans\<close>

definition research_task_spec_to_dict :: "research_task_spec \<Rightarrow> pydict" where
  "research_task_spec_to_dict t =
     [(''task_id'', PStr (rt_task_id t)), (''question_id'', PStr (rt_question_id t)),
      (''objective'', PStr (rt_objective t)), (''hypotheses'', strs (rt_hypotheses t)),
      (''evidence_needed'', strs (rt_evidence_needed t)),
      (''preferred_source_types'', strs (rt_preferred_source_types t)),
      (''counter_evidence_needed'', strs (rt_counter_evidence_needed t)), (''search_hints'', strs (rt_search_hints t)),
      (''entities'', strs (rt_entities t)), (''dimensions'', strs (rt_dimensions t)),
      (''max_queries'', PInt (rt_max_queries t)), (''max_fetches'', PInt (rt_max_fetches t)),
      (''max_llm_calls'', PInt (rt_max_llm_calls t)), (''priority'', PInt (rt_priority t)),
      (''plan_version'', PInt (rt_plan_version t)), (''spec_revision'', PInt (rt_spec_revision t)),
      (''ask_id'', PStr (rt_ask_id t)), (''target_field_ids'', strs (rt_target_field_ids t)),
      (''unit_assembly_field_ids'', strs (rt_unit_assembly_field_ids t)),
      (''candidate_entity_ids'', strs (rt_candidate_entity_ids t)),
      (''expected_claim_types'', strs (rt_expected_claim_types t)),
      (''source_strategy'', strs (rt_source_strategy t)), (''done_condition'', PStr (rt_done_condition t)),
      (''lease_id'', PStr (rt_lease_id t)), (''wave_id'', PInt (rt_wave_id t)),
      (''repair_of_gap_ids'', strs (rt_repair_of_gap_ids t))]"

definition brief_and_plan_to_dict :: "structured_brief \<Rightarrow> research_task_spec list \<Rightarrow> pydict" where
  "brief_and_plan_to_dict b tasks =
     [(''brief'', PDict (brief_to_dict b)),
      (''tasks'', PList (map (\<lambda>t. PDict (research_task_spec_to_dict t)) tasks)),
      (''source'', PStr ''deterministic_after_brief'')]"

section \<open>Reading a stored brief\<close>

text \<open>What reading adds to \<open>wf_brief\<close>: the texts with a default are named, and a source is preferred.\<close>

definition named_brief :: "structured_brief \<Rightarrow> bool" where
  "named_brief b \<longleftrightarrow> wf_brief b \<and> sb_compiler_source b \<noteq> [] \<and> sr_preferred (sb_source_requirements b) \<noteq> []
     \<and> fr_time_horizon (sb_freshness_requirements b) \<noteq> [] \<and> dr_format (sb_deliverable b) \<noteq> []
     \<and> dr_depth (sb_deliverable b) \<noteq> []"

text \<open>A confidence of zero is a false value, so it reads back as the default.\<close>

definition stored_brief :: "structured_brief \<Rightarrow> structured_brief" where
  "stored_brief b = b\<lparr>sb_confidence := if sb_confidence b = 0 then 1 / 2 else sb_confidence b\<rparr>"

lemma texted_rows_PDicts:
  "list_all (\<lambda>d. py_strip (str_or (pget d ''text'') []) \<noteq> []) ds \<Longrightarrow> texted_rows (PList (map PDict ds)) = Inr ds"
  unfolding texted_rows_def by (subst dict_rows_PDicts) (auto simp: filter_id_conv list_all_iff)

lemma asks_stored:
  assumes "\<forall>u\<in>set us. wf_user_ask u"
  shows "texted_rows (PList (map PDict (map user_ask_to_dict us))) = Inr (map user_ask_to_dict us)"
    and "emap user_ask_from_dict (map user_ask_to_dict us) = Inr us"
proof -
  show "texted_rows (PList (map PDict (map user_ask_to_dict us))) = Inr (map user_ask_to_dict us)"
    using assms by (intro texted_rows_PDicts) (auto simp: list_all_iff wf_user_ask_def user_ask_to_dict_def)
  show "emap user_ask_from_dict (map user_ask_to_dict us) = Inr us"
    using assms by (auto simp: emap_eq_Inr_iff list_all2_map1 list_all2_same user_ask_roundtrip)
qed

lemma question_stored [simp]: "research_question_from_dict (research_question_to_dict q) = q"
  by (cases q) (simp add: research_question_from_dict_def research_question_to_dict_def)

lemma questions_stored:
  assumes "\<forall>q\<in>set qs. py_strip (rqn_text q) \<noteq> []"
  shows "texted_rows (PList (map PDict (map research_question_to_dict qs))) = Inr (map research_question_to_dict qs)"
    and "map research_question_from_dict (map research_question_to_dict qs) = qs"
proof -
  show "texted_rows (PList (map PDict (map research_question_to_dict qs))) = Inr (map research_question_to_dict qs)"
    using assms by (intro texted_rows_PDicts) (auto simp: list_all_iff research_question_to_dict_def)
  show "map research_question_from_dict (map research_question_to_dict qs) = qs"
    by (simp add: comp_def)
qed

lemma sources_stored:
  assumes "1 \<le> sr_min_independent_sources s" "sr_preferred s \<noteq> []"
  shows "source_requirements_from_dict (source_requirements_to_dict s) = Inr s"
  using assms
  by (cases s) (simp add: source_requirements_from_dict_def source_requirements_to_dict_def por_def strs_def
      str_list_def comp_def)

lemma confidence_stored:
  "0 \<le> c \<Longrightarrow> c \<le> 1 \<Longrightarrow> confidence_of (float_value c) = Inr (if c = 0 then 1 / 2 else c)"
  by (auto simp: confidence_of_def)

lemma brief_stored:
  assumes "named_brief b"
  shows "brief_from_dict (brief_to_dict b) = Inr (stored_brief b)"
proof -
  have wf: "wf_brief b" using assms by (simp add: named_brief_def)
  have strings: "nonblank_strs (strs (sb_explicit_subjects b)) = Inr (sb_explicit_subjects b)"
    "nonblank_strs (strs (sb_key_questions b)) = Inr (sb_key_questions b)"
    "nonblank_strs (strs (sb_constraints b)) = Inr (sb_constraints b)"
    "nonblank_strs (strs (sb_success_criteria b)) = Inr (sb_success_criteria b)"
    "nonblank_strs (strs (sb_assumptions b)) = Inr (sb_assumptions b)"
    using wf by (auto intro!: nonblank_strs_strs simp: wf_brief_def)
  have asks: "\<forall>u\<in>set (sb_user_asks b). wf_user_ask u" "\<forall>q\<in>set (sb_research_questions b). py_strip (rqn_text q) \<noteq> []"
    using wf by (auto simp: wf_brief_def)
  have sources: "source_requirements_from_dict (source_requirements_to_dict (sb_source_requirements b))
      = Inr (sb_source_requirements b)"
    using assms wf by (intro sources_stored) (auto simp: named_brief_def wf_brief_def)
  have confidence: "confidence_of (float_value (sb_confidence b))
      = Inr (if sb_confidence b = 0 then 1 / 2 else sb_confidence b)"
    using wf by (intro confidence_stored) (auto simp: wf_brief_def)
  show ?thesis
    using assms wf
    by (simp add: brief_from_dict_def brief_to_dict_def strings asks_stored [OF asks(1)] questions_stored [OF asks(2)]
        sources confidence stored_brief_def named_brief_def wf_brief_def del: map_map)
qed

lemma code_points_Nil [simp]: "code_points s = [] \<longleftrightarrow> s = []"
  by (induction s) (auto split: list.splits)

lemma sources_read_preferred:
  "source_requirements_from_dict source = Inr s \<Longrightarrow> sr_preferred s \<noteq> []"
  by (auto simp: source_requirements_from_dict_def ebind_eq_Inr por_def strs_def split: if_splits
      elim!: py_iter.elims)

lemma brief_read_named:
  assumes "brief_from_dict row = Inr b"
  shows "sb_compiler_source b \<noteq> [] \<and> sr_preferred (sb_source_requirements b) \<noteq> []
     \<and> fr_time_horizon (sb_freshness_requirements b) \<noteq> [] \<and> dr_format (sb_deliverable b) \<noteq> []
     \<and> dr_depth (sb_deliverable b) \<noteq> []"
  using assms unfolding brief_from_dict_def Let_def ebind_eq_Inr
  by (auto simp: str_or_eq_Nil dest: sources_read_preferred)

lemma stored_brief_simps [simp]: "stored_brief (stored_brief b) = stored_brief b"
  by (simp add: stored_brief_def)

text \<open>
  C12. A brief read from any row can be stored and read again: the second reading gives the brief
  itself, except that a confidence of zero, which is a false value, becomes the default one half.
\<close>

theorem brief_storage:
  assumes "brief_from_dict row = Inr b"
  shows "brief_from_dict (brief_to_dict b) = Inr (b\<lparr>sb_confidence := if sb_confidence b = 0 then 1 / 2 else sb_confidence b\<rparr>)"
  using brief_stored [of b] brief_read_named [OF assms] brief_read_in_range [OF assms]
  by (simp add: named_brief_def stored_brief_def)

lemma brief_storage_witness:
  "brief_from_dict (brief_to_dict example_structured_brief)
     = Inr (example_structured_brief\<lparr>sb_confidence := if sb_confidence example_structured_brief = 0 then 1 / 2
         else sb_confidence example_structured_brief\<rparr>)"
  by (rule brief_storage [OF example_structured_brief_eq])

end
