(* ===== verification/Judgement.thy ===== *)
theory Judgement
  imports FloatRepr Brief
begin

text \<open>
  Coverage judgements (\<open>app/research/coverage/judge.py\<close>): the records a judgement is made
  of, the rows they are stored as (\<open>dataclasses.asdict\<close>) and the tolerant readers that give
  them back.  How a judgement is reached is not modelled here.
\<close>

text \<open>\<open>max(0.0, min(1.0, float(v or 0.0)))\<close>; a priority outside the three known ones is medium.\<close>

definition unit_float :: "pyval \<Rightarrow> pyfloat res" where
  "unit_float v = ebind (float_or_zero v) (\<lambda>x. Inr (max 0 (min 1 x)))"

definition known_priority :: "string \<Rightarrow> string" where
  "known_priority p = (if p \<in> {''high'', ''medium'', ''low''} then p else ''medium'')"

text \<open>A single text stands for a list of one.\<close>

definition one_or_many :: "pyval \<Rightarrow> pyval" where
  "one_or_many v = (case v of PStr s \<Rightarrow> PList [PStr s] | _ \<Rightarrow> v)"

section \<open>The parts of a judgement\<close>

record criterion_support =
  cs_criterion_id :: string
  cs_status :: string
  cs_supporting_claim_ids :: "string list"
  cs_evidence_ids :: "string list"
  cs_source_ids :: "string list"
  cs_missing :: string
  cs_conflicts :: "string list"
  cs_missing_evidence_types :: "string list"
  cs_blocking_conflict_ids :: "string list"
  cs_confidence :: pyfloat

definition criterion_support_to_dict :: "criterion_support \<Rightarrow> pydict" where
  "criterion_support_to_dict x =
     [(''criterion_id'', PStr (cs_criterion_id x)), (''status'', PStr (cs_status x)),
      (''supporting_claim_ids'', strs (cs_supporting_claim_ids x)), (''evidence_ids'', strs (cs_evidence_ids x)),
      (''source_ids'', strs (cs_source_ids x)), (''missing'', PStr (cs_missing x)),
      (''conflicts'', strs (cs_conflicts x)), (''missing_evidence_types'', strs (cs_missing_evidence_types x)),
      (''blocking_conflict_ids'', strs (cs_blocking_conflict_ids x)), (''confidence'', float_value (cs_confidence x))]"

definition criterion_support_from_dict :: "pydict \<Rightarrow> criterion_support res" where
  "criterion_support_from_dict row =
     ebind (str_list (pget row ''supporting_claim_ids'')) (\<lambda>supporting_claim_ids.
     ebind (str_list (pget row ''evidence_ids'')) (\<lambda>evidence_ids.
     ebind (str_list (pget row ''source_ids'')) (\<lambda>source_ids.
     ebind (str_list (pget row ''conflicts'')) (\<lambda>conflicts.
     ebind (str_list (pget row ''missing_evidence_types'')) (\<lambda>missing_evidence_types.
     ebind (str_list (pget row ''blocking_conflict_ids'')) (\<lambda>blocking_conflict_ids.
     ebind (unit_float (pget row ''confidence'')) (\<lambda>confidence. Inr
       \<lparr>cs_criterion_id = str_or (pget row ''criterion_id'') [], cs_status = str_or (pget row ''status'') ''indeterminate'',
        cs_supporting_claim_ids = supporting_claim_ids, cs_evidence_ids = evidence_ids,
        cs_source_ids = source_ids, cs_missing = str_or (pget row ''missing'') [],
        cs_conflicts = conflicts, cs_missing_evidence_types = missing_evidence_types,
        cs_blocking_conflict_ids = blocking_conflict_ids, cs_confidence = confidence\<rparr>)))))))"

record coverage_gap =
  cg_gap_id :: string
  cg_criterion_id :: string
  cg_description :: string
  cg_current_evidence_ids :: "string list"
  cg_missing_evidence_type :: "string list"
  cg_blocking_conflict_ids :: "string list"
  cg_priority :: string
  cg_blocking :: bool
  cg_question_id :: string
  cg_dimension :: string

definition coverage_gap_to_dict :: "coverage_gap \<Rightarrow> pydict" where
  "coverage_gap_to_dict x =
     [(''gap_id'', PStr (cg_gap_id x)), (''criterion_id'', PStr (cg_criterion_id x)),
      (''description'', PStr (cg_description x)), (''current_evidence_ids'', strs (cg_current_evidence_ids x)),
      (''missing_evidence_type'', strs (cg_missing_evidence_type x)), (''blocking_conflict_ids'', strs (cg_blocking_conflict_ids x)),
      (''priority'', PStr (cg_priority x)), (''blocking'', PBool (cg_blocking x)),
      (''question_id'', PStr (cg_question_id x)), (''dimension'', PStr (cg_dimension x))]"

definition coverage_gap_from_dict :: "pydict \<Rightarrow> coverage_gap res" where
  "coverage_gap_from_dict row =
     ebind (str_list (pget row ''current_evidence_ids'')) (\<lambda>current_evidence_ids.
     ebind (str_list (one_or_many (pget row ''missing_evidence_type''))) (\<lambda>missing_evidence_type.
     ebind (str_list (pget row ''blocking_conflict_ids'')) (\<lambda>blocking_conflict_ids. Inr
       \<lparr>cg_gap_id = str_or (pget row ''gap_id'') [], cg_criterion_id = str_or (pget row ''criterion_id'') [],
        cg_description = str_or (pget row ''description'') [], cg_current_evidence_ids = current_evidence_ids,
        cg_missing_evidence_type = missing_evidence_type, cg_blocking_conflict_ids = blocking_conflict_ids,
        cg_priority = known_priority (py_lower (str_or (pget row ''priority'') ''medium'')), cg_blocking = truthy (pget_or row ''blocking'' (PBool True)),
        cg_question_id = str_or (pget row ''question_id'') [], cg_dimension = str_or (pget row ''dimension'') []\<rparr>)))"

record key_question_coverage =
  kq_question_id :: string
  kq_status :: string
  kq_blocking :: bool
  kq_question :: string
  kq_evidence_refs :: "string list"
  kq_support_count :: int
  kq_independent_source_count :: int
  kq_high_authority_source_count :: int
  kq_primary_source_count :: int
  kq_direct_evidence_count :: int
  kq_counter_evidence_count :: int
  kq_freshness_ok :: bool
  kq_unresolved_conflicts :: "string list"
  kq_missing_evidence_types :: "string list"
  kq_missing_evidence :: "string list"
  kq_reason :: string
  kq_confidence :: pyfloat

definition key_question_coverage_to_dict :: "key_question_coverage \<Rightarrow> pydict" where
  "key_question_coverage_to_dict x =
     [(''question_id'', PStr (kq_question_id x)), (''status'', PStr (kq_status x)),
      (''blocking'', PBool (kq_blocking x)), (''question'', PStr (kq_question x)),
      (''evidence_refs'', strs (kq_evidence_refs x)), (''support_count'', PInt (kq_support_count x)),
      (''independent_source_count'', PInt (kq_independent_source_count x)), (''high_authority_source_count'', PInt (kq_high_authority_source_count x)),
      (''primary_source_count'', PInt (kq_primary_source_count x)), (''direct_evidence_count'', PInt (kq_direct_evidence_count x)),
      (''counter_evidence_count'', PInt (kq_counter_evidence_count x)), (''freshness_ok'', PBool (kq_freshness_ok x)),
      (''unresolved_conflicts'', strs (kq_unresolved_conflicts x)), (''missing_evidence_types'', strs (kq_missing_evidence_types x)),
      (''missing_evidence'', strs (kq_missing_evidence x)), (''reason'', PStr (kq_reason x)),
      (''confidence'', float_value (kq_confidence x))]"

definition key_question_coverage_from_dict :: "pydict \<Rightarrow> key_question_coverage res" where
  "key_question_coverage_from_dict row =
     ebind (str_list (pget row ''evidence_refs'')) (\<lambda>evidence_refs.
     ebind (int_or (pget row ''support_count'') 0) (\<lambda>support_count.
     ebind (int_or (pget row ''independent_source_count'') 0) (\<lambda>independent_source_count.
     ebind (int_or (pget row ''high_authority_source_count'') 0) (\<lambda>high_authority_source_count.
     ebind (int_or (pget row ''primary_source_count'') 0) (\<lambda>primary_source_count.
     ebind (int_or (pget row ''direct_evidence_count'') 0) (\<lambda>direct_evidence_count.
     ebind (int_or (pget row ''counter_evidence_count'') 0) (\<lambda>counter_evidence_count.
     ebind (str_list (pget row ''unresolved_conflicts'')) (\<lambda>unresolved_conflicts.
     ebind (str_list (pget row ''missing_evidence_types'')) (\<lambda>missing_evidence_types.
     ebind (str_list (pget row ''missing_evidence'')) (\<lambda>missing_evidence.
     ebind (unit_float (pget row ''confidence'')) (\<lambda>confidence. Inr
       \<lparr>kq_question_id = str_or (pget row ''question_id'') [], kq_status = str_or (pget row ''status'') ''uncovered'',
        kq_blocking = truthy (pget_or row ''blocking'' (PBool True)), kq_question = str_or (pget row ''question'') [],
        kq_evidence_refs = evidence_refs, kq_support_count = max 0 support_count,
        kq_independent_source_count = max 0 independent_source_count, kq_high_authority_source_count = max 0 high_authority_source_count,
        kq_primary_source_count = max 0 primary_source_count, kq_direct_evidence_count = max 0 direct_evidence_count,
        kq_counter_evidence_count = max 0 counter_evidence_count, kq_freshness_ok = truthy (pget_or row ''freshness_ok'' (PBool True)),
        kq_unresolved_conflicts = unresolved_conflicts, kq_missing_evidence_types = missing_evidence_types,
        kq_missing_evidence = missing_evidence, kq_reason = str_or (pget row ''reason'') [],
        kq_confidence = confidence\<rparr>)))))))))))"

record ask_coverage =
  av_ask_id :: string
  av_direct_answer_available :: bool
  av_source_quality :: string
  av_evidence_count :: int
  av_unresolved_gaps :: "string list"
  av_criterion_ids :: "string list"
  av_required :: bool

definition ask_coverage_to_dict :: "ask_coverage \<Rightarrow> pydict" where
  "ask_coverage_to_dict x =
     [(''ask_id'', PStr (av_ask_id x)), (''direct_answer_available'', PBool (av_direct_answer_available x)),
      (''source_quality'', PStr (av_source_quality x)), (''evidence_count'', PInt (av_evidence_count x)),
      (''unresolved_gaps'', strs (av_unresolved_gaps x)), (''criterion_ids'', strs (av_criterion_ids x)),
      (''required'', PBool (av_required x))]"

definition ask_coverage_from_dict :: "pydict \<Rightarrow> ask_coverage res" where
  "ask_coverage_from_dict row =
     ebind (int_or (pget row ''evidence_count'') 0) (\<lambda>evidence_count.
     ebind (str_list (pget row ''unresolved_gaps'')) (\<lambda>unresolved_gaps.
     ebind (str_list (pget row ''criterion_ids'')) (\<lambda>criterion_ids. Inr
       \<lparr>av_ask_id = str_or (pget row ''ask_id'') [], av_direct_answer_available = truthy (pget row ''direct_answer_available''),
        av_source_quality = str_or (pget row ''source_quality'') ''unknown'', av_evidence_count = max 0 evidence_count,
        av_unresolved_gaps = unresolved_gaps, av_criterion_ids = criterion_ids,
        av_required = truthy (pget_or row ''required'' (PBool True))\<rparr>)))"

record coverage_delta =
  cd_new_evidence_ids :: "string list"
  cd_new_supported_claim_ids :: "string list"
  cd_closed_criterion_ids :: "string list"
  cd_resolved_conflict_ids :: "string list"

definition coverage_delta_to_dict :: "coverage_delta \<Rightarrow> pydict" where
  "coverage_delta_to_dict x =
     [(''new_evidence_ids'', strs (cd_new_evidence_ids x)), (''new_supported_claim_ids'', strs (cd_new_supported_claim_ids x)),
      (''closed_criterion_ids'', strs (cd_closed_criterion_ids x)), (''resolved_conflict_ids'', strs (cd_resolved_conflict_ids x))]"

definition coverage_delta_from_dict :: "pydict \<Rightarrow> coverage_delta res" where
  "coverage_delta_from_dict row =
     ebind (str_list (pget row ''new_evidence_ids'')) (\<lambda>new_evidence_ids.
     ebind (str_list (pget row ''new_supported_claim_ids'')) (\<lambda>new_supported_claim_ids.
     ebind (str_list (pget row ''closed_criterion_ids'')) (\<lambda>closed_criterion_ids.
     ebind (str_list (pget row ''resolved_conflict_ids'')) (\<lambda>resolved_conflict_ids. Inr
       \<lparr>cd_new_evidence_ids = new_evidence_ids, cd_new_supported_claim_ids = new_supported_claim_ids,
        cd_closed_criterion_ids = closed_criterion_ids, cd_resolved_conflict_ids = resolved_conflict_ids\<rparr>))))"

section \<open>Judgements\<close>

record coverage_judgement =
  cj_sufficient :: bool
  cj_status :: string
  cj_criteria :: "criterion_support list"
  cj_ask_coverage :: "ask_coverage list"
  cj_delta :: coverage_delta
  cj_missing :: "string list"
  cj_conflicts :: "string list"
  cj_weak_claims :: "string list"
  cj_recommended_next_questions :: "string list"
  cj_gaps :: "coverage_gap list"
  cj_key_question_coverage :: "key_question_coverage list"
  cj_reason :: string
  cj_source :: string

definition coverage_judgement_to_dict :: "coverage_judgement \<Rightarrow> pydict" where
  "coverage_judgement_to_dict x =
     [(''sufficient'', PBool (cj_sufficient x)), (''status'', PStr (cj_status x)),
      (''criteria'', PList (map (PDict \<circ> criterion_support_to_dict) (cj_criteria x))),
      (''ask_coverage'', PList (map (PDict \<circ> ask_coverage_to_dict) (cj_ask_coverage x))),
      (''delta'', PDict (coverage_delta_to_dict (cj_delta x))), (''missing'', strs (cj_missing x)),
      (''conflicts'', strs (cj_conflicts x)), (''weak_claims'', strs (cj_weak_claims x)),
      (''recommended_next_questions'', strs (cj_recommended_next_questions x)),
      (''gaps'', PList (map (PDict \<circ> coverage_gap_to_dict) (cj_gaps x))),
      (''key_question_coverage'',
         PList (map (PDict \<circ> key_question_coverage_to_dict) (cj_key_question_coverage x))),
      (''reason'', PStr (cj_reason x)), (''source'', PStr (cj_source x))]"

text \<open>\<open>tuple(C.from_dict(item) for item in v or [] if isinstance(item, dict))\<close>.\<close>

definition rows_from :: "(pydict \<Rightarrow> 'a res) \<Rightarrow> pyval \<Rightarrow> 'a list res" where
  "rows_from f v = ebind (dict_rows v) (emap f)"

definition coverage_judgement_from_dict :: "pydict \<Rightarrow> coverage_judgement res" where
  "coverage_judgement_from_dict row =
     ebind (rows_from criterion_support_from_dict (pget row ''criteria'')) (\<lambda>criteria.
     ebind (rows_from ask_coverage_from_dict (pget row ''ask_coverage'')) (\<lambda>asks.
     ebind (coverage_delta_from_dict (as_dict (pget row ''delta''))) (\<lambda>delta.
     ebind (str_list (pget row ''missing'')) (\<lambda>missing.
     ebind (str_list (pget row ''conflicts'')) (\<lambda>conflicts.
     ebind (str_list (pget row ''weak_claims'')) (\<lambda>weak.
     ebind (str_list (pget row ''recommended_next_questions'')) (\<lambda>questions.
     ebind (rows_from coverage_gap_from_dict (pget row ''gaps'')) (\<lambda>gaps.
     ebind (rows_from key_question_coverage_from_dict (pget row ''key_question_coverage'')) (\<lambda>keys. Inr
       \<lparr>cj_sufficient = truthy (pget row ''sufficient''),
        cj_status = str_or (pget row ''status'') (if truthy (pget row ''sufficient'') then ''sufficient'' else ''gap''),
        cj_criteria = criteria, cj_ask_coverage = asks, cj_delta = delta, cj_missing = missing,
        cj_conflicts = conflicts, cj_weak_claims = weak, cj_recommended_next_questions = questions,
        cj_gaps = gaps, cj_key_question_coverage = keys, cj_reason = str_or (pget row ''reason'') [],
        cj_source = str_or (pget row ''source'') ''deterministic_fallback''\<rparr>)))))))))"

section \<open>Reading back what was stored\<close>

definition in_unit :: "pyfloat \<Rightarrow> bool" where
  "in_unit x \<longleftrightarrow> 0 \<le> x \<and> x \<le> 1"

definition wf_support :: "criterion_support \<Rightarrow> bool" where
  "wf_support x \<longleftrightarrow> cs_status x \<noteq> [] \<and> in_unit (cs_confidence x)"

definition wf_gap :: "coverage_gap \<Rightarrow> bool" where
  "wf_gap x \<longleftrightarrow> cg_priority x \<in> {''high'', ''medium'', ''low''}"

definition wf_key_question :: "key_question_coverage \<Rightarrow> bool" where
  "wf_key_question x \<longleftrightarrow> kq_status x \<noteq> [] \<and> in_unit (kq_confidence x) \<and> 0 \<le> kq_support_count x
     \<and> 0 \<le> kq_independent_source_count x \<and> 0 \<le> kq_high_authority_source_count x
     \<and> 0 \<le> kq_primary_source_count x \<and> 0 \<le> kq_direct_evidence_count x \<and> 0 \<le> kq_counter_evidence_count x"

definition wf_ask_coverage :: "ask_coverage \<Rightarrow> bool" where
  "wf_ask_coverage x \<longleftrightarrow> av_source_quality x \<noteq> [] \<and> 0 \<le> av_evidence_count x"

definition wf_judgement :: "coverage_judgement \<Rightarrow> bool" where
  "wf_judgement j \<longleftrightarrow> cj_status j \<noteq> [] \<and> cj_source j \<noteq> [] \<and> list_all wf_support (cj_criteria j)
     \<and> list_all wf_ask_coverage (cj_ask_coverage j) \<and> list_all wf_gap (cj_gaps j)
     \<and> list_all wf_key_question (cj_key_question_coverage j)"

lemma unit_float_in_unit: "unit_float v = Inr x \<Longrightarrow> in_unit x"
  by (auto simp: unit_float_def in_unit_def ebind_eq_Inr)

lemma unit_float_value: "in_unit x \<Longrightarrow> unit_float (float_value x) = Inr x"
  by (auto simp: unit_float_def in_unit_def float_or_zero_def)

lemma one_or_many_strs [simp]: "one_or_many (strs xs) = strs xs"
  by (simp add: one_or_many_def strs_def)

lemma known_priority_id: "p \<in> {''high'', ''medium'', ''low''} \<Longrightarrow> known_priority (py_lower p) = p"
  by (auto simp: known_priority_def py_lower_def ascii_lower_def)

lemma known_priority_cases: "known_priority p \<in> {''high'', ''medium'', ''low''}"
  by (simp add: known_priority_def)

text \<open>The interface of a stored part: what is written for a well-formed one is read back as it.\<close>

locale stored_part =
  fixes put :: "'a \<Rightarrow> pydict" and read_back :: "pydict \<Rightarrow> 'a res" and wf :: "'a \<Rightarrow> bool"
  assumes read_put: "wf x \<Longrightarrow> read_back (put x) = Inr x"
    and read_wf: "read_back row = Inr x \<Longrightarrow> wf x"
begin

lemma rows_read_put: "list_all wf xs \<Longrightarrow> rows_from read_back (PList (map (PDict \<circ> put) xs)) = Inr xs"
  unfolding rows_from_def by (simp add: emap_eq_Inr_iff list_all2_map1 list_all2_same read_put list_all_iff)

lemma rows_read_wf: "rows_from read_back v = Inr xs \<Longrightarrow> list_all wf xs"
  by (auto simp: rows_from_def ebind_eq_Inr list_all_iff dest!: emap_set read_wf)

end

interpretation support: stored_part criterion_support_to_dict criterion_support_from_dict wf_support
proof
  fix x assume "wf_support x"
  then show "criterion_support_from_dict (criterion_support_to_dict x) = Inr x"
    by (cases x) (simp add: criterion_support_from_dict_def criterion_support_to_dict_def wf_support_def
        unit_float_value)
next
  fix row x assume "criterion_support_from_dict row = Inr x"
  then show "wf_support x"
    by (auto simp: criterion_support_from_dict_def wf_support_def ebind_eq_Inr str_or_eq_Nil dest: unit_float_in_unit)
qed

interpretation gap: stored_part coverage_gap_to_dict coverage_gap_from_dict wf_gap
proof
  fix x assume "wf_gap x"
  then show "coverage_gap_from_dict (coverage_gap_to_dict x) = Inr x"
    by (cases x) (auto simp: coverage_gap_from_dict_def coverage_gap_to_dict_def wf_gap_def known_priority_id)
next
  fix row x assume "coverage_gap_from_dict row = Inr x"
  then obtain p where "cg_priority x = known_priority p"
    by (auto simp: coverage_gap_from_dict_def ebind_eq_Inr)
  then show "wf_gap x"
    using known_priority_cases [of p] by (simp add: wf_gap_def)
qed

interpretation key_question: stored_part key_question_coverage_to_dict key_question_coverage_from_dict wf_key_question
proof
  fix x assume "wf_key_question x"
  then show "key_question_coverage_from_dict (key_question_coverage_to_dict x) = Inr x"
    by (cases x) (simp add: key_question_coverage_from_dict_def key_question_coverage_to_dict_def
        wf_key_question_def unit_float_value)
next
  fix row x assume "key_question_coverage_from_dict row = Inr x"
  then show "wf_key_question x"
    by (auto simp: key_question_coverage_from_dict_def wf_key_question_def ebind_eq_Inr str_or_eq_Nil
        dest: unit_float_in_unit)
qed

interpretation ask_row: stored_part ask_coverage_to_dict ask_coverage_from_dict wf_ask_coverage
proof
  fix x assume "wf_ask_coverage x"
  then show "ask_coverage_from_dict (ask_coverage_to_dict x) = Inr x"
    by (cases x) (simp add: ask_coverage_from_dict_def ask_coverage_to_dict_def wf_ask_coverage_def)
next
  fix row x assume "ask_coverage_from_dict row = Inr x"
  then show "wf_ask_coverage x"
    by (auto simp: ask_coverage_from_dict_def wf_ask_coverage_def ebind_eq_Inr str_or_eq_Nil)
qed

interpretation delta: stored_part coverage_delta_to_dict coverage_delta_from_dict "\<lambda>_. True"
proof
  fix x show "coverage_delta_from_dict (coverage_delta_to_dict x) = Inr x"
    by (cases x) (simp add: coverage_delta_from_dict_def coverage_delta_to_dict_def)
qed simp

interpretation judgement: stored_part coverage_judgement_to_dict coverage_judgement_from_dict wf_judgement
proof
  fix j assume "wf_judgement j"
  then show "coverage_judgement_from_dict (coverage_judgement_to_dict j) = Inr j"
    by (cases j) (simp add: coverage_judgement_from_dict_def coverage_judgement_to_dict_def wf_judgement_def
        support.rows_read_put gap.rows_read_put key_question.rows_read_put ask_row.rows_read_put delta.read_put)
next
  fix row j assume "coverage_judgement_from_dict row = Inr j"
  then show "wf_judgement j"
    by (auto simp: coverage_judgement_from_dict_def wf_judgement_def ebind_eq_Inr str_or_eq_Nil
        split: if_splits dest: support.rows_read_wf gap.rows_read_wf key_question.rows_read_wf ask_row.rows_read_wf)
qed

text \<open>
  A judgement read from any checkpoint row survives being stored and read again: the reader
  normalizes once, and what it gives is a fixed point of storing and reading.
\<close>

theorem judgement_checkpoint_stable:
  assumes "coverage_judgement_from_dict row = Inr j"
  shows "coverage_judgement_from_dict (coverage_judgement_to_dict j) = Inr j"
  using judgement.read_put [OF judgement.read_wf [OF assms]] .

lemma str_list_PNone [simp]: "str_list PNone = Inr []"
  by (simp add: str_list_def)

lemma dict_rows_simps [simp]:
  "dict_rows PNone = Inr []" "dict_rows (PList vs) = Inr (map as_dict (filter is_dict vs))"
  by (simp_all add: dict_rows_def)

definition example_gap_row :: pydict where
  "example_gap_row = [(''gap_id'', PStr ''g1''), (''priority'', PStr ''URGENT''),
     (''missing_evidence_type'', PStr ''primary_source'')]"

definition example_gap :: coverage_gap where
  "example_gap =
     \<lparr>cg_gap_id = ''g1'', cg_criterion_id = [], cg_description = [], cg_current_evidence_ids = [],
      cg_missing_evidence_type = [''primary_source''], cg_blocking_conflict_ids = [],
      cg_priority = ''medium'', cg_blocking = True, cg_question_id = [], cg_dimension = []\<rparr>"

definition example_judgement_row :: pydict where
  "example_judgement_row = [(''gaps'', PList [PNone, PDict example_gap_row])]"

lemma example_gap_read: "coverage_gap_from_dict example_gap_row = Inr example_gap"
  by (simp add: coverage_gap_from_dict_def example_gap_row_def example_gap_def one_or_many_def
      str_list_def py_lower_def ascii_lower_def known_priority_def)

lemma empty_delta_read:
  "coverage_delta_from_dict [] = Inr \<lparr>cd_new_evidence_ids = [], cd_new_supported_claim_ids = [],
     cd_closed_criterion_ids = [], cd_resolved_conflict_ids = []\<rparr>"
  by (simp add: coverage_delta_from_dict_def)

lemma example_judgement_read:
  "\<exists>j. coverage_judgement_from_dict example_judgement_row = Inr j \<and> cj_gaps j = [example_gap]"
  by (simp add: coverage_judgement_from_dict_def example_judgement_row_def rows_from_def
      example_gap_read empty_delta_read)

lemma judgement_checkpoint_stable_witness:
  "\<exists>j. coverage_judgement_from_dict example_judgement_row = Inr j \<and> cj_gaps j = [example_gap]
     \<and> coverage_judgement_from_dict (coverage_judgement_to_dict j) = Inr j"
  using example_judgement_read judgement_checkpoint_stable by blast

end
