(* ===== verification/SupervisorAgent.thy ===== *)
theory SupervisorAgent
  imports Judgement Supervisor TaskIdentity Admission "HOL-Library.Product_Lexorder" "HOL-Library.Multiset"
begin

text \<open>
  The supervisor's strategy (\<open>app/research/supervisor/agent.py\<close>): the deterministic repair
  action for a judgement with gaps, the override of a completion the judgement does not support,
  and the decision that falls back to the deterministic action whenever the model's reply cannot
  be used.  The reply of the language model is an argument, and so is the environment the budget
  profiles read.
\<close>

section \<open>Texts\<close>

definition evidence_by_gap :: "string dict" where
  "evidence_by_gap =
    [(''supporting_finding'', utf8 [0xE8, 0x87, 0xB3, 0xE5, 0xB0, 0x91, 0xE4, 0xB8, 0x80, 0xE6, 0x9D, 0xA1, 0xE7, 0x9B, 0xB4, 0xE6, 0x8E,
      0xA5, 0xE5, 0x9B, 0x9E, 0xE7, 0xAD, 0x94, 0xE8, 0xAF, 0xA5, 0xE7, 0xA0, 0x94, 0xE7, 0xA9, 0xB6, 0xE9, 0x97,
      0xAE, 0xE9, 0xA2, 0x98, 0xE3, 0x80, 0x81, 0xE5, 0x90, 0xAB, 0xE6, 0x98, 0x8E, 0xE7, 0xA1, 0xAE, 0xE4, 0xB8,
      0xBB, 0xE5, 0xBC, 0xA0, 0xE5, 0x92, 0x8C, 0xE6, 0x9D, 0xA5, 0xE6, 0xBA, 0x90, 0xE7, 0xBB, 0x91, 0xE5, 0xAE,
      0x9A, 0xE7, 0x9A, 0x84] @ '' finding''),
     (''supporting_evidence'', utf8 [0xE4, 0xB8, 0xBA, 0xE8, 0xAF, 0xA5] @ '' finding '' @ utf8 [0xE6, 0x8A, 0x93, 0xE5, 0x8F, 0x96, 0xE8,
      0x87, 0xB3, 0xE5, 0xB0, 0x91, 0xE4, 0xB8, 0x80, 0xE6, 0x9D, 0xA1, 0xE7, 0x8B, 0xAC, 0xE7, 0xAB, 0x8B, 0xE6,
      0x9D, 0xA5, 0xE6, 0xBA, 0x90, 0xE5, 0x8E, 0x9F, 0xE6, 0x96, 0x87, 0xE6, 0x88, 0x96, 0xE5, 0x8F, 0xAF, 0xE6,
      0xA0, 0xB8, 0xE9, 0xAA, 0x8C, 0xE6, 0x91, 0x98, 0xE5, 0xBD, 0x95]),
     (''evidence'', utf8 [0xE7, 0x9B, 0xB4, 0xE6, 0x8E, 0xA5, 0xE6, 0x94, 0xAF, 0xE6, 0x8C, 0x81, 0xE8, 0xAF, 0xA5, 0xE9, 0x97,
      0xAE, 0xE9, 0xA2, 0x98, 0xE7, 0xBB, 0x93, 0xE8, 0xAE, 0xBA, 0xE7, 0x9A, 0x84, 0xE5, 0x8F, 0xAF, 0xE6, 0xA0,
      0xB8, 0xE9, 0xAA, 0x8C, 0xE6, 0x9D, 0xA5, 0xE6, 0xBA, 0x90, 0xE8, 0xAF, 0x81, 0xE6, 0x8D, 0xAE]),
     (''independent_source'', utf8 [0xE8, 0x87, 0xB3, 0xE5, 0xB0, 0x91, 0xE4, 0xB8, 0x80, 0xE4, 0xB8, 0xAA, 0xE4, 0xB8, 0x8E, 0xE7, 0x8E,
      0xB0, 0xE6, 0x9C, 0x89, 0xE6, 0x9D, 0xA5, 0xE6, 0xBA, 0x90, 0xE7, 0x9B, 0xB8, 0xE4, 0xBA, 0x92, 0xE7, 0x8B,
      0xAC, 0xE7, 0xAB, 0x8B, 0xE7, 0x9A, 0x84] @ '' corroborating source''),
     (''primary_source'', ''primary source / '' @ utf8 [0xE4, 0xB8, 0x80, 0xE6, 0x89, 0x8B, 0xE6, 0x9D, 0xA5, 0xE6, 0xBA, 0x90, 0xEF,
      0xBC, 0x9B, 0xE5, 0xBF, 0x85, 0xE8, 0xA6, 0x81, 0xE6, 0x97, 0xB6, 0xE8, 0xA1, 0xA5, 0xE5, 0x85, 0x85, 0xE9,
      0xAB, 0x98, 0xE8, 0xB4, 0xA8, 0xE9, 0x87, 0x8F, 0xE7, 0x8B, 0xAC, 0xE7, 0xAB, 0x8B, 0xE6, 0x9D, 0xA5, 0xE6,
      0xBA, 0x90]),
     (''fresh_evidence'', utf8 [0xE5, 0xB8, 0xA6, 0xE5, 0x8F, 0x91, 0xE5, 0xB8, 0x83, 0xE6, 0x97, 0xA5, 0xE6, 0x9C, 0x9F, 0xE7, 0x9A,
      0x84, 0xE8, 0xBF, 0x91, 0xE6, 0x9C, 0x9F, 0xE6, 0x9D, 0xA5, 0xE6, 0xBA, 0x90, 0xEF, 0xBC, 0x8C, 0xE8, 0xB6,
      0xB3, 0xE4, 0xBB, 0xA5, 0xE9, 0xAA, 0x8C, 0xE8, 0xAF, 0x81, 0xE5, 0xBD, 0x93, 0xE5, 0x89, 0x8D, 0xE7, 0x8A,
      0xB6, 0xE6, 0x80, 0x81]),
     (''conflict_resolution'', utf8 [0xE9, 0x92, 0x88, 0xE5, 0xAF, 0xB9, 0xE5, 0x90, 0x8C, 0xE4, 0xB8, 0x80, 0xE5, 0x8F, 0xA3, 0xE5, 0xBE,
      0x84, 0xE7, 0x9A, 0x84, 0xE6, 0x9D, 0x83, 0xE5, 0xA8, 0x81, 0xE6, 0x9D, 0xA5, 0xE6, 0xBA, 0x90, 0xEF, 0xBC,
      0x8C, 0xE8, 0xAF, 0xB4, 0xE6, 0x98, 0x8E, 0xE6, 0x95, 0xB0, 0xE6, 0x8D, 0xAE, 0xE8, 0x8C, 0x83, 0xE5, 0x9B,
      0xB4, 0xE4, 0xB8, 0x8E, 0xE6, 0x97, 0xA5, 0xE6, 0x9C, 0x9F]),
     (''mechanism_evidence'', utf8 [0xE6, 0x9D, 0xA5, 0xE6, 0xBA, 0x90, 0xE6, 0x98, 0x8E, 0xE7, 0xA1, 0xAE, 0xE9, 0x99, 0x88, 0xE8, 0xBF,
      0xB0, 0xE6, 0x88, 0x96, 0xE5, 0x8F, 0xAF, 0xE9, 0x80, 0x90, 0xE5, 0x8F, 0xA5, 0xE9, 0xAA, 0x8C, 0xE8, 0xAF,
      0x81, 0xE7, 0x9A, 0x84, 0xE5, 0x9B, 0xA0, 0xE6, 0x9E, 0x9C, 0xE6, 0x9C, 0xBA, 0xE5, 0x88, 0xB6, 0xE8, 0xAF,
      0x81, 0xE6, 0x8D, 0xAE, 0xEF, 0xBC, 0x9B, 0xE4, 0xB8, 0x8D, 0xE5, 0xBE, 0x97, 0xE6, 0x8A, 0x8A, 0xE7, 0x9B,
      0xB8, 0xE5, 0x85, 0xB3, 0xE6, 0x80, 0xA7, 0xE5, 0x86, 0x99, 0xE6, 0x88, 0x90, 0xE5, 0x9B, 0xA0, 0xE6, 0x9E,
      0x9C]),
     (''worker_failed'', utf8 [0xE5, 0xAE, 0x8C, 0xE6, 0x88, 0x90, 0xE8, 0xAF, 0xA5, 0xE9, 0x97, 0xAE, 0xE9, 0xA2, 0x98, 0xE7, 0x9A,
      0x84, 0xE7, 0xBB, 0x93, 0xE6, 0x9E, 0x84, 0xE5, 0x8C, 0x96] @ '' finding'' @ utf8 [0xEF, 0xBC, 0x9B, 0xE5,
      0xB7, 0xB2, 0xE6, 0x9C, 0x89, 0xE8, 0xAF, 0x81, 0xE6, 0x8D, 0xAE, 0xE4, 0xB8, 0x8D, 0xE5, 0xBE, 0x97, 0xE5,
      0x8F, 0xAA, 0xE7, 0x95, 0x99, 0xE5, 0x9C, 0xA8, 0xE5, 0xB7, 0xA5, 0xE5, 0x85, 0xB7, 0xE7, 0xBB, 0x93, 0xE6,
      0x9E, 0x9C, 0xE4, 0xB8, 0xAD]),
     (''direct_criterion_binding'', utf8 [0xE7, 0x9B, 0xB4, 0xE6, 0x8E, 0xA5, 0xE5, 0x9B, 0x9E, 0xE7, 0xAD, 0x94, 0xE8, 0xAF, 0xA5, 0xE6, 0xA0,
      0x87, 0xE5, 0x87, 0x86, 0xE5, 0xB9, 0xB6, 0xE6, 0x8A, 0x8A] @ '' claim '' @ utf8 [0xE7, 0xBB, 0x91, 0xE5,
      0xAE, 0x9A, 0xE5, 0x88, 0xB0] @ '' canonical evidence ID'')]"

definition mechanism_text :: string where
  "mechanism_text =
     utf8 [0xE6, 0x9D, 0xA5, 0xE6, 0xBA, 0x90, 0xE6, 0x98, 0x8E, 0xE7, 0xA1, 0xAE, 0xE6, 0x94, 0xAF, 0xE6, 0x8C,
      0x81, 0xE7, 0x9A, 0x84, 0xE6, 0x9C, 0xBA, 0xE5, 0x88, 0xB6, 0xE8, 0xAF, 0x81, 0xE6, 0x8D, 0xAE, 0xEF, 0xBC,
      0x9B, 0xE8, 0x8B, 0xA5, 0xE6, 0xB2, 0xA1, 0xE6, 0x9C, 0x89, 0xE7, 0x9B, 0xB4, 0xE6, 0x8E, 0xA5, 0xE5, 0x9B,
      0xA0, 0xE6, 0x9E, 0x9C, 0xE8, 0xAF, 0x81, 0xE6, 0x8D, 0xAE, 0xEF, 0xBC, 0x8C, 0xE8, 0xAE, 0xB0, 0xE5, 0xBD,
      0x95, 0xE4, 0xB8, 0xBA, 0xE6, 0x9C, 0xAA, 0xE7, 0x9F, 0xA5, 0xEF, 0xBC, 0x8C, 0xE4, 0xB8, 0x8D, 0xE4, 0xBD,
      0x9C, 0xE6, 0x8E, 0xA8, 0xE6, 0x96, 0xAD]"

definition counter_text :: string where
  "counter_text =
     utf8 [0xE5, 0x8F, 0x8D, 0xE5, 0x90, 0x91, 0xE4, 0xBF, 0xA1, 0xE5, 0x8F, 0xB7, 0xE6, 0x88, 0x96, 0xE7, 0xAB,
      0x9E, 0xE4, 0xBA, 0x89, 0xE6, 0x80, 0xA7, 0xE8, 0xA7, 0xA3, 0xE9, 0x87, 0x8A, 0xE5, 0x8F, 0x8A, 0xE5, 0x85,
      0xB6, 0xE6, 0x9D, 0xA5, 0xE6, 0xBA, 0x90]"

definition general_evidence :: "string list" where
  "general_evidence =
     [utf8 [0xE4, 0xB8, 0x80, 0xE6, 0x89, 0x8B, 0xE6, 0x9D, 0xA5, 0xE6, 0xBA, 0x90],
      utf8 [0xE9, 0xAB, 0x98, 0xE8, 0xB4, 0xA8, 0xE9, 0x87, 0x8F, 0xE7, 0x8B, 0xAC, 0xE7, 0xAB, 0x8B, 0xE6, 0x9D,
      0xA5, 0xE6, 0xBA, 0x90]]"

definition novelty_text :: string where
  "novelty_text =
     utf8 [0xE9, 0x92, 0x88, 0xE5, 0xAF, 0xB9, 0xE5, 0xBD, 0x93, 0xE5, 0x89,
      0x8D] @ '' Coverage '' @ utf8 [0xE7, 0xBC, 0xBA, 0xE5, 0x8F, 0xA3, 0xE6, 0x94, 0xB6, 0xE6, 0x95, 0x9B,
      0xE7, 0xA0, 0x94, 0xE7, 0xA9, 0xB6, 0xE8, 0x8C, 0x83, 0xE5, 0x9B, 0xB4]"

definition gap_separator :: string where
  "gap_separator =
     utf8 [0xEF, 0xBC, 0x9B]"

definition coverage_gap_text :: string where
  "coverage_gap_text =
     ''Coverage '' @ utf8 [0xE5, 0xB0, 0x9A, 0xE6, 0x9C, 0xAA, 0xE8, 0xBE, 0xBE, 0xE5, 0x88, 0xB0, 0xE9, 0x97,
      0xAE, 0xE9, 0xA2, 0x98, 0xE8, 0xAF, 0x81, 0xE6, 0x8D, 0xAE, 0xE8, 0xA6, 0x81, 0xE6, 0xB1, 0x82]"

definition scope_separator :: string where
  "scope_separator =
     utf8 [0xE3, 0x80, 0x81]"

definition repair_prefix :: string where
  "repair_prefix =
     utf8 [0xE9, 0x92, 0x88, 0xE5, 0xAF, 0xB9, 0xE7, 0xA0, 0x94, 0xE7, 0xA9, 0xB6, 0xE9, 0x97, 0xAE, 0xE9, 0xA2,
      0x98, 0xE3, 0x80, 0x8C]"

definition repair_middle :: string where
  "repair_middle =
     utf8 [0xE3, 0x80, 0x8D, 0xEF, 0xBC, 0x8C, 0xE5, 0x8F, 0xAA, 0xE8, 0xA1, 0xA5, 0xE8, 0xB6, 0xB3, 0xE4, 0xBB,
      0xA5, 0xE4, 0xB8, 0x8B, 0xE7, 0xBC, 0xBA, 0xE5, 0x8F, 0xA3, 0xEF, 0xBC, 0x9A]"

definition repair_suffix :: string where
  "repair_suffix =
     utf8 [0xE3, 0x80, 0x82, 0xE5, 0xA4, 0x8D, 0xE7, 0x94, 0xA8, 0xE5, 0xB7, 0xB2, 0xE6, 0x9C, 0x89, 0xE8, 0xAF,
      0x81, 0xE6, 0x8D, 0xAE, 0xEF, 0xBC, 0x8C, 0xE9, 0x81, 0xBF, 0xE5, 0x85, 0x8D, 0xE9, 0x87, 0x8D, 0xE5, 0x81,
      0x9A, 0xE5, 0xB7, 0xB2, 0xE8, 0xA6, 0x86, 0xE7, 0x9B, 0x96, 0xE9, 0x83, 0xA8, 0xE5, 0x88, 0x86, 0xEF, 0xBC,
      0x9B, 0xE5, 0xBF, 0x85, 0xE9, 0xA1, 0xBB, 0xE8, 0xBF, 0x94, 0xE5, 0x9B, 0x9E, 0xE5, 0xB8,
      0xA6] @ '' canonical evidence '' @ utf8 [0xE7, 0xBB, 0x91, 0xE5, 0xAE, 0x9A, 0xE7, 0x9A, 0x84, 0xE7, 0xBB,
      0x93, 0xE6, 0x9E, 0x84, 0xE5, 0x8C, 0x96] @ '' finding'' @ utf8 [0xE3, 0x80, 0x82]"

section \<open>One repair task\<close>

definition targeted_evidence :: "string list \<Rightarrow> string list" where
  "targeted_evidence types = List.map_filter (dget evidence_by_gap) types"

definition task_evidence :: "string list \<Rightarrow> string list" where
  "task_evidence types =
     (if targeted_evidence types = [] then general_evidence else targeted_evidence types)
     @ (if ''mechanism_evidence'' \<in> set types then [mechanism_text] else [])
     @ (if ''counter_evidence'' \<in> set types then [counter_text] else [])"

definition or_text :: "string \<Rightarrow> string \<Rightarrow> string" where
  "or_text a b = (if a = [] then b else a)"

definition effort_of :: "nat \<Rightarrow> string" where
  "effort_of index = (if 2 < index then ''small'' else ''medium'')"

text \<open>\<open>_task\<close>, with its keyword arguments in order.\<close>

definition repair_task ::
  "(string \<Rightarrow> string option) \<Rightarrow> nat \<Rightarrow> string \<Rightarrow> string \<Rightarrow> string \<Rightarrow> string list \<Rightarrow> string list \<Rightarrow> string \<Rightarrow> string
     \<Rightarrow> string list \<Rightarrow> string list \<Rightarrow> research_task_request" where
  "repair_task env index objective ask_id question_id target_criteria target_gaps criterion_id gap_id types conflicts =
     (let profile = task_budget_profile_of env (effort_of index); evidence = task_evidence types
      in \<lparr>rq_objective = objective, rq_ask_id = ask_id, rq_question_id = question_id,
          rq_target_criteria = target_criteria, rq_target_gaps = target_gaps, rq_criterion_id = criterion_id,
          rq_hypothesis_id = ''repair:'' @ or_text criterion_id question_id, rq_gap_id = gap_id,
          rq_missing_evidence_types = types, rq_blocking_conflict_ids = conflicts,
          rq_priority = (if index = 1 then ''high'' else ''normal''), rq_expected_evidence = evidence,
          rq_source_hints = [], rq_novelty_reason = novelty_text, rq_estimated_effort = effort_of index,
          rq_task_id = [], rq_repair = True,
          rq_repair_id = ''repair:'' @ or_text gap_id (or_text question_id (nat_str index)),
          rq_gap_reason = or_text (join gap_separator types) coverage_gap_text, rq_missing_evidence = evidence,
          rq_max_queries = 5, rq_max_fetches = 5, rq_max_llm_calls = min 4 (bp_max_llm_calls profile)\<rparr>)"

definition task_fingerprint :: "research_task_request \<Rightarrow> string" where
  "task_fingerprint t = semantic_fingerprint (rq_objective t) (map PStr (rq_target_gaps t)) (map PStr (rq_target_criteria t))"

text \<open>The tasks whose fingerprint is new, in order.\<close>

fun keep_new :: "string list \<Rightarrow> research_task_request list \<Rightarrow> research_task_request list" where
  "keep_new known [] = []"
| "keep_new known (t # ts) =
     (if task_fingerprint t \<in> set known then keep_new known ts
      else t # keep_new (task_fingerprint t # known) ts)"

section \<open>The deterministic action\<close>

definition closed_judgement :: "coverage_judgement \<Rightarrow> bool" where
  "closed_judgement j \<longleftrightarrow> cj_sufficient j \<and> cj_gaps j = []"

definition priority_rank :: "string \<Rightarrow> nat" where
  "priority_rank p = (if p = ''high'' then 0 else if p = ''low'' then 2 else 1)"

definition gap_key :: "coverage_gap \<Rightarrow> nat \<times> nat \<times> string" where
  "gap_key g = (priority_rank (cg_priority g), if cg_blocking_conflict_ids g = [] then 1 else 0, cg_criterion_id g)"

text \<open>The position a question id of the form \<open>q<digits>\<close> names, zero otherwise.\<close>

definition question_index :: "string \<Rightarrow> nat" where
  "question_index qid =
     (case qid of [] \<Rightarrow> 0
      | c # ds \<Rightarrow> if c = CHR ''q'' \<and> ds \<noteq> [] \<and> list_all is_digit ds then nat (digits_value ds) else 0)"

definition repair_objective :: "structured_brief \<Rightarrow> coverage_gap \<Rightarrow> string" where
  "repair_objective b g =
     (let i = question_index (cg_question_id g);
          question = (if 0 < i \<and> i \<le> length (sb_key_questions b) then sb_key_questions b ! (i - 1) else cg_description g);
          scope = or_text (join scope_separator (cg_missing_evidence_type g)) (cg_description g)
      in repair_prefix @ question @ repair_middle @ scope @ repair_suffix)"

definition gap_task :: "(string \<Rightarrow> string option) \<Rightarrow> structured_brief \<Rightarrow> nat \<times> coverage_gap \<Rightarrow> research_task_request" where
  "gap_task env b = (\<lambda>(index, g).
     repair_task env index (repair_objective b g)
       (ask_id_for_question_index b (question_index (cg_question_id g))) (cg_question_id g)
       [cg_criterion_id g] [cg_description g] (cg_criterion_id g) (cg_gap_id g)
       (cg_missing_evidence_type g) (cg_blocking_conflict_ids g))"

fun position_of :: "string \<Rightarrow> string list \<Rightarrow> nat \<Rightarrow> nat" where
  "position_of x [] n = 0"
| "position_of x (y # ys) n = (if y = x then n else position_of x ys (Suc n))"

definition question_repair ::
  "(string \<Rightarrow> string option) \<Rightarrow> structured_brief \<Rightarrow> nat \<times> string \<Rightarrow> research_task_request" where
  "question_repair env b = (\<lambda>(index, objective).
     let i = position_of objective (sb_key_questions b) 1
     in repair_task env index objective (ask_id_for_question_index b i) (if i = 0 then [] else question_id_of i)
          [objective] [objective] [] [] [] [])"

definition actionable_questions :: "structured_brief \<Rightarrow> coverage_judgement option \<Rightarrow> string list" where
  "actionable_questions b j =
     (case j of None \<Rightarrow> sb_key_questions b
      | Some j \<Rightarrow> if cj_recommended_next_questions j \<noteq> [] then cj_recommended_next_questions j
          else if cj_missing j \<noteq> [] then cj_missing j else sb_key_questions b)"

abbreviation deterministic :: string where
  "deterministic \<equiv> ''deterministic_fallback''"

definition plain_action :: "action_name \<Rightarrow> string \<Rightarrow> research_task_request list \<Rightarrow> string \<Rightarrow> supervisor_action" where
  "plain_action a reason tasks source =
     \<lparr>sv_action = a, sv_reason = reason, sv_research_tasks = tasks, sv_source = source\<rparr>"

definition numbered_first_two :: "'a list \<Rightarrow> (nat \<times> 'a) list" where
  "numbered_first_two xs = zip [1..<3] (take 2 xs)"

definition budget_exhausted_row :: "pydict \<Rightarrow> bool" where
  "budget_exhausted_row budget = truthy (pget budget ''exhausted'')"

definition fallback_action ::
  "(string \<Rightarrow> string option) \<Rightarrow> structured_brief \<Rightarrow> coverage_judgement option \<Rightarrow> pydict \<Rightarrow> string list \<Rightarrow> supervisor_action" where
  "fallback_action env b j budget previous =
     (if (case j of None \<Rightarrow> False | Some j \<Rightarrow> closed_judgement j)
        then plain_action COMPLETE ''coverage meets brief key questions'' [] deterministic
      else if budget_exhausted_row budget
        then plain_action STOP_BUDGET_PARTIAL ''budget exhausted while coverage gaps remain'' [] deterministic
      else let reason = (case j of None \<Rightarrow> [] | Some j \<Rightarrow> cj_reason j);
               gaps = (case j of None \<Rightarrow> [] | Some j \<Rightarrow> cj_gaps j)
        in if gaps \<noteq> []
           then plain_action CONDUCT_RESEARCH (or_text reason ''structured coverage gaps remain'')
                  (keep_new previous (map (gap_task env b) (numbered_first_two (sort_key gap_key gaps)))) deterministic
           else plain_action CONDUCT_RESEARCH (or_text reason ''brief questions are not yet covered'')
                  (keep_new previous (map (question_repair env b) (numbered_first_two (actionable_questions b j))))
                  deterministic)"

section \<open>Completion needs coverage\<close>

definition enforce_completion_invariant ::
  "supervisor_action \<Rightarrow> coverage_judgement option \<Rightarrow> pydict \<Rightarrow> supervisor_action" where
  "enforce_completion_invariant a j budget =
     (if sv_action a \<noteq> COMPLETE then a
      else case j of None \<Rightarrow> a
        | Some j \<Rightarrow> if closed_judgement j then a
            else plain_action (if budget_exhausted_row budget then STOP_BUDGET_PARTIAL else STOP_FAILURE)
                   (''coverage_gap_blocks_complete:'' @ or_text (cj_status j) ''gap'') [] (sv_source a))"

definition resolve_action ::
  "(string \<Rightarrow> string option) \<Rightarrow> supervisor_action \<Rightarrow> coverage_judgement option \<Rightarrow> structured_brief \<Rightarrow> string list \<Rightarrow> pydict
     \<Rightarrow> supervisor_action" where
  "resolve_action env a j b previous budget =
     (if sv_action a = COMPLETE \<and> (case j of None \<Rightarrow> False | Some j \<Rightarrow> \<not> closed_judgement j)
           \<and> \<not> budget_exhausted_row budget
        then plain_action CONDUCT_RESEARCH ''runtime_override:blocking_coverage_gap''
               (sv_research_tasks (fallback_action env b j budget previous)) ''runtime_blocking_gap_override''
      else let a = enforce_completion_invariant a j budget
        in if sv_action a \<noteq> CONDUCT_RESEARCH \<or> sv_research_tasks a \<noteq> [] then a
           else plain_action (sv_action a) (sv_reason a)
                  (sv_research_tasks (fallback_action env b j [] previous)) (sv_source a))"

section \<open>The decision\<close>

definition sanitize_request :: "research_task_request \<Rightarrow> research_task_request" where
  "sanitize_request r = r\<lparr>rq_task_id := []\<rparr>"

definition sanitize_action :: "supervisor_action \<Rightarrow> supervisor_action" where
  "sanitize_action a =
     plain_action (sv_action a) (sv_reason a)
       (if sv_action a = CONDUCT_RESEARCH then map sanitize_request (sv_research_tasks a) else []) ''structured_llm''"

definition requires_semantic_decision :: "coverage_judgement option \<Rightarrow> pydict \<Rightarrow> bool" where
  "requires_semantic_decision j budget \<longleftrightarrow>
     \<not> budget_exhausted_row budget \<and> (case j of None \<Rightarrow> True | Some j \<Rightarrow> \<not> closed_judgement j)"

text \<open>The bounded view of the findings that goes into the prompt.\<close>

definition compact_row :: "pydict \<Rightarrow> string list \<Rightarrow> pydict res" where
  "compact_row f criteria =
     ebind (str_list (pget f ''evidence_ids'')) (\<lambda>ids. Inr
       [(''finding_id'', PStr (str_or (pget f ''finding_id'') [])),
        (''claim'', PStr (take_chars 800 (str_or (por (pget f ''claim'') (pget f ''summary'')) []))),
        (''supported_criteria'', strs (take 3 criteria)), (''evidence_ids'', strs (take 5 ids)),
        (''confidence'', pget f ''confidence''), (''partial'', PBool (truthy (pget f ''partial'')))])"

fun compact_from :: "nat dict \<Rightarrow> nat \<Rightarrow> pydict list \<Rightarrow> (string \<times> pydict) list res" where
  "compact_from per room [] = Inr []"
| "compact_from per room (f # fs) =
     ebind (nonblank_strs (pget f ''supported_criteria'')) (\<lambda>criteria.
       let c = (case criteria of [] \<Rightarrow> ''general'' | x # xs \<Rightarrow> x);
           seen = (case dget per c of None \<Rightarrow> 0 | Some n \<Rightarrow> n)
       in if 3 \<le> seen then compact_from per room fs
          else ebind (compact_row f criteria) (\<lambda>row.
            if room \<le> 1 then Inr [(c, row)]
            else ebind (compact_from (dput c (Suc seen) per) (room - 1) fs) (\<lambda>rows. Inr ((c, row) # rows))))"

definition compact_findings :: "pydict list \<Rightarrow> pydict list res" where
  "compact_findings fs = ebind (compact_from [] 12 fs) (\<lambda>rows. Inr (map snd rows))"

text \<open>
  \<open>decide\<close>: no reply stands for a supervisor without a model, an error for a provider call
  that raised.
\<close>

definition supervisor_decide ::
  "(string \<Rightarrow> string option) \<Rightarrow> supervisor_action res option \<Rightarrow> structured_brief \<Rightarrow> pydict list \<Rightarrow> coverage_judgement option
     \<Rightarrow> pydict \<Rightarrow> string list \<Rightarrow> supervisor_action res" where
  "supervisor_decide env reply b findings j budget previous =
     (let fallback = fallback_action env b j budget previous
      in case reply of None \<Rightarrow> Inr fallback
         | Some r \<Rightarrow>
             if \<not> requires_semantic_decision j budget then Inr fallback
             else ebind (compact_findings findings) (\<lambda>_.
               case r of Inl e \<Rightarrow> Inr fallback
               | Inr a \<Rightarrow> Inr (resolve_action env (sanitize_action a) j b previous budget)))"

section \<open>Lemmas\<close>

lemma plain_action_simps [simp]:
  "sv_action (plain_action a r ts s) = a" "sv_reason (plain_action a r ts s) = r"
  "sv_research_tasks (plain_action a r ts s) = ts" "sv_source (plain_action a r ts s) = s"
  by (simp_all add: plain_action_def)

lemma keep_new_subset: "set (keep_new known ts) \<subseteq> set ts"
  by (induction known ts rule: keep_new.induct) auto

lemma keep_new_length: "length (keep_new known ts) \<le> length ts"
  by (induction known ts rule: keep_new.induct) auto

lemma keep_new_fresh: "t \<in> set (keep_new known ts) \<Longrightarrow> task_fingerprint t \<notin> set known"
  by (induction known ts rule: keep_new.induct) (auto split: if_splits)

lemma keep_new_distinct: "distinct (map task_fingerprint (keep_new known ts))"
proof (induction known ts rule: keep_new.induct)
  case (2 known t ts)
  then show ?case
    using keep_new_fresh [of _ "task_fingerprint t # known" ts] by fastforce
qed simp

lemma keep_new_complete: "t \<in> set ts \<Longrightarrow> task_fingerprint t \<in> set known \<union> task_fingerprint ` set (keep_new known ts)"
  by (induction known ts rule: keep_new.induct) auto

lemma length_numbered_first_two: "length (numbered_first_two xs) \<le> 2"
  by (simp add: numbered_first_two_def)

lemma fallback_complete:
  "sv_action (fallback_action env b j budget previous) = COMPLETE \<Longrightarrow> \<exists>k. j = Some k \<and> closed_judgement k"
  by (auto simp: fallback_action_def Let_def split: if_splits option.splits)

lemma fallback_tasks:
  "\<exists>ts. length ts \<le> 2 \<and> sv_research_tasks (fallback_action env b j budget previous) = keep_new previous ts"
proof (cases "sv_research_tasks (fallback_action env b j budget previous) = []")
  case True
  then show ?thesis by (intro exI [of _ "[]"]) simp
next
  case False
  show ?thesis
  proof (cases "(case j of None \<Rightarrow> [] | Some j \<Rightarrow> cj_gaps j) = []")
    case True
    with False show ?thesis
      by (intro exI [of _ "map (question_repair env b) (numbered_first_two (actionable_questions b j))"])
        (auto simp: fallback_action_def Let_def length_numbered_first_two split: if_splits)
  next
    case open_gaps: False
    with False show ?thesis
      by (intro exI [of _ "map (gap_task env b) (numbered_first_two (sort_key gap_key (case j of None \<Rightarrow> [] | Some j \<Rightarrow> cj_gaps j)))"])
        (auto simp: fallback_action_def Let_def length_numbered_first_two split: if_splits)
  qed
qed

lemma enforce_complete:
  "sv_action (enforce_completion_invariant a j budget) = COMPLETE \<Longrightarrow> j = None \<or> (\<exists>k. j = Some k \<and> closed_judgement k)"
  by (auto simp: enforce_completion_invariant_def split: option.splits if_splits)

lemma resolve_complete:
  "sv_action (resolve_action env a j b previous budget) = COMPLETE \<Longrightarrow> j = None \<or> (\<exists>k. j = Some k \<and> closed_judgement k)"
  using enforce_complete [of a j budget]
  by (auto simp: resolve_action_def Let_def split: if_splits)

definition closed_example :: coverage_judgement where
  "closed_example =
     \<lparr>cj_sufficient = True, cj_status = ''sufficient'', cj_criteria = [], cj_ask_coverage = [],
      cj_delta = \<lparr>cd_new_evidence_ids = [], cd_new_supported_claim_ids = [], cd_closed_criterion_ids = [],
        cd_resolved_conflict_ids = []\<rparr>,
      cj_missing = [], cj_conflicts = [], cj_weak_claims = [], cj_recommended_next_questions = [], cj_gaps = [],
      cj_key_question_coverage = [], cj_reason = [], cj_source = ''deterministic''\<rparr>"

lemma closed_example_simps [simp]: "cj_sufficient closed_example" "cj_gaps closed_example = []"
  by (simp_all add: closed_example_def)

text \<open>
  C11. Whatever the model replies, the supervisor never reports research as complete while the coverage
  judgement is insufficient or still lists gaps: with a judgement at hand, the action is
  \<open>COMPLETE\<close> only if the judgement is closed.
\<close>

theorem completion_needs_coverage:
  assumes "supervisor_decide env reply b findings (Some j) budget previous = Inr a" "sv_action a = COMPLETE"
  shows "cj_sufficient j \<and> cj_gaps j = []"
proof -
  have "closed_judgement j"
    using assms fallback_complete [of env b "Some j" budget previous]
      resolve_complete [of env _ "Some j" b previous budget]
    by (auto simp: supervisor_decide_def Let_def ebind_eq_Inr split: option.splits if_splits sum.splits)
  then show ?thesis by (simp add: closed_judgement_def)
qed

lemma completion_needs_coverage_witness:
  "cj_sufficient closed_example \<and> cj_gaps closed_example = []"
  by (rule completion_needs_coverage [of "\<lambda>_. None" "Some (Inr (plain_action COMPLETE [] [] []))" example_structured_brief
        "[]" closed_example "[]" "[]" "fallback_action (\<lambda>_. None) example_structured_brief (Some closed_example) [] []"])
    (simp_all add: supervisor_decide_def Let_def requires_semantic_decision_def closed_judgement_def
      budget_exhausted_row_def fallback_action_def)

text \<open>
  A wave of deterministic repair asks for at most two tasks, none of which was asked for before
  and no two of which are the same question in other words: their fingerprints are new and
  pairwise different.
\<close>

theorem repair_wave_fresh:
  "length (sv_research_tasks (fallback_action env b j budget previous)) \<le> 2
   \<and> distinct (map task_fingerprint (sv_research_tasks (fallback_action env b j budget previous)))
   \<and> set (map task_fingerprint (sv_research_tasks (fallback_action env b j budget previous))) \<inter> set previous = {}"
proof -
  obtain ts where "length ts \<le> 2" "sv_research_tasks (fallback_action env b j budget previous) = keep_new previous ts"
    using fallback_tasks [of env b j budget previous] by blast
  then show ?thesis
    using keep_new_length [of previous ts] keep_new_distinct [of previous ts] keep_new_fresh [of _ previous ts]
    by auto
qed

text \<open>
  The repairs go to the most urgent gaps: with gaps open and budget left, the gaps split into the at
  most two chosen and the others, no other gap precedes a chosen one in the order of priority,
  blocking conflict and criterion, and every chosen gap's task is asked for unless its question was
  asked before.
\<close>

theorem repairs_most_urgent:
  assumes "cj_gaps j \<noteq> []" "\<not> budget_exhausted_row budget"
  shows "\<exists>chosen others. mset (chosen @ others) = mset (cj_gaps j) \<and> length chosen = min 2 (length (cj_gaps j))
     \<and> list_all (\<lambda>g. list_all (\<lambda>h. gap_key g \<le> gap_key h) others) chosen
     \<and> sv_research_tasks (fallback_action env b (Some j) budget previous)
         = keep_new previous (map (gap_task env b) (zip [1..<3] chosen))"
proof (intro exI conjI)
  let ?s = "sort_key gap_key (cj_gaps j)"
  have sorted: "sorted (map gap_key (take 2 ?s @ drop 2 ?s))"
    using sorted_sort_key [of gap_key "cj_gaps j"] by simp
  show "mset (take 2 ?s @ drop 2 ?s) = mset (cj_gaps j)" by simp
  show "length (take 2 ?s) = min 2 (length (cj_gaps j))" by simp
  show "list_all (\<lambda>g. list_all (\<lambda>h. gap_key g \<le> gap_key h) (drop 2 ?s)) (take 2 ?s)"
    using sorted unfolding map_append sorted_append by (simp add: list_all_iff)
  show "sv_research_tasks (fallback_action env b (Some j) budget previous)
      = keep_new previous (map (gap_task env b) (zip [1..<3] (take 2 ?s)))"
    using assms by (simp add: fallback_action_def closed_judgement_def numbered_first_two_def)
qed

lemma repairs_most_urgent_witness:
  "\<exists>chosen others. mset (chosen @ others) = mset [example_gap] \<and> length chosen = 1
     \<and> list_all (\<lambda>g. list_all (\<lambda>h. gap_key g \<le> gap_key h) others) chosen
     \<and> sv_research_tasks (fallback_action (\<lambda>_. None) example_structured_brief
           (Some (closed_example\<lparr>cj_gaps := [example_gap]\<rparr>)) [] [])
         = keep_new [] (map (gap_task (\<lambda>_. None) example_structured_brief) (zip [1..<3] chosen))"
  using repairs_most_urgent [of "closed_example\<lparr>cj_gaps := [example_gap]\<rparr>" "[]" "\<lambda>_. None" example_structured_brief "[]"]
  by (simp add: budget_exhausted_row_def)

text \<open>A completion the model reports over open gaps becomes the deterministic repair.\<close>

theorem model_completion_overridden:
  assumes "\<not> closed_judgement j" "\<not> budget_exhausted_row budget" "sv_action a = COMPLETE"
    and "supervisor_decide env (Some (Inr a)) b findings (Some j) budget previous = Inr r"
  shows "sv_action r = CONDUCT_RESEARCH
     \<and> sv_research_tasks r = sv_research_tasks (fallback_action env b (Some j) budget previous)"
  using assms by (auto simp: supervisor_decide_def Let_def ebind_eq_Inr requires_semantic_decision_def
      resolve_action_def sanitize_action_def)

end
