(* ===== verification/WorkflowNodes.thy ===== *)
theory WorkflowNodes
  imports BriefRows SupervisorAgent Control Termination Scheduler
begin

text \<open>
  The nodes of the research workflow (\<open>app/research/runtime/graph.py\<close>): functions from the
  workflow state to an update of it.  What they call outside the model (the brief compiler, the
  ingestion of worker results, the judging of coverage, the writing of the answer, the lineage
  of an initial plan) is an argument of the nodes that use it.
\<close>

section \<open>What the nodes call\<close>

record coverage_inputs =
  ci_findings :: "pydict list"
  ci_claim_conflicts :: "pydict list"
  ci_claim_resolutions :: "pydict list"
  ci_claims :: "pydict list"
  ci_evidence :: "pydict list"
  ci_previous :: "coverage_judgement option"
  ci_worker_results :: "pydict list"

record node_env =
  ne_environ :: "string \<Rightarrow> string option"
  ne_compile_brief :: "string \<Rightarrow> string \<Rightarrow> structured_brief"
  ne_bind_lineage :: "structured_brief \<Rightarrow> research_task_request list \<Rightarrow> research_task_request list"
  ne_ingest :: "pydict \<Rightarrow> pydict res"
  ne_judge :: "structured_brief \<Rightarrow> coverage_inputs \<Rightarrow> coverage_judgement res"
  ne_partial_answer :: "structured_brief \<Rightarrow> pydict list \<Rightarrow> pydict \<Rightarrow> pydict list \<Rightarrow> string res"
  ne_scrub :: "string \<Rightarrow> string"

section \<open>Reading the state\<close>

text \<open>\<open>_brief\<close>: the stored brief, or one compiled from the query.\<close>

definition state_brief :: "node_env \<Rightarrow> pydict \<Rightarrow> structured_brief res" where
  "state_brief e s =
     (if is_dict (pget s ''brief'') \<and> truthy (pget s ''brief'') then brief_from_dict (as_dict (pget s ''brief''))
      else Inr (ne_compile_brief e (str_or (por (pget s ''resolved_query'') (pget s ''task_query'')) [])
                  (str_or (pget s ''conversation_summary'') [])))"

definition state_judgement :: "pydict \<Rightarrow> coverage_judgement option res" where
  "state_judgement s =
     (if is_dict (pget s ''coverage_judgement'') \<and> truthy (pget s ''coverage_judgement'')
      then ebind (coverage_judgement_from_dict (as_dict (pget s ''coverage_judgement''))) (\<lambda>j. Inr (Some j))
      else Inr None)"

text \<open>\<open>(v or {}).get(k)\<close> and \<open>(v or {}).keys()\<close>.\<close>

definition field_of :: "pyval \<Rightarrow> string \<Rightarrow> pyval res" where
  "field_of v k = attr_get (por v (PDict [])) k"

definition keys_of :: "pyval \<Rightarrow> string list res" where
  "keys_of v = (case por v (PDict []) of PDict d \<Rightarrow> Inr (dkeys d) | _ \<Rightarrow> Inl (AttributeError ''keys''))"

definition py_len :: "pyval \<Rightarrow> int res" where
  "py_len v =
     (case v of PList vs \<Rightarrow> Inr (int (length vs)) | PDict d \<Rightarrow> Inr (int (length d))
      | PStr s \<Rightarrow> Inr (int (length (code_points s))) | _ \<Rightarrow> Inl (TypeError ''object has no len()''))"

section \<open>The brief node\<close>

definition simple_fact_step :: "plan_step \<Rightarrow> plan_step" where
  "simple_fact_step s =
     s\<lparr>step_type := ''network_search'',
       step_metadata := dmerge (step_metadata s)
         [(''simple_fact_fast_path'', PBool True), (''task_kind'', PStr ''lookup'')]\<rparr>"

definition simple_fact_plan :: "execution_plan \<Rightarrow> execution_plan res" where
  "simple_fact_plan p =
     (case plan_steps p of [] \<Rightarrow> Inl (IndexError ''list index out of range'')
      | st # sts \<Rightarrow> Inr (p\<lparr>plan_steps := simple_fact_step st # sts\<rparr>))"

definition takes_fast_path :: "structured_brief \<Rightarrow> bool" where
  "takes_fast_path b \<longleftrightarrow> sb_engine_version b \<noteq> ''answer_contract_v2'' \<and> fast_path_eligible b"

definition brief_plan_payload :: "node_env \<Rightarrow> pydict \<Rightarrow> structured_brief \<Rightarrow> pydict res" where
  "brief_plan_payload e s b =
     ebind (int_or (pget s ''plan_version'') 1) (\<lambda>version.
     ebind (execution_plan_from_brief (ne_environ e) b version default_worker_query_budget) (\<lambda>plan0.
     ebind (if takes_fast_path b then simple_fact_plan plan0 else Inr plan0) (\<lambda>plan.
     ebind (validate_brief_plan default_worker_query_budget plan (Some b)) (\<lambda>issues.
     ebind (build_brief_and_plan b (plan_version plan)) (\<lambda>tasks. Inr
       [(''plan'', PDict (plan_to_dict plan)), (''tasks'', tasks_to_py (initialize_tasks plan)),
        (''plan_validation'', PList (map (\<lambda>i. PDict (plan_issue_to_dict i)) issues)),
        (''brief_plan'', PDict (brief_and_plan_to_dict b tasks)), (''dispatch_wave_id'', PInt 1)])))))"

definition brief_node :: "node_env \<Rightarrow> pydict \<Rightarrow> pydict res" where
  "brief_node e s =
     ebind (state_brief e s) (\<lambda>b.
     ebind (brief_plan_payload e s b) (\<lambda>planned.
       transition_update (PDict s) PH_BRIEF
         ([(''brief'', PDict (brief_to_dict b)), (''answer_spec'', PDict (sb_answer_spec b)),
           (''engine_version'', PStr (sb_engine_version b)), (''fast_path'', PBool (takes_fast_path b)),
           (''route_signals'', strs [''brief_intent:'' @ sb_user_intent b,
              if takes_fast_path b then ''topology:fast_path'' else ''topology:supervisor_loop''])] @ planned)))"

section \<open>The supervisor node\<close>

definition decision_dict :: "runtime_decision \<Rightarrow> pydict" where
  "decision_dict d =
     [(''action'', PStr (runtime_action_value (rd_action d))), (''reason_codes'', strs (rd_reason_codes d)),
      (''task_ids'', strs (rd_task_ids d)), (''policy_version'', PStr ''runtime-policy.v1'')]"

text \<open>\<open>_plan_from_tasks\<close>: the plan steps of the requested tasks that state an objective.\<close>

definition evidence_claim :: "string \<Rightarrow> string" where
  "evidence_claim objective = ''Evidence can directly verify or refute: '' @ objective"

definition request_metadata :: "(string \<Rightarrow> string option) \<Rightarrow> research_task_request \<Rightarrow> pydict" where
  "request_metadata env r =
     (let profile = task_budget_profile_of env (rq_estimated_effort r) in
      [(''kind'', PStr ''research_task''), (''task_kind'', PStr ''supervisor_research''),
       (''priority'', PStr (rq_priority r)), (''ask_id'', PStr (rq_ask_id r)), (''question_id'', PStr (rq_question_id r)),
       (''target_criteria'', strs (rq_target_criteria r)), (''target_gaps'', strs (rq_target_gaps r)),
       (''criterion_id'', PStr (rq_criterion_id r)), (''gap_id'', PStr (rq_gap_id r)),
       (''repair_id'', PStr (rq_repair_id r)), (''gap_reason'', PStr (or_text (rq_gap_reason r) (rq_novelty_reason r))),
       (''missing_evidence'', strs (if rq_missing_evidence r = [] then rq_expected_evidence r else rq_missing_evidence r)),
       (''repair'', PBool (rq_repair r)), (''missing_evidence_types'', strs (rq_missing_evidence_types r)),
       (''blocking_conflict_ids'', strs (rq_blocking_conflict_ids r)),
       (''expected_evidence'', strs (rq_expected_evidence r)), (''evidence_needed'', strs (rq_expected_evidence r)),
       (''hypothesis'', PStr (evidence_claim (rq_objective r))),
       (''hypotheses'', strs [evidence_claim (rq_objective r)]), (''coverage_keys'', strs (rq_target_criteria r)),
       (''estimated_queries'', PInt (max 1 (min 10 (if rq_target_criteria r = [] then 1
          else int (length (rq_target_criteria r)))))),
       (''source_hints'', strs (rq_source_hints r)), (''required'', PBool True), (''optional'', PBool False),
       (''token_ceiling'', PInt (bp_token_ceiling profile))]
      @ map (\<lambda>(k, n). (k, PInt n)) (task_budget_metadata profile))"

definition request_step :: "(string \<Rightarrow> string option) \<Rightarrow> research_task_request \<Rightarrow> plan_step" where
  "request_step env r =
     \<lparr>step_type = ''research'', description = rq_objective r, subagent = PNone,
      step_metadata = request_metadata env r, step_task_id = rq_task_id r, depends_on = [],
      allowed_tools = research_tools, step_objective = rq_objective r\<rparr>"

definition plan_from_tasks ::
  "(string \<Rightarrow> string option) \<Rightarrow> research_task_request list \<Rightarrow> int \<Rightarrow> string \<Rightarrow> execution_plan" where
  "plan_from_tasks env tasks version mode =
     (let raw = map (request_step env) (filter (\<lambda>r. py_strip (rq_objective r) \<noteq> []) tasks)
      in \<lparr>plan_steps = concat (map (split_task default_worker_query_budget) raw),
          plan_summary = ''Supervisor research action'', plan_version = version, planning_mode = mode,
          plan_brief = []\<rparr>)"

text \<open>The tasks no earlier wave asked for, each with the identity of this wave.\<close>

fun approve_tasks ::
  "int \<Rightarrow> string list \<Rightarrow> research_task_request list \<Rightarrow> (string \<times> research_task_request) list" where
  "approve_tasks wave known [] = []"
| "approve_tasks wave known (r # rs) =
     (let f = task_fingerprint r
      in if f \<in> set known then approve_tasks wave known rs
         else (f, r\<lparr>rq_task_id := execution_task_id wave f\<rparr>) # approve_tasks wave (f # known) rs)"

definition fingerprint_rows :: "(string \<times> research_task_request) list \<Rightarrow> pydict" where
  "fingerprint_rows approved =
     map (\<lambda>(f, r). (f, PDict [(''task_id'', PStr (rq_task_id r)), (''objective'', PStr (rq_objective r))])) approved"

text \<open>What a step of an ask with a row in the answer specification carries in addition.\<close>

definition field_texts :: "pydict list \<Rightarrow> string \<Rightarrow> string list" where
  "field_texts rows key = map (\<lambda>row. py_str (pget row key)) (filter (\<lambda>row. truthy (pget row key)) rows)"

definition ask_lease_metadata ::
  "structured_brief \<Rightarrow> int \<Rightarrow> nat \<Rightarrow> pydict \<Rightarrow> pydict \<Rightarrow> pydict res" where
  "ask_lease_metadata b wave index ask metadata =
     ebind (int_or (pget (sb_answer_spec b) ''revision'') (sb_version b)) (\<lambda>revision.
     ebind (dict_rows (pget ask ''required_fields'')) (\<lambda>fields.
     ebind (iter_or_empty (pget metadata ''entities'')) (\<lambda>entities. Inr
       [(''engine_version'', PStr (sb_engine_version b)), (''spec_revision'', PInt revision),
        (''target_field_ids'', strs (take 3 (field_texts fields ''field_id''))),
        (''unit_assembly_field_ids'', strs (field_texts fields ''field_id'')),
        (''candidate_entity_ids'', PList (take 3 entities)),
        (''expected_claim_types'', strs (take 3 (field_texts fields ''value_type''))),
        (''done_condition'', PStr (''close explicit fields for '' @ py_str (pget_or ask ''target_units'' (PInt 1))
           @ '' answer unit(s)'')),
        (''lease_id'', PStr (''lease:'' @ sb_brief_id b @ '':'' @ int_str wave @ '':'' @ nat_str index)),
        (''wave_id'', PInt wave),
        (''repair_of_gap_ids'', strs (if truthy (pget metadata ''gap_id'') then [py_str (pget metadata ''gap_id'')] else []))])))"

definition lease_step ::
  "structured_brief \<Rightarrow> int \<Rightarrow> pydict dict \<Rightarrow> nat \<times> plan_step \<Rightarrow> plan_step res" where
  "lease_step b wave asks = (\<lambda>(index, st).
     case dget asks (str_or (pget (step_metadata st) ''ask_id'') []) of
       None \<Rightarrow> Inr st
     | Some ask \<Rightarrow>
         if ask = [] then Inr st
         else ebind (ask_lease_metadata b wave index ask (step_metadata st)) (\<lambda>extra.
                Inr (st\<lparr>step_metadata := dmerge (step_metadata st) extra\<rparr>)))"

definition wave_plan ::
  "node_env \<Rightarrow> structured_brief \<Rightarrow> int \<Rightarrow> int \<Rightarrow> research_task_request list \<Rightarrow> execution_plan res" where
  "wave_plan e b wave version tasks =
     (let plan = plan_from_tasks (ne_environ e) tasks version ''supervisor_action''
      in ebind (ask_rows_by_id b) (\<lambda>asks.
         ebind (emap (lease_step b wave asks) (zip [1..<Suc (length (plan_steps plan))] (plan_steps plan))) (\<lambda>steps.
           Inr (plan\<lparr>plan_steps := steps\<rparr>))))"

text \<open>The supervisor's action for the state, before duplicates are dropped.\<close>

definition strategy_action ::
  "node_env \<Rightarrow> structured_brief \<Rightarrow> coverage_judgement option \<Rightarrow> pydict \<Rightarrow> supervisor_action" where
  "strategy_action e b j budget =
     (let a = resolve_action (ne_environ e) (fallback_action (ne_environ e) b j budget []) j b [] []
      in if j = None then a\<lparr>sv_research_tasks := ne_bind_lineage e b (sv_research_tasks a)\<rparr> else a)"

definition dispatch_payload ::
  "node_env \<Rightarrow> pydict \<Rightarrow> structured_brief \<Rightarrow> int \<Rightarrow> supervisor_action \<Rightarrow> (string \<times> research_task_request) list \<Rightarrow> pydict res" where
  "dispatch_payload e s b wave a approved =
     (if sv_action a = CONDUCT_RESEARCH \<and> approved \<noteq> []
      then ebind (int_or (pget s ''plan_version'') 1) (\<lambda>version.
           ebind (wave_plan e b wave (version + (if truthy (pget s ''plan'') then 1 else 0)) (map snd approved)) (\<lambda>plan. Inr
             [(''plan'', PDict (plan_to_dict plan)), (''plan_version'', PInt (plan_version plan)),
              (''tasks'', tasks_to_py (initialize_tasks plan)), (''dispatch_wave_id'', PInt wave),
              (''task_fingerprints'', PDict (fingerprint_rows approved))]))
      else Inr [])"

definition strategy_payload :: "node_env \<Rightarrow> pydict \<Rightarrow> pydict res" where
  "strategy_payload e s =
     ebind (state_brief e s) (\<lambda>b.
     ebind (dict_rows (pget s ''findings'')) (\<lambda>_.
     ebind (state_judgement s) (\<lambda>j.
     ebind (case pget s ''budget'' of PDict d \<Rightarrow> Inr d | _ \<Rightarrow> Inl (TypeError ''dict() argument'')) (\<lambda>budget.
     ebind (keys_of (pget s ''task_fingerprints'')) (\<lambda>known.
     ebind (int_or (pget s ''dispatch_wave_id'') 0) (\<lambda>wave0.
       let wave = wave0 + 1;
           a0 = strategy_action e b j budget;
           approved = approve_tasks wave (filter (\<lambda>k. py_strip k \<noteq> []) known) (sv_research_tasks a0);
           a = a0\<lparr>sv_research_tasks := map snd approved\<rparr>
       in ebind (field_of (pget s ''supervisor'') ''iteration'') (\<lambda>raw.
          ebind (int_or raw 0) (\<lambda>iteration.
          ebind (dispatch_payload e s b wave a approved) (\<lambda>dispatch. Inr
            ([(''supervisor_action'', PDict (action_to_dict a)),
              (''supervisor'', PDict [(''iteration'', PInt (iteration + (if truthy (pget s ''plan'') then 1 else 0))),
                 (''last_action'', PStr (action_value (sv_action a))), (''reasoning_summary'', PStr (sv_reason a))])]
             @ dispatch))))))))))"

fun retry_all :: "pyval \<Rightarrow> string list \<Rightarrow> pyval res" where
  "retry_all tasks [] = Inr tasks"
| "retry_all tasks (i # rest) = ebind (retry_task tasks i) (\<lambda>ts. retry_all (tasks_to_py ts) rest)"

text \<open>Plan issues are final: the supervisor records the diagnosis and ends the run.\<close>

definition plan_issue_payload :: "pydict \<Rightarrow> pydict list \<Rightarrow> pydict res" where
  "plan_issue_payload s issues =
     (let a = plain_action STOP_FAILURE
            (''plan_validation_failed: '' @ join '', '' (map (\<lambda>row. str_or (pget row ''code'') ''invalid_plan'') issues)) []
            ''plan_validator''
      in ebind (dict_or_empty (pget s ''supervisor'')) (\<lambda>supervisor. Inr
           [(''supervisor_action'', PDict (action_to_dict a)),
            (''supervisor'', PDict (dmerge supervisor
               [(''last_action'', PStr (action_value (sv_action a))), (''reasoning_summary'', PStr (sv_reason a)),
                (''source'', PStr (sv_source a))])),
            (''control_decision'', PDict [(''action'', PStr ''finalize''),
               (''reason_codes'', strs [''plan_validation_failed''])])]))"

definition controlled_payload :: "pydict \<Rightarrow> pydict \<Rightarrow> pydict res" where
  "controlled_payload s payload =
     (let enriched = dmerge s payload
      in ebind (decide_control enriched) (\<lambda>d.
         ebind (if rd_action d = RA_RETRY
                then ebind (retry_all (pget enriched ''tasks'') (rd_task_ids d)) (\<lambda>ts. Inr (dput ''tasks'' ts payload))
                else Inr payload) (\<lambda>payload.
           Inr (dput ''control_decision'' (PDict (decision_dict d)) payload))))"

definition supervisor_node :: "node_env \<Rightarrow> pydict \<Rightarrow> pydict res" where
  "supervisor_node e s =
     ebind (dict_rows (pget s ''plan_validation'')) (\<lambda>issues.
       ebind (if issues \<noteq> [] then plan_issue_payload s issues
              else ebind (strategy_payload e s) (controlled_payload s)) (\<lambda>payload.
         transition_update (PDict s) PH_SUPERVISOR payload))"

section \<open>Research, ingestion and judgement\<close>

definition researcher_node :: "pydict \<Rightarrow> pydict res" where
  "researcher_node s =
     (let task_id = str_or (pget s ''task_id'') ''researcher'' in Inr
       [(''phase'', PStr (phase_value PH_EXECUTE)),
        (''worker_results'', PList [PDict
           [(''task_id'', PStr task_id), (''ok'', PBool True), (''status'', PStr ''done''),
            (''summary'', PStr (''Research completed for '' @ task_id)),
            (''payload'', PDict [(''facts'', PList []), (''sources'', PList []), (''evidence_ids'', PList [])])]])])"

definition ingest_findings_node :: "node_env \<Rightarrow> pydict \<Rightarrow> pydict res" where
  "ingest_findings_node e s =
     ebind (ne_ingest e s) (\<lambda>update. transition_update (PDict s) PH_INGEST_FINDINGS update)"

definition progress_projection :: "coverage_judgement \<Rightarrow> pydict" where
  "progress_projection j =
     [(''status'', PStr (cj_status j)),
      (''coverage_ratio'', float_value (if cj_criteria j = [] then 0
         else fl (of_nat (length (filter (\<lambda>c. cs_status c = ''supported'') (cj_criteria j)))
                / of_nat (length (cj_criteria j))))),
      (''unresolved_conflicts'', strs (cj_conflicts j)), (''missing'', strs (map cg_description (cj_gaps j))),
      (''missing_ids'', strs (map cg_gap_id (cj_gaps j))),
      (''semantic_gap_ids'', strs (map (\<lambda>g. or_text (cg_gap_id g) (cg_criterion_id g)) (cj_gaps j))),
      (''reason_codes'', strs (if cj_sufficient j then [] else [''coverage_gap'']))]"

definition coverage_judge_node :: "node_env \<Rightarrow> pydict \<Rightarrow> pydict res" where
  "coverage_judge_node e s =
     ebind (state_brief e s) (\<lambda>b.
     ebind (state_judgement s) (\<lambda>previous.
     ebind (dict_rows (pget s ''findings'')) (\<lambda>findings.
     ebind (dict_rows (pget s ''claim_conflicts'')) (\<lambda>conflicts.
     ebind (dict_rows (pget s ''claim_resolutions'')) (\<lambda>resolutions.
     ebind (dict_rows (pget s ''claims'')) (\<lambda>claims.
     ebind (dict_rows (pget s ''evidence_records'')) (\<lambda>evidence.
     ebind (dict_rows (pget s ''worker_results'')) (\<lambda>results.
     ebind (ne_judge e b \<lparr>ci_findings = findings, ci_claim_conflicts = conflicts, ci_claim_resolutions = resolutions,
               ci_claims = claims, ci_evidence = evidence, ci_previous = previous, ci_worker_results = results\<rparr>) (\<lambda>j.
       transition_update (PDict s) PH_COVERAGE_JUDGE
         [(''coverage_judgement'', PDict (coverage_judgement_to_dict j)),
          (''progress_assessment'', PDict (progress_projection j)), (''control_decision'', PDict [])])))))))))"

section \<open>Synthesis and the quality gate\<close>

definition partial_claim_row :: "pydict \<Rightarrow> pydict" where
  "partial_claim_row row =
     [(''claim_id'', por (pget row ''claim_id'') (pget row ''finding_id'')),
      (''text'', por (por (pget row ''text'') (pget row ''claim'')) (pget row ''summary'')),
      (''evidence_ids'', por (pget row ''evidence_ids'') (PList [])),
      (''question_id'', por (pget row ''question_id'') (PStr [])),
      (''criterion_id'', por (pget row ''criterion_id'') (PStr [])),
      (''supported_criteria'', por (pget row ''supported_criteria'') (PList [])),
      (''confidence'', pget row ''confidence'')]"

definition is_validated :: "pydict \<Rightarrow> bool" where
  "is_validated row \<longleftrightarrow> truthy (pget_or row ''validated'' (PBool False))"

definition partial_findings :: "pydict list \<Rightarrow> pyval \<Rightarrow> pydict list res" where
  "partial_findings findings claims =
     (if filter is_validated findings \<noteq> [] then Inr (filter is_validated findings)
      else ebind (dict_rows claims) (\<lambda>rows. Inr
        (map (\<lambda>row. [(''claim'', pget row ''text''), (''evidence_ids'', pget row ''evidence_ids''),
                     (''validated'', PBool True)])
           (filter (\<lambda>row. is_validated row \<and> py_strip (str_or (pget row ''text'') []) \<noteq> []) rows))))"

definition finding_text :: "pydict \<Rightarrow> pyval" where
  "finding_text row = por (pget row ''summary'') (pget row ''claim'')"

definition full_answer :: "structured_brief \<Rightarrow> pydict list \<Rightarrow> string" where
  "full_answer b findings =
     join [CHR 0x0A] ([''# '' @ sb_objective b, []]
       @ map (\<lambda>row. ''- '' @ py_str (finding_text row))
           (filter (\<lambda>row. py_strip (str_or (finding_text row) []) \<noteq> []) findings))"

definition decided_action :: "pydict \<Rightarrow> string" where
  "decided_action s = str_or (pget (as_dict (pget s ''control_decision'')) ''action'') []"

definition judged_sufficient :: "pydict \<Rightarrow> bool" where
  "judged_sufficient s = truthy (pget (as_dict (pget s ''coverage_judgement'')) ''sufficient'')"

definition synthesis_content :: "node_env \<Rightarrow> pydict \<Rightarrow> structured_brief \<Rightarrow> string res" where
  "synthesis_content e s b =
     ebind (dict_rows (pget s ''findings'')) (\<lambda>findings.
     ebind (partial_findings findings (pget s ''claims'')) (\<lambda>partials.
       if decided_action s = ''deliver_partial'' \<or> \<not> judged_sufficient s
       then ebind (dict_rows (pget s ''evidence_records'')) (\<lambda>records.
              ne_partial_answer e b (map partial_claim_row partials) (as_dict (pget s ''coverage_judgement'')) records)
       else Inr (ne_scrub e (full_answer b findings))))"

definition synthesize_node :: "node_env \<Rightarrow> pydict \<Rightarrow> pydict res" where
  "synthesize_node e s =
     ebind (state_brief e s) (\<lambda>b.
     ebind (synthesis_content e s b) (\<lambda>content.
     ebind (int_or (pget s ''synthesis_attempts'') 0) (\<lambda>attempts.
       transition_update (PDict s) PH_SYNTHESIS
         [(''final_content'', PStr content), (''synthesis_attempts'', PInt (attempts + 1)),
          (''quality_assessment'', PDict [])])))"

definition gate_issues :: "pydict \<Rightarrow> string list" where
  "gate_issues s =
     (if py_strip (str_or (pget s ''final_content'') []) = [] then [''no_content''] else [])
     @ (if \<not> truthy (pget s ''evidence_records'') then [''no_usable_evidence''] else [])
     @ (if \<not> judged_sufficient s then [''coverage_gap''] else [])"

text \<open>Only a coverage gap, or a failed synthesis, leaves a partial answer.\<close>

definition gate_verdict :: "pydict \<Rightarrow> string" where
  "gate_verdict s =
     (let issues = gate_issues s
      in if issues = [] then ''pass''
         else if py_strip (str_or (pget s ''final_content'') []) \<noteq> [] \<and> truthy (pget s ''evidence_records'')
           \<and> issues = filter (\<lambda>i. i \<in> set issues) [''coverage_gap'', ''synthesis_failed'']
         then ''partial'' else ''fail'')"

definition quality_gate_node :: "pydict \<Rightarrow> pydict res" where
  "quality_gate_node s =
     ebind (py_len (por (pget s ''evidence_records'') (PList []))) (\<lambda>n.
       transition_update (PDict s) PH_QUALITY
         [(''quality_assessment'', PDict
            [(''verdict'', PStr (gate_verdict s)), (''issues'', strs (gate_issues s)),
             (''repairable'', PBool False), (''suggested_action'', PStr []),
             (''grounding'', PBool (gate_verdict s = ''pass'')),
             (''citation_metrics'', PDict [(''evidence_count'', PInt n)])])])"

section \<open>Ending\<close>

definition finalize_node :: "pydict \<Rightarrow> pydict res" where
  "finalize_node s =
     (let assessment = as_dict (pget s ''quality_assessment'') in
      ebind (field_of (pget s ''termination'') ''reason'') (\<lambda>reason.
      ebind (if str_or (pget assessment ''verdict'') [] = ''pass''
             then ebind (field_of (pget assessment ''completion_contract'') ''passed'') (\<lambda>v. Inr (truthy v))
             else Inr False) (\<lambda>completed.
      ebind (if truthy (pget s ''final_content'') then Inr True
             else ebind (int_or (pget s ''synthesis_attempts'') 0) (\<lambda>n. Inr (0 < n))) (\<lambda>attempted.
        terminal_update s
          \<lparr>ta_reason = str_or reason [], ta_stage = phase_value PH_FINALIZE, ta_detected_stage = [],
           ta_origin_stage = [], ta_cause_event_id = [], ta_research_completed = completed,
           ta_synthesis_attempted = attempted, ta_quality_attempted = assessment \<noteq> []\<rparr>))))"

definition vanilla_agent_node :: "pydict \<Rightarrow> pydict res" where
  "vanilla_agent_node s =
     (let query = str_or (por (pget s ''resolved_query'') (pget s ''task_query'')) []
      in transition_update (PDict s) PH_DIRECT
           [(''final_content'', PStr (py_strip (''[direct baseline] '' @ query))), (''search_mode'', PStr ''direct''),
            (''quality_assessment'', PDict [(''verdict'', PStr ''unknown''), (''grounding'', PBool False)]),
            (''plan'', PNone)])"

end
