(* ===== verification/WorkflowGraph.thy ===== *)
theory WorkflowGraph
  imports WorkflowNodes Reducers
begin

text \<open>
  The workflow graph: the channels of the state (\<open>app/research/runtime/state.py\<close>) with the
  reducer of parallel value signals (\<open>app/research/runtime/reducers.py\<close>), the routes and edges
  (\<open>app/research/runtime/graph.py\<close>), and its execution by supersteps.  A superstep runs the
  pending node, or one worker per dispatched payload, and writes the updates channel by channel;
  two workers that write the same plain channel in one superstep are an error.
\<close>

section \<open>Channels\<close>

datatype channel = LastValue | KeepLast | MergeDicts | MergeRecords | MergeStrings | ConcatLists | MergeSignals

definition plain_keys :: "string list" where
  "plain_keys =
     [''run_id'', ''session_id'', ''task_query'', ''user_id'', ''tenant_id'', ''project_id'', ''state_version'',
      ''search_mode'', ''search_mode_requested'', ''route_signals'', ''conversation_summary'', ''resolved_query'',
      ''search_cards'', ''brief'', ''brief_plan'', ''fast_path'', ''supervisor'', ''supervisor_action'',
      ''coverage_judgement'', ''fast_path_answer'', ''intent'', ''plan'', ''plan_version'', ''plan_validation'',
      ''artifacts'', ''budget'', ''budget_status'', ''execution_retries'', ''semantic_repairs'',
      ''worker_failures_by_type'', ''user_ask_contract'', ''semantic_fidelity'', ''plan_semantic_validation'',
      ''relevance_assessment'', ''source_quality'', ''dispatch_wave_id'', ''dispatch_admission'', ''low_value_rounds'',
      ''draft_ref'', ''final_ref'', ''final_content'', ''lifecycle'', ''termination'', ''cancel_reason'',
      ''abort_reason'', ''planning_failure'', ''internal_error'', ''stop_reason'', ''quality_failure'',
      ''coverage_failure'', ''needs_clarification'', ''needs_plan_review'', ''progress_assessment'',
      ''evidence_assessment'', ''execution_health'', ''delivery_readiness'', ''quality_assessment'',
      ''control_decision'', ''synthesis_attempts'', ''synthesis_failed'', ''synthesis_degraded'', ''answerability'',
      ''answer_complete'', ''answer_contract'', ''answer_spec'', ''completion'', ''engine_version'', ''semantic_stall'']"

definition reduced_keys :: "channel dict" where
  "reduced_keys =
     [(''claims'', MergeRecords), (''claim_conflicts'', MergeRecords), (''claim_resolutions'', MergeRecords),
      (''support_edges'', MergeRecords), (''evidence_records'', MergeRecords), (''artifact_refs'', MergeStrings),
      (''tasks'', MergeDicts), (''worker_results'', ConcatLists), (''findings'', MergeRecords),
      (''evidence_refs'', MergeStrings), (''task_fingerprints'', MergeDicts),
      (''processed_worker_result_ids'', MergeStrings), (''search_query_fingerprints'', MergeStrings),
      (''research_value_signal'', MergeSignals), (''phase'', KeepLast), (''answer_units'', MergeRecords),
      (''evidence_version'', KeepLast), (''answer_version'', KeepLast), (''candidate_set'', MergeDicts)]"

text \<open>A key the state does not declare has no channel; what a node writes there is dropped.\<close>

definition channel_of :: "string \<Rightarrow> channel option" where
  "channel_of k = (case dget reduced_keys k of Some c \<Rightarrow> Some c
     | None \<Rightarrow> if k \<in> set plain_keys then Some LastValue else None)"

definition counted_signals :: "string list" where
  "counted_signals = [''new_high_quality_evidence_count'', ''new_supported_claim_count'', ''closed_criteria_count'']"

definition merge_signal :: "pydict \<Rightarrow> string \<times> pyval \<Rightarrow> pydict res" where
  "merge_signal merged = (\<lambda>(k, v).
     if k \<in> set counted_signals
       then ebind (int_or (pget merged k) 0) (\<lambda>m. ebind (int_or v 0) (\<lambda>n. Inr (dput k (PInt (max 0 m + max 0 n)) merged)))
     else if k = ''duplicate_search_ratio''
       then ebind (float_or_zero (pget merged k)) (\<lambda>x. ebind (float_or_zero v) (\<lambda>y. Inr (dput k (float_value (max x y)) merged)))
     else Inr (dput k v merged))"

fun merge_signals :: "pydict \<Rightarrow> pydict \<Rightarrow> pydict res" where
  "merge_signals merged [] = Inr merged"
| "merge_signals merged (kv # rest) = ebind (merge_signal merged kv) (\<lambda>m. merge_signals m rest)"

definition merge_value_signals :: "pyval \<Rightarrow> pyval \<Rightarrow> pyval res" where
  "merge_value_signals left right =
     ebind (dict_or_empty left) (\<lambda>l. ebind (dict_or_empty right) (\<lambda>r. ebind (merge_signals l r) (\<lambda>m. Inr (PDict m))))"

fun write_channel :: "channel \<Rightarrow> pyval \<Rightarrow> pyval \<Rightarrow> pyval res" where
  "write_channel LastValue old new = Inr new"
| "write_channel KeepLast old new = Inr (keep_last old new)"
| "write_channel MergeDicts old new =
     ebind (dict_or_empty old) (\<lambda>l. ebind (dict_or_empty new) (\<lambda>r. Inr (PDict (merge_dicts l r))))"
| "write_channel MergeRecords old new =
     ebind (iter_or_empty old) (\<lambda>l. ebind (iter_or_empty new) (\<lambda>r. Inr (PList (merge_records l r))))"
| "write_channel MergeStrings old new =
     ebind (iter_or_empty old) (\<lambda>l. ebind (iter_or_empty new) (\<lambda>r.
       ebind (py_fromkeys (l @ r)) (\<lambda>ks. Inr (PList ks))))"
| "write_channel ConcatLists old new =
     (case (if old = PNone then PList [] else old, new) of
        (PList l, PList r) \<Rightarrow> Inr (PList (l @ r))
      | _ \<Rightarrow> Inl (TypeError ''unsupported operand''))"
| "write_channel MergeSignals old new = merge_value_signals old new"

fun write_keys :: "pydict \<Rightarrow> string list \<Rightarrow> pydict \<Rightarrow> pydict res" where
  "write_keys u [] s = Inr s"
| "write_keys u (k # ks) s =
     (case channel_of k of None \<Rightarrow> write_keys u ks s
      | Some c \<Rightarrow> ebind (write_channel c (pget s k) (pget u k)) (\<lambda>v. write_keys u ks (dput k v s)))"

definition apply_update :: "pydict \<Rightarrow> pydict \<Rightarrow> pydict res" where
  "apply_update u s = write_keys u (dkeys u) s"

text \<open>The updates of one superstep, in the order of dispatch.\<close>

definition plain_writes :: "pydict \<Rightarrow> string list" where
  "plain_writes u = filter (\<lambda>k. channel_of k = Some LastValue) (fromkeys (dkeys u))"

fun apply_all :: "pydict list \<Rightarrow> pydict \<Rightarrow> pydict res" where
  "apply_all [] s = Inr s"
| "apply_all (u # us) s = ebind (apply_update u s) (apply_all us)"

definition apply_updates :: "pydict list \<Rightarrow> pydict \<Rightarrow> pydict res" where
  "apply_updates us s =
     (let writes = concat (map plain_writes us)
      in if distinct writes then apply_all us s
         else Inl (InvalidUpdate ''Can receive only one value per step''))"

section \<open>Routes\<close>

datatype node = N_BRIEF | N_SUPERVISOR | N_RESEARCHER | N_INGEST | N_COVERAGE | N_SYNTHESIZE | N_QUALITY
  | N_FINALIZE | N_VANILLA

fun node_name :: "node \<Rightarrow> string" where
  "node_name N_BRIEF = ''brief''"
| "node_name N_SUPERVISOR = ''supervisor''"
| "node_name N_RESEARCHER = ''researcher''"
| "node_name N_INGEST = ''ingest_findings''"
| "node_name N_COVERAGE = ''coverage_judge''"
| "node_name N_SYNTHESIZE = ''synthesize''"
| "node_name N_QUALITY = ''quality_gate''"
| "node_name N_FINALIZE = ''finalize''"
| "node_name N_VANILLA = ''vanilla''"

datatype route = Go node | Send "pydict list" | Stop

definition worker_payload :: "pydict \<Rightarrow> nat \<times> plan_step \<Rightarrow> pydict res" where
  "worker_payload s = (\<lambda>(index, st).
     ebind (case dget s ''task_query'' of None \<Rightarrow> Inl (KeyError ''task_query'') | Some q \<Rightarrow> Inr q) (\<lambda>query.
     ebind (dict_or_empty (pget s ''tasks'')) (\<lambda>tasks. Inr (dmerge s
       [(''phase'', PStr (phase_value PH_EXECUTE)), (''task_id'', PStr (resolved_task_id st index)),
        (''step_index'', PInt (int index)), (''step_type'', PStr (step_type st)),
        (''description'', PStr (description st)), (''subagent'', por (subagent st) (PStr [])),
        (''task_query'', query), (''task_metadata'', PDict (step_metadata st)), (''tasks'', PDict tasks)]))))"

definition plan_of :: "pyval \<Rightarrow> execution_plan res" where
  "plan_of v = (case por v (PDict []) of PDict d \<Rightarrow> plan_from_dict d | _ \<Rightarrow> Inl (AttributeError ''get''))"

definition send_or :: "pydict list \<Rightarrow> node \<Rightarrow> route" where
  "send_or payloads n = (if payloads = [] then Go n else Send payloads)"

definition route_after_brief :: "pydict \<Rightarrow> route res" where
  "route_after_brief s =
     (if \<not> truthy (PDict (as_dict (pget s ''plan''))) then Inr (Go N_SUPERVISOR)
      else if truthy (pget s ''plan_validation'') then Inr (Go N_SUPERVISOR)
      else ebind (plan_of (pget s ''plan'')) (\<lambda>p.
           ebind (emap (worker_payload s) (indexed_steps p)) (\<lambda>payloads. Inr (send_or payloads N_SUPERVISOR))))"

definition selected_steps :: "pyval list \<Rightarrow> execution_plan \<Rightarrow> (nat \<times> plan_step) list" where
  "selected_steps selected p =
     filter (\<lambda>(i, st). selected = [] \<or> py_in (PStr (resolved_task_id st i)) selected) (indexed_steps p)"

definition route_dispatch :: "pydict \<Rightarrow> route res" where
  "route_dispatch s =
     ebind (case dget s ''plan'' of None \<Rightarrow> Inl (KeyError ''plan'') | Some v \<Rightarrow> plan_of v) (\<lambda>p.
     ebind (iter_or_empty (pget (as_dict (pget s ''control_decision'')) ''task_ids'')) (\<lambda>ids.
     ebind (py_fromkeys ids) (\<lambda>selected.
     ebind (emap (worker_payload s) (selected_steps selected p)) (\<lambda>payloads. Inr (send_or payloads N_COVERAGE)))))"

definition route_supervisor :: "pydict \<Rightarrow> route res" where
  "route_supervisor s =
     (let action = decided_action s in
      if action \<in> {''dispatch'', ''retry''} then route_dispatch s
      else if action \<in> {''synthesize'', ''deliver_partial''} then Inr (Go N_SYNTHESIZE)
      else if action = ''wait'' then Inr (Go N_COVERAGE)
      else if str_or (pget s ''engine_version'') [] = ''answer_contract_v2''
          \<and> action \<in> {''finalize_failure'', ''finalize_success''} \<and> \<not> truthy (pget s ''cancel_reason'')
        then Inr (Go N_SYNTHESIZE)
      else Inr (Go N_FINALIZE))"

definition route_coverage_judge :: "pydict \<Rightarrow> node" where
  "route_coverage_judge s =
     (if decided_action s \<in> {''synthesize'', ''deliver_partial''} then N_SYNTHESIZE
      else if judged_sufficient s then N_SYNTHESIZE else N_SUPERVISOR)"

definition route_after_quality :: "pydict \<Rightarrow> node res" where
  "route_after_quality s =
     (let assessment = as_dict (pget s ''quality_assessment'') in
      if str_or (pget assessment ''verdict'') [] = ''pass'' then Inr N_FINALIZE
      else if truthy (pget assessment ''repairable'')
        then ebind (int_or (pget s ''synthesis_attempts'') 0) (\<lambda>n. Inr (if n < 3 then N_SYNTHESIZE else N_FINALIZE))
      else Inr N_FINALIZE)"

text \<open>The edges of \<open>compile_research_graph\<close>, for both profiles.\<close>

fun next_of :: "node \<Rightarrow> pydict \<Rightarrow> route res" where
  "next_of N_BRIEF s = route_after_brief s"
| "next_of N_SUPERVISOR s = route_supervisor s"
| "next_of N_RESEARCHER s = Inr (Go N_INGEST)"
| "next_of N_INGEST s = Inr (Go N_COVERAGE)"
| "next_of N_COVERAGE s = Inr (Go (route_coverage_judge s))"
| "next_of N_SYNTHESIZE s = Inr (Go N_QUALITY)"
| "next_of N_QUALITY s = ebind (route_after_quality s) (\<lambda>n. Inr (Go n))"
| "next_of N_FINALIZE s = Inr Stop"
| "next_of N_VANILLA s = Inr (Go N_FINALIZE)"

section \<open>Execution\<close>

datatype config = Pending node pydict | Fanned "pydict list" pydict | Ended pydict | Crashed py_error

type_synonym node_functions = "node \<Rightarrow> pydict \<Rightarrow> pydict res"

definition follow :: "pydict \<Rightarrow> route \<Rightarrow> config" where
  "follow s r = (case r of Go n \<Rightarrow> Pending n s | Send payloads \<Rightarrow> Fanned payloads s | Stop \<Rightarrow> Ended s)"

definition settle :: "pydict res \<Rightarrow> node \<Rightarrow> config" where
  "settle r n =
     (case ebind r (\<lambda>s. ebind (next_of n s) (\<lambda>route. Inr (follow s route))) of Inl e \<Rightarrow> Crashed e | Inr c \<Rightarrow> c)"

fun graph_step :: "node_functions \<Rightarrow> config \<Rightarrow> config" where
  "graph_step f (Pending n s) = settle (ebind (f n s) (\<lambda>u. apply_updates [u] s)) n"
| "graph_step f (Fanned payloads s) =
     settle (ebind (emap (f N_RESEARCHER) payloads) (\<lambda>us. apply_updates us s)) N_RESEARCHER"
| "graph_step f (Ended s) = Ended s"
| "graph_step f (Crashed e) = Crashed e"

fun graph_run :: "node_functions \<Rightarrow> nat \<Rightarrow> config \<Rightarrow> config" where
  "graph_run f 0 c = c"
| "graph_run f (Suc n) c = graph_run f n (graph_step f c)"

inductive graph_reach :: "node_functions \<Rightarrow> config \<Rightarrow> config \<Rightarrow> bool" for f and c0 where
  start: "graph_reach f c0 c0"
| step: "graph_reach f c0 c \<Longrightarrow> graph_reach f c0 (graph_step f c)"

text \<open>The default functions of the nodes.\<close>

definition default_nodes :: "node_env \<Rightarrow> node_functions" where
  "default_nodes e n =
     (case n of N_BRIEF \<Rightarrow> brief_node e | N_SUPERVISOR \<Rightarrow> supervisor_node e | N_RESEARCHER \<Rightarrow> researcher_node
      | N_INGEST \<Rightarrow> ingest_findings_node e | N_COVERAGE \<Rightarrow> coverage_judge_node e | N_SYNTHESIZE \<Rightarrow> synthesize_node e
      | N_QUALITY \<Rightarrow> quality_gate_node | N_FINALIZE \<Rightarrow> finalize_node | N_VANILLA \<Rightarrow> vanilla_agent_node)"

section \<open>The initial state\<close>

definition empty_research_state ::
  "string \<Rightarrow> string \<Rightarrow> string \<Rightarrow> string \<Rightarrow> string \<Rightarrow> string \<Rightarrow> int \<Rightarrow> int \<Rightarrow> string \<Rightarrow> string \<Rightarrow> pydict" where
  "empty_research_state run_id session_id task_query user_id tenant_id project_id max_tool_calls max_replan_count
     search_mode engine =
     (let mode = or_text search_mode ''agent'' in
      [(''run_id'', PStr run_id), (''session_id'', PStr session_id), (''task_query'', PStr task_query),
       (''user_id'', PStr user_id), (''tenant_id'', PStr tenant_id), (''project_id'', PStr project_id),
       (''state_version'', PInt 1), (''search_mode'', PStr mode), (''search_mode_requested'', PStr mode),
       (''route_signals'', PList []), (''conversation_summary'', PStr []), (''resolved_query'', PStr task_query),
       (''search_cards'', PList []), (''brief'', PDict []), (''brief_plan'', PDict []), (''fast_path'', PBool False),
       (''supervisor'', PDict [(''iteration'', PInt 0), (''last_action'', PStr []), (''reasoning_summary'', PStr [])]),
       (''supervisor_action'', PDict []), (''coverage_judgement'', PDict []), (''fast_path_answer'', PDict []),
       (''claims'', PList []), (''claim_conflicts'', PList []), (''claim_resolutions'', PList []),
       (''support_edges'', PList []), (''evidence_records'', PList []), (''artifact_refs'', PList []),
       (''intent'', PNone), (''plan'', PNone), (''plan_version'', PInt 1), (''plan_validation'', PList []),
       (''tasks'', PDict []), (''worker_results'', PList []), (''findings'', PList []), (''evidence_refs'', PList []),
       (''artifacts'', PList []),
       (''budget'', PDict
          [(''tool_calls'', PInt 0), (''max_tool_calls'', PInt max_tool_calls), (''llm_calls'', PInt 0),
           (''max_llm_calls'', PInt 24), (''total_tokens'', PInt 0), (''max_total_tokens'', PInt 160000),
           (''deadline_remaining_sec'', float_value 240), (''synthesis_reserve_sec'', float_value 60),
           (''max_parallel_workers'', PInt 2), (''max_replan_count'', PInt max_replan_count),
           (''max_research_waves'', PInt (min 3 (max 1 (max_replan_count + 1)))), (''max_task_attempts'', PInt 2),
           (''max_semantic_stall_cycles'', PInt 2), (''max_active_tasks'', PInt 3), (''exhausted'', PBool False),
           (''low'', PBool False)]),
       (''budget_status'', PStr ''available''), (''execution_retries'', PInt 0), (''semantic_repairs'', PInt 0),
       (''worker_failures_by_type'', PDict []), (''user_ask_contract'', PDict []), (''semantic_fidelity'', PDict []),
       (''plan_semantic_validation'', PDict []), (''relevance_assessment'', PDict []), (''source_quality'', PDict []),
       (''dispatch_wave_id'', PInt 0), (''dispatch_admission'', PDict []), (''task_fingerprints'', PDict []),
       (''processed_worker_result_ids'', PList []), (''search_query_fingerprints'', PList []),
       (''research_value_signal'', PDict []), (''low_value_rounds'', PInt 0), (''draft_ref'', PNone),
       (''final_ref'', PNone), (''final_content'', PStr []), (''phase'', PStr (phase_value PH_BOOTSTRAP)),
       (''lifecycle'', PDict [(''status'', PStr ''running'')]), (''termination'', PNone), (''cancel_reason'', PStr []),
       (''abort_reason'', PStr []), (''planning_failure'', PDict []), (''internal_error'', PDict []),
       (''stop_reason'', PStr []), (''quality_failure'', PDict []), (''coverage_failure'', PDict []),
       (''needs_clarification'', PBool False), (''needs_plan_review'', PBool False), (''progress_assessment'', PDict []),
       (''evidence_assessment'', PDict []), (''execution_health'', PDict []), (''delivery_readiness'', PDict []),
       (''quality_assessment'', PDict []), (''control_decision'', PDict []), (''synthesis_attempts'', PInt 0),
       (''synthesis_failed'', PBool False), (''synthesis_degraded'', PBool False), (''answerability'', PDict []),
       (''answer_complete'', PBool False), (''answer_contract'', PDict []), (''answer_spec'', PDict []),
       (''answer_units'', PList []), (''completion'', PDict []), (''engine_version'', PStr engine),
       (''evidence_version'', PStr ''evidence-v0''), (''answer_version'', PStr ''answer-v0''),
       (''candidate_set'', PDict []), (''semantic_stall'', PInt 0)])"

definition start_config :: "bool \<Rightarrow> pydict \<Rightarrow> config" where
  "start_config direct s = Pending (if direct then N_VANILLA else N_BRIEF) s"

end
