(* ===== verification/WorkflowPhases.thy ===== *)
theory WorkflowPhases
  imports WorkflowGraph
begin

text \<open>
  Runs of the workflow graph keep to the phase table: whatever the nodes compute, as long as each
  guards its update with its own phase, the edges never lead a node to a phase it refuses.
\<close>

section \<open>Writing updates\<close>

lemma write_keys_last:
  assumes "write_keys u ks s = Inr s'" "channel_of k = Some LastValue"
  shows "dget s' k = (if k \<in> set ks then Some (pget u k) else dget s k)"
  using assms by (induction u ks s rule: write_keys.induct) (auto simp: ebind_eq_Inr split: option.splits)

lemma write_keys_keep:
  assumes "write_keys u ks s = Inr s'" "channel_of k = Some KeepLast" "pget u k \<noteq> PNone"
  shows "dget s' k = (if k \<in> set ks then Some (pget u k) else dget s k)"
  using assms by (induction u ks s rule: write_keys.induct) (auto simp: ebind_eq_Inr keep_last_def split: option.splits)

lemma write_keys_other:
  "write_keys u ks s = Inr s' \<Longrightarrow> k \<notin> set ks \<Longrightarrow> dget s' k = dget s k"
  by (induction u ks s rule: write_keys.induct) (auto simp: ebind_eq_Inr split: option.splits)

lemma dget_key: "dget u k = Some v \<Longrightarrow> k \<in> set (dkeys u)"
  by (force dest: map_of_SomeD)

lemma pget_present: "k \<in> set (dkeys u) \<Longrightarrow> dget u k = Some (pget u k)"
  by (cases "dget u k") (auto simp: pget_or_def map_of_eq_None_iff)

lemma apply_update_last:
  assumes "apply_update u s = Inr s'" "channel_of k = Some LastValue"
  shows "dget s' k = (case dget u k of None \<Rightarrow> dget s k | Some v \<Rightarrow> Some v)"
  using write_keys_last [OF assms(1) [unfolded apply_update_def] assms(2)] pget_present [of k u]
  by (auto simp: map_of_eq_None_iff dest: dget_key split: option.splits)

lemma apply_update_phase:
  assumes "apply_update u s = Inr s'" "pget u ''phase'' = PStr p"
  shows "pget s' ''phase'' = PStr p"
proof -
  have "channel_of ''phase'' = Some KeepLast" by (simp add: channel_of_def reduced_keys_def)
  moreover have "''phase'' \<in> set (dkeys u)" using assms(2) by (auto simp: pget_or_def dest: dget_key split: option.splits)
  ultimately show ?thesis
    using write_keys_keep [OF assms(1) [unfolded apply_update_def], of "''phase''"] assms(2) by (simp add: pget_or_def)
qed

lemma apply_all_phase:
  assumes "apply_all us s = Inr s'" "us \<noteq> []" "\<forall>u\<in>set us. pget u ''phase'' = PStr p"
  shows "pget s' ''phase'' = PStr p"
  using assms
proof (induction us s rule: apply_all.induct)
  case (2 u us s)
  then obtain s1 where "apply_update u s = Inr s1" "apply_all us s1 = Inr s'" by (auto simp: ebind_eq_Inr)
  then show ?case using 2 apply_update_phase by (cases "us = []") auto
qed simp

lemma apply_updates_single: "apply_updates [u] s = Inr s' \<longleftrightarrow> apply_update u s = Inr s'"
  by (auto simp: apply_updates_def plain_writes_def ebind_eq_Inr)

lemma apply_updates_all: "apply_updates us s = Inr s' \<Longrightarrow> apply_all us s = Inr s'"
  by (auto simp: apply_updates_def Let_def split: if_splits)

lemma settle_cases:
  obtains (crash) e where "settle r n = Crashed e"
  | (next_node) s m where "r = Inr s" "next_of n s = Inr (Go m)" "settle r n = Pending m s"
  | (fan) s ps where "r = Inr s" "next_of n s = Inr (Send ps)" "settle r n = Fanned ps s"
  | (stop) s where "r = Inr s" "next_of n s = Inr Stop" "settle r n = Ended s"
proof (cases "ebind r (next_of n)")
  case (Inl e)
  then have "settle r n = Crashed e" by (cases r) (auto simp: settle_def ebind_def split: sum.splits)
  then show ?thesis by (rule crash)
next
  case (Inr route)
  then obtain s where "r = Inr s" "next_of n s = Inr route" by (auto simp: ebind_eq_Inr)
  then show ?thesis using next_node fan stop by (cases route) (auto simp: settle_def follow_def)
qed

section \<open>Nodes and phases\<close>

text \<open>The phase a node moves the workflow to; the workers and the final node do not.\<close>

fun target_phase :: "node \<Rightarrow> workflow_phase option" where
  "target_phase N_BRIEF = Some PH_BRIEF"
| "target_phase N_SUPERVISOR = Some PH_SUPERVISOR"
| "target_phase N_RESEARCHER = None"
| "target_phase N_INGEST = Some PH_INGEST_FINDINGS"
| "target_phase N_COVERAGE = Some PH_COVERAGE_JUDGE"
| "target_phase N_SYNTHESIZE = Some PH_SYNTHESIS"
| "target_phase N_QUALITY = Some PH_QUALITY"
| "target_phase N_FINALIZE = None"
| "target_phase N_VANILLA = Some PH_DIRECT"

text \<open>The phase the workflow is in once a node is done.\<close>

fun phase_after :: "node \<Rightarrow> workflow_phase" where
  "phase_after N_RESEARCHER = PH_EXECUTE"
| "phase_after N_FINALIZE = PH_FINALIZE"
| "phase_after n = the (target_phase n)"

definition in_phase :: "workflow_phase \<Rightarrow> pydict \<Rightarrow> bool" where
  "in_phase p s \<longleftrightarrow> pget s ''phase'' = PStr (phase_value p)"

text \<open>A configuration whose pending node accepts the phase the state is in.\<close>

fun phase_ready :: "config \<Rightarrow> bool" where
  "phase_ready (Pending n s) \<longleftrightarrow>
     n \<noteq> N_RESEARCHER \<and> (case target_phase n of None \<Rightarrow> True | Some t \<Rightarrow> \<exists>p. in_phase p s \<and> t \<in> set (allowed_phases p))"
| "phase_ready (Fanned payloads s) \<longleftrightarrow> payloads \<noteq> []"
| "phase_ready (Ended s) \<longleftrightarrow> True"
| "phase_ready (Crashed e) \<longleftrightarrow> True"

lemma phase_value_not_Nil [simp]: "phase_value p \<noteq> []"
  by (cases p) simp_all

lemma guard_accepts:
  "in_phase p s \<Longrightarrow> t \<in> set (allowed_phases p) \<Longrightarrow> transition_update (PDict s) t payload = Inr (dput ''phase'' (PStr (phase_value t)) payload)"
  by (simp add: transition_update_def assert_transition_def in_phase_def)

lemma transition_writes_phase:
  "transition_update (PDict s) t payload = Inr u \<Longrightarrow> u = dput ''phase'' (PStr (phase_value t)) payload"
  by (auto simp: transition_update_def ebind_eq_Inr)

text \<open>Where the edges lead from each node.\<close>

lemma supervisor_successors:
  "route_supervisor s = Inr r \<Longrightarrow> r = Go N_SYNTHESIZE \<or> r = Go N_COVERAGE \<or> r = Go N_FINALIZE \<or> (\<exists>ps. ps \<noteq> [] \<and> r = Send ps)"
  by (auto simp: route_supervisor_def route_dispatch_def send_or_def Let_def ebind_eq_Inr split: if_splits option.splits)

lemma brief_successors:
  "route_after_brief s = Inr r \<Longrightarrow> r = Go N_SUPERVISOR \<or> (\<exists>ps. ps \<noteq> [] \<and> r = Send ps)"
  by (auto simp: route_after_brief_def send_or_def ebind_eq_Inr split: if_splits)

lemma quality_successors: "route_after_quality s = Inr n \<Longrightarrow> n = N_SYNTHESIZE \<or> n = N_FINALIZE"
  by (auto simp: route_after_quality_def Let_def ebind_eq_Inr split: if_splits)

lemma next_ready:
  assumes "in_phase (phase_after n) s" "next_of n s = Inr r"
  shows "phase_ready (follow s r)"
proof -
  have go: "phase_ready (Pending m s)" if "m \<noteq> N_RESEARCHER" "\<forall>t. target_phase m = Some t \<longrightarrow> t \<in> set (allowed_phases (phase_after n))" for m
    using that assms(1) by (auto split: option.splits)
  show ?thesis
    using assms(2) brief_successors [of s r] supervisor_successors [of s r] go
    by (cases n) (auto simp: follow_def ebind_eq_Inr route_coverage_judge_def dest!: quality_successors
        simp del: phase_ready.simps(1))
qed

section \<open>The interface of the nodes\<close>

locale phase_nodes =
  fixes run :: node_functions
  assumes guarded: "run n s = Inr u \<Longrightarrow> target_phase n = Some t \<Longrightarrow> \<exists>payload. transition_update (PDict s) t payload = Inr u"
    and worker_phase: "run N_RESEARCHER s = Inr u \<Longrightarrow> pget u ''phase'' = PStr (phase_value PH_EXECUTE)"
begin

lemma update_phase:
  "run n s = Inr u \<Longrightarrow> n \<noteq> N_FINALIZE \<Longrightarrow> pget u ''phase'' = PStr (phase_value (phase_after n))"
  using guarded [of n s u] worker_phase [of s u]
  by (cases n) (auto dest!: transition_writes_phase)

lemma step_ready: "phase_ready c \<Longrightarrow> phase_ready (graph_step run c)"
proof (induction c)
  case (Pending n s)
  show ?case
  proof (cases "ebind (run n s) (\<lambda>u. apply_updates [u] s)")
    case (Inl e)
    then show ?thesis by (simp add: settle_def)
  next
    case (Inr s')
    then obtain u where u: "run n s = Inr u" "apply_update u s = Inr s'"
      by (auto simp: ebind_eq_Inr apply_updates_single)
    show ?thesis
    proof (cases "n = N_FINALIZE")
      case True
      then show ?thesis using Inr by (simp add: settle_def follow_def)
    next
      case False
      then have "in_phase (phase_after n) s'"
        using apply_update_phase [OF u(2) update_phase [OF u(1)]] by (simp add: in_phase_def)
      then show ?thesis
        using next_ready [of n s'] Inr by (cases "next_of n s'") (auto simp: settle_def)
    qed
  qed
next
  case (Fanned payloads s)
  show ?case
  proof (cases "ebind (emap (run N_RESEARCHER) payloads) (\<lambda>us. apply_updates us s)")
    case (Inl e)
    then show ?thesis by (simp add: settle_def)
  next
    case (Inr s')
    then obtain us where us: "emap (run N_RESEARCHER) payloads = Inr us" "apply_all us s = Inr s'"
      by (auto simp: ebind_eq_Inr dest: apply_updates_all)
    have "\<forall>u\<in>set us. pget u ''phase'' = PStr (phase_value PH_EXECUTE)"
      using emap_set [OF us(1)] worker_phase by blast
    moreover have "us \<noteq> []" using emap_Inr_length [OF us(1)] Fanned by auto
    ultimately have "in_phase PH_EXECUTE s'" using apply_all_phase [OF us(2)] by (simp add: in_phase_def)
    then show ?thesis using next_ready [of N_RESEARCHER s'] Inr by (simp add: settle_def)
  qed
qed simp_all

lemma reach_ready: "graph_reach run c0 c \<Longrightarrow> phase_ready c0 \<Longrightarrow> phase_ready c"
  by (induction rule: graph_reach.induct) (auto intro: step_ready)

lemma start_ready: "in_phase PH_BOOTSTRAP s \<Longrightarrow> phase_ready (start_config direct s)"
  by (auto simp: start_config_def)

end

lemma default_guarded:
  "default_nodes e n s = Inr u \<Longrightarrow> target_phase n = Some t \<Longrightarrow> \<exists>payload. transition_update (PDict s) t payload = Inr u"
  by (cases n) (auto simp: default_nodes_def brief_node_def supervisor_node_def ingest_findings_node_def
      coverage_judge_node_def synthesize_node_def quality_gate_node_def vanilla_agent_node_def Let_def ebind_eq_Inr)

interpretation default_graph: phase_nodes "default_nodes e" for e
proof
  show "pget u ''phase'' = PStr (phase_value PH_EXECUTE)" if "default_nodes e N_RESEARCHER s = Inr u" for s u
    using that by (auto simp: default_nodes_def researcher_node_def Let_def)
qed (rule default_guarded)

text \<open>
  C8. No run of the graph, in either profile and through any number of dispatch waves, repairs and
  partial deliveries, asks a node for a transition the phase table refuses: whenever a node with a
  phase of its own is about to run, the table allows that phase after the one the state is in.
\<close>

theorem no_invalid_transition:
  assumes "graph_reach (default_nodes e) (start_config direct s0) (Pending n s)"
    and "pget s0 ''phase'' = PStr (phase_value PH_BOOTSTRAP)" "target_phase n = Some t"
  shows "assert_transition (py_str (pget s ''phase'')) (phase_value t) = Inr ()"
  using default_graph.reach_ready [OF assms(1) default_graph.start_ready] assms(2,3)
  by (auto simp: in_phase_def assert_transition_def)

lemma no_invalid_transition_witness:
  "assert_transition ''bootstrap'' ''direct'' = Inr ()"
proof -
  let ?s = "[(''phase'', PStr ''bootstrap'')]"
  have "graph_reach (default_nodes undefined) (start_config True ?s) (Pending N_VANILLA ?s)"
    using graph_reach.start [of "default_nodes undefined" "start_config True ?s"] by (simp add: start_config_def)
  from no_invalid_transition [OF this, of PH_DIRECT] show ?thesis by simp
qed

end
