(* ===== verification/WorkflowTermination.thy ===== *)
theory WorkflowTermination
  imports WorkflowPhases ControlProps
begin

text \<open>
  Every run of the default graph ends: the supervisor counts its iterations and stops repairing
  once the count passes the replanning limit, and what follows the research loop is a straight
  line to the end.
\<close>

section \<open>What the loop depends on\<close>

definition limit_of :: "pydict \<Rightarrow> int" where
  "limit_of s =
     (let raw = pget (budget_of s) ''max_replan_count''
      in if raw = PNone then 3 else case py_int raw of Inl e \<Rightarrow> 0 | Inr n \<Rightarrow> max 0 n)"

definition iteration_of :: "pydict \<Rightarrow> int" where
  "iteration_of s =
     (case ebind (field_of (pget s ''supervisor'') ''iteration'') (\<lambda>v. int_or v 0) of Inl e \<Rightarrow> 0 | Inr n \<Rightarrow> n)"

definition no_failed :: "pyval \<Rightarrow> bool" where
  "no_failed v \<longleftrightarrow> (\<exists>d. dict_or_empty v = Inr d \<and> (\<forall>(k, t)\<in>set d. \<not> task_failed t))"

definition rounds_left :: "pydict \<Rightarrow> nat" where
  "rounds_left s = nat (limit_of s + 1 - iteration_of s)"

fun config_rank :: "config \<Rightarrow> nat" where
  "config_rank (Pending n s) =
     (case n of N_BRIEF \<Rightarrow> 4 * rounds_left s + 8 | N_INGEST \<Rightarrow> 4 * rounds_left s + 6
      | N_COVERAGE \<Rightarrow> 4 * rounds_left s + 5 | N_SUPERVISOR \<Rightarrow> 4 * rounds_left s + 4
      | N_SYNTHESIZE \<Rightarrow> 3 | N_QUALITY \<Rightarrow> 2 | N_FINALIZE \<Rightarrow> 1 | N_VANILLA \<Rightarrow> 2 | N_RESEARCHER \<Rightarrow> 0)"
| "config_rank (Fanned ps s) = 4 * rounds_left s + 7"
| "config_rank (Ended s) = 0"
| "config_rank (Crashed e) = 0"

text \<open>No task has failed, and research only goes on under a plan.\<close>

fun on_course :: "config \<Rightarrow> bool" where
  "on_course (Pending n s) \<longleftrightarrow>
     n \<noteq> N_RESEARCHER \<and> no_failed (pget s ''tasks'')
     \<and> (n \<in> {N_SUPERVISOR, N_COVERAGE, N_INGEST} \<longrightarrow> truthy (pget s ''plan''))"
| "on_course (Fanned ps s) \<longleftrightarrow> no_failed (pget s ''tasks'') \<and> truthy (pget s ''plan'')"
| "on_course (Ended s) \<longleftrightarrow> True"
| "on_course (Crashed e) \<longleftrightarrow> True"

definition loop_keys :: "string list" where
  "loop_keys = [''budget'', ''supervisor'', ''plan'', ''tasks'']"

lemma same_loop_keys:
  assumes "\<forall>k\<in>set loop_keys. dget s' k = dget s k"
  shows "rounds_left s' = rounds_left s" "pget s' ''tasks'' = pget s ''tasks''" "pget s' ''plan'' = pget s ''plan''"
  using assms by (simp_all add: loop_keys_def rounds_left_def limit_of_def iteration_of_def budget_of_def pget_or_def)

lemma apply_update_other: "apply_update u s = Inr s' \<Longrightarrow> k \<notin> fst ` set u \<Longrightarrow> dget s' k = dget s k"
  by (simp add: apply_update_def write_keys_other)

lemma apply_all_other:
  "apply_all us s = Inr s' \<Longrightarrow> \<forall>u\<in>set us. k \<notin> fst ` set u \<Longrightarrow> dget s' k = dget s k"
  by (induction us s rule: apply_all.induct) (auto simp: ebind_eq_Inr apply_update_other)

section \<open>Control without failed tasks\<close>

lemma keys_where_none:
  "keys_where p d = Inr ks \<Longrightarrow> \<forall>(k, v)\<in>set d. p v = Inr False \<Longrightarrow> ks = []"
  by (induction p d arbitrary: ks rule: keys_where.induct) (auto simp: ebind_eq_Inr)

lemma no_failed_no_retry:
  assumes "no_failed (pget s ''tasks'')" "retryable_tasks s = Inr ks"
  shows "ks = []"
proof -
  obtain d where d: "dict_or_empty (pget s ''tasks'') = Inr d" "\<forall>(k, t)\<in>set d. \<not> task_failed t"
    using assms(1) by (auto simp: no_failed_def)
  then have "keys_where task_retryable d = Inr ks" using assms(2) by (simp add: retryable_tasks_def)
  moreover have "\<forall>(k, t)\<in>set d. task_retryable t = Inr False" using d(2) by (auto simp: task_retryable_def)
  ultimately show ?thesis by (rule keys_where_none)
qed

lemma stop_decision_action:
  "stop_decision s r = Inr d \<Longrightarrow> rd_action d = RA_DELIVER_PARTIAL \<or> rd_action d = RA_FINALIZE_FAILURE"
  by (auto simp: stop_decision_def ebind_eq_Inr split: if_splits)

lemma decide_semantic_action: "decide_semantic s a running tasks = Inr d \<Longrightarrow> rd_action d \<noteq> RA_RETRY"
  by (auto simp: decide_semantic_def ebind_eq_Inr split: if_splits)

lemma decide_complete_action:
  "decide_semantic s ''COMPLETE'' running tasks = Inr d \<Longrightarrow> rd_action d = RA_SYNTHESIZE \<or> rd_action d = RA_FINALIZE_FAILURE"
  by (auto simp: decide_semantic_def ebind_eq_Inr split: if_splits)

abbreviation leaving_actions :: "runtime_action list" where
  "leaving_actions \<equiv> [RA_CANCEL, RA_SYNTHESIZE, RA_DELIVER_PARTIAL, RA_FINALIZE_FAILURE]"

lemma decide_active_action:
  assumes "decide_active s a l tasks [] = Inr d"
    and iteration: "int_or (pget (as_dict (pget s ''supervisor'')) ''iteration'') 0 = Inr k"
  shows "rd_action d \<noteq> RA_RETRY \<and> (l < k \<longrightarrow> rd_action d \<in> set leaving_actions)"
  using assms(1) iteration
  by (auto simp: decide_active_def Let_def split: if_splits
      dest: stop_decision_action decide_semantic_action decide_complete_action)

lemma budget_stop_action: "budget_stop_decision s = Inr d \<Longrightarrow> rd_action d \<in> set leaving_actions"
  by (auto simp: budget_stop_decision_def ebind_eq_Inr split: if_splits dest: stop_decision_action)

lemma decide_running_action:
  assumes "decide_running s = Inr d" "no_failed (pget s ''tasks'')"
    and "int_or (pget (as_dict (pget s ''supervisor'')) ''iteration'') 0 = Inr k"
  shows "rd_action d \<noteq> RA_RETRY \<and> (limit_of s < k \<longrightarrow> rd_action d \<in> set leaving_actions)"
proof -
  obtain l tasks ks where l: "decide_active s (supervisor_action_of s) l tasks ks = Inr d"
      "retryable_tasks s = Inr ks" "l = limit_of s"
    using assms(1) by (auto simp: decide_running_def limit_of_def Let_def ebind_eq_Inr split: if_splits)
  moreover have "ks = []" using no_failed_no_retry assms(2) l(2) by blast
  ultimately show ?thesis using decide_active_action [OF _ assms(3)] by blast
qed

lemma decide_control_action:
  assumes "decide_control s = Inr d" "no_failed (pget s ''tasks'')"
    and "int_or (pget (as_dict (pget s ''supervisor'')) ''iteration'') 0 = Inr k"
  shows "rd_action d \<noteq> RA_RETRY \<and> (limit_of s < k \<longrightarrow> rd_action d \<in> set leaving_actions)"
  using assms(1) decide_running_action [OF _ assms(2,3), of d] budget_stop_action [of s d]
    stop_decision_action [of s _ d]
  by (auto simp: decide_control_def split: if_splits)

section \<open>Tasks\<close>

lemma new_task_not_failed: "\<not> task_failed (task_to_py (new_task_state i))"
  by (simp add: task_failed_def task_to_py_def new_task_state_def)

lemma initialize_new: "(k, t) \<in> set (initialize_tasks p) \<Longrightarrow> \<exists>i. t = new_task_state i"
proof -
  have "(k, t) \<in> set (fold (\<lambda>(i, s) d. dput (f s i) (new_task_state (f s i)) d) xs d)
      \<Longrightarrow> (k, t) \<in> set d \<or> (\<exists>i. t = new_task_state i)" for f and xs :: "(nat \<times> plan_step) list" and d
  proof (induction xs arbitrary: d)
    case (Cons x xs)
    obtain i st where x: "x = (i, st)" by (cases x)
    from Cons.prems have "(k, t) \<in> set (dput (f st i) (new_task_state (f st i)) d) \<or> (\<exists>i. t = new_task_state i)"
      using Cons.IH by (simp add: x)
    then show ?case using set_dput_subset [of "f st i" "new_task_state (f st i)" d] by auto
  qed simp
  from this [of resolved_task_id "indexed_steps p" "[]"]
  show "(k, t) \<in> set (initialize_tasks p) \<Longrightarrow> \<exists>i. t = new_task_state i"
    by (auto simp: initialize_tasks_def)
qed

lemma no_failed_initial: "no_failed (tasks_to_py (initialize_tasks p))"
proof -
  have "dict_or_empty (tasks_to_py (initialize_tasks p)) = Inr (map (\<lambda>(k, t). (k, task_to_py t)) (initialize_tasks p))"
    by (simp add: tasks_to_py_def)
  moreover have "\<not> task_failed v" if "(k, v) \<in> set (map (\<lambda>(k, t). (k, task_to_py t)) (initialize_tasks p))" for k v
    using that initialize_new new_task_not_failed by fastforce
  ultimately show ?thesis unfolding no_failed_def by blast
qed

lemma dmerge_subset: "set (dmerge a b) \<subseteq> set a \<union> set b"
proof (induction b arbitrary: a)
  case Nil
  then show ?case by (simp add: dmerge_def)
next
  case (Cons x b)
  have "dmerge a (x # b) = dmerge (dput (fst x) (snd x) a) b" by (simp add: dmerge_def split_beta)
  then show ?case using Cons [of "dput (fst x) (snd x) a"] set_dput_subset [of "fst x" "snd x" a] by fastforce
qed

lemma no_failed_merge:
  assumes "no_failed old" "no_failed new" "write_channel MergeDicts old new = Inr v"
  shows "no_failed v"
proof -
  obtain l r where lr: "dict_or_empty old = Inr l" "dict_or_empty new = Inr r" "v = PDict (dmerge l r)"
    using assms(3) by (auto simp: ebind_eq_Inr merge_dicts_def)
  then have "\<forall>(k, t)\<in>set l \<union> set r. \<not> task_failed t" using assms(1,2) by (auto simp: no_failed_def)
  then show ?thesis using dmerge_subset [of l r] lr(3) by (auto simp: no_failed_def)
qed

lemma write_keys_tasks:
  assumes "write_keys u ks s = Inr s'" "no_failed (pget s ''tasks'')" "no_failed (pget u ''tasks'')"
  shows "no_failed (pget s' ''tasks'')"
  using assms
proof (induction u ks s rule: write_keys.induct)
  case (2 u k ks s)
  show ?case
  proof (cases "channel_of k")
    case None
    then show ?thesis using 2 by simp
  next
    case (Some c)
    then obtain v where v: "write_channel c (pget s k) (pget u k) = Inr v" "write_keys u ks (dput k v s) = Inr s'"
      using 2(3) by (auto simp: ebind_eq_Inr)
    have "no_failed (pget (dput k v s) ''tasks'')"
    proof (cases "k = ''tasks''")
      case True
      then have "c = MergeDicts" using Some by (simp add: channel_of_def reduced_keys_def)
      then show ?thesis using True v(1) no_failed_merge [OF 2(4,5)] by simp
    qed (use 2(4) in simp)
    then show ?thesis using 2(2) [OF Some v(1) v(2)] 2(5) by blast
  qed
qed simp

lemma apply_update_tasks:
  assumes "apply_update u s = Inr s'" "no_failed (pget s ''tasks'')" "dget u ''tasks'' = None \<or> no_failed (pget u ''tasks'')"
  shows "no_failed (pget s' ''tasks'')"
proof (cases "dget u ''tasks'' = None")
  case True
  then have "''tasks'' \<notin> fst ` set u" by (simp add: map_of_eq_None_iff)
  then show ?thesis using apply_update_other [OF assms(1)] assms(2) by (simp add: pget_or_def)
next
  case False
  then show ?thesis using write_keys_tasks [OF assms(1) [unfolded apply_update_def] assms(2)] assms(3) by auto
qed

section \<open>The steps of the loop\<close>

definition ingest_keys :: "string list" where
  "ingest_keys =
     [''processed_worker_result_ids'', ''evidence_records'', ''evidence_refs'', ''claims'', ''support_edges'',
      ''answer_units'', ''evidence_version'', ''claim_conflicts'', ''claim_resolutions'', ''findings'',
      ''finding_diagnostics'', ''claim_admission_diagnostics'', ''salvage_evidence'', ''search_query_fingerprints'',
      ''research_value_signal'']"

text \<open>The keys the ingestion of worker results returns.\<close>

definition ingestion_scope :: "node_env \<Rightarrow> bool" where
  "ingestion_scope e \<longleftrightarrow> (\<forall>s u. ne_ingest e s = Inr u \<longrightarrow> set (dkeys u) \<subseteq> set ingest_keys)"

lemma dkeys_dput: "fst ` set (dput k v d) = insert k (fst ` set d)"
  by (induction d) auto

lemma ingest_loop_keys:
  assumes "ingestion_scope e" "ingest_findings_node e s = Inr u" "k \<in> set loop_keys"
  shows "k \<notin> fst ` set u"
proof -
  obtain v where v: "ne_ingest e s = Inr v" "u = dput ''phase'' (PStr (phase_value PH_INGEST_FINDINGS)) v"
    using assms(2) by (auto simp: ingest_findings_node_def ebind_eq_Inr dest: transition_writes_phase)
  then have "fst ` set v \<subseteq> set ingest_keys" using assms(1) by (auto simp: ingestion_scope_def)
  moreover have "k \<noteq> ''phase''" "k \<notin> set ingest_keys" using assms(3) by (auto simp: loop_keys_def ingest_keys_def)
  ultimately show ?thesis by (auto simp: v(2) dkeys_dput)
qed

lemma coverage_loop_keys: "coverage_judge_node e s = Inr u \<Longrightarrow> k \<in> set loop_keys \<Longrightarrow> k \<notin> fst ` set u"
  by (auto simp: coverage_judge_node_def ebind_eq_Inr loop_keys_def dest!: transition_writes_phase)

lemma researcher_loop_keys: "researcher_node s = Inr u \<Longrightarrow> k \<in> set loop_keys \<Longrightarrow> k \<notin> fst ` set u"
  by (auto simp: researcher_node_def Let_def loop_keys_def)

lemma synthesis_loop_keys: "synthesize_node e s = Inr u \<Longrightarrow> k \<in> set loop_keys \<Longrightarrow> k \<notin> fst ` set u"
  by (auto simp: synthesize_node_def ebind_eq_Inr loop_keys_def dest!: transition_writes_phase)

lemma quality_loop_keys: "quality_gate_node s = Inr u \<Longrightarrow> k \<in> set loop_keys \<Longrightarrow> k \<notin> fst ` set u"
  by (auto simp: quality_gate_node_def ebind_eq_Inr loop_keys_def dest!: transition_writes_phase)

lemma brief_payload_keys:
  assumes "brief_node e s = Inr u"
  shows "dget u ''budget'' = None" "dget u ''supervisor'' = None" "truthy (pget u ''plan'')" "no_failed (pget u ''tasks'')"
    "dget u ''plan'' = Some (pget u ''plan'')"
  using assms
  by (auto simp: brief_node_def brief_plan_payload_def ebind_eq_Inr no_failed_initial plan_to_dict_def
      dest!: transition_writes_phase)

lemma settle_Inr: "settle (Inr s) n = (case next_of n s of Inl e \<Rightarrow> Crashed e | Inr r \<Rightarrow> follow s r)"
  by (simp add: settle_def split: sum.splits)

lemma channel_plain: "channel_of ''plan'' = Some LastValue" "channel_of ''control_decision'' = Some LastValue"
    "channel_of ''supervisor'' = Some LastValue" "channel_of ''quality_assessment'' = Some LastValue"
  by (simp_all add: channel_of_def reduced_keys_def plain_keys_def)

section \<open>The supervisor's step\<close>

lemma dispatch_payload_shape:
  assumes "dispatch_payload e s b w a approved = Inr d"
  shows "dkeys d \<in> {[], [''plan'', ''plan_version'', ''tasks'', ''dispatch_wave_id'', ''task_fingerprints'']}"
    and "dget d ''tasks'' = None \<or> no_failed (pget d ''tasks'')"
    and "dget d ''plan'' = None \<or> truthy (pget d ''plan'')"
  using assms
  by (auto simp: dispatch_payload_def ebind_eq_Inr no_failed_initial plan_to_dict_def split: if_splits)

lemma strategy_payload_form:
  assumes "strategy_payload e s = Inr p" "truthy (pget s ''plan'')"
  obtains b w a approved d action last_action reasoning where "dispatch_payload e s b w a approved = Inr d"
    "p = [(''supervisor_action'', action), (''supervisor'', PDict [(''iteration'', PInt (iteration_of s + 1)),
            (''last_action'', last_action), (''reasoning_summary'', reasoning)])] @ d"
  using assms by (auto simp: strategy_payload_def Let_def ebind_eq_Inr iteration_of_def)

lemma strategy_payload_shape:
  assumes "strategy_payload e s = Inr p" "truthy (pget s ''plan'')"
  shows "pget (as_dict (pget p ''supervisor'')) ''iteration'' = PInt (iteration_of s + 1)"
    and "dget p ''supervisor'' = Some (pget p ''supervisor'')" "is_dict (pget p ''supervisor'')"
    and "dget p ''budget'' = None" "dget p ''tasks'' = None \<or> no_failed (pget p ''tasks'')"
    and "dget p ''plan'' = None \<or> truthy (pget p ''plan'')" "distinct (dkeys p)"
proof -
  obtain b w a approved d action last_action reasoning where d: "dispatch_payload e s b w a approved = Inr d"
    and p: "p = [(''supervisor_action'', action), (''supervisor'', PDict [(''iteration'', PInt (iteration_of s + 1)),
            (''last_action'', last_action), (''reasoning_summary'', reasoning)])] @ d"
    using assms by (rule strategy_payload_form)
  note shape = dispatch_payload_shape [OF d]
  show "pget (as_dict (pget p ''supervisor'')) ''iteration'' = PInt (iteration_of s + 1)"
    "dget p ''supervisor'' = Some (pget p ''supervisor'')" "is_dict (pget p ''supervisor'')"
    by (simp_all add: p pget_or_def)
  have "''budget'' \<notin> set (dkeys d)" using shape(1) by auto
  then show "dget p ''budget'' = None" by (simp add: p map_of_eq_None_iff)
  show "dget p ''tasks'' = None \<or> no_failed (pget p ''tasks'')" "dget p ''plan'' = None \<or> truthy (pget p ''plan'')"
    using shape(2,3) by (simp_all add: p pget_or_def)
  show "distinct (dkeys p)" using shape(1) by (auto simp: p simp del: distinct_map)
qed

lemma enriched_shape:
  assumes "strategy_payload e s = Inr p" "truthy (pget s ''plan'')" "no_failed (pget s ''tasks'')"
  shows "int_or (pget (as_dict (pget (dmerge s p) ''supervisor'')) ''iteration'') 0 = Inr (iteration_of s + 1)"
    and "limit_of (dmerge s p) = limit_of s" "no_failed (pget (dmerge s p) ''tasks'')"
proof -
  note shape = strategy_payload_shape [OF assms(1,2)]
  have merged: "pget (dmerge s p) k = (case dget p k of None \<Rightarrow> pget s k | Some v \<Rightarrow> v)" for k
    by (simp add: pget_or_def dget_dmerge [OF shape(7)] split: option.splits)
  show "int_or (pget (as_dict (pget (dmerge s p) ''supervisor'')) ''iteration'') 0 = Inr (iteration_of s + 1)"
    using shape(1,2) by (simp add: merged)
  show "limit_of (dmerge s p) = limit_of s"
    using shape(4) by (simp add: limit_of_def budget_of_def merged)
  show "no_failed (pget (dmerge s p) ''tasks'')"
    using shape(5) assms(3) unfolding merged by (auto simp: pget_or_def split: option.splits)
qed

lemma decided_after:
  assumes "apply_update u s = Inr s'" "dget u ''control_decision'' = Some (PDict c)"
  shows "pget s' ''control_decision'' = PDict c"
  using apply_update_last [OF assms(1) channel_plain(2)] assms(2) by (simp add: pget_or_def)

lemma plan_issue_step:
  assumes "plan_issue_payload s issues = Inr p" "apply_update (dput ''phase'' ph p) s = Inr s'"
  shows "route_supervisor s' = Inr (Go N_FINALIZE)" "dget p ''tasks'' = None"
proof -
  have "dget p ''control_decision'' = Some (PDict [(''action'', PStr ''finalize''), (''reason_codes'', strs [''plan_validation_failed''])])"
    and tasks: "dget p ''tasks'' = None"
    using assms(1) by (auto simp: plan_issue_payload_def Let_def ebind_eq_Inr)
  then have "decided_action s' = ''finalize''"
    using decided_after [OF assms(2)] by (simp add: decided_action_def)
  then show "route_supervisor s' = Inr (Go N_FINALIZE)" by (simp add: route_supervisor_def Let_def)
  show "dget p ''tasks'' = None" by (rule tasks)
qed

lemma leaving_routes:
  assumes "decided_action s = runtime_action_value a" "a \<in> set leaving_actions"
  shows "route_supervisor s = Inr (Go N_SYNTHESIZE) \<or> route_supervisor s = Inr (Go N_FINALIZE)"
  using assms by (auto simp: route_supervisor_def Let_def)

lemma same_limit: "dget s' ''budget'' = dget s ''budget'' \<Longrightarrow> limit_of s' = limit_of s"
  by (simp add: limit_of_def budget_of_def pget_or_def)

lemma iteration_from: "pget s ''supervisor'' = PDict d \<Longrightarrow> pget d ''iteration'' = PInt k \<Longrightarrow> iteration_of s = k"
  by (cases d) (auto simp: iteration_of_def field_of_def por_def)

lemma strategy_step:
  assumes p: "strategy_payload e s = Inr p" "truthy (pget s ''plan'')" "no_failed (pget s ''tasks'')"
    and q: "controlled_payload s p = Inr q" "apply_update (dput ''phase'' ph q) s = Inr s'"
    and r: "route_supervisor s' = Inr r"
  shows "no_failed (pget s' ''tasks'')" "truthy (pget s' ''plan'')" "limit_of s' = limit_of s"
    "iteration_of s' = iteration_of s + 1" "r = Go N_SYNTHESIZE \<or> r = Go N_FINALIZE \<or> iteration_of s' \<le> limit_of s'"
proof -
  note shape = strategy_payload_shape [OF p(1,2)]
  obtain d where d: "decide_control (dmerge s p) = Inr d" "q = dput ''control_decision'' (PDict (decision_dict d)) p"
    using q(1) decide_control_action [OF _ enriched_shape(3,1) [OF p]]
    by (auto simp: controlled_payload_def Let_def ebind_eq_Inr split: if_splits)
  have leave: "limit_of s < iteration_of s + 1 \<longrightarrow> rd_action d \<in> set leaving_actions"
    using decide_control_action [OF d(1) enriched_shape(3,1) [OF p]] enriched_shape(2) [OF p] by auto
  have written: "dget (dput ''phase'' ph q) k = dget p k" if "k \<in> set loop_keys" for k
    using that by (auto simp: d(2) loop_keys_def)
  show "no_failed (pget s' ''tasks'')"
    using apply_update_tasks [OF q(2) p(3)] shape(5) written [of "''tasks''"] by (auto simp: loop_keys_def pget_or_def)
  show "truthy (pget s' ''plan'')"
    using apply_update_last [OF q(2) channel_plain(1)] shape(6) written [of "''plan''"] p(2)
    by (auto simp: loop_keys_def pget_or_def split: option.splits)
  have "dget s' ''budget'' = dget s ''budget''"
    using apply_update_last [OF q(2), of "''budget''"] shape(4) written [of "''budget''"]
    by (simp add: loop_keys_def channel_of_def reduced_keys_def plain_keys_def)
  then show limit: "limit_of s' = limit_of s" by (rule same_limit)
  have "pget s' ''supervisor'' = pget p ''supervisor''"
    using apply_update_last [OF q(2) channel_plain(3)] shape(2) written [of "''supervisor''"]
    by (auto simp: loop_keys_def pget_or_def split: option.splits)
  then show iteration: "iteration_of s' = iteration_of s + 1"
    using shape(1,3) iteration_from by (auto simp: is_dict_iff)
  have "decided_action s' = runtime_action_value (rd_action d)"
    using decided_after [OF q(2), of "decision_dict d"] by (cases "rd_action d") (simp_all add: d(2) decided_action_def decision_dict_def)
  then show "r = Go N_SYNTHESIZE \<or> r = Go N_FINALIZE \<or> iteration_of s' \<le> limit_of s'"
    using leaving_routes leave limit iteration r by force
qed

section \<open>Every step comes closer to the end\<close>

definition closer :: "config \<Rightarrow> config \<Rightarrow> bool" where
  "closer c' c \<longleftrightarrow> on_course c' \<and> config_rank c' < config_rank c"

lemma crashed_closer: "config_rank c > 0 \<Longrightarrow> closer (Crashed err) c"
  by (simp add: closer_def)

lemma settle_closer:
  assumes "0 < config_rank c" "\<And>s' r. res = Inr s' \<Longrightarrow> next_of n s' = Inr r \<Longrightarrow> closer (follow s' r) c"
  shows "closer (settle res n) c"
proof (cases "ebind res (next_of n)")
  case (Inl err)
  then have "settle res n = Crashed err" by (cases res) (auto simp: settle_def)
  then show ?thesis using crashed_closer [OF assms(1)] by simp
next
  case (Inr r)
  then obtain s' where "res = Inr s'" "next_of n s' = Inr r" by (auto simp: ebind_eq_Inr)
  then show ?thesis using assms(2) [of s' r] by (simp add: settle_def)
qed

lemma loop_step:
  assumes "apply_all us s = Inr s'" "\<forall>u\<in>set us. \<forall>k\<in>set loop_keys. k \<notin> fst ` set u"
  shows "rounds_left s' = rounds_left s" "pget s' ''tasks'' = pget s ''tasks''" "pget s' ''plan'' = pget s ''plan''"
  using same_loop_keys [of s' s] apply_all_other [OF assms(1)] assms(2) by blast+

lemma loop_step_single:
  assumes "apply_update u s = Inr s'" "\<And>k. k \<in> set loop_keys \<Longrightarrow> k \<notin> fst ` set u"
  shows "rounds_left s' = rounds_left s" "pget s' ''tasks'' = pget s ''tasks''" "pget s' ''plan'' = pget s ''plan''"
  using loop_step [of "[u]" s s'] assms by auto

lemma pending_update:
  assumes "ebind (f n s) (\<lambda>u. apply_updates [u] s) = Inr s'"
  obtains u where "f n s = Inr u" "apply_update u s = Inr s'"
  using assms by (auto simp: ebind_eq_Inr apply_updates_single)

lemma brief_closer:
  assumes "brief_node e s = Inr u" "apply_update u s = Inr s'" "no_failed (pget s ''tasks'')"
    and "route_after_brief s' = Inr r"
  shows "closer (follow s' r) (Pending N_BRIEF s)"
proof -
  note keys = brief_payload_keys [OF assms(1)]
  have plain: "dget s' k = dget s k" if "channel_of k = Some LastValue" "dget u k = None" for k
    using apply_update_last [OF assms(2) that(1)] that(2) by simp
  have "dget s' ''budget'' = dget s ''budget''" "dget s' ''supervisor'' = dget s ''supervisor''"
    using plain keys(1,2) by (auto simp: channel_of_def reduced_keys_def plain_keys_def)
  then have "rounds_left s' = rounds_left s"
    by (simp add: rounds_left_def limit_of_def iteration_of_def budget_of_def pget_or_def)
  moreover have "no_failed (pget s' ''tasks'')" using apply_update_tasks [OF assms(2,3)] keys(4) by blast
  moreover have "dget s' ''plan'' = Some (pget u ''plan'')"
    using apply_update_last [OF assms(2) channel_plain(1)] by (simp only: keys(5) option.case)
  then have "truthy (pget s' ''plan'')" using keys(3) by (simp add: pget_or_def [of s'])
  ultimately show ?thesis
    using brief_successors [OF assms(4)] by (auto simp: closer_def follow_def)
qed

lemma supervisor_closer:
  assumes "supervisor_node e s = Inr u" "apply_update u s = Inr s'" "no_failed (pget s ''tasks'')" "truthy (pget s ''plan'')"
    and "route_supervisor s' = Inr r"
  shows "closer (follow s' r) (Pending N_SUPERVISOR s)"
proof -
  obtain issues q where
      payload: "(if issues \<noteq> [] then plan_issue_payload s issues else ebind (strategy_payload e s) (controlled_payload s)) = Inr q"
    and "transition_update (PDict s) PH_SUPERVISOR q = Inr u"
    using assms(1) unfolding supervisor_node_def ebind_eq_Inr by blast
  then have q: "u = dput ''phase'' (PStr (phase_value PH_SUPERVISOR)) q" by (blast dest: transition_writes_phase)
  show ?thesis
  proof (cases "issues = []")
    case False
    then have issue: "plan_issue_payload s issues = Inr q" using payload by simp
    note step = plan_issue_step [OF issue assms(2) [unfolded q]]
    have "dget u ''tasks'' = None" using step(2) by (simp add: q)
    then have "no_failed (pget s' ''tasks'')" using apply_update_tasks [OF assms(2,3)] by blast
    then show ?thesis using step(1) assms(5) by (simp add: closer_def follow_def)
  next
    case True
    then obtain p where p: "strategy_payload e s = Inr p" "controlled_payload s p = Inr q" using payload by (auto simp: ebind_eq_Inr)
    note step = strategy_step [OF p(1) assms(4,3) p(2) assms(2) [unfolded q] assms(5)]
    show ?thesis
      using step supervisor_successors [OF assms(5)]
      by (auto simp: closer_def follow_def rounds_left_def)
  qed
qed

lemma default_closer:
  assumes "ingestion_scope e" "on_course c" "0 < config_rank c"
  shows "closer (graph_step (default_nodes e) c) c"
proof (cases c)
  case (Pending n s)
  show ?thesis
    unfolding Pending graph_step.simps
  proof (rule settle_closer)
    show "0 < config_rank (Pending n s)" using assms(3) Pending by simp
  next
    fix s' r
    assume r: "next_of n s' = Inr r" and "ebind (default_nodes e n s) (\<lambda>u. apply_updates [u] s) = Inr s'"
    then obtain u where u: "default_nodes e n s = Inr u" "apply_update u s = Inr s'" by (auto elim: pending_update)
    have ok: "n \<noteq> N_RESEARCHER" "no_failed (pget s ''tasks'')"
        "n \<in> {N_SUPERVISOR, N_COVERAGE, N_INGEST} \<Longrightarrow> truthy (pget s ''plan'')"
      using assms(2) Pending by auto
    show "closer (follow s' r) (Pending n s)"
    proof (cases n)
      case N_BRIEF
      then show ?thesis using brief_closer [of e s u s' r] u ok r by (simp add: default_nodes_def)
    next
      case N_SUPERVISOR
      then show ?thesis using supervisor_closer [of e s u s' r] u ok r by (simp add: default_nodes_def)
    next
      case N_INGEST
      then show ?thesis
        using loop_step_single [OF u(2) ingest_loop_keys [OF assms(1), of s u]] u ok r
        by (auto simp: default_nodes_def closer_def follow_def)
    next
      case N_COVERAGE
      then show ?thesis
        using loop_step_single [OF u(2) coverage_loop_keys [of e s u]] u ok r
        by (auto simp: default_nodes_def closer_def follow_def route_coverage_judge_def)
    next
      case N_SYNTHESIZE
      then show ?thesis
        using loop_step_single [OF u(2) synthesis_loop_keys [of e s u]] u ok r
        by (auto simp: default_nodes_def closer_def follow_def)
    next
      case N_QUALITY
      then have gate: "quality_gate_node s = Inr u" using u by (simp add: default_nodes_def)
      then obtain q where "dget u ''quality_assessment'' = Some (PDict q)" "pget q ''repairable'' = PBool False"
        by (auto simp: quality_gate_node_def ebind_eq_Inr dest!: transition_writes_phase)
      then have "route_after_quality s' = Inr N_FINALIZE"
        using apply_update_last [OF u(2) channel_plain(4)] by (simp add: route_after_quality_def pget_or_def)
      then have "r = Go N_FINALIZE" using r N_QUALITY by simp
      then show ?thesis
        using loop_step_single [OF u(2) quality_loop_keys [OF gate]] ok N_QUALITY
        by (simp add: closer_def follow_def)
    next
      case N_VANILLA
      then have "''tasks'' \<notin> fst ` set u"
        using u(1) by (auto simp: default_nodes_def vanilla_agent_node_def Let_def dest!: transition_writes_phase)
      then have "no_failed (pget s' ''tasks'')" using apply_update_other [OF u(2)] ok(2) by (simp add: pget_or_def)
      then show ?thesis using N_VANILLA r by (auto simp: closer_def follow_def)
    qed (use ok r in \<open>auto simp: closer_def follow_def\<close>)
  qed
next
  case (Fanned ps s)
  show ?thesis
    unfolding Fanned graph_step.simps
  proof (rule settle_closer)
    fix s' r
    assume r: "next_of N_RESEARCHER s' = Inr r"
      and "ebind (emap (default_nodes e N_RESEARCHER) ps) (\<lambda>us. apply_updates us s) = Inr s'"
    then obtain us where us: "emap researcher_node ps = Inr us" "apply_all us s = Inr s'"
      by (auto simp: ebind_eq_Inr default_nodes_def dest: apply_updates_all)
    have "\<forall>u\<in>set us. \<forall>k\<in>set loop_keys. k \<notin> fst ` set u"
      using emap_set [OF us(1)] researcher_loop_keys by blast
    then show "closer (follow s' r) (Fanned ps s)"
      using loop_step [OF us(2)] assms(2) Fanned r by (auto simp: closer_def follow_def)
  qed simp
qed (use assms(3) in simp_all)

lemma rank_zero: "on_course c \<Longrightarrow> config_rank c = 0 \<Longrightarrow> (\<exists>s. c = Ended s) \<or> (\<exists>err. c = Crashed err)"
  by (cases c) (auto split: node.splits)

lemma run_ended: "(\<exists>s. c = Ended s) \<or> (\<exists>err. c = Crashed err) \<Longrightarrow> graph_run f n c = c"
  by (induction n) auto

lemma default_terminates:
  assumes "ingestion_scope e" "on_course c" "config_rank c \<le> n"
  shows "(\<exists>s. graph_run (default_nodes e) n c = Ended s) \<or> (\<exists>err. graph_run (default_nodes e) n c = Crashed err)"
  using assms(2,3)
proof (induction n arbitrary: c)
  case (Suc n)
  show ?case
  proof (cases "config_rank c = 0")
    case True
    then show ?thesis using rank_zero [OF Suc.prems(1)] run_ended [of c] by metis
  next
    case False
    then show ?thesis
      using default_closer [OF assms(1) Suc.prems(1)] Suc.IH [of "graph_step (default_nodes e) c"] Suc.prems(2)
      by (simp add: closer_def)
  qed
qed (use rank_zero in simp)

end
