(* ===== verification/WorkflowProps.thy ===== *)
theory WorkflowProps
  imports WorkflowTermination BriefPlanProps
begin

text \<open>
  What holds of whole runs of the workflow graph: they end within a number of supersteps given by
  the replanning limit, and workers are dispatched only when the initial plan has no issues.
\<close>

section \<open>Every run ends\<close>

lemma initial_limit:
  "limit_of (empty_research_state r se q u t p calls replans mode engine) = max 0 replans"
  by (simp add: limit_of_def budget_of_def empty_research_state_def Let_def)

lemma initial_iteration: "iteration_of (empty_research_state r se q u t p calls replans mode engine) = 0"
  by (simp add: iteration_of_def field_of_def por_def empty_research_state_def Let_def)

lemma initial_tasks: "pget (empty_research_state r se q u t p calls replans mode engine) ''tasks'' = PDict []"
  by (simp add: empty_research_state_def Let_def)

lemma start_on_course:
  "pget s ''tasks'' = PDict [] \<Longrightarrow> on_course (start_config direct s)"
  by (simp add: start_config_def no_failed_def)

text \<open>
  C7. The workflow cannot loop: from the initial state, whatever the workers find and however coverage
  is judged, the run has ended (or one of its nodes has raised) after at most
  \<open>4 * (max_replan_count + 1) + 8\<close> supersteps.
\<close>

theorem default_graph_ends:
  assumes "ingestion_scope e"
  shows "\<exists>s err. graph_run (default_nodes e) (4 * nat (max 0 replans + 1) + 8)
      (start_config direct (empty_research_state r se q u t p calls replans mode engine)) \<in> {Ended s, Crashed err}"
proof -
  let ?s = "empty_research_state r se q u t p calls replans mode engine"
  have "config_rank (start_config direct ?s) \<le> 4 * nat (max 0 replans + 1) + 8"
    by (simp add: start_config_def rounds_left_def initial_limit initial_iteration)
  then show ?thesis
    using default_terminates [OF assms start_on_course [OF initial_tasks]] by auto
qed

definition quiet_env :: node_env where
  "quiet_env =
     \<lparr>ne_environ = (\<lambda>_. None), ne_compile_brief = (\<lambda>q c. example_structured_brief),
      ne_bind_lineage = (\<lambda>b ts. ts), ne_ingest = (\<lambda>s. Inr [(''evidence_refs'', PList [])]),
      ne_judge = (\<lambda>b i. Inr closed_example), ne_partial_answer = (\<lambda>b ps j es. Inr ''partial''), ne_scrub = id\<rparr>"

lemma quiet_scope: "ingestion_scope quiet_env"
  by (simp add: ingestion_scope_def quiet_env_def ingest_keys_def)

lemma default_graph_ends_witness:
  "\<exists>s err. graph_run (default_nodes quiet_env) 16
      (start_config False (empty_research_state ''r'' ''s'' ''When?'' [] [] [] 80 1 [] ''legacy_v1''))
      \<in> {Ended s, Crashed err}"
  using default_graph_ends [OF quiet_scope, of 1 False "''r''" "''s''" "''When?''" "[]" "[]" "[]" 80 "[]" "''legacy_v1''"]
  by simp

section \<open>Workers need a valid plan\<close>

lemma sent_by_brief: "route_after_brief s = Inr (Send ps) \<Longrightarrow> \<not> truthy (pget s ''plan_validation'')"
  by (auto simp: route_after_brief_def split: if_splits)

lemma strategy_keeps_validation:
  assumes "strategy_payload e s = Inr p"
  shows "dget p ''plan_validation'' = None"
  using assms
  by (auto simp: strategy_payload_def dispatch_payload_def Let_def ebind_eq_Inr split: if_splits)

lemma sent_by_supervisor:
  assumes "supervisor_node e s = Inr u" "apply_update u s = Inr s'" "route_supervisor s' = Inr (Send ps)"
  shows "dict_rows (pget s' ''plan_validation'') = Inr []"
proof -
  obtain issues q where issues: "dict_rows (pget s ''plan_validation'') = Inr issues"
    and payload: "(if issues \<noteq> [] then plan_issue_payload s issues else ebind (strategy_payload e s) (controlled_payload s)) = Inr q"
    and "transition_update (PDict s) PH_SUPERVISOR q = Inr u"
    using assms(1) unfolding supervisor_node_def ebind_eq_Inr by blast
  then have u: "u = dput ''phase'' (PStr (phase_value PH_SUPERVISOR)) q" by (blast dest: transition_writes_phase)
  have none: "issues = []"
  proof (rule ccontr)
    assume "issues \<noteq> []"
    then have "plan_issue_payload s issues = Inr q" using payload by simp
    from plan_issue_step(1) [OF this assms(2) [unfolded u]] show False using assms(3) by simp
  qed
  then obtain p where "strategy_payload e s = Inr p" "controlled_payload s p = Inr q"
    using payload by (auto simp: ebind_eq_Inr)
  then have "dget u ''plan_validation'' = None"
    using strategy_keeps_validation
    by (auto simp: u controlled_payload_def Let_def ebind_eq_Inr split: if_splits)
  then have "pget s' ''plan_validation'' = pget s ''plan_validation''"
    using apply_update_last [OF assms(2), of "''plan_validation''"]
    by (simp add: channel_of_def reduced_keys_def plain_keys_def pget_or_def)
  then show ?thesis using issues none by simp
qed

lemma send_sources: "next_of n s = Inr (Send ps) \<Longrightarrow> n = N_BRIEF \<or> n = N_SUPERVISOR"
  by (cases n) (auto simp: ebind_eq_Inr)

lemma settle_Fanned: "settle r n = Fanned ps s \<Longrightarrow> r = Inr s \<and> next_of n s = Inr (Send ps)"
  by (rule settle_cases [of r n]) auto

lemma fanned_step:
  assumes "graph_step (default_nodes e) c = Fanned ps s" "\<nexists>s. c = Ended s"
  shows "dict_rows (pget s ''plan_validation'') = Inr []"
proof -
  obtain n where n: "n = N_BRIEF \<or> n = N_SUPERVISOR" and next_s: "next_of n s = Inr (Send ps)"
    and pre: "\<exists>t u. c = Pending n t \<and> default_nodes e n t = Inr u \<and> apply_update u t = Inr s"
  proof (cases c)
    case (Pending n t)
    then have "settle (ebind (default_nodes e n t) (\<lambda>u. apply_updates [u] t)) n = Fanned ps s" using assms(1) by simp
    from settle_Fanned [OF this]
    have "ebind (default_nodes e n t) (\<lambda>u. apply_updates [u] t) = Inr s" "next_of n s = Inr (Send ps)" by blast+
    then show ?thesis using that [of n] send_sources [of n s ps] Pending by (auto elim: pending_update)
  next
    case (Fanned qs t)
    then have "settle (ebind (emap (default_nodes e N_RESEARCHER) qs) (\<lambda>us. apply_updates us t)) N_RESEARCHER = Fanned ps s"
      using assms(1) by simp
    from settle_Fanned [OF this] show ?thesis by simp
  qed (use assms in auto)
  then show ?thesis
    using sent_by_brief [of s ps] sent_by_supervisor [of e _ _ s ps]
    by (auto simp: default_nodes_def dict_rows_def iter_or_empty_def por_def)
qed

text \<open>The plan the brief node makes, and the validation it leaves in the state.\<close>

definition initial_plan :: "node_env \<Rightarrow> pydict \<Rightarrow> structured_brief \<Rightarrow> execution_plan res" where
  "initial_plan e s b =
     ebind (int_or (pget s ''plan_version'') 1) (\<lambda>version.
     ebind (execution_plan_from_brief (ne_environ e) b version default_worker_query_budget) (\<lambda>plan0.
       if takes_fast_path b then simple_fact_plan plan0 else Inr plan0))"

definition validation_of_brief :: "node_env \<Rightarrow> pydict \<Rightarrow> pydict \<Rightarrow> bool" where
  "validation_of_brief e s0 s \<longleftrightarrow>
     (\<exists>b p issues. state_brief e s0 = Inr b \<and> initial_plan e s0 b = Inr p
        \<and> validate_brief_plan default_worker_query_budget p (Some b) = Inr issues
        \<and> pget s ''plan_validation'' = PList (map (\<lambda>i. PDict (plan_issue_to_dict i)) issues))"

lemma brief_node_validation:
  assumes "brief_node e s0 = Inr u" "apply_update u s0 = Inr s"
  shows "validation_of_brief e s0 s"
proof -
  obtain b planned where b: "state_brief e s0 = Inr b" "brief_plan_payload e s0 b = Inr planned"
    and u: "dget u ''plan_validation'' = dget planned ''plan_validation''"
    using assms(1) by (auto simp: brief_node_def ebind_eq_Inr dest!: transition_writes_phase)
  obtain p issues where p: "initial_plan e s0 b = Inr p" "validate_brief_plan default_worker_query_budget p (Some b) = Inr issues"
    and "dget planned ''plan_validation'' = Some (PList (map (\<lambda>i. PDict (plan_issue_to_dict i)) issues))"
    using b(2) by (auto simp: brief_plan_payload_def initial_plan_def ebind_eq_Inr)
  then have "pget s ''plan_validation'' = PList (map (\<lambda>i. PDict (plan_issue_to_dict i)) issues)"
    using apply_update_last [OF assms(2), of "''plan_validation''"] u
    by (simp add: channel_of_def reduced_keys_def plain_keys_def pget_or_def)
  then show ?thesis using b(1) p by (auto simp: validation_of_brief_def)
qed

text \<open>No other node of the research loop writes the validation.\<close>

lemma supervisor_validation_key:
  assumes "supervisor_node e s = Inr u"
  shows "dget u ''plan_validation'' = None"
proof -
  obtain issues q where payload: "(if issues \<noteq> [] then plan_issue_payload s issues else ebind (strategy_payload e s) (controlled_payload s)) = Inr q"
    and "transition_update (PDict s) PH_SUPERVISOR q = Inr u"
    using assms unfolding supervisor_node_def ebind_eq_Inr by blast
  then have u: "u = dput ''phase'' (PStr (phase_value PH_SUPERVISOR)) q" by (blast dest: transition_writes_phase)
  have "dget q ''plan_validation'' = None"
  proof (cases "issues = []")
    case True
    then obtain p where "strategy_payload e s = Inr p" "controlled_payload s p = Inr q" using payload by (auto simp: ebind_eq_Inr)
    then show ?thesis using strategy_keeps_validation
      by (auto simp: controlled_payload_def Let_def ebind_eq_Inr split: if_splits)
  next
    case False
    then show ?thesis using payload by (auto simp: plan_issue_payload_def Let_def ebind_eq_Inr)
  qed
  then show ?thesis by (simp add: u)
qed

lemma ingest_validation_key:
  assumes "ingestion_scope e" "ingest_findings_node e s = Inr u"
  shows "''plan_validation'' \<notin> fst ` set u"
proof -
  obtain v where v: "ne_ingest e s = Inr v" "u = dput ''phase'' (PStr (phase_value PH_INGEST_FINDINGS)) v"
    using assms(2) by (auto simp: ingest_findings_node_def ebind_eq_Inr dest: transition_writes_phase)
  then have "fst ` set v \<subseteq> set ingest_keys" using assms(1) by (auto simp: ingestion_scope_def)
  moreover have "''plan_validation'' \<notin> set ingest_keys" by (simp add: ingest_keys_def)
  ultimately show ?thesis by (auto simp: v(2) dkeys_dput)
qed

lemma coverage_validation_key: "coverage_judge_node e s = Inr u \<Longrightarrow> ''plan_validation'' \<notin> fst ` set u"
  by (auto simp: coverage_judge_node_def ebind_eq_Inr dest!: transition_writes_phase)

lemma loop_validation_key:
  assumes "ingestion_scope e" "n \<in> {N_SUPERVISOR, N_INGEST, N_COVERAGE}" "default_nodes e n s = Inr u"
  shows "''plan_validation'' \<notin> fst ` set u"
proof -
  consider "supervisor_node e s = Inr u" | "ingest_findings_node e s = Inr u" | "coverage_judge_node e s = Inr u"
    using assms(2,3) by (auto simp: default_nodes_def)
  then show ?thesis
  proof cases
    case 1
    then show ?thesis using supervisor_validation_key by (simp add: map_of_eq_None_iff)
  next
    case 2
    then show ?thesis using ingest_validation_key [OF assms(1)] by blast
  next
    case 3
    then show ?thesis using coverage_validation_key by blast
  qed
qed

lemma validation_kept: "validation_of_brief e s0 s \<Longrightarrow> pget s' ''plan_validation'' = pget s ''plan_validation'' \<Longrightarrow> validation_of_brief e s0 s'"
  by (simp add: validation_of_brief_def)

abbreviation closing_nodes :: "node set" where
  "closing_nodes \<equiv> {N_SYNTHESIZE, N_QUALITY, N_FINALIZE, N_VANILLA}"

fun plan_checked :: "node_env \<Rightarrow> pydict \<Rightarrow> config \<Rightarrow> bool" where
  "plan_checked e s0 (Pending n s) \<longleftrightarrow>
     n \<in> closing_nodes \<or> n = N_BRIEF \<and> s = s0
     \<or> n \<in> {N_SUPERVISOR, N_INGEST, N_COVERAGE} \<and> validation_of_brief e s0 s"
| "plan_checked e s0 (Fanned ps s) \<longleftrightarrow> validation_of_brief e s0 s"
| "plan_checked e s0 (Ended s) \<longleftrightarrow> True"
| "plan_checked e s0 (Crashed err) \<longleftrightarrow> True"

lemma settle_checked:
  assumes "\<And>s r. res = Inr s \<Longrightarrow> next_of n s = Inr r \<Longrightarrow> plan_checked e s0 (follow s r)"
  shows "plan_checked e s0 (settle res n)"
  using assms by (cases res; cases "next_of n (projr res)") (auto simp: settle_def)

lemma route_supervisor_nodes:
  "route_supervisor s = Inr r \<Longrightarrow> (\<exists>ps. r = Send ps) \<or> r = Go N_COVERAGE \<or> r = Go N_SYNTHESIZE \<or> r = Go N_FINALIZE"
  by (auto simp: route_supervisor_def route_dispatch_def send_or_def Let_def ebind_eq_Inr split: if_splits)

lemma route_brief_nodes: "route_after_brief s = Inr r \<Longrightarrow> (\<exists>ps. r = Send ps) \<or> r = Go N_SUPERVISOR"
  by (auto simp: route_after_brief_def send_or_def ebind_eq_Inr split: if_splits)

lemma route_quality_nodes: "route_after_quality s = Inr n \<Longrightarrow> n = N_SYNTHESIZE \<or> n = N_FINALIZE"
  by (auto simp: route_after_quality_def Let_def ebind_eq_Inr split: if_splits)

lemma closing_next: "n \<in> closing_nodes \<Longrightarrow> next_of n s = Inr r \<Longrightarrow> r = Stop \<or> (\<exists>m\<in>closing_nodes. r = Go m)"
  by (auto simp: ebind_eq_Inr dest: route_quality_nodes)

lemma loop_next:
  "n \<in> {N_BRIEF, N_SUPERVISOR, N_INGEST, N_COVERAGE} \<Longrightarrow> next_of n s = Inr r
    \<Longrightarrow> (\<exists>ps. r = Send ps) \<or> (\<exists>m\<in>closing_nodes \<union> {N_SUPERVISOR, N_COVERAGE}. r = Go m)"
  using route_supervisor_nodes [of s r] route_brief_nodes [of s r] by (auto simp: route_coverage_judge_def split: if_splits)

lemma follow_checked:
  "validation_of_brief e s0 s \<Longrightarrow> n \<in> {N_BRIEF, N_SUPERVISOR, N_INGEST, N_COVERAGE} \<Longrightarrow> next_of n s = Inr r
    \<Longrightarrow> plan_checked e s0 (follow s r)"
  using loop_next [of n s r] by (auto simp: follow_def)

lemma plan_checked_step:
  assumes scope: "ingestion_scope e" and checked: "plan_checked e s0 c"
  shows "plan_checked e s0 (graph_step (default_nodes e) c)"
proof (cases c)
  case (Pending n s)
  have "plan_checked e s0 (follow s' r)"
    if run: "ebind (default_nodes e n s) (\<lambda>u. apply_updates [u] s) = Inr s'" and r: "next_of n s' = Inr r" for s' r
  proof -
    obtain u where u: "default_nodes e n s = Inr u" "apply_update u s = Inr s'" by (rule pending_update [where f = "default_nodes e" and n = n and s = s, OF run])
    consider "n \<in> closing_nodes" | "n = N_BRIEF" "s = s0" | "n \<in> {N_SUPERVISOR, N_INGEST, N_COVERAGE}" "validation_of_brief e s0 s"
      using checked Pending by auto
    then show ?thesis
    proof cases
      case 1
      then show ?thesis using closing_next [OF _ r] by (auto simp: follow_def)
    next
      case 2
      then have "validation_of_brief e s0 s'" using brief_node_validation u by (simp add: default_nodes_def)
      then show ?thesis using follow_checked [OF _ _ r] 2(1) by blast
    next
      case 3
      have "dget s' ''plan_validation'' = dget s ''plan_validation''"
        by (rule apply_update_other [OF u(2) loop_validation_key [OF scope 3(1) u(1)]])
      then have "validation_of_brief e s0 s'" using validation_kept [OF 3(2)] by (simp add: pget_or_def)
      then show ?thesis using follow_checked [OF _ _ r] 3(1) by blast
    qed
  qed
  then show ?thesis using Pending settle_checked by simp
next
  case (Fanned ps s)
  have "plan_checked e s0 (follow s' r)"
    if run: "ebind (emap (default_nodes e N_RESEARCHER) ps) (\<lambda>us. apply_updates us s) = Inr s'"
      and r: "next_of N_RESEARCHER s' = Inr r" for s' r
  proof -
    obtain us where us: "emap (default_nodes e N_RESEARCHER) ps = Inr us" "apply_updates us s = Inr s'"
      using run by (auto simp: ebind_eq_Inr)
    have "''plan_validation'' \<notin> fst ` set u" if "u \<in> set us" for u
    proof -
      obtain p where "default_nodes e N_RESEARCHER p = Inr u"
        using us(1) \<open>u \<in> set us\<close> by (fastforce simp: emap_eq_Inr_iff list_all2_conv_all_nth in_set_conv_nth)
      then show ?thesis by (auto simp: default_nodes_def researcher_node_def Let_def)
    qed
    then have "dget s' ''plan_validation'' = dget s ''plan_validation''"
      using us(2) apply_all_other [of us s s' "''plan_validation''"] by (auto simp: apply_updates_def Let_def split: if_splits)
    then have "validation_of_brief e s0 s'" using validation_kept checked Fanned by (simp add: pget_or_def)
    then show ?thesis using r by (auto simp: follow_def)
  qed
  then show ?thesis unfolding Fanned graph_step.simps by (rule settle_checked)
qed simp_all

lemma reached_plan_checked:
  "graph_reach (default_nodes e) (start_config direct s0) c \<Longrightarrow> ingestion_scope e \<Longrightarrow> plan_checked e s0 c"
  by (induction rule: graph_reach.induct) (auto simp: start_config_def intro: plan_checked_step)

text \<open>
  C9. In no run is a worker of any wave dispatched when the initial plan has an issue: whenever the graph
  fans out to workers, the plan made from the brief was validated and the validation found nothing.
\<close>

theorem workers_need_valid_plan:
  assumes "ingestion_scope e" and "graph_reach (default_nodes e) (start_config direct s0) (Fanned payloads s)"
  shows "\<exists>b p. state_brief e s0 = Inr b \<and> initial_plan e s0 b = Inr p
    \<and> validate_brief_plan default_worker_query_budget p (Some b) = Inr []"
  using assms(2)
proof (cases rule: graph_reach.cases)
  case start
  then show ?thesis by (simp add: start_config_def)
next
  case (step c)
  then have "\<nexists>t. c = Ended t" by auto
  then have none: "dict_rows (pget s ''plan_validation'') = Inr []" using fanned_step [of e c payloads s] step(1) by simp
  obtain b p issues where b: "state_brief e s0 = Inr b" "initial_plan e s0 b = Inr p"
      "validate_brief_plan default_worker_query_budget p (Some b) = Inr issues"
      "pget s ''plan_validation'' = PList (map (\<lambda>i. PDict (plan_issue_to_dict i)) issues)"
    using reached_plan_checked [OF assms(2,1)] by (auto simp: validation_of_brief_def)
  have "issues = []" using none b(4) by (cases issues) (simp_all add: dict_rows_def iter_or_empty_def por_def)
  then show ?thesis using b(1-3) by blast
qed

section \<open>The first wave\<close>

lemma channel_of_simps [simp]:
  "channel_of ''brief'' = Some LastValue" "channel_of ''answer_spec'' = Some LastValue"
  "channel_of ''engine_version'' = Some LastValue" "channel_of ''fast_path'' = Some LastValue"
  "channel_of ''route_signals'' = Some LastValue" "channel_of ''plan'' = Some LastValue"
  "channel_of ''plan_validation'' = Some LastValue" "channel_of ''brief_plan'' = Some LastValue"
  "channel_of ''dispatch_wave_id'' = Some LastValue" "channel_of ''tasks'' = Some MergeDicts"
  "channel_of ''phase'' = Some KeepLast"
  by (simp_all add: channel_of_def reduced_keys_def plain_keys_def)

lemma payloads_described:
  assumes "dget s ''task_query'' = Some q" "pget s ''tasks'' = PDict ts"
  shows "\<exists>payloads. emap (worker_payload s) xs = Inr payloads
     \<and> map (\<lambda>p. pget p ''description'') payloads = map (\<lambda>(i, st). PStr (description st)) xs
     \<and> (\<forall>p\<in>set payloads. pget p ''phase'' = PStr (phase_value PH_EXECUTE))"
proof (induction xs)
  case (Cons x xs)
  obtain i st where x: "x = (i, st)" by (cases x)
  have "\<exists>p. worker_payload s x = Inr p \<and> pget p ''description'' = PStr (description st)
      \<and> pget p ''phase'' = PStr (phase_value PH_EXECUTE)"
    using assms by (simp add: x worker_payload_def dmerge_def)
  then show ?case using Cons by (auto simp: x)
qed simp

lemma indexed_stored [simp]: "indexed_steps (stored_plan p) = indexed_steps p"
  by (simp add: indexed_steps_def stored_plan_def)

lemma map_indexed: "map (\<lambda>(i, st). f st) (indexed_steps p) = map f (plan_steps p)"
  by (rule nth_equalityI) (auto simp: indexed_steps_def)

lemma brief_plan_descriptions:
  assumes "execution_plan_from_brief env b v qb = Inr p" "brief_spec b = Inr spec"
  shows "map description (plan_steps p) = plan_questions b spec"
proof -
  have "description st = step_objective st" if st: "st \<in> set (plan_steps p)" for st
  proof -
    obtain i where i: "i < length (plan_steps p)" "st = plan_steps p ! i" using st by (auto simp: in_set_conv_nth)
    then obtain rows t where "task_step env qb b rows t = Inr st"
      using brief_plan_step(2) [OF assms, of i] brief_plan_step(1) [OF assms] by auto
    then show ?thesis by (auto simp: task_step_def ebind_eq_Inr)
  qed
  then have "map description (plan_steps p) = map step_objective (plan_steps p)" by simp
  then show ?thesis using brief_plan_objectives [OF assms] by simp
qed

lemma first_wave:
  assumes brief: "state_brief e s = Inr b" "brief_spec b = Inr spec" "sb_engine_version b \<noteq> ''answer_contract_v2''"
      "\<not> fast_path_eligible b" "key_questions b \<noteq> []" "\<forall>q\<in>set (key_questions b). py_strip q \<noteq> []"
    and state: "in_phase PH_BOOTSTRAP s" "dget s ''task_query'' = Some q" "int_or (pget s ''plan_version'') 1 = Inr v"
      "dict_or_empty (pget s ''tasks'') = Inr ts"
  shows "\<exists>payloads s'. graph_step (default_nodes e) (Pending N_BRIEF s) = Fanned payloads s'
     \<and> map (\<lambda>p. pget p ''description'') payloads = map PStr (key_questions b)
     \<and> (\<forall>p\<in>set payloads. pget p ''phase'' = PStr (phase_value PH_EXECUTE))"
proof -
  note spec = brief(2)
  have v1: "\<not> uses_v2 b" using brief(3) by (simp add: uses_v2_def)
  obtain p where p: "execution_plan_from_brief (ne_environ e) b v default_worker_query_budget = Inr p"
    using brief_plan_total [OF spec] by blast
  have valid: "validate_brief_plan default_worker_query_budget p (Some b) = Inr []"
    by (rule brief_plan_validates [OF p spec v1 brief(6)])
  obtain tasks where tasks: "build_brief_and_plan b (plan_version p) = Inr tasks"
    by (simp add: build_brief_and_plan_def spec Let_def)
  let ?plan = "PDict (plan_to_dict p)"
  let ?payload = "[(''brief'', PDict (brief_to_dict b)), (''answer_spec'', PDict (sb_answer_spec b)),
     (''engine_version'', PStr (sb_engine_version b)), (''fast_path'', PBool False),
     (''route_signals'', strs [''brief_intent:'' @ sb_user_intent b, ''topology:supervisor_loop'']), (''plan'', ?plan),
     (''tasks'', tasks_to_py (initialize_tasks p)), (''plan_validation'', PList []),
     (''brief_plan'', PDict (brief_and_plan_to_dict b tasks)), (''dispatch_wave_id'', PInt 1)]"
  have node: "brief_node e s = Inr (dput ''phase'' (PStr (phase_value PH_BRIEF)) ?payload)"
    using brief(3,4) guard_accepts [OF state(1), of PH_BRIEF ?payload]
    by (simp add: brief_node_def brief(1) brief_plan_payload_def state(3) p takes_fast_path_def valid tasks)
  obtain s' where s': "apply_update (dput ''phase'' (PStr (phase_value PH_BRIEF)) ?payload) s = Inr s'"
      "pget s' ''plan'' = ?plan" "pget s' ''plan_validation'' = PList []" "dget s' ''task_query'' = Some q"
      "pget s' ''tasks'' = PDict (merge_dicts ts (map (\<lambda>(k, t). (k, task_to_py t)) (initialize_tasks p)))"
    using state(2,4) by (simp add: apply_update_def tasks_to_py_def keep_last_def del: phase_value.simps)
  obtain payloads where payloads: "emap (worker_payload s') (indexed_steps p) = Inr payloads"
      "map (\<lambda>p. pget p ''description'') payloads = map (\<lambda>(i, st). PStr (description st)) (indexed_steps p)"
      "\<forall>p\<in>set payloads. pget p ''phase'' = PStr (phase_value PH_EXECUTE)"
    using payloads_described [OF s'(4,5)] by blast
  have described: "map (\<lambda>(i, st). PStr (description st)) (indexed_steps p) = map PStr (key_questions b)"
  proof -
    have "map PStr (map description (plan_steps p)) = map PStr (key_questions b)"
      using brief_plan_descriptions [OF p spec] v1 by (simp add: plan_questions_def split: option.splits)
    then show ?thesis by (simp add: map_indexed comp_def)
  qed
  have plan: "plan_of ?plan = Inr (stored_plan p)"
    using plan_roundtrip [of p] by (simp add: plan_of_def por_def) (simp add: plan_to_dict_def)
  have "payloads \<noteq> []" using payloads(2) described brief(5) by auto
  then have route: "route_after_brief s' = Inr (Send payloads)"
    using s'(2,3) payloads(1) plan by (simp add: route_after_brief_def send_or_def) (simp add: plan_to_dict_def)
  have "apply_updates [dput ''phase'' (PStr (phase_value PH_BRIEF)) ?payload] s = Inr s'"
    using s'(1) by (simp only: apply_updates_single)
  then have "graph_step (default_nodes e) (Pending N_BRIEF s) = settle (Inr s') N_BRIEF"
    by (simp only: graph_step.simps default_nodes_def node.case node ebind_simps)
  also have "\<dots> = Fanned payloads s'" by (simp add: settle_Inr route follow_def)
  finally have "graph_step (default_nodes e) (Pending N_BRIEF s) = Fanned payloads s'" .
  then show ?thesis using payloads described by auto
qed

text \<open>
  C10. The first wave researches every question of the brief: for a brief of the first engine outside
  the fast path that has key questions, none of them blank, and whose answer specification, if it has one,
  can be read, from a bootstrap state with a query and readable plan version and task table the first
  superstep fans out to one worker per key question, in order, each in the execution phase and with the
  question as its task.
\<close>

theorem first_wave_dispatched:
  assumes "state_brief e s = Inr b" "brief_spec b = Inr spec" "sb_engine_version b \<noteq> ''answer_contract_v2''"
      "\<not> fast_path_eligible b" "key_questions b \<noteq> []" "\<forall>q\<in>set (key_questions b). py_strip q \<noteq> []"
    and "pget s ''phase'' = PStr (phase_value PH_BOOTSTRAP)" "dget s ''task_query'' = Some q"
      "int_or (pget s ''plan_version'') 1 = Inr v" "dict_or_empty (pget s ''tasks'') = Inr ts"
  shows "\<exists>payloads s'. graph_step (default_nodes e) (Pending N_BRIEF s) = Fanned payloads s'
     \<and> map (\<lambda>p. pget p ''description'') payloads = map PStr (key_questions b)
     \<and> list_all (\<lambda>p. pget p ''phase'' = PStr (phase_value PH_EXECUTE)) payloads"
  using first_wave [OF assms(1-6) _ assms(8-10)] assms(7) unfolding in_phase_def list_all_iff by blast

definition sample_env :: node_env where
  "sample_env = quiet_env\<lparr>ne_compile_brief := \<lambda>q c. sample_brief\<rparr>"

definition sample_start :: pydict where
  "sample_start = empty_research_state ''r'' ''s'' ''one and two'' [] [] [] 80 1 [] ''legacy_v1''"

lemma sample_start_state:
  "pget sample_start ''phase'' = PStr (phase_value PH_BOOTSTRAP)"
  "dget sample_start ''task_query'' = Some (PStr ''one and two'')"
  "int_or (pget sample_start ''plan_version'') 1 = Inr 1" "dict_or_empty (pget sample_start ''tasks'') = Inr []"
  "state_brief sample_env sample_start = Inr sample_brief"
  by (simp_all add: sample_start_def sample_env_def empty_research_state_def Let_def state_brief_def)

lemma sample_brief_questions:
  "sb_engine_version sample_brief \<noteq> ''answer_contract_v2''"
  "\<not> fast_path_eligible sample_brief" "key_questions sample_brief = [''one'', ''two'']"
  "\<forall>q\<in>set (key_questions sample_brief). py_strip q \<noteq> []"
  by (simp_all add: sample_brief_def key_questions_def py_strip_def is_space_def fast_path_eligible_def
      fast_path_reasons_def)

lemma first_wave_dispatched_witness:
  "\<exists>payloads s'. graph_step (default_nodes sample_env) (Pending N_BRIEF sample_start) = Fanned payloads s'
     \<and> map (\<lambda>p. pget p ''description'') payloads = [PStr ''one'', PStr ''two'']
     \<and> list_all (\<lambda>p. pget p ''phase'' = PStr (phase_value PH_EXECUTE)) payloads"
proof -
  obtain spec where "brief_spec sample_brief = Inr (Some spec)" using sample_spec by blast
  then show ?thesis
    using first_wave_dispatched [OF sample_start_state(5) _ sample_brief_questions(1,2) _ sample_brief_questions(4) sample_start_state(1-4)]
      sample_brief_questions(3) by simp
qed

lemma sample_scope: "ingestion_scope sample_env"
  using quiet_scope by (simp add: ingestion_scope_def sample_env_def)

lemma sample_fans_out:
  "\<exists>payloads s. graph_reach (default_nodes sample_env) (start_config False sample_start) (Fanned payloads s)"
proof -
  obtain spec where spec: "brief_spec sample_brief = Inr (Some spec)" using sample_spec by blast
  have "in_phase PH_BOOTSTRAP sample_start" using sample_start_state(1) by (simp add: in_phase_def)
  then obtain payloads s where s: "graph_step (default_nodes sample_env) (Pending N_BRIEF sample_start) = Fanned payloads s"
    using first_wave [OF sample_start_state(5) spec sample_brief_questions(1,2) _ sample_brief_questions(4) _ sample_start_state(2-4)]
      sample_brief_questions(3) by auto
  have "graph_reach (default_nodes sample_env) (start_config False sample_start) (start_config False sample_start)" by (rule start)
  from step [OF this] s show ?thesis by (auto simp: start_config_def)
qed

lemma workers_need_valid_plan_witness:
  "\<exists>p. initial_plan sample_env sample_start sample_brief = Inr p
     \<and> validate_brief_plan default_worker_query_budget p (Some sample_brief) = Inr []"
proof -
  obtain payloads s where "graph_reach (default_nodes sample_env) (start_config False sample_start) (Fanned payloads s)"
    using sample_fans_out by blast
  from workers_need_valid_plan [OF sample_scope this] show ?thesis by (auto simp: sample_start_state(5))
qed

end
