(* ===== verification/Sha1.thy ===== *)
theory Sha1
  imports Sha256
begin

text \<open>
  SHA-1 of a byte string and its hexadecimal digest, which the program uses to name documents,
  evidence sets and sources by their content.
\<close>

unbundle bit_operations_syntax

definition rol :: "nat \<Rightarrow> w32 \<Rightarrow> w32" where
  "rol n w = (push_bit n w) OR (drop_bit (32 - n) w)"

text \<open>The message schedule, newest word first.\<close>

fun sha1_schedule :: "nat \<Rightarrow> w32 list \<Rightarrow> w32 list" where
  "sha1_schedule 0 ws = ws"
| "sha1_schedule (Suc n) ws = sha1_schedule n (rol 1 (ws ! 2 XOR ws ! 7 XOR ws ! 13 XOR ws ! 15) # ws)"

definition sha1_mix :: "nat \<Rightarrow> w32 \<Rightarrow> w32 \<Rightarrow> w32 \<Rightarrow> w32 \<times> w32" where
  "sha1_mix t b c d =
     (if t < 20 then ((b AND c) OR (NOT b AND d), 0x5A827999)
      else if t < 40 then (b XOR c XOR d, 0x6ED9EBA1)
      else if t < 60 then ((b AND c) OR (b AND d) OR (c AND d), 0x8F1BBCDC)
      else (b XOR c XOR d, 0xCA62C1D6))"

fun sha1_round :: "nat \<times> w32 \<Rightarrow> w32 list \<Rightarrow> w32 list" where
  "sha1_round (t, w) [a, b, c, d, e] =
     (case sha1_mix t b c d of (f, k) \<Rightarrow> [rol 5 a + f + e + k + w, a, rol 30 b, c, d])"
| "sha1_round _ st = st"

definition sha1_block :: "w32 list \<Rightarrow> w32 list \<Rightarrow> w32 list" where
  "sha1_block chunk st = map2 (+) st (fold sha1_round (zip [0..<80] (rev (sha1_schedule 64 (rev chunk)))) st)"

definition sha1_init :: "w32 list" where
  "sha1_init = [0x67452301, 0xEFCDAB89, 0x98BADCFE, 0x10325476, 0xC3D2E1F0]"

definition sha1_hex :: "string \<Rightarrow> string" where
  "sha1_hex s =
     (let ws = be_words (sha_pad (map of_char s))
      in concat (map hex_word (fold sha1_block (chunks16 (length ws) ws) sha1_init)))"

end
