(* ===== verification/Citations.thy ===== *)
theory Citations
  imports PyVal Sha1
begin

text \<open>
  Citations (\<open>app/agent/harness/citations.py\<close>): the evidence sources of a run, their numbers,
  the reference block, and the check of the numbers a document cites, with the closure of body and
  references (\<open>app/research/delivery/answer_renderer.py\<close>).  Regular expressions are written as
  scanners; digits and white space are the ASCII ones, and in titles every character outside ASCII counts as a word character.
  The registration of sources, which compares texts by \<open>difflib\<close>, is not modelled.
\<close>

section \<open>Markers\<close>

text \<open>
  \<open>\[(\d+)\]\<close>: after an opening bracket, the number and what follows the closing one.  A match
  holds one opening bracket, so that a search may go on right behind it.
\<close>

definition marker_at :: "string \<Rightarrow> (int \<times> string) option" where
  "marker_at s =
     (case take_digits s of (ds, r) \<Rightarrow> if ds \<noteq> [] \<and> is_prefix '']'' r then Some (digits_value ds, drop 1 r) else None)"

fun find_markers :: "string \<Rightarrow> int list" where
  "find_markers [] = []"
| "find_markers (c # s) =
     (if c = CHR ''['' then (case marker_at s of Some (n, _) \<Rightarrow> [n] | None \<Rightarrow> []) else []) @ find_markers s"

section \<open>Closure of body and references\<close>

definition reference_headings :: "string list" where
  "reference_headings =
     [''## '' @ utf8 [0xE5, 0x8F, 0x82, 0xE8, 0x80, 0x83, 0xE6, 0x9D, 0xA5, 0xE6, 0xBA, 0x90],
      ''## '' @ utf8 [0xE5, 0x8F, 0x82, 0xE8, 0x80, 0x83, 0xE6, 0x96, 0x87, 0xE7, 0x8C, 0xAE]]"

definition heading_at :: "string \<Rightarrow> string option" where
  "heading_at s = (case filter (\<lambda>h. is_prefix h s) reference_headings of h # _ \<Rightarrow> Some (drop (length h) s) | [] \<Rightarrow> None)"

text \<open>The text before the first reference heading, and the text after it if there is one.\<close>

fun split_references :: "string \<Rightarrow> string \<times> string option" where
  "split_references [] = ([], None)"
| "split_references (c # s) =
     (case heading_at (c # s) of
        Some r \<Rightarrow> ([], Some r)
      | None \<Rightarrow> (case split_references s of (body, refs) \<Rightarrow> (c # body, refs)))"

definition collect_body_citations :: "string \<Rightarrow> int list" where
  "collect_body_citations report = find_markers (fst (split_references report))"

text \<open>\<open>^\[(\d+)\]\s\<close> at the beginning of lines.\<close>

fun line_numbers :: "bool \<Rightarrow> string \<Rightarrow> int list" where
  "line_numbers at_start [] = []"
| "line_numbers at_start (c # s) =
     (if at_start \<and> c = CHR ''[''
      then (case marker_at s of Some (n, d # _) \<Rightarrow> if is_space d then [n] else [] | _ \<Rightarrow> []) else [])
     @ line_numbers (c = CHR 0x0A) s"

definition collect_reference_numbers :: "string \<Rightarrow> int list" where
  "collect_reference_numbers report =
     (case snd (split_references report) of None \<Rightarrow> [] | Some refs \<Rightarrow> line_numbers True refs)"

record reference_closure =
  rc_passed :: bool
  rc_body_citations :: "int set"
  rc_reference_numbers :: "int set"
  rc_missing :: "int set"
  rc_orphan :: "int set"

definition validate_reference_closure :: "string \<Rightarrow> reference_closure" where
  "validate_reference_closure report =
     (let body = set (collect_body_citations report); refs = set (collect_reference_numbers report);
          missing = body - refs; orphan = refs - body
      in \<lparr>rc_passed = (missing = {} \<and> orphan = {}), rc_body_citations = body, rc_reference_numbers = refs,
          rc_missing = missing, rc_orphan = orphan\<rparr>)"

text \<open>The outcome of the check, with the reason of a failure.\<close>

definition closure_check :: "string \<Rightarrow> bool \<times> string" where
  "closure_check content =
     (let c = validate_reference_closure content
      in if rc_missing c \<noteq> {} then (False, ''reference_missing'')
         else if rc_orphan c \<noteq> {} then (False, ''reference_orphan'') else (True, []))"

section \<open>Sources and their numbers\<close>

record evidence_source =
  ev_source_id :: string
  ev_step_index :: int
  ev_step_type :: string
  ev_source_kind :: string
  ev_locator :: string
  ev_excerpt :: string
  ev_canonical_source_id :: string
  ev_publisher :: string
  ev_title :: string
  ev_published_at :: string
  ev_timestamp :: string
  ev_bound_fact :: string
  ev_artifact_id :: string
  ev_evidence_id :: string
  ev_start_offset :: int
  ev_end_offset :: int
  ev_source_tier :: string

record citation_manager =
  cm_sources :: "evidence_source list"
  cm_fact_bindings :: "pydict list"

definition is_word_char :: "char \<Rightarrow> bool" where
  "is_word_char c = (let n = (of_char c :: nat) in is_digit c \<or> (65 \<le> n \<and> n \<le> 90) \<or> (97 \<le> n \<and> n \<le> 122) \<or> 128 \<le> n)"

definition canonical_source_id :: "string \<Rightarrow> string \<Rightarrow> string" where
  "canonical_source_id locator title =
     (let place = py_lower (py_strip locator);
          named = (if place \<noteq> [] then place else filter is_word_char (py_lower title))
      in ''SRC_'' @ py_upper (take 12 (sha1_hex named)))"

text \<open>Asking for the numbers fills in identifiers that are still blank.\<close>

definition canonical_id :: "evidence_source \<Rightarrow> string" where
  "canonical_id s =
     (if ev_canonical_source_id s = [] then canonical_source_id (ev_locator s) (ev_title s) else ev_canonical_source_id s)"

definition add_number :: "string \<Rightarrow> int dict \<Rightarrow> int dict" where
  "add_number i d = (if dget d i = None then d @ [(i, int (length d) + 1)] else d)"

definition canonical_source_number_map :: "evidence_source list \<Rightarrow> int dict" where
  "canonical_source_number_map ss = fold (\<lambda>s. add_number (canonical_id s)) ss []"

definition source_number :: "evidence_source list \<Rightarrow> evidence_source \<Rightarrow> int" where
  "source_number ss s = (case dget (canonical_source_number_map ss) (canonical_id s) of None \<Rightarrow> 0 | Some n \<Rightarrow> n)"

text \<open>Every source of the list has a canonical number, so that no source is left out.\<close>

definition source_number_map :: "evidence_source list \<Rightarrow> int dict" where
  "source_number_map ss = fold (\<lambda>s. dput (ev_source_id s) (source_number ss s)) ss []"

definition bind_number :: "int dict \<Rightarrow> pydict \<Rightarrow> int dict \<Rightarrow> int dict" where
  "bind_number ids b d =
     (let e = str_or (pget b ''evidence_id'') []
      in case dget ids (str_or (pget b ''source_id'') []) of
           None \<Rightarrow> d
         | Some n \<Rightarrow> if e \<noteq> [] \<and> dget d e = None then dput e n d else d)"

definition evidence_number_map :: "citation_manager \<Rightarrow> int dict" where
  "evidence_number_map m =
     (let ids = source_number_map (cm_sources m);
          own = fold (\<lambda>s d. if ev_evidence_id s = [] then d
                  else dput (ev_evidence_id s) (case dget ids (ev_source_id s) of None \<Rightarrow> 0 | Some n \<Rightarrow> n) d) (cm_sources m) []
      in fold (bind_number ids) (cm_fact_bindings m) own)"

section \<open>Metrics\<close>

definition py_rstrip :: "string \<Rightarrow> string" where
  "py_rstrip s = rev (dropWhile is_space (rev s))"

text \<open>The signs that end a sentence, Chinese and ASCII ones.\<close>

definition sentence_signs :: "string list" where
  "sentence_signs = [[CHR 0xE3, CHR 0x80, CHR 0x82], [CHR 0xEF, CHR 0xBC, CHR 0x81], [CHR 0xEF, CHR 0xBC, CHR 0x9F], ''.'', ''!'', ''?'']"

text \<open>
  \<open>re.split((?<=[signs])\s+)\<close>: a run of blanks right behind a sign separates.  The sentence so far is kept reversed, and the
  flag tells that a separating run is being skipped.
\<close>

fun split_sentences :: "string \<Rightarrow> bool \<Rightarrow> string \<Rightarrow> string list" where
  "split_sentences cur skipping [] = [rev cur]"
| "split_sentences cur skipping (c # s) =
     (if is_space c \<and> skipping then split_sentences cur True s
      else if is_space c \<and> list_ex (\<lambda>g. is_prefix (rev g) cur) sentence_signs
        then rev cur # split_sentences [] True s
      else split_sentences (c # cur) False s)"

text \<open>\<open>^((?:\[\d+\])+)\s*(.*)$\<close>: the leading markers of a text and the rest; no marker is None.\<close>

fun markers_prefix :: "nat \<Rightarrow> string \<Rightarrow> string" where
  "markers_prefix 0 s = []"
| "markers_prefix (Suc n) s =
     (if is_prefix ''['' s
      then (case marker_at (drop 1 s) of
              None \<Rightarrow> []
            | Some (_, r) \<Rightarrow> take (length s - length r) s @ markers_prefix n r)
      else [])"

definition leading_cite :: "string \<Rightarrow> (string \<times> string) option" where
  "leading_cite s =
     (let cites = markers_prefix (length s) s
      in if cites = [] then None else Some (cites, py_strip (drop (length cites) s)))"

definition attach_sentence :: "string \<Rightarrow> string list \<Rightarrow> string list" where
  "attach_sentence part merged =
     (case leading_cite part of
        Some (cites, rest) \<Rightarrow>
          if merged = [] then [part]
          else butlast merged @ [py_rstrip (last merged) @ '' '' @ cites] @ (if rest = [] then [] else [rest])
      | None \<Rightarrow> merged @ [part])"

definition split_report_sentences :: "string \<Rightarrow> string list" where
  "split_report_sentences text_of =
     fold attach_sentence (filter (\<lambda>p. p \<noteq> []) (map py_strip (split_sentences [] False text_of))) []"

definition char_count :: "string \<Rightarrow> nat" where
  "char_count s = length (code_points s)"

definition graded_sentence :: "string \<Rightarrow> bool" where
  "graded_sentence s =
     (12 \<le> char_count s \<and> \<not> is_prefix ''#'' s \<and> \<not> is_prefix ''>'' s
      \<and> \<not> is_infix (utf8 [0xE5, 0x8F, 0x82, 0xE8, 0x80, 0x83, 0xE6, 0x96, 0x87, 0xE7, 0x8C, 0xAE]) s \<and> \<not> is_infix ''Evidence-First'' s)"

definition numeric_sentence :: "string \<Rightarrow> bool" where
  "numeric_sentence s = (list_ex is_digit s \<and> \<not> is_infix ''http'' (take_chars 12 (py_lower s)))"

text \<open>\<open>round(x, 3)\<close>, and the quotient of two numbers.\<close>

definition round3 :: "rat \<Rightarrow> pyfloat" where
  "round3 x = fl (of_int (round_half_even (x * 1000)) / 1000)"

definition quotient :: "nat \<Rightarrow> nat \<Rightarrow> pyfloat" where
  "quotient a b = fl (of_nat a / of_nat b)"

record citation_metrics =
  mt_citation_coverage_rate :: pyfloat
  mt_numeric_citation_coverage :: pyfloat
  mt_source_mention_rate :: pyfloat
  mt_hallucination_rate :: pyfloat
  mt_cited_markers :: nat
  mt_registered_sources :: nat
  mt_numeric_sentence_count :: nat

text \<open>Without sources the code leaves out the mention rate and the sentence count; they are zero here.\<close>

definition compute_metrics :: "citation_manager \<Rightarrow> string \<Rightarrow> citation_metrics" where
  "compute_metrics m content =
     (if cm_sources m = []
      then \<lparr>mt_citation_coverage_rate = 0, mt_numeric_citation_coverage = 0, mt_source_mention_rate = 0,
            mt_hallucination_rate = 1, mt_cited_markers = 0, mt_registered_sources = 0, mt_numeric_sentence_count = 0\<rparr>
      else
        let cited = fromkeys (find_markers content); registered = length (cm_sources m);
            mention = min 1 (quotient (length cited) registered);
            sentences = filter graded_sentence (split_report_sentences content);
            numeric = filter numeric_sentence sentences;
            pool = (if numeric = [] then sentences else numeric);
            uncited = length (filter (\<lambda>s. find_markers s = []) pool);
            numeric_coverage = (if pool = [] then mention else quotient (length pool - uncited) (length pool));
            hallucination = (if pool = [] then fl (1 - mention) else quotient uncited (length pool));
            coverage = (if numeric = [] then mention else numeric_coverage)
        in \<lparr>mt_citation_coverage_rate = round3 coverage, mt_numeric_citation_coverage = round3 numeric_coverage,
            mt_source_mention_rate = round3 mention, mt_hallucination_rate = round3 (min 1 hallucination),
            mt_cited_markers = length cited, mt_registered_sources = registered,
            mt_numeric_sentence_count = length numeric\<rparr>)"

section \<open>The check\<close>

definition default_min_coverage :: pyfloat where
  "default_min_coverage = fl (1 / 5)"

definition validate_citations :: "citation_manager \<Rightarrow> string \<Rightarrow> pyfloat \<Rightarrow> int list \<Rightarrow> bool \<times> string" where
  "validate_citations m content min_coverage additional =
     (let metrics = compute_metrics m content;
          valid = set (map snd (source_number_map (cm_sources m))) \<union> set (filter (\<lambda>n. 0 < n) additional)
      in if mt_registered_sources metrics = 0 then (True, [])
         else if \<not> set (find_markers content) \<subseteq> valid then (False, ''citation_invalid_number'')
         else if \<not> fst (closure_check content) then (False, snd (closure_check content))
         else if mt_citation_coverage_rate metrics < min_coverage then (False, ''citation_coverage_low'')
         else (True, []))"

section \<open>The reference block\<close>

definition tier_rank :: "string \<Rightarrow> nat" where
  "tier_rank t =
     (if t = ''PRIMARY'' then 4 else if t = ''HIGH_QUALITY_SECONDARY'' then 3 else if t = ''COMMUNITY'' then 2
      else if t = ''UNKNOWN'' then 1 else 0)"

text \<open>The best source of every canonical one: the first of the highest tier.\<close>

definition keep_best :: "evidence_source \<Rightarrow> evidence_source dict \<Rightarrow> evidence_source dict" where
  "keep_best s d =
     (case dget d (canonical_id s) of
        None \<Rightarrow> dput (canonical_id s) s d
      | Some old \<Rightarrow> if tier_rank (ev_source_tier old) < tier_rank (ev_source_tier s) then dput (canonical_id s) s d else d)"

text \<open>The network location of a web address: what stands between the scheme and the path.\<close>

definition after_scheme :: "string \<Rightarrow> string option" where
  "after_scheme url =
     (if is_prefix ''http://'' url then Some (drop 7 url)
      else if is_prefix ''https://'' url then Some (drop 8 url) else None)"

definition url_netloc :: "string \<Rightarrow> string" where
  "url_netloc rest = takeWhile (\<lambda>c. c \<notin> set ''/?#'') rest"

definition without_www :: "string \<Rightarrow> string" where
  "without_www s = (if is_prefix ''www.'' s then drop 4 s else s)"

definition source_publisher :: "evidence_source \<Rightarrow> string" where
  "source_publisher s =
     (let host = (case after_scheme (ev_locator s) of None \<Rightarrow> [] | Some r \<Rightarrow> without_www (url_netloc r))
      in if ev_publisher s \<noteq> [] then ev_publisher s else if host \<noteq> [] then host else ev_source_kind s)"

definition reference_line :: "bool \<Rightarrow> int \<Rightarrow> evidence_source \<Rightarrow> string" where
  "reference_line with_locator n s =
     ''['' @ int_str n @ ''] '' @ source_publisher s @ (utf8 [0xEF, 0xBC, 0x8C]) @ (utf8 [0xE3, 0x80, 0x8A])
     @ (if ev_title s = [] then (utf8 [0xE6, 0xA0, 0x87, 0xE9, 0xA2, 0x98, 0xE6, 0x9C, 0xAA, 0xE7, 0x9F, 0xA5]) else ev_title s)
     @ (utf8 [0xE3, 0x80, 0x8B]) @ (if ev_published_at s = [] then [] else (utf8 [0xEF, 0xBC, 0x8C]) @ take_chars 10 (ev_published_at s))
     @ (if with_locator then (utf8 [0xEF, 0xBC, 0x8C]) @ ev_locator s else [])"

definition newline :: string where
  "newline = [CHR 0x0A]"

definition build_references_block :: "citation_manager \<Rightarrow> string list option \<Rightarrow> bool \<Rightarrow> string" where
  "build_references_block m source_ids with_locator =
     (let chosen = filter (\<lambda>s. case source_ids of None \<Rightarrow> True | Some is \<Rightarrow> ev_source_id s \<in> set is) (cm_sources m);
          nums = canonical_source_number_map (cm_sources m);
          number_of = (\<lambda>i. case dget nums i of None \<Rightarrow> 0 | Some n \<Rightarrow> n)
      in if chosen = [] then []
         else join newline ([[], ''## '' @ (utf8 [0xE5, 0x8F, 0x82, 0xE8, 0x80, 0x83, 0xE6, 0x96, 0x87, 0xE7, 0x8C, 0xAE]), []]
                @ map (\<lambda>(i, s). reference_line with_locator (number_of i) s)
                    (sort_key (\<lambda>(i, s). number_of i) (fold keep_best chosen []))))"

definition source_counts_by_tier :: "evidence_source list \<Rightarrow> nat dict" where
  "source_counts_by_tier ss =
     map (\<lambda>t. (t, length (filter (\<lambda>s. (if tier_rank (ev_source_tier s) = 0 then ''UNKNOWN'' else ev_source_tier s) = t) ss)))
       [''PRIMARY'', ''HIGH_QUALITY_SECONDARY'', ''COMMUNITY'', ''UNKNOWN'']"

section \<open>The cited report\<close>

fun split_paragraphs :: "string \<Rightarrow> string \<Rightarrow> string list" where
  "split_paragraphs cur [] = [rev cur]"
| "split_paragraphs cur [c] = [rev (c # cur)]"
| "split_paragraphs cur (c # d # s) =
     (if c = CHR 0x0A \<and> d = CHR 0x0A then rev cur # split_paragraphs [] s else split_paragraphs (c # cur) (d # s))"

definition source_bindings :: "citation_manager \<Rightarrow> pydict list" where
  "source_bindings m =
     (if cm_fact_bindings m \<noteq> [] then cm_fact_bindings m
      else map (\<lambda>s. [(''fact'', PStr (if ev_bound_fact s = [] then ev_excerpt s else ev_bound_fact s)),
                     (''source_id'', PStr (ev_source_id s))])
             (filter (\<lambda>s. ev_bound_fact s \<noteq> [] \<or> ev_excerpt s \<noteq> []) (cm_sources m)))"

text \<open>The numbers of the sources whose fact begins a passage of the paragraph.\<close>

definition matched_numbers :: "int dict \<Rightarrow> string \<Rightarrow> pydict list \<Rightarrow> int list" where
  "matched_numbers ids para bindings =
     fromkeys (concat (map (\<lambda>b.
       let fact = py_strip (str_or (pget b ''fact'') []); needle = py_lower (take_chars 40 fact)
       in if char_count fact < 8 then []
          else if is_infix needle (py_lower para)
            then (case dget ids (py_str (pget b ''source_id'')) of None \<Rightarrow> [] | Some n \<Rightarrow> if n = 0 then [] else [n])
          else []) bindings))"

definition hinted_paragraph :: "int dict \<Rightarrow> pydict list \<Rightarrow> string \<Rightarrow> string" where
  "hinted_paragraph ids bindings para =
     (if is_prefix ''##'' para \<or> is_prefix ''> **Evidence'' para \<or> find_markers para \<noteq> [] then para
      else case matched_numbers ids para bindings of
             [] \<Rightarrow> para
           | n # ns \<Rightarrow>
               let hint = concat (map (\<lambda>n. ''['' @ int_str n @ '']'') (take 3 (n # ns))); stripped = py_rstrip para
               in case filter (\<lambda>g. is_suffix g stripped) sentence_signs of
                    [] \<Rightarrow> stripped @ '' '' @ hint
                  | g # _ \<Rightarrow> take (length stripped - length g) stripped @ '' '' @ hint @ g)"

definition inject_inline_citation_hints :: "citation_manager \<Rightarrow> string \<Rightarrow> string" where
  "inject_inline_citation_hints m content =
     (let paragraphs = filter (\<lambda>p. py_strip p \<noteq> []) (split_paragraphs [] content)
      in if cm_sources m = [] \<or> py_strip content = [] then content
         else if paragraphs = [] then content
         else join (newline @ newline)
                (map (hinted_paragraph (source_number_map (cm_sources m)) (source_bindings m)) paragraphs))"

definition build_cited_report :: "citation_manager \<Rightarrow> string \<Rightarrow> string" where
  "build_cited_report m raw =
     (let body = inject_inline_citation_hints m raw; ids = source_number_map (cm_sources m);
          number_to_id = fold (\<lambda>s d. case dget ids (ev_source_id s) of None \<Rightarrow> d | Some n \<Rightarrow> (n, ev_source_id s) # d) (cm_sources m) [];
          used = map (\<lambda>n. case map_of number_to_id n of None \<Rightarrow> [] | Some i \<Rightarrow> [i]) (find_markers body);
          refs = build_references_block m (Some (concat used)) True
      in if refs \<noteq> [] \<and> \<not> is_infix (py_strip refs) body then py_rstrip body @ newline @ refs @ newline else body)"

section \<open>Numbers are stable\<close>

lemma add_number_numbers:
  "map snd d = map int [1..<Suc (length d)] \<Longrightarrow> map snd (add_number i d) = map int [1..<Suc (length (add_number i d))]"
  by (auto simp: add_number_def Suc_le_eq)

lemma add_number_extends: "\<exists>extra. add_number i d = d @ extra"
  by (simp add: add_number_def)

lemma add_number_keys: "distinct (dkeys d) \<Longrightarrow> distinct (dkeys (add_number i d)) \<and> set (dkeys (add_number i d)) = insert i (set (dkeys d))"
  by (auto simp: add_number_def map_of_eq_None_iff)

lemma fold_add_number:
  assumes "distinct (dkeys d)" "map snd d = map int [1..<Suc (length d)]"
  shows "let r = fold (\<lambda>s. add_number (canonical_id s)) ss d
    in distinct (dkeys r) \<and> map snd r = map int [1..<Suc (length r)] \<and>
      set (dkeys r) = set (dkeys d) \<union> canonical_id ` set ss \<and> (\<exists>extra. r = d @ extra)"
  using assms
proof (induction ss arbitrary: d)
  case (Cons s ss)
  let ?d = "add_number (canonical_id s) d"
  have d: "distinct (dkeys ?d)" "set (dkeys ?d) = insert (canonical_id s) (set (dkeys d))"
    using add_number_keys [OF Cons.prems(1)] by blast+
  have "map snd ?d = map int [1..<Suc (length ?d)]" using add_number_numbers [OF Cons.prems(2)] .
  then have ih: "distinct (dkeys (fold (\<lambda>s. add_number (canonical_id s)) ss ?d))"
    "map snd (fold (\<lambda>s. add_number (canonical_id s)) ss ?d)
       = map int [1..<Suc (length (fold (\<lambda>s. add_number (canonical_id s)) ss ?d))]"
    "set (dkeys (fold (\<lambda>s. add_number (canonical_id s)) ss ?d)) = set (dkeys ?d) \<union> canonical_id ` set ss"
    "\<exists>extra. fold (\<lambda>s. add_number (canonical_id s)) ss ?d = ?d @ extra"
    using Cons.IH [OF d(1)] unfolding Let_def by blast+
  obtain e extra where e: "?d = d @ e" "fold (\<lambda>s. add_number (canonical_id s)) ss ?d = ?d @ extra"
    using add_number_extends [of "canonical_id s" d] ih(4) by blast
  then have "fold (\<lambda>s. add_number (canonical_id s)) (s # ss) d = d @ (e @ extra)" by simp
  moreover have "set (dkeys (fold (\<lambda>s. add_number (canonical_id s)) (s # ss) d)) = set (dkeys d) \<union> canonical_id ` set (s # ss)"
    using ih(3) unfolding d(2) by simp
  ultimately show ?case using ih(1,2) unfolding Let_def fold_Cons comp_def by blast
qed simp

text \<open>
  Numbering: the canonical sources of a list are numbered 1, 2, ... in the order of their first
  appearance, every source has one number, and sources appended to the list only append numbers.  That
  registration appends is not claimed: it also rewrites the canonical identifier of a source it
  already has.
\<close>

lemma appended_sources_append_numbers:
  "map snd (canonical_source_number_map ss) = map int [1..<Suc (length (canonical_source_number_map ss))] \<and>
   distinct (dkeys (canonical_source_number_map ss)) \<and>
   set (dkeys (canonical_source_number_map ss)) = canonical_id ` set ss \<and>
   (\<exists>extra. canonical_source_number_map (ss @ more_sources) = canonical_source_number_map ss @ extra)"
proof -
  have ss: "distinct (dkeys (canonical_source_number_map ss)) \<and>
    map snd (canonical_source_number_map ss) = map int [1..<Suc (length (canonical_source_number_map ss))] \<and>
    set (dkeys (canonical_source_number_map ss)) = canonical_id ` set ss"
    using fold_add_number [of "[]" ss] by (simp add: canonical_source_number_map_def Let_def)
  then have "\<exists>extra. fold (\<lambda>s. add_number (canonical_id s)) more_sources (canonical_source_number_map ss)
      = canonical_source_number_map ss @ extra"
    using fold_add_number [of "canonical_source_number_map ss" more_sources] unfolding Let_def by blast
  then have "\<exists>extra. canonical_source_number_map (ss @ more_sources) = canonical_source_number_map ss @ extra"
    by (simp add: canonical_source_number_map_def)
  with ss show ?thesis by blast
qed

section \<open>What an accepted document cites\<close>

lemma closure_check_passes:
  "fst (closure_check content) \<longleftrightarrow> set (collect_body_citations content) = set (collect_reference_numbers content)"
  by (auto simp: closure_check_def validate_reference_closure_def Let_def)

lemma compute_metrics_registered [simp]: "mt_registered_sources (compute_metrics m content) = length (cm_sources m)"
  by (simp add: compute_metrics_def Let_def)

lemma validate_citations_accepts:
  assumes "validate_citations m content min_coverage additional = (True, reason)" "cm_sources m \<noteq> []"
  shows "set (find_markers content) \<subseteq> set (map snd (source_number_map (cm_sources m))) \<union> {n \<in> set additional. 0 < n} \<and>
    set (collect_body_citations content) = set (collect_reference_numbers content) \<and>
    min_coverage \<le> mt_citation_coverage_rate (compute_metrics m content)"
  using assms by (auto simp: validate_citations_def Let_def closure_check_passes split: if_splits)

text \<open>Without registered sources every document is accepted, whatever numbers it cites.\<close>

lemma unregistered_accepts_all: "validate_citations \<lparr>cm_sources = [], cm_fact_bindings = bs\<rparr> content q ns = (True, [])"
  by (simp add: validate_citations_def)

end
