(* ===== verification/UnitRenderer.thy ===== *)
theory UnitRenderer
  imports AnswerCoverage Citations
begin

text \<open>
  The document of the second answer engine (\<open>app/research/delivery/unit_renderer.py\<close>): valid
  units of the current revision, ask by ask, with the citations their claims have evidence for.  The
  code keeps the list of cited evidence while it writes lines; here the lines and the evidence they cite are two
  functions of the shown fields, the evidence in order of its first citation.  Strings are
  UTF-8 bytes, whose order is that of the characters; case folding acts on the ASCII range.
\<close>

section \<open>Fixed texts\<close>

definition unverified_text :: string where
  "unverified_text = utf8 [0xEF, 0xBC, 0x9A, 0xE6, 0x9C, 0xAA, 0xE9, 0xAA, 0x8C, 0xE8, 0xAF, 0x81]"

definition wide_colon :: string where
  "wide_colon = utf8 [0xEF, 0xBC, 0x9A]"

definition rationale_text :: string where
  "rationale_text = ''  - '' @ utf8 [0xE4, 0xBE, 0x9D, 0xE6, 0x8D, 0xAE, 0xEF, 0xBC, 0x9A]"

definition answer_text :: string where
  "answer_text = utf8 [0xE7, 0xAD, 0x94, 0xE6, 0xA1, 0x88] @ '' ''"

definition no_unit_text :: string where
  "no_unit_text =
     utf8 [0xE6, 0x9C, 0xAC, 0xE6, 0xAC, 0xA1, 0xE6, 0xB2, 0xA1, 0xE6, 0x9C, 0x89, 0xE9, 0x80, 0x9A, 0xE8,
     0xBF, 0x87, 0xE9, 0xAA, 0x8C, 0xE8, 0xAF, 0x81, 0xE7, 0x9A, 0x84, 0xE7, 0xAD, 0x94, 0xE6, 0xA1, 0x88,
     0xE5, 0x8D, 0x95, 0xE5, 0x85, 0x83, 0xEF, 0xBC, 0x8C, 0xE4, 0xB8, 0x8D, 0xE8, 0x83, 0xBD, 0xE5, 0x8F,
     0xAF, 0xE9, 0x9D, 0xA0, 0xE4, 0xBD, 0x9C, 0xE7, 0xAD, 0x94, 0xE3, 0x80, 0x82]"

definition completed_text :: string where
  "completed_text =
     ''> '' @ utf8 [0xE6, 0x9C, 0xAC, 0xE6, 0xAC, 0xA1, 0xE5, 0xAE, 0x8C, 0xE6, 0x88, 0x90] @ '' ''"

definition remainder_text :: string where
  "remainder_text =
     '' '' @ utf8 [0xE4, 0xB8, 0xAA, 0xE7, 0xBB, 0x8F, 0xE9, 0xAA, 0x8C, 0xE8, 0xAF, 0x81, 0xE7, 0xAD, 0x94,
     0xE6, 0xA1, 0x88, 0xE5, 0x8D, 0x95, 0xE5, 0x85, 0x83, 0xEF, 0xBC, 0x9B, 0xE6, 0x9C, 0xAA, 0xE5, 0xAE,
     0x8C, 0xE6, 0x88, 0x90, 0xE9, 0x83, 0xA8, 0xE5, 0x88, 0x86, 0xE4, 0xB8, 0x8D, 0xE4, 0xBB, 0xA5, 0xE6,
     0x9C, 0xAA, 0xE9, 0xAA, 0x8C, 0xE8, 0xAF, 0x81, 0xE6, 0x9D, 0x90, 0xE6, 0x96, 0x99, 0xE8, 0xA1, 0xA5,
     0xE9, 0xBD, 0x90, 0xE3, 0x80, 0x82]"

definition scope_text :: string where
  "scope_text =
     utf8 [0xE5, 0x8F, 0xA3, 0xE5, 0xBE, 0x84, 0xEF, 0xBC, 0x9A, 0xE6, 0x88, 0xAA, 0xE8, 0x87, 0xB3] @ '' ''"

definition wide_open :: string where
  "wide_open = utf8 [0xEF, 0xBC, 0x88]"

definition wide_close :: string where
  "wide_close = utf8 [0xEF, 0xBC, 0x89, 0xE3, 0x80, 0x82]"

definition title_open :: string where
  "title_open = utf8 [0xE3, 0x80, 0x8A]"

definition title_close :: string where
  "title_close = utf8 [0xE3, 0x80, 0x8B]"

definition wide_comma :: string where
  "wide_comma = utf8 [0xEF, 0xBC, 0x8C]"

definition references_text :: string where
  "references_text = utf8 [0xE5, 0x8F, 0x82, 0xE8, 0x80, 0x83, 0xE6, 0x9D, 0xA5, 0xE6, 0xBA, 0x90]"

section \<open>What is shown\<close>

definition current_valid :: "answer_spec \<Rightarrow> answer_unit list \<Rightarrow> answer_unit list" where
  "current_valid spec us =
     filter (\<lambda>u. un_spec_revision u = sp_revision spec \<and> uv_status (un_validation u) = ''valid'') us"

text \<open>Recommendations are shown once per set of entities.\<close>

definition entity_key :: "answer_unit \<Rightarrow> string" where
  "entity_key u = join ''|'' (sort (map py_lower (un_entity_ids u)))"

fun first_of_key :: "string list \<Rightarrow> answer_unit list \<Rightarrow> answer_unit list" where
  "first_of_key seen [] = []"
| "first_of_key seen (u # us) =
     (if entity_key u = [] \<or> entity_key u \<in> set seen then first_of_key seen us
      else u # first_of_key (entity_key u # seen) us)"

definition shown_units :: "answer_spec \<Rightarrow> answer_unit list \<Rightarrow> ask_spec \<Rightarrow> answer_unit list" where
  "shown_units spec us ask =
     (let of_ask = slice_to (as_max_units ask) (filter (\<lambda>u. un_ask_id u = as_ask_id ask) (current_valid spec us))
      in if as_kind ask = ''recommendation'' then first_of_key [] of_ask else of_ask)"

definition shown_field :: "answer_unit \<Rightarrow> field_requirement \<Rightarrow> unit_field option" where
  "shown_field u q =
     (case dget (un_fields u) (fq_field_id q) of
        None \<Rightarrow> None
      | Some f \<Rightarrow> if value_present (uf_value f) then Some f else None)"

section \<open>Citations\<close>

text \<open>The claims by identifier; of claims with the same identifier the last one counts.\<close>

definition all_claims_by_id :: "claim_record list \<Rightarrow> claim_record dict" where
  "all_claims_by_id cs = fold (\<lambda>c. dput (cl_claim_id c) c) cs []"

record citation_base =
  cb_claims :: "claim_record dict"
  cb_edges :: "support_edge list"
  cb_numbers :: "int dict"

definition claim_evidence :: "citation_base \<Rightarrow> string \<Rightarrow> string list" where
  "claim_evidence cb i =
     (case dget (cb_claims cb) i of
        None \<Rightarrow> []
      | Some c \<Rightarrow>
          if cl_validation_status c \<noteq> ''supported'' then []
          else map se_evidence_id (filter (\<lambda>e. se_claim_id e = i \<and> se_relation e = ''supports''
                 \<and> dget (cb_numbers cb) (se_evidence_id e) \<noteq> None) (cb_edges cb)))"

definition field_claims :: "unit_field \<Rightarrow> string list" where
  "field_claims f = fromkeys (uf_claim_ids f @ uf_premise_claim_ids f)"

definition field_evidence :: "citation_base \<Rightarrow> unit_field \<Rightarrow> string list" where
  "field_evidence cb f = fromkeys (concat (map (claim_evidence cb) (field_claims f)))"

definition citation_number :: "citation_base \<Rightarrow> string \<Rightarrow> int" where
  "citation_number cb i = (case dget (cb_numbers cb) i of None \<Rightarrow> 0 | Some n \<Rightarrow> n)"

definition citation_marks :: "citation_base \<Rightarrow> unit_field \<Rightarrow> string" where
  "citation_marks cb f = concat (map (\<lambda>i. ''['' @ int_str (citation_number cb i) @ '']'') (field_evidence cb f))"

definition unit_evidence :: "citation_base \<Rightarrow> ask_spec \<Rightarrow> answer_unit \<Rightarrow> string list" where
  "unit_evidence cb ask u =
     concat (map (\<lambda>q. case shown_field u q of None \<Rightarrow> [] | Some f \<Rightarrow> field_evidence cb f) (as_required_fields ask))"

definition cited_evidence :: "citation_base \<Rightarrow> answer_spec \<Rightarrow> answer_unit list \<Rightarrow> string list" where
  "cited_evidence cb spec us =
     fromkeys (concat (map (\<lambda>ask. concat (map (unit_evidence cb ask) (shown_units spec us ask))) (sp_asks spec)))"

section \<open>Lines\<close>

definition field_lines :: "citation_base \<Rightarrow> answer_unit \<Rightarrow> field_requirement \<Rightarrow> string list" where
  "field_lines cb u q =
     (case shown_field u q of
        None \<Rightarrow> if fq_unknown_allowed q then [''- **'' @ fq_field_id q @ ''**'' @ unverified_text] else []
      | Some f \<Rightarrow>
          [''- **'' @ map (\<lambda>c. if c = CHR ''_'' then CHR '' '' else c) (fq_field_id q) @ ''**'' @ wide_colon
             @ py_str (uf_value f) @ citation_marks cb f]
          @ (if uf_rationale f = [] then [] else [rationale_text @ uf_rationale f]))"

definition title_field :: "answer_unit \<Rightarrow> unit_field option" where
  "title_field u =
     (case dget (un_fields u) ''company'' of Some f \<Rightarrow> Some f
      | None \<Rightarrow> case dget (un_fields u) ''answer'' of Some f \<Rightarrow> Some f | None \<Rightarrow> dget (un_fields u) ''status'')"

definition unit_title :: "nat \<Rightarrow> answer_unit \<Rightarrow> string" where
  "unit_title index u =
     (let fallback = (case un_entity_ids u of e # _ \<Rightarrow> e | [] \<Rightarrow> answer_text @ nat_str index)
      in case title_field u of
           None \<Rightarrow> fallback
         | Some f \<Rightarrow> if uf_value f \<in> {PNone, PStr []} then fallback else py_str (uf_value f))"

definition unit_lines :: "citation_base \<Rightarrow> ask_spec \<Rightarrow> nat \<Rightarrow> answer_unit \<Rightarrow> string list" where
  "unit_lines cb ask index u =
     [''### '' @ nat_str index @ ''. '' @ unit_title index u, []]
     @ concat (map (field_lines cb u) (as_required_fields ask)) @ [[]]"

definition ask_lines :: "citation_base \<Rightarrow> answer_spec \<Rightarrow> answer_unit list \<Rightarrow> ask_spec \<Rightarrow> string list" where
  "ask_lines cb spec us ask =
     (let shown = shown_units spec us ask
      in [''## '' @ as_original_text ask, []]
         @ (if shown = [] then [no_unit_text, []]
            else concat (map (\<lambda>(i, u). unit_lines cb ask i u) (zip [1..<Suc (length shown)] shown))
                 @ (if int (length shown) < as_target_units ask
                    then [completed_text @ nat_str (length shown) @ ''/'' @ int_str (as_target_units ask)
                            @ remainder_text, []]
                    else [])))"

definition heading_lines :: "answer_spec \<Rightarrow> string list" where
  "heading_lines spec =
     [''# '' @ sp_objective spec, [],
      ''> '' @ scope_text @ sp_as_of spec @ wide_open @ sp_timezone spec @ wide_close, []]"

definition evidence_rows_by_id :: "pydict list \<Rightarrow> pydict dict" where
  "evidence_rows_by_id rows =
     fold (\<lambda>r. dput (str_or (pget r ''evidence_id'') []) r) (filter (\<lambda>r. truthy (pget r ''evidence_id'')) rows) []"

definition evidence_row :: "pydict dict \<Rightarrow> string \<Rightarrow> pydict" where
  "evidence_row rows i = (case dget rows i of None \<Rightarrow> [] | Some r \<Rightarrow> r)"

text \<open>Evidence without a web address is numbered and kept in the citation map, but gets no line.\<close>

definition reference_lines :: "citation_base \<Rightarrow> pydict dict \<Rightarrow> string \<Rightarrow> string list" where
  "reference_lines cb rows i =
     (let source = evidence_row rows i;
          url = str_or (por (pget source ''locator'') (pget source ''canonical_url'')) [];
          title = str_or (por (por (pget source ''title'') (pget source ''publisher'')) (pget source ''source_id'')) url;
          published = str_or (pget source ''published_at'') []
      in if is_prefix ''https://'' url \<or> is_prefix ''http://'' url
         then [''['' @ int_str (citation_number cb i) @ ''] '' @ title_open @ title @ title_close
                 @ (if published = [] then [] else wide_comma @ published) @ wide_comma @ url]
         else [])"

definition reference_block :: "citation_base \<Rightarrow> pydict dict \<Rightarrow> string list \<Rightarrow> string list" where
  "reference_block cb rows cited =
     (if cited = [] then []
      else [''## '' @ references_text, []] @ concat (map (reference_lines cb rows) (sort_key (citation_number cb) cited)) @ [[]])"

section \<open>The report\<close>

record rendered_report =
  rr_content :: string
  rr_citation_map :: pydict
  rr_rendered_unit_ids :: "string list"

definition render_units ::
  "answer_spec \<Rightarrow> answer_unit list \<Rightarrow> citation_base \<Rightarrow> pydict list \<Rightarrow> rendered_report" where
  "render_units spec us cb evidence =
     (let rows = evidence_rows_by_id evidence; cited = cited_evidence cb spec us;
          lines = heading_lines spec @ concat (map (ask_lines cb spec us) (sp_asks spec)) @ reference_block cb rows cited
      in \<lparr>rr_content = py_strip (join newline lines) @ newline,
          rr_citation_map = map (\<lambda>i. (i, PDict [(''display_number'', PInt (citation_number cb i)),
             (''source_metadata'', PDict (evidence_row rows i))])) cited,
          rr_rendered_unit_ids = map un_unit_id (concat (map (shown_units spec us) (sp_asks spec)))\<rparr>)"

definition render_validated_units ::
  "answer_spec \<Rightarrow> answer_unit item list \<Rightarrow> claim_record item list \<Rightarrow> support_edge item list \<Rightarrow> pydict list
   \<Rightarrow> int dict \<Rightarrow> rendered_report res" where
  "render_validated_units spec units claims edges evidence nums =
     ebind (emap (read_item answer_unit_from_dict) units) (\<lambda>us.
     ebind (emap (read_item claim_from_dict) claims) (\<lambda>cs.
     ebind (emap (read_item support_edge_from_dict) edges) (\<lambda>es.
       Inr (render_units spec us \<lparr>cb_claims = all_claims_by_id cs, cb_edges = es, cb_numbers = nums\<rparr> evidence))))"

section \<open>What the document rests on\<close>

lemma first_of_key_subset: "set (first_of_key seen us) \<subseteq> set us"
  by (induction seen us rule: first_of_key.induct) auto

lemma length_first_of_key: "length (first_of_key seen us) \<le> length us"
  by (induction seen us rule: first_of_key.induct) (auto intro: le_SucI)

lemma set_slice_to: "x \<in> set (slice_to n xs) \<Longrightarrow> x \<in> set xs"
  by (auto simp: slice_to_def dest: in_set_takeD)

lemma shown_unit_valid:
  assumes "u \<in> set (shown_units spec us ask)"
  shows "u \<in> set us \<and> un_ask_id u = as_ask_id ask \<and> un_spec_revision u = sp_revision spec \<and>
    uv_status (un_validation u) = ''valid''"
proof -
  have "u \<in> set (slice_to (as_max_units ask) (filter (\<lambda>u. un_ask_id u = as_ask_id ask) (current_valid spec us)))"
    using assms first_of_key_subset by (fastforce simp: shown_units_def Let_def split: if_splits)
  then show ?thesis by (auto simp: current_valid_def dest!: set_slice_to)
qed

lemma shown_units_bounded: "0 \<le> as_max_units ask \<Longrightarrow> int (length (shown_units spec us ask)) \<le> as_max_units ask"
  using length_first_of_key [of "[]" "slice_to (as_max_units ask) (filter (\<lambda>u. un_ask_id u = as_ask_id ask) (current_valid spec us))"]
  by (auto simp: shown_units_def Let_def slice_to_def)

lemma all_claims_by_id_get: "dget (all_claims_by_id cs) i = find (\<lambda>c. cl_claim_id c = i) (rev cs)"
  by (induction cs rule: rev_induct) (simp_all add: all_claims_by_id_def)

text \<open>The claim an identifier names is the last one that carries it.\<close>

definition named_claim :: "claim_record list \<Rightarrow> string \<Rightarrow> claim_record option" where
  "named_claim cs i = find (\<lambda>c. cl_claim_id c = i) (rev cs)"

lemma claim_evidence_iff:
  "e \<in> set (claim_evidence \<lparr>cb_claims = all_claims_by_id cs, cb_edges = es, cb_numbers = nums\<rparr> i) \<longleftrightarrow>
    (\<exists>c. named_claim cs i = Some c \<and> cl_validation_status c = ''supported'') \<and>
    (\<exists>s\<in>set es. se_claim_id s = i \<and> se_relation s = ''supports'' \<and> se_evidence_id s = e) \<and> dget nums e \<noteq> None"
  by (cases "find (\<lambda>c. cl_claim_id c = i) (rev cs)")
    (auto simp: claim_evidence_def all_claims_by_id_get named_claim_def split: option.splits)

lemma shown_field_Some: "shown_field u q = Some f \<longleftrightarrow> dget (un_fields u) (fq_field_id q) = Some f \<and> value_present (uf_value f)"
  by (auto simp: shown_field_def split: option.splits)

text \<open>A citation of the document: a shown field of a shown unit whose claim is supported by the evidence.\<close>

definition cited_for :: "answer_spec \<Rightarrow> answer_unit list \<Rightarrow> claim_record list \<Rightarrow> support_edge list \<Rightarrow> string \<Rightarrow> bool" where
  "cited_for spec us cs es e \<longleftrightarrow>
     (\<exists>ask\<in>set (sp_asks spec). \<exists>u\<in>set (shown_units spec us ask). \<exists>q\<in>set (as_required_fields ask). \<exists>f i.
        shown_field u q = Some f \<and> i \<in> set (uf_claim_ids f) \<union> set (uf_premise_claim_ids f) \<and>
        (\<exists>c. named_claim cs i = Some c \<and> cl_validation_status c = ''supported'') \<and>
        (\<exists>s\<in>set es. se_claim_id s = i \<and> se_relation s = ''supports'' \<and> se_evidence_id s = e))"

lemma field_evidence_iff:
  "e \<in> set (field_evidence cb f) \<longleftrightarrow> (\<exists>i\<in>set (uf_claim_ids f) \<union> set (uf_premise_claim_ids f). e \<in> set (claim_evidence cb i))"
  by (auto simp: field_evidence_def field_claims_def)

lemma cited_evidence_iff:
  "e \<in> set (cited_evidence cb spec us) \<longleftrightarrow>
    (\<exists>ask\<in>set (sp_asks spec). \<exists>u\<in>set (shown_units spec us ask). \<exists>q\<in>set (as_required_fields ask). \<exists>f.
       shown_field u q = Some f \<and> e \<in> set (field_evidence cb f))"
  by (auto simp: cited_evidence_def unit_evidence_def split: option.splits) (metis option.inject, force)

lemma cited_evidence_justified:
  "e \<in> set (cited_evidence \<lparr>cb_claims = all_claims_by_id cs, cb_edges = es, cb_numbers = nums\<rparr> spec us) \<longleftrightarrow>
    cited_for spec us cs es e \<and> dget nums e \<noteq> None"
  unfolding cited_evidence_iff field_evidence_iff claim_evidence_iff cited_for_def by blast

text \<open>C4. The final document shows and cites nothing unvalidated: every unit it presents is a valid
  unit of the current revision for one of its asks, at most the allowed number for an ask; the citation map
  lists, once each and under its citation number, exactly the numbered evidence with a support edge
  from a supported claim that a shown field of such a unit is bound to.
\<close>

theorem document_is_justified:
  assumes "render_validated_units spec units claims edges evidence nums = Inr r"
    and "emap (read_item answer_unit_from_dict) units = Inr us"
    and "emap (read_item claim_from_dict) claims = Inr cs" "emap (read_item support_edge_from_dict) edges = Inr es"
  shows "rr_rendered_unit_ids r = map un_unit_id (concat (map (shown_units spec us) (sp_asks spec))) \<and>
    (\<forall>ask. \<forall>u\<in>set (shown_units spec us ask). u \<in> set us \<and> un_ask_id u = as_ask_id ask \<and>
       un_spec_revision u = sp_revision spec \<and> uv_status (un_validation u) = ''valid'') \<and>
    (\<forall>ask. 0 \<le> as_max_units ask \<longrightarrow> int (length (shown_units spec us ask)) \<le> as_max_units ask) \<and>
    distinct (dkeys (rr_citation_map r)) \<and>
    set (dkeys (rr_citation_map r)) = {e. cited_for spec us cs es e \<and> dget nums e \<noteq> None} \<and>
    (\<forall>e\<in>set (dkeys (rr_citation_map r)).
       \<exists>n. dget nums e = Some n \<and> pget (as_dict (pget (rr_citation_map r) e)) ''display_number'' = PInt n)"
proof -
  let ?cb = "\<lparr>cb_claims = all_claims_by_id cs, cb_edges = es, cb_numbers = nums\<rparr>"
  let ?row = "\<lambda>i. PDict [(''display_number'', PInt (citation_number ?cb i)),
    (''source_metadata'', PDict (evidence_row (evidence_rows_by_id evidence) i))]"
  have r: "r = render_units spec us ?cb evidence"
    using assms by (simp add: render_validated_units_def)
  then have cm: "rr_citation_map r = map (\<lambda>i. (i, ?row i)) (cited_evidence ?cb spec us)"
    by (simp add: render_units_def Let_def)
  then have keys: "dkeys (rr_citation_map r) = cited_evidence ?cb spec us" by (simp add: comp_def)
  then have "distinct (dkeys (rr_citation_map r))" by (simp add: cited_evidence_def)
  moreover have "set (dkeys (rr_citation_map r)) = {e. cited_for spec us cs es e \<and> dget nums e \<noteq> None}"
    unfolding keys by (auto simp: cited_evidence_justified)
  moreover have "\<exists>n. dget nums e = Some n \<and> pget (as_dict (pget (rr_citation_map r) e)) ''display_number'' = PInt n"
    if "e \<in> set (dkeys (rr_citation_map r))" for e
  proof -
    have e: "e \<in> set (cited_evidence ?cb spec us)" using that keys by simp
    then have "pget (rr_citation_map r) e = ?row e" by (simp add: pget_or_def cm map_of_map_restrict)
    then show ?thesis using e by (auto simp: cited_evidence_justified citation_number_def)
  qed
  moreover have "rr_rendered_unit_ids r = map un_unit_id (concat (map (shown_units spec us) (sp_asks spec)))"
    by (simp add: r render_units_def Let_def)
  ultimately show ?thesis using shown_unit_valid shown_units_bounded by blast
qed

section \<open>Completion and the document\<close>

text \<open>A complete ask that is not a recommendation is shown with its target number of units.\<close>

lemma complete_ask_shown:
  assumes "qa_complete (complete_ask spec us ask)" "as_kind ask \<noteq> ''recommendation''"
  shows "as_target_units ask \<le> int (length (shown_units spec us ask))"
proof -
  have "filter (\<lambda>u. un_ask_id u = as_ask_id ask) (current_valid spec us) = counted_units spec us ask"
    using assms(2) by (auto simp: counted_units_def current_valid_def intro: filter_cong)
  then show ?thesis
    using assms by (auto simp: complete_ask_def Let_def shown_units_def slice_to_def)
qed

text \<open>
  For recommendations the two disagree: completion drops repeated entities before it counts to the
  maximum, the document after it cut to the maximum.  Here two of three valid units name the same entity; the ask is
  complete with two units, and the document shows one.
\<close>

definition picked_unit :: "string \<Rightarrow> string \<Rightarrow> answer_unit" where
  "picked_unit i entity = example_validated\<lparr>un_unit_id := i, un_entity_ids := [entity]\<rparr>"

definition pick_two_ask :: ask_spec where
  "pick_two_ask = example_ask\<lparr>as_kind := ''recommendation'', as_target_units := 2, as_max_units := 2\<rparr>"

definition picked_units :: "answer_unit list" where
  "picked_units = [picked_unit ''u1'' ''Acme'', picked_unit ''u2'' ''ACME'', picked_unit ''u3'' ''Beta'']"

lemma complete_recommendation_shown_short:
  "qa_complete (complete_ask example_spec picked_units pick_two_ask)"
  "as_target_units pick_two_ask = 2" "length (shown_units example_spec picked_units pick_two_ask) = 1"
  by code_simp+

section \<open>Examples\<close>

definition example_numbers :: "int dict" where
  "example_numbers = [(''ev1'', 1), (''ev2'', 2)]"

definition example_base :: citation_base where
  "example_base = \<lparr>cb_claims = all_claims_by_id [example_claim], cb_edges = [example_edge], cb_numbers = example_numbers\<rparr>"

definition example_report :: rendered_report where
  "example_report = render_units example_spec [example_validated] example_base []"

lemma example_rendered:
  "render_validated_units example_spec [Obj example_validated] [Row example_claim_row] [Row example_edge_row] [] example_numbers
     = Inr example_report"
  using example_claim_eq example_edge_eq emap_Obj [of answer_unit_from_dict "[example_validated]"]
  by (simp add: render_validated_units_def example_report_def example_base_def)

lemma example_cited: "cited_evidence example_base example_spec [example_validated] = [''ev1'']"
  by code_simp

lemma example_report_map: "dkeys (rr_citation_map example_report) = [''ev1'']"
  by (simp add: example_report_def render_units_def Let_def example_cited)

lemma document_is_justified_witness:
  "dkeys (rr_citation_map example_report) = [''ev1''] \<and>
    cited_for example_spec [example_validated] [example_claim] [example_edge] ''ev1'' \<and>
    pget (as_dict (pget (rr_citation_map example_report) ''ev1'')) ''display_number'' = PInt 1"
proof -
  have "emap (read_item answer_unit_from_dict) [Obj example_validated] = Inr [example_validated]"
    by (simp add: read_item_def)
  from document_is_justified [OF example_rendered this example_claim_eq example_edge_eq]
  have "set [''ev1''] = {e. cited_for example_spec [example_validated] [example_claim] [example_edge] e \<and> dget example_numbers e \<noteq> None}"
    and "\<forall>e\<in>set [''ev1'']. \<exists>n. dget example_numbers e = Some n
      \<and> pget (as_dict (pget (rr_citation_map example_report) e)) ''display_number'' = PInt n"
    unfolding example_report_map by blast+
  note cited = this
  have "''ev1'' \<in> {e. cited_for example_spec [example_validated] [example_claim] [example_edge] e \<and> dget example_numbers e \<noteq> None}"
    unfolding cited(1) [symmetric] by simp
  then have one: "cited_for example_spec [example_validated] [example_claim] [example_edge] ''ev1''" by simp
  obtain n where n: "dget example_numbers ''ev1'' = Some n"
      "pget (as_dict (pget (rr_citation_map example_report) ''ev1'')) ''display_number'' = PInt n"
    using cited(2) by (meson list.set_intros(1))
  have "n = 1" using n(1) by (simp add: example_numbers_def)
  then show ?thesis using example_report_map one n(2) by simp
qed

end
