(* ===== verification/UnitAssembler.thy ===== *)
theory UnitAssembler
  imports UnitValidator
begin

text \<open>
  Assembly of a worker's candidate answer into the frozen shape of its ask
  (\<open>app/research/delivery/unit_assembler.py\<close>), and what survives validation: every established
  field is quoted from the text of the claims it is bound to.  Case folding, digits and white space are the
  ASCII ones; strings are UTF-8, so that searching bytes is searching characters.
\<close>

section \<open>Values and claim texts\<close>

definition one_to_nine :: "char \<Rightarrow> bool" where
  "one_to_nine c = (is_digit c \<and> c \<noteq> CHR ''0'')"

text \<open>\<open>0?[1-9]|1[0-2]\<close> and \<open>0?[1-9]|[12]\d|3[01]\<close>.\<close>

definition month_text :: "string \<Rightarrow> bool" where
  "month_text s =
     (case s of [a] \<Rightarrow> one_to_nine a
      | [a, b] \<Rightarrow> (a = CHR ''0'' \<and> one_to_nine b) \<or> (a = CHR ''1'' \<and> b \<in> set ''012'')
      | _ \<Rightarrow> False)"

definition day_text :: "string \<Rightarrow> bool" where
  "day_text s =
     (case s of [a] \<Rightarrow> one_to_nine a
      | [a, b] \<Rightarrow> (a = CHR ''0'' \<and> one_to_nine b) \<or> (a \<in> set ''12'' \<and> is_digit b) \<or> (a = CHR ''3'' \<and> b \<in> set ''01'')
      | _ \<Rightarrow> False)"

text \<open>
  \<open>(20\d{2})-(0?[1-9]|1[0-2])-(0?[1-9]|[12]\d|3[01])\<close> as a full match, with the numbers of its
  three groups as decimal text.
\<close>

definition drop_zero :: "string \<Rightarrow> string" where
  "drop_zero s = (case s of c # r \<Rightarrow> if c = CHR ''0'' then r else s | [] \<Rightarrow> [])"

definition iso_date :: "string \<Rightarrow> (string \<times> string \<times> string) option" where
  "iso_date s =
     (let year = take 4 s; rest = drop 4 s; month = takeWhile (\<lambda>c. c \<noteq> CHR ''-'') (drop 1 rest);
          after = drop (Suc (length month)) rest; day = drop 1 after
      in if is_prefix ''20'' year \<and> length year = 4 \<and> list_all is_digit year
            \<and> take 1 rest = ''-'' \<and> month_text month
            \<and> take 1 after = ''-'' \<and> day_text day
         then Some (year, drop_zero month, drop_zero day) else None)"

text \<open>
  \<open>re.search(rf"{year}\s*Y\s*0?{month}\s*M\s*0?{day}\s*D", text)\<close>, where Y, M and D are the
  Chinese signs of year, month and day.  No element of the pattern can match in two ways that matter: a blank never starts what
  follows it and the numbers have no leading zero.
\<close>

definition expect :: "string \<Rightarrow> string option \<Rightarrow> string option" where
  "expect token r = (case r of None \<Rightarrow> None | Some s \<Rightarrow> if is_prefix token s then Some (drop (length token) s) else None)"

definition blanks :: "string option \<Rightarrow> string option" where
  "blanks r = map_option (dropWhile is_space) r"

definition year_sign :: string where
  "year_sign = [CHR 0xE5, CHR 0xB9, CHR 0xB4]"

definition month_sign :: string where
  "month_sign = [CHR 0xE6, CHR 0x9C, CHR 0x88]"

definition day_sign :: string where
  "day_sign = [CHR 0xE6, CHR 0x97, CHR 0xA5]"

definition chinese_date_at :: "string \<times> string \<times> string \<Rightarrow> string \<Rightarrow> bool" where
  "chinese_date_at d s =
     (case d of (year, month, day) \<Rightarrow>
        let after_year = blanks (expect year_sign (blanks (expect year (Some s))));
            after_month = blanks (expect month_sign (blanks (expect month (map_option drop_zero after_year))))
        in expect day_sign (blanks (expect day (map_option drop_zero after_month))) \<noteq> None)"

fun search_text :: "(string \<Rightarrow> bool) \<Rightarrow> string \<Rightarrow> bool" where
  "search_text p [] = p []"
| "search_text p (c # s) = (p (c # s) \<or> search_text p s)"

definition value_appears_in_claim :: "pyval \<Rightarrow> string \<Rightarrow> bool" where
  "value_appears_in_claim v text_of_claim =
     (let rendered = py_strip (str_or v []) in
      if rendered = [] \<or> text_of_claim = [] then False
      else if is_infix (py_lower rendered) (py_lower text_of_claim) then True
      else case iso_date rendered of
        None \<Rightarrow> False
      | Some d \<Rightarrow> search_text (chinese_date_at d) text_of_claim)"

section \<open>Assembly\<close>

text \<open>What the assembly of one task's candidates knows: the task, its supported claims and their texts.\<close>

record claim_scope =
  cs_task_id :: string
  cs_supported :: "string list"
  cs_texts :: "string dict"

definition claim_text :: "claim_scope \<Rightarrow> string \<Rightarrow> string" where
  "claim_text sc i = (case dget (cs_texts sc) i of None \<Rightarrow> [] | Some t \<Rightarrow> t)"

definition quoted_in :: "claim_scope \<Rightarrow> pyval \<Rightarrow> string \<Rightarrow> bool" where
  "quoted_in sc v i = value_appears_in_claim v (claim_text sc i)"

text \<open>The empty text stands for an unresolved claim.\<close>

definition resolved_claim_id :: "claim_scope \<Rightarrow> pyval \<Rightarrow> string" where
  "resolved_claim_id sc v =
     (let loc = str_or v []; prefix = cs_task_id sc @ '':'';
          scoped = (if is_prefix prefix loc then loc else prefix @ loc)
      in if scoped \<in> set (cs_supported sc) then scoped else [])"

text \<open>The members of an entity list: one claim each, or none at all when a member has no claim.\<close>

fun member_claims :: "claim_scope \<Rightarrow> string list \<Rightarrow> string list option" where
  "member_claims sc [] = Some []"
| "member_claims sc (e # es) =
     (case filter (quoted_in sc (PStr e)) (cs_supported sc) of
        [] \<Rightarrow> None
      | c # _ \<Rightarrow> map_option (\<lambda>cs. c # cs) (member_claims sc es))"

definition entity_field :: "claim_scope \<Rightarrow> string list \<Rightarrow> unit_field" where
  "entity_field sc entities =
     \<lparr>uf_value = strs entities, uf_value_kind = ''entity_list'',
      uf_claim_ids = fromkeys (case member_claims sc entities of None \<Rightarrow> [] | Some cs \<Rightarrow> cs),
      uf_premise_claim_ids = [], uf_rationale = [], uf_limitation_status = []\<rparr>"

definition bound_claims :: "claim_scope \<Rightarrow> pyval \<Rightarrow> pyval list \<Rightarrow> string list" where
  "bound_claims sc v named =
     (let resolved = filter (\<lambda>i. i \<noteq> [] \<and> quoted_in sc v i) (map (resolved_claim_id sc) named)
      in if resolved = [] then take 3 (filter (quoted_in sc v) (cs_supported sc)) else resolved)"

definition premise_claims :: "claim_scope \<Rightarrow> unit_field dict \<Rightarrow> string \<Rightarrow> pyval list \<Rightarrow> string list" where
  "premise_claims sc built value_type named =
     (let resolved = filter (\<lambda>i. i \<noteq> []) (map (resolved_claim_id sc) named)
      in if value_type \<in> {''inference'', ''forecast''} \<and> resolved = []
         then take 3 (fromkeys (concat (map (\<lambda>(k, f). uf_claim_ids f) built))) else resolved)"

definition literal_field ::
  "claim_scope \<Rightarrow> unit_field dict \<Rightarrow> field_requirement \<Rightarrow> pydict \<Rightarrow> unit_field res" where
  "literal_field sc built q raw =
     ebind (iter_or_empty (pget raw ''claim_ids'')) (\<lambda>named_claims.
     ebind (iter_or_empty (pget raw ''premise_claim_ids'')) (\<lambda>named_premises. Inr
       (let v = pget raw ''value'' in
        if fq_value_type q \<in> {''inference'', ''forecast''}
          then \<lparr>uf_value = v, uf_value_kind = fq_value_type q, uf_claim_ids = [],
                uf_premise_claim_ids = premise_claims sc built (fq_value_type q) named_premises,
                uf_rationale = str_or (pget raw ''rationale'') [], uf_limitation_status = []\<rparr>
        else if fq_value_type q = ''limitation''
          then \<lparr>uf_value = v, uf_value_kind = ''limitation'', uf_claim_ids = [], uf_premise_claim_ids = [],
                uf_rationale = [], uf_limitation_status = str_or (pget raw ''limitation_status'') []\<rparr>
        else \<lparr>uf_value = v, uf_value_kind = fq_value_type q, uf_claim_ids = bound_claims sc v named_claims,
              uf_premise_claim_ids = [], uf_rationale = [], uf_limitation_status = []\<rparr>)))"

fun assemble_fields ::
  "claim_scope \<Rightarrow> string list \<Rightarrow> pydict \<Rightarrow> field_requirement list \<Rightarrow> unit_field dict \<Rightarrow> unit_field dict res" where
  "assemble_fields sc entities raw [] built = Inr built"
| "assemble_fields sc entities raw (q # qs) built =
     (if \<not> is_dict (pget raw (fq_field_id q)) then assemble_fields sc entities raw qs built
      else if fq_value_type q = ''entity_list'' \<and> entities \<noteq> []
        then assemble_fields sc entities raw qs (dput (fq_field_id q) (entity_field sc entities) built)
      else ebind (literal_field sc built q (as_dict (pget raw (fq_field_id q)))) (\<lambda>f.
             assemble_fields sc entities raw qs (dput (fq_field_id q) f built)))"

definition assemble_candidate_unit ::
  "answer_spec \<Rightarrow> ask_spec \<Rightarrow> pydict \<Rightarrow> claim_scope \<Rightarrow> nat \<Rightarrow> answer_unit res" where
  "assemble_candidate_unit spec ask candidate sc index =
     ebind (dict_or_empty (pget candidate ''fields'')) (\<lambda>raw.
     ebind (nonempty_strs (pget candidate ''entity_ids'')) (\<lambda>entities.
     ebind (assemble_fields sc entities raw (as_required_fields ask) []) (\<lambda>built. Inr
       \<lparr>un_unit_id = ''unit:'' @ cs_task_id sc @ '':'' @ str_or (pget candidate ''unit_id'') (nat_str index),
        un_ask_id = as_ask_id ask, un_spec_revision = sp_revision spec, un_kind = as_kind ask,
        un_entity_ids = entities, un_fields = built, un_validation = pending_validation\<rparr>)))"

section \<open>Where the parts of an assembled unit come from\<close>

lemma resolved_claim_supported: "resolved_claim_id sc v \<noteq> [] \<Longrightarrow> resolved_claim_id sc v \<in> set (cs_supported sc)"
  by (auto simp: resolved_claim_id_def Let_def split: if_splits)

lemma bound_claims_quoted: "i \<in> set (bound_claims sc v named) \<Longrightarrow> i \<in> set (cs_supported sc) \<and> quoted_in sc v i"
  using resolved_claim_supported by (fastforce simp: bound_claims_def Let_def dest: in_set_takeD split: if_splits)

lemma member_claims_quoted:
  "member_claims sc es = Some cs \<Longrightarrow>
     set cs \<subseteq> set (cs_supported sc) \<and> (\<forall>c\<in>set cs. \<exists>e\<in>set es. quoted_in sc (PStr e) c) \<and>
     (\<forall>e\<in>set es. \<exists>c\<in>set cs. quoted_in sc (PStr e) c)"
proof (induction es arbitrary: cs)
  case (Cons e es)
  then obtain c r ds where c: "filter (quoted_in sc (PStr e)) (cs_supported sc) = c # r"
    and ds: "member_claims sc es = Some ds" "cs = c # ds"
    by (auto split: list.splits)
  have "c \<in> set (filter (quoted_in sc (PStr e)) (cs_supported sc))" by (simp add: c)
  then show ?case using Cons.IH [OF ds(1)] by (auto simp: ds(2))
qed simp

text \<open>
  What a field of an assembled unit rests on: claims the task has support for, each quoting the
  value, or, for an entity list, each naming a member and every member named.
\<close>

definition field_from_claims :: "claim_scope \<Rightarrow> string list \<Rightarrow> field_requirement \<Rightarrow> unit_field \<Rightarrow> bool" where
  "field_from_claims sc entities q f \<longleftrightarrow>
     set (uf_claim_ids f) \<union> set (uf_premise_claim_ids f) \<subseteq> set (cs_supported sc) \<and>
     (if fq_value_type q = ''entity_list'' \<and> entities \<noteq> []
      then uf_value f = strs entities \<and>
           (uf_claim_ids f \<noteq> [] \<longrightarrow> (\<forall>e\<in>set entities. \<exists>i\<in>set (uf_claim_ids f). quoted_in sc (PStr e) i))
      else \<forall>i\<in>set (uf_claim_ids f). quoted_in sc (uf_value f) i)"

lemma entity_field_from_claims:
  "fq_value_type q = ''entity_list'' \<Longrightarrow> entities \<noteq> [] \<Longrightarrow> field_from_claims sc entities q (entity_field sc entities)"
  by (auto simp: field_from_claims_def entity_field_def dest!: member_claims_quoted split: option.splits)

lemma premise_claims_supported:
  assumes "\<forall>kf\<in>set built. set (uf_claim_ids (snd kf)) \<subseteq> set (cs_supported sc)"
  shows "set (premise_claims sc built ty named) \<subseteq> set (cs_supported sc)"
  using assms resolved_claim_supported
  by (fastforce simp: premise_claims_def Let_def dest: in_set_takeD split: if_splits)

lemma literal_field_from_claims:
  assumes "literal_field sc built q d = Inr f" "\<not> (fq_value_type q = ''entity_list'' \<and> entities \<noteq> [])"
    and "\<forall>kf\<in>set built. set (uf_claim_ids (snd kf)) \<subseteq> set (cs_supported sc)"
  shows "field_from_claims sc entities q f"
proof -
  note prem = premise_claims_supported [OF assms(3), THEN subsetD]
  show ?thesis
    using assms(1,2)
    by (auto intro: prem simp: literal_field_def field_from_claims_def Let_def ebind_eq_Inr dest: bound_claims_quoted split: if_splits)
qed

definition fields_from_claims :: "claim_scope \<Rightarrow> string list \<Rightarrow> field_requirement list \<Rightarrow> unit_field dict \<Rightarrow> bool" where
  "fields_from_claims sc entities qs built \<longleftrightarrow>
     (\<forall>(k, f)\<in>set built. \<exists>q\<in>set qs. fq_field_id q = k \<and> field_from_claims sc entities q f)"

lemma fields_from_claims_dput:
  "fields_from_claims sc entities qs built \<Longrightarrow> q \<in> set qs \<Longrightarrow> field_from_claims sc entities q f \<Longrightarrow>
     fields_from_claims sc entities qs (dput (fq_field_id q) f built)"
  using set_dput_subset [of "fq_field_id q" f built] by (fastforce simp: fields_from_claims_def)

lemma fields_from_claims_supported:
  "fields_from_claims sc entities qs built \<Longrightarrow> \<forall>kf\<in>set built. set (uf_claim_ids (snd kf)) \<subseteq> set (cs_supported sc)"
  by (fastforce simp: fields_from_claims_def field_from_claims_def)

lemma assemble_fields_from_claims:
  assumes "assemble_fields sc entities raw qs built = Inr built'" "set qs \<subseteq> set all"
    and "fields_from_claims sc entities all built"
  shows "fields_from_claims sc entities all built'"
  using assms
proof (induction sc entities raw qs built rule: assemble_fields.induct)
  case (2 sc entities raw q qs built)
  let ?raw = "pget raw (fq_field_id q)"
  consider (skipped) "\<not> is_dict ?raw" | (members) "is_dict ?raw" "fq_value_type q = ''entity_list'' \<and> entities \<noteq> []"
    | (single) "is_dict ?raw" "\<not> (fq_value_type q = ''entity_list'' \<and> entities \<noteq> [])" by blast
  then show ?case
  proof cases
    case skipped
    then show ?thesis using "2.IH"(1) "2.prems" by simp
  next
    case members
    then have "assemble_fields sc entities raw qs (dput (fq_field_id q) (entity_field sc entities) built) = Inr built'"
      using "2.prems"(1) by (simp only: assemble_fields.simps if_True if_False simp_thms)
    moreover have "q \<in> set all" "set qs \<subseteq> set all" using "2.prems"(2) by auto
    ultimately show ?thesis
      using "2.IH"(2) members "2.prems"(3) fields_from_claims_dput entity_field_from_claims by blast
  next
    case single
    obtain f where f: "literal_field sc built q (as_dict ?raw) = Inr f"
      and go: "assemble_fields sc entities raw qs (dput (fq_field_id q) f built) = Inr built'"
      using "2.prems"(1) single by (simp only: assemble_fields.simps if_False simp_thms ebind_eq_Inr) blast
    have "field_from_claims sc entities q f"
      using literal_field_from_claims [OF f single(2)] "2.prems"(3) fields_from_claims_supported by blast
    moreover have "q \<in> set all" "set qs \<subseteq> set all" using "2.prems"(2) by auto
    ultimately show ?thesis
      using "2.IH"(3) single f go "2.prems"(3) fields_from_claims_dput by blast
  qed
qed simp

lemma assembled_unit:
  assumes "assemble_candidate_unit spec ask candidate sc n = Inr u"
  shows "un_ask_id u = as_ask_id ask" "un_spec_revision u = sp_revision spec" "un_kind u = as_kind ask"
    "un_validation u = pending_validation"
    "fields_from_claims sc (un_entity_ids u) (as_required_fields ask) (un_fields u)"
proof -
  obtain raw entities built where "assemble_fields sc entities raw (as_required_fields ask) [] = Inr built"
    and "un_fields u = built" "un_entity_ids u = entities"
    and rest: "un_ask_id u = as_ask_id ask" "un_spec_revision u = sp_revision spec" "un_kind u = as_kind ask"
      "un_validation u = pending_validation"
    using assms by (auto simp: assemble_candidate_unit_def ebind_eq_Inr)
  then show "fields_from_claims sc (un_entity_ids u) (as_required_fields ask) (un_fields u)"
    using assemble_fields_from_claims [of sc entities raw "as_required_fields ask" "[]" built "as_required_fields ask"]
    by (simp add: fields_from_claims_def)
  show "un_ask_id u = as_ask_id ask" "un_spec_revision u = sp_revision spec" "un_kind u = as_kind ask"
    "un_validation u = pending_validation" by (rule rest)+
qed

section \<open>What a valid assembled unit says\<close>

lemma assembled_field:
  assumes "assemble_candidate_unit spec ask candidate sc n = Inr u" "dget (un_fields u) (fq_field_id q) = Some f"
    and "q \<in> set (as_required_fields ask)" "distinct (map fq_field_id (as_required_fields ask))"
  shows "field_from_claims sc (un_entity_ids u) q f"
proof -
  have "(fq_field_id q, f) \<in> set (un_fields u)" using assms(2) by (rule map_of_SomeD)
  then obtain q' where "q' \<in> set (as_required_fields ask)" "fq_field_id q' = fq_field_id q"
    "field_from_claims sc (un_entity_ids u) q' f"
    using assembled_unit(5) [OF assms(1)] by (fastforce simp: fields_from_claims_def)
  then show ?thesis using assms(3,4) by (metis distinct_map inj_on_eq_iff)
qed

lemma valid_field_justified:
  assumes "validate_unit spec cs es ev u = Inr v" "uv_status (un_validation v) = ''valid''"
    and "ask \<in> set (sp_asks spec)" "as_ask_id ask = un_ask_id u" "distinct (map as_ask_id (sp_asks spec))"
    and "q \<in> set (as_required_fields ask)"
  shows "field_justified cs es v q"
proof -
  obtain a where "a \<in> set (sp_asks spec)" "as_ask_id a = un_ask_id v" "\<forall>q\<in>set (as_required_fields a). field_justified cs es v q"
    using validate_unit_valid [OF assms(1,2)] by metis
  moreover have "a = ask"
    using assms(3-5) validate_unit_keeps [OF assms(1)] calculation(1,2) by (metis distinct_map inj_on_eq_iff)
  ultimately show ?thesis using assms(6) by blast
qed

definition literal_type :: "field_requirement \<Rightarrow> bool" where
  "literal_type q = (fq_value_type q \<notin> {''inference'', ''forecast'', ''limitation''})"

lemma valid_literal_bound:
  assumes "assemble_candidate_unit spec ask candidate sc n = Inr u" "validate_unit spec cs es ev u = Inr v"
    and "uv_status (un_validation v) = ''valid''"
    and "ask \<in> set (sp_asks spec)" "distinct (map as_ask_id (sp_asks spec))"
    and "q \<in> set (as_required_fields ask)" "literal_type q"
    and "dget (un_fields v) (fq_field_id q) = Some f" "value_present (uf_value f)"
  shows "uf_claim_ids f \<noteq> [] \<and> (\<forall>i\<in>set (uf_claim_ids f). supported_claim cs es i)"
proof -
  have "field_justified cs es v q"
    using valid_field_justified [OF assms(2-4) _ assms(5,6)] assembled_unit(1) [OF assms(1)] by simp
  then show ?thesis
    using assms(7-9) by (simp add: field_justified_def literal_type_def bound_ids_def is_inferred_def)
qed

text \<open>C3. An answer that survived says nothing its sources do not: take a worker's candidate,
  assembled for an ask and then validated.  If the unit is valid, every literal value it gives for a
  required field is bound to at least one claim; each of these claims belongs to the supported claims of the
  task, is supported by evidence in the validation, and its text contains the value; when the field lists entities, every
  entity is contained in the text of one of them.
\<close>

theorem valid_literals_quoted:
  assumes "assemble_candidate_unit spec ask candidate sc n = Inr u" "validate_unit spec cs es ev u = Inr v"
    and "uv_status (un_validation v) = ''valid''"
    and "ask \<in> set (sp_asks spec)" "distinct (map as_ask_id (sp_asks spec))"
    and "q \<in> set (as_required_fields ask)" "distinct (map fq_field_id (as_required_fields ask))" "literal_type q"
    and "dget (un_fields v) (fq_field_id q) = Some f" "value_present (uf_value f)"
  shows "uf_claim_ids f \<noteq> [] \<and>
    (\<forall>i\<in>set (uf_claim_ids f). i \<in> set (cs_supported sc) \<and> supported_claim cs es i) \<and>
    (if fq_value_type q = ''entity_list'' \<and> un_entity_ids u \<noteq> []
     then \<forall>e\<in>set (un_entity_ids u). \<exists>i\<in>set (uf_claim_ids f). quoted_in sc (PStr e) i
     else \<forall>i\<in>set (uf_claim_ids f). quoted_in sc (uf_value f) i)"
proof -
  have "field_from_claims sc (un_entity_ids u) q f"
    using assembled_field [OF assms(1) _ assms(6,7)] assms(9) validate_unit_keeps [OF assms(2)] by simp
  then show ?thesis
    using valid_literal_bound [OF assms(1-6,8-10)] by (auto simp: field_from_claims_def)
qed

text \<open>
  A value that counts as false in Python is never found in a text: an answer of zero is present, so
  that it needs a claim, and can be bound to none.
\<close>

lemma zero_is_never_quoted: "\<not> quoted_in sc (PInt 0) i"
  by (simp add: quoted_in_def value_appears_in_claim_def str_or_def py_strip_def)

theorem zero_is_never_valid:
  assumes "assemble_candidate_unit spec ask candidate sc n = Inr u" "validate_unit spec cs es ev u = Inr v"
    and "ask \<in> set (sp_asks spec)" "distinct (map as_ask_id (sp_asks spec))"
    and "q \<in> set (as_required_fields ask)" "distinct (map fq_field_id (as_required_fields ask))"
    and "literal_type q" "fq_value_type q \<noteq> ''entity_list''"
    and "dget (un_fields v) (fq_field_id q) = Some f" "uf_value f = PInt 0"
  shows "uv_status (un_validation v) \<noteq> ''valid''"
proof
  assume "uv_status (un_validation v) = ''valid''"
  then have "uf_claim_ids f \<noteq> []"
    using valid_literal_bound [OF assms(1,2) _ assms(3-5,7,9)] assms(10) by (simp add: value_present_def)
  moreover have "field_from_claims sc (un_entity_ids u) q f"
    using assembled_field [OF assms(1) _ assms(5,6)] assms(9) validate_unit_keeps [OF assms(2)] by simp
  ultimately show False using zero_is_never_quoted assms(8,10) by (auto simp: field_from_claims_def neq_Nil_conv)
qed

section \<open>Examples\<close>

definition example_candidate :: pydict where
  "example_candidate = [(''unit_id'', PStr ''1''), (''entity_ids'', strs [''acme'']),
     (''fields'', PDict [(''answer'', PDict [(''value'', PInt 1998), (''claim_ids'', strs [''c7''])]), (''extra'', PStr ''ignored'')])]"

definition example_scope :: claim_scope where
  "example_scope = \<lparr>cs_task_id = ''t1'', cs_supported = [''t1:c1''], cs_texts = [(''t1:c1'', ''Founded in 1998.'')]\<rparr>"

text \<open>The candidate names a claim that does not exist; the value is bound to the claim that quotes it.\<close>

lemma example_assembled: "assemble_candidate_unit example_spec example_ask example_candidate example_scope 1 = Inr example_unit"
  by code_simp

lemma example_validates: "validate_unit example_spec [example_claim] [example_edge] ''evidence-v1'' example_unit = Inr example_validated"
  by code_simp

definition example_field :: unit_field where
  "example_field = \<lparr>uf_value = PInt 1998, uf_value_kind = ''fact'', uf_claim_ids = [''t1:c1''],
     uf_premise_claim_ids = [], uf_rationale = [], uf_limitation_status = []\<rparr>"

lemma example_validated_field: "dget (un_fields example_validated) (fq_field_id example_requirement) = Some example_field"
  by code_simp

lemma valid_literals_quoted_witness:
  "uf_claim_ids example_field \<noteq> [] \<and> supported_claim [example_claim] [example_edge] ''t1:c1'' \<and>
    quoted_in example_scope (PInt 1998) ''t1:c1''"
proof -
  have "uf_claim_ids example_field \<noteq> [] \<and>
    (\<forall>i\<in>set (uf_claim_ids example_field). i \<in> set (cs_supported example_scope) \<and> supported_claim [example_claim] [example_edge] i) \<and>
    (if fq_value_type example_requirement = ''entity_list'' \<and> un_entity_ids example_unit \<noteq> []
     then \<forall>e\<in>set (un_entity_ids example_unit). \<exists>i\<in>set (uf_claim_ids example_field). quoted_in example_scope (PStr e) i
     else \<forall>i\<in>set (uf_claim_ids example_field). quoted_in example_scope (uf_value example_field) i)"
    by (rule valid_literals_quoted [OF example_assembled example_validates example_validated_valid _ _ _ _ _ example_validated_field])
      (simp_all add: example_spec_def example_ask_def example_requirement_def example_field_def literal_type_def value_present_def)
  then show ?thesis by (simp add: example_field_def example_requirement_def)
qed

text \<open>An ISO date is found in its Chinese spelling, and dates that only share digits are not.\<close>

lemma iso_date_spelling:
  "value_appears_in_claim (PStr ''2024-03-05'') (''On 2024'' @ year_sign @ '' 3'' @ month_sign @ ''05'' @ day_sign)"
  "\<not> value_appears_in_claim (PStr ''2024-03-05'') (''On 2024'' @ year_sign @ ''3'' @ month_sign @ ''15'' @ day_sign)"
  by code_simp+

end
