(* ===== verification/CitationText.thy ===== *)
theory CitationText
  imports Citations
begin

text \<open>
  How the markers of a text follow from those of its parts: a character that is neither a digit nor a closing
  bracket separates, a printed number is read back, and the references of a document made of lines are those of
  the lines behind the reference heading.
\<close>

section \<open>Numbers\<close>

lemma is_digit_digit_char: "n < 10 \<Longrightarrow> is_digit (digit_char n) \<and> digit_val (digit_char n) = int n"
  by (simp add: is_digit_def digit_val_def digit_char_def)

lemma digits_value_snoc: "digits_value (ds @ [c]) = 10 * digits_value ds + digit_val c"
  by (simp add: digits_value_def)

lemma nat_str_digits: "list_all is_digit (nat_str n) \<and> digits_value (nat_str n) = int n"
proof (induction n rule: less_induct)
  case (less n)
  show ?case
  proof (cases "n < 10")
    case True
    then show ?thesis using is_digit_digit_char [of n] by (subst (1 2) nat_str.simps) (simp add: digits_value_def)
  next
    case False
    then have "list_all is_digit (nat_str (n div 10)) \<and> digits_value (nat_str (n div 10)) = int (n div 10)"
      by (intro less) simp
    moreover have "10 * int (n div 10) + int (n mod 10) = int n" by (simp add: zdiv_int zmod_int)
    ultimately show ?thesis
      using False is_digit_digit_char [of "n mod 10"] by (subst (1 2) nat_str.simps) (simp add: digits_value_snoc)
  qed
qed

lemma int_str_digits:
  assumes "0 \<le> i"
  shows "list_all is_digit (int_str i)" "digits_value (int_str i) = i"
  using nat_str_digits [of "nat i"] assms by (simp_all add: int_str_def)

section \<open>Markers\<close>

definition separates :: "char \<Rightarrow> bool" where
  "separates c \<longleftrightarrow> \<not> is_digit c \<and> c \<noteq> CHR '']''"

lemma marker_at_digits:
  assumes "list_all is_digit ds" "ds \<noteq> []"
  shows "marker_at (ds @ CHR '']'' # s) = Some (digits_value ds, s)"
proof -
  have "takeWhile is_digit (ds @ CHR '']'' # s) = ds" "dropWhile is_digit (ds @ CHR '']'' # s) = CHR '']'' # s"
    using assms(1) by (simp_all add: takeWhile_append dropWhile_append list_all_iff is_digit_def)
  then show ?thesis using assms(2) by (simp add: marker_at_def take_digits_def)
qed

lemma marker_at_separated:
  assumes "separates c"
  shows "marker_at (s @ c # t) = map_option (\<lambda>(n, r). (n, r @ c # t)) (marker_at s)"
proof -
  have "takeWhile is_digit (s @ c # t) = takeWhile is_digit s"
    and drop: "dropWhile is_digit (s @ c # t) = dropWhile is_digit s @ c # t"
    using assms by (auto simp: separates_def takeWhile_append dropWhile_append intro: takeWhile_eq_all_conv [THEN iffD2, THEN sym])
  moreover have "is_prefix '']'' (r @ c # t) \<longleftrightarrow> is_prefix '']'' r" for r
    using assms by (cases r) (auto simp: separates_def)
  moreover have "is_prefix '']'' r \<Longrightarrow> drop 1 (r @ c # t) = drop 1 r @ c # t" for r
    by (cases r) auto
  ultimately show ?thesis by (simp add: marker_at_def take_digits_def)
qed

lemma find_markers_separated: "separates c \<Longrightarrow> find_markers (s @ c # t) = find_markers s @ find_markers (c # t)"
  by (induction s) (auto simp: marker_at_separated split: option.splits)

lemma find_markers_plain: "CHR ''['' \<notin> set p \<Longrightarrow> find_markers (p @ s) = find_markers s"
  by (induction p) auto

lemma digit_not_bracket: "is_digit c \<Longrightarrow> c \<noteq> CHR ''['' \<and> c \<noteq> CHR '']''"
  by (auto simp: is_digit_def)

lemma find_markers_number:
  assumes "0 \<le> n"
  shows "find_markers (''['' @ int_str n @ '']'' @ s) = n # find_markers s"
proof -
  have "CHR ''['' \<notin> set (int_str n @ '']'')"
    using int_str_digits(1) [OF assms] digit_not_bracket by (auto simp: list_all_iff)
  then have "find_markers (int_str n @ '']'' @ s) = find_markers s" using find_markers_plain [of "int_str n @ '']''" s] by simp
  then show ?thesis using marker_at_digits [OF int_str_digits(1) [OF assms], of s] int_str_digits(2) [OF assms] by simp
qed

section \<open>Lines\<close>

definition unlines :: "string list \<Rightarrow> string" where
  "unlines ls = concat (map (\<lambda>l. l @ newline) ls)"

lemma unlines_simps [simp]:
  "unlines [] = []" "unlines (l # ls) = l @ CHR 0x0A # unlines ls" "unlines (ls @ ms) = unlines ls @ unlines ms"
  by (simp_all add: unlines_def newline_def)

lemma join_unlines: "join newline (ls @ [[]]) = unlines ls"
proof (induction ls)
  case (Cons l ls)
  then show ?case by (cases ls) (simp_all add: newline_def)
qed simp

lemma newline_separates [simp]: "separates (CHR 0x0A)"
  by (simp add: separates_def is_digit_def)

lemma find_markers_unlines: "find_markers (unlines ls @ t) = concat (map find_markers ls) @ find_markers t"
  by (induction ls) (simp_all add: find_markers_separated)

lemma is_prefix_separated: "c \<notin> set h \<Longrightarrow> is_prefix h (s @ c # t) = is_prefix h s"
proof (induction h arbitrary: s)
  case (Cons d h)
  then show ?case by (cases s) auto
qed simp

lemma in_utf8: "c \<in> set (utf8 bs) \<longleftrightarrow> (\<exists>b\<in>set bs. take_bit 8 b = of_char c)"
proof -
  have "c = char_of b \<longleftrightarrow> take_bit 8 b = of_char c" for b :: nat
    using char_of_eq_iff [of b c] by auto
  then show ?thesis unfolding utf8_def set_map image_iff by simp
qed

lemma heading_chars: "h \<in> set reference_headings \<Longrightarrow> CHR 0x0A \<notin> set h"
  by (auto simp: reference_headings_def in_utf8)

definition heading_free :: "string \<Rightarrow> bool" where
  "heading_free s \<longleftrightarrow> list_all (\<lambda>h. \<not> is_infix h s) reference_headings"

lemma heading_free_Cons: "heading_free (c # s) \<longleftrightarrow> heading_at (c # s) = None \<and> heading_free s"
  by (auto simp: heading_free_def heading_at_def reference_headings_def)

lemma heading_at_newline: "heading_at (s @ CHR 0x0A # t) = None \<longleftrightarrow> heading_at s = None"
proof -
  have "filter (\<lambda>h. is_prefix h (s @ CHR 0x0A # t)) reference_headings = filter (\<lambda>h. is_prefix h s) reference_headings"
    by (rule filter_cong) (simp_all add: is_prefix_separated heading_chars)
  then show ?thesis by (simp add: heading_at_def split: list.splits)
qed

lemma split_references_line:
  "heading_free s \<Longrightarrow> split_references (s @ CHR 0x0A # t)
     = (s @ CHR 0x0A # fst (split_references t), snd (split_references t))"
proof (induction s)
  case Nil
  have "heading_at (CHR 0x0A # t) = None" using heading_at_newline [of "[]" t] by (simp add: heading_at_def reference_headings_def)
  then show ?case by (simp split: prod.splits)
next
  case (Cons c s)
  then have "heading_at ((c # s) @ CHR 0x0A # t) = None" "heading_free s"
    using heading_at_newline [of "c # s" t] by (simp_all add: heading_free_Cons)
  then show ?case using Cons.IH by simp
qed

lemma split_references_unlines:
  "list_all heading_free ls \<Longrightarrow> split_references (unlines ls @ t)
     = (unlines ls @ fst (split_references t), snd (split_references t))"
  by (induction ls) (simp_all add: split_references_line)

lemma line_numbers_plain: "CHR ''['' \<notin> set p \<Longrightarrow> line_numbers b (p @ CHR 0x0A # t) = line_numbers True t"
  by (induction p arbitrary: b) auto

text \<open>A line of the reference block, whose text behind the number holds no bracket.\<close>

lemma line_numbers_reference:
  assumes "0 \<le> n" "CHR ''['' \<notin> set p"
  shows "line_numbers True (''['' @ int_str n @ ''] '' @ p @ CHR 0x0A # t) = n # line_numbers True t"
proof -
  have "CHR ''['' \<notin> set (int_str n @ ''] '' @ p)"
    using int_str_digits(1) [OF assms(1)] digit_not_bracket assms(2) by (auto simp: list_all_iff)
  then have "line_numbers False ((int_str n @ ''] '' @ p) @ CHR 0x0A # t) = line_numbers True t" by (rule line_numbers_plain)
  then show ?thesis
    using marker_at_digits [OF int_str_digits(1) [OF assms(1)], of "CHR '' '' # p @ CHR 0x0A # t"] int_str_digits(2) [OF assms(1)]
    by (simp add: is_space_def)
qed

section \<open>Trailing blanks\<close>

definition blank_text :: "string \<Rightarrow> bool" where
  "blank_text w \<longleftrightarrow> list_all is_space w"

lemma space_chars: "is_space c \<Longrightarrow> separates c \<and> c \<noteq> CHR ''[''"
  by (auto simp: is_space_def separates_def is_digit_def Let_def)

lemma blank_markers: "blank_text w \<Longrightarrow> find_markers w = []"
  by (induction w) (auto simp: blank_text_def dest: space_chars)

lemma find_markers_trailing: "blank_text w \<Longrightarrow> find_markers (s @ w) = find_markers s"
  using blank_markers [of w] find_markers_separated space_chars
  by (cases w) (auto simp: blank_text_def)

lemma blank_line_numbers: "blank_text w \<Longrightarrow> line_numbers b w = []"
  by (induction w arbitrary: b) (auto simp: blank_text_def dest: space_chars)

lemma line_numbers_trailing:
  assumes "is_space c" "is_space d" "blank_text v" "blank_text w"
  shows "line_numbers b (s @ c # v) = line_numbers b (s @ d # w)"
proof (induction s arbitrary: b)
  case Nil
  then show ?case using assms blank_line_numbers [of "_ # _"] by (simp add: blank_text_def)
next
  case (Cons a s)
  have "separates c" "separates d" using assms space_chars by blast+
  then have "(case marker_at (s @ c # v) of Some (n, e # _) \<Rightarrow> if is_space e then [n] else [] | _ \<Rightarrow> [])
    = (case marker_at (s @ d # w) of Some (n, e # _) \<Rightarrow> if is_space e then [n] else [] | _ \<Rightarrow> [])"
    using assms(1,2) by (cases "marker_at s"; cases "snd (the (marker_at s))") (auto simp: marker_at_separated)
  then show ?case using Cons by simp
qed

lemma heading_end: "h \<in> set reference_headings \<Longrightarrow> h \<noteq> [] \<and> \<not> is_space (last h)"
  by (auto simp: reference_headings_def utf8_def is_space_def)

lemma is_prefix_trailing:
  assumes "h \<noteq> []" "\<not> is_space (last h)" "blank_text w"
  shows "is_prefix h (s @ w) \<longleftrightarrow> is_prefix h s"
proof
  assume "is_prefix h (s @ w)"
  then obtain u where u: "s @ w = h @ u" by (auto simp: is_prefix_iff)
  then obtain v where "s = h @ v \<or> (h = s @ v \<and> w = v @ u)" by (auto simp: append_eq_append_conv2)
  moreover have "v = []" if "h = s @ v" "w = v @ u" for v
    using that assms by (cases v rule: rev_cases) (auto simp: blank_text_def)
  ultimately show "is_prefix h s" by (auto simp: is_prefix_iff)
qed (auto simp: is_prefix_iff)

lemma heading_at_trailing: "blank_text w \<Longrightarrow> heading_at (s @ w) = map_option (\<lambda>r. r @ w) (heading_at s)"
proof -
  assume w: "blank_text w"
  have eq: "filter (\<lambda>h. is_prefix h (s @ w)) reference_headings = filter (\<lambda>h. is_prefix h s) reference_headings"
    by (rule filter_cong) (simp_all add: is_prefix_trailing heading_end w)
  show ?thesis
  proof (cases "filter (\<lambda>h. is_prefix h s) reference_headings")
    case (Cons h hs)
    then have "h \<in> set (filter (\<lambda>h. is_prefix h s) reference_headings)" by simp
    then have "is_prefix h s" by simp
    then show ?thesis using Cons eq by (auto simp: heading_at_def is_prefix_iff)
  qed (use eq in \<open>simp add: heading_at_def\<close>)
qed

lemma split_references_trailing:
  assumes "blank_text w"
  shows "split_references (s @ w) =
    (case split_references s of (b, None) \<Rightarrow> (b @ w, None) | (b, Some r) \<Rightarrow> (b, Some (r @ w)))"
proof (induction s)
  case Nil
  have "\<not> is_infix h w" if "h \<in> set reference_headings" for h
  proof
    assume "is_infix h w"
    then have "set h \<subseteq> set w" by (auto simp: is_infix_iff)
    then have "last h \<in> set w" using heading_end [OF that] last_in_set by blast
    then show False using heading_end [OF that] assms by (auto simp: blank_text_def list_all_iff)
  qed
  then have "heading_free w" by (simp add: heading_free_def list_all_iff)
  then have "split_references w = (w, None)"
    by (induction w) (auto simp: heading_free_Cons split: option.splits)
  then show ?case by simp
next
  case (Cons c s)
  then show ?case
    using heading_at_trailing [OF assms, of "c # s"] by (auto split: option.splits prod.splits)
qed

text \<open>What matters in a text that ends in blanks is left when they are replaced by others.\<close>

lemma trailing_citations:
  assumes "blank_text (c # v)" "blank_text (d # w)"
  shows "collect_body_citations (s @ c # v) = collect_body_citations (s @ d # w)"
    "collect_reference_numbers (s @ c # v) = collect_reference_numbers (s @ d # w)"
  using line_numbers_trailing [of c d v w True] assms
  by (simp_all add: collect_body_citations_def collect_reference_numbers_def split_references_trailing
      find_markers_trailing blank_text_def split: prod.splits option.splits)

lemma last_taken: "r \<noteq> [] \<Longrightarrow> P (last r) \<Longrightarrow> takeWhile P (rev r) \<noteq> []"
  by (cases r rule: rev_cases) auto

lemma py_strip_end:
  assumes "s = c # t" "\<not> is_space c"
  obtains w where "s = py_strip s @ w" "blank_text w" "is_space (last s) \<Longrightarrow> w \<noteq> []"
proof -
  let ?w = "rev (takeWhile is_space (rev s))"
  have "py_strip s = rev (dropWhile is_space (rev s))" using assms by (simp add: py_strip_def)
  moreover have "rev (takeWhile is_space (rev s) @ dropWhile is_space (rev s)) = s" by simp
  ultimately have "s = py_strip s @ ?w" unfolding rev_append by simp
  moreover have "blank_text ?w" by (auto simp: blank_text_def list_all_iff dest: set_takeWhileD)
  moreover have "?w \<noteq> []" if "is_space (last s)"
    using last_taken [of s] that assms(1) by simp
  ultimately show ?thesis by (rule that)
qed

text \<open>A document is a text without its surrounding blanks, closed by a line break.\<close>

lemma stripped_citations:
  assumes "s = c # t" "\<not> is_space c" "is_space (last s)"
  shows "collect_body_citations (py_strip s @ newline) = collect_body_citations s"
    "collect_reference_numbers (py_strip s @ newline) = collect_reference_numbers s"
proof -
  obtain w where w: "s = py_strip s @ w" "blank_text w" "w \<noteq> []"
    using py_strip_end [OF assms(1,2)] assms(3) by metis
  then obtain d v where "w = d # v" by (cases w) auto
  moreover have "blank_text [CHR 0x0A]" by (simp add: blank_text_def is_space_def)
  ultimately show "collect_body_citations (py_strip s @ newline) = collect_body_citations s"
    "collect_reference_numbers (py_strip s @ newline) = collect_reference_numbers s"
    using trailing_citations [of "CHR 0x0A" "[]" d v "py_strip s"] w unfolding newline_def by metis+
qed

section \<open>Documents\<close>

text \<open>A document of body lines, and of body lines, the reference heading and reference lines.\<close>

lemma body_document:
  assumes "list_all heading_free ls"
  shows "collect_body_citations (unlines ls) = concat (map find_markers ls)" "collect_reference_numbers (unlines ls) = []"
  using split_references_unlines [OF assms, of "[]"] find_markers_unlines [of ls "[]"]
  by (simp_all add: collect_body_citations_def collect_reference_numbers_def)

lemma heading_line: "h \<in> set reference_headings \<Longrightarrow> split_references (h @ t) = ([], Some t)"
proof -
  assume h: "h \<in> set reference_headings"
  have "heading_at (h @ t) = Some t"
    using h by (auto simp: heading_at_def reference_headings_def utf8_def)
  moreover obtain c r where "h = c # r" using h by (auto simp: reference_headings_def)
  ultimately show ?thesis by simp
qed

lemma referenced_document:
  assumes "list_all heading_free ls" "h \<in> set reference_headings"
  shows "collect_body_citations (unlines ls @ h @ t) = concat (map find_markers ls)"
    "collect_reference_numbers (unlines ls @ h @ t) = line_numbers True t"
  using split_references_unlines [OF assms(1), of "h @ t"] find_markers_unlines [of ls "[]"] heading_line [OF assms(2), of t]
  by (simp_all add: collect_body_citations_def collect_reference_numbers_def)

end
