(* ===== verification/DocumentClosure.thy ===== *)
theory DocumentClosure
  imports UnitRenderer UnitAssembler CitationText
begin

text \<open>
  The document of the second answer engine against the check that decides about it: which numbers the body
  cites and which the reference block lists, and when the two agree.
\<close>

section \<open>Texts without markers\<close>

definition quiet :: "string \<Rightarrow> bool" where
  "quiet s \<longleftrightarrow> find_markers s = []"

definition plain :: "string \<Rightarrow> bool" where
  "plain s \<longleftrightarrow> CHR ''['' \<notin> set s"

lemma plain_append [simp]: "plain (s @ t) \<longleftrightarrow> plain s \<and> plain t"
  by (auto simp: plain_def)

lemma plain_Nil [simp]: "plain []"
  by (simp add: plain_def)

lemma plain_Cons [simp]: "plain (c # s) \<longleftrightarrow> c \<noteq> CHR ''['' \<and> plain s"
  by (auto simp: plain_def)

lemma plain_utf8 [simp]: "list_all (\<lambda>b. take_bit 8 b \<noteq> 91) bs \<Longrightarrow> plain (utf8 bs)"
  by (auto simp: plain_def in_utf8 list_all_iff)

lemma plain_find: "plain p \<Longrightarrow> find_markers (p @ s) = find_markers s"
  using find_markers_plain by (simp add: plain_def)

lemma plain_quiet: "plain s \<Longrightarrow> quiet s"
  using plain_find [of s "[]"] by (simp add: quiet_def)

lemma quiet_before: "quiet s \<Longrightarrow> t = [] \<or> separates (hd t) \<Longrightarrow> find_markers (s @ t) = find_markers t"
  by (cases t) (auto simp: quiet_def find_markers_separated)

lemma plain_nat_str [simp]: "plain (nat_str n)"
  using nat_str_digits [of n] digit_not_bracket by (auto simp: plain_def list_all_iff)

lemma plain_int_str [simp]: "plain (int_str i)"
  by (simp add: int_str_def)

lemma plain_texts [simp]:
  "plain unverified_text" "plain wide_colon" "plain rationale_text" "plain answer_text" "plain no_unit_text"
  "plain completed_text" "plain remainder_text" "plain scope_text" "plain wide_open" "plain wide_close"
  "plain title_open" "plain title_close" "plain wide_comma" "plain references_text"
  by (simp_all add: unverified_text_def wide_colon_def rationale_text_def answer_text_def no_unit_text_def
      completed_text_def remainder_text_def scope_text_def wide_open_def wide_close_def title_open_def
      title_close_def wide_comma_def references_text_def)

lemma wide_open_separates: "separates (hd (wide_open @ s))"
  by (simp add: wide_open_def utf8_def separates_def is_digit_def char_of_eq_iff)

lemma wide_close_separates: "separates (hd (wide_close @ s))"
  by (simp add: wide_close_def utf8_def separates_def is_digit_def char_of_eq_iff)

section \<open>Markers of the lines\<close>

definition number_marks :: "int list \<Rightarrow> string" where
  "number_marks ns = concat (map (\<lambda>n. ''['' @ int_str n @ '']'') ns)"

lemma find_number_marks: "list_all ((\<le>) 0) ns \<Longrightarrow> find_markers (number_marks ns) = ns"
proof (induction ns)
  case (Cons n ns)
  then show ?case using find_markers_number [of n "number_marks ns"] by (simp add: number_marks_def)
qed (simp add: number_marks_def)

lemma number_marks_start: "number_marks ns = [] \<or> separates (hd (number_marks ns))"
  by (cases ns) (auto simp: number_marks_def separates_def is_digit_def)

lemma citation_marks_numbers: "citation_marks cb f = number_marks (map (citation_number cb) (field_evidence cb f))"
  by (simp add: citation_marks_def number_marks_def comp_def)

definition quiet_field :: "unit_field \<Rightarrow> bool" where
  "quiet_field f \<longleftrightarrow> quiet (py_str (uf_value f)) \<and> quiet (uf_rationale f)"

lemma field_lines_markers:
  assumes "plain (fq_field_id q)" "\<And>f. shown_field u q = Some f \<Longrightarrow> quiet_field f"
    and "\<And>f. shown_field u q = Some f \<Longrightarrow> list_all (\<lambda>e. 0 \<le> citation_number cb e) (field_evidence cb f)"
  shows "concat (map find_markers (field_lines cb u q))
    = (case shown_field u q of None \<Rightarrow> [] | Some f \<Rightarrow> map (citation_number cb) (field_evidence cb f))"
proof (cases "shown_field u q")
  case None
  have "plain (''- **'' @ fq_field_id q @ ''**'' @ unverified_text)" using assms(1) by simp
  then show ?thesis using None plain_quiet by (auto simp: field_lines_def quiet_def)
next
  case (Some f)
  let ?label = "''- **'' @ map (\<lambda>c. if c = CHR ''_'' then CHR '' '' else c) (fq_field_id q) @ ''**'' @ wide_colon"
  let ?marks = "number_marks (map (citation_number cb) (field_evidence cb f))"
  have "plain (map (\<lambda>c. if c = CHR ''_'' then CHR '' '' else c) (fq_field_id q))"
    using assms(1) by (auto simp: plain_def split: if_splits)
  then have "plain ?label" by simp
  then have "find_markers (?label @ py_str (uf_value f) @ ?marks) = find_markers ?marks"
    using plain_find quiet_before number_marks_start assms(2) [OF Some] by (simp add: quiet_field_def)
  then have "find_markers (?label @ py_str (uf_value f) @ ?marks) = map (citation_number cb) (field_evidence cb f)"
    using find_number_marks assms(3) [OF Some] by (simp add: list_all_iff)
  moreover have "find_markers (rationale_text @ uf_rationale f) = []"
    using plain_find [of rationale_text] assms(2) [OF Some] by (simp add: quiet_field_def quiet_def)
  ultimately show ?thesis using Some by (simp add: field_lines_def citation_marks_numbers)
qed

text \<open>
  The texts a unit and an ask put into the document hold no marker of their own, and the identifiers of fields
  no bracket.
\<close>

definition quiet_unit :: "ask_spec \<Rightarrow> answer_unit \<Rightarrow> bool" where
  "quiet_unit ask u \<longleftrightarrow>
     (\<forall>index. quiet (unit_title index u)) \<and>
     (\<forall>q\<in>set (as_required_fields ask). \<forall>f. shown_field u q = Some f \<longrightarrow> quiet_field f)"

definition quiet_document :: "answer_spec \<Rightarrow> answer_unit list \<Rightarrow> bool" where
  "quiet_document spec us \<longleftrightarrow>
     quiet (sp_objective spec) \<and> quiet (sp_as_of spec) \<and> quiet (sp_timezone spec) \<and>
     (\<forall>ask\<in>set (sp_asks spec). quiet (as_original_text ask) \<and>
        (\<forall>q\<in>set (as_required_fields ask). plain (fq_field_id q)) \<and>
        (\<forall>u\<in>set (shown_units spec us ask). quiet_unit ask u))"

definition numbered :: "citation_base \<Rightarrow> bool" where
  "numbered cb \<longleftrightarrow> list_all (\<lambda>kn. 0 \<le> snd kn) (cb_numbers cb)"

lemma numbered_nonneg: "numbered cb \<Longrightarrow> 0 \<le> citation_number cb e"
  by (auto simp: numbered_def citation_number_def list_all_iff dest!: map_of_SomeD split: option.splits)

lemma unit_lines_markers:
  assumes "quiet_unit ask u" "\<forall>q\<in>set (as_required_fields ask). plain (fq_field_id q)" "numbered cb"
  shows "concat (map find_markers (unit_lines cb ask i u)) = map (citation_number cb) (unit_evidence cb ask u)"
proof -
  have title: "find_markers (''### '' @ nat_str i @ ''. '' @ unit_title i u) = []"
    using plain_find [of "''### '' @ nat_str i @ ''. ''" "unit_title i u"] assms(1)
    by (simp add: quiet_unit_def quiet_def)
  have "concat (map find_markers (concat (map (field_lines cb u) qs)))
      = map (citation_number cb) (concat (map (\<lambda>q. case shown_field u q of None \<Rightarrow> [] | Some f \<Rightarrow> field_evidence cb f) qs))"
    if "set qs \<subseteq> set (as_required_fields ask)" for qs
    using that
  proof (induction qs)
    case (Cons q qs)
    then have "concat (map find_markers (field_lines cb u q))
      = (case shown_field u q of None \<Rightarrow> [] | Some f \<Rightarrow> map (citation_number cb) (field_evidence cb f))"
      using assms numbered_nonneg by (intro field_lines_markers) (auto simp: quiet_unit_def list_all_iff)
    then show ?case using Cons by (auto split: option.splits)
  qed simp
  then show ?thesis using title by (simp add: unit_lines_def unit_evidence_def)
qed

lemma ask_lines_markers:
  assumes "quiet_document spec us" "ask \<in> set (sp_asks spec)" "numbered cb"
  shows "concat (map find_markers (ask_lines cb spec us ask))
    = map (citation_number cb) (concat (map (unit_evidence cb ask) (shown_units spec us ask)))"
proof -
  let ?shown = "shown_units spec us ask"
  have ask: "quiet (as_original_text ask)" "\<forall>q\<in>set (as_required_fields ask). plain (fq_field_id q)"
    "\<forall>u\<in>set ?shown. quiet_unit ask u"
    using assms(1,2) by (auto simp: quiet_document_def)
  have title: "find_markers (''## '' @ as_original_text ask) = []" using ask(1) by (simp add: quiet_def)
  have quiet_texts: "find_markers no_unit_text = []"
    "find_markers (completed_text @ nat_str n @ ''/'' @ int_str t @ remainder_text) = []" for n t
    by (simp_all add: plain_quiet flip: quiet_def)
  have "concat (map find_markers (concat (map (\<lambda>(i, u). unit_lines cb ask i u) (zip is vs))))
      = map (citation_number cb) (concat (map (unit_evidence cb ask) vs))"
    if "length is = length vs" "set vs \<subseteq> set ?shown" for "is" vs
    using that
  proof (induction "is" vs rule: list_induct2)
    case (Cons i "is" v vs)
    then show ?case using unit_lines_markers [OF _ ask(2) assms(3), of v i] ask(3) by simp
  qed simp
  from this [of "[1..<Suc (length ?shown)]" ?shown] have units: "concat (map find_markers (concat (map (\<lambda>(i, u). unit_lines cb ask i u) (zip [1..<Suc (length ?shown)] ?shown))))
      = map (citation_number cb) (concat (map (unit_evidence cb ask) ?shown))" by (simp del: upt_Suc)
  show ?thesis
  proof (cases "?shown = []")
    case True
    then show ?thesis using title quiet_texts(1) by (simp add: ask_lines_def)
  next
    case False
    obtain ls where ls: "ls = concat (map (\<lambda>(i, u). unit_lines cb ask i u) (zip [1..<Suc (length ?shown)] ?shown))" by blast
    have "concat (map find_markers (ask_lines cb spec us ask)) = concat (map find_markers ls)"
      unfolding ask_lines_def Let_def ls [symmetric] using False title quiet_texts(2)
      by (cases "int (length ?shown) < as_target_units ask") simp_all
    then show ?thesis using units unfolding ls [symmetric] by simp
  qed
qed

definition has_address :: "pydict \<Rightarrow> bool" where
  "has_address source \<longleftrightarrow>
     (let url = str_or (por (pget source ''locator'') (pget source ''canonical_url'')) []
      in is_prefix ''https://'' url \<or> is_prefix ''http://'' url)"

definition plain_source :: "pydict \<Rightarrow> bool" where
  "plain_source source \<longleftrightarrow>
     list_all (\<lambda>k. plain (py_str (pget source k)))
       [''locator'', ''canonical_url'', ''title'', ''publisher'', ''source_id'', ''published_at'']"

lemma plain_str_or: "plain (py_str v) \<Longrightarrow> plain (str_or v [])"
  by (simp add: str_or_def por_def)

lemma reference_lines_numbers:
  assumes "numbered cb" "plain_source (evidence_row rows e)"
  shows "line_numbers True (unlines (reference_lines cb rows e) @ t)
    = (if has_address (evidence_row rows e) then [citation_number cb e] else []) @ line_numbers True t"
proof -
  let ?source = "evidence_row rows e"
  let ?url = "str_or (por (pget ?source ''locator'') (pget ?source ''canonical_url'')) []"
  let ?title = "str_or (por (por (pget ?source ''title'') (pget ?source ''publisher'')) (pget ?source ''source_id'')) ?url"
  let ?date = "if str_or (pget ?source ''published_at'') [] = [] then [] else wide_comma @ str_or (pget ?source ''published_at'') []"
  have "plain ?url" "plain ?title" "plain ?date"
    using assms(2) by (auto simp: plain_source_def str_or_def por_def)
  then have "CHR ''['' \<notin> set (title_open @ ?title @ title_close @ ?date @ wide_comma @ ?url)"
    unfolding plain_def [symmetric] by simp
  from line_numbers_reference [OF numbered_nonneg [OF assms(1), of e] this, of t] show ?thesis
    by (simp add: reference_lines_def has_address_def Let_def)
qed

lemma reference_block_numbers:
  assumes "numbered cb" "\<forall>e\<in>set es. plain_source (evidence_row rows e)"
  shows "line_numbers True (unlines (concat (map (reference_lines cb rows) es)))
    = map (citation_number cb) (filter (\<lambda>e. has_address (evidence_row rows e)) es)"
  using assms(2)
proof (induction es)
  case (Cons e es)
  then show ?case using reference_lines_numbers [OF assms(1), of rows e] by simp
qed simp

section \<open>The closure of the document\<close>

definition body_lines :: "answer_spec \<Rightarrow> answer_unit list \<Rightarrow> citation_base \<Rightarrow> string list" where
  "body_lines spec us cb = heading_lines spec @ concat (map (ask_lines cb spec us) (sp_asks spec))"

lemma body_lines_markers:
  assumes "quiet_document spec us" "numbered cb"
  shows "set (concat (map find_markers (body_lines spec us cb))) = citation_number cb ` set (cited_evidence cb spec us)"
proof -
  have "find_markers (''# '' @ sp_objective spec) = []"
    using assms(1) by (simp add: quiet_document_def quiet_def)
  moreover have "find_markers (''> '' @ scope_text @ sp_as_of spec @ wide_open @ sp_timezone spec @ wide_close) = []"
    using assms(1) plain_find [of scope_text] quiet_before [of "sp_as_of spec" "wide_open @ sp_timezone spec @ wide_close"]
      wide_open_separates quiet_before [of "sp_timezone spec" wide_close] wide_close_separates [of "[]"]
      plain_find [of wide_open] plain_quiet [of wide_close]
    by (simp add: quiet_document_def quiet_def)
  ultimately have heading: "concat (map find_markers (heading_lines spec)) = []" by (simp add: heading_lines_def)
  have "concat (map find_markers (concat (map (ask_lines cb spec us) asks)))
      = map (citation_number cb) (concat (map (\<lambda>ask. concat (map (unit_evidence cb ask) (shown_units spec us ask))) asks))"
    if "set asks \<subseteq> set (sp_asks spec)" for asks
    using that
  proof (induction asks)
    case (Cons ask asks)
    then show ?case using ask_lines_markers [OF assms(1) _ assms(2), of ask] by simp
  qed simp
  then show ?thesis using heading by (simp add: body_lines_def cited_evidence_def)
qed

lemma body_lines_end: "\<exists>ls. body_lines spec us cb = ls @ [[]]"
proof -
  have "\<exists>ls. ask_lines cb spec us ask = ls @ [[]]" for ask
  proof (cases "shown_units spec us ask" rule: rev_cases)
    case (snoc vs v)
    have "[1..<Suc (length (vs @ [v]))] = [1..<Suc (length vs)] @ [Suc (length vs)]" by simp
    then have "zip [1..<Suc (length (vs @ [v]))] (vs @ [v]) = zip [1..<Suc (length vs)] vs @ [(Suc (length vs), v)]"
      by (simp del: upt_Suc)
    then show ?thesis by (auto simp: ask_lines_def unit_lines_def Let_def snoc simp del: upt_Suc)
  qed (auto simp: ask_lines_def)
  then have "\<exists>ls. concat (map (ask_lines cb spec us) asks) = ls @ [[]]" if "asks \<noteq> []" for asks
    using that by (cases asks rule: rev_cases) (auto, metis append_assoc)
  then consider "sp_asks spec = []" | ls where "concat (map (ask_lines cb spec us) (sp_asks spec)) = ls @ [[]]" by metis
  then show ?thesis
  proof cases
    case (2 ls)
    then have "body_lines spec us cb = (heading_lines spec @ ls) @ [[]]" by (simp add: body_lines_def)
    then show ?thesis by blast
  qed (simp add: body_lines_def heading_lines_def)
qed

lemma content_without_references:
  assumes "cited_evidence cb spec us = []" "body_lines spec us cb = ls @ [[]]"
  shows "rr_content (render_units spec us cb evidence) = py_strip (unlines ls) @ newline"
  using assms by (simp add: render_units_def Let_def reference_block_def body_lines_def flip: join_unlines)

definition reference_heading :: string where
  "reference_heading = ''## '' @ references_text"

lemma reference_heading_known: "reference_heading \<in> set reference_headings"
  by (simp add: reference_heading_def references_text_def reference_headings_def)

definition listed_references :: "citation_base \<Rightarrow> pydict list \<Rightarrow> string list \<Rightarrow> string list" where
  "listed_references cb evidence cited =
     concat (map (reference_lines cb (evidence_rows_by_id evidence)) (sort_key (citation_number cb) cited))"

lemma content_with_references:
  assumes "cited_evidence cb spec us = c # cs"
  shows "rr_content (render_units spec us cb evidence)
    = py_strip (unlines (body_lines spec us cb) @ reference_heading
        @ CHR 0x0A # CHR 0x0A # unlines (listed_references cb evidence (c # cs))) @ newline"
proof -
  have "join newline ((body_lines spec us cb @ [reference_heading, []] @ listed_references cb evidence (c # cs)) @ [[]])
    = unlines (body_lines spec us cb) @ reference_heading
        @ CHR 0x0A # CHR 0x0A # unlines (listed_references cb evidence (c # cs))"
    unfolding join_unlines by simp
  then show ?thesis
    by (simp add: render_units_def Let_def reference_block_def assms body_lines_def reference_heading_def listed_references_def)
qed

lemma unlines_end: "ls \<noteq> [] \<Longrightarrow> last (unlines ls) = CHR 0x0A"
  by (cases ls rule: rev_cases) simp_all

lemma body_start: "\<exists>t. unlines (body_lines spec us cb) = CHR ''#'' # t"
  by (simp add: body_lines_def heading_lines_def)

lemma document_numbers:
  assumes "quiet_document spec us" "numbered cb" "list_all heading_free (body_lines spec us cb)"
    and "\<forall>e\<in>set (cited_evidence cb spec us). plain_source (evidence_row (evidence_rows_by_id evidence) e)"
  defines "content \<equiv> rr_content (render_units spec us cb evidence)"
  shows "set (collect_body_citations content) = citation_number cb ` set (cited_evidence cb spec us)"
    "set (collect_reference_numbers content)
      = citation_number cb ` {e \<in> set (cited_evidence cb spec us). has_address (evidence_row (evidence_rows_by_id evidence) e)}"
proof -
  let ?cited = "cited_evidence cb spec us" and ?rows = "evidence_rows_by_id evidence"
  note markers = body_lines_markers [OF assms(1,2)]
  have hash: "\<not> is_space (CHR ''#'')" and nl: "is_space (CHR 0x0A)" by (simp_all add: is_space_def)
  have "set (collect_body_citations content) = citation_number cb ` set ?cited \<and>
    set (collect_reference_numbers content) = citation_number cb ` {e \<in> set ?cited. has_address (evidence_row ?rows e)}"
  proof (cases ?cited)
    case Nil
    obtain ls where ls: "body_lines spec us cb = ls @ [[]]" using body_lines_end by blast
    obtain t where t: "unlines ls = CHR ''#'' # t" "ls \<noteq> []"
      using ls by (cases ls) (auto simp: body_lines_def heading_lines_def)
    have free: "list_all heading_free ls" using assms(3) ls by simp
    have "collect_body_citations content = concat (map find_markers ls)" "collect_reference_numbers content = []"
      using stripped_citations [OF t(1) hash] body_document [OF free] content_without_references [OF Nil ls] unlines_end [OF t(2)] nl
      by (simp_all add: content_def)
    then show ?thesis using markers Nil ls by simp
  next
    case (Cons c cs)
    let ?refs = "listed_references cb evidence ?cited"
    let ?doc = "unlines (body_lines spec us cb) @ reference_heading @ CHR 0x0A # CHR 0x0A # unlines ?refs"
    obtain t where t: "?doc = CHR ''#'' # t" using body_start [of spec us cb] by auto
    have "last ?doc = CHR 0x0A" using unlines_end [of ?refs] by (cases "?refs = []") simp_all
    then have "collect_body_citations content = collect_body_citations ?doc"
      "collect_reference_numbers content = collect_reference_numbers ?doc"
      using stripped_citations [OF t hash] nl content_with_references [OF Cons] Cons by (simp_all add: content_def)
    moreover have "line_numbers True (CHR 0x0A # CHR 0x0A # unlines ?refs)
        = map (citation_number cb) (filter (\<lambda>e. has_address (evidence_row ?rows e)) (sort_key (citation_number cb) ?cited))"
      using reference_block_numbers [OF assms(2), of "sort_key (citation_number cb) ?cited" ?rows] assms(4)
      by (simp add: listed_references_def)
    ultimately show ?thesis
      using referenced_document [OF assms(3) reference_heading_known, of "CHR 0x0A # CHR 0x0A # unlines ?refs"] markers by auto
  qed
  then show "set (collect_body_citations content) = citation_number cb ` set ?cited"
    "set (collect_reference_numbers content) = citation_number cb ` {e \<in> set ?cited. has_address (evidence_row ?rows e)}"
    by blast+
qed

lemma image_of_part: "f ` C = f ` {e \<in> C. W e} \<longleftrightarrow> (\<forall>e\<in>C. \<exists>d\<in>C. f d = f e \<and> W d)"
proof
  assume eq: "f ` C = f ` {e \<in> C. W e}"
  show "\<forall>e\<in>C. \<exists>d\<in>C. f d = f e \<and> W d"
  proof
    fix e assume "e \<in> C"
    then have "f e \<in> f ` {e \<in> C. W e}" using eq by blast
    then show "\<exists>d\<in>C. f d = f e \<and> W d" by auto
  qed
next
  assume all: "\<forall>e\<in>C. \<exists>d\<in>C. f d = f e \<and> W d"
  have "f e \<in> f ` {e \<in> C. W e}" if e: "e \<in> C" for e
  proof -
    obtain d where d: "d \<in> C" "f d = f e" "W d" using bspec [OF all e] by (elim bexE conjE)
    then have "d \<in> {e \<in> C. W e}" by (intro CollectI conjI)
    then show ?thesis unfolding d(2) [symmetric] by (rule imageI)
  qed
  then show "f ` C = f ` {e \<in> C. W e}" by blast
qed

text \<open>C5. The document against the check that decides about it: if the texts bring no markers of their own
  (none in the objective, date, time zone, questions, unit titles, shown values and rationales, no bracket in
  the names of fields and in the cited source rows), no body line contains a reference heading and no citation
  number is negative, the document passes the closure check exactly when every cited evidence has a
  web address, or shares its citation number with cited evidence that has one.
\<close>

theorem document_closure_exact:
  assumes "quiet_document spec us" "numbered cb" "list_all heading_free (body_lines spec us cb)"
    and "\<forall>e\<in>set (cited_evidence cb spec us). plain_source (evidence_row (evidence_rows_by_id evidence) e)"
  shows "fst (closure_check (rr_content (render_units spec us cb evidence))) \<longleftrightarrow>
    (\<forall>e\<in>set (cited_evidence cb spec us). \<exists>d\<in>set (cited_evidence cb spec us).
       citation_number cb d = citation_number cb e \<and> has_address (evidence_row (evidence_rows_by_id evidence) d))"
  unfolding closure_check_passes document_numbers [OF assms] by (rule image_of_part)

section \<open>Examples\<close>

definition web_evidence :: "pydict list" where
  "web_evidence = [[(''evidence_id'', PStr ''ev1''), (''locator'', PStr ''https://acme.com''), (''title'', PStr ''About'')]]"

definition file_evidence :: "pydict list" where
  "file_evidence = [[(''evidence_id'', PStr ''ev1''), (''locator'', PStr ''report.pdf''), (''title'', PStr ''Report'')]]"

lemma not_E5_heading_free: "CHR 0xE5 \<notin> set s \<Longrightarrow> heading_free s"
proof -
  assume s: "CHR 0xE5 \<notin> set s"
  have "CHR 0xE5 \<in> set h" if "h \<in> set reference_headings" for h
    using that by (auto simp: reference_headings_def in_utf8)
  then show ?thesis using s by (fastforce simp: heading_free_def list_all_iff is_infix_iff)
qed

lemma no_hash_heading_free: "CHR ''#'' \<notin> set s \<Longrightarrow> heading_free s"
proof -
  assume s: "CHR ''#'' \<notin> set s"
  have "CHR ''#'' \<in> set h" if "h \<in> set reference_headings" for h
    using that by (auto simp: reference_headings_def)
  then show ?thesis using s by (fastforce simp: heading_free_def list_all_iff is_infix_iff)
qed

lemma example_parts:
  "sp_asks example_spec = [example_ask]" "as_original_text example_ask = ''When?''"
  "as_required_fields example_ask = [example_requirement]" "as_target_units example_ask = 1"
  "fq_field_id example_requirement = ''answer''" "sp_objective example_spec = ''Founding year''"
  "sp_as_of example_spec = ''2025-01-01T00:00:00+00:00''" "sp_timezone example_spec = ''UTC''"
  by (simp_all add: example_spec_def example_ask_def example_requirement_def)

lemma example_shown: "shown_units example_spec [example_validated] example_ask = [example_validated]"
  by code_simp

lemma example_title: "unit_title i example_validated = ''1998''"
proof -
  have "title_field example_validated = Some example_field" by code_simp
  moreover have "py_str (uf_value example_field) = ''1998''" "uf_value example_field = PInt 1998" by code_simp+
  ultimately show ?thesis by (simp add: unit_title_def)
qed

lemma example_quiet: "quiet_document example_spec [example_validated]"
proof -
  have "quiet_field f" if "shown_field example_validated example_requirement = Some f" for f
    using example_validated_field that
    by (auto simp: shown_field_Some example_field_def quiet_field_def py_str_def plain_quiet)
  then have "quiet_unit example_ask example_validated"
    by (simp add: quiet_unit_def example_parts example_title plain_quiet)
  then show ?thesis by (simp add: quiet_document_def example_parts example_shown plain_quiet)
qed

lemma example_body_free: "list_all heading_free (body_lines example_spec [example_validated] example_base)"
proof -
  have "field_lines example_base example_validated example_requirement = [''- **answer**'' @ wide_colon @ ''1998[1]'']" by code_simp
  then have "body_lines example_spec [example_validated] example_base =
    heading_lines example_spec @ [''## When?'', [], ''### 1. 1998'', [], ''- **answer**'' @ wide_colon @ ''1998[1]'', []]"
    by (simp add: body_lines_def ask_lines_def unit_lines_def Let_def example_parts example_shown example_title
        nat_str.simps [of "Suc 0"] digit_char_def char_of_eq_iff)
  moreover have "heading_free (''> '' @ scope_text @ sp_as_of example_spec @ wide_open @ sp_timezone example_spec @ wide_close)"
    by (rule no_hash_heading_free) (simp add: scope_text_def wide_open_def wide_close_def example_parts in_utf8)
  moreover have "heading_free s" if "s \<in> {''# '' @ sp_objective example_spec, [], ''## When?'', ''### 1. 1998'', ''- **answer**'' @ wide_colon @ ''1998[1]''}" for s
    using that by (intro not_E5_heading_free) (auto simp: example_parts wide_colon_def in_utf8)
  ultimately show ?thesis by (simp add: heading_lines_def)
qed

text \<open>With a web page as evidence the document of the example passes; with a file it cannot.\<close>

lemma document_closure_exact_witness:
  "fst (closure_check (rr_content (render_units example_spec [example_validated] example_base web_evidence))) \<and>
   \<not> fst (closure_check (rr_content (render_units example_spec [example_validated] example_base file_evidence)))"
proof -
  have "numbered example_base" by (simp add: numbered_def example_base_def example_numbers_def)
  note exact = document_closure_exact [OF example_quiet this example_body_free, unfolded example_cited]
  have "evidence_row (evidence_rows_by_id web_evidence) ''ev1'' = hd web_evidence"
    "evidence_row (evidence_rows_by_id file_evidence) ''ev1'' = hd file_evidence" by code_simp+
  moreover have "plain_source (hd web_evidence)" "plain_source (hd file_evidence)"
    "has_address (hd web_evidence)" "\<not> has_address (hd file_evidence)"
    by (simp_all add: plain_source_def web_evidence_def file_evidence_def has_address_def por_def py_str_def)
  ultimately show ?thesis using exact [of web_evidence] exact [of file_evidence] by simp
qed

end
