(* ===== verification/DeliveryV2.thy ===== *)
theory DeliveryV2
  imports DocumentClosure
begin

text \<open>
  The second answer engine in the workflow: the synthesis and quality steps of
  \<open>app/research/runtime/runner.py\<close> for runs with the engine version \<open>answer_contract_v2\<close>, from the
  validated units in the state to the persisted verdict.  A step returns what it writes into the metadata of
  the session and its update of the graph state; events, durations and the projection of the state into the session are left
  out.
\<close>

section \<open>Citation numbers of the run\<close>

definition add_evidence_number :: "pydict \<Rightarrow> int dict \<times> int \<Rightarrow> int dict \<times> int" where
  "add_evidence_number row st =
     (let i = py_strip (str_or (pget row ''evidence_id'') [])
      in if i \<noteq> [] \<and> dget (fst st) i = None then (dput i (snd st) (fst st), snd st + 1) else st)"

definition known_numbers :: "citation_manager option \<Rightarrow> int dict" where
  "known_numbers m = (case m of None \<Rightarrow> [] | Some cm \<Rightarrow> evidence_number_map cm)"

text \<open>\<open>max(numbers.values(), default=0) + 1\<close>.\<close>

definition next_number :: "int dict \<Rightarrow> int" where
  "next_number d = (case map snd d of [] \<Rightarrow> 0 | n # ns \<Rightarrow> fold max ns n) + 1"

definition citation_numbers_for_records :: "citation_manager option \<Rightarrow> pydict list \<Rightarrow> int dict" where
  "citation_numbers_for_records m rows =
     fst (fold add_evidence_number rows (known_numbers m, next_number (known_numbers m)))"

section \<open>Synthesis\<close>

record step_effect =
  sf_metadata :: pydict
  sf_update :: pydict

definition synthesis_v2 :: "citation_manager option \<Rightarrow> pydict \<Rightarrow> step_effect res" where
  "synthesis_v2 m s =
     ebind (dict_or_empty (pget s ''answer_spec'')) (\<lambda>spec_row.
     ebind (answer_spec_from_dict spec_row) (\<lambda>spec.
     ebind (dict_rows (pget s ''evidence_records'')) (\<lambda>evidence.
     ebind (dict_rows (pget s ''answer_units'')) (\<lambda>units.
     ebind (dict_rows (pget s ''claims'')) (\<lambda>claims.
     ebind (dict_rows (pget s ''support_edges'')) (\<lambda>edges.
     ebind (render_validated_units spec (map Row units) (map Row claims) (map Row edges) evidence
              (citation_numbers_for_records m evidence)) (\<lambda>r.
       let version = ''answer-'' @ take 12 (sha1_hex (rr_content r)); has_units = (rr_rendered_unit_ids r \<noteq> []);
           contract = PDict [(''schema_version'', PInt 2), (''spec_revision'', PInt (sp_revision spec)),
             (''answer_version'', PStr version), (''rendered_unit_ids'', strs (rr_rendered_unit_ids r)),
             (''citation_map'', PDict (rr_citation_map r))]
       in ebind (transition_update (PDict s) PH_SYNTHESIS
            [(''final_content'', PStr (rr_content r)), (''synthesis_attempts'', PInt 0),
             (''synthesis_failed'', PBool (\<not> has_units)), (''synthesis_degraded'', PBool False),
             (''answer_complete'', PBool False), (''answer_contract'', contract), (''answer_version'', PStr version),
             (''quality_assessment'', PDict [])]) (\<lambda>u. Inr
          \<lparr>sf_metadata = [(''synthesis_attempted'', PBool True), (''synthesis_attempts'', PInt 0),
             (''synthesis_mode'', PStr ''validated_units''),
             (''synthesis_status'', PStr (if has_units then ''ok'' else ''failed'')),
             (''synthesis_failed'', PBool (\<not> has_units)), (''synthesis_degraded'', PBool False),
             (''answer_complete'', PBool False), (''answer_contract'', contract), (''answer_version'', PStr version)],
           sf_update = u\<rparr>))))))))"

section \<open>The quality gate\<close>

text \<open>
  The verdict on the citations: not run without a manager or a document, unknown when the numbers of the map
  cannot be read.
\<close>

definition map_numbers :: "pydict \<Rightarrow> int list res" where
  "map_numbers cmap =
     ebind (emap (\<lambda>row. int_or (pget row ''display_number'') 0) (map as_dict (filter is_dict (map snd cmap))))
       (\<lambda>ns. Inr (filter (\<lambda>n. 0 < n) ns))"

definition citation_verdict :: "citation_manager option \<Rightarrow> string \<Rightarrow> pydict \<Rightarrow> bool option \<times> string" where
  "citation_verdict m content cmap =
     (case m of
        None \<Rightarrow> (None, ''citation_validation_not_run'')
      | Some cm \<Rightarrow>
          if content = [] then (None, ''citation_validation_not_run'')
          else case map_numbers cmap of
                 Inl _ \<Rightarrow> (None, ''citation_validation_error'')
               | Inr ns \<Rightarrow> (case validate_citations cm content default_min_coverage ns of (b, reason) \<Rightarrow> (Some b, reason)))"

definition admitted_source :: "pydict dict \<Rightarrow> string \<Rightarrow> bool" where
  "admitted_source rows i =
     (case dget rows i of None \<Rightarrow> False | Some r \<Rightarrow> str_or (pget r ''admission_status'') [] = ''admitted'')"

definition primary_source :: "pydict dict \<Rightarrow> string \<Rightarrow> bool" where
  "primary_source rows i = (str_or (pget (evidence_row rows i) ''source_type'') [] = ''primary'')"

text \<open>The sources pass when evidence is cited, all of it admitted, with a primary source where the brief asks for one.\<close>

definition sources_pass :: "pydict dict \<Rightarrow> bool \<Rightarrow> string list \<Rightarrow> bool" where
  "sources_pass rows primary_required cited =
     (cited \<noteq> [] \<and> list_all (admitted_source rows) cited \<and> (primary_required \<longrightarrow> list_ex (primary_source rows) cited))"

definition pass_fail :: "bool \<Rightarrow> string" where
  "pass_fail b = (if b then ''pass'' else ''fail'')"

definition optional_bool :: "bool option \<Rightarrow> pyval" where
  "optional_bool b = (case b of None \<Rightarrow> PNone | Some x \<Rightarrow> PBool x)"

definition verdict_effect ::
  "completion_v2 \<Rightarrow> bool option \<times> string \<Rightarrow> bool \<Rightarrow> string list \<Rightarrow> string dict \<Rightarrow> pydict \<times> pydict" where
  "verdict_effect r citation source_pass cited dimensions =
     (let outcome = v2_outcome_value (c2_outcome r);
          issues = fromkeys (c2_blockers r @ (if fst citation \<noteq> Some True then [snd citation] else []));
          grounding = (source_pass \<and> fst citation = Some True);
          assessment = [(''verdict'', PStr (if outcome = ''success'' then ''pass'' else outcome)), (''issues'', strs issues),
             (''repairable'', PBool False), (''suggested_action'', PStr []), (''grounding'', PBool grounding),
             (''citation_metrics'', PDict [(''evidence_count'', PInt (int (length cited))),
                (''citation_valid'', optional_bool (fst citation))]),
             (''answer_complete'', PBool (outcome = ''success'')),
             (''completion_contract'', PDict (completion_v2_to_dict r)), (''synthesis_mode'', PStr ''validated_units''),
             (''quality_metrics'', PDict (map (\<lambda>(k, v). (k, PStr v)) dimensions))];
          action = (if outcome = ''success'' then ''finalize_success''
                    else if outcome = ''partial'' then ''deliver_partial'' else ''finalize_failure'')
      in ([(''quality'', PDict assessment), (''quality_attempted'', PBool True), (''answer_grounded'', PBool grounding),
           (''control_decision'', PDict [(''action'', PStr action),
              (''reason_codes'', strs (if issues = [] then [''quality_pass''] else issues))]),
           (''partial_delivery'', PBool (outcome = ''partial'')), (''completion'', PDict (completion_v2_to_dict r)),
           (''answer_complete'', PBool (outcome = ''success''))],
          [(''quality_assessment'', PDict assessment), (''completion'', PDict (completion_v2_to_dict r)),
           (''answer_complete'', PBool (outcome = ''success''))]))"

definition gate_content :: "pydict \<Rightarrow> string" where
  "gate_content s = py_strip (str_or (pget s ''final_content'') [])"

definition gate_dimensions :: "bool \<Rightarrow> string list \<Rightarrow> string dict" where
  "gate_dimensions source_pass rendered =
     [(''source'', pass_fail source_pass), (''relevance'', pass_fail (rendered \<noteq> []))]"

definition gate_args :: "pydict \<Rightarrow> pydict \<Rightarrow> bool option \<Rightarrow> string dict \<Rightarrow> v2_args" where
  "gate_args s contract citation_valid dimensions =
     \<lparr>va_evidence_version = str_or (pget s ''evidence_version'') ''evidence-v0'',
      va_answer_version = str_or (por (pget s ''answer_version'') (pget contract ''answer_version'')) ''answer-v0'',
      va_final_document = gate_content s,
      va_validation_versions = [(''unit'', ''unit-validator-v2''), (''claim'', ''claim-validator-v2'')],
      va_citation_valid = citation_valid, va_quality_dimensions = dimensions, va_degraded = False,
      va_recovery_mode = ''none''\<rparr>"

definition quality_gate_v2 :: "citation_manager option \<Rightarrow> pydict \<Rightarrow> step_effect res" where
  "quality_gate_v2 m s =
     ebind (dict_or_empty (pget s ''answer_contract'')) (\<lambda>contract.
     ebind (dict_or_empty (pget contract ''citation_map'')) (\<lambda>cmap.
     ebind (dict_rows (pget s ''evidence_records'')) (\<lambda>evidence.
     ebind (attr_get (por (pget s ''brief'') (PDict [])) ''source_requirements'') (\<lambda>required.
     ebind (dict_or_empty required) (\<lambda>requirements.
     ebind (nonempty_strs (pget contract ''rendered_unit_ids'')) (\<lambda>rendered.
     ebind (dict_or_empty (pget s ''answer_spec'')) (\<lambda>spec_row.
     ebind (answer_spec_from_dict spec_row) (\<lambda>spec.
     ebind (dict_rows (pget s ''answer_units'')) (\<lambda>units.
       let citation = citation_verdict m (gate_content s) cmap;
           source_pass = sources_pass (evidence_rows_by_id evidence)
             (truthy (pget requirements ''primary_required'')) (dkeys cmap);
           dimensions = gate_dimensions source_pass rendered
       in ebind (evaluate_completion_v2 spec (map Row units) (gate_args s contract (fst citation) dimensions)) (\<lambda>r.
            let (metadata, payload) = verdict_effect r citation source_pass (dkeys cmap) dimensions
            in ebind (transition_update (PDict s) PH_QUALITY payload) (\<lambda>u. Inr \<lparr>sf_metadata = metadata, sf_update = u\<rparr>)))))))))))"

section \<open>What a success of the second engine means\<close>

lemma dget_transition:
  "transition_update st t payload = Inr u \<Longrightarrow> u = dput ''phase'' (PStr (phase_value t)) payload"
  by (auto simp: transition_update_def ebind_eq_Inr)

text \<open>The parts of a run of the gate that raises nothing.\<close>

lemma quality_gate_v2_parts:
  assumes "quality_gate_v2 m s = Inr e"
  obtains contract cmap evidence required requirements rendered spec_row spec units citation source_pass dimensions r where
    "dict_or_empty (pget s ''answer_contract'') = Inr contract" "dict_or_empty (pget contract ''citation_map'') = Inr cmap"
    "dict_rows (pget s ''evidence_records'') = Inr evidence"
    "attr_get (por (pget s ''brief'') (PDict [])) ''source_requirements'' = Inr required"
    "dict_or_empty required = Inr requirements" "nonempty_strs (pget contract ''rendered_unit_ids'') = Inr rendered"
    "dict_or_empty (pget s ''answer_spec'') = Inr spec_row" "answer_spec_from_dict spec_row = Inr spec"
    "dict_rows (pget s ''answer_units'') = Inr units" "citation = citation_verdict m (gate_content s) cmap"
    "source_pass = sources_pass (evidence_rows_by_id evidence) (truthy (pget requirements ''primary_required'')) (dkeys cmap)"
    "dimensions = gate_dimensions source_pass rendered"
    "evaluate_completion_v2 spec (map Row units) (gate_args s contract (fst citation) dimensions) = Inr r"
    "sf_update e = dput ''phase'' (PStr (phase_value PH_QUALITY)) (snd (verdict_effect r citation source_pass (dkeys cmap) dimensions))"
proof -
  have "sf_update e = dput ''phase'' (PStr (phase_value PH_QUALITY)) (snd v)"
    if "(case v of (metadata, payload) \<Rightarrow>
          ebind (transition_update (PDict s) PH_QUALITY payload) (\<lambda>u. Inr \<lparr>sf_metadata = metadata, sf_update = u\<rparr>)) = Inr e" for v
    using that by (auto simp: ebind_eq_Inr split: prod.splits dest!: dget_transition)
  note update = this
  show ?thesis
    using assms unfolding quality_gate_v2_def Let_def ebind_eq_Inr [of "evaluate_completion_v2 _ _ _"]
      ebind_eq_Inr [of "dict_or_empty _"] ebind_eq_Inr [of "dict_rows _"] ebind_eq_Inr [of "attr_get _ _"]
      ebind_eq_Inr [of "nonempty_strs _"] ebind_eq_Inr [of "answer_spec_from_dict _"]
    by (elim exE conjE) (rule that, assumption+, (rule refl)+, assumption, erule update)
qed

lemma verdict_effect_keys:
  "dkeys (snd (verdict_effect r citation sp cited dims)) = [''quality_assessment'', ''completion'', ''answer_complete'']"
  by (simp add: verdict_effect_def Let_def)

lemma verdict_effect_contract:
  "dget (snd (verdict_effect r citation sp cited dims)) ''quality_assessment'' = Some (PDict a) \<Longrightarrow>
     pget a ''completion_contract'' = PDict (completion_v2_to_dict r)"
  by (auto simp: verdict_effect_def Let_def)

lemma verdict_effect_assessed:
  "\<exists>a. dget (snd (verdict_effect r citation sp cited dims)) ''quality_assessment'' = Some (PDict a)"
  by (simp add: verdict_effect_def Let_def)

text \<open>After the gate the terminal decision of a run of the second engine is that of the evaluation.\<close>

lemma gate_outcome:
  assumes "sf_update e = dput ''phase'' p (snd (verdict_effect r citation sp cited dims))"
    and "str_or (pget s ''engine_version'') [] = ''answer_contract_v2''"
  shows "decide_terminal_outcome (dmerge s (sf_update e)) =
    (if str_or (pget s ''cancel_reason'') [] \<in> {''cancelled'', ''user_cancelled''} then Inr FO_CANCELLED
     else decide_v2 (PDict (completion_v2_to_dict r)))"
proof -
  let ?u = "sf_update e" and ?v = "snd (verdict_effect r citation sp cited dims)"
  have distinct: "distinct (dkeys ?u)" unfolding assms(1) by (rule distinct_dput) (simp add: verdict_effect_keys)
  have other: "pget (dmerge s ?u) k = pget s k" if "k \<notin> {''phase'', ''quality_assessment'', ''completion'', ''answer_complete''}" for k
  proof -
    have "dget ?v k = None" using that verdict_effect_keys [of r citation sp cited dims] by (auto simp: map_of_eq_None_iff simp flip: set_map)
    then have "dget ?u k = None" unfolding assms(1) using that by auto
    then show ?thesis using dget_dmerge [OF distinct, of s k] by (simp add: pget_or_def)
  qed
  obtain a where a: "dget ?v ''quality_assessment'' = Some (PDict a)" using verdict_effect_assessed by blast
  then have "dget ?u ''quality_assessment'' = Some (PDict a)" unfolding assms(1) by simp
  then have "pget (dmerge s ?u) ''quality_assessment'' = PDict a"
    using dget_dmerge [OF distinct, of s "''quality_assessment''"] by (simp add: pget_or_def)
  then have "pget (quality_of (dmerge s ?u)) ''completion_contract'' = PDict (completion_v2_to_dict r)"
    using verdict_effect_contract [OF a] by (simp add: quality_of_def)
  then show ?thesis
    using assms(2) other [of "''engine_version''"] other [of "''cancel_reason''"] by (simp add: decide_terminal_outcome_def)
qed

lemma gate_decides:
  assumes "sf_update e = dput ''phase'' p (snd (verdict_effect r citation sp cited dims))"
    and "str_or (pget s ''engine_version'') [] = ''answer_contract_v2''"
    and "decide_terminal_outcome (dmerge s (sf_update e)) = Inr FO_SUCCESS"
  shows "c2_passed r"
proof -
  have "decide_v2 (PDict (completion_v2_to_dict r)) = Inr FO_SUCCESS"
    using gate_outcome [OF assms(1,2)] assms(3) by (simp split: if_splits)
  moreover have "pget (completion_v2_to_dict r) ''schema_version'' = PInt 2" by (simp add: completion_v2_to_dict_def)
  ultimately have "v2_outcome_value (c2_outcome r) = ''success''"
    using completion_v2.v2_agrees [of r FO_SUCCESS] by simp
  then show ?thesis by (cases "c2_outcome r") (simp_all add: c2_passed_def)
qed

lemma gate_dimensions_pass:
  assumes "list_all (\<lambda>kv. snd kv = ''pass'') (v2_dimensions (gate_args s contract cv (gate_dimensions sp rendered)))"
  shows "sp \<and> rendered \<noteq> []"
proof -
  let ?d = "v2_dimensions (gate_args s contract cv (gate_dimensions sp rendered))"
  have "dget ?d ''source'' = Some (pass_fail sp)" "dget ?d ''relevance'' = Some (pass_fail (rendered \<noteq> []))"
    by (simp_all add: v2_dimensions_def dget_dmerge gate_args_def gate_dimensions_def)
  then have "(''source'', pass_fail sp) \<in> set ?d" "(''relevance'', pass_fail (rendered \<noteq> [])) \<in> set ?d"
    by (auto dest: map_of_SomeD)
  then show ?thesis using assms by (auto simp: list_all_iff pass_fail_def split: if_splits)
qed

text \<open>The numbers a document may cite: those of registered sources and those of its own citation map.\<close>

definition citable_numbers :: "citation_manager \<Rightarrow> pydict \<Rightarrow> int set" where
  "citable_numbers cm cmap =
     set (map snd (source_number_map (cm_sources cm)))
     \<union> {n. 0 < n \<and> (\<exists>row\<in>set (map snd cmap). is_dict row \<and> int_or (pget (as_dict row) ''display_number'') 0 = Inr n)}"

lemma map_numbers_members:
  assumes "map_numbers cmap = Inr ns" "n \<in> set ns"
  shows "0 < n \<and> (\<exists>row\<in>set (map snd cmap). is_dict row \<and> int_or (pget (as_dict row) ''display_number'') 0 = Inr n)"
proof -
  obtain ms where ms: "list_all2 (\<lambda>row m. int_or (pget row ''display_number'') 0 = Inr m) (map as_dict (filter is_dict (map snd cmap))) ms"
    "ns = filter (\<lambda>n. 0 < n) ms"
    using assms(1) by (auto simp: map_numbers_def ebind_eq_Inr emap_eq_Inr_iff)
  then obtain i where i: "i < length ms" "ms ! i = n" "0 < n" using assms(2) by (auto simp: in_set_conv_nth)
  then have "int_or (pget (map as_dict (filter is_dict (map snd cmap)) ! i) ''display_number'') 0 = Inr n"
    "i < length (filter is_dict (map snd cmap))"
    using ms(1) by (auto simp: list_all2_conv_all_nth)
  then show ?thesis using i(3) nth_mem [of i "filter is_dict (map snd cmap)"] by (auto simp del: set_map)
qed

lemma citation_verdict_accepts:
  assumes "fst (citation_verdict m content cmap) = Some True"
  obtains cm where "m = Some cm"
    "cm_sources cm \<noteq> [] \<Longrightarrow> set (find_markers content) \<subseteq> citable_numbers cm cmap \<and>
      set (collect_body_citations content) = set (collect_reference_numbers content)"
proof -
  from assms obtain cm ns reason where cm: "m = Some cm" "map_numbers cmap = Inr ns"
    "validate_citations cm content default_min_coverage ns = (True, reason)"
    by (auto simp: citation_verdict_def split: option.splits if_splits sum.splits prod.splits)
  moreover have "set (find_markers content) \<subseteq> citable_numbers cm cmap \<and>
      set (collect_body_citations content) = set (collect_reference_numbers content)" if "cm_sources cm \<noteq> []"
    using validate_citations_accepts [OF cm(3) that] map_numbers_members [OF cm(2)]
    by (auto simp: citable_numbers_def)
  ultimately show ?thesis using that by blast
qed

text \<open>C2. What a success of the second engine means, from the units in the state to the final outcome: if
  the quality gate ran and the run is then decided a success, every required ask is delivered by
  enough valid units of the current revision; the document is not blank and shows at least one unit;
  it cites evidence, all of it admitted, with a primary source where the brief asks for one; a citation manager
  accepted it, so that, if sources are registered, every number it cites is known and body and references agree.
\<close>

theorem v2_run_success:
  assumes "quality_gate_v2 m s = Inr e" "str_or (pget s ''engine_version'') [] = ''answer_contract_v2''"
    and "decide_terminal_outcome (dmerge s (sf_update e)) = Inr FO_SUCCESS"
  shows "\<exists>contract cmap evidence rendered spec units us cm requirements.
    dict_or_empty (pget s ''answer_contract'') = Inr contract \<and> dict_or_empty (pget contract ''citation_map'') = Inr cmap \<and>
    dict_rows (pget s ''evidence_records'') = Inr evidence \<and> nonempty_strs (pget contract ''rendered_unit_ids'') = Inr rendered \<and>
    ebind (dict_or_empty (pget s ''answer_spec'')) answer_spec_from_dict = Inr spec \<and>
    dict_rows (pget s ''answer_units'') = Inr units \<and> emap answer_unit_from_dict units = Inr us \<and>
    ebind (attr_get (por (pget s ''brief'') (PDict [])) ''source_requirements'') dict_or_empty = Inr requirements \<and>
    (\<exists>ask\<in>set (sp_asks spec). as_required ask) \<and>
    (\<forall>ask\<in>set (sp_asks spec). as_required ask \<longrightarrow> (\<exists>vs. delivers spec us ask vs)) \<and>
    gate_content s \<noteq> [] \<and> rendered \<noteq> [] \<and> cmap \<noteq> [] \<and>
    (\<forall>i\<in>set (dkeys cmap). admitted_source (evidence_rows_by_id evidence) i) \<and>
    (truthy (pget requirements ''primary_required'') \<longrightarrow> (\<exists>i\<in>set (dkeys cmap). primary_source (evidence_rows_by_id evidence) i)) \<and>
    m = Some cm \<and>
    (cm_sources cm \<noteq> [] \<longrightarrow> set (find_markers (gate_content s)) \<subseteq> citable_numbers cm cmap \<and>
       set (collect_body_citations (gate_content s)) = set (collect_reference_numbers (gate_content s)))"
proof -
  obtain contract cmap evidence required requirements rendered spec_row spec units citation sp dims r where
    parts: "dict_or_empty (pget s ''answer_contract'') = Inr contract" "dict_or_empty (pget contract ''citation_map'') = Inr cmap"
    "dict_rows (pget s ''evidence_records'') = Inr evidence"
    "attr_get (por (pget s ''brief'') (PDict [])) ''source_requirements'' = Inr required"
    "dict_or_empty required = Inr requirements" "nonempty_strs (pget contract ''rendered_unit_ids'') = Inr rendered"
    "dict_or_empty (pget s ''answer_spec'') = Inr spec_row" "answer_spec_from_dict spec_row = Inr spec"
    "dict_rows (pget s ''answer_units'') = Inr units" "citation = citation_verdict m (gate_content s) cmap"
    "sp = sources_pass (evidence_rows_by_id evidence) (truthy (pget requirements ''primary_required'')) (dkeys cmap)"
    "dims = gate_dimensions sp rendered"
    and r: "evaluate_completion_v2 spec (map Row units) (gate_args s contract (fst citation) dims) = Inr r"
    and e: "sf_update e = dput ''phase'' (PStr (phase_value PH_QUALITY)) (snd (verdict_effect r citation sp (dkeys cmap) dims))"
    by (rule quality_gate_v2_parts [OF assms(1)])
  have passed: "c2_passed r" by (rule gate_decides [OF e assms(2,3)])
  have "emap (read_item answer_unit_from_dict) (map Row units) = emap answer_unit_from_dict units"
    by (induction units) (simp_all add: read_item_def)
  moreover obtain us where us: "emap (read_item answer_unit_from_dict) (map Row units) = Inr us"
    using r by (auto simp: evaluate_completion_v2_def ebind_eq_Inr)
  ultimately have us': "emap answer_unit_from_dict units = Inr us" by simp
  note delivered = v2_success_delivers [OF r passed us]
  note clear = v2_entry_clear [OF conjunct2 [OF conjunct2 [OF delivered]]]
  have sp: "sp \<and> rendered \<noteq> []" using gate_dimensions_pass clear(3) unfolding parts(12) by blast
  have "fst (citation_verdict m (gate_content s) cmap) = Some True"
    using clear(1) unfolding parts(10) by (simp add: gate_args_def)
  then obtain cm where cm: "m = Some cm"
    "cm_sources cm \<noteq> [] \<longrightarrow> set (find_markers (gate_content s)) \<subseteq> citable_numbers cm cmap \<and>
      set (collect_body_citations (gate_content s)) = set (collect_reference_numbers (gate_content s))"
    using citation_verdict_accepts by blast
  have content: "gate_content s \<noteq> []" using clear(2) by (auto simp: gate_args_def py_strip_def)
  have sources: "cmap \<noteq> []" "\<forall>i\<in>set (dkeys cmap). admitted_source (evidence_rows_by_id evidence) i"
    "truthy (pget requirements ''primary_required'') \<longrightarrow> (\<exists>i\<in>set (dkeys cmap). primary_source (evidence_rows_by_id evidence) i)"
    using sp unfolding parts(11) by (auto simp: sources_pass_def list_all_iff list_ex_iff)
  have rows: "ebind (dict_or_empty (pget s ''answer_spec'')) answer_spec_from_dict = Inr spec"
    "ebind (attr_get (por (pget s ''brief'') (PDict [])) ''source_requirements'') dict_or_empty = Inr requirements"
    using parts(4,5,7,8) by simp_all
  show ?thesis
    by (intro exI conjI) (rule parts rows us' conjunct1 [OF delivered] conjunct1 [OF conjunct2 [OF delivered]]
        content conjunct2 [OF sp] sources cm)+
qed

section \<open>Example\<close>

definition sample_manager :: citation_manager where
  "sample_manager = \<lparr>cm_sources = [], cm_fact_bindings = []\<rparr>"

definition sample_spec_row :: pydict where
  "sample_spec_row = [(''spec_id'', PStr ''s1''), (''revision'', PInt 3), (''asks'', PList [PDict
     [(''ask_id'', PStr ''ask1''), (''kind'', PStr ''fact''), (''target_units'', PInt 1), (''max_units'', PInt 1),
      (''required_fields'', PList [PDict [(''field_id'', PStr ''answer''), (''value_type'', PStr ''fact'')]])]])]"

definition sample_map :: pydict where
  "sample_map = [(''ev1'', PDict [(''display_number'', PInt 1)])]"

definition sample_contract :: pydict where
  "sample_contract = [(''rendered_unit_ids'', strs [''unit:t1:1'']), (''citation_map'', PDict sample_map)]"

definition sample_evidence :: "pydict list" where
  "sample_evidence = [[(''evidence_id'', PStr ''ev1''), (''admission_status'', PStr ''admitted'')]]"

definition sample_gate_state :: pydict where
  "sample_gate_state =
     [(''phase'', PStr ''synthesis''), (''engine_version'', PStr ''answer_contract_v2''),
      (''answer_spec'', PDict sample_spec_row),
      (''answer_units'', PList [PDict (answer_unit_to_dict example_validated)]),
      (''evidence_records'', PList (map PDict sample_evidence)),
      (''final_content'', PStr ''Founded in 1998.[1]''), (''answer_contract'', PDict sample_contract)]"

definition sample_spec :: answer_spec where
  "sample_spec = (case answer_spec_from_dict sample_spec_row of Inr x \<Rightarrow> x)"

definition sample_dimensions :: "string dict" where
  "sample_dimensions = gate_dimensions True [''unit:t1:1'']"

definition sample_result :: completion_v2 where
  "sample_result =
     (case evaluate_completion_v2 sample_spec [Row (answer_unit_to_dict example_validated)]
             (gate_args sample_gate_state sample_contract (Some True) sample_dimensions) of Inr r \<Rightarrow> r)"

definition sample_effect :: step_effect where
  "sample_effect =
     (let (metadata, payload) = verdict_effect sample_result (Some True, []) True [''ev1''] sample_dimensions
      in \<lparr>sf_metadata = metadata, sf_update = dput ''phase'' (PStr (phase_value PH_QUALITY)) payload\<rparr>)"

lemma sample_verdict: "citation_verdict (Some sample_manager) (gate_content sample_gate_state) sample_map = (Some True, [])"
proof -
  have "map_numbers sample_map = Inr [1]" "gate_content sample_gate_state \<noteq> []" by code_simp+
  then show ?thesis by (simp add: citation_verdict_def sample_manager_def unregistered_accepts_all)
qed

lemma sample_gate: "quality_gate_v2 (Some sample_manager) sample_gate_state = Inr sample_effect"
proof -
  have rows: "dict_or_empty (pget sample_gate_state ''answer_contract'') = Inr sample_contract"
    "dict_or_empty (pget sample_contract ''citation_map'') = Inr sample_map"
    "dict_rows (pget sample_gate_state ''evidence_records'') = Inr sample_evidence"
    "attr_get (por (pget sample_gate_state ''brief'') (PDict [])) ''source_requirements'' = Inr PNone"
    "nonempty_strs (pget sample_contract ''rendered_unit_ids'') = Inr [''unit:t1:1'']"
    "dict_or_empty (pget sample_gate_state ''answer_spec'') = Inr sample_spec_row"
    "answer_spec_from_dict sample_spec_row = Inr sample_spec"
    "dict_rows (pget sample_gate_state ''answer_units'') = Inr [answer_unit_to_dict example_validated]" by code_simp+
  have sources: "sources_pass (evidence_rows_by_id sample_evidence) False (dkeys sample_map)" "dkeys sample_map = [''ev1'']"
    by code_simp+
  have result: "evaluate_completion_v2 sample_spec [Row (answer_unit_to_dict example_validated)]
      (gate_args sample_gate_state sample_contract (Some True) (gate_dimensions True [''unit:t1:1''])) = Inr sample_result"
    by code_simp
  have allowed: "transition_update (PDict sample_gate_state) PH_QUALITY payload
      = Inr (dput ''phase'' (PStr (phase_value PH_QUALITY)) payload)" for payload
  proof -
    have "assert_transition (str_or (pget sample_gate_state ''phase'') (phase_value PH_BOOTSTRAP)) (phase_value PH_QUALITY) = Inr ()"
      by code_simp
    then show ?thesis by (simp add: transition_update_def)
  qed
  show ?thesis
    unfolding quality_gate_v2_def sample_effect_def sample_dimensions_def
    using sources by (simp add: rows sample_verdict result allowed Let_def split: prod.splits)
qed

lemma sample_success: "decide_terminal_outcome (dmerge sample_gate_state (sf_update sample_effect)) = Inr FO_SUCCESS"
proof -
  have effect: "sf_update sample_effect
      = dput ''phase'' (PStr (phase_value PH_QUALITY)) (snd (verdict_effect sample_result (Some True, []) True [''ev1''] sample_dimensions))"
    by (simp add: sample_effect_def split: prod.split)
  have engine: "str_or (pget sample_gate_state ''engine_version'') [] = ''answer_contract_v2''"
    and running: "str_or (pget sample_gate_state ''cancel_reason'') [] = []"
    and decided: "decide_v2 (PDict (completion_v2_to_dict sample_result)) = Inr FO_SUCCESS" by code_simp+
  show ?thesis unfolding gate_outcome [OF effect engine] running by (simp add: decided)
qed

lemma v2_run_success_witness:
  "\<exists>(cmap :: pydict) evidence. cmap \<noteq> [] \<and> dict_rows (pget sample_gate_state ''evidence_records'') = Inr evidence \<and>
    (\<forall>i\<in>set (dkeys cmap). admitted_source (evidence_rows_by_id evidence) i)"
proof -
  have "str_or (pget sample_gate_state ''engine_version'') [] = ''answer_contract_v2''" by code_simp
  from v2_run_success [OF sample_gate this sample_success] show ?thesis
    by (elim exE conjE) (intro exI conjI; assumption)
qed

end
