(* ===== verification/MemoryModels.thy ===== *)
theory MemoryModels
  imports Contracts Sha1
begin

text \<open>
  The data of the long-term memory (\<open>app/agent/memory/models.py\<close>, \<open>provenance.py\<close>, \<open>policy.py\<close>):
  memory records, write requests, provenance and the tiers of trust.  A timestamp is its instant in
  microseconds and the empty text of an optional timestamp is \<open>None\<close>; an embedding is the list of its
  numbers as the database returns them.  A dictionary of
  metadata is a value: two writes that share one dictionary object, which the code lets an update change in
  place, are outside the model, and no statement speaks of metadata.
\<close>

section \<open>Enumerations\<close>

datatype memory_type = MT_SEMANTIC | MT_EPISODIC | MT_PREFERENCE | MT_PROCEDURAL | MT_SOURCE

fun memory_type_value :: "memory_type \<Rightarrow> string" where
  "memory_type_value MT_SEMANTIC = ''semantic''"
| "memory_type_value MT_EPISODIC = ''episodic''"
| "memory_type_value MT_PREFERENCE = ''preference''"
| "memory_type_value MT_PROCEDURAL = ''procedural''"
| "memory_type_value MT_SOURCE = ''source''"

definition memory_types :: "memory_type list" where
  "memory_types = [MT_SEMANTIC, MT_EPISODIC, MT_PREFERENCE, MT_PROCEDURAL, MT_SOURCE]"

definition recallable_types :: "memory_type list" where
  "recallable_types = [MT_SEMANTIC, MT_EPISODIC, MT_PREFERENCE, MT_PROCEDURAL]"

datatype write_source =
    WS_FINALIZE | WS_STEP_INCREMENTAL | WS_USER_EXPLICIT | WS_SEED | WS_MEM0 | WS_HITL
  | WS_CONSOLIDATION | WS_CONFIRMATION

fun write_source_value :: "write_source \<Rightarrow> string" where
  "write_source_value WS_FINALIZE = ''finalize''"
| "write_source_value WS_STEP_INCREMENTAL = ''step_incremental''"
| "write_source_value WS_USER_EXPLICIT = ''user_explicit''"
| "write_source_value WS_SEED = ''seed''"
| "write_source_value WS_MEM0 = ''mem0''"
| "write_source_value WS_HITL = ''hitl''"
| "write_source_value WS_CONSOLIDATION = ''consolidation''"
| "write_source_value WS_CONFIRMATION = ''confirmation''"

definition write_sources :: "write_source list" where
  "write_sources = [WS_FINALIZE, WS_STEP_INCREMENTAL, WS_USER_EXPLICIT, WS_SEED, WS_MEM0, WS_HITL,
     WS_CONSOLIDATION, WS_CONFIRMATION]"

datatype trust_tier = UNTRUSTED | DERIVED | TRUSTED

fun trust_tier_value :: "trust_tier \<Rightarrow> string" where
  "trust_tier_value UNTRUSTED = ''untrusted''"
| "trust_tier_value DERIVED = ''derived''"
| "trust_tier_value TRUSTED = ''trusted''"

definition trust_tiers :: "trust_tier list" where
  "trust_tiers = [UNTRUSTED, DERIVED, TRUSTED]"

fun trust_rank :: "trust_tier \<Rightarrow> int" where
  "trust_rank UNTRUSTED = 0"
| "trust_rank DERIVED = 1"
| "trust_rank TRUSTED = 2"

interpretation memory_type_enum: str_enum memory_type_value memory_types
proof
  fix x y
  show "x \<in> set memory_types" by (cases x) (simp_all add: memory_types_def)
  show "memory_type_value x = memory_type_value y \<Longrightarrow> x = y" by (cases x; cases y) simp_all
qed

interpretation write_source_enum: str_enum write_source_value write_sources
proof
  fix x y
  show "x \<in> set write_sources" by (cases x) (simp_all add: write_sources_def)
  show "write_source_value x = write_source_value y \<Longrightarrow> x = y" by (cases x; cases y) simp_all
qed

interpretation trust_tier_enum: str_enum trust_tier_value trust_tiers
proof
  fix x y
  show "x \<in> set trust_tiers" by (cases x) (simp_all add: trust_tiers_def)
  show "trust_tier_value x = trust_tier_value y \<Longrightarrow> x = y" by (cases x; cases y) simp_all
qed

text \<open>The order of trust, so that the tiers compare as their ranks do.\<close>

instantiation trust_tier :: linorder
begin

definition less_eq_trust_tier :: "trust_tier \<Rightarrow> trust_tier \<Rightarrow> bool" where
  "less_eq_trust_tier a b = (trust_rank a \<le> trust_rank b)"

definition less_trust_tier :: "trust_tier \<Rightarrow> trust_tier \<Rightarrow> bool" where
  "less_trust_tier a b = (trust_rank a < trust_rank b)"

instance
proof
  fix x y z :: trust_tier
  show "x < y \<longleftrightarrow> x \<le> y \<and> \<not> y \<le> x" by (auto simp: less_eq_trust_tier_def less_trust_tier_def)
  show "x \<le> x" by (simp add: less_eq_trust_tier_def)
  show "x \<le> y \<Longrightarrow> y \<le> z \<Longrightarrow> x \<le> z" by (simp add: less_eq_trust_tier_def)
  show "x \<le> y \<Longrightarrow> y \<le> x \<Longrightarrow> x = y" by (cases x; cases y) (simp_all add: less_eq_trust_tier_def)
  show "x \<le> y \<or> y \<le> x" by (auto simp: less_eq_trust_tier_def)
qed

end

text \<open>\<open>coerce_trust_tier\<close> of a text.\<close>

definition coerce_trust_tier :: "string \<Rightarrow> trust_tier \<Rightarrow> trust_tier" where
  "coerce_trust_tier v dflt =
     (case enum_parse trust_tier_value trust_tiers (py_lower (py_strip v)) of Some t \<Rightarrow> t | None \<Rightarrow> dflt)"

definition trust_at_least :: "trust_tier \<Rightarrow> trust_tier \<Rightarrow> bool" where
  "trust_at_least tier minimum = (trust_rank minimum \<le> trust_rank tier)"

lemma trust_at_least_le: "trust_at_least a b \<longleftrightarrow> b \<le> a"
  by (simp add: trust_at_least_def less_eq_trust_tier_def)

lemma coerce_trust_value [simp]: "coerce_trust_tier (trust_tier_value t) d = t"
  by (cases t) (simp_all add: coerce_trust_tier_def enum_parse_def trust_tiers_def py_lower_def
      ascii_lower_def py_strip_def is_space_def)

section \<open>Provenance\<close>

record provenance =
  pv_source_kind :: string
  pv_source_urls :: "string list"
  pv_evidence_ids :: "string list"
  pv_step_type :: string
  pv_run_id :: string
  pv_tool :: string
  pv_citation_count :: int

definition empty_provenance :: provenance where
  "empty_provenance = \<lparr>pv_source_kind = [], pv_source_urls = [], pv_evidence_ids = [], pv_step_type = [],
     pv_run_id = [], pv_tool = [], pv_citation_count = 0\<rparr>"

definition has_evidence :: "provenance \<Rightarrow> bool" where
  "has_evidence p = (pv_source_urls p \<noteq> [] \<or> pv_evidence_ids p \<noteq> [] \<or> 0 < pv_citation_count p)"

definition primary_locator :: "provenance \<Rightarrow> string" where
  "primary_locator p =
     (case pv_source_urls p of u # _ \<Rightarrow> u
      | [] \<Rightarrow> case pv_evidence_ids p of e # _ \<Rightarrow> e
        | [] \<Rightarrow> if pv_source_kind p \<noteq> [] then pv_source_kind p else pv_step_type p)"

definition provenance_to_dict :: "provenance \<Rightarrow> pydict" where
  "provenance_to_dict p =
     [(''source_kind'', PStr (pv_source_kind p)), (''source_urls'', strs (pv_source_urls p)),
      (''evidence_ids'', strs (pv_evidence_ids p)), (''step_type'', PStr (pv_step_type p)),
      (''run_id'', PStr (pv_run_id p)), (''tool'', PStr (pv_tool p)),
      (''citation_count'', PInt (pv_citation_count p))]"

definition provenance_from_dict :: "pydict \<Rightarrow> provenance res" where
  "provenance_from_dict d =
     (if d = [] then Inr empty_provenance
      else ebind (str_list (pget d ''source_urls'')) (\<lambda>urls.
           ebind (str_list (pget d ''evidence_ids'')) (\<lambda>eids.
           ebind (int_or (pget d ''citation_count'') 0) (\<lambda>n.
             Inr \<lparr>pv_source_kind = py_str (pget_or d ''source_kind'' (PStr [])), pv_source_urls = urls,
               pv_evidence_ids = eids, pv_step_type = py_str (pget_or d ''step_type'' (PStr [])),
               pv_run_id = py_str (pget_or d ''run_id'' (PStr [])), pv_tool = py_str (pget_or d ''tool'' (PStr [])),
               pv_citation_count = n\<rparr>))))"

definition internal_step_types :: "string list" where
  "internal_step_types = [''file_read'']"

definition external_step_types :: "string list" where
  "external_step_types = [''network_search'']"

definition classify_trust_tier :: "write_source \<Rightarrow> string \<Rightarrow> provenance \<Rightarrow> trust_tier" where
  "classify_trust_tier src step p =
     (if src \<in> {WS_USER_EXPLICIT, WS_SEED, WS_HITL} then TRUSTED
      else let effective = py_lower (if step \<noteq> [] then step else pv_step_type p)
           in if effective \<in> set external_step_types then UNTRUSTED
              else if effective \<in> set internal_step_types then DERIVED
              else if has_evidence p then DERIVED else UNTRUSTED)"

definition is_recall_eligible :: "trust_tier \<Rightarrow> string \<Rightarrow> string \<Rightarrow> string list \<Rightarrow> string \<Rightarrow> bool" where
  "is_recall_eligible tier min_trust target synthesis_types synthesis_min =
     (trust_at_least tier (coerce_trust_tier min_trust UNTRUSTED)
      \<and> (target \<noteq> [] \<and> target \<in> set synthesis_types \<longrightarrow> trust_at_least tier (coerce_trust_tier synthesis_min UNTRUSTED)))"

section \<open>Records and write requests\<close>

record memory_record =
  mr_id :: string
  mr_tenant :: string
  mr_user :: string
  mr_type :: memory_type
  mr_fact :: string
  mr_version :: int
  mr_confidence :: pyfloat
  mr_source :: write_source
  mr_task :: string
  mr_topic :: string
  mr_session :: string
  mr_embedding :: "pyfloat list"
  mr_created :: int
  mr_updated :: int
  mr_deleted :: bool
  mr_metadata :: pydict
  mr_project :: string
  mr_trust :: trust_tier
  mr_provenance :: provenance
  mr_dedup :: string
  mr_supersedes :: "string list"
  mr_superseded_by :: string
  mr_recalls :: int
  mr_last_recalled :: "int option"
  mr_as_of :: "int option"
  mr_valid_from :: "int option"
  mr_valid_to :: "int option"
  mr_last_verified :: "int option"
  mr_observed :: "int option"
  mr_source_updated :: "int option"
  mr_confirmed_by :: "string list"
  mr_confirmations :: int
  mr_human_confirmed :: bool
  mr_idempotency :: string
  mr_entity :: string
  mr_attribute :: string
  mr_value_text :: string
  mr_valid_time :: string

record write_request =
  wq_fact :: string
  wq_type :: memory_type
  wq_confidence :: pyfloat
  wq_source :: write_source
  wq_task :: string
  wq_topic :: string
  wq_session :: string
  wq_metadata :: pydict
  wq_project :: string
  wq_trust :: "trust_tier option"
  wq_provenance :: "provenance option"
  wq_dedup :: string
  wq_as_of :: "int option"
  wq_valid_from :: "int option"
  wq_valid_to :: "int option"
  wq_valid_time :: string
  wq_last_verified :: "int option"
  wq_observed :: "int option"
  wq_source_updated :: "int option"
  wq_idempotency :: string
  wq_entity :: string
  wq_attribute :: string
  wq_value_text :: string
  wq_human_confirmed :: bool

definition resolved_provenance :: "write_request \<Rightarrow> provenance" where
  "resolved_provenance w = (case wq_provenance w of Some p \<Rightarrow> p | None \<Rightarrow> empty_provenance)"

definition resolved_trust_tier :: "write_request \<Rightarrow> trust_tier" where
  "resolved_trust_tier w =
     (case wq_trust w of Some t \<Rightarrow> t
      | None \<Rightarrow> let p = resolved_provenance w
                in classify_trust_tier (wq_source w)
                     (if pv_step_type p \<noteq> [] then pv_step_type p
                      else py_str (pget_or (wq_metadata w) ''step_type'' (PStr []))) p)"

text \<open>\<open>age_days\<close>: whole days since the record was created, never negative.\<close>

definition day_micros :: int where
  "day_micros = 86400 * 1000000"

definition age_days :: "int \<Rightarrow> memory_record \<Rightarrow> int" where
  "age_days now r = max 0 ((now - mr_created r) div day_micros)"

section \<open>Policy\<close>

record memory_policy =
  mp_enabled :: bool
  mp_recall_top_k :: int
  mp_ttl_days :: int
  mp_max_facts :: int
  mp_min_fact_chars :: int
  mp_embedding_enabled :: bool
  mp_keyword_weight :: pyfloat
  mp_embedding_weight :: pyfloat
  mp_merge_jaccard :: pyfloat
  mp_merge_embedding :: pyfloat
  mp_pii_redact :: bool
  mp_step_write_longterm :: bool
  mp_project_scope :: bool
  mp_require_identity :: bool
  mp_min_recall_trust :: string
  mp_synthesis_min_trust :: string
  mp_ledger_enabled :: bool
  mp_ledger_max_inject :: int
  mp_consolidation_enabled :: bool
  mp_half_life :: int
  mp_min_confidence :: pyfloat
  mp_promote_min_sessions :: int
  mp_promote_min_confirmations :: int
  mp_purge_after_days :: int
  mp_utility_gate :: bool
  mp_ttl_by_type :: "(string \<times> int) list"
  mp_volatile_ttl :: int

definition synthesis_step_types :: "string list" where
  "synthesis_step_types = [''generate_markdown'', ''summarize'', ''convert_pdf'']"

section \<open>Lemmas\<close>

lemma provenance_roundtrip: "provenance_from_dict (provenance_to_dict p) = Inr p"
  by (simp add: provenance_from_dict_def provenance_to_dict_def py_str_def)

lemma provenance_json_Nil: "provenance_to_dict p \<noteq> []"
  by (simp add: provenance_to_dict_def)

text \<open>What a machine found on the web is never more than untrusted.\<close>

lemma external_untrusted:
  assumes "wq_trust w = None" and "wq_source w \<notin> {WS_USER_EXPLICIT, WS_SEED, WS_HITL}"
    and "py_lower (pv_step_type (resolved_provenance w)) \<in> set external_step_types"
  shows "resolved_trust_tier w = UNTRUSTED"
  using assms by (auto simp: resolved_trust_tier_def classify_trust_tier_def Let_def external_step_types_def py_lower_def)

end
