(* ===== verification/MemoryText.thy ===== *)
theory MemoryText
  imports MemoryModels
begin

text \<open>
  The text measures the memory decides by: the tokens of mixed Chinese and Latin text
  (\<open>app/agent/memory/recall/tokenizer.py\<close>), the overlap of two texts and their contradiction
  (\<open>governance.py\<close>), and the slots of a fact (\<open>validity.py\<close>).  Digits and white space are those of
  ASCII.
\<close>

section \<open>Code points\<close>

text \<open>The number of a code point from its bytes.\<close>

fun cp_value :: "string \<Rightarrow> nat" where
  "cp_value [a] = of_char a"
| "cp_value [a, b] = (of_char a mod 32) * 64 + of_char b mod 64"
| "cp_value [a, b, c] = (of_char a mod 16) * 4096 + (of_char b mod 64) * 64 + of_char c mod 64"
| "cp_value [a, b, c, d] = (of_char a mod 8) * 262144 + (of_char b mod 64) * 4096 + (of_char c mod 64) * 64 + of_char d mod 64"
| "cp_value _ = 0"

definition is_cjk_char :: "string \<Rightarrow> bool" where
  "is_cjk_char p =
     (let n = cp_value p
      in (0x4E00 \<le> n \<and> n \<le> 0x9FFF) \<or> (0x3400 \<le> n \<and> n \<le> 0x4DBF) \<or> (0xF900 \<le> n \<and> n \<le> 0xFAFF))"

definition cp_space :: "string \<Rightarrow> bool" where
  "cp_space p = list_all is_space p"

definition cp_alnum :: "string \<Rightarrow> bool" where
  "cp_alnum p =
     list_all (\<lambda>c. let n = (of_char c :: nat) in (48 \<le> n \<and> n \<le> 57) \<or> (65 \<le> n \<and> n \<le> 90) \<or> (97 \<le> n \<and> n \<le> 122)) p"

section \<open>Tokens\<close>

definition split_chars :: "string list" where
  "split_chars = code_points
     ('',.;:!?()[]/|'' @ [CHR 0x22, CHR 0x27, CHR 0x5C]
      @ utf8 [239, 188, 140, 227, 128, 130, 239, 188, 142, 239, 188, 155, 239, 188, 154, 227, 128, 129,
          239, 188, 129, 239, 188, 159, 239, 188, 136, 239, 188, 137, 227, 128, 144, 227, 128, 145,
          226, 128, 156, 226, 128, 157, 226, 128, 152, 226, 128, 153])"

definition splits :: "string \<Rightarrow> bool" where
  "splits p = (cp_space p \<or> p \<in> set split_chars)"

text \<open>The nonempty parts \<open>_SPLIT.split\<close> leaves between the separators.\<close>

fun text_parts :: "string list \<Rightarrow> string list list" where
  "text_parts [] = []"
| "text_parts (p # ps) =
     (if splits p then text_parts ps
      else case ps of
             [] \<Rightarrow> [[p]]
           | q # _ \<Rightarrow> if splits q then [p] # text_parts ps
                      else case text_parts ps of [] \<Rightarrow> [[p]] | part # parts \<Rightarrow> (p # part) # parts)"

fun bigrams :: "string list \<Rightarrow> string list" where
  "bigrams (p # q # ps) = (p @ q) # bigrams (q # ps)"
| "bigrams ps = []"

definition part_tokens :: "string list \<Rightarrow> string list" where
  "part_tokens part =
     (if list_ex is_cjk_char part
      then (let chars = filter (\<lambda>p. \<not> cp_space p) part
            in chars @ bigrams chars @ (if 2 \<le> length part \<and> length part \<le> 12 then [concat part] else []))
      else if 2 \<le> length part then [concat part]
      else if list_all cp_alnum part then [concat part] else [])"

definition lexical_tokens :: "string \<Rightarrow> string list" where
  "lexical_tokens s = concat (map part_tokens (text_parts (code_points (py_lower (py_strip s)))))"

definition lexical_token_set :: "string \<Rightarrow> string list" where
  "lexical_token_set s = fromkeys (filter (\<lambda>t. t \<noteq> []) (lexical_tokens s))"

definition overlap_size :: "string list \<Rightarrow> string list \<Rightarrow> nat" where
  "overlap_size xs ys = length (filter (\<lambda>x. x \<in> set ys) xs)"

definition keyword_overlap :: "string \<Rightarrow> string \<Rightarrow> pyfloat" where
  "keyword_overlap query txt =
     (let q = lexical_token_set query; tt = lexical_token_set txt
      in if q = [] \<or> tt = [] then 0
         else fl (of_nat (overlap_size q tt) / of_nat (length q)))"

section \<open>Similarity of texts\<close>

definition in_bmp_cjk :: "string \<Rightarrow> bool" where
  "in_bmp_cjk p = (0x4E00 \<le> cp_value p \<and> cp_value p \<le> 0x9FFF)"

fun cjk_grams :: "string list \<Rightarrow> string list" where
  "cjk_grams (p # q # ps) = (if in_bmp_cjk p \<or> in_bmp_cjk q then [p @ q] else []) @ cjk_grams (q # ps)"
| "cjk_grams ps = []"

definition token_set :: "string \<Rightarrow> string list" where
  "token_set s =
     fromkeys (lexical_token_set s @ cjk_grams (filter (\<lambda>p. \<not> cp_space p) (code_points (py_lower s))))"

definition token_jaccard :: "string \<Rightarrow> string \<Rightarrow> pyfloat" where
  "token_jaccard a b =
     (let sa = token_set a; sb = token_set b
      in if sa = [] \<or> sb = [] then 0
         else fl (of_nat (overlap_size sa sb) / of_nat (length (fromkeys (sa @ sb)))))"

section \<open>Numbers and years in a text\<close>

text \<open>\<open>findall\<close> of a pattern: the matches from left to right, a match is stepped over.\<close>

fun find_all :: "(string \<Rightarrow> string option) \<Rightarrow> nat \<Rightarrow> string \<Rightarrow> string list" where
  "find_all m k [] = []"
| "find_all m (Suc k) (c # s) = find_all m k s"
| "find_all m 0 (c # s) =
     (case m (c # s) of None \<Rightarrow> find_all m 0 s | Some w \<Rightarrow> w # find_all m (length w - 1) s)"

text \<open>The pattern of a year, \<open>19\<close> or \<open>20\<close> and two digits.\<close>

definition year_at :: "string \<Rightarrow> string option" where
  "year_at s =
     (case s of
        a # b # c # d # _ \<Rightarrow>
          if (a = CHR ''1'' \<and> b = CHR ''9'' \<or> a = CHR ''2'' \<and> b = CHR ''0'') \<and> is_digit c \<and> is_digit d
          then Some [a, b, c, d] else None
      | _ \<Rightarrow> None)"

text \<open>The pattern of a number: a sign, digits, a fraction and a percent sign, all but the digits optional.\<close>

definition fraction_at :: "string \<Rightarrow> string" where
  "fraction_at s =
     (case s of c # t \<Rightarrow> if c = CHR ''.'' \<and> takeWhile is_digit t \<noteq> [] then c # takeWhile is_digit t else [] | [] \<Rightarrow> [])"

definition percent_at :: "string \<Rightarrow> string" where
  "percent_at s = (case s of c # _ \<Rightarrow> if c = CHR ''%'' then [c] else [] | [] \<Rightarrow> [])"

definition number_at :: "string \<Rightarrow> string option" where
  "number_at s =
     (let sign = (case s of c # _ \<Rightarrow> if c = CHR ''-'' then [c] else [] | [] \<Rightarrow> []);
          t = drop (length sign) s;
          whole = takeWhile is_digit t;
          rest = drop (length whole) t;
          frac = fraction_at rest
      in if whole = [] then None else Some (sign @ whole @ frac @ percent_at (drop (length frac) rest)))"

definition is_year :: "string \<Rightarrow> bool" where
  "is_year n = (year_at n = Some n)"

section \<open>Slots of a fact\<close>

record fact_frame =
  ff_entity :: string
  ff_attribute :: string
  ff_value :: string
  ff_unit :: string
  ff_valid_time :: string
  ff_tokens :: "string list"

definition yi_word :: string where
  "yi_word = utf8 [228, 186, 191]"

definition wan_word :: string where
  "wan_word = utf8 [228, 184, 135]"

definition frame_noise :: "string list" where
  "frame_noise = code_points ('',;:'' @ utf8 [239, 188, 140, 227, 128, 130, 239, 188, 155, 239, 188, 154, 227, 128, 129])"

definition first_or_empty :: "string list \<Rightarrow> string" where
  "first_or_empty xs = (case xs of x # _ \<Rightarrow> x | [] \<Rightarrow> [])"

definition extract_fact_frame :: "string \<Rightarrow> fact_frame" where
  "extract_fact_frame text =
     (let raw = py_strip text;
          years = find_all year_at 0 raw;
          nums = filter (\<lambda>n. \<not> is_year n) (find_all number_at 0 raw);
          val = first_or_empty nums;
          compact = concat (filter (\<lambda>p. \<not> cp_space p \<and> p \<notin> set frame_noise) (code_points (py_lower raw)))
      in \<lparr>ff_entity = take_chars 18 compact,
          ff_attribute = if val \<noteq> [] then ''value'' else [],
          ff_value = val,
          ff_unit = if is_infix ''%'' raw \<and> val \<noteq> [] \<and> \<not> is_suffix ''%'' val then ''%''
                    else if is_infix yi_word raw then yi_word
                    else if is_infix wan_word raw then wan_word else [],
          ff_valid_time = first_or_empty years,
          ff_tokens = years @ nums\<rparr>)"

section \<open>Contradiction and volatility\<close>

definition negation_tokens :: "string list" where
  "negation_tokens = [utf8 [228, 184, 141], utf8 [230, 151, 160], utf8 [230, 178, 161, 230, 156, 137],
     utf8 [230, 156, 170], utf8 [233, 157, 158], ''not '', ''no '']"

definition looks_contradictory :: "string \<Rightarrow> string \<Rightarrow> fact_frame \<Rightarrow> fact_frame \<Rightarrow> bool" where
  "looks_contradictory a b fa fb =
     (if ff_valid_time fa \<noteq> [] \<and> ff_valid_time fb \<noteq> [] \<and> ff_valid_time fa \<noteq> ff_valid_time fb then False
      else if token_jaccard a b < fl (35 / 100) then False
      else let la = py_lower a; lb = py_lower b;
               nums_a = filter (\<lambda>n. n \<noteq> ff_valid_time fa) (find_all number_at 0 la);
               nums_b = filter (\<lambda>n. n \<noteq> ff_valid_time fb) (find_all number_at 0 lb)
           in if nums_a \<noteq> [] \<and> nums_b \<noteq> [] \<and> set nums_a \<noteq> set nums_b then True
              else list_ex (\<lambda>w. is_infix w la \<noteq> is_infix w lb \<and> fl (45 / 100) \<le> token_jaccard a b) negation_tokens)"

definition volatile_markers :: "string list" where
  "volatile_markers = [utf8 [232, 144, 165, 230, 148, 182], utf8 [228, 186, 167, 233, 135, 143],
     utf8 [232, 130, 161, 228, 187, 183], utf8 [229, 184, 130, 229, 128, 188], ''guidance'',
     utf8 [233, 162, 132, 232, 174, 161], utf8 [229, 184, 130, 229, 156, 186, 228, 187, 189, 233, 162, 157],
     utf8 [229, 162, 158, 233, 128, 159], utf8 [228, 187, 183, 230, 160, 188], utf8 [228, 186, 167, 232, 131, 189],
     utf8 [229, 186, 147, 229, 173, 152], ''revenue'', ''guidance'', ''market share'', ''stock'']"

definition is_volatile_fact :: "string \<Rightarrow> bool" where
  "is_volatile_fact s = list_ex (\<lambda>m. is_infix m (py_lower s)) volatile_markers"

section \<open>Lemmas\<close>

lemma year_at_number: "year_at s = Some y \<Longrightarrow> y \<noteq> []"
  by (auto simp: year_at_def split: list.splits if_splits)

text \<open>Facts about different years never contradict each other.\<close>

lemma different_years_do_not_contradict:
  "ff_valid_time fa \<noteq> [] \<Longrightarrow> ff_valid_time fb \<noteq> [] \<Longrightarrow> ff_valid_time fa \<noteq> ff_valid_time fb
    \<Longrightarrow> \<not> looks_contradictory a b fa fb"
  by (simp add: looks_contradictory_def)

end
