(* ===== verification/MemoryWrite.thy ===== *)
theory MemoryWrite
  imports MemoryText
begin

text \<open>
  What a write does to the long-term memory, before any database: the similar record it meets
  (\<open>app/agent/memory/governance.py\<close>), the decision to add, update, supersede or drop it
  (\<open>consolidation.py\<close>), expiry (\<open>validity.py\<close>) and the gate for long-term writes (\<open>utility.py\<close>).
  Float functions of the library (\<open>sum\<close> of floats, square root, powers of one half, \<open>log1p\<close>) and
  the printing of an instant are arguments, in the record \<open>float_lib\<close>.
\<close>

record float_lib =
  lib_sum :: "pyfloat list \<Rightarrow> pyfloat"
  lib_sqrt :: "pyfloat \<Rightarrow> pyfloat"
  lib_half_pow :: "pyfloat \<Rightarrow> pyfloat"
  lib_log1p :: "int \<Rightarrow> pyfloat"
  lib_iso :: "int \<Rightarrow> string"

section \<open>Expiry\<close>

definition default_ttl_by_type :: "int dict" where
  "default_ttl_by_type = [(''preference'', 0), (''procedural'', 0), (''semantic'', 90), (''episodic'', 14), (''source'', 180)]"

definition type_ttl_map :: "memory_policy \<Rightarrow> int dict" where
  "type_ttl_map pol = dmerge default_ttl_by_type (mp_ttl_by_type pol)"

definition int_or_default :: "int \<Rightarrow> int \<Rightarrow> int" where
  "int_or_default n d = (if n = 0 then d else n)"

definition effective_ttl_days :: "memory_policy \<Rightarrow> memory_record \<Rightarrow> int" where
  "effective_ttl_days pol r =
     (let ttl = (case dget (type_ttl_map pol) (memory_type_value (mr_type r)) of
                   Some n \<Rightarrow> n | None \<Rightarrow> int_or_default (mp_ttl_days pol) 90)
      in if mr_type r = MT_SEMANTIC \<and> (truthy (pget (mr_metadata r) ''volatile'') \<or> is_volatile_fact (mr_fact r))
         then (let volatile_ttl = int_or_default (mp_volatile_ttl pol) 7
               in if ttl \<le> 0 then volatile_ttl else min ttl volatile_ttl)
         else ttl)"

definition record_is_expired :: "int \<Rightarrow> memory_policy \<Rightarrow> memory_record \<Rightarrow> bool" where
  "record_is_expired now pol r =
     (if (case mr_valid_to r of Some until \<Rightarrow> until < now | None \<Rightarrow> False) then True
      else let ttl = effective_ttl_days pol r in 0 < ttl \<and> ttl < age_days now r)"

section \<open>The similar record\<close>

definition cosine_similarity :: "float_lib \<Rightarrow> pyfloat list \<Rightarrow> pyfloat list \<Rightarrow> pyfloat" where
  "cosine_similarity lib a b =
     (if a = [] \<or> b = [] \<or> length a \<noteq> length b then 0
      else let dot = lib_sum lib (map2 (\<lambda>x y. fl (x * y)) a b);
               na = lib_sqrt lib (lib_sum lib (map (\<lambda>x. fl (x * x)) a));
               nb = lib_sqrt lib (lib_sum lib (map (\<lambda>x. fl (x * x)) b))
           in if na = 0 \<or> nb = 0 then 0 else fl (dot / fl (na * nb)))"

definition merge_score :: "float_lib \<Rightarrow> write_request \<Rightarrow> pyfloat list \<Rightarrow> memory_record \<Rightarrow> pyfloat" where
  "merge_score lib w emb r =
     (let project = py_strip (wq_project w);
          sim = max (token_jaccard (wq_fact w) (mr_fact r))
                  (if emb \<noteq> [] \<and> mr_embedding r \<noteq> [] then cosine_similarity lib emb (mr_embedding r) else 0)
      in if project \<noteq> [] \<and> mr_project r = project then fl (sim + fl (5 / 100)) else sim)"

definition merge_threshold :: "memory_policy \<Rightarrow> pyfloat list \<Rightarrow> memory_record \<Rightarrow> pyfloat" where
  "merge_threshold pol emb r =
     (if emb \<noteq> [] \<and> mr_embedding r \<noteq> [] then mp_merge_embedding pol else mp_merge_jaccard pol)"

definition comparable_record :: "write_request \<Rightarrow> memory_record \<Rightarrow> bool" where
  "comparable_record w r = (\<not> mr_deleted r \<and> mr_superseded_by r = [] \<and> mr_type r = wq_type w)"

text \<open>The best of the comparable records that reach their threshold, the first of equals, by position.\<close>

fun best_candidate ::
  "float_lib \<Rightarrow> memory_policy \<Rightarrow> write_request \<Rightarrow> pyfloat list \<Rightarrow> nat \<Rightarrow> nat option \<times> pyfloat
    \<Rightarrow> memory_record list \<Rightarrow> nat option" where
  "best_candidate lib pol w emb i (best, score) [] = best"
| "best_candidate lib pol w emb i (best, score) (r # rs) =
     (let s = merge_score lib w emb r
      in best_candidate lib pol w emb (Suc i)
           (if comparable_record w r \<and> merge_threshold pol emb r \<le> s \<and> score < s then (Some i, s) else (best, score)) rs)"

definition same_source :: "write_request \<Rightarrow> memory_record \<Rightarrow> bool" where
  "same_source w r = (\<not> mr_deleted r \<and> mr_type r = MT_SOURCE \<and> mr_dedup r = wq_dedup w)"

fun find_index :: "('a \<Rightarrow> bool) \<Rightarrow> nat \<Rightarrow> 'a list \<Rightarrow> nat option" where
  "find_index p i [] = None"
| "find_index p i (x # xs) = (if p x then Some i else find_index p (Suc i) xs)"

definition find_merge_candidate ::
  "float_lib \<Rightarrow> memory_policy \<Rightarrow> write_request \<Rightarrow> pyfloat list \<Rightarrow> memory_record list \<Rightarrow> nat option" where
  "find_merge_candidate lib pol w emb existing =
     (case (if wq_dedup w \<noteq> [] \<and> wq_type w = MT_SOURCE then find_index (same_source w) 0 existing else None) of
        Some i \<Rightarrow> Some i
      | None \<Rightarrow> best_candidate lib pol w emb 0 (None, 0) existing)"

section \<open>The decision\<close>

datatype consolidation_action = CA_ADD | CA_UPDATE | CA_SUPERSEDE | CA_NOOP

text \<open>The target of a decision is a position of the list of existing records.\<close>

record consolidation_decision =
  cd_action :: consolidation_action
  cd_target :: "nat option"
  cd_reason :: string

definition decision :: "consolidation_action \<Rightarrow> nat option \<Rightarrow> string \<Rightarrow> consolidation_decision" where
  "decision a t why = \<lparr>cd_action = a, cd_target = t, cd_reason = why\<rparr>"

definition non_empty_or :: "string \<Rightarrow> string \<Rightarrow> string" where
  "non_empty_or a b = (if a \<noteq> [] then a else b)"

definition decide_against :: "write_request \<Rightarrow> nat \<Rightarrow> memory_record \<Rightarrow> consolidation_decision" where
  "decide_against w i r =
     (if py_strip (wq_fact w) = py_strip (mr_fact r)
      then if wq_source w = WS_CONFIRMATION then decision CA_UPDATE (Some i) ''independent_confirmation''
           else decision CA_NOOP (Some i) ''exact_duplicate''
      else if trust_rank (resolved_trust_tier w) < trust_rank (mr_trust r)
      then decision CA_NOOP (Some i) ''lower_trust_cannot_overwrite''
      else let fa = extract_fact_frame (wq_fact w); fb = extract_fact_frame (mr_fact r);
               write_valid = py_strip (non_empty_or (wq_valid_time w) (ff_valid_time fa));
               exist_valid = py_strip (non_empty_or (mr_valid_time r) (ff_valid_time fb))
           in if looks_contradictory (wq_fact w) (mr_fact r) fa fb then decision CA_SUPERSEDE (Some i) ''contradiction''
              else if write_valid \<noteq> [] \<and> exist_valid \<noteq> [] \<and> write_valid \<noteq> exist_valid
              then decision CA_ADD None ''different_valid_time''
              else decision CA_UPDATE (Some i) ''similar_refresh'')"

definition decide_write_action ::
  "float_lib \<Rightarrow> memory_policy \<Rightarrow> write_request \<Rightarrow> pyfloat list \<Rightarrow> memory_record list \<Rightarrow> consolidation_decision" where
  "decide_write_action lib pol w emb existing =
     (case find_merge_candidate lib pol w emb existing of
        None \<Rightarrow> decision CA_ADD None ''no_similar''
      | Some i \<Rightarrow> decide_against w i (existing ! i))"

section \<open>Merging a write into a record\<close>

text \<open>The last \<open>n\<close> elements, \<open>xs[-n:]\<close> for a positive \<open>n\<close>.\<close>

definition last_n :: "nat \<Rightarrow> 'a list \<Rightarrow> 'a list" where
  "last_n n xs = drop (length xs - n) xs"

definition fact_history_entry :: "float_lib \<Rightarrow> memory_record \<Rightarrow> pyval" where
  "fact_history_entry lib r =
     PDict [(''fact'', PStr (mr_fact r)), (''version'', PInt (mr_version r)),
       (''updated_at'', PStr (lib_iso lib (mr_updated r))), (''trust_tier'', PStr (trust_tier_value (mr_trust r)))]"

definition merge_record :: "float_lib \<Rightarrow> int \<Rightarrow> memory_record \<Rightarrow> write_request \<Rightarrow> memory_record res" where
  "merge_record lib now r w =
     ebind (iter_or_empty (pget (mr_metadata r) ''fact_history'')) (\<lambda>history.
       let metadata = (if mr_fact r \<noteq> [] \<and> mr_fact r \<noteq> py_strip (wq_fact w)
             then dput ''fact_history'' (PList (last_n 5 (history @ [fact_history_entry lib r]))) (mr_metadata r)
             else mr_metadata r)
       in Inr (r\<lparr>mr_fact := py_strip (wq_fact w), mr_version := mr_version r + 1,
            mr_confidence := max (mr_confidence r) (wq_confidence w), mr_updated := now,
            mr_trust := (if trust_at_least (resolved_trust_tier w) (mr_trust r) then resolved_trust_tier w else mr_trust r),
            mr_provenance := resolved_provenance w,
            mr_project := non_empty_or (wq_project w) (mr_project r),
            mr_dedup := non_empty_or (wq_dedup w) (mr_dedup r),
            mr_task := non_empty_or (wq_task w) (mr_task r),
            mr_topic := non_empty_or (wq_topic w) (mr_topic r),
            mr_session := non_empty_or (wq_session w) (mr_session r),
            mr_metadata := dput ''merged'' (PBool True) (dmerge metadata (wq_metadata w))\<rparr>))"

definition source_ids_from_write :: "write_request \<Rightarrow> string list" where
  "source_ids_from_write w =
     (let p = resolved_provenance w
      in filter (\<lambda>i. i \<noteq> []) (pv_source_urls p @ pv_evidence_ids p @ [primary_locator p]))"

definition add_known :: "string list \<Rightarrow> string \<Rightarrow> string list" where
  "add_known known i = (if i \<in> set known then known else known @ [i])"

definition or_instant :: "int option \<Rightarrow> int option \<Rightarrow> int option" where
  "or_instant a b = (case a of Some t \<Rightarrow> Some t | None \<Rightarrow> b)"

definition merge_independent_confirmation :: "int \<Rightarrow> memory_record \<Rightarrow> write_request \<Rightarrow> memory_record" where
  "merge_independent_confirmation now r w =
     (let incoming = source_ids_from_write w;
          start = (if primary_locator (mr_provenance r) \<noteq> [] then add_known (mr_confirmed_by r) (primary_locator (mr_provenance r))
                   else mr_confirmed_by r);
          ids = foldl add_known start incoming
      in r\<lparr>mr_confirmed_by := ids, mr_confirmations := int (length ids),
           mr_last_verified := (case wq_last_verified w of Some t \<Rightarrow> Some t
             | None \<Rightarrow> if incoming \<noteq> [] then Some now else mr_last_verified r)\<rparr>)"

definition apply_validity_fields :: "memory_record \<Rightarrow> write_request \<Rightarrow> memory_record" where
  "apply_validity_fields r w =
     (let frame = extract_fact_frame (wq_fact w)
      in r\<lparr>mr_as_of := or_instant (or_instant (wq_as_of w) (mr_as_of r)) (Some (mr_created r)),
           mr_valid_from := or_instant (wq_valid_from w) (mr_valid_from r),
           mr_valid_to := or_instant (wq_valid_to w) (mr_valid_to r),
           mr_valid_time := non_empty_or (wq_valid_time w) (non_empty_or (ff_valid_time frame) (mr_valid_time r)),
           mr_observed := or_instant (or_instant (wq_observed w) (mr_observed r)) (Some (mr_created r)),
           mr_source_updated := or_instant (wq_source_updated w) (mr_source_updated r),
           mr_entity := non_empty_or (wq_entity w) (non_empty_or (ff_entity frame) (mr_entity r)),
           mr_attribute := non_empty_or (wq_attribute w) (non_empty_or (ff_attribute frame) (mr_attribute r)),
           mr_value_text := non_empty_or (wq_value_text w) (non_empty_or (ff_value frame) (mr_value_text r)),
           mr_idempotency := non_empty_or (wq_idempotency w) (mr_idempotency r)\<rparr>)"

definition apply_update :: "float_lib \<Rightarrow> (nat \<Rightarrow> int) \<Rightarrow> memory_record \<Rightarrow> write_request \<Rightarrow> memory_record res" where
  "apply_update lib clock r w =
     ebind (merge_record lib (clock 0) r w) (\<lambda>m.
       let m1 = (if wq_source w \<noteq> WS_CONFIRMATION
                 then m\<lparr>mr_trust := resolved_trust_tier w, mr_provenance := resolved_provenance w\<rparr> else m);
           m2 = m1\<lparr>mr_project := non_empty_or (wq_project w) (mr_project m1), mr_dedup := non_empty_or (wq_dedup w) (mr_dedup m1)\<rparr>;
           m3 = apply_validity_fields (merge_independent_confirmation (clock 1) m2 w) w;
           m4 = (if wq_human_confirmed w then m3\<lparr>mr_human_confirmed := True, mr_trust := TRUSTED\<rparr> else m3)
       in Inr (m4\<lparr>mr_metadata := dput ''consolidated'' (PStr ''update'') (mr_metadata m4)\<rparr>))"

section \<open>Decay, promotion and purge\<close>

definition decay_confidence :: "float_lib \<Rightarrow> int \<Rightarrow> int \<Rightarrow> pyfloat \<Rightarrow> memory_record \<Rightarrow> pyfloat" where
  "decay_confidence lib now half_life least r =
     (if half_life \<le> 0 \<or> age_days now r \<le> 0 then mr_confidence r
      else let halves = fl (fl (of_int (age_days now r)) / fl (of_int half_life));
               boost = min 1 (fmul_int (mr_recalls r) (fl (15 / 100)));
               decayed = fl (fl (mr_confidence r * lib_half_pow lib halves) * fl (1 + boost))
           in max least (min 1 decayed))"

definition independent_source_count :: "memory_record \<Rightarrow> int" where
  "independent_source_count r =
     (let p = mr_provenance r
      in int (length (fromkeys (filter (\<lambda>i. i \<noteq> [])
           (mr_confirmed_by r @ [primary_locator p] @ pv_source_urls p @ pv_evidence_ids p)))))"

definition should_promote :: "int \<Rightarrow> int option \<Rightarrow> memory_record \<Rightarrow> bool" where
  "should_promote min_sessions min_confirmations r =
     (if mr_trust r \<noteq> DERIVED then False
      else if mr_source r \<in> {WS_USER_EXPLICIT, WS_HITL, WS_SEED} then False
      else if mr_human_confirmed r then True
      else (case min_confirmations of Some n \<Rightarrow> n | None \<Rightarrow> max 2 min_sessions) \<le> independent_source_count r)"

definition should_purge :: "int \<Rightarrow> int \<Rightarrow> memory_record \<Rightarrow> bool" where
  "should_purge now purge_days r =
     (0 < purge_days \<and> mr_deleted r \<and> purge_days \<le> (now - mr_updated r) div day_micros)"

section \<open>The gate for long-term writes\<close>

definition durable_markers :: "string list" where
  "durable_markers = [utf8 [228, 187, 165, 229, 144, 142], utf8 [229, 191, 133, 233, 161, 187],
     utf8 [228, 184, 141, 232, 166, 129], utf8 [229, 129, 143, 229, 165, 189], utf8 [228, 185, 160, 230, 131, 175],
     utf8 [229, 174, 152, 230, 150, 185, 230, 157, 165, 230, 186, 144], ''markdown'', ''pdf'', ''prefer'', ''always'', ''never'']"

record utility_decision =
  ud_keep :: bool
  ud_reason :: string
  ud_volatile :: bool

definition utility :: "bool \<Rightarrow> string \<Rightarrow> bool \<Rightarrow> utility_decision" where
  "utility keep why vol = \<lparr>ud_keep = keep, ud_reason = why, ud_volatile = vol\<rparr>"

definition passes_utility_gate :: "write_request \<Rightarrow> memory_policy \<Rightarrow> utility_decision" where
  "passes_utility_gate w pol =
     (let trust = resolved_trust_tier w; txt = py_strip (wq_fact w); vol = is_volatile_fact txt
      in if \<not> mp_utility_gate pol then utility True ''gate_disabled'' False
         else if wq_source w \<in> {WS_USER_EXPLICIT, WS_HITL, WS_SEED, WS_CONFIRMATION}
         then utility True ''explicit_or_hitl'' False
         else if wq_type w \<in> {MT_PREFERENCE, MT_PROCEDURAL} then utility True ''durable_type'' False
         else if wq_source w = WS_STEP_INCREMENTAL \<and> \<not> mp_step_write_longterm pol
         then utility False ''step_incremental_deferred'' vol
         else if wq_source w = WS_STEP_INCREMENTAL \<and> trust = UNTRUSTED then utility False ''untrusted_external'' vol
         else if list_ex (\<lambda>m. is_infix m (py_lower txt)) durable_markers then utility True ''durable_language'' False
         else if wq_source w = WS_FINALIZE
         then if trust = UNTRUSTED \<and> \<not> has_evidence (resolved_provenance w) then utility False ''unverified_finalize'' vol
              else if vol \<and> trust = UNTRUSTED then utility False ''volatile_untrusted'' True
              else utility True ''finalize_curated'' vol
         else if trust = UNTRUSTED then utility False ''untrusted_not_reusable'' vol
         else utility True ''derived_default'' vol)"

fun filter_longterm_writes :: "write_request list \<Rightarrow> memory_policy \<Rightarrow> write_request list \<times> nat" where
  "filter_longterm_writes [] pol = ([], 0)"
| "filter_longterm_writes (w # ws) pol =
     (case filter_longterm_writes ws pol of (kept, rejected) \<Rightarrow>
        let d = passes_utility_gate w pol
        in if \<not> ud_keep d then (kept, rejected + 1)
           else ((if ud_volatile d then w\<lparr>wq_metadata := dput ''volatile'' (PBool True) (wq_metadata w)\<rparr> else w) # kept, rejected))"

end
