(* ===== verification/MemoryStore.thy ===== *)
theory MemoryStore
  imports MemoryWrite
begin

text \<open>
  The database of the long-term memory (\<open>app/agent/memory/backend/sqlite_backend.py\<close>): the tables of
  memories, write keys, sources, jobs and audit entries and every operation on them.  A table is the
  list of its rows in insertion order, rows of equal age come in that order.  An operation that raises
  leaves the database as it was, since the transaction is not committed.  The columns are read back as
  they were written, with numbers of embeddings already rounded to the width of the column.
\<close>

section \<open>Tables\<close>

record write_key =
  wk_key :: string
  wk_tenant :: string
  wk_user :: string
  wk_record :: string
  wk_created :: int

record ledger_row =
  le_id :: string
  le_tenant :: string
  le_user :: string
  le_project :: string
  le_kind :: string
  le_locator :: string
  le_quality :: string
  le_hits :: int
  le_last_used :: int
  le_first_seen :: int
  le_last_checked :: int
  le_fingerprint :: string
  le_purpose :: string
  le_session :: string
  le_run :: string
  le_metadata :: pydict

record memory_job =
  mj_id :: string
  mj_type :: string
  mj_payload :: pydict
  mj_status :: string
  mj_attempts :: int
  mj_available :: int
  mj_created :: int
  mj_updated :: int
  mj_error :: string

record audit_row =
  ar_tenant :: string
  ar_user :: string
  ar_action :: string
  ar_record :: "string option"
  ar_detail :: pydict

record memory_db =
  db_memories :: "memory_record list"
  db_keys :: "write_key list"
  db_ledger :: "ledger_row list"
  db_jobs :: "memory_job list"
  db_audit :: "audit_row list"

definition empty_memory_db :: memory_db where
  "empty_memory_db = \<lparr>db_memories = [], db_keys = [], db_ledger = [], db_jobs = [], db_audit = []\<rparr>"

definition audit :: "string \<Rightarrow> string \<Rightarrow> string \<Rightarrow> string option \<Rightarrow> pydict \<Rightarrow> memory_db \<Rightarrow> memory_db" where
  "audit tenant user act rid detail db =
     db\<lparr>db_audit := db_audit db @ [\<lparr>ar_tenant = tenant, ar_user = user, ar_action = act, ar_record = rid, ar_detail = detail\<rparr>]\<rparr>"

definition owned :: "string \<Rightarrow> string \<Rightarrow> memory_record \<Rightarrow> bool" where
  "owned tenant user r = (mr_tenant r = tenant \<and> mr_user r = user)"

section \<open>Rows of memories\<close>

text \<open>The unique index: among the rows not deleted a nonempty key occurs once per tenant, user and type.\<close>

definition same_key :: "memory_record \<Rightarrow> memory_record \<Rightarrow> bool" where
  "same_key r s =
     (\<not> mr_deleted r \<and> \<not> mr_deleted s \<and> mr_dedup r \<noteq> [] \<and> mr_dedup r = mr_dedup s
      \<and> mr_tenant r = mr_tenant s \<and> mr_user r = mr_user s \<and> mr_type r = mr_type s)"

definition default_project :: "string \<Rightarrow> string" where
  "default_project p = non_empty_or p ''default''"

definition insert_record :: "memory_record \<Rightarrow> memory_db \<Rightarrow> memory_db res" where
  "insert_record r db =
     (let row = r\<lparr>mr_deleted := False, mr_project := default_project (mr_project r)\<rparr>
      in if list_ex (\<lambda>s. mr_id s = mr_id row \<or> same_key row s) (db_memories db)
         then Inl (IntegrityError ''UNIQUE constraint failed'')
         else Inr (db\<lparr>db_memories := db_memories db @ [row]\<rparr>))"

text \<open>The columns an \<open>UPDATE\<close> writes; the others keep what the row has.\<close>

definition update_columns :: "memory_record \<Rightarrow> memory_record \<Rightarrow> memory_record" where
  "update_columns r row =
     row\<lparr>mr_fact := mr_fact r, mr_version := mr_version r, mr_confidence := mr_confidence r, mr_updated := mr_updated r,
       mr_task := mr_task r, mr_topic := mr_topic r, mr_session := mr_session r, mr_embedding := mr_embedding r,
       mr_metadata := mr_metadata r, mr_project := default_project (mr_project r), mr_trust := mr_trust r,
       mr_provenance := mr_provenance r, mr_dedup := mr_dedup r, mr_supersedes := mr_supersedes r,
       mr_superseded_by := mr_superseded_by r, mr_deleted := mr_deleted r, mr_as_of := mr_as_of r,
       mr_valid_from := mr_valid_from r, mr_valid_to := mr_valid_to r, mr_last_verified := mr_last_verified r,
       mr_observed := mr_observed r, mr_source_updated := mr_source_updated r, mr_confirmed_by := mr_confirmed_by r,
       mr_confirmations := mr_confirmations r, mr_human_confirmed := mr_human_confirmed r,
       mr_idempotency := mr_idempotency r, mr_entity := mr_entity r, mr_attribute := mr_attribute r,
       mr_value_text := mr_value_text r, mr_valid_time := mr_valid_time r\<rparr>"

definition matches_row :: "memory_record \<Rightarrow> int option \<Rightarrow> memory_record \<Rightarrow> bool" where
  "matches_row r expected row =
     (mr_id row = mr_id r \<and> owned (mr_tenant r) (mr_user r) row \<and> (case expected of None \<Rightarrow> True | Some v \<Rightarrow> mr_version row = v))"

definition update_record :: "memory_record \<Rightarrow> int option \<Rightarrow> memory_db \<Rightarrow> (memory_db \<times> bool) res" where
  "update_record r expected db =
     (let rows = map (\<lambda>row. if matches_row r expected row then update_columns r row else row) (db_memories db)
      in if \<not> list_ex (matches_row r expected) (db_memories db) then Inr (db, False)
         else if list_ex (\<lambda>row. list_ex (\<lambda>s. mr_id s \<noteq> mr_id row \<and> same_key row s) rows)
                   (filter (\<lambda>row. mr_id row = mr_id r) rows)
         then Inl (IntegrityError ''UNIQUE constraint failed'')
         else Inr (db\<lparr>db_memories := rows\<rparr>, True))"

definition load_active :: "string \<Rightarrow> string \<Rightarrow> memory_db \<Rightarrow> memory_record list" where
  "load_active tenant user db =
     sort_key mr_updated (filter (\<lambda>r. owned tenant user r \<and> \<not> mr_deleted r) (db_memories db))"

section \<open>Committing writes\<close>

text \<open>
  A prepared write: the request, its text, the embedding, and what the commit reads for it, the
  identifier of a new record and the clock.
\<close>

record prepared_write =
  pw_write :: write_request
  pw_fact :: string
  pw_embedding :: "pyfloat list"
  pw_new_id :: string
  pw_clock :: "nat \<Rightarrow> int"

definition new_record :: "string \<Rightarrow> string \<Rightarrow> int \<Rightarrow> prepared_write \<Rightarrow> memory_record" where
  "new_record tenant user now p =
     (let w = pw_write p; frame = extract_fact_frame (pw_fact p);
          r = apply_validity_fields
            \<lparr>mr_id = pw_new_id p, mr_tenant = tenant, mr_user = user, mr_type = wq_type w, mr_fact = pw_fact p,
             mr_version = 1, mr_confidence = wq_confidence w, mr_source = wq_source w, mr_task = wq_task w,
             mr_topic = wq_topic w, mr_session = wq_session w, mr_embedding = pw_embedding p, mr_created = now,
             mr_updated = now, mr_deleted = False, mr_metadata = wq_metadata w, mr_project = default_project (wq_project w),
             mr_trust = resolved_trust_tier w, mr_provenance = resolved_provenance w, mr_dedup = wq_dedup w,
             mr_supersedes = [], mr_superseded_by = [], mr_recalls = 0, mr_last_recalled = None, mr_as_of = None,
             mr_valid_from = None, mr_valid_to = None, mr_last_verified = None, mr_observed = None,
             mr_source_updated = None, mr_confirmed_by = [], mr_confirmations = 0, mr_human_confirmed = False,
             mr_idempotency = wq_idempotency w, mr_entity = [], mr_attribute = [], mr_value_text = [],
             mr_valid_time = []\<rparr> w
      in r\<lparr>mr_valid_time := non_empty_or (mr_valid_time r) (ff_valid_time frame),
           mr_entity := non_empty_or (mr_entity r) (ff_entity frame),
           mr_value_text := non_empty_or (mr_value_text r) (ff_value frame),
           mr_as_of := or_instant (mr_as_of r) (Some now),
           mr_observed := or_instant (mr_observed r) (Some now)\<rparr>)"

definition remember_idempotency ::
  "prepared_write \<Rightarrow> memory_record \<Rightarrow> string \<Rightarrow> string \<Rightarrow> memory_db \<Rightarrow> memory_db" where
  "remember_idempotency p r tenant user db =
     (let k = py_strip (non_empty_or (wq_idempotency (pw_write p)) (mr_idempotency r))
      in if k = [] \<or> list_ex (\<lambda>x. wk_key x = k) (db_keys db) then db
         else db\<lparr>db_keys := db_keys db @ [\<lparr>wk_key = k, wk_tenant = tenant, wk_user = user, wk_record = mr_id r,
                wk_created = pw_clock p 2\<rparr>]\<rparr>)"

text \<open>The state of the loop: the database, the list of existing records it changes in place, the count.\<close>

type_synonym commit_state = "memory_db \<times> memory_record list \<times> nat"

definition commit_update ::
  "float_lib \<Rightarrow> string \<Rightarrow> string \<Rightarrow> prepared_write \<Rightarrow> nat \<Rightarrow> commit_state \<Rightarrow> commit_state res" where
  "commit_update lib tenant user p i = (\<lambda>(db, existing, saved).
     ebind (apply_update lib (pw_clock p) (existing ! i) (pw_write p)) (\<lambda>m.
       let merged = (if pw_embedding p \<noteq> [] then m\<lparr>mr_embedding := pw_embedding p\<rparr> else m);
           existing' = existing[i := merged]
       in ebind (update_record merged (Some (mr_version (existing ! i))) db) (\<lambda>(db', ok).
            if \<not> ok
            then Inr (audit tenant user ''noop'' (Some (mr_id merged)) [(''reason'', PStr ''version_conflict'')] db', existing', saved)
            else Inr (audit tenant user ''merge'' (Some (mr_id merged))
                        [(''version'', PInt (mr_version merged)), (''source'', PStr (write_source_value (wq_source (pw_write p))))]
                        (remember_idempotency p merged tenant user db'),
                      existing', Suc saved))))"

definition retired :: "int \<Rightarrow> string \<Rightarrow> memory_record \<Rightarrow> memory_record" where
  "retired now by old = old\<lparr>mr_deleted := True, mr_superseded_by := by, mr_updated := now\<rparr>"

text \<open>What a superseding write does before it inserts its record; the count of updated rows is not looked at.\<close>

definition supersede ::
  "string \<Rightarrow> string \<Rightarrow> int \<Rightarrow> string \<Rightarrow> nat \<Rightarrow> memory_record \<Rightarrow> memory_db \<Rightarrow> memory_record list
    \<Rightarrow> (memory_db \<times> memory_record list \<times> memory_record) res" where
  "supersede tenant user now why i r db existing =
     ebind (update_record (retired now (mr_id r) (existing ! i)) None db) (\<lambda>(db', _).
       Inr (audit tenant user ''supersede'' (Some (mr_id r))
              [(''old_id'', PStr (mr_id (existing ! i))), (''reason'', PStr why)] db',
            existing[i := retired now (mr_id r) (existing ! i)],
            r\<lparr>mr_supersedes := [mr_id (existing ! i)],
              mr_metadata := dput ''supersede_reason'' (PStr why) (mr_metadata r)\<rparr>))"

definition commit_insert ::
  "string \<Rightarrow> string \<Rightarrow> prepared_write \<Rightarrow> bool \<Rightarrow> memory_record \<Rightarrow> commit_state \<Rightarrow> commit_state" where
  "commit_insert tenant user p superseding r = (\<lambda>(db, existing, saved).
     case insert_record r db of
       Inl _ \<Rightarrow> (audit tenant user ''noop'' (Some (mr_id r)) [(''reason'', PStr ''dedup_unique_conflict'')] db, existing, saved)
     | Inr db' \<Rightarrow>
         let db1 = remember_idempotency p r tenant user db'
         in ((if superseding then db1
              else audit tenant user ''remember'' (Some (mr_id r))
                [(''memory_type'', PStr (memory_type_value (mr_type r))),
                 (''source'', PStr (write_source_value (wq_source (pw_write p)))),
                 (''trust_tier'', PStr (trust_tier_value (mr_trust r)))] db1),
             existing @ [r], Suc saved))"

definition seen_key :: "string \<Rightarrow> memory_db \<Rightarrow> write_key option" where
  "seen_key k db = (if k = [] then None else find (\<lambda>x. wk_key x = k) (db_keys db))"

definition commit_decided ::
  "float_lib \<Rightarrow> string \<Rightarrow> string \<Rightarrow> int \<Rightarrow> prepared_write \<Rightarrow> consolidation_decision \<Rightarrow> commit_state \<Rightarrow> commit_state res" where
  "commit_decided lib tenant user now p d = (\<lambda>(db, existing, saved).
     let r = new_record tenant user now p
     in case (cd_action d, cd_target d) of
       (CA_NOOP, t) \<Rightarrow>
         Inr (audit tenant user ''noop'' (map_option (\<lambda>i. mr_id (existing ! i)) t) [(''reason'', PStr (cd_reason d))] db, existing, saved)
     | (CA_UPDATE, Some i) \<Rightarrow> commit_update lib tenant user p i (db, existing, saved)
     | (CA_SUPERSEDE, Some i) \<Rightarrow>
         ebind (supersede tenant user now (cd_reason d) i r db existing) (\<lambda>(db', existing', r').
           Inr (commit_insert tenant user p True r' (db', existing', saved)))
     | (a, _) \<Rightarrow> Inr (commit_insert tenant user p (a = CA_SUPERSEDE) r (db, existing, saved)))"

definition commit_write ::
  "float_lib \<Rightarrow> memory_policy \<Rightarrow> string \<Rightarrow> string \<Rightarrow> int \<Rightarrow> prepared_write \<Rightarrow> commit_state \<Rightarrow> commit_state res" where
  "commit_write lib pol tenant user now p = (\<lambda>(db, existing, saved).
     case seen_key (wq_idempotency (pw_write p)) db of
       Some k \<Rightarrow>
         Inr (audit tenant user ''noop'' (Some (wk_record k)) [(''reason'', PStr ''idempotent_replay'')] db, existing, saved)
     | None \<Rightarrow>
         commit_decided lib tenant user now p (decide_write_action lib pol (pw_write p) (pw_embedding p) existing) (db, existing, saved))"

fun commit_loop ::
  "float_lib \<Rightarrow> memory_policy \<Rightarrow> string \<Rightarrow> string \<Rightarrow> int \<Rightarrow> prepared_write list \<Rightarrow> commit_state \<Rightarrow> commit_state res" where
  "commit_loop lib pol tenant user now [] st = Inr st"
| "commit_loop lib pol tenant user now (p # ps) st =
     ebind (commit_write lib pol tenant user now p st) (commit_loop lib pol tenant user now ps)"

definition commit_writes ::
  "float_lib \<Rightarrow> memory_policy \<Rightarrow> string \<Rightarrow> string \<Rightarrow> int \<Rightarrow> prepared_write list \<Rightarrow> memory_record list \<Rightarrow> memory_db
    \<Rightarrow> (memory_db \<times> nat) res" where
  "commit_writes lib pol tenant user now ps existing db =
     ebind (commit_loop lib pol tenant user now ps (db, existing, 0)) (\<lambda>(db', _, saved). Inr (db', saved))"

text \<open>
  Preparation: the project is filled in, short texts are dropped, personal data is redacted.  The
  patterns of personal data, the embedding service, fresh identifiers and the clock come as \<open>memory_env\<close>.
\<close>

record memory_env =
  me_lib :: float_lib
  me_has_pii :: "string \<Rightarrow> bool"
  me_redact :: "string \<Rightarrow> string"
  me_embed :: "string \<Rightarrow> pyfloat list"
  me_new_id :: "nat \<Rightarrow> string"
  me_clock :: "nat \<Rightarrow> nat \<Rightarrow> int"

definition char_len :: "string \<Rightarrow> int" where
  "char_len s = int (length (code_points s))"

definition prepare_write ::
  "memory_env \<Rightarrow> memory_policy \<Rightarrow> string \<Rightarrow> nat \<Rightarrow> write_request \<Rightarrow> prepared_write option" where
  "prepare_write env pol project i w0 =
     (let w1 = (if project \<noteq> [] \<and> wq_project w0 = [] then w0\<lparr>wq_project := project\<rparr> else w0);
          stripped = py_strip (wq_fact w1);
          redact = mp_pii_redact pol \<and> me_has_pii env stripped;
          final = (if redact then me_redact env stripped else stripped);
          w = (if redact then w1\<lparr>wq_fact := final\<rparr> else w1)
      in if char_len stripped < mp_min_fact_chars pol \<or> char_len final < mp_min_fact_chars pol then None
         else Some \<lparr>pw_write = w, pw_fact = final,
                pw_embedding = (if mp_embedding_enabled pol then me_embed env final else []),
                pw_new_id = me_new_id env i, pw_clock = me_clock env i\<rparr>)"

fun prepare_all :: "memory_env \<Rightarrow> memory_policy \<Rightarrow> string \<Rightarrow> nat \<Rightarrow> write_request list \<Rightarrow> prepared_write list" where
  "prepare_all env pol project i [] = []"
| "prepare_all env pol project i (w # ws) =
     (case prepare_write env pol project i w of None \<Rightarrow> [] | Some p \<Rightarrow> [p]) @ prepare_all env pol project (Suc i) ws"

text \<open>
  A call loads the active memories, prepares its writes while it waits for the embeddings, and commits
  in one transaction.  Between the load and the commit other calls run: \<open>open_write\<close> and
  \<open>commit_pending\<close> are its two steps, \<open>remember_writes\<close> is the call nobody runs in between of.
\<close>

record pending_write =
  pd_lib :: float_lib
  pd_tenant :: string
  pd_user :: string
  pd_existing :: "memory_record list"
  pd_prepared :: "prepared_write list"

definition open_write ::
  "memory_env \<Rightarrow> memory_policy \<Rightarrow> string \<Rightarrow> string \<Rightarrow> string \<Rightarrow> write_request list \<Rightarrow> memory_db \<Rightarrow> pending_write option" where
  "open_write env pol tenant user project ws db =
     (if ws = [] then None
      else Some \<lparr>pd_lib = me_lib env, pd_tenant = tenant, pd_user = user, pd_existing = load_active tenant user db,
             pd_prepared = prepare_all env pol project 0 (slice_to (mp_max_facts pol) ws)\<rparr>)"

definition commit_pending :: "memory_policy \<Rightarrow> int \<Rightarrow> pending_write \<Rightarrow> memory_db \<Rightarrow> (memory_db \<times> nat) res" where
  "commit_pending pol now c db =
     commit_writes (pd_lib c) pol (pd_tenant c) (pd_user c) now (pd_prepared c) (pd_existing c) db"

definition remember_writes ::
  "memory_env \<Rightarrow> memory_policy \<Rightarrow> string \<Rightarrow> string \<Rightarrow> string \<Rightarrow> int \<Rightarrow> write_request list \<Rightarrow> memory_db
    \<Rightarrow> (memory_db \<times> nat) res" where
  "remember_writes env pol tenant user project now ws db =
     (case open_write env pol tenant user project ws db of
        None \<Rightarrow> Inr (db, 0)
      | Some c \<Rightarrow> commit_pending pol now c db)"

lemma remember_writes_unfold:
  "remember_writes env pol tenant user project now ws db =
     (if ws = [] then Inr (db, 0)
      else commit_writes (me_lib env) pol tenant user now
             (prepare_all env pol project 0 (slice_to (mp_max_facts pol) ws)) (load_active tenant user db) db)"
  by (simp add: remember_writes_def open_write_def commit_pending_def)

end
