(* ===== verification/MemoryOps.thy ===== *)
theory MemoryOps
  imports MemoryStore
begin

text \<open>
  The other operations of the memory database (\<open>app/agent/memory/backend/sqlite_backend.py\<close>): listing,
  deletion, recall marks, the ledger of sources, consolidation and the job table.
\<close>

section \<open>Listing and deletion\<close>

definition list_records ::
  "memory_policy \<Rightarrow> int \<Rightarrow> string \<Rightarrow> string \<Rightarrow> bool \<Rightarrow> string \<Rightarrow> memory_db \<Rightarrow> memory_record list" where
  "list_records pol now tenant user include_deleted project db =
     (let rows = sort_key (\<lambda>r. - mr_updated r)
            (filter (\<lambda>r. owned tenant user r \<and> (include_deleted \<or> \<not> mr_deleted r)) (db_memories db));
          ordered = (if project \<noteq> [] \<and> project \<noteq> ''default''
                     then filter (\<lambda>r. mr_project r = project) rows @ filter (\<lambda>r. mr_project r \<noteq> project) rows else rows)
      in filter (\<lambda>r. include_deleted \<or> \<not> record_is_expired now pol r) ordered)"

definition forget :: "int \<Rightarrow> memory_record \<Rightarrow> memory_record" where
  "forget now r = r\<lparr>mr_deleted := True, mr_updated := now\<rparr>"

text \<open>Mark the rows that satisfy a condition as deleted, with the count of them.\<close>

definition forget_where :: "int \<Rightarrow> (memory_record \<Rightarrow> bool) \<Rightarrow> memory_db \<Rightarrow> memory_db \<times> nat" where
  "forget_where now p db =
     (db\<lparr>db_memories := map (\<lambda>r. if p r then forget now r else r) (db_memories db)\<rparr>,
      length (filter p (db_memories db)))"

text \<open>The audit entry of a deletion is written after the commit and is not committed itself: it is lost.\<close>

definition delete_record :: "int \<Rightarrow> string \<Rightarrow> string \<Rightarrow> string \<Rightarrow> memory_db \<Rightarrow> memory_db \<times> bool" where
  "delete_record now rid tenant user db =
     (case forget_where now (\<lambda>r. mr_id r = rid \<and> owned tenant user r \<and> \<not> mr_deleted r) db of
        (db', n) \<Rightarrow> (db', 0 < n))"

definition delete_all :: "int \<Rightarrow> string \<Rightarrow> string \<Rightarrow> memory_db \<Rightarrow> memory_db \<times> nat" where
  "delete_all now tenant user db =
     (case forget_where now (\<lambda>r. owned tenant user r \<and> \<not> mr_deleted r) db of
        (db', n) \<Rightarrow> ((if n \<noteq> 0 then audit tenant user ''delete_all'' None [(''count'', PInt (int n))] db' else db'), n))"

definition delete_records_for_run :: "int \<Rightarrow> string \<Rightarrow> string \<Rightarrow> string \<Rightarrow> memory_db \<Rightarrow> memory_db \<times> nat" where
  "delete_records_for_run now tenant user run db =
     (let ids = map mr_id (filter (\<lambda>r. owned tenant user r \<and> \<not> mr_deleted r \<and> pv_run_id (mr_provenance r) = run) (db_memories db))
      in if ids = [] then (db, 0)
         else forget_where now (\<lambda>r. owned tenant user r \<and> mr_id r \<in> set ids) db)"

definition delete_records_for_session :: "int \<Rightarrow> string \<Rightarrow> string \<Rightarrow> string \<Rightarrow> memory_db \<Rightarrow> memory_db \<times> nat" where
  "delete_records_for_session now tenant user session db =
     forget_where now (\<lambda>r. owned tenant user r \<and> mr_session r = session \<and> \<not> mr_deleted r) db"

section \<open>Recall marks\<close>

definition seen_metadata :: "string \<Rightarrow> pydict \<Rightarrow> pydict res" where
  "seen_metadata session meta =
     ebind (iter_or_empty (pget meta ''seen_sessions'')) (\<lambda>sessions.
       Inr (if session \<noteq> [] \<and> \<not> py_in (PStr session) sessions
            then dput ''seen_sessions'' (PList (last_n 20 (sessions @ [PStr session]))) meta else meta))"

definition mark_row :: "int \<Rightarrow> string \<Rightarrow> memory_record \<Rightarrow> memory_record res" where
  "mark_row now session r =
     ebind (seen_metadata session (mr_metadata r)) (\<lambda>meta.
       Inr (r\<lparr>mr_recalls := mr_recalls r + 1, mr_last_recalled := Some now, mr_metadata := meta\<rparr>))"

fun mark_ids :: "int \<Rightarrow> string \<Rightarrow> string \<Rightarrow> string \<Rightarrow> string list \<Rightarrow> memory_record list \<Rightarrow> memory_record list res" where
  "mark_ids now tenant user session [] rows = Inr rows"
| "mark_ids now tenant user session (i # ids) rows =
     ebind (emap (\<lambda>r. if mr_id r = i \<and> owned tenant user r then mark_row now session r else Inr r) rows)
       (mark_ids now tenant user session ids)"

definition mark_recalled :: "int \<Rightarrow> string list \<Rightarrow> string \<Rightarrow> string \<Rightarrow> string \<Rightarrow> memory_db \<Rightarrow> memory_db res" where
  "mark_recalled now ids tenant user session db =
     ebind (mark_ids now tenant user session ids (db_memories db)) (\<lambda>rows. Inr (db\<lparr>db_memories := rows\<rparr>))"

section \<open>The ledger of sources\<close>

definition refresh_source :: "int \<Rightarrow> ledger_row \<Rightarrow> ledger_row \<Rightarrow> ledger_row" where
  "refresh_source now e row =
     row\<lparr>le_hits := le_hits row + 1, le_last_used := now, le_last_checked := now,
       le_quality := (if le_quality e \<noteq> ''unknown'' then le_quality e else le_quality row),
       le_session := le_session e, le_run := le_run e, le_metadata := le_metadata e,
       le_fingerprint := non_empty_or (le_fingerprint e) (le_fingerprint row),
       le_purpose := non_empty_or (le_purpose e) (le_purpose row)\<rparr>"

definition new_source :: "int \<Rightarrow> ledger_row \<Rightarrow> ledger_row" where
  "new_source now e = e\<lparr>le_hits := 1, le_last_used := now, le_first_seen := now, le_last_checked := now\<rparr>"

fun upsert_sources :: "int \<Rightarrow> ledger_row list \<Rightarrow> ledger_row list \<Rightarrow> ledger_row list \<times> nat" where
  "upsert_sources now [] rows = (rows, 0)"
| "upsert_sources now (e # es) rows =
     (if le_id e = [] \<or> le_locator e = [] then upsert_sources now es rows
      else let rows' = (if list_ex (\<lambda>row. le_id row = le_id e) rows
                        then map (\<lambda>row. if le_id row = le_id e then refresh_source now e row else row) rows
                        else rows @ [new_source now e])
           in case upsert_sources now es rows' of (rows'', n) \<Rightarrow> (rows'', Suc n))"

definition upsert_source_ledger :: "int \<Rightarrow> ledger_row list \<Rightarrow> memory_db \<Rightarrow> memory_db \<times> nat" where
  "upsert_source_ledger now es db =
     (case upsert_sources now es (db_ledger db) of (rows, n) \<Rightarrow> (db\<lparr>db_ledger := rows\<rparr>, n))"

definition list_source_ledger :: "string \<Rightarrow> string \<Rightarrow> string \<Rightarrow> int \<Rightarrow> memory_db \<Rightarrow> ledger_row list" where
  "list_source_ledger tenant user project limit db =
     (let rows = sort_key (\<lambda>e. - le_last_used e)
            (filter (\<lambda>e. le_tenant e = tenant \<and> le_user e = user \<and> le_project e = project) (db_ledger db))
      in if limit < 0 then rows else take (nat limit) rows)"

definition delete_source_ledger :: "string \<Rightarrow> string \<Rightarrow> string \<Rightarrow> string \<Rightarrow> memory_db \<Rightarrow> memory_db \<times> nat" where
  "delete_source_ledger tenant user run session db =
     (if run = [] \<and> session = [] then (db, 0)
      else let gone = (\<lambda>e. le_tenant e = tenant \<and> le_user e = user
                  \<and> (if run \<noteq> [] then le_run e = run else le_session e = session))
           in (db\<lparr>db_ledger := filter (\<lambda>e. \<not> gone e) (db_ledger db)\<rparr>, length (filter gone (db_ledger db))))"

section \<open>Consolidation\<close>

record consolidation_report =
  cr_decayed :: nat
  cr_promoted :: nat
  cr_purged :: nat
  cr_examined :: nat

definition consolidation_report_to_dict :: "consolidation_report \<Rightarrow> pydict" where
  "consolidation_report_to_dict r =
     [(''decayed'', PInt (int (cr_decayed r))), (''promoted'', PInt (int (cr_promoted r))),
      (''purged'', PInt (int (cr_purged r))), (''examined'', PInt (int (cr_examined r)))]"

definition decays :: "float_lib \<Rightarrow> memory_policy \<Rightarrow> int \<Rightarrow> memory_record \<Rightarrow> bool" where
  "decays lib pol now r =
     (fl (1 / 100) < \<bar>fl (decay_confidence lib now (mp_half_life pol) (mp_min_confidence pol) r - mr_confidence r)\<bar>)"

text \<open>A record of the report and what is left of a row that is not purged.\<close>

definition consolidate_row :: "float_lib \<Rightarrow> memory_policy \<Rightarrow> int \<Rightarrow> memory_record \<Rightarrow> memory_record" where
  "consolidate_row lib pol now r =
     (let r1 = (if decays lib pol now r
                then r\<lparr>mr_confidence := decay_confidence lib now (mp_half_life pol) (mp_min_confidence pol) r\<rparr> else r);
          promote = should_promote (mp_promote_min_sessions pol) (Some (mp_promote_min_confirmations pol)) r1;
          r2 = (if promote then r1\<lparr>mr_trust := TRUSTED, mr_metadata := dput ''promoted'' (PBool True) (mr_metadata r1)\<rparr> else r1)
      in if decays lib pol now r \<or> promote then r2\<lparr>mr_updated := now\<rparr> else r2)"

definition consolidate_one ::
  "float_lib \<Rightarrow> memory_policy \<Rightarrow> int \<Rightarrow> memory_record \<Rightarrow> memory_db \<times> consolidation_report
    \<Rightarrow> (memory_db \<times> consolidation_report) res" where
  "consolidate_one lib pol now r = (\<lambda>(db, rep0).
     let rep = rep0\<lparr>cr_examined := cr_examined rep0 + 1\<rparr>
     in if should_purge now (mp_purge_after_days pol) r
        then Inr (db\<lparr>db_memories := filter (\<lambda>s. \<not> (mr_id s = mr_id r \<and> owned (mr_tenant r) (mr_user r) s)) (db_memories db)\<rparr>,
                  rep\<lparr>cr_purged := cr_purged rep + 1\<rparr>)
        else if mr_deleted r then Inr (db, rep)
        else let promote = should_promote (mp_promote_min_sessions pol) (Some (mp_promote_min_confirmations pol)) r;
                 rep' = rep\<lparr>cr_decayed := cr_decayed rep + (if decays lib pol now r then 1 else 0),
                            cr_promoted := cr_promoted rep + (if promote then 1 else 0)\<rparr>
             in if decays lib pol now r \<or> promote
                then ebind (update_record (consolidate_row lib pol now r) None db) (\<lambda>(db', _). Inr (db', rep'))
                else Inr (db, rep'))"

fun consolidate_rows ::
  "float_lib \<Rightarrow> memory_policy \<Rightarrow> int \<Rightarrow> memory_record list \<Rightarrow> memory_db \<times> consolidation_report
    \<Rightarrow> (memory_db \<times> consolidation_report) res" where
  "consolidate_rows lib pol now [] st = Inr st"
| "consolidate_rows lib pol now (r # rs) st =
     ebind (consolidate_one lib pol now r st) (consolidate_rows lib pol now rs)"

definition consolidate ::
  "float_lib \<Rightarrow> memory_policy \<Rightarrow> int \<Rightarrow> string \<Rightarrow> string \<Rightarrow> memory_db \<Rightarrow> (memory_db \<times> consolidation_report) res" where
  "consolidate lib pol now tenant user db =
     ebind (consolidate_rows lib pol now (filter (owned tenant user) (db_memories db))
              (db, \<lparr>cr_decayed = 0, cr_promoted = 0, cr_purged = 0, cr_examined = 0\<rparr>)) (\<lambda>(db', rep).
       Inr (audit tenant user ''consolidate'' None (consolidation_report_to_dict rep) db', rep))"

section \<open>Jobs\<close>

definition consolidation_job :: "string \<Rightarrow> int \<Rightarrow> string \<Rightarrow> string \<Rightarrow> string \<Rightarrow> memory_job" where
  "consolidation_job i now tenant user project =
     \<lparr>mj_id = i, mj_type = ''consolidate'',
      mj_payload = [(''tenant_id'', PStr tenant), (''user_id'', PStr user), (''project_id'', PStr project)],
      mj_status = ''pending'', mj_attempts = 0, mj_available = now, mj_created = now, mj_updated = now, mj_error = []\<rparr>"

definition enqueue_job :: "memory_job \<Rightarrow> memory_db \<Rightarrow> memory_db res" where
  "enqueue_job j db =
     (if list_ex (\<lambda>x. mj_id x = mj_id j) (db_jobs db) then Inl (IntegrityError ''UNIQUE constraint failed'')
      else Inr (db\<lparr>db_jobs := db_jobs db @ [j]\<rparr>))"

definition claimable :: "int \<Rightarrow> memory_job \<Rightarrow> bool" where
  "claimable now j = (mj_status j = ''pending'' \<and> mj_available j \<le> now)"

definition start_job :: "int \<Rightarrow> memory_job \<Rightarrow> memory_job" where
  "start_job now j = j\<lparr>mj_status := ''running'', mj_attempts := mj_attempts j + 1, mj_updated := now\<rparr>"

text \<open>The oldest pending jobs; one transaction, so every selected row is still pending when it is updated.\<close>

definition claim_jobs :: "int \<Rightarrow> int \<Rightarrow> memory_db \<Rightarrow> memory_db \<times> memory_job list" where
  "claim_jobs now limit db =
     (let due = sort_key mj_created (filter (claimable now) (db_jobs db));
          chosen = (if limit < 0 then due else take (nat limit) due);
          ids = map mj_id chosen
      in (db\<lparr>db_jobs := map (\<lambda>j. if mj_id j \<in> set ids \<and> mj_status j = ''pending'' then start_job now j else j) (db_jobs db)\<rparr>,
          map (\<lambda>j. j\<lparr>mj_status := ''running'', mj_attempts := mj_attempts j + 1\<rparr>) chosen))"

definition finish_job :: "int \<Rightarrow> string \<Rightarrow> bool \<Rightarrow> string \<Rightarrow> memory_db \<Rightarrow> memory_db" where
  "finish_job now i ok err db =
     db\<lparr>db_jobs := map (\<lambda>j. if mj_id j = i
          then j\<lparr>mj_status := (if ok then ''done'' else ''failed''), mj_error := take_chars 500 err, mj_updated := now\<rparr> else j)
        (db_jobs db)\<rparr>"

fun error_text :: "py_error \<Rightarrow> string" where
  "error_text (ValueError m) = m"
| "error_text (TypeError m) = m"
| "error_text (AttributeError m) = m"
| "error_text (KeyError m) = repr_str m"
| "error_text (IndexError m) = m"
| "error_text AssertionError = []"
| "error_text (IntegrityError m) = m"
| "error_text (InvalidTransition m) = m"
| "error_text (InvalidUpdate m) = m"

definition payload_str :: "pydict \<Rightarrow> string \<Rightarrow> string" where
  "payload_str d k = str_or (pget d k) []"

definition run_job :: "float_lib \<Rightarrow> memory_policy \<Rightarrow> int \<Rightarrow> memory_job \<Rightarrow> memory_db \<Rightarrow> memory_db \<times> bool" where
  "run_job lib pol now j db =
     (case (if mj_type j = ''consolidate''
            then ebind (consolidate lib pol now (payload_str (mj_payload j) ''tenant_id'') (payload_str (mj_payload j) ''user_id'') db)
                   (\<lambda>(db', _). Inr db')
            else Inr db) of
        Inr db' \<Rightarrow> (finish_job now (mj_id j) True [] db', True)
      | Inl e \<Rightarrow> (finish_job now (mj_id j) False (error_text e) db, False))"

fun run_jobs :: "float_lib \<Rightarrow> memory_policy \<Rightarrow> int \<Rightarrow> memory_job list \<Rightarrow> memory_db \<Rightarrow> memory_db \<times> nat \<times> nat" where
  "run_jobs lib pol now [] db = (db, 0, 0)"
| "run_jobs lib pol now (j # js) db =
     (case run_job lib pol now j db of (db', ok) \<Rightarrow>
        case run_jobs lib pol now js db' of (db'', succeeded, failed) \<Rightarrow>
          (db'', if ok then succeeded + 1 else succeeded, if ok then failed else failed + 1))"

definition drain_jobs :: "float_lib \<Rightarrow> memory_policy \<Rightarrow> int \<Rightarrow> int \<Rightarrow> memory_db \<Rightarrow> memory_db \<times> nat \<times> nat \<times> nat" where
  "drain_jobs lib pol now limit db =
     (case claim_jobs now limit db of (db', js) \<Rightarrow>
        case run_jobs lib pol now js db' of (db'', succeeded, failed) \<Rightarrow> (db'', length js, succeeded, failed))"

end
