(* ===== verification/MemoryRecall.thy ===== *)
theory MemoryRecall
  imports MemoryOps
begin

text \<open>
  Recall (\<open>app/agent/memory/recall/hybrid.py\<close>), the identity a request acts under
  (\<open>identity.py\<close>) and the store in front of the database (\<open>store.py\<close>).  The external memory service
  that may replace the database is left out.
\<close>

section \<open>Hybrid recall\<close>

definition recency_boost :: "float_lib \<Rightarrow> int \<Rightarrow> memory_record \<Rightarrow> pyfloat" where
  "recency_boost lib now r = fl (1 / fl (1 + lib_log1p lib (age_days now r)))"

definition preference_words :: "string list" where
  "preference_words = [utf8 [229, 129, 143, 229, 165, 189], utf8 [229, 150, 156, 230, 172, 162],
     utf8 [228, 185, 160, 230, 131, 175], ''prefer'', utf8 [228, 186, 164, 228, 187, 152]]"

definition procedure_words :: "string list" where
  "procedure_words = [utf8 [230, 181, 129, 231, 168, 139], utf8 [230, 173, 165, 233, 170, 164],
     utf8 [230, 128, 142, 228, 185, 136], ''how to'', utf8 [230, 148, 185, 232, 191, 135], utf8 [230, 139, 146, 231, 187, 157]]"

definition type_boost :: "memory_type \<Rightarrow> string \<Rightarrow> pyfloat" where
  "type_boost mt query =
     (if mt = MT_PREFERENCE \<and> list_ex (\<lambda>k. is_infix k (py_lower query)) preference_words then fl (15 / 100)
      else if mt = MT_PROCEDURAL \<and> list_ex (\<lambda>k. is_infix k (py_lower query)) procedure_words then fl (1 / 10)
      else 0)"

definition project_boost :: "memory_policy \<Rightarrow> string \<Rightarrow> memory_record \<Rightarrow> pyfloat" where
  "project_boost pol project r =
     (if \<not> mp_project_scope pol then 0
      else if project = [] \<or> project = ''default'' then 0
      else if mr_project r = project then fl (12 / 100) else 0)"

fun trust_weight :: "trust_tier \<Rightarrow> pyfloat" where
  "trust_weight UNTRUSTED = fl (6 / 10)"
| "trust_weight DERIVED = fl (9 / 10)"
| "trust_weight TRUSTED = 1"

definition recall_active :: "memory_policy \<Rightarrow> int \<Rightarrow> memory_type list \<Rightarrow> memory_record \<Rightarrow> bool" where
  "recall_active pol now mts r =
     (\<not> mr_deleted r \<and> mr_superseded_by r = [] \<and> \<not> record_is_expired now pol r
      \<and> mr_type r \<in> set (if mts = [] then recallable_types else mts))"

definition recall_admits :: "memory_policy \<Rightarrow> string \<Rightarrow> memory_record \<Rightarrow> bool" where
  "recall_admits pol target r =
     is_recall_eligible (mr_trust r) (mp_min_recall_trust pol) target synthesis_step_types (mp_synthesis_min_trust pol)"

definition recall_rank ::
  "float_lib \<Rightarrow> memory_policy \<Rightarrow> int \<Rightarrow> string \<Rightarrow> string \<Rightarrow> pyfloat list \<Rightarrow> memory_record \<Rightarrow> pyfloat" where
  "recall_rank lib pol now query project qemb r =
     (let kw_weight = (if qemb \<noteq> [] then mp_keyword_weight pol else 1);
          emb_weight = (if qemb \<noteq> [] then mp_embedding_weight pol else 0);
          emb = (if qemb \<noteq> [] \<and> mr_embedding r \<noteq> [] then cosine_similarity lib qemb (mr_embedding r) else 0);
          base = fl (fl (kw_weight * keyword_overlap query (mr_fact r)) + fl (emb_weight * emb));
          boosted = fl (fl (fl (base + fl (fl (1 / 10) * recency_boost lib now r)) + type_boost (mr_type r) query)
                        + project_boost pol project r)
      in fl (fl (boosted * fl (1 / 2 + fl (1 / 2 * min 1 (mr_confidence r)))) * trust_weight (mr_trust r)))"

text \<open>\<open>xs[-n:]\<close>.\<close>

definition slice_last :: "int \<Rightarrow> 'a list \<Rightarrow> 'a list" where
  "slice_last n xs = (if 0 < n then last_n (nat n) xs else drop (nat (- n)) xs)"

record recall_result =
  rc_records :: "(memory_record \<times> pyfloat) list"
  rc_mean :: pyfloat
  rc_keyword_hits :: nat
  rc_embedding_used :: bool
  rc_candidates :: nat
  rc_trust_filtered :: nat
  rc_by_trust :: "int dict"
  rc_by_type :: "int dict"

text \<open>\<open>dict(Counter(xs))\<close>.\<close>

definition count_labels :: "string list \<Rightarrow> int dict" where
  "count_labels xs = fold (\<lambda>k d. dput k (dval id (dget d k) + 1) d) xs []"

definition no_recall :: "nat \<Rightarrow> nat \<Rightarrow> recall_result" where
  "no_recall candidates filtered =
     \<lparr>rc_records = [], rc_mean = 0, rc_keyword_hits = 0, rc_embedding_used = False, rc_candidates = candidates,
      rc_trust_filtered = filtered, rc_by_trust = [], rc_by_type = []\<rparr>"

definition recall_selection ::
  "float_lib \<Rightarrow> memory_policy \<Rightarrow> int \<Rightarrow> string \<Rightarrow> string \<Rightarrow> pyfloat list \<Rightarrow> int \<Rightarrow> memory_record list
    \<Rightarrow> (memory_record \<times> pyfloat) list" where
  "recall_selection lib pol now query project qemb top_k eligible =
     (let score = recall_rank lib pol now query project qemb;
          scored = sort_key (\<lambda>r. - score r) eligible
      in if scored \<noteq> [] \<and> score (hd scored) \<le> 0 \<and> qemb = []
         then map (\<lambda>r. (r, fl (1 / 100))) (slice_last top_k (slice_last top_k (sort_key mr_updated eligible)))
         else map (\<lambda>r. (r, round4 (score r))) (slice_to top_k scored))"

text \<open>The embedding of the query is empty when the service is off or failed.\<close>

definition hybrid_recall ::
  "memory_env \<Rightarrow> memory_policy \<Rightarrow> int \<Rightarrow> string \<Rightarrow> memory_record list \<Rightarrow> int \<Rightarrow> memory_type list \<Rightarrow> string \<Rightarrow> string
    \<Rightarrow> recall_result" where
  "hybrid_recall env pol now query records top_k mts project target =
     (let active = filter (recall_active pol now mts) records;
          eligible = filter (recall_admits pol target) active;
          qemb = (if mp_embedding_enabled pol then me_embed env query else []);
          selected = recall_selection (me_lib env) pol now query project qemb top_k eligible
      in if eligible = []
         then no_recall (length active) (length active - length eligible)
         else \<lparr>rc_records = selected,
               rc_mean = (if selected = [] then 0
                          else round4 (fl (lib_sum (me_lib env) (map snd selected) / of_nat (length selected)))),
               rc_keyword_hits = length (filter (\<lambda>r. 0 < keyword_overlap query (mr_fact r)) eligible),
               rc_embedding_used = (qemb \<noteq> []),
               rc_candidates = length active, rc_trust_filtered = length active - length eligible,
               rc_by_trust = count_labels (map (\<lambda>(r, _). trust_tier_value (mr_trust r)) selected),
               rc_by_type = count_labels (map (\<lambda>(r, _). memory_type_value (mr_type r)) selected)\<rparr>)"

definition backend_recall ::
  "memory_env \<Rightarrow> memory_policy \<Rightarrow> int \<Rightarrow> string \<Rightarrow> string \<Rightarrow> string \<Rightarrow> int \<Rightarrow> string \<Rightarrow> memory_type list \<Rightarrow> string
    \<Rightarrow> memory_db \<Rightarrow> recall_result" where
  "backend_recall env pol now query tenant user top_k project mts target db =
     hybrid_recall env pol now query (load_active tenant user db) top_k mts project target"

section \<open>Identities\<close>

record memory_identity =
  mi_tenant :: string
  mi_user :: string
  mi_project :: string
  mi_session :: string
  mi_ephemeral :: bool

definition is_identified :: "memory_identity \<Rightarrow> bool" where
  "is_identified i = (mi_user i \<noteq> [] \<and> \<not> mi_ephemeral i)"

text \<open>Explicit arguments before the bound identity, before the environment, before the session.\<close>

definition resolve_memory_identity ::
  "memory_identity option \<Rightarrow> (string \<Rightarrow> string) \<Rightarrow> string \<Rightarrow> string \<Rightarrow> string \<Rightarrow> string \<Rightarrow> memory_identity" where
  "resolve_memory_identity bound getenv session user tenant project =
     (let var = (\<lambda>n. py_strip (getenv n));
          tid = non_empty_or (py_strip tenant) (non_empty_or (case bound of Some b \<Rightarrow> mi_tenant b | None \<Rightarrow> [])
                  (non_empty_or (var ''HARNESS_MEMORY_TENANT_ID'') ''default''));
          pid = non_empty_or (py_strip project) (non_empty_or (case bound of Some b \<Rightarrow> mi_project b | None \<Rightarrow> [])
                  (non_empty_or (var ''HARNESS_MEMORY_PROJECT_ID'') ''default''));
          uid = non_empty_or (py_strip user) (non_empty_or
                  (case bound of Some b \<Rightarrow> if is_identified b then mi_user b else [] | None \<Rightarrow> [])
                  (var ''HARNESS_MEMORY_USER_ID''))
      in \<lparr>mi_tenant = tid, mi_user = (if uid = [] then non_empty_or (py_strip session) ''anonymous'' else uid),
          mi_project = pid, mi_session = py_strip session, mi_ephemeral = (uid = [])\<rparr>)"

definition identity_allows_write :: "memory_identity \<Rightarrow> memory_policy \<Rightarrow> bool" where
  "identity_allows_write i pol =
     (if \<not> mp_enabled pol then False else \<not> (mi_ephemeral i \<and> mp_require_identity pol))"

section \<open>The store\<close>

definition store_recall ::
  "memory_env \<Rightarrow> memory_policy \<Rightarrow> int \<Rightarrow> memory_identity \<Rightarrow> string \<Rightarrow> int \<Rightarrow> memory_type list \<Rightarrow> string \<Rightarrow> memory_db
    \<Rightarrow> (memory_db \<times> recall_result) res" where
  "store_recall env pol now i query top_k mts target db =
     (if \<not> mp_enabled pol
      then Inr (db, no_recall 0 0)
      else let result = backend_recall env pol now query (mi_tenant i) (mi_user i)
                 (int_or_default top_k (mp_recall_top_k pol)) (mi_project i) mts target db
           in if rc_records result = [] then Inr (db, result)
              else ebind (mark_recalled now (map (\<lambda>(r, _). mr_id r) (rc_records result)) (mi_tenant i) (mi_user i) (mi_session i) db)
                     (\<lambda>db'. Inr (db', result)))"

definition fill_write :: "memory_identity \<Rightarrow> write_request \<Rightarrow> write_request" where
  "fill_write i w = w\<lparr>wq_project := non_empty_or (wq_project w) (mi_project i), wq_session := non_empty_or (wq_session w) (mi_session i)\<rparr>"

definition store_remember ::
  "memory_env \<Rightarrow> memory_policy \<Rightarrow> int \<Rightarrow> memory_identity \<Rightarrow> write_request list \<Rightarrow> memory_db \<Rightarrow> (memory_db \<times> nat) res" where
  "store_remember env pol now i ws db =
     (if \<not> mp_enabled pol \<or> ws = [] then Inr (db, 0)
      else if \<not> identity_allows_write i pol then Inr (db, 0)
      else let kept = fst (filter_longterm_writes ws pol)
           in if kept = [] then Inr (db, 0)
              else remember_writes env pol (mi_tenant i) (mi_user i) (mi_project i) now (map (fill_write i) kept) db)"

definition forget_run :: "int \<Rightarrow> memory_identity \<Rightarrow> string \<Rightarrow> memory_db \<Rightarrow> memory_db \<times> nat" where
  "forget_run now i run db =
     (case delete_records_for_run now (mi_tenant i) (mi_user i) run db of
        (db', n) \<Rightarrow> case delete_source_ledger (mi_tenant i) (mi_user i) run [] db' of (db'', m) \<Rightarrow> (db'', n + m))"

definition forget_session :: "int \<Rightarrow> memory_identity \<Rightarrow> string \<Rightarrow> memory_db \<Rightarrow> memory_db \<times> nat" where
  "forget_session now i session db =
     (case delete_records_for_session now (mi_tenant i) (mi_user i) session db of
        (db', n) \<Rightarrow> case delete_source_ledger (mi_tenant i) (mi_user i) [] session db' of (db'', m) \<Rightarrow> (db'', n + m))"

text \<open>Keys of sources; the normal form of a URL is an argument.\<close>

definition source_dedup_key :: "(string \<Rightarrow> string) \<Rightarrow> string \<Rightarrow> string \<Rightarrow> string" where
  "source_dedup_key norm_url locator kind =
     (let normal = (if kind = ''url'' then norm_url locator else py_strip locator)
      in if normal = [] then [] else ''src_'' @ take 20 (sha1_hex (kind @ '':'' @ normal)))"

definition source_ledger_id :: "(string \<Rightarrow> string) \<Rightarrow> string \<Rightarrow> string \<Rightarrow> string \<Rightarrow> string \<Rightarrow> string \<Rightarrow> string" where
  "source_ledger_id norm_url tenant user project locator kind =
     (let k = source_dedup_key norm_url locator kind
      in if k = [] then [] else ''led_'' @ take 20 (sha1_hex (tenant @ '':'' @ user @ '':'' @ project @ '':'' @ k)))"

definition ledger_entry ::
  "(string \<Rightarrow> string) \<Rightarrow> memory_identity \<Rightarrow> string \<Rightarrow> string \<Rightarrow> string \<Rightarrow> string \<Rightarrow> pydict \<Rightarrow> string \<Rightarrow> ledger_row" where
  "ledger_entry norm_url i kind quality session run meta locator =
     \<lparr>le_id = source_ledger_id norm_url (mi_tenant i) (mi_user i) (mi_project i) locator kind,
      le_tenant = mi_tenant i, le_user = mi_user i, le_project = mi_project i, le_kind = kind, le_locator = locator,
      le_quality = quality, le_hits = 1, le_last_used = 0, le_first_seen = 0, le_last_checked = 0,
      le_fingerprint = str_or (pget meta ''content_fingerprint'') [], le_purpose = str_or (pget meta ''query_purpose'') [],
      le_session = non_empty_or session (mi_session i), le_run = run, le_metadata = meta\<rparr>"

fun new_locators :: "(string \<Rightarrow> string) \<Rightarrow> string \<Rightarrow> string list \<Rightarrow> string list \<Rightarrow> string list" where
  "new_locators norm_url kind seen [] = []"
| "new_locators norm_url kind seen (l # ls) =
     (let k = source_dedup_key norm_url l kind
      in if k = [] \<or> k \<in> set seen then new_locators norm_url kind seen ls
         else l # new_locators norm_url kind (k # seen) ls)"

definition record_sources ::
  "(string \<Rightarrow> string) \<Rightarrow> memory_policy \<Rightarrow> int \<Rightarrow> memory_identity \<Rightarrow> string \<Rightarrow> string \<Rightarrow> string \<Rightarrow> string \<Rightarrow> pydict
    \<Rightarrow> string list \<Rightarrow> memory_db \<Rightarrow> memory_db \<times> nat" where
  "record_sources norm_url pol now i kind quality session run meta locators db =
     (if \<not> mp_ledger_enabled pol \<or> locators = [] then (db, 0)
      else upsert_source_ledger now (map (ledger_entry norm_url i kind quality session run meta) (new_locators norm_url kind [] locators)) db)"

definition list_sources :: "memory_policy \<Rightarrow> memory_identity \<Rightarrow> int \<Rightarrow> memory_db \<Rightarrow> ledger_row list" where
  "list_sources pol i limit db =
     (if \<not> mp_ledger_enabled pol then []
      else list_source_ledger (mi_tenant i) (mi_user i) (mi_project i) (int_or_default limit (mp_ledger_max_inject pol)) db)"

text \<open>A confirmation is a write of the same fact whose provenance names the confirming source.\<close>

definition confirmation_write :: "int \<Rightarrow> string \<Rightarrow> bool \<Rightarrow> memory_record \<Rightarrow> write_request" where
  "confirmation_write now source human r =
     (let p = mr_provenance r
      in \<lparr>wq_fact = mr_fact r, wq_type = mr_type r, wq_confidence = mr_confidence r, wq_source = WS_CONFIRMATION,
          wq_task = [], wq_topic = [], wq_session = [], wq_metadata = [], wq_project = mr_project r,
          wq_trust = Some (mr_trust r),
          wq_provenance = Some (p\<lparr>pv_source_kind := non_empty_or (pv_source_kind p) ''confirm'',
            pv_evidence_ids := (if source \<noteq> [] \<and> source \<notin> set (pv_evidence_ids p) then pv_evidence_ids p @ [source] else pv_evidence_ids p)\<rparr>),
          wq_dedup = [], wq_as_of = None, wq_valid_from = None, wq_valid_to = None, wq_valid_time = [],
          wq_last_verified = Some now, wq_observed = None, wq_source_updated = None, wq_idempotency = [],
          wq_entity = [], wq_attribute = [], wq_value_text = [], wq_human_confirmed = human\<rparr>)"

definition confirm_record ::
  "memory_env \<Rightarrow> memory_policy \<Rightarrow> int \<Rightarrow> memory_identity \<Rightarrow> string \<Rightarrow> string \<Rightarrow> bool \<Rightarrow> memory_db \<Rightarrow> (memory_db \<times> bool) res" where
  "confirm_record env pol now i rid source human db =
     (case find (\<lambda>r. mr_id r = rid) (list_records pol now (mi_tenant i) (mi_user i) False [] db) of
        None \<Rightarrow> Inr (db, False)
      | Some r \<Rightarrow>
          ebind (remember_writes env pol (mi_tenant i) (mi_user i) (mi_project i) now [confirmation_write now source human r] db)
            (\<lambda>(db', saved). Inr (db', 0 < saved)))"

end
