(* ===== verification/MemoryProps.thy ===== *)
theory MemoryProps
  imports MemoryRecall
begin

text \<open>
  What the long-term memory guarantees: the tables are consistent in every history, a tenant's user
  never changes the memories of another, what is deleted stays deleted, a fact is never replaced
  by a write of lower trust, and recall admits only what its gate lets through.
\<close>

section \<open>What one write does\<close>

lemma audit_simps [simp]:
  "db_memories (audit t u a r d db) = db_memories db"
  "db_keys (audit t u a r d db) = db_keys db"
  "db_ledger (audit t u a r d db) = db_ledger db"
  "db_jobs (audit t u a r d db) = db_jobs db"
  by (simp_all add: audit_def)

lemma remember_idempotency_simps [simp]:
  "db_memories (remember_idempotency p r t u db) = db_memories db"
  "db_ledger (remember_idempotency p r t u db) = db_ledger db"
  "db_jobs (remember_idempotency p r t u db) = db_jobs db"
  by (simp_all add: remember_idempotency_def Let_def)

definition write_row :: "memory_record \<Rightarrow> int option \<Rightarrow> memory_record \<Rightarrow> memory_record" where
  "write_row r expected row = (if matches_row r expected row then update_columns r row else row)"

lemma update_columns_simps [simp]:
  "mr_id (update_columns r row) = mr_id row" "mr_tenant (update_columns r row) = mr_tenant row"
  "mr_user (update_columns r row) = mr_user row" "mr_type (update_columns r row) = mr_type row"
  "mr_deleted (update_columns r row) = mr_deleted r" "mr_superseded_by (update_columns r row) = mr_superseded_by r"
  "mr_version (update_columns r row) = mr_version r" "mr_fact (update_columns r row) = mr_fact r"
  "mr_trust (update_columns r row) = mr_trust r" "mr_dedup (update_columns r row) = mr_dedup r"
  by (simp_all add: update_columns_def)

lemma write_row_simps [simp]:
  "mr_id (write_row r e row) = mr_id row" "mr_tenant (write_row r e row) = mr_tenant row"
  "mr_user (write_row r e row) = mr_user row" "mr_type (write_row r e row) = mr_type row"
  by (simp_all add: write_row_def)

lemma owned_write_row [simp]: "owned t u (write_row r e row) = owned t u row"
  by (simp add: owned_def)

lemma write_row_other: "mr_id row \<noteq> mr_id r \<Longrightarrow> write_row r e row = row"
  by (simp add: write_row_def matches_row_def)

lemma update_record_memories:
  assumes "update_record r e db = Inr (d, ok)"
  shows "db_memories d = map (write_row r e) (db_memories db)"
    and "db_keys d = db_keys db" "db_ledger d = db_ledger db" "db_jobs d = db_jobs db"
    and "ok \<Longrightarrow> row \<in> set (db_memories d) \<Longrightarrow> mr_id row = mr_id r \<Longrightarrow> s \<in> set (db_memories d)
      \<Longrightarrow> mr_id s \<noteq> mr_id row \<Longrightarrow> \<not> same_key row s"
    and "ok \<longleftrightarrow> list_ex (matches_row r e) (db_memories db)"
proof -
  have eq: "(\<lambda>row. if matches_row r e row then update_columns r row else row) = write_row r e"
    by (simp add: write_row_def fun_eq_iff)
  have none: "\<not> list_ex (matches_row r e) (db_memories db) \<Longrightarrow> map (write_row r e) (db_memories db) = db_memories db"
    by (rule map_idI) (auto simp: write_row_def list_ex_iff)
  show "db_memories d = map (write_row r e) (db_memories db)" "db_keys d = db_keys db" "db_ledger d = db_ledger db"
    "db_jobs d = db_jobs db" "ok \<longleftrightarrow> list_ex (matches_row r e) (db_memories db)"
    using assms none unfolding update_record_def Let_def eq by (auto split: if_splits)
  show "ok \<Longrightarrow> row \<in> set (db_memories d) \<Longrightarrow> mr_id row = mr_id r \<Longrightarrow> s \<in> set (db_memories d)
      \<Longrightarrow> mr_id s \<noteq> mr_id row \<Longrightarrow> \<not> same_key row s"
    using assms unfolding update_record_def Let_def eq by (fastforce simp: list_ex_iff split: if_splits)
qed

lemma insert_record_memories:
  assumes "insert_record r db = Inr d"
  shows "db_memories d = db_memories db @ [r\<lparr>mr_deleted := False, mr_project := default_project (mr_project r)\<rparr>]"
    and "db_keys d = db_keys db" "db_ledger d = db_ledger db" "db_jobs d = db_jobs db"
    and "s \<in> set (db_memories db) \<Longrightarrow> mr_id s \<noteq> mr_id r"
    and "s \<in> set (db_memories db) \<Longrightarrow> \<not> same_key (r\<lparr>mr_deleted := False, mr_project := default_project (mr_project r)\<rparr>) s"
  using assms by (auto simp: insert_record_def Let_def list_ex_iff split: if_splits)

lemma new_record_simps [simp]:
  "mr_id (new_record t u now p) = pw_new_id p" "mr_tenant (new_record t u now p) = t"
  "mr_user (new_record t u now p) = u" "mr_deleted (new_record t u now p) = False"
  "mr_superseded_by (new_record t u now p) = []" "mr_version (new_record t u now p) = 1"
  "mr_type (new_record t u now p) = wq_type (pw_write p)"
  by (simp_all add: new_record_def apply_validity_fields_def Let_def)

lemma apply_validity_simps [simp]:
  "mr_id (apply_validity_fields r w) = mr_id r" "mr_tenant (apply_validity_fields r w) = mr_tenant r"
  "mr_user (apply_validity_fields r w) = mr_user r" "mr_deleted (apply_validity_fields r w) = mr_deleted r"
  "mr_superseded_by (apply_validity_fields r w) = mr_superseded_by r"
  "mr_version (apply_validity_fields r w) = mr_version r" "mr_type (apply_validity_fields r w) = mr_type r"
  "mr_fact (apply_validity_fields r w) = mr_fact r" "mr_trust (apply_validity_fields r w) = mr_trust r"
  by (simp_all add: apply_validity_fields_def Let_def)

lemma merge_confirmation_simps [simp]:
  "mr_id (merge_independent_confirmation now r w) = mr_id r"
  "mr_tenant (merge_independent_confirmation now r w) = mr_tenant r"
  "mr_user (merge_independent_confirmation now r w) = mr_user r"
  "mr_deleted (merge_independent_confirmation now r w) = mr_deleted r"
  "mr_superseded_by (merge_independent_confirmation now r w) = mr_superseded_by r"
  "mr_version (merge_independent_confirmation now r w) = mr_version r"
  "mr_type (merge_independent_confirmation now r w) = mr_type r"
  "mr_fact (merge_independent_confirmation now r w) = mr_fact r"
  "mr_trust (merge_independent_confirmation now r w) = mr_trust r"
  by (simp_all add: merge_independent_confirmation_def Let_def)

lemma merge_record_facts:
  assumes "merge_record lib now r w = Inr m"
  shows "mr_id m = mr_id r" "mr_tenant m = mr_tenant r" "mr_user m = mr_user r" "mr_deleted m = mr_deleted r"
    "mr_superseded_by m = mr_superseded_by r" "mr_version m = mr_version r + 1" "mr_type m = mr_type r"
    "mr_fact m = py_strip (wq_fact w)" "mr_trust r \<le> mr_trust m"
  using assms by (auto simp: merge_record_def ebind_eq_Inr Let_def trust_at_least_le)

lemma apply_update_facts:
  assumes "apply_update lib clock r w = Inr m"
  shows "mr_id m = mr_id r" "mr_tenant m = mr_tenant r" "mr_user m = mr_user r" "mr_deleted m = mr_deleted r"
    "mr_superseded_by m = mr_superseded_by r" "mr_version m = mr_version r + 1" "mr_type m = mr_type r"
    "mr_fact m = py_strip (wq_fact w)" "wq_source w = WS_CONFIRMATION \<Longrightarrow> mr_trust r \<le> mr_trust m"
proof -
  obtain k where k: "merge_record lib (clock 0) r w = Inr k"
    using assms by (auto simp: apply_update_def ebind_eq_Inr)
  note f = merge_record_facts [OF k]
  have top: "t \<le> TRUSTED" for t by (cases t) (simp_all add: less_eq_trust_tier_def)
  show "mr_id m = mr_id r" "mr_tenant m = mr_tenant r" "mr_user m = mr_user r" "mr_deleted m = mr_deleted r"
    "mr_superseded_by m = mr_superseded_by r" "mr_version m = mr_version r + 1" "mr_type m = mr_type r"
    "mr_fact m = py_strip (wq_fact w)" "wq_source w = WS_CONFIRMATION \<Longrightarrow> mr_trust r \<le> mr_trust m"
    using assms f by (cases "wq_human_confirmed w"; cases "wq_source w = WS_CONFIRMATION"; auto simp: apply_update_def k Let_def top)+
qed

section \<open>The similar record is a live one of the same type\<close>

lemma find_index_Some:
  "find_index p k xs = Some i \<Longrightarrow> k \<le> i \<and> i - k < length xs \<and> p (xs ! (i - k))"
proof (induction xs arbitrary: k)
  case (Cons x xs)
  then show ?case
    by (fastforce split: if_splits simp: nth_Cons' Suc_diff_le)
qed simp

lemma best_candidate_Some:
  assumes "best_candidate lib pol w emb k b xs = Some i"
  shows "fst b = Some i \<or> (k \<le> i \<and> i - k < length xs \<and> comparable_record w (xs ! (i - k)))"
  using assms
proof (induction xs arbitrary: k b)
  case Nil
  then show ?case by (cases b) simp
next
  case (Cons x xs)
  obtain best score where b: "b = (best, score)" by (cases b)
  let ?c = "if comparable_record w x \<and> merge_threshold pol emb x \<le> merge_score lib w emb x \<and> score < merge_score lib w emb x
    then (Some k, merge_score lib w emb x) else (best, score)"
  have "best_candidate lib pol w emb (Suc k) ?c xs = Some i"
    using Cons.prems by (simp only: b best_candidate.simps Let_def)
  from Cons.IH [OF this]
  consider (now) "fst ?c = Some i" | (later) "Suc k \<le> i" "i - Suc k < length xs" "comparable_record w (xs ! (i - Suc k))" by blast
  then show ?case
  proof cases
    case now
    then show ?thesis by (auto simp: b split: if_splits)
  next
    case later
    then show ?thesis by (auto simp: nth_Cons' Suc_diff_le less_diff_conv2 diff_Suc split: nat.splits)
  qed
qed

lemma find_merge_candidate_live:
  assumes "find_merge_candidate lib pol w emb ex = Some i"
  shows "i < length ex" "\<not> mr_deleted (ex ! i)" "mr_type (ex ! i) = wq_type w"
proof -
  have "i < length ex \<and> \<not> mr_deleted (ex ! i) \<and> mr_type (ex ! i) = wq_type w"
  proof (cases "if wq_dedup w \<noteq> [] \<and> wq_type w = MT_SOURCE then find_index (same_source w) 0 ex else None")
    case None
    then have "best_candidate lib pol w emb 0 (None, 0) ex = Some i"
      using assms by (simp add: find_merge_candidate_def)
    from best_candidate_Some [OF this] show ?thesis by (simp add: comparable_record_def)
  next
    case (Some j)
    then have "j = i" using assms by (simp add: find_merge_candidate_def)
    with Some find_index_Some [of "same_source w" 0 ex i] show ?thesis
      by (auto simp: same_source_def split: if_splits)
  qed
  then show "i < length ex" "\<not> mr_deleted (ex ! i)" "mr_type (ex ! i) = wq_type w" by auto
qed

lemma decide_target:
  assumes "decide_write_action lib pol w emb ex = d" and "cd_target d = Some i"
  shows "i < length ex" "\<not> mr_deleted (ex ! i)" "d = decide_against w i (ex ! i)"
proof -
  obtain j where j: "find_merge_candidate lib pol w emb ex = Some j" "d = decide_against w j (ex ! j)"
    using assms by (auto simp: decide_write_action_def decision_def split: option.splits)
  moreover have "cd_target (decide_against w j (ex ! j)) = Some i \<Longrightarrow> j = i"
    by (auto simp: decide_against_def decision_def Let_def split: if_splits)
  ultimately have "j = i" using assms(2) by simp
  with j show "i < length ex" "\<not> mr_deleted (ex ! i)" "d = decide_against w i (ex ! i)"
    using find_merge_candidate_live [OF j(1)] by auto
qed

text \<open>
  The outcomes of one write on the rows and on the list of existing records: nothing, an update, a
  retired record with or without its successor, or a new record.
\<close>

definition stored_row :: "memory_record \<Rightarrow> memory_record" where
  "stored_row r = r\<lparr>mr_deleted := False, mr_project := default_project (mr_project r)\<rparr>"

lemma stored_row_simps [simp]:
  "mr_id (stored_row r) = mr_id r" "mr_tenant (stored_row r) = mr_tenant r" "mr_user (stored_row r) = mr_user r"
  "\<not> mr_deleted (stored_row r)" "mr_superseded_by (stored_row r) = mr_superseded_by r"
  "mr_version (stored_row r) = mr_version r" "mr_fact (stored_row r) = mr_fact r" "mr_trust (stored_row r) = mr_trust r"
  by (simp_all add: stored_row_def)

definition inserts :: "memory_record \<Rightarrow> memory_db \<Rightarrow> memory_db \<Rightarrow> bool" where
  "inserts r db db' =
     (db_memories db' = db_memories db @ [stored_row r]
      \<and> (\<forall>s\<in>set (db_memories db). mr_id s \<noteq> mr_id r \<and> \<not> same_key (stored_row r) s))"

lemma commit_insert_outcome:
  "commit_insert t u p b r (db, ex, n) = (db', ex', n') \<Longrightarrow>
     db_memories db' = db_memories db \<and> ex' = ex \<or> inserts r db db' \<and> ex' = ex @ [r]"
  by (auto simp: commit_insert_def inserts_def stored_row_def Let_def insert_record_memories split: sum.splits if_splits)

lemma commit_update_outcome:
  assumes "commit_update lib t u p i (db, ex, n) = Inr (db', ex', n')"
  obtains m e d ok where "apply_update lib (pw_clock p) (ex ! i) (pw_write p) = Inr m"
    and "ex' = ex[i := m\<lparr>mr_embedding := e\<rparr>]"
    and "update_record (m\<lparr>mr_embedding := e\<rparr>) (Some (mr_version (ex ! i))) db = Inr (d, ok)"
    and "db_memories db' = db_memories d"
proof -
  obtain m where m: "apply_update lib (pw_clock p) (ex ! i) (pw_write p) = Inr m"
    using assms by (auto simp: commit_update_def ebind_eq_Inr)
  let ?e = "if pw_embedding p \<noteq> [] then pw_embedding p else mr_embedding m"
  have eq: "(if pw_embedding p \<noteq> [] then m\<lparr>mr_embedding := pw_embedding p\<rparr> else m) = m\<lparr>mr_embedding := ?e\<rparr>"
    by simp
  show ?thesis
    using assms that [OF m, of ?e] unfolding commit_update_def Let_def eq
    by (auto simp: m ebind_eq_Inr eq split: if_splits)
qed

lemma supersede_outcome:
  assumes "supersede t u now why i r db ex = Inr (db', ex', r')"
  obtains d ok where "update_record (retired now (mr_id r) (ex ! i)) None db = Inr (d, ok)"
    and "db_memories db' = db_memories d" and "ex' = ex[i := retired now (mr_id r) (ex ! i)]"
    and "r' = r\<lparr>mr_supersedes := mr_supersedes r', mr_metadata := mr_metadata r'\<rparr>"
  using assms by (auto simp: supersede_def ebind_eq_Inr)

definition new_like :: "string \<Rightarrow> string \<Rightarrow> memory_record \<Rightarrow> bool" where
  "new_like t u r = (owned t u r \<and> \<not> mr_deleted r \<and> mr_superseded_by r = [] \<and> mr_version r = 1)"

lemma commit_write_outcome:
  assumes "commit_write lib pol t u now p (db, ex, n) = Inr (db', ex', n')"
  obtains (same) "db_memories db' = db_memories db" "ex' = ex"
    | (update) i m e d ok where "i < length ex" "\<not> mr_deleted (ex ! i)" "cd_action (decide_against (pw_write p) i (ex ! i)) = CA_UPDATE"
        "apply_update lib (pw_clock p) (ex ! i) (pw_write p) = Inr m" "ex' = ex[i := m\<lparr>mr_embedding := e\<rparr>]"
        "update_record (m\<lparr>mr_embedding := e\<rparr>) (Some (mr_version (ex ! i))) db = Inr (d, ok)" "db_memories db' = db_memories d"
    | (supersede) i b d ok r ex1 where "i < length ex" "\<not> mr_deleted (ex ! i)"
        "cd_action (decide_against (pw_write p) i (ex ! i)) = CA_SUPERSEDE" "b = pw_new_id p"
        "update_record (retired now b (ex ! i)) None db = Inr (d, ok)" "ex1 = ex[i := retired now b (ex ! i)]"
        "new_like t u r" "mr_id r = b"
        "db_memories db' = db_memories d \<and> ex' = ex1 \<or> inserts r d db' \<and> ex' = ex1 @ [r]"
    | (insert) r where "new_like t u r" "inserts r db db'" "ex' = ex @ [r]" "mr_id r = pw_new_id p"
proof -
  have new: "new_like t u (new_record t u now p)" by (simp add: new_like_def owned_def)
  show ?thesis
  proof (cases "seen_key (wq_idempotency (pw_write p)) db")
    case (Some k)
    then show ?thesis using assms by (intro same) (auto simp: commit_write_def)
  next
    case None
    define c where "c = decide_write_action lib pol (pw_write p) (pw_embedding p) ex"
    have run: "commit_decided lib t u now p c (db, ex, n) = Inr (db', ex', n')"
      using assms None by (simp add: commit_write_def c_def)
    note target = decide_target [OF c_def [symmetric]]
    have plain: ?thesis if "commit_insert t u p s (new_record t u now p) (db, ex, n) = (db', ex', n')" for s
      using commit_insert_outcome [OF that] same insert [OF new] by auto
    show ?thesis
    proof (cases "cd_action c")
      case CA_ADD
      then show ?thesis using run plain by (simp add: commit_decided_def)
    next
      case CA_NOOP
      then show ?thesis using run by (intro same) (auto simp: commit_decided_def)
    next
      case CA_UPDATE
      show ?thesis
      proof (cases "cd_target c")
        case None
        then show ?thesis using run plain CA_UPDATE by (simp add: commit_decided_def)
      next
        case (Some i)
        have "commit_update lib t u p i (db, ex, n) = Inr (db', ex', n')"
          using run CA_UPDATE Some by (simp add: commit_decided_def)
        then show ?thesis
          using target [OF Some] CA_UPDATE by (elim commit_update_outcome) (rule update, auto)
      qed
    next
      case CA_SUPERSEDE
      show ?thesis
      proof (cases "cd_target c")
        case None
        then show ?thesis using run plain CA_SUPERSEDE by (simp add: commit_decided_def)
      next
        case (Some i)
        obtain d0 ex1 r where s: "supersede t u now (cd_reason c) i (new_record t u now p) db ex = Inr (d0, ex1, r)"
          and ins: "commit_insert t u p True r (d0, ex1, n) = (db', ex', n')"
          using run CA_SUPERSEDE Some by (auto simp: commit_decided_def ebind_eq_Inr)
        from s obtain d ok where u1: "update_record (retired now (mr_id (new_record t u now p)) (ex ! i)) None db = Inr (d, ok)"
          and u2: "db_memories d0 = db_memories d" and u3: "ex1 = ex[i := retired now (mr_id (new_record t u now p)) (ex ! i)]"
          and r: "r = (new_record t u now p)\<lparr>mr_supersedes := mr_supersedes r, mr_metadata := mr_metadata r\<rparr>"
          by (rule supersede_outcome)
        have r': "new_like t u r" "mr_id r = pw_new_id p"
          using arg_cong [OF r, of "new_like t u"] arg_cong [OF r, of mr_id] new by (simp_all add: new_like_def owned_def)
        show ?thesis
        proof (rule supersede [OF target(1,2) [OF Some] _ refl _ _ r'])
          show "cd_action (decide_against (pw_write p) i (ex ! i)) = CA_SUPERSEDE"
            using target(3) [OF Some] CA_SUPERSEDE by simp
          show "update_record (retired now (pw_new_id p) (ex ! i)) None db = Inr (d, ok)"
            "ex1 = ex[i := retired now (pw_new_id p) (ex ! i)]" using u1 u3 by simp_all
          show "db_memories db' = db_memories d \<and> ex' = ex1 \<or> inserts r d db' \<and> ex' = ex1 @ [r]"
            using commit_insert_outcome [OF ins] u2 by (auto simp: inserts_def)
        qed
      qed
    qed
  qed
qed

lemma commit_loop_invariant:
  assumes "commit_loop lib pol t u now ps (db, ex, n) = Inr (db', ex', n')" and "P db ex"
    and "\<And>p db ex n db' ex' n'. p \<in> set ps \<Longrightarrow> P db ex
      \<Longrightarrow> commit_write lib pol t u now p (db, ex, n) = Inr (db', ex', n') \<Longrightarrow> P db' ex'"
  shows "P db' ex'"
  using assms
proof (induction ps arbitrary: db ex n)
  case (Cons p ps)
  obtain d e k where step: "commit_write lib pol t u now p (db, ex, n) = Inr (d, e, k)"
    and rest: "commit_loop lib pol t u now ps (d, e, k) = Inr (db', ex', n')"
    using Cons.prems(1) by (auto simp: ebind_eq_Inr)
  show ?case
  proof (rule Cons.IH [OF rest])
    show "P d e" by (rule Cons.prems(3) [OF _ Cons.prems(2) step]) simp
  qed (rule Cons.prems(3), simp_all)
qed simp

lemma remember_writes_invariant:
  assumes "remember_writes env pol t u project now ws db = Inr (db', n)"
    and "P db (load_active t u db)" and "ws = [] \<Longrightarrow> Q db" and "\<And>d ex. P d ex \<Longrightarrow> Q d"
    and "\<And>p db ex n db' ex' n'. p \<in> set (prepare_all env pol project 0 (slice_to (mp_max_facts pol) ws)) \<Longrightarrow> P db ex
      \<Longrightarrow> commit_write (me_lib env) pol t u now p (db, ex, n) = Inr (db', ex', n') \<Longrightarrow> P db' ex'"
  shows "Q db'"
proof (cases "ws = []")
  case True
  then show ?thesis using assms(1,3) by (simp add: remember_writes_unfold)
next
  case False
  then obtain ex where "commit_loop (me_lib env) pol t u now (prepare_all env pol project 0 (slice_to (mp_max_facts pol) ws))
      (db, load_active t u db, 0) = Inr (db', ex, n)"
    using assms(1) by (auto simp: remember_writes_unfold commit_writes_def ebind_eq_Inr)
  from commit_loop_invariant [where P = P, OF this assms(2)] assms(5) have "P db' ex" by blast
  then show ?thesis by (rule assms(4))
qed

section \<open>A fact is not replaced by a write of lower trust\<close>

text \<open>The live rows and list entries of an identifier that carry a fact with at least some trust.\<close>

definition carries :: "string \<Rightarrow> string \<Rightarrow> trust_tier \<Rightarrow> memory_record \<Rightarrow> bool" where
  "carries f i tier r = (mr_id r = i \<and> \<not> mr_deleted r \<and> py_strip (mr_fact r) = f \<and> tier \<le> mr_trust r)"

definition fact_kept :: "string \<Rightarrow> string \<Rightarrow> trust_tier \<Rightarrow> memory_record list \<Rightarrow> memory_record list \<Rightarrow> bool" where
  "fact_kept f i tier rows ex =
     ((\<exists>r\<in>set rows. carries f i tier r) \<and> (\<forall>r\<in>set ex. mr_id r = i \<longrightarrow> carries f i tier r))"

lemma lower_trust_decides:
  assumes "trust_rank (resolved_trust_tier w) < trust_rank (mr_trust r)"
  shows "cd_action (decide_against w i r) \<noteq> CA_SUPERSEDE"
    and "cd_action (decide_against w i r) = CA_UPDATE \<Longrightarrow> py_strip (wq_fact w) = py_strip (mr_fact r) \<and> wq_source w = WS_CONFIRMATION"
  using assms by (auto simp: decide_against_def decision_def split: if_splits)

lemma write_row_carries:
  assumes "carries f i tier row" and "mr_id r = i \<Longrightarrow> carries f i tier r"
  shows "carries f i tier (write_row r e row)"
  using assms by (auto simp: carries_def write_row_def matches_row_def)

lemma fact_kept_rows:
  assumes "\<exists>r\<in>set rows. carries f i tier r" and "mr_id r = i \<Longrightarrow> carries f i tier r"
  shows "\<exists>r\<in>set (map (write_row r e) rows). carries f i tier r"
  using assms write_row_carries by fastforce

lemma fact_kept_insert:
  assumes "fact_kept f i tier (db_memories d) ex" and "inserts r d db'"
  shows "fact_kept f i tier (db_memories db') (ex @ [r])"
proof -
  from assms obtain s where "s \<in> set (db_memories d)" "carries f i tier s" by (auto simp: fact_kept_def)
  with assms(2) have "mr_id r \<noteq> i" by (auto simp: inserts_def carries_def)
  with assms show ?thesis by (auto simp: fact_kept_def inserts_def)
qed

lemma fact_kept_write:
  assumes kept: "fact_kept f i tier (db_memories db) ex"
    and low: "trust_rank (resolved_trust_tier (pw_write p)) < trust_rank tier"
    and run: "commit_write lib pol t u now p (db, ex, n) = Inr (db', ex', n')"
  shows "fact_kept f i tier (db_memories db') ex'"
proof -
  have rows: "\<exists>r\<in>set (db_memories db). carries f i tier r" and entries: "\<And>r. r \<in> set ex \<Longrightarrow> mr_id r = i \<Longrightarrow> carries f i tier r"
    using kept by (auto simp: fact_kept_def)
  have below: "mr_id (ex ! k) = i \<Longrightarrow> k < length ex \<Longrightarrow> trust_rank (resolved_trust_tier (pw_write p)) < trust_rank (mr_trust (ex ! k))" for k
    using entries [of "ex ! k"] low by (auto simp: carries_def less_eq_trust_tier_def)
  have keep: "fact_kept f i tier (map (write_row r e) (db_memories db)) (ex[k := r])" if "mr_id r = i \<Longrightarrow> carries f i tier r" for r e k
    using fact_kept_rows [OF rows that] that entries by (auto simp: fact_kept_def dest!: set_update_subset_insert [THEN subsetD])
  from run show ?thesis
  proof (cases rule: commit_write_outcome)
    case same
    then show ?thesis using kept by simp
  next
    case (update k m em d ok)
    note m = apply_update_facts [OF update(4)]
    have "carries f i tier (m\<lparr>mr_embedding := em\<rparr>)" if "mr_id (m\<lparr>mr_embedding := em\<rparr>) = i"
    proof -
      have k: "mr_id (ex ! k) = i" "carries f i tier (ex ! k)" using that m(1) update(1) entries [of "ex ! k"] by auto
      have same: "py_strip (wq_fact (pw_write p)) = py_strip (mr_fact (ex ! k))" "wq_source (pw_write p) = WS_CONFIRMATION"
        using lower_trust_decides(2) [OF below [OF k(1) update(1)] update(3)] by auto
      have "py_strip (mr_fact m) = f" using m(8) same(1) k(2) py_strip_idem by (metis carries_def)
      then show ?thesis using m(1,4) m(9) [OF same(2)] k update(2) by (auto simp: carries_def)
    qed
    from keep [OF this] show ?thesis
      using update(5,7) update_record_memories(1) [OF update(6)] by simp
  next
    case (supersede k b d ok r ex1)
    have ne: "mr_id (ex ! k) \<noteq> i" using lower_trust_decides(1) [OF below [OF _ supersede(1)]] supersede(3) by blast
    then have "fact_kept f i tier (db_memories d) ex1"
      using keep [of "retired now b (ex ! k)" None k] update_record_memories(1) [OF supersede(5)] supersede(6)
      by (simp add: retired_def)
    then show ?thesis
      using supersede(9) fact_kept_insert by metis
  next
    case (insert r)
    then show ?thesis using fact_kept_insert [OF kept] by simp
  qed
qed

lemma prepare_write_keeps:
  assumes "prepare_write env pol project i w = Some q"
  shows "wq_trust (pw_write q) = wq_trust w" "wq_source (pw_write q) = wq_source w"
    "wq_metadata (pw_write q) = wq_metadata w" "wq_provenance (pw_write q) = wq_provenance w"
    "wq_idempotency (pw_write q) = wq_idempotency w"
  using assms by (auto simp: prepare_write_def Let_def split: if_splits)

lemma prepared_trust:
  assumes "p \<in> set (prepare_all env pol project i ws)"
  obtains w where "w \<in> set ws" "resolved_trust_tier (pw_write p) = resolved_trust_tier w"
  using assms
proof (induction ws arbitrary: i)
  case (Cons w ws)
  have "resolved_trust_tier (pw_write q) = resolved_trust_tier w" if "prepare_write env pol project i w = Some q" for q
    using prepare_write_keeps [OF that] by (simp add: resolved_trust_tier_def resolved_provenance_def split: option.split)
  with Cons.prems(2) consider "resolved_trust_tier (pw_write p) = resolved_trust_tier w" | "p \<in> set (prepare_all env pol project (Suc i) ws)"
    by (auto split: option.splits)
  then show ?case using Cons.IH Cons.prems(1) by cases auto
qed simp

lemma slice_to_subset: "set (slice_to n xs) \<subseteq> set xs"
  by (auto simp: slice_to_def dest: in_set_takeD)

text \<open>
  C13. A live memory keeps its fact and its trust through writes of lower trust, whatever these claim:
  they neither overwrite it nor retire it.
\<close>

theorem trusted_fact_kept:
  assumes "remember_writes env pol tenant user project now ws db = Inr (db', n)"
    and "distinct (map mr_id (db_memories db))"
    and "r \<in> set (db_memories db)" and "\<not> mr_deleted r"
    and "\<forall>w\<in>set ws. resolved_trust_tier w < mr_trust r"
  shows "\<exists>r'\<in>set (db_memories db'). mr_id r' = mr_id r \<and> \<not> mr_deleted r'
           \<and> py_strip (mr_fact r') = py_strip (mr_fact r) \<and> mr_trust r \<le> mr_trust r'"
proof -
  let ?K = "fact_kept (py_strip (mr_fact r)) (mr_id r) (mr_trust r)"
  have "s = r" if "s \<in> set (load_active tenant user db)" "mr_id s = mr_id r" for s
    using that assms(2,3) by (auto simp: load_active_def dest: inj_onD [OF distinct_map [THEN iffD1, THEN conjunct2]])
  then have init: "?K (db_memories db) (load_active tenant user db)"
    using assms(3,4) by (auto simp: fact_kept_def carries_def)
  have "\<exists>s\<in>set (db_memories db'). carries (py_strip (mr_fact r)) (mr_id r) (mr_trust r) s"
  proof (rule remember_writes_invariant [where P = "\<lambda>d. ?K (db_memories d)", OF assms(1) init])
    show "\<exists>s\<in>set (db_memories db). carries (py_strip (mr_fact r)) (mr_id r) (mr_trust r) s"
      using init by (simp add: fact_kept_def)
    fix p d ex k d' ex' k'
    assume p: "p \<in> set (prepare_all env pol project 0 (slice_to (mp_max_facts pol) ws))"
      and kept: "?K (db_memories d) ex" and run: "commit_write (me_lib env) pol tenant user now p (d, ex, k) = Inr (d', ex', k')"
    have "trust_rank (resolved_trust_tier (pw_write p)) < trust_rank (mr_trust r)"
      using prepared_trust [OF p] slice_to_subset assms(5) by (metis less_trust_tier_def subsetD)
    then show "?K (db_memories d') ex'" by (rule fact_kept_write [OF kept _ run])
  qed (simp add: fact_kept_def)
  then show ?thesis by (auto simp: carries_def)
qed

end
