(* ===== verification/MemoryHistory.thy ===== *)
theory MemoryHistory
  imports MemoryProps
begin

text \<open>
  Histories of the memory database: one step per operation, the tables after any sequence of them, and
  that a step of one user leaves the memories of another as they are.
\<close>

section \<open>Steps\<close>

datatype memory_op =
    Remember memory_env string string string int "write_request list"
  | Delete_record int string string string
  | Delete_all int string string
  | Delete_for_run int string string string
  | Delete_for_session int string string string
  | Mark_recalled int "string list" string string string
  | Upsert_sources int "ledger_row list"
  | Delete_sources string string string string
  | Consolidate float_lib int string string
  | Enqueue string int string string string
  | Drain float_lib int int

text \<open>An operation that raises changes nothing.\<close>

definition settle :: "memory_db \<Rightarrow> ('b \<Rightarrow> memory_db) \<Rightarrow> 'b res \<Rightarrow> memory_db" where
  "settle db f r = (case r of Inr x \<Rightarrow> f x | Inl _ \<Rightarrow> db)"

fun memory_step :: "memory_policy \<Rightarrow> memory_op \<Rightarrow> memory_db \<Rightarrow> memory_db" where
  "memory_step pol (Remember env t u project now ws) db = settle db fst (remember_writes env pol t u project now ws db)"
| "memory_step pol (Delete_record now rid t u) db = fst (delete_record now rid t u db)"
| "memory_step pol (Delete_all now t u) db = fst (delete_all now t u db)"
| "memory_step pol (Delete_for_run now t u run) db = fst (delete_records_for_run now t u run db)"
| "memory_step pol (Delete_for_session now t u s) db = fst (delete_records_for_session now t u s db)"
| "memory_step pol (Mark_recalled now ids t u s) db = settle db id (mark_recalled now ids t u s db)"
| "memory_step pol (Upsert_sources now es) db = fst (upsert_source_ledger now es db)"
| "memory_step pol (Delete_sources t u run s) db = fst (delete_source_ledger t u run s db)"
| "memory_step pol (Consolidate lib now t u) db = settle db fst (consolidate lib pol now t u db)"
| "memory_step pol (Enqueue i now t u project) db = settle db id (enqueue_job (consolidation_job i now t u project) db)"
| "memory_step pol (Drain lib now limit) db = fst (drain_jobs lib pol now limit db)"

lemma settle_simps [simp]:
  "settle db f (Inr x) = f x" "settle db f (Inl e) = db"
  by (simp_all add: settle_def)

lemma settle_db_cases: "(\<And>x. r = Inr x \<Longrightarrow> Q (f x)) \<Longrightarrow> Q db \<Longrightarrow> Q (settle db f r)"
  by (auto simp: settle_def split: sum.splits)

section \<open>How the operations change rows\<close>

lemma forget_where_memories [simp]:
  "db_memories (fst (forget_where now p db)) = map (\<lambda>r. if p r then forget now r else r) (db_memories db)"
  "db_keys (fst (forget_where now p db)) = db_keys db"
  "db_ledger (fst (forget_where now p db)) = db_ledger db"
  "db_jobs (fst (forget_where now p db)) = db_jobs db"
  by (simp_all add: forget_where_def)

lemma fst_delete_record: "fst (delete_record now i t u db) = fst (forget_where now (\<lambda>r. mr_id r = i \<and> owned t u r \<and> \<not> mr_deleted r) db)"
  by (simp add: delete_record_def split: prod.splits)

lemma delete_all_tables [simp]:
  "db_memories (fst (delete_all now t u db)) = map (\<lambda>r. if owned t u r \<and> \<not> mr_deleted r then forget now r else r) (db_memories db)"
  "db_keys (fst (delete_all now t u db)) = db_keys db"
  "db_ledger (fst (delete_all now t u db)) = db_ledger db"
  "db_jobs (fst (delete_all now t u db)) = db_jobs db"
  by (simp_all add: delete_all_def forget_where_def)

text \<open>The row operations that only mark rows as deleted or recalled.\<close>

definition marks :: "memory_record \<Rightarrow> memory_record \<Rightarrow> bool" where
  "marks r s =
     (mr_id s = mr_id r \<and> mr_tenant s = mr_tenant r \<and> mr_user s = mr_user r \<and> mr_type s = mr_type r \<and> mr_dedup s = mr_dedup r
      \<and> mr_version s = mr_version r \<and> mr_superseded_by s = mr_superseded_by r \<and> (mr_deleted r \<longrightarrow> mr_deleted s))"

lemma marks_refl [simp]: "marks r r"
  by (simp add: marks_def)

lemma marks_trans: "marks r s \<Longrightarrow> marks s k \<Longrightarrow> marks r k"
  by (simp add: marks_def)

lemma marks_forget [simp]: "marks r (forget now r)"
  by (simp add: marks_def forget_def)

lemma marks_mark_row: "mark_row now s r = Inr k \<Longrightarrow> marks r k"
  by (auto simp: mark_row_def ebind_eq_Inr marks_def)

lemma emap_list_all2: "emap f xs = Inr ys \<Longrightarrow> (\<And>x y. f x = Inr y \<Longrightarrow> R x y) \<Longrightarrow> list_all2 R xs ys"
  by (induction xs arbitrary: ys) (auto simp: ebind_eq_Inr)

lemma mark_ids_marks:
  "mark_ids now t u s ids rows = Inr rows' \<Longrightarrow> list_all2 (\<lambda>r k. marks r k \<and> (\<not> owned t u r \<longrightarrow> k = r)) rows rows'"
proof (induction ids arbitrary: rows)
  case Nil
  then show ?case by (simp add: list.rel_refl)
next
  case (Cons i ids)
  let ?R = "\<lambda>r k. marks r k \<and> (\<not> owned t u r \<longrightarrow> k = r)"
  obtain mid where mid: "emap (\<lambda>r. if mr_id r = i \<and> owned t u r then mark_row now s r else Inr r) rows = Inr mid"
    and rest: "mark_ids now t u s ids mid = Inr rows'"
    using Cons.prems by (auto simp: ebind_eq_Inr)
  have "list_all2 ?R rows mid"
    by (rule emap_list_all2 [OF mid]) (auto split: if_splits dest: marks_mark_row)
  then show ?case
    using Cons.IH [OF rest] by (rule list_all2_trans [rotated]) (auto intro: marks_trans)
qed

lemma mark_recalled_rows:
  assumes "mark_recalled now ids t u s db = Inr db'"
  shows "list_all2 (\<lambda>r k. marks r k \<and> (\<not> owned t u r \<longrightarrow> k = r)) (db_memories db) (db_memories db')"
    and "db_keys db' = db_keys db" "db_ledger db' = db_ledger db" "db_jobs db' = db_jobs db"
  using assms mark_ids_marks by (auto simp: mark_recalled_def ebind_eq_Inr)

lemma forgotten_marks: "list_all2 marks rows (map (\<lambda>r. if p r then forget now r else r) rows)"
  by (simp add: list_all2_conv_all_nth)

section \<open>Consolidation\<close>

lemma consolidate_row_simps [simp]:
  "mr_id (consolidate_row lib pol now r) = mr_id r" "mr_tenant (consolidate_row lib pol now r) = mr_tenant r"
  "mr_user (consolidate_row lib pol now r) = mr_user r" "mr_deleted (consolidate_row lib pol now r) = mr_deleted r"
  "mr_superseded_by (consolidate_row lib pol now r) = mr_superseded_by r"
  "mr_version (consolidate_row lib pol now r) = mr_version r"
  by (simp_all add: consolidate_row_def Let_def)

text \<open>Consolidating one row purges it, writes it, or changes nothing.\<close>

lemma consolidate_one_outcome:
  assumes "consolidate_one lib pol now r (db, rep) = Inr (db', rep')"
  obtains (purge) "mr_deleted r" "db' = db\<lparr>db_memories := filter (\<lambda>s. \<not> (mr_id s = mr_id r \<and> owned (mr_tenant r) (mr_user r) s)) (db_memories db)\<rparr>"
    | (same) "db' = db"
    | (refresh) ok where "\<not> mr_deleted r" "update_record (consolidate_row lib pol now r) None db = Inr (db', ok)"
  using assms by (auto simp: consolidate_one_def Let_def ebind_eq_Inr should_purge_def split: if_splits)

lemma consolidate_rows_invariant:
  assumes "consolidate_rows lib pol now rs (db, rep) = Inr (db', rep')" and "P db"
    and "\<And>r db rep db' rep'. r \<in> set rs \<Longrightarrow> P db \<Longrightarrow> consolidate_one lib pol now r (db, rep) = Inr (db', rep') \<Longrightarrow> P db'"
  shows "P db'"
  using assms
proof (induction rs arbitrary: db rep)
  case (Cons r rs)
  obtain d k where step: "consolidate_one lib pol now r (db, rep) = Inr (d, k)"
    and rest: "consolidate_rows lib pol now rs (d, k) = Inr (db', rep')"
    using Cons.prems(1) by (auto simp: ebind_eq_Inr)
  show ?case
  proof (rule Cons.IH [OF rest])
    show "P d" by (rule Cons.prems(3) [OF _ Cons.prems(2) step]) simp
  qed (rule Cons.prems(3), simp_all)
qed simp

lemma consolidate_invariant:
  assumes "consolidate lib pol now t u db = Inr (db', rep)" and "P db"
    and "\<And>r db rep db' rep'. r \<in> set (filter (owned t u) (db_memories db0)) \<Longrightarrow> P db
      \<Longrightarrow> consolidate_one lib pol now r (db, rep) = Inr (db', rep') \<Longrightarrow> P db'"
    and "\<And>d t u a r m. P d \<Longrightarrow> P (audit t u a r m d)" and "db0 = db"
  shows "P db'"
proof -
  obtain d rep' where "consolidate_rows lib pol now (filter (owned t u) (db_memories db))
      (db, \<lparr>cr_decayed = 0, cr_promoted = 0, cr_purged = 0, cr_examined = 0\<rparr>) = Inr (d, rep')"
    and "db' = audit t u ''consolidate'' None (consolidation_report_to_dict rep') d"
    using assms(1) by (auto simp: consolidate_def ebind_eq_Inr)
  from consolidate_rows_invariant [where P = P, OF this(1) assms(2)] assms(3-5) this(2) show ?thesis by blast
qed

text \<open>A drain is a sequence of consolidations and of changes to the job table.\<close>

lemma run_jobs_invariant:
  assumes "P db"
    and "\<And>j d d' rep. j \<in> set js \<Longrightarrow> P d \<Longrightarrow> mj_type j = ''consolidate''
      \<Longrightarrow> consolidate lib pol now (payload_str (mj_payload j) ''tenant_id'') (payload_str (mj_payload j) ''user_id'') d = Inr (d', rep) \<Longrightarrow> P d'"
    and "\<And>j d ok err. j \<in> set js \<Longrightarrow> P d \<Longrightarrow> P (finish_job now (mj_id j) ok err d)"
  shows "P (fst (run_jobs lib pol now js db))"
  using assms
proof (induction js arbitrary: db)
  case (Cons j js)
  have "P (fst (run_job lib pol now j db))"
  proof (cases "mj_type j = ''consolidate''")
    case False
    then show ?thesis using Cons.prems(1,3) by (simp add: run_job_def)
  next
    case True
    let ?c = "consolidate lib pol now (payload_str (mj_payload j) ''tenant_id'') (payload_str (mj_payload j) ''user_id'') db"
    show ?thesis
    proof (cases ?c)
      case (Inl e)
      then show ?thesis using Cons.prems(1,3) True by (simp add: run_job_def)
    next
      case (Inr r)
      obtain d rep where r: "r = (d, rep)" by (cases r)
      have "P d" using Cons.prems(2) [OF _ Cons.prems(1) True] Inr r by simp
      then show ?thesis using Cons.prems(3) True Inr r by (simp add: run_job_def)
    qed
  qed
  then have "P (fst (run_jobs lib pol now js (fst (run_job lib pol now j db))))"
    by (rule Cons.IH) (rule Cons.prems(2), simp_all, rule Cons.prems(3), simp_all)
  then show ?case by (simp add: case_prod_beta)
qed simp

lemma claim_jobs_tables [simp]:
  "db_memories (fst (claim_jobs now limit db)) = db_memories db" "db_keys (fst (claim_jobs now limit db)) = db_keys db"
  "db_ledger (fst (claim_jobs now limit db)) = db_ledger db"
  "map mj_id (db_jobs (fst (claim_jobs now limit db))) = map mj_id (db_jobs db)"
  by (simp_all add: claim_jobs_def Let_def start_job_def)

lemma finish_job_tables [simp]:
  "db_memories (finish_job now i ok err db) = db_memories db" "db_keys (finish_job now i ok err db) = db_keys db"
  "db_ledger (finish_job now i ok err db) = db_ledger db"
  "map mj_id (db_jobs (finish_job now i ok err db)) = map mj_id (db_jobs db)"
  by (simp_all add: finish_job_def)

lemma claimed_payload:
  "j \<in> set (snd (claim_jobs now limit db)) \<Longrightarrow> \<exists>k\<in>set (db_jobs db). mj_type k = mj_type j \<and> mj_payload k = mj_payload j"
  by (auto simp: claim_jobs_def Let_def split: if_splits dest!: in_set_takeD)

lemma fst_drain: "fst (drain_jobs lib pol now limit db)
    = fst (run_jobs lib pol now (snd (claim_jobs now limit db)) (fst (claim_jobs now limit db)))"
  by (simp add: drain_jobs_def case_prod_beta)

section \<open>The tables stay consistent\<close>

definition rows_wf :: "memory_record list \<Rightarrow> bool" where
  "rows_wf rows =
     (distinct (map mr_id rows) \<and> (\<forall>r\<in>set rows. \<forall>s\<in>set rows. mr_id r \<noteq> mr_id s \<longrightarrow> \<not> same_key r s)
      \<and> (\<forall>r\<in>set rows. (mr_superseded_by r \<noteq> [] \<longrightarrow> mr_deleted r) \<and> 1 \<le> mr_version r))"

definition memory_wf :: "memory_db \<Rightarrow> bool" where
  "memory_wf db =
     (rows_wf (db_memories db) \<and> distinct (map wk_key (db_keys db)) \<and> distinct (map le_id (db_ledger db))
      \<and> distinct (map mj_id (db_jobs db)))"

lemma same_key_sym: "same_key r s = same_key s r"
  by (auto simp: same_key_def)

lemma rows_wf_marks:
  assumes "rows_wf rows" and "list_all2 marks rows rows'"
  shows "rows_wf rows'"
proof -
  have len: "length rows' = length rows" and at: "\<And>i. i < length rows \<Longrightarrow> marks (rows ! i) (rows' ! i)"
    using assms(2) by (auto simp: list_all2_conv_all_nth)
  have ids: "map mr_id rows' = map mr_id rows"
    using at len by (auto simp: list_eq_iff_nth_eq marks_def)
  have orig: "\<exists>s\<in>set rows. marks s r" if "r \<in> set rows'" for r
    using that at len by (metis in_set_conv_nth)
  have "\<not> same_key r s" if rs: "r \<in> set rows'" "s \<in> set rows'" "mr_id r \<noteq> mr_id s" for r s
  proof -
    obtain r0 s0 where "r0 \<in> set rows" "marks r0 r" "s0 \<in> set rows" "marks s0 s" using orig rs by blast
    then show ?thesis using assms(1) rs(3) by (fastforce simp: rows_wf_def marks_def same_key_def)
  qed
  moreover have "(mr_superseded_by r \<noteq> [] \<longrightarrow> mr_deleted r) \<and> 1 \<le> mr_version r" if "r \<in> set rows'" for r
    using orig [OF that] assms(1) by (fastforce simp: rows_wf_def marks_def)
  ultimately show ?thesis using assms(1) ids by (simp add: rows_wf_def)
qed

lemma rows_wf_update:
  assumes "rows_wf (db_memories db)" and "update_record r e db = Inr (d, ok)"
    and "mr_superseded_by r \<noteq> [] \<longrightarrow> mr_deleted r" and "1 \<le> mr_version r"
  shows "rows_wf (db_memories d)"
proof (cases ok)
  case False
  then have "map (write_row r e) (db_memories db) = db_memories db"
    using update_record_memories(6) [OF assms(2)] by (intro map_idI) (auto simp: write_row_def list_ex_iff)
  then show ?thesis using assms(1) update_record_memories(1) [OF assms(2)] by simp
next
  case True
  let ?rows = "db_memories d"
  have rows: "?rows = map (write_row r e) (db_memories db)" by (rule update_record_memories(1) [OF assms(2)])
  have other: "row \<in> set (db_memories db)" if "row \<in> set ?rows" "mr_id row \<noteq> mr_id r" for row
    using that by (auto simp: rows write_row_other)
  have "\<not> same_key x y" if xy: "x \<in> set ?rows" "y \<in> set ?rows" "mr_id x \<noteq> mr_id y" for x y
  proof -
    note clash = update_record_memories(5) [OF assms(2) True]
    consider "mr_id x = mr_id r" | "mr_id y = mr_id r" | "mr_id x \<noteq> mr_id r" "mr_id y \<noteq> mr_id r" by blast
    then show ?thesis
    proof cases
      case 1
      then show ?thesis using clash [OF xy(1) 1 xy(2)] xy(3) by simp
    next
      case 2
      then show ?thesis using clash [OF xy(2) 2 xy(1)] xy(3) same_key_sym [of x y] by simp
    next
      case 3
      then show ?thesis using other xy assms(1) by (simp add: rows_wf_def)
    qed
  qed
  moreover have "map mr_id ?rows = map mr_id (db_memories db)" by (simp add: rows)
  moreover have "(mr_superseded_by x \<noteq> [] \<longrightarrow> mr_deleted x) \<and> 1 \<le> mr_version x" if "x \<in> set ?rows" for x
    using that assms(1,3,4) by (auto simp: rows rows_wf_def write_row_def)
  ultimately show ?thesis using assms(1) by (simp add: rows_wf_def)
qed

lemma rows_wf_insert:
  assumes "rows_wf (db_memories d)" and "inserts r d d'" and "mr_superseded_by r = []" and "mr_version r = 1"
  shows "rows_wf (db_memories d')"
proof -
  have new: "\<not> same_key (stored_row r) s" "\<not> same_key s (stored_row r)" "mr_id s \<noteq> mr_id r" if "s \<in> set (db_memories d)" for s
    using that assms(2) same_key_sym [of s "stored_row r"] by (auto simp: inserts_def)
  have rows: "db_memories d' = db_memories d @ [stored_row r]" using assms(2) by (simp add: inserts_def)
  have "mr_id r \<notin> set (map mr_id (db_memories d))" using new(3) by fastforce
  then have "distinct (map mr_id (db_memories d'))" using assms(1) by (simp add: rows rows_wf_def)
  moreover have "\<not> same_key x y" if "x \<in> set (db_memories d')" "y \<in> set (db_memories d')" "mr_id x \<noteq> mr_id y" for x y
    using that new(1,2) assms(1) by (auto simp: rows rows_wf_def)
  moreover have "(mr_superseded_by x \<noteq> [] \<longrightarrow> mr_deleted x) \<and> 1 \<le> mr_version x" if "x \<in> set (db_memories d')" for x
    using that assms(1,3,4) by (auto simp: rows rows_wf_def)
  ultimately show ?thesis by (simp add: rows_wf_def)
qed

definition entries_wf :: "memory_record list \<Rightarrow> bool" where
  "entries_wf ex = (\<forall>r\<in>set ex. (mr_superseded_by r \<noteq> [] \<longrightarrow> mr_deleted r) \<and> 1 \<le> mr_version r)"

lemma entries_wf_update: "entries_wf ex \<Longrightarrow> (mr_superseded_by r \<noteq> [] \<longrightarrow> mr_deleted r) \<and> 1 \<le> mr_version r \<Longrightarrow> entries_wf (ex[i := r])"
  by (auto simp: entries_wf_def dest!: set_update_subset_insert [THEN subsetD])

lemma entries_wf_nth: "entries_wf ex \<Longrightarrow> i < length ex \<Longrightarrow> (mr_superseded_by (ex ! i) \<noteq> [] \<longrightarrow> mr_deleted (ex ! i)) \<and> 1 \<le> mr_version (ex ! i)"
  by (simp add: entries_wf_def)

lemma rows_wf_write:
  assumes wf: "rows_wf (db_memories db)" and ents: "entries_wf ex"
    and run: "commit_write lib pol t u now p (db, ex, n) = Inr (db', ex', n')"
  shows "rows_wf (db_memories db') \<and> entries_wf ex'"
  using run
proof (cases rule: commit_write_outcome)
  case same
  then show ?thesis using wf ents by simp
next
  case (update i m e d ok)
  have m: "(mr_superseded_by (m\<lparr>mr_embedding := e\<rparr>) \<noteq> [] \<longrightarrow> mr_deleted (m\<lparr>mr_embedding := e\<rparr>)) \<and> 1 \<le> mr_version (m\<lparr>mr_embedding := e\<rparr>)"
    using apply_update_facts(4-6) [OF update(4)] entries_wf_nth [OF ents update(1)] by simp
  then have "rows_wf (db_memories d)" using rows_wf_update [OF wf update(6)] by blast
  then show ?thesis using entries_wf_update [OF ents m] update(5,7) by simp
next
  case (supersede i b d ok r ex1)
  have old: "(mr_superseded_by (retired now b (ex ! i)) \<noteq> [] \<longrightarrow> mr_deleted (retired now b (ex ! i))) \<and> 1 \<le> mr_version (retired now b (ex ! i))"
    using entries_wf_nth [OF ents supersede(1)] by (simp add: retired_def)
  then have d: "rows_wf (db_memories d)" using rows_wf_update [OF wf supersede(5)] by blast
  have e: "entries_wf ex1" using entries_wf_update [OF ents old] supersede(6) by simp
  show ?thesis using supersede(7,9) d e rows_wf_insert [OF d]
    by (auto simp: new_like_def entries_wf_def)
next
  case (insert r)
  then show ?thesis using rows_wf_insert [OF wf insert(2)] ents by (auto simp: new_like_def entries_wf_def)
qed

text \<open>The tables a commit leaves alone, and the write keys.\<close>

definition side_tables :: "memory_db \<Rightarrow> ledger_row list \<times> memory_job list" where
  "side_tables db = (db_ledger db, db_jobs db)"

lemma side_tables_simps [simp]:
  "side_tables (audit t u a r m db) = side_tables db"
  "side_tables (remember_idempotency p k t u db) = side_tables db"
  by (simp_all add: side_tables_def)

definition keys_wf :: "memory_db \<Rightarrow> bool" where
  "keys_wf db = distinct (map wk_key (db_keys db))"

lemma keys_wf_simps [simp]:
  "keys_wf (audit t u a r m db) = keys_wf db"
  "keys_wf db \<Longrightarrow> keys_wf (remember_idempotency p k t u db)"
  by (auto simp: keys_wf_def remember_idempotency_def Let_def list_ex_iff)

lemma side_tables_update: "update_record r e db = Inr (d, ok) \<Longrightarrow> side_tables d = side_tables db \<and> keys_wf d = keys_wf db"
  by (simp add: side_tables_def keys_wf_def update_record_memories)

lemma side_tables_insert: "insert_record r db = Inr d \<Longrightarrow> side_tables d = side_tables db \<and> keys_wf d = keys_wf db"
  by (simp add: side_tables_def keys_wf_def insert_record_memories)

lemma commit_insert_side:
  "commit_insert t u p b r (db, ex, n) = (db', ex', n') \<Longrightarrow> side_tables db' = side_tables db \<and> (keys_wf db \<longrightarrow> keys_wf db')"
  by (auto simp: commit_insert_def Let_def dest: side_tables_insert split: sum.splits if_splits)

lemma commit_update_side:
  "commit_update lib t u p i (db, ex, n) = Inr (db', ex', n') \<Longrightarrow> side_tables db' = side_tables db \<and> (keys_wf db \<longrightarrow> keys_wf db')"
  by (auto simp: commit_update_def Let_def ebind_eq_Inr dest: side_tables_update split: if_splits)

lemma supersede_side:
  "supersede t u now why i r db ex = Inr (db', ex', r') \<Longrightarrow> side_tables db' = side_tables db \<and> (keys_wf db \<longrightarrow> keys_wf db')"
  by (auto simp: supersede_def ebind_eq_Inr dest: side_tables_update)

lemma commit_write_side:
  assumes "commit_write lib pol t u now p (db, ex, n) = Inr (db', ex', n')"
  shows "side_tables db' = side_tables db \<and> (keys_wf db \<longrightarrow> keys_wf db')"
proof (cases "seen_key (wq_idempotency (pw_write p)) db")
  case (Some k)
  then show ?thesis using assms by (auto simp: commit_write_def)
next
  case None
  define c where "c = decide_write_action lib pol (pw_write p) (pw_embedding p) ex"
  have run: "commit_decided lib t u now p c (db, ex, n) = Inr (db', ex', n')"
    using assms None by (simp add: commit_write_def c_def)
  show ?thesis
  proof (cases "cd_action c"; cases "cd_target c")
    fix i assume "cd_action c = CA_SUPERSEDE" "cd_target c = Some i"
    with run obtain d e r where s: "supersede t u now (cd_reason c) i (new_record t u now p) db ex = Inr (d, e, r)"
      and ins: "commit_insert t u p True r (d, e, n) = (db', ex', n')"
      by (auto simp: commit_decided_def ebind_eq_Inr)
    show ?thesis using supersede_side [OF s] commit_insert_side [OF ins] by simp
  qed (use run commit_insert_side commit_update_side in \<open>auto simp: commit_decided_def\<close>)
qed

lemma remember_side:
  assumes "remember_writes env pol t u project now ws db = Inr (db', n)"
  shows "side_tables db' = side_tables db \<and> (keys_wf db \<longrightarrow> keys_wf db')"
  by (rule remember_writes_invariant [where P = "\<lambda>d _. side_tables d = side_tables db \<and> (keys_wf db \<longrightarrow> keys_wf d)", OF assms])
    (use commit_write_side in \<open>auto\<close>)

lemma remember_wf:
  assumes "memory_wf db" and "remember_writes env pol t u project now ws db = Inr (db', n)"
  shows "memory_wf db'"
proof -
  have "rows_wf (db_memories db')"
  proof (rule remember_writes_invariant [where P = "\<lambda>d ex. rows_wf (db_memories d) \<and> entries_wf ex", OF assms(2)])
    show "rows_wf (db_memories db) \<and> entries_wf (load_active t u db)"
      using assms(1) by (auto simp: memory_wf_def rows_wf_def entries_wf_def load_active_def)
    show "rows_wf (db_memories db)" using assms(1) by (simp add: memory_wf_def)
    show "rows_wf (db_memories d') \<and> entries_wf ex'"
      if "rows_wf (db_memories d) \<and> entries_wf ex" "commit_write (me_lib env) pol t u now p (d, ex, k) = Inr (d', ex', k')"
      for p d ex k d' ex' k' using that rows_wf_write by blast
  qed simp
  then show ?thesis
    using remember_side [OF assms(2)] assms(1) by (simp add: memory_wf_def side_tables_def keys_wf_def)
qed

lemma consolidate_one_wf:
  assumes "memory_wf db" and "consolidate_one lib pol now r (db, rep) = Inr (db', rep')"
    and "(mr_superseded_by r \<noteq> [] \<longrightarrow> mr_deleted r) \<and> 1 \<le> mr_version r"
  shows "memory_wf db'"
  using assms(2)
proof (cases rule: consolidate_one_outcome)
  case purge
  then show ?thesis using assms(1) by (auto simp: memory_wf_def rows_wf_def distinct_map_filter)
next
  case same
  then show ?thesis using assms(1) by simp
next
  case (refresh ok)
  then have "rows_wf (db_memories db')"
    using rows_wf_update [OF _ refresh(2)] assms(1,3) by (simp add: memory_wf_def)
  then show ?thesis using assms(1) update_record_memories(2-4) [OF refresh(2)] by (simp add: memory_wf_def)
qed

lemma memory_wf_audit [simp]: "memory_wf (audit t u a r m db) = memory_wf db"
  by (simp add: memory_wf_def)

lemma consolidate_wf:
  assumes "memory_wf db" and "consolidate lib pol now t u db = Inr (db', rep)"
  shows "memory_wf db'"
  by (rule consolidate_invariant [where P = memory_wf, OF assms(2,1) _ _ refl])
    (use assms(1) consolidate_one_wf in \<open>auto simp: memory_wf_def [of db] rows_wf_def\<close>)

lemma upsert_sources_ids:
  "distinct (map le_id rows) \<Longrightarrow> distinct (map le_id (fst (upsert_sources now es rows)))"
proof (induction es arbitrary: rows)
  case (Cons e es)
  have hit: "map le_id (map (\<lambda>row. if le_id row = le_id e then refresh_source now e row else row) rows) = map le_id rows"
    by (auto simp: refresh_source_def)
  show ?case
  proof (cases "list_ex (\<lambda>row. le_id row = le_id e) rows")
    case True
    then show ?thesis using Cons hit by (simp add: case_prod_beta Let_def del: map_map)
  next
    case False
    then have "le_id e \<notin> set (map le_id rows)" by (auto simp: list_ex_iff)
    then show ?thesis using False Cons by (simp add: case_prod_beta Let_def new_source_def)
  qed
qed simp

lemma finish_job_wf [simp]: "memory_wf (finish_job now i ok err db) = memory_wf db"
  unfolding memory_wf_def by simp

lemma memory_step_wf:
  assumes "memory_wf db"
  shows "memory_wf (memory_step pol op db)"
proof (cases op)
  case (Remember env t u project now ws)
  then show ?thesis using remember_wf [OF assms] assms by (auto intro!: settle_db_cases [where Q = memory_wf])
next
  case (Mark_recalled now ids t u s)
  have "memory_wf d" if "mark_recalled now ids t u s db = Inr d" for d
  proof -
    have "list_all2 marks (db_memories db) (db_memories d)"
      by (rule list_all2_mono [OF mark_recalled_rows(1) [OF that]]) simp
    then show ?thesis
      using mark_recalled_rows(2-4) [OF that] assms rows_wf_marks [of "db_memories db" "db_memories d"] by (simp add: memory_wf_def)
  qed
  then show ?thesis using Mark_recalled assms by (auto intro!: settle_db_cases [where Q = memory_wf])
next
  case (Upsert_sources now es)
  then show ?thesis using assms upsert_sources_ids by (simp add: upsert_source_ledger_def case_prod_beta memory_wf_def)
next
  case (Delete_sources t u run s)
  then show ?thesis using assms by (simp add: delete_source_ledger_def Let_def memory_wf_def distinct_map_filter)
next
  case (Consolidate lib now t u)
  then show ?thesis using consolidate_wf [OF assms] assms by (auto intro!: settle_db_cases [where Q = memory_wf])
next
  case (Enqueue i now t u project)
  then show ?thesis using assms
    by (auto simp: enqueue_job_def memory_wf_def list_ex_iff)
next
  case (Drain lib now limit)
  have "memory_wf (fst (claim_jobs now limit db))" using assms unfolding memory_wf_def by simp
  then have "memory_wf (fst (run_jobs lib pol now (snd (claim_jobs now limit db)) (fst (claim_jobs now limit db))))"
    by (rule run_jobs_invariant) (auto intro: consolidate_wf)
  then show ?thesis using Drain by (simp add: fst_drain)
qed (use assms rows_wf_marks [OF _ forgotten_marks] in
  \<open>auto simp: fst_delete_record delete_records_for_run_def delete_records_for_session_def memory_wf_def Let_def\<close>)

text \<open>
  C16. In every history of the memory database identifiers are unique, an active key names one record
  per tenant, user and type, what was superseded is deleted, and write keys, sources and jobs are unique.
\<close>

theorem memory_tables_consistent:
  assumes "memory_wf db"
  shows "memory_wf (fold (memory_step pol) ops db)"
  using assms by (induction ops arbitrary: db) (simp_all add: memory_step_wf)

section \<open>Users do not touch each other's memories\<close>

definition memories_of :: "string \<Rightarrow> string \<Rightarrow> memory_db \<Rightarrow> memory_record list" where
  "memories_of t u db = filter (owned t u) (db_memories db)"

text \<open>The operations of others; what the ledger and a drain touch is not a memory of the user by itself.\<close>

fun foreign_op :: "string \<Rightarrow> string \<Rightarrow> memory_op \<Rightarrow> bool" where
  "foreign_op t u (Remember env t' u' project now ws) = ((t', u') \<noteq> (t, u))"
| "foreign_op t u (Delete_record now rid t' u') = ((t', u') \<noteq> (t, u))"
| "foreign_op t u (Delete_all now t' u') = ((t', u') \<noteq> (t, u))"
| "foreign_op t u (Delete_for_run now t' u' run) = ((t', u') \<noteq> (t, u))"
| "foreign_op t u (Delete_for_session now t' u' s) = ((t', u') \<noteq> (t, u))"
| "foreign_op t u (Mark_recalled now ids t' u' s) = ((t', u') \<noteq> (t, u))"
| "foreign_op t u (Upsert_sources now es) = True"
| "foreign_op t u (Delete_sources t' u' run s) = True"
| "foreign_op t u (Consolidate lib now t' u') = ((t', u') \<noteq> (t, u))"
| "foreign_op t u (Enqueue i now t' u' project) = ((t', u') \<noteq> (t, u))"
| "foreign_op t u (Drain lib now limit) = True"

text \<open>No job of the table consolidates the memories of the user.\<close>

definition no_job_for :: "string \<Rightarrow> string \<Rightarrow> memory_db \<Rightarrow> bool" where
  "no_job_for t u db =
     (\<forall>j\<in>set (db_jobs db). (payload_str (mj_payload j) ''tenant_id'', payload_str (mj_payload j) ''user_id'') \<noteq> (t, u))"

lemma owned_unique: "owned t u r \<Longrightarrow> owned t' u' r \<Longrightarrow> t' = t \<and> u' = u"
  by (auto simp: owned_def)

lemma filter_write_row:
  assumes "(mr_tenant r, mr_user r) \<noteq> (t, u)"
  shows "filter (owned t u) (map (write_row r e) rows) = filter (owned t u) rows"
proof (induction rows)
  case (Cons row rows)
  have "owned t u row \<Longrightarrow> write_row r e row = row"
    using assms by (auto simp: write_row_def matches_row_def owned_def)
  then show ?case using Cons by simp
qed simp

lemma filter_forget:
  assumes "\<And>r. p r \<Longrightarrow> \<not> owned t u r"
  shows "filter (owned t u) (map (\<lambda>r. if p r then forget now r else r) rows) = filter (owned t u) rows"
proof (induction rows)
  case (Cons r rows)
  have "owned t u (forget now r) = owned t u r" by (simp add: owned_def forget_def)
  then show ?case using Cons assms [of r] by (cases "p r") simp_all
qed simp

lemma filter_list_all2:
  "list_all2 (\<lambda>r k. marks r k \<and> (\<not> owned t' u' r \<longrightarrow> k = r)) rows rows' \<Longrightarrow> (t', u') \<noteq> (t, u)
    \<Longrightarrow> filter (owned t u) rows' = filter (owned t u) rows"
  by (induction rule: list_all2_induct) (auto simp: owned_def marks_def)

lemma memories_of_audit [simp]: "memories_of t u (audit a b c d e db) = memories_of t u db"
  by (simp add: memories_of_def)

lemma memories_of_update:
  "update_record r e db = Inr (d, ok) \<Longrightarrow> (mr_tenant r, mr_user r) \<noteq> (t, u) \<Longrightarrow> memories_of t u d = memories_of t u db"
  by (simp add: memories_of_def update_record_memories filter_write_row)

definition entries_of :: "string \<Rightarrow> string \<Rightarrow> memory_record list \<Rightarrow> bool" where
  "entries_of t u ex = (\<forall>r\<in>set ex. owned t u r)"

lemma entries_of_update: "entries_of t u ex \<Longrightarrow> owned t u r \<Longrightarrow> entries_of t u (ex[i := r])"
  by (auto simp: entries_of_def dest!: set_update_subset_insert [THEN subsetD])

lemma entries_of_nth: "entries_of t u ex \<Longrightarrow> i < length ex \<Longrightarrow> owned t u (ex ! i)"
  by (simp add: entries_of_def)

lemma memories_of_insert: "inserts r d d' \<Longrightarrow> owned t' u' r \<Longrightarrow> (t', u') \<noteq> (t, u) \<Longrightarrow> memories_of t u d' = memories_of t u d"
  by (auto simp: inserts_def memories_of_def owned_def)

lemma foreign_write:
  assumes ents: "entries_of t' u' ex" and ne: "(t', u') \<noteq> (t, u)"
    and run: "commit_write lib pol t' u' now p (db, ex, n) = Inr (db', ex', n')"
  shows "memories_of t u db' = memories_of t u db \<and> entries_of t' u' ex'"
  using run
proof (cases rule: commit_write_outcome)
  case same
  then show ?thesis using ents by (simp add: memories_of_def)
next
  case (update i m e d ok)
  have m: "owned t' u' (m\<lparr>mr_embedding := e\<rparr>)"
    using apply_update_facts(2,3) [OF update(4)] entries_of_nth [OF ents update(1)] by (simp add: owned_def)
  then have "memories_of t u d = memories_of t u db"
    using memories_of_update [OF update(6)] ne by (simp add: owned_def)
  then show ?thesis using entries_of_update [OF ents m] update(5,7) by (simp add: memories_of_def)
next
  case (supersede i b d ok r ex1)
  have old: "owned t' u' (retired now b (ex ! i))"
    using entries_of_nth [OF ents supersede(1)] by (simp add: owned_def retired_def)
  then have d: "memories_of t u d = memories_of t u db"
    using memories_of_update [OF supersede(5)] ne by (simp add: owned_def)
  have e: "entries_of t' u' ex1" using entries_of_update [OF ents old] supersede(6) by simp
  have r: "owned t' u' r" using supersede(7) by (simp add: new_like_def)
  show ?thesis using supersede(9)
  proof (elim disjE conjE)
    assume "db_memories db' = db_memories d" "ex' = ex1"
    then show ?thesis using d e by (simp add: memories_of_def)
  next
    assume "inserts r d db'" "ex' = ex1 @ [r]"
    then show ?thesis using d e r memories_of_insert [OF _ r ne] by (simp add: entries_of_def)
  qed
next
  case (insert r)
  then have "owned t' u' r" by (simp add: new_like_def)
  then show ?thesis using memories_of_insert [OF insert(2) _ ne] insert(3) ents by (simp add: entries_of_def)
qed

lemma foreign_remember:
  assumes "remember_writes env pol t' u' project now ws db = Inr (db', n)" and ne: "(t', u') \<noteq> (t, u)"
  shows "memories_of t u db' = memories_of t u db"
proof (rule remember_writes_invariant [where P = "\<lambda>d ex. memories_of t u d = memories_of t u db \<and> entries_of t' u' ex", OF assms(1)])
  show "memories_of t u db = memories_of t u db \<and> entries_of t' u' (load_active t' u' db)"
    by (simp add: entries_of_def load_active_def)
  show "memories_of t u d' = memories_of t u db \<and> entries_of t' u' ex'"
    if "memories_of t u d = memories_of t u db \<and> entries_of t' u' ex"
      "commit_write (me_lib env) pol t' u' now p (d, ex, k) = Inr (d', ex', k')" for p d ex k d' ex' k'
    using foreign_write [OF _ ne that(2)] that(1) by simp
qed simp_all

lemma foreign_consolidate_one:
  assumes "consolidate_one lib pol now r (db, rep) = Inr (db', rep')" and "(mr_tenant r, mr_user r) \<noteq> (t, u)"
  shows "memories_of t u db' = memories_of t u db"
  using assms(1)
proof (cases rule: consolidate_one_outcome)
  case purge
  have "filter (\<lambda>s. owned t u s \<and> \<not> (mr_id s = mr_id r \<and> owned (mr_tenant r) (mr_user r) s)) (db_memories db)
      = filter (owned t u) (db_memories db)"
    by (rule filter_cong) (use assms(2) in \<open>auto simp: owned_def\<close>)
  then show ?thesis using purge by (simp add: memories_of_def conj_commute)
next
  case same
  then show ?thesis by simp
next
  case (refresh ok)
  then show ?thesis using memories_of_update [OF refresh(2)] assms(2) by simp
qed

lemma foreign_consolidate:
  assumes "consolidate lib pol now t' u' db = Inr (db', rep)" and "(t', u') \<noteq> (t, u)"
  shows "memories_of t u db' = memories_of t u db"
proof (rule consolidate_invariant [where P = "\<lambda>d. memories_of t u d = memories_of t u db", OF assms(1) refl _ _ refl])
  show "memories_of t u d' = memories_of t u db"
    if "r \<in> set (filter (owned t' u') (db_memories db))" "memories_of t u d = memories_of t u db"
      "consolidate_one lib pol now r (d, k) = Inr (d', k')" for r d k d' k'
    using foreign_consolidate_one [OF that(3), of t u] that(1,2) assms(2) by (simp add: owned_def)
qed simp

lemma consolidate_one_side: "consolidate_one lib pol now r (db, rep) = Inr (db', rep') \<Longrightarrow> side_tables db' = side_tables db"
  by (erule consolidate_one_outcome) (auto simp: side_tables_def update_record_memories)

lemma consolidate_jobs:
  assumes "consolidate lib pol now t u db = Inr (db', rep)"
  shows "side_tables db' = side_tables db"
  by (rule consolidate_invariant [where P = "\<lambda>d. side_tables d = side_tables db", OF assms refl _ _ refl])
    (auto dest: consolidate_one_side)

lemma no_job_claim: "no_job_for t u db \<Longrightarrow> no_job_for t u (fst (claim_jobs now limit db))"
  by (auto simp: no_job_for_def claim_jobs_def Let_def start_job_def)

lemma no_job_finish: "no_job_for t u db \<Longrightarrow> no_job_for t u (finish_job now i ok err db)"
  by (auto simp: no_job_for_def finish_job_def)

lemma no_job_side: "side_tables d = side_tables db \<Longrightarrow> no_job_for t u d = no_job_for t u db"
  by (simp add: no_job_for_def side_tables_def)

lemma foreign_step:
  assumes "foreign_op t u op" and "no_job_for t u db"
  shows "memories_of t u (memory_step pol op db) = memories_of t u db \<and> no_job_for t u (memory_step pol op db)"
    (is "?P (memory_step pol op db)")
proof (cases op)
  case (Remember env t' u' project now ws)
  have "?P (fst r)" if "remember_writes env pol t' u' project now ws db = Inr r" for r
    using foreign_remember [of env pol t' u' project now ws db "fst r" "snd r" t u] that assms Remember
      no_job_side [OF remember_side [THEN conjunct1, of env pol t' u' project now ws db "fst r" "snd r"]] by simp
  then have "?P (settle db fst (remember_writes env pol t' u' project now ws db))"
    using assms(2) by (intro settle_db_cases [where Q = ?P]) simp_all
  then show ?thesis using Remember by simp
next
  case (Mark_recalled now ids t' u' s)
  have "?P d" if "mark_recalled now ids t' u' s db = Inr d" for d
    using mark_recalled_rows [OF that] filter_list_all2 [OF mark_recalled_rows(1) [OF that]] assms Mark_recalled
    by (simp add: memories_of_def no_job_for_def)
  then have "?P (settle db id (mark_recalled now ids t' u' s db))"
    using assms(2) by (intro settle_db_cases [where Q = ?P]) simp_all
  then show ?thesis using Mark_recalled by simp
next
  case (Consolidate lib now t' u')
  have "?P (fst r)" if "consolidate lib pol now t' u' db = Inr r" for r
    using foreign_consolidate [of lib pol now t' u' db "fst r" "snd r" t u] that assms Consolidate
      no_job_side [OF consolidate_jobs, of lib pol now t' u' db "fst r" "snd r"] by simp
  then have "?P (settle db fst (consolidate lib pol now t' u' db))"
    using assms(2) by (intro settle_db_cases [where Q = ?P]) simp_all
  then show ?thesis using Consolidate by simp
next
  case (Enqueue i now t' u' project)
  have "payload_str (mj_payload (consolidation_job i now t' u' project)) ''tenant_id'' = t'"
    "payload_str (mj_payload (consolidation_job i now t' u' project)) ''user_id'' = u'"
    by (simp_all add: consolidation_job_def payload_str_def)
  then show ?thesis using Enqueue assms
    by (auto simp: memories_of_def no_job_for_def enqueue_job_def)
next
  case (Drain lib now limit)
  have "?P (fst (run_jobs lib pol now (snd (claim_jobs now limit db)) (fst (claim_jobs now limit db))))"
  proof (rule run_jobs_invariant)
    show "?P (fst (claim_jobs now limit db))" using assms(2) no_job_claim by (simp add: memories_of_def)
    fix j d d' rep
    assume j: "j \<in> set (snd (claim_jobs now limit db))" and d: "?P d"
      and run: "consolidate lib pol now (payload_str (mj_payload j) ''tenant_id'') (payload_str (mj_payload j) ''user_id'') d = Inr (d', rep)"
    have "(payload_str (mj_payload j) ''tenant_id'', payload_str (mj_payload j) ''user_id'') \<noteq> (t, u)"
      using claimed_payload [OF j] assms(2) by (auto simp: no_job_for_def)
    then show "?P d'" using foreign_consolidate [OF run] d no_job_side [OF consolidate_jobs [OF run]] by simp
  next
    fix j d ok err
    assume "?P d"
    then show "?P (finish_job now (mj_id j) ok err d)" by (simp add: memories_of_def no_job_finish)
  qed
  then show ?thesis using Drain by (simp add: fst_drain)
qed (use assms in \<open>auto simp: fst_delete_record delete_records_for_run_def delete_records_for_session_def memories_of_def Let_def
    no_job_for_def upsert_source_ledger_def delete_source_ledger_def case_prod_beta intro!: filter_forget dest: owned_unique\<close>)

end
