(* ===== verification/MemoryForget.thy ===== *)
theory MemoryForget
  imports MemoryHistory
begin

text \<open>
  Deletion, replay and recall of the long-term memory: no step makes a deleted memory live, a stale commit
  is the one way around it, a saved write leaves its key, and recall admits only live memories of its
  user that pass the gate of trust.
\<close>

section \<open>No step makes a deleted memory live\<close>

definition gone :: "string \<Rightarrow> memory_record list \<Rightarrow> bool" where
  "gone i rows = (\<forall>r\<in>set rows. mr_id r = i \<longrightarrow> mr_deleted r)"

lemma gone_write_row: "gone i rows \<Longrightarrow> mr_id r \<noteq> i \<or> mr_deleted r \<Longrightarrow> gone i (map (write_row r e) rows)"
  by (auto simp: gone_def write_row_def matches_row_def)

lemma gone_list_update: "gone i ex \<Longrightarrow> mr_id r \<noteq> i \<or> mr_deleted r \<Longrightarrow> gone i (ex[k := r])"
  by (auto simp: gone_def dest!: set_update_subset_insert [THEN subsetD])

lemma gone_nth: "gone i ex \<Longrightarrow> k < length ex \<Longrightarrow> \<not> mr_deleted (ex ! k) \<Longrightarrow> mr_id (ex ! k) \<noteq> i"
  by (auto simp: gone_def)

lemma gone_marks:
  assumes "gone i rows" and "list_all2 marks rows rows'"
  shows "gone i rows'"
  unfolding gone_def
proof safe
  fix k assume k: "k \<in> set rows'" "i = mr_id k"
  then obtain r where "r \<in> set rows" "marks r k" using assms(2) by (metis list_all2_conv_all_nth in_set_conv_nth)
  then show "mr_deleted k" using assms(1) k(2) by (auto simp: gone_def marks_def)
qed

lemma gone_write:
  assumes rows: "gone i (db_memories db)" and ents: "gone i ex" and fresh: "pw_new_id p \<noteq> i"
    and run: "commit_write lib pol t u now p (db, ex, n) = Inr (db', ex', n')"
  shows "gone i (db_memories db') \<and> gone i ex'"
  using run
proof (cases rule: commit_write_outcome)
  case same
  then show ?thesis using rows ents by simp
next
  case (update k m e d ok)
  have "mr_id (m\<lparr>mr_embedding := e\<rparr>) \<noteq> i"
    using apply_update_facts(1) [OF update(4)] gone_nth [OF ents update(1,2)] by simp
  then show ?thesis
    using update(5,7) update_record_memories(1) [OF update(6)] gone_write_row [OF rows] gone_list_update [OF ents] by simp
next
  case (supersede k b d ok r ex1)
  have old: "mr_deleted (retired now b (ex ! k))" by (simp add: retired_def)
  have d: "gone i (db_memories d)" using update_record_memories(1) [OF supersede(5)] gone_write_row [OF rows] old by simp
  have e: "gone i ex1" using supersede(6) gone_list_update [OF ents] old by simp
  show ?thesis using supersede(4,8,9) d e fresh by (auto simp: gone_def inserts_def)
next
  case (insert r)
  then show ?thesis using rows ents fresh by (auto simp: gone_def inserts_def)
qed

lemma prepare_all_new_id:
  "p \<in> set (prepare_all env pol project k ws) \<Longrightarrow> \<exists>j. pw_new_id p = me_new_id env j"
  by (induction ws arbitrary: k) (auto simp: prepare_write_def Let_def split: option.splits if_splits)

lemma gone_remember:
  assumes "remember_writes env pol t u project now ws db = Inr (db', n)" and "gone i (db_memories db)"
    and "\<And>j. me_new_id env j \<noteq> i"
  shows "gone i (db_memories db')"
proof (rule remember_writes_invariant [where P = "\<lambda>d ex. gone i (db_memories d) \<and> gone i ex", OF assms(1)])
  show "gone i (db_memories db) \<and> gone i (load_active t u db)"
    using assms(2) by (auto simp: gone_def load_active_def)
  show "gone i (db_memories d') \<and> gone i ex'"
    if "p \<in> set (prepare_all env pol project 0 (slice_to (mp_max_facts pol) ws))" "gone i (db_memories d) \<and> gone i ex"
      "commit_write (me_lib env) pol t u now p (d, ex, k) = Inr (d', ex', k')" for p d ex k d' ex' k'
    using gone_write [OF _ _ _ that(3)] that(2) prepare_all_new_id [OF that(1)] assms(3) by metis
qed (use assms(2) in simp_all)

lemma gone_consolidate_one:
  assumes "consolidate_one lib pol now r (db, rep) = Inr (db', rep')" and "gone i (db_memories db)"
    and "mr_id r = i \<Longrightarrow> mr_deleted r"
  shows "gone i (db_memories db')"
  using assms(1)
proof (cases rule: consolidate_one_outcome)
  case purge
  then show ?thesis using assms(2) by (auto simp: gone_def)
next
  case same
  then show ?thesis using assms(2) by simp
next
  case (refresh ok)
  then show ?thesis
    using update_record_memories(1) [OF refresh(2)] gone_write_row [OF assms(2), of "consolidate_row lib pol now r" None] assms(3) by auto
qed

lemma gone_consolidate:
  assumes "consolidate lib pol now t u db = Inr (db', rep)" and "gone i (db_memories db)"
  shows "gone i (db_memories db')"
proof (rule consolidate_invariant [where P = "\<lambda>d. gone i (db_memories d)", OF assms _ _ refl])
  show "gone i (db_memories d')"
    if "r \<in> set (filter (owned t u) (db_memories db))" "gone i (db_memories d)"
      "consolidate_one lib pol now r (d, k) = Inr (d', k')" for r d k d' k'
    by (rule gone_consolidate_one [OF that(3,2)]) (use that(1) assms(2) in \<open>auto simp: gone_def\<close>)
qed simp

text \<open>An operation that does not issue the identifier to a new record.\<close>

definition never_issues :: "string \<Rightarrow> memory_op \<Rightarrow> bool" where
  "never_issues i op = (case op of Remember env t u project now ws \<Rightarrow> \<forall>j. me_new_id env j \<noteq> i | _ \<Rightarrow> True)"

lemma gone_step:
  assumes "gone i (db_memories db)" and "never_issues i op"
  shows "gone i (db_memories (memory_step pol op db))" (is "?P (memory_step pol op db)")
proof (cases op)
  case (Remember env t u project now ws)
  have "?P (fst r)" if "remember_writes env pol t u project now ws db = Inr r" for r
    using gone_remember [of env pol t u project now ws db "fst r" "snd r"] that assms Remember by (simp add: never_issues_def)
  then have "?P (settle db fst (remember_writes env pol t u project now ws db))"
    using assms(1) by (intro settle_db_cases [where Q = ?P]) simp_all
  then show ?thesis using Remember by simp
next
  case (Mark_recalled now ids t u s)
  have "?P d" if "mark_recalled now ids t u s db = Inr d" for d
    by (rule gone_marks [OF assms(1) list_all2_mono [OF mark_recalled_rows(1) [OF that]]]) simp
  then have "?P (settle db id (mark_recalled now ids t u s db))"
    using assms(1) by (intro settle_db_cases [where Q = ?P]) simp_all
  then show ?thesis using Mark_recalled by simp
next
  case (Consolidate lib now t u)
  have "?P (fst r)" if "consolidate lib pol now t u db = Inr r" for r
    using gone_consolidate [of lib pol now t u db "fst r" "snd r"] that assms(1) by simp
  then have "?P (settle db fst (consolidate lib pol now t u db))"
    using assms(1) by (intro settle_db_cases [where Q = ?P]) simp_all
  then show ?thesis using Consolidate by simp
next
  case (Enqueue k now t u project)
  then show ?thesis using assms(1) by (simp add: enqueue_job_def)
next
  case (Drain lib now limit)
  have "?P (fst (run_jobs lib pol now (snd (claim_jobs now limit db)) (fst (claim_jobs now limit db))))"
    by (rule run_jobs_invariant) (use assms(1) gone_consolidate in \<open>auto\<close>)
  then show ?thesis using Drain by (simp add: fst_drain)
qed (use assms(1) gone_marks [OF _ forgotten_marks] in
  \<open>auto simp: fst_delete_record delete_records_for_run_def delete_records_for_session_def Let_def upsert_source_ledger_def
    delete_source_ledger_def case_prod_beta\<close>)

section \<open>Recall\<close>

lemma last_n_subset: "set (last_n n xs) \<subseteq> set xs"
  by (auto simp: last_n_def dest: in_set_dropD)

lemma slice_last_subset: "set (slice_last n xs) \<subseteq> set xs"
  by (auto simp: slice_last_def dest: in_set_dropD subsetD [OF last_n_subset])

lemma recall_selection_subset: "fst ` set (recall_selection lib pol now q project qemb k rs) \<subseteq> set rs"
  by (auto simp: recall_selection_def Let_def dest!: subsetD [OF slice_last_subset] subsetD [OF slice_to_subset])

lemma length_slice_last: "0 < n \<Longrightarrow> length (slice_last n xs) \<le> nat n"
  by (simp add: slice_last_def last_n_def)

lemma recall_selection_length: "0 < k \<Longrightarrow> length (recall_selection lib pol now q project qemb k rs) \<le> nat k"
  by (auto simp: recall_selection_def Let_def slice_to_def intro!: length_slice_last)

lemma recall_selection_one: "0 < k \<Longrightarrow> \<exists>s. recall_selection lib pol now q project qemb k [r] = [(r, s)]"
  by (auto simp: recall_selection_def Let_def slice_last_def last_n_def slice_to_def)

definition recall_eligible ::
  "memory_policy \<Rightarrow> int \<Rightarrow> string \<Rightarrow> string \<Rightarrow> memory_type list \<Rightarrow> string \<Rightarrow> memory_db \<Rightarrow> memory_record list" where
  "recall_eligible pol now tenant user mts target db =
     filter (recall_admits pol target) (filter (recall_active pol now mts) (load_active tenant user db))"

lemma backend_recall_records:
  "rc_records (backend_recall env pol now query tenant user top_k project mts target db) =
     (if recall_eligible pol now tenant user mts target db = [] then []
      else recall_selection (me_lib env) pol now query project (if mp_embedding_enabled pol then me_embed env query else []) top_k
             (recall_eligible pol now tenant user mts target db))"
  by (simp add: backend_recall_def hybrid_recall_def no_recall_def recall_eligible_def Let_def)

text \<open>
  C14. Recall returns at most the number of memories asked for, each of them a live and unexpired memory of
  the user, of a type asked for, whose trust reaches the minimum, and for a synthesis step the minimum of
  synthesis.
\<close>

theorem recall_is_admitted:
  assumes "res = backend_recall env pol now query tenant user top_k project mts target db"
    and "0 < top_k" and "(r, score) \<in> set (rc_records res)"
  shows "length (rc_records res) \<le> nat top_k \<and> r \<in> set (db_memories db) \<and> mr_tenant r = tenant \<and> mr_user r = user
    \<and> \<not> mr_deleted r \<and> mr_superseded_by r = [] \<and> \<not> record_is_expired now pol r
    \<and> mr_type r \<in> set (if mts = [] then recallable_types else mts)
    \<and> coerce_trust_tier (mp_min_recall_trust pol) UNTRUSTED \<le> mr_trust r
    \<and> (target \<in> set synthesis_step_types \<longrightarrow> coerce_trust_tier (mp_synthesis_min_trust pol) UNTRUSTED \<le> mr_trust r)"
proof -
  let ?elig = "recall_eligible pol now tenant user mts target db"
  have "length (rc_records res) \<le> nat top_k" and "r \<in> set ?elig"
    using assms recall_selection_length recall_selection_subset by (auto simp: backend_recall_records split: if_splits) fastforce+
  then show ?thesis
    by (auto simp: recall_eligible_def recall_active_def recall_admits_def is_recall_eligible_def trust_at_least_le load_active_def owned_def
        synthesis_step_types_def)
qed

section \<open>The key of a saved write\<close>

lemma key_remembered:
  assumes "wq_idempotency (pw_write p) = k" and "k \<noteq> []" and "py_strip k = k"
  shows "k \<in> wk_key ` set (db_keys (remember_idempotency p r t u d))"
  using assms by (auto simp: remember_idempotency_def non_empty_or_def Let_def list_ex_iff intro: rev_image_eqI)

lemma commit_insert_key:
  assumes "commit_insert t u p b r (db, ex, n) = (db', ex', n')" and "n' \<noteq> n"
    and "wq_idempotency (pw_write p) = k" and "k \<noteq> []" and "py_strip k = k"
  shows "k \<in> wk_key ` set (db_keys db')"
  using assms(1,2) key_remembered [OF assms(3-5)] by (auto simp: commit_insert_def Let_def split: sum.splits if_splits)

lemma commit_write_key:
  assumes run: "commit_write lib pol t u now p (db, ex, n) = Inr (db', ex', n')" and "n' \<noteq> n"
    and k: "wq_idempotency (pw_write p) = k" "k \<noteq> []" "py_strip k = k"
  shows "k \<in> wk_key ` set (db_keys db')"
proof (cases "seen_key (wq_idempotency (pw_write p)) db")
  case (Some x)
  then show ?thesis using assms(1,2) by (auto simp: commit_write_def)
next
  case None
  define c where "c = decide_write_action lib pol (pw_write p) (pw_embedding p) ex"
  have dec: "commit_decided lib t u now p c (db, ex, n) = Inr (db', ex', n')"
    using assms None by (simp add: commit_write_def c_def)
  show ?thesis
  proof (cases "cd_action c"; cases "cd_target c")
    fix i assume "cd_action c = CA_UPDATE" "cd_target c = Some i"
    with dec assms(2) show ?thesis
      by (auto simp: commit_decided_def commit_update_def ebind_eq_Inr Let_def split: if_splits intro!: key_remembered [OF k])
  next
    fix i assume "cd_action c = CA_SUPERSEDE" "cd_target c = Some i"
    with dec obtain d e r where "commit_insert t u p True r (d, e, n) = (db', ex', n')"
      by (auto simp: commit_decided_def ebind_eq_Inr)
    then show ?thesis by (rule commit_insert_key [OF _ assms(2) k])
  qed (use dec commit_insert_key [OF _ assms(2) k] assms(2) in \<open>auto simp: commit_decided_def\<close>)
qed

lemma seen_key_skips:
  assumes "wq_idempotency (pw_write p) \<in> wk_key ` set (db_keys db)" and "wq_idempotency (pw_write p) \<noteq> []"
  obtains m where "commit_write lib pol t u now p (db, ex, n) = Inr (audit t u ''noop'' m [(''reason'', PStr ''idempotent_replay'')] db, ex, n)"
proof -
  have "find (\<lambda>x. wk_key x = wq_idempotency (pw_write p)) (db_keys db) \<noteq> None"
    using assms(1) by (auto simp: find_None_iff)
  then obtain x where "seen_key (wq_idempotency (pw_write p)) db = Some x"
    using assms(2) by (auto simp: seen_key_def)
  then show ?thesis using that [of "Some (wk_record x)"] by (simp add: commit_write_def)
qed

text \<open>A single write, as its preparation and one commit.\<close>

lemma remember_one:
  "remember_writes env pol t u project now [w] db =
     (case (if slice_to (mp_max_facts pol) [w] = [] then None else prepare_write env pol project 0 w) of
        None \<Rightarrow> Inr (db, 0)
      | Some p \<Rightarrow> ebind (commit_write (me_lib env) pol t u now p (db, load_active t u db, 0)) (\<lambda>(d, _, k). Inr (d, k)))"
  by (cases "slice_to (mp_max_facts pol) [w]")
    (auto simp: remember_writes_unfold commit_writes_def slice_to_def ebind_def case_prod_beta split: option.splits sum.splits if_splits
      simp: Cons_eq_append_conv take_Cons')

section \<open>Where the store falls short\<close>

text \<open>A key is looked up whoever wrote it: the key of one tenant drops the write of another.\<close>

lemma foreign_key_suppresses:
  assumes "wk_tenant x \<noteq> tenant" and "x \<in> set (db_keys db)" and "wq_idempotency (pw_write p) = wk_key x" and "wk_key x \<noteq> []"
  shows "\<exists>d. commit_write lib pol tenant user now p (db, ex, n) = Inr (d, ex, n) \<and> db_memories d = db_memories db"
  using seen_key_skips [of p db lib pol tenant user now ex n] assms by (metis audit_simps(1) image_eqI)

text \<open>
  A deletion does not count as a version: an update computed from records loaded before the deletion
  writes the record back alive.
\<close>

lemma stale_commit_revives:
  assumes "r \<in> set (load_active tenant user db)" and "apply_update lib clock r w = Inr m"
    and "update_record m (Some (mr_version r)) (fst (delete_record now (mr_id r) tenant user db)) = Inr (db', ok)"
  shows "\<exists>s\<in>set (db_memories db'). mr_id s = mr_id r \<and> \<not> mr_deleted s"
proof -
  have r: "r \<in> set (db_memories db)" "owned tenant user r" "\<not> mr_deleted r" using assms(1) by (auto simp: load_active_def)
  note m = apply_update_facts [OF assms(2)]
  have "matches_row m (Some (mr_version r)) (forget now r)"
    using m(1-3) by (simp add: matches_row_def owned_def forget_def)
  then have "write_row m (Some (mr_version r)) (forget now r) = update_columns m (forget now r)" by (simp add: write_row_def)
  moreover have "forget now r \<in> set (db_memories (fst (delete_record now (mr_id r) tenant user db)))"
    using r by (auto simp: fst_delete_record intro!: image_eqI [of _ _ r])
  ultimately have "update_columns m (forget now r) \<in> set (db_memories db')"
    unfolding update_record_memories(1) [OF assms(3)] by (metis image_eqI list.set_map)
  then show ?thesis using m(4) r(3) by (intro bexI) (simp_all add: forget_def)
qed

text \<open>The identifier of a source is the same for different tenants when a colon moves between tenant and user.\<close>

lemma ledger_ids_collide:
  "source_ledger_id norm_url (a @ '':'' @ b) c project locator kind = source_ledger_id norm_url a (b @ '':'' @ c) project locator kind"
  by (simp add: source_ledger_id_def Let_def)

lemma foreign_source_overwritten:
  assumes "le_id row = le_id e" and "row \<in> set rows" and "le_id e \<noteq> []" and "le_locator e \<noteq> []"
  shows "refresh_source now e row \<in> set (fst (upsert_sources now [e] rows)) \<and> length (fst (upsert_sources now [e] rows)) = length rows"
  using assms by (auto simp: Let_def list_ex_iff)

text \<open>A confidence decays by the age of the record each time it is consolidated: the age is never reset.\<close>

lemma decay_keeps_age: "age_days now (consolidate_row lib pol earlier r) = age_days now r"
  by (simp add: age_days_def consolidate_row_def Let_def)

text \<open>A job that was started and not finished is never claimed again.\<close>

lemma running_job_stays:
  "j \<in> set (db_jobs db) \<Longrightarrow> mj_status j = ''running'' \<Longrightarrow> j \<in> set (db_jobs (fst (claim_jobs now limit db)))"
  by (auto simp: claim_jobs_def Let_def intro!: image_eqI [of _ _ j])

end
