(* ===== verification/MemoryInterleaving.thy ===== *)
theory MemoryInterleaving
  imports MemoryForget
begin

text \<open>
  Histories of the memory database in which writes are not atomic.  A call of \<open>remember_writes\<close>
  (\<open>sqlite_backend.py\<close>) loads the active memories of its user, waits for the embeddings and only then
  commits; other calls run in between and the commit decides on what was loaded.  The state is the database
  and the calls that have loaded and not committed.  What holds of every interleaving: users keep
  apart, the tables stay consistent, a write key never disappears, and a deleted memory stays deleted
  unless a call that loaded it before is still to commit.
\<close>

section \<open>Events\<close>

datatype memory_event =
    Whole memory_op
  | Load memory_env string string string "write_request list"
  | Commit nat int

type_synonym memory_state = "memory_db \<times> pending_write list"

text \<open>\<open>Commit k\<close> commits the \<open>k\<close>-th of the pending calls, in any order; one that raises changes nothing.\<close>

fun event_step :: "memory_policy \<Rightarrow> memory_event \<Rightarrow> memory_state \<Rightarrow> memory_state" where
  "event_step pol (Whole op) (db, cs) = (memory_step pol op db, cs)"
| "event_step pol (Load env t u project ws) (db, cs) =
     (db, case open_write env pol t u project ws db of None \<Rightarrow> cs | Some c \<Rightarrow> cs @ [c])"
| "event_step pol (Commit k now) (db, cs) =
     (if k < length cs
      then (settle db fst (commit_pending pol now (cs ! k) db), take k cs @ drop (Suc k) cs)
      else (db, cs))"

definition event_run :: "memory_policy \<Rightarrow> memory_event list \<Rightarrow> memory_state \<Rightarrow> memory_state" where
  "event_run pol es st = fold (event_step pol) es st"

lemma event_run_simps [simp]:
  "event_run pol [] st = st" "event_run pol (e # es) st = event_run pol es (event_step pol e st)"
  by (simp_all add: event_run_def)

text \<open>A load followed at once by its commit is the uninterrupted call.\<close>

lemma load_commit_is_remember:
  assumes "ws \<noteq> []"
  shows "event_run pol [Load env t u project ws, Commit (length cs) now] (db, cs)
    = (memory_step pol (Remember env t u project now ws) db, cs)"
  using assms by (simp add: open_write_def remember_writes_def)

lemma event_invariant:
  assumes "P (fst st) (snd st)" and "\<And>e. e \<in> set es \<Longrightarrow> ok e"
    and "\<And>op db cs. ok (Whole op) \<Longrightarrow> P db cs \<Longrightarrow> P (memory_step pol op db) cs"
    and "\<And>env t u project ws db cs c. ok (Load env t u project ws) \<Longrightarrow> P db cs
      \<Longrightarrow> open_write env pol t u project ws db = Some c \<Longrightarrow> P db (cs @ [c])"
    and "\<And>k now db cs. ok (Commit k now) \<Longrightarrow> P db cs \<Longrightarrow> k < length cs
      \<Longrightarrow> P (settle db fst (commit_pending pol now (cs ! k) db)) (take k cs @ drop (Suc k) cs)"
  shows "P (fst (event_run pol es st)) (snd (event_run pol es st))"
  using assms(1,2)
proof (induction es arbitrary: st)
  case (Cons e es)
  obtain db cs where st: "st = (db, cs)" by (cases st)
  have ok: "ok e" using Cons.prems(2) by simp
  have "P (fst (event_step pol e st)) (snd (event_step pol e st))"
  proof (cases e)
    case (Whole op)
    then show ?thesis using assms(3) Cons.prems(1) ok st by simp
  next
    case (Load env t u project ws)
    then show ?thesis using assms(4) Cons.prems(1) ok st by (auto split: option.splits)
  next
    case (Commit k now)
    then show ?thesis using assms(5) Cons.prems(1) ok st by simp
  qed
  then show ?case using Cons.IH [of "event_step pol e st"] Cons.prems(2) by simp
qed simp

lemma set_take_drop: "set (take k cs @ drop (Suc k) cs) \<subseteq> set cs"
  by (auto dest: in_set_takeD in_set_dropD)

lemma commit_pending_invariant:
  assumes "commit_pending pol now c db = Inr (db', n)" and "P db (pd_existing c)" and "\<And>d ex. P d ex \<Longrightarrow> Q d"
    and "\<And>p db ex n db' ex' n'. p \<in> set (pd_prepared c) \<Longrightarrow> P db ex
      \<Longrightarrow> commit_write (pd_lib c) pol (pd_tenant c) (pd_user c) now p (db, ex, n) = Inr (db', ex', n') \<Longrightarrow> P db' ex'"
  shows "Q db'"
proof -
  obtain ex where "commit_loop (pd_lib c) pol (pd_tenant c) (pd_user c) now (pd_prepared c) (db, pd_existing c, 0) = Inr (db', ex, n)"
    using assms(1) by (auto simp: commit_pending_def commit_writes_def ebind_eq_Inr)
  from commit_loop_invariant [where P = P, OF this assms(2)] assms(4) have "P db' ex" by blast
  then show ?thesis by (rule assms(3))
qed

lemma settle_commit:
  assumes "Q db" and "\<And>db' n. commit_pending pol now c db = Inr (db', n) \<Longrightarrow> Q db'"
  shows "Q (settle db fst (commit_pending pol now c db))"
  using assms by (auto simp: settle_def split: sum.splits)

lemma open_write_fields:
  assumes "open_write env pol t u project ws db = Some c"
  shows "pd_tenant c = t" "pd_user c = u" "pd_existing c = load_active t u db" "pd_lib c = me_lib env"
    "pd_prepared c = prepare_all env pol project 0 (slice_to (mp_max_facts pol) ws)"
  using assms by (auto simp: open_write_def split: if_splits)

section \<open>The tables stay consistent\<close>

definition pending_wf :: "pending_write list \<Rightarrow> bool" where
  "pending_wf cs = (\<forall>c\<in>set cs. entries_wf (pd_existing c))"

lemma commit_pending_side:
  assumes "commit_pending pol now c db = Inr (db', n)"
  shows "side_tables db' = side_tables db \<and> (keys_wf db \<longrightarrow> keys_wf db')"
proof (rule commit_pending_invariant [where P = "\<lambda>d _. side_tables d = side_tables db \<and> (keys_wf db \<longrightarrow> keys_wf d)", OF assms])
  show "side_tables d' = side_tables db \<and> (keys_wf db \<longrightarrow> keys_wf d')"
    if "side_tables d = side_tables db \<and> (keys_wf db \<longrightarrow> keys_wf d)"
      "commit_write (pd_lib c) pol (pd_tenant c) (pd_user c) now p (d, ex, k) = Inr (d', ex', k')"
    for p d ex k d' ex' k' using commit_write_side [OF that(2)] that(1) by simp
qed simp_all

lemma commit_pending_wf:
  assumes "memory_wf db" and "entries_wf (pd_existing c)" and "commit_pending pol now c db = Inr (db', n)"
  shows "memory_wf db'"
proof -
  have "rows_wf (db_memories db')"
  proof (rule commit_pending_invariant [where P = "\<lambda>d ex. rows_wf (db_memories d) \<and> entries_wf ex", OF assms(3)])
    show "rows_wf (db_memories db) \<and> entries_wf (pd_existing c)" using assms(1,2) by (simp add: memory_wf_def)
    show "rows_wf (db_memories d') \<and> entries_wf ex'"
      if "rows_wf (db_memories d) \<and> entries_wf ex"
        "commit_write (pd_lib c) pol (pd_tenant c) (pd_user c) now p (d, ex, k) = Inr (d', ex', k')"
      for p d ex k d' ex' k' using that rows_wf_write by blast
  qed simp
  moreover have "side_tables db' = side_tables db \<and> (keys_wf db \<longrightarrow> keys_wf db')"
    by (rule commit_pending_side [OF assms(3)])
  ultimately show ?thesis using assms(1) by (simp add: memory_wf_def side_tables_def keys_wf_def)
qed

lemma load_active_wf: "memory_wf db \<Longrightarrow> entries_wf (load_active t u db)"
  by (auto simp: memory_wf_def rows_wf_def entries_wf_def load_active_def)

lemma interleaved_tables_consistent:
  assumes "memory_wf db" and "pending_wf cs"
  shows "memory_wf (fst (event_run pol es (db, cs)))"
proof -
  have "memory_wf (fst (event_run pol es (db, cs))) \<and> pending_wf (snd (event_run pol es (db, cs)))"
  proof (rule event_invariant [where P = "\<lambda>d cs. memory_wf d \<and> pending_wf cs" and ok = "\<lambda>_. True"])
    fix env t u project ws c and d :: memory_db and cs
    assume "memory_wf d \<and> pending_wf cs" "open_write env pol t u project ws d = Some c"
    then show "memory_wf d \<and> pending_wf (cs @ [c])"
      using load_active_wf [of d t u] by (auto simp: pending_wf_def open_write_fields)
  next
    fix k now and d :: memory_db and cs
    assume wf: "memory_wf d \<and> pending_wf cs" and k: "k < length cs"
    then have "entries_wf (pd_existing (cs ! k))" by (simp add: pending_wf_def)
    then have "memory_wf (settle d fst (commit_pending pol now (cs ! k) d))"
      using wf commit_pending_wf by (intro settle_commit [where Q = memory_wf]) blast+
    then show "memory_wf (settle d fst (commit_pending pol now (cs ! k) d)) \<and> pending_wf (take k cs @ drop (Suc k) cs)"
      using wf set_take_drop [of k cs] by (auto simp: pending_wf_def)
  qed (use assms memory_step_wf in auto)
  then show ?thesis by simp
qed

section \<open>Users do not touch each other's memories\<close>

text \<open>The events of other users; a commit is of whoever loaded.\<close>

fun foreign_event :: "string \<Rightarrow> string \<Rightarrow> memory_event \<Rightarrow> bool" where
  "foreign_event t u (Whole op) = foreign_op t u op"
| "foreign_event t u (Load env t' u' project ws) = ((t', u') \<noteq> (t, u))"
| "foreign_event t u (Commit k now) = True"

text \<open>No write of the user is pending, and a pending call holds memories of its own user only.\<close>

definition no_write_of :: "string \<Rightarrow> string \<Rightarrow> pending_write list \<Rightarrow> bool" where
  "no_write_of t u cs =
     (\<forall>c\<in>set cs. (pd_tenant c, pd_user c) \<noteq> (t, u) \<and> entries_of (pd_tenant c) (pd_user c) (pd_existing c))"

lemma foreign_commit:
  assumes "commit_pending pol now c db = Inr (db', n)" and "(pd_tenant c, pd_user c) \<noteq> (t, u)"
    and "entries_of (pd_tenant c) (pd_user c) (pd_existing c)" and "no_job_for t u db"
  shows "memories_of t u db' = memories_of t u db \<and> no_job_for t u db'"
proof -
  have "memories_of t u db' = memories_of t u db"
  proof (rule commit_pending_invariant [where P = "\<lambda>d ex. memories_of t u d = memories_of t u db
        \<and> entries_of (pd_tenant c) (pd_user c) ex", OF assms(1)])
    show "memories_of t u d' = memories_of t u db \<and> entries_of (pd_tenant c) (pd_user c) ex'"
      if "memories_of t u d = memories_of t u db \<and> entries_of (pd_tenant c) (pd_user c) ex"
        "commit_write (pd_lib c) pol (pd_tenant c) (pd_user c) now p (d, ex, k) = Inr (d', ex', k')"
      for p d ex k d' ex' k' using foreign_write [OF _ assms(2) that(2)] that(1) by simp
  qed (use assms(3) in simp_all)
  moreover have "side_tables db' = side_tables db" using commit_pending_side [OF assms(1)] by simp
  ultimately show ?thesis using no_job_side assms(4) by blast
qed

text \<open>
  C15. Whatever other users of the same or another tenant do, their writes interleaved in any way and the
  shared job table drained at any time, the memories of a user stay as they are, as long as neither a
  consolidation job nor a loaded write of the user itself is pending.
\<close>

theorem memories_isolated:
  assumes "\<forall>e\<in>set es. foreign_event t u e" and "no_job_for t u db" and "no_write_of t u cs"
  shows "memories_of t u (fst (event_run pol es (db, cs))) = memories_of t u db"
proof -
  let ?P = "\<lambda>d cs. memories_of t u d = memories_of t u db \<and> no_job_for t u d \<and> no_write_of t u cs"
  have "?P (fst (event_run pol es (db, cs))) (snd (event_run pol es (db, cs)))"
  proof (rule event_invariant [where P = ?P and ok = "foreign_event t u"])
    fix op and d :: memory_db and cs
    assume "foreign_event t u (Whole op)" "?P d cs"
    then show "?P (memory_step pol op d) cs" using foreign_step [of t u op d pol] by simp
  next
    fix env t' u' project ws c and d :: memory_db and cs
    assume "foreign_event t u (Load env t' u' project ws)" "?P d cs" "open_write env pol t' u' project ws d = Some c"
    then show "?P d (cs @ [c])" by (auto simp: no_write_of_def open_write_fields entries_of_def load_active_def)
  next
    fix k now and d :: memory_db and cs
    assume P: "?P d cs" and k: "k < length cs"
    then have c: "(pd_tenant (cs ! k), pd_user (cs ! k)) \<noteq> (t, u)"
      "entries_of (pd_tenant (cs ! k)) (pd_user (cs ! k)) (pd_existing (cs ! k))" by (simp_all add: no_write_of_def)
    have "memories_of t u (settle d fst (commit_pending pol now (cs ! k) d)) = memories_of t u db
        \<and> no_job_for t u (settle d fst (commit_pending pol now (cs ! k) d))"
      using P foreign_commit [OF _ c]
      by (intro settle_commit [where Q = "\<lambda>d. memories_of t u d = memories_of t u db \<and> no_job_for t u d"]) auto
    then show "?P (settle d fst (commit_pending pol now (cs ! k) d)) (take k cs @ drop (Suc k) cs)"
      using P set_take_drop [of k cs] by (auto simp: no_write_of_def)
  qed (use assms in auto)
  then show ?thesis by simp
qed

section \<open>What is deleted stays deleted\<close>

text \<open>A pending call that neither loaded the record alive nor issues its identifier.\<close>

definition holds_none :: "string \<Rightarrow> pending_write \<Rightarrow> bool" where
  "holds_none i c = ((\<forall>r\<in>set (pd_existing c). mr_id r \<noteq> i \<or> mr_deleted r) \<and> (\<forall>p\<in>set (pd_prepared c). pw_new_id p \<noteq> i))"

fun event_issues_none :: "string \<Rightarrow> memory_event \<Rightarrow> bool" where
  "event_issues_none i (Whole op) = never_issues i op"
| "event_issues_none i (Load env t u project ws) = (\<forall>j. me_new_id env j \<noteq> i)"
| "event_issues_none i (Commit k now) = True"

lemma gone_commit:
  assumes "commit_pending pol now c db = Inr (db', n)" and "gone i (db_memories db)" and "holds_none i c"
  shows "gone i (db_memories db')"
proof (rule commit_pending_invariant [where P = "\<lambda>d ex. gone i (db_memories d) \<and> gone i ex", OF assms(1)])
  show "gone i (db_memories db) \<and> gone i (pd_existing c)" using assms(2,3) by (auto simp: holds_none_def gone_def)
  show "gone i (db_memories d') \<and> gone i ex'"
    if "p \<in> set (pd_prepared c)" "gone i (db_memories d) \<and> gone i ex"
      "commit_write (pd_lib c) pol (pd_tenant c) (pd_user c) now p (d, ex, k) = Inr (d', ex', k')" for p d ex k d' ex' k'
    using gone_write [OF _ _ _ that(3)] that(1,2) assms(3) by (simp add: holds_none_def)
qed simp

text \<open>
  C17. A deleted memory is never live again in any interleaving of operations, loads and commits, provided
  its identifier is not issued to a new record and no call that loaded the memory before its deletion is
  still to commit.
\<close>

theorem deleted_stays_deleted:
  assumes "\<forall>s\<in>set (db_memories db). mr_id s = i \<longrightarrow> mr_deleted s" and "\<forall>c\<in>set cs. holds_none i c"
    and "\<forall>e\<in>set es. event_issues_none i e"
    and "r \<in> set (db_memories (fst (event_run pol es (db, cs))))" and "mr_id r = i"
  shows "mr_deleted r"
proof -
  let ?P = "\<lambda>d cs. gone i (db_memories d) \<and> (\<forall>c\<in>set cs. holds_none i c)"
  have "?P (fst (event_run pol es (db, cs))) (snd (event_run pol es (db, cs)))"
  proof (rule event_invariant [where P = ?P and ok = "event_issues_none i"])
    show "?P (fst (db, cs)) (snd (db, cs))" using assms(1,2) by (simp add: gone_def)
  next
    fix op and d :: memory_db and cs
    assume "event_issues_none i (Whole op)" "?P d cs"
    then show "?P (memory_step pol op d) cs" using gone_step [of i d op pol] by simp
  next
    fix env t u project ws c and d :: memory_db and cs
    assume "event_issues_none i (Load env t u project ws)" "?P d cs" "open_write env pol t u project ws d = Some c"
    then show "?P d (cs @ [c])"
      by (auto simp: holds_none_def gone_def open_write_fields load_active_def dest!: prepare_all_new_id)
  next
    fix k now and d :: memory_db and cs
    assume P: "?P d cs" and k: "k < length cs"
    then have "gone i (db_memories (settle d fst (commit_pending pol now (cs ! k) d)))"
      using gone_commit by (intro settle_commit [where Q = "\<lambda>d. gone i (db_memories d)"]) auto
    then show "?P (settle d fst (commit_pending pol now (cs ! k) d)) (take k cs @ drop (Suc k) cs)"
      using P set_take_drop [of k cs] by auto
  qed (use assms(3) in auto)
  then show ?thesis using assms(4,5) by (simp add: gone_def)
qed

section \<open>A saved batch of keyed writes is applied once\<close>

definition has_keys :: "string set \<Rightarrow> memory_db \<Rightarrow> bool" where
  "has_keys ks db = (ks \<subseteq> wk_key ` set (db_keys db))"

lemma has_keys_simps [simp]:
  "has_keys ks (audit t u a r m db) = has_keys ks db"
  "has_keys ks db \<Longrightarrow> has_keys ks (remember_idempotency p k t u db)"
  by (auto simp: has_keys_def remember_idempotency_def Let_def)

lemma has_keys_cong: "db_keys d = db_keys db \<Longrightarrow> has_keys ks d = has_keys ks db"
  by (simp add: has_keys_def)

lemma commit_insert_keys: "commit_insert t u p b r (db, ex, n) = (db', ex', n') \<Longrightarrow> has_keys ks db \<Longrightarrow> has_keys ks db'"
  by (auto simp: commit_insert_def Let_def dest!: insert_record_memories(2) has_keys_cong split: sum.splits if_splits)

lemma commit_write_keys:
  assumes "commit_write lib pol t u now p (db, ex, n) = Inr (db', ex', n')" and "has_keys ks db"
  shows "has_keys ks db'"
proof (cases "seen_key (wq_idempotency (pw_write p)) db")
  case (Some k)
  then show ?thesis using assms by (auto simp: commit_write_def)
next
  case None
  define c where "c = decide_write_action lib pol (pw_write p) (pw_embedding p) ex"
  have run: "commit_decided lib t u now p c (db, ex, n) = Inr (db', ex', n')"
    using assms(1) None by (simp add: commit_write_def c_def)
  have upd: "has_keys ks d" if "update_record r e db = Inr (d, ok)" for r e d ok
    using assms(2) update_record_memories(2) [OF that] has_keys_cong by blast
  show ?thesis
  proof (cases "cd_action c"; cases "cd_target c")
    fix i assume "cd_action c = CA_UPDATE" "cd_target c = Some i"
    with run upd show ?thesis
      by (auto simp: commit_decided_def commit_update_def ebind_eq_Inr Let_def split: if_splits)
  next
    fix i assume "cd_action c = CA_SUPERSEDE" "cd_target c = Some i"
    with run obtain d e r where s: "supersede t u now (cd_reason c) i (new_record t u now p) db ex = Inr (d, e, r)"
      and ins: "commit_insert t u p True r (d, e, n) = (db', ex', n')"
      by (auto simp: commit_decided_def ebind_eq_Inr)
    have "has_keys ks d" using s upd by (auto simp: supersede_def ebind_eq_Inr)
    then show ?thesis by (rule commit_insert_keys [OF ins])
  qed (use run assms(2) commit_insert_keys in \<open>auto simp: commit_decided_def\<close>)
qed

lemma commit_pending_keys:
  assumes "commit_pending pol now c db = Inr (db', n)" and "has_keys ks db"
  shows "has_keys ks db'"
  by (rule commit_pending_invariant [where P = "\<lambda>d _. has_keys ks d", OF assms(1)])
    (use assms(2) commit_write_keys in \<open>auto\<close>)

lemma consolidate_keys:
  assumes "consolidate lib pol now t u db = Inr (db', rep)" and "has_keys ks db"
  shows "has_keys ks db'"
proof (rule consolidate_invariant [where P = "has_keys ks", OF assms _ _ refl])
  show "has_keys ks d'" if "has_keys ks d" "consolidate_one lib pol now r (d, k) = Inr (d', k')" for r d k d' k'
    using that(2) by (cases rule: consolidate_one_outcome)
      (use that(1) update_record_memories(2) in \<open>auto simp: has_keys_def\<close>)
qed simp

lemma memory_step_keys:
  assumes "has_keys ks db"
  shows "has_keys ks (memory_step pol op db)"
proof (cases op)
  case (Remember env t u project now ws)
  have "has_keys ks (settle db fst (remember_writes env pol t u project now ws db))"
    using assms commit_pending_keys
    by (intro settle_db_cases [where Q = "has_keys ks"]) (auto simp: remember_writes_def split: option.splits)
  then show ?thesis using Remember by simp
next
  case (Mark_recalled now ids t u s)
  have "has_keys ks (settle db id (mark_recalled now ids t u s db))"
    using assms mark_recalled_rows(2) by (intro settle_db_cases [where Q = "has_keys ks"]) (auto simp: has_keys_def)
  then show ?thesis using Mark_recalled by simp
next
  case (Consolidate lib now t u)
  then show ?thesis using assms consolidate_keys by (auto intro!: settle_db_cases [where Q = "has_keys ks"])
next
  case (Drain lib now limit)
  have "has_keys ks (fst (run_jobs lib pol now (snd (claim_jobs now limit db)) (fst (claim_jobs now limit db))))"
    by (rule run_jobs_invariant) (use assms consolidate_keys in \<open>auto simp: has_keys_def\<close>)
  then show ?thesis using Drain by (simp add: fst_drain)
qed (use assms in \<open>auto simp: has_keys_def fst_delete_record delete_records_for_run_def delete_records_for_session_def Let_def
    upsert_source_ledger_def delete_source_ledger_def enqueue_job_def case_prod_beta\<close>)

lemma event_keys:
  assumes "has_keys ks db"
  shows "has_keys ks (fst (event_run pol es (db, cs)))"
  by (rule event_invariant [where P = "\<lambda>d _. has_keys ks d" and ok = "\<lambda>_. True"])
    (use assms memory_step_keys commit_pending_keys in \<open>auto intro!: settle_commit [where Q = "has_keys ks"]\<close>)

lemma commit_insert_count: "commit_insert t u p b r (db, ex, n) = (db', ex', n') \<Longrightarrow> n' = n \<or> n' = Suc n"
  by (auto simp: commit_insert_def Let_def split: sum.splits)

lemma commit_write_count:
  assumes "commit_write lib pol t u now p (db, ex, n) = Inr (db', ex', n')"
  shows "n' = n \<or> n' = Suc n"
proof (cases "seen_key (wq_idempotency (pw_write p)) db")
  case (Some k)
  then show ?thesis using assms by (auto simp: commit_write_def)
next
  case None
  define c where "c = decide_write_action lib pol (pw_write p) (pw_embedding p) ex"
  have run: "commit_decided lib t u now p c (db, ex, n) = Inr (db', ex', n')"
    using assms None by (simp add: commit_write_def c_def)
  show ?thesis
    by (cases "cd_action c"; cases "cd_target c")
      (use run in \<open>auto simp: commit_decided_def commit_update_def ebind_eq_Inr Let_def dest: commit_insert_count split: if_splits\<close>)
qed

lemma commit_loop_bound:
  "commit_loop lib pol t u now ps (db, ex, n) = Inr (db', ex', n') \<Longrightarrow> n' \<le> n + length ps"
  by (induction ps arbitrary: db ex n) (fastforce simp: ebind_eq_Inr dest: commit_write_count)+

text \<open>A commit that saves all it prepared leaves the key of each write.\<close>

lemma commit_loop_saved:
  assumes "commit_loop lib pol t u now ps (db, ex, n) = Inr (db', ex', n')" and "n' = n + length ps"
    and "\<forall>p\<in>set ps. wq_idempotency (pw_write p) \<noteq> [] \<and> py_strip (wq_idempotency (pw_write p)) = wq_idempotency (pw_write p)"
  shows "has_keys ((\<lambda>p. wq_idempotency (pw_write p)) ` set ps) db'"
  using assms
proof (induction ps arbitrary: db ex n)
  case Nil
  then show ?case by (simp add: has_keys_def)
next
  case (Cons p ps)
  obtain d e k where step: "commit_write lib pol t u now p (db, ex, n) = Inr (d, e, k)"
    and rest: "commit_loop lib pol t u now ps (d, e, k) = Inr (db', ex', n')"
    using Cons.prems(1) by (auto simp: ebind_eq_Inr)
  have bound: "n' \<le> k + length ps" by (rule commit_loop_bound [OF rest])
  have k: "k = Suc n" using commit_write_count [OF step] bound Cons.prems(2) by auto
  have "has_keys {wq_idempotency (pw_write p)} d"
    using commit_write_key [OF step _ refl] k Cons.prems(3) by (simp add: has_keys_def)
  then have "has_keys {wq_idempotency (pw_write p)} db'"
    by (rule commit_loop_invariant [where P = "\<lambda>d _. has_keys {wq_idempotency (pw_write p)} d", OF rest]) (rule commit_write_keys)
  moreover have "has_keys ((\<lambda>p. wq_idempotency (pw_write p)) ` set ps) db'"
    using Cons.IH [OF rest] k Cons.prems(2,3) by simp
  ultimately show ?case by (simp add: has_keys_def)
qed

text \<open>Writes whose keys are known change no memory.\<close>

lemma commit_loop_skips:
  assumes "\<forall>p\<in>set ps. wq_idempotency (pw_write p) \<noteq> []" and "has_keys ((\<lambda>p. wq_idempotency (pw_write p)) ` set ps) db"
  shows "\<exists>d. commit_loop lib pol t u now ps (db, ex, n) = Inr (d, ex, n) \<and> db_memories d = db_memories db"
  using assms
proof (induction ps arbitrary: db)
  case (Cons p ps)
  obtain m where step: "commit_write lib pol t u now p (db, ex, n)
      = Inr (audit t u ''noop'' m [(''reason'', PStr ''idempotent_replay'')] db, ex, n)"
    using seen_key_skips [of p db lib pol t u now ex n] Cons.prems by (auto simp: has_keys_def)
  show ?case using Cons.IH [of "audit t u ''noop'' m [(''reason'', PStr ''idempotent_replay'')] db"] Cons.prems step
    by (auto simp: has_keys_def)
qed simp

lemma prepare_all_write:
  "p \<in> set (prepare_all env pol project k ws) \<Longrightarrow> \<exists>w\<in>set ws. wq_idempotency (pw_write p) = wq_idempotency w"
  by (induction ws arbitrary: k) (auto dest: prepare_write_keeps(5) [OF sym] split: option.splits)

lemma prepare_all_length: "length (prepare_all env pol project k ws) \<le> length ws"
  by (induction ws arbitrary: k) (auto split: option.splits intro: le_SucI)

lemma prepare_all_complete:
  assumes "length (prepare_all env pol project k ws) = length ws" and "w \<in> set ws"
  shows "\<exists>p\<in>set (prepare_all env pol project k ws). wq_idempotency (pw_write p) = wq_idempotency w"
  using assms
proof (induction ws arbitrary: k)
  case (Cons x ws)
  have "prepare_write env pol project k x \<noteq> None"
    using Cons.prems(1) prepare_all_length [of env pol project "Suc k" ws] by (auto split: option.splits)
  then obtain p where p: "prepare_write env pol project k x = Some p" by blast
  then show ?case using Cons by (auto dest: prepare_write_keeps(5))
qed simp

lemma slice_to_complete: "length (slice_to n xs) = length xs \<Longrightarrow> slice_to n xs = xs"
  by (cases "0 \<le> n"; cases xs) (auto simp: slice_to_def)

lemma slice_to_length: "length (slice_to n xs) \<le> length xs"
  by (simp add: slice_to_def)

lemma saved_batch_keys:
  assumes "open_write env pol t u project ws d0 = Some c" and "commit_pending pol now c db = Inr (db', length ws)"
    and "\<forall>w\<in>set ws. wq_idempotency w \<noteq> [] \<and> py_strip (wq_idempotency w) = wq_idempotency w"
  shows "has_keys (wq_idempotency ` set ws) db'"
proof -
  let ?ps = "prepare_all env pol project 0 (slice_to (mp_max_facts pol) ws)"
  obtain ex where run: "commit_loop (me_lib env) pol t u now ?ps (db, load_active t u d0, 0) = Inr (db', ex, length ws)"
    using assms(1,2) by (auto simp: open_write_fields commit_pending_def commit_writes_def ebind_eq_Inr)
  have "length ws \<le> length ?ps" "length ?ps \<le> length (slice_to (mp_max_facts pol) ws)"
      "length (slice_to (mp_max_facts pol) ws) \<le> length ws"
    using commit_loop_bound [OF run] by (simp_all only: add_0 prepare_all_length slice_to_length)
  then have len: "length ?ps = length ws" "slice_to (mp_max_facts pol) ws = ws"
    by (simp, intro slice_to_complete, simp)
  have "\<forall>p\<in>set ?ps. wq_idempotency (pw_write p) \<noteq> []
      \<and> py_strip (wq_idempotency (pw_write p)) = wq_idempotency (pw_write p)"
    using prepare_all_write assms(3) len(2) by metis
  then have "has_keys ((\<lambda>p. wq_idempotency (pw_write p)) ` set ?ps) db'"
    using commit_loop_saved [OF run] len(1) by simp
  moreover have "wq_idempotency ` set ws \<subseteq> (\<lambda>p. wq_idempotency (pw_write p)) ` set ?ps"
  proof
    fix x assume "x \<in> wq_idempotency ` set ws"
    then obtain w where w: "w \<in> set ws" "x = wq_idempotency w" by blast
    obtain p where "p \<in> set (prepare_all env pol project 0 ws)" "wq_idempotency (pw_write p) = wq_idempotency w"
      using prepare_all_complete [OF _ w(1), of env pol project 0] len by auto
    then show "x \<in> (\<lambda>p. wq_idempotency (pw_write p)) ` set ?ps" using w(2) len(2) by (metis image_eqI)
  qed
  ultimately show ?thesis by (auto simp: has_keys_def)
qed

text \<open>
  C18. A batch of writes with keys (that have no outer blanks) that was saved completely is applied once:
  after any interleaving of other operations the same batch, whenever it was loaded again, changes no
  memory and counts nothing.
\<close>

theorem write_applied_once:
  assumes "open_write env pol t u project ws d0 = Some c" and "commit_pending pol now c db = Inr (db', length ws)"
    and "\<forall>w\<in>set ws. wq_idempotency w \<noteq> [] \<and> py_strip (wq_idempotency w) = wq_idempotency w"
    and "open_write env' pol t u project ws d1 = Some c'"
    and "after = fst (event_run pol es (db', cs))"
  shows "\<exists>db''. commit_pending pol later c' after = Inr (db'', 0) \<and> db_memories db'' = db_memories after"
proof -
  have keys: "has_keys (wq_idempotency ` set ws) after"
    unfolding assms(5) by (rule event_keys [OF saved_batch_keys [OF assms(1-3)]])
  let ?ps = "pd_prepared c'"
  have ps: "\<exists>w\<in>set ws. wq_idempotency (pw_write p) = wq_idempotency w" if "p \<in> set ?ps" for p
    using that prepare_all_write slice_to_subset unfolding open_write_fields(5) [OF assms(4)] by (metis subsetD)
  have "\<exists>d. commit_loop (pd_lib c') pol t u later ?ps (after, pd_existing c', 0) = Inr (d, pd_existing c', 0)
      \<and> db_memories d = db_memories after"
    by (rule commit_loop_skips) (use ps keys assms(3) in \<open>fastforce simp: has_keys_def\<close>)+
  then show ?thesis
    using open_write_fields(1,2) [OF assms(4)] by (auto simp: commit_pending_def commit_writes_def)
qed

text \<open>
  A key with outer blanks is stored without them and looked up with them, so the write is not recognised
  when it comes back.
\<close>

lemma padded_key_unknown:
  assumes "\<forall>x\<in>set (db_keys db). wk_key x \<noteq> k" and "py_strip k \<noteq> k" and "wq_idempotency (pw_write p) = k"
  shows "seen_key k (remember_idempotency p r t u db) = None"
  using assms by (auto simp: seen_key_def remember_idempotency_def Let_def non_empty_or_def find_None_iff)

end
