(* ===== verification/MemoryJson.thy ===== *)
theory MemoryJson
  imports MemoryHistory FloatRepr
begin

text \<open>
  The files that replace the memory database in development
  (\<open>app/agent/memory/backend/json_backend.py\<close>): one file of records per tenant and user, one file of
  sources per project, and every operation on them.  A file is what \<open>json.loads\<close> makes of it, or
  \<open>None\<close> when it is not JSON.  The records go through \<open>to_dict\<close> and \<open>from_dict\<close>; the
  fields \<open>source\<close> and \<open>recall_score\<close>, which no operation reads, are written as every operation
  leaves them.
\<close>

type_synonym json_files = "pyval option dict"

text \<open>
  What the backend reads besides the files: the environment of a write, whether a character beyond ASCII
  is alphanumeric, the reading of a printed instant, and the identifiers and the clock that complete
  items without them.
\<close>

record json_env =
  je_env :: memory_env
  je_wide :: "string \<Rightarrow> bool"
  je_parse :: "string \<Rightarrow> int"
  je_id :: "nat \<Rightarrow> string"
  je_now :: "nat \<Rightarrow> nat \<Rightarrow> int"

definition je_iso :: "json_env \<Rightarrow> int \<Rightarrow> string" where
  "je_iso js = lib_iso (me_lib (je_env js))"

section \<open>Records as dictionaries\<close>

definition iso_or_empty :: "json_env \<Rightarrow> int option \<Rightarrow> pyval" where
  "iso_or_empty js t = PStr (case t of None \<Rightarrow> [] | Some i \<Rightarrow> je_iso js i)"

definition memory_record_to_dict :: "json_env \<Rightarrow> memory_record \<Rightarrow> pydict" where
  "memory_record_to_dict js r =
     [(''id'', PStr (mr_id r)), (''tenant_id'', PStr (mr_tenant r)), (''user_id'', PStr (mr_user r)),
      (''project_id'', PStr (mr_project r)), (''fact'', PStr (mr_fact r)),
      (''memory_type'', PStr (memory_type_value (mr_type r))), (''version'', PInt (mr_version r)),
      (''confidence'', float_value (mr_confidence r)), (''write_source'', PStr (write_source_value (mr_source r))),
      (''trust_tier'', PStr (trust_tier_value (mr_trust r))), (''provenance'', PDict (provenance_to_dict (mr_provenance r))),
      (''dedup_key'', PStr (mr_dedup r)), (''supersedes'', strs (mr_supersedes r)),
      (''superseded_by'', PStr (mr_superseded_by r)), (''recall_count'', PInt (mr_recalls r)),
      (''last_recalled_at'', iso_or_empty js (mr_last_recalled r)), (''as_of'', iso_or_empty js (mr_as_of r)),
      (''valid_from'', iso_or_empty js (mr_valid_from r)), (''valid_to'', iso_or_empty js (mr_valid_to r)),
      (''last_verified_at'', iso_or_empty js (mr_last_verified r)), (''observed_at'', iso_or_empty js (mr_observed r)),
      (''source_updated_at'', iso_or_empty js (mr_source_updated r)),
      (''confirmed_by_source_ids'', strs (mr_confirmed_by r)), (''confirmation_count'', PInt (mr_confirmations r)),
      (''human_confirmed'', PBool (mr_human_confirmed r)), (''idempotency_key'', PStr (mr_idempotency r)),
      (''entity'', PStr (mr_entity r)), (''attribute'', PStr (mr_attribute r)), (''value_text'', PStr (mr_value_text r)),
      (''valid_time'', PStr (mr_valid_time r)), (''created_at'', PStr (je_iso js (mr_created r))),
      (''updated_at'', PStr (je_iso js (mr_updated r))), (''source'', PStr ''remember''), (''task'', PStr (mr_task r)),
      (''topic'', PStr (mr_topic r)), (''session_id'', PStr (mr_session r)), (''is_deleted'', PBool (mr_deleted r)),
      (''metadata'', PDict (mr_metadata r)), (''recall_score'', PNone)]"

definition read_instant :: "json_env \<Rightarrow> pyval \<Rightarrow> int option" where
  "read_instant js v = (let s = str_or v [] in if s = [] then None else Some (je_parse js s))"

definition read_instant_or :: "json_env \<Rightarrow> pyval \<Rightarrow> int \<Rightarrow> int" where
  "read_instant_or js v t = (if truthy v then je_parse js (py_str v) else t)"

text \<open>\<open>float(v or x)\<close>.\<close>

definition float_or :: "pyval \<Rightarrow> pyfloat \<Rightarrow> pyfloat res" where
  "float_or v x = (if truthy v then py_float v else Inr x)"

definition provenance_of_value :: "pyval \<Rightarrow> provenance res" where
  "provenance_of_value v =
     (if \<not> truthy v then Inr empty_provenance
      else case v of PDict d \<Rightarrow> provenance_from_dict d | _ \<Rightarrow> Inl (AttributeError ''get''))"

definition enum_or :: "('a \<Rightarrow> string) \<Rightarrow> 'a list \<Rightarrow> 'a \<Rightarrow> pyval \<Rightarrow> 'a" where
  "enum_or val members d v = (case enum_parse val members (py_str v) of Some x \<Rightarrow> x | None \<Rightarrow> d)"

definition memory_record_from_dict :: "json_env \<Rightarrow> nat \<Rightarrow> pydict \<Rightarrow> memory_record res" where
  "memory_record_from_dict js i d =
     ebind (int_or (pget d ''version'') 1) (\<lambda>version.
     ebind (float_or (pget d ''confidence'') (fl (8 / 10))) (\<lambda>confidence.
     ebind (provenance_of_value (pget d ''provenance'')) (\<lambda>prov.
     ebind (str_list (pget d ''supersedes'')) (\<lambda>supersedes.
     ebind (int_or (pget d ''recall_count'') 0) (\<lambda>recalls.
     ebind (str_list (pget d ''confirmed_by_source_ids'')) (\<lambda>confirmed.
     ebind (int_or (pget d ''confirmation_count'') 0) (\<lambda>confirmations.
     ebind (dict_or_empty (pget d ''metadata'')) (\<lambda>metadata.
       Inr \<lparr>mr_id = str_or (pget d ''id'') (je_id js i), mr_tenant = str_or (pget d ''tenant_id'') ''default'',
         mr_user = str_or (pget d ''user_id'') [],
         mr_type = enum_or memory_type_value memory_types MT_SEMANTIC (pget_or d ''memory_type'' (PStr ''semantic'')),
         mr_fact = py_str (pget_or d ''fact'' (PStr [])), mr_version = version, mr_confidence = confidence,
         mr_source = enum_or write_source_value write_sources WS_FINALIZE (pget_or d ''write_source'' (PStr ''finalize'')),
         mr_task = py_str (pget_or d ''task'' (PStr [])), mr_topic = py_str (pget_or d ''topic'' (PStr [])),
         mr_session = py_str (pget_or d ''session_id'' (PStr [])), mr_embedding = [],
         mr_created = read_instant_or js (pget d ''created_at'') (je_now js i 0),
         mr_updated = read_instant_or js (por (pget d ''updated_at'') (pget d ''created_at'')) (je_now js i 1),
         mr_deleted = truthy (pget d ''is_deleted''), mr_metadata = metadata,
         mr_project = str_or (pget d ''project_id'') ''default'',
         mr_trust = coerce_trust_tier (py_str (pget d ''trust_tier'')) DERIVED, mr_provenance = prov,
         mr_dedup = str_or (pget d ''dedup_key'') [], mr_supersedes = supersedes,
         mr_superseded_by = str_or (pget d ''superseded_by'') [], mr_recalls = recalls,
         mr_last_recalled = read_instant js (pget d ''last_recalled_at''), mr_as_of = read_instant js (pget d ''as_of''),
         mr_valid_from = read_instant js (pget d ''valid_from''), mr_valid_to = read_instant js (pget d ''valid_to''),
         mr_last_verified = read_instant js (pget d ''last_verified_at''),
         mr_observed = read_instant js (por (pget d ''observed_at'') (pget d ''as_of'')),
         mr_source_updated = read_instant js (pget d ''source_updated_at''), mr_confirmed_by = confirmed,
         mr_confirmations = confirmations, mr_human_confirmed = truthy (pget d ''human_confirmed''),
         mr_idempotency = str_or (pget d ''idempotency_key'') [], mr_entity = str_or (pget d ''entity'') [],
         mr_attribute = str_or (pget d ''attribute'') [], mr_value_text = str_or (pget d ''value_text'') [],
         mr_valid_time = str_or (pget d ''valid_time'') []\<rparr>))))))))"

text \<open>The record of an item that is only a text.\<close>

definition bare_record :: "json_env \<Rightarrow> nat \<Rightarrow> string \<Rightarrow> memory_record" where
  "bare_record js i s =
     \<lparr>mr_id = je_id js i, mr_tenant = [], mr_user = [], mr_type = MT_SEMANTIC, mr_fact = s, mr_version = 1,
      mr_confidence = fl (8 / 10), mr_source = WS_FINALIZE, mr_task = [], mr_topic = [], mr_session = [],
      mr_embedding = [], mr_created = je_now js i 0, mr_updated = je_now js i 1, mr_deleted = False, mr_metadata = [],
      mr_project = ''default'', mr_trust = DERIVED, mr_provenance = empty_provenance, mr_dedup = [],
      mr_supersedes = [], mr_superseded_by = [], mr_recalls = 0, mr_last_recalled = None, mr_as_of = None,
      mr_valid_from = None, mr_valid_to = None, mr_last_verified = None, mr_observed = None,
      mr_source_updated = None, mr_confirmed_by = [], mr_confirmations = 0, mr_human_confirmed = False,
      mr_idempotency = [], mr_entity = [], mr_attribute = [], mr_value_text = [], mr_valid_time = []\<rparr>"

section \<open>Files\<close>

definition ascii_alnum :: "char \<Rightarrow> bool" where
  "ascii_alnum c =
     (let n = (of_char c :: nat) in 48 \<le> n \<and> n \<le> 57 \<or> 65 \<le> n \<and> n \<le> 90 \<or> 97 \<le> n \<and> n \<le> 122)"

definition safe_point :: "json_env \<Rightarrow> string \<Rightarrow> string" where
  "safe_point js p =
     (if (case p of [c] \<Rightarrow> ascii_alnum c \<or> c = CHR ''-'' \<or> c = CHR ''_'' | _ \<Rightarrow> je_wide js p) then p else ''_'')"

definition safe_name :: "json_env \<Rightarrow> string \<Rightarrow> string" where
  "safe_name js s = concat (map (safe_point js) (code_points s))"

definition memory_path :: "json_env \<Rightarrow> string \<Rightarrow> string \<Rightarrow> string" where
  "memory_path js tenant user = safe_name js tenant @ ''__'' @ safe_name js user @ ''.json''"

definition ledger_path :: "json_env \<Rightarrow> string \<Rightarrow> string \<Rightarrow> string \<Rightarrow> string" where
  "ledger_path js tenant user project =
     safe_name js tenant @ ''__'' @ safe_name js user @ ''__'' @ safe_name js project @ ''.sources.json''"

definition read_file :: "pyval option \<Rightarrow> pyval res" where
  "read_file f = (case f of Some v \<Rightarrow> Inr v | None \<Rightarrow> Inl (ValueError ''Expecting value''))"

text \<open>An item of a file; whatever it says, the record belongs to the owner who reads it.\<close>

definition load_item :: "json_env \<Rightarrow> string \<Rightarrow> string \<Rightarrow> nat \<times> pyval \<Rightarrow> memory_record list res" where
  "load_item js tenant user = (\<lambda>(i, v).
     case v of
       PStr s \<Rightarrow> Inr [(bare_record js i s)\<lparr>mr_tenant := tenant, mr_user := user\<rparr>]
     | PDict d \<Rightarrow> ebind (memory_record_from_dict js i d) (\<lambda>r. Inr [r\<lparr>mr_tenant := tenant, mr_user := user\<rparr>])
     | _ \<Rightarrow> Inr [])"

definition load_items :: "json_env \<Rightarrow> string \<Rightarrow> string \<Rightarrow> pyval \<Rightarrow> memory_record list res" where
  "load_items js tenant user raw =
     ebind (py_iter raw) (\<lambda>items.
     ebind (emap (load_item js tenant user) (List.enumerate 0 items)) (\<lambda>rss. Inr (concat rss)))"

definition json_load :: "json_env \<Rightarrow> string \<Rightarrow> string \<Rightarrow> json_files \<Rightarrow> memory_record list res" where
  "json_load js tenant user fs =
     (case dget fs (memory_path js tenant user) of
        None \<Rightarrow> Inr []
      | Some f \<Rightarrow> ebind (read_file f) (load_items js tenant user))"

definition json_save :: "json_env \<Rightarrow> string \<Rightarrow> string \<Rightarrow> memory_record list \<Rightarrow> json_files \<Rightarrow> json_files" where
  "json_save js tenant user rs fs =
     dput (memory_path js tenant user) (Some (PList (map (\<lambda>r. PDict (memory_record_to_dict js r)) rs))) fs"

section \<open>Recall and listing\<close>

definition json_recall ::
  "json_env \<Rightarrow> memory_policy \<Rightarrow> int \<Rightarrow> string \<Rightarrow> string \<Rightarrow> string \<Rightarrow> int \<Rightarrow> string \<Rightarrow> memory_type list \<Rightarrow> string
    \<Rightarrow> json_files \<Rightarrow> recall_result res" where
  "json_recall js pol now query tenant user top_k project mts target fs =
     ebind (json_load js tenant user fs) (\<lambda>rs.
       Inr (hybrid_recall (je_env js) pol now query rs top_k mts project target))"

definition json_list_records ::
  "json_env \<Rightarrow> memory_policy \<Rightarrow> int \<Rightarrow> string \<Rightarrow> string \<Rightarrow> bool \<Rightarrow> string \<Rightarrow> json_files \<Rightarrow> memory_record list res" where
  "json_list_records js pol now tenant user include_deleted project fs =
     ebind (json_load js tenant user fs) (\<lambda>rs.
       let live = (if include_deleted then rs else filter (\<lambda>r. \<not> mr_deleted r) rs);
           ordered = (if project \<noteq> [] \<and> project \<noteq> ''default''
                      then filter (\<lambda>r. mr_project r = project) live @ filter (\<lambda>r. mr_project r \<noteq> project) live else live)
       in Inr (filter (\<lambda>r. include_deleted \<or> \<not> record_is_expired now pol r) ordered))"

section \<open>Writes\<close>

definition json_new_record :: "string \<Rightarrow> string \<Rightarrow> int \<Rightarrow> prepared_write \<Rightarrow> memory_record" where
  "json_new_record tenant user now p =
     (let w = pw_write p
      in apply_validity_fields
           \<lparr>mr_id = pw_new_id p, mr_tenant = tenant, mr_user = user, mr_type = wq_type w, mr_fact = pw_fact p,
            mr_version = 1, mr_confidence = wq_confidence w, mr_source = wq_source w, mr_task = wq_task w,
            mr_topic = wq_topic w, mr_session = wq_session w, mr_embedding = [], mr_created = now,
            mr_updated = now, mr_deleted = False, mr_metadata = wq_metadata w, mr_project = default_project (wq_project w),
            mr_trust = resolved_trust_tier w, mr_provenance = resolved_provenance w, mr_dedup = wq_dedup w,
            mr_supersedes = [], mr_superseded_by = [], mr_recalls = 0, mr_last_recalled = None, mr_as_of = None,
            mr_valid_from = None, mr_valid_to = None, mr_last_verified = None, mr_observed = None,
            mr_source_updated = None, mr_confirmed_by = [], mr_confirmations = 0, mr_human_confirmed = False,
            mr_idempotency = wq_idempotency w, mr_entity = [], mr_attribute = [], mr_value_text = [],
            mr_valid_time = []\<rparr> w)"

definition json_retired :: "string \<Rightarrow> memory_record \<Rightarrow> memory_record" where
  "json_retired by old = old\<lparr>mr_deleted := True, mr_superseded_by := by\<rparr>"

text \<open>One write on the list of records, with the count of saved ones; there is no embedding.\<close>

definition json_write ::
  "json_env \<Rightarrow> memory_policy \<Rightarrow> string \<Rightarrow> string \<Rightarrow> int \<Rightarrow> prepared_write \<Rightarrow> memory_record list \<times> nat
    \<Rightarrow> (memory_record list \<times> nat) res" where
  "json_write js pol tenant user now p = (\<lambda>(rs, saved).
     let lib = me_lib (je_env js); w = pw_write p; d = decide_write_action lib pol w [] rs;
         r = json_new_record tenant user now p
     in case (cd_action d, cd_target d) of
          (CA_NOOP, _) \<Rightarrow> Inr (rs, saved)
        | (CA_UPDATE, Some i) \<Rightarrow>
            ebind (apply_update lib (pw_clock p) (rs ! i) w) (\<lambda>m. Inr (rs[i := apply_validity_fields m w], Suc saved))
        | (CA_SUPERSEDE, Some i) \<Rightarrow>
            Inr (rs[i := json_retired (mr_id r) (rs ! i)] @ [r\<lparr>mr_supersedes := [mr_id (rs ! i)]\<rparr>], Suc saved)
        | _ \<Rightarrow> Inr (rs @ [r], Suc saved))"

fun json_writes ::
  "json_env \<Rightarrow> memory_policy \<Rightarrow> string \<Rightarrow> string \<Rightarrow> int \<Rightarrow> prepared_write list \<Rightarrow> memory_record list \<times> nat
    \<Rightarrow> (memory_record list \<times> nat) res" where
  "json_writes js pol tenant user now [] st = Inr st"
| "json_writes js pol tenant user now (p # ps) st =
     ebind (json_write js pol tenant user now p st) (json_writes js pol tenant user now ps)"

definition json_remember_writes ::
  "json_env \<Rightarrow> memory_policy \<Rightarrow> string \<Rightarrow> string \<Rightarrow> string \<Rightarrow> int \<Rightarrow> write_request list \<Rightarrow> json_files
    \<Rightarrow> (json_files \<times> nat) res" where
  "json_remember_writes js pol tenant user project now ws fs =
     ebind (json_load js tenant user fs) (\<lambda>rs.
     ebind (json_writes js pol tenant user now
              (prepare_all (je_env js) (pol\<lparr>mp_embedding_enabled := False\<rparr>) project 0 (slice_to (mp_max_facts pol) ws)) (rs, 0))
       (\<lambda>(rs', saved). Inr (json_save js tenant user rs' fs, saved)))"

section \<open>Deletion\<close>

fun json_forget_first :: "int \<Rightarrow> string \<Rightarrow> memory_record list \<Rightarrow> memory_record list \<times> bool" where
  "json_forget_first now rid [] = ([], False)"
| "json_forget_first now rid (r # rs) =
     (if mr_id r = rid \<and> \<not> mr_deleted r then (forget now r # rs, True)
      else case json_forget_first now rid rs of (rs', changed) \<Rightarrow> (r # rs', changed))"

definition json_delete_record ::
  "json_env \<Rightarrow> int \<Rightarrow> string \<Rightarrow> string \<Rightarrow> string \<Rightarrow> json_files \<Rightarrow> (json_files \<times> bool) res" where
  "json_delete_record js now rid tenant user fs =
     ebind (json_load js tenant user fs) (\<lambda>rs.
       case json_forget_first now rid rs of (rs', changed) \<Rightarrow>
         Inr (if changed then json_save js tenant user rs' fs else fs, changed))"

text \<open>The loop the other deletions share: mark what satisfies a condition and save when something did.\<close>

definition json_forget_where ::
  "json_env \<Rightarrow> int \<Rightarrow> (memory_record \<Rightarrow> bool) \<Rightarrow> string \<Rightarrow> string \<Rightarrow> json_files \<Rightarrow> (json_files \<times> nat) res" where
  "json_forget_where js now p tenant user fs =
     ebind (json_load js tenant user fs) (\<lambda>rs.
       let n = length (filter p rs)
       in Inr (if n \<noteq> 0 then json_save js tenant user (map (\<lambda>r. if p r then forget now r else r) rs) fs else fs, n))"

definition json_delete_all :: "json_env \<Rightarrow> int \<Rightarrow> string \<Rightarrow> string \<Rightarrow> json_files \<Rightarrow> (json_files \<times> nat) res" where
  "json_delete_all js now tenant user = json_forget_where js now (\<lambda>r. \<not> mr_deleted r) tenant user"

definition json_delete_for_run ::
  "json_env \<Rightarrow> int \<Rightarrow> string \<Rightarrow> string \<Rightarrow> string \<Rightarrow> json_files \<Rightarrow> (json_files \<times> nat) res" where
  "json_delete_for_run js now tenant user run =
     json_forget_where js now (\<lambda>r. \<not> mr_deleted r \<and> pv_run_id (mr_provenance r) = run) tenant user"

definition json_delete_for_session ::
  "json_env \<Rightarrow> int \<Rightarrow> string \<Rightarrow> string \<Rightarrow> string \<Rightarrow> json_files \<Rightarrow> (json_files \<times> nat) res" where
  "json_delete_for_session js now tenant user session =
     json_forget_where js now (\<lambda>r. \<not> mr_deleted r \<and> mr_session r = session) tenant user"

section \<open>Sources\<close>

definition ledger_to_dict :: "json_env \<Rightarrow> ledger_row \<Rightarrow> pydict" where
  "ledger_to_dict js e =
     [(''id'', PStr (le_id e)), (''tenant_id'', PStr (le_tenant e)), (''user_id'', PStr (le_user e)),
      (''project_id'', PStr (le_project e)), (''source_kind'', PStr (le_kind e)), (''locator'', PStr (le_locator e)),
      (''quality'', PStr (le_quality e)), (''hit_count'', PInt (le_hits e)),
      (''last_used_at'', PStr (je_iso js (le_last_used e))), (''first_seen_at'', PStr (je_iso js (le_first_seen e))),
      (''last_checked_at'', PStr (je_iso js (le_last_checked e))), (''content_fingerprint'', PStr (le_fingerprint e)),
      (''query_purpose'', PStr (le_purpose e)), (''session_id'', PStr (le_session e)), (''run_id'', PStr (le_run e)),
      (''metadata'', PDict (le_metadata e))]"

definition ledger_from_dict :: "json_env \<Rightarrow> pydict \<Rightarrow> ledger_row res" where
  "ledger_from_dict js d =
     ebind (int_or (pget d ''hit_count'') 1) (\<lambda>hits.
     ebind (dict_or_empty (pget d ''metadata'')) (\<lambda>metadata.
       Inr \<lparr>le_id = str_or (pget d ''id'') [], le_tenant = str_or (pget d ''tenant_id'') ''default'',
         le_user = str_or (pget d ''user_id'') [], le_project = str_or (pget d ''project_id'') ''default'',
         le_kind = str_or (pget d ''source_kind'') ''url'', le_locator = str_or (pget d ''locator'') [],
         le_quality = str_or (pget d ''quality'') ''unknown'', le_hits = hits,
         le_last_used = read_instant_or js (pget d ''last_used_at'') 0,
         le_first_seen = read_instant_or js (pget d ''first_seen_at'') 0,
         le_last_checked = read_instant_or js (por (pget d ''last_checked_at'') (pget d ''last_used_at'')) 0,
         le_fingerprint = str_or (pget d ''content_fingerprint'') [], le_purpose = str_or (pget d ''query_purpose'') [],
         le_session = str_or (pget d ''session_id'') [], le_run = str_or (pget d ''run_id'') [],
         le_metadata = metadata\<rparr>))"

text \<open>A dictionary whose keys are values, for the comprehension that indexes the stored sources.\<close>

fun vput :: "pyval \<Rightarrow> 'a \<Rightarrow> (pyval \<times> 'a) list \<Rightarrow> (pyval \<times> 'a) list" where
  "vput k x [] = [(k, x)]"
| "vput k x ((k', y) # d) = (if py_eq k k' then (k', x) # d else (k', y) # vput k x d)"

fun vget :: "(pyval \<times> 'a) list \<Rightarrow> pyval \<Rightarrow> 'a option" where
  "vget [] k = None"
| "vget ((k', y) # d) k = (if py_eq k k' then Some y else vget d k)"

text \<open>Whatever goes wrong in the reading, the file counts as empty.\<close>

definition stored_sources :: "pyval option option \<Rightarrow> (pyval \<times> pydict) list" where
  "stored_sources f =
     (case f of
        Some (Some raw) \<Rightarrow>
          (case py_iter raw of
             Inl _ \<Rightarrow> []
           | Inr items \<Rightarrow>
               let ds = filter (\<lambda>d. truthy (pget d ''id'')) (map as_dict (filter is_dict items))
               in if list_all (\<lambda>d. hashable (pget d ''id'')) ds then fold (\<lambda>d. vput (pget d ''id'') d) ds [] else [])
      | _ \<Rightarrow> [])"

definition json_refresh_source :: "json_env \<Rightarrow> int \<Rightarrow> ledger_row \<Rightarrow> pydict \<Rightarrow> pydict res" where
  "json_refresh_source js now e prev =
     ebind (int_or (pget prev ''hit_count'') 1) (\<lambda>n.
       let d = dput ''run_id'' (PStr (le_run e)) (dput ''session_id'' (PStr (le_session e))
                 (dput ''last_used_at'' (PStr (je_iso js now)) (dput ''hit_count'' (PInt (n + 1)) prev)))
       in Inr (if le_quality e \<noteq> ''unknown'' then dput ''quality'' (PStr (le_quality e)) d else d))"

definition json_new_source :: "json_env \<Rightarrow> int \<Rightarrow> ledger_row \<Rightarrow> pydict" where
  "json_new_source js now e =
     dput ''last_used_at'' (PStr (je_iso js now)) (dput ''first_seen_at'' (PStr (je_iso js now)) (ledger_to_dict js e))"

definition json_upsert_source ::
  "json_env \<Rightarrow> int \<Rightarrow> ledger_row \<Rightarrow> (pyval \<times> pydict) list \<Rightarrow> (pyval \<times> pydict) list res" where
  "json_upsert_source js now e ds =
     (case vget ds (PStr (le_id e)) of
        Some prev \<Rightarrow>
          if prev \<noteq> [] then ebind (json_refresh_source js now e prev) (\<lambda>d. Inr (vput (PStr (le_id e)) d ds))
          else Inr (vput (PStr (le_id e)) (json_new_source js now e) ds)
      | None \<Rightarrow> Inr (vput (PStr (le_id e)) (json_new_source js now e) ds))"

fun json_upsert_sources ::
  "json_env \<Rightarrow> int \<Rightarrow> ledger_row list \<Rightarrow> (pyval \<times> pydict) list \<Rightarrow> (pyval \<times> pydict) list res" where
  "json_upsert_sources js now [] ds = Inr ds"
| "json_upsert_sources js now (e # es) ds = ebind (json_upsert_source js now e ds) (json_upsert_sources js now es)"

definition ledger_owner :: "ledger_row \<Rightarrow> string \<times> string \<times> string" where
  "ledger_owner e = (le_tenant e, le_user e, le_project e)"

text \<open>
  The groups are written one after the other: when one raises, the files of the earlier ones are written.
\<close>

fun json_upsert_groups ::
  "json_env \<Rightarrow> int \<Rightarrow> ledger_row list \<Rightarrow> (string \<times> string \<times> string) list \<Rightarrow> json_files \<Rightarrow> json_files \<times> nat res" where
  "json_upsert_groups js now es [] fs = (fs, Inr 0)"
| "json_upsert_groups js now es ((t, u, p) # ks) fs =
     (let path = ledger_path js t u p; group = filter (\<lambda>e. ledger_owner e = (t, u, p)) es
      in case json_upsert_sources js now group (stored_sources (dget fs path)) of
           Inl err \<Rightarrow> (fs, Inl err)
         | Inr ds \<Rightarrow>
             case json_upsert_groups js now es ks (dput path (Some (PList (map (\<lambda>kv. PDict (snd kv)) ds))) fs) of
               (fs', n) \<Rightarrow> (fs', ebind n (\<lambda>m. Inr (length group + m))))"

definition json_upsert_ledger :: "json_env \<Rightarrow> int \<Rightarrow> ledger_row list \<Rightarrow> json_files \<Rightarrow> json_files \<times> nat res" where
  "json_upsert_ledger js now es fs = json_upsert_groups js now es (fromkeys (map ledger_owner es)) fs"

text \<open>Instants printed in one zone are ordered as their texts.\<close>

definition json_list_ledger ::
  "json_env \<Rightarrow> string \<Rightarrow> string \<Rightarrow> string \<Rightarrow> int \<Rightarrow> json_files \<Rightarrow> ledger_row list res" where
  "json_list_ledger js tenant user project limit fs =
     (case dget fs (ledger_path js tenant user project) of
        Some (Some raw) \<Rightarrow>
          ebind (py_iter raw) (\<lambda>items.
          ebind (emap (ledger_from_dict js) (map as_dict (filter is_dict items))) (\<lambda>es.
            Inr (slice_to limit (sort_key (\<lambda>e. - le_last_used e) es))))
      | _ \<Rightarrow> Inr [])"

definition is_ledger_file :: "string \<Rightarrow> bool" where
  "is_ledger_file n = (drop (length n - 13) n = ''.sources.json'')"

definition source_removed :: "string \<Rightarrow> string \<Rightarrow> pydict \<Rightarrow> bool" where
  "source_removed run session d =
     (run \<noteq> [] \<and> py_eq (PStr run) (pget d ''run_id'') \<or> session \<noteq> [] \<and> py_eq (PStr session) (pget d ''session_id''))"

fun json_purge_file :: "string \<Rightarrow> string \<Rightarrow> pyval option \<Rightarrow> pyval option \<times> nat" where
  "json_purge_file run session None = (None, 0)"
| "json_purge_file run session (Some raw) =
     (let ds = map as_dict (filter is_dict (as_list raw))
      in (Some (PList (map PDict (filter (\<lambda>d. \<not> source_removed run session d) ds))),
          length (filter (source_removed run session) ds)))"

text \<open>Neither the tenant nor the user restricts the files that are visited.\<close>

definition json_delete_ledger ::
  "string \<Rightarrow> string \<Rightarrow> string \<Rightarrow> string \<Rightarrow> json_files \<Rightarrow> json_files \<times> nat" where
  "json_delete_ledger tenant user run session fs =
     (if run = [] \<and> session = [] then (fs, 0)
      else (map (\<lambda>(n, f). (n, if is_ledger_file n then fst (json_purge_file run session f) else f)) fs,
            sum_list (map (\<lambda>(n, f). if is_ledger_file n then snd (json_purge_file run session f) else 0) fs)))"

end
