(* ===== verification/MemoryJsonProps.thy ===== *)
theory MemoryJsonProps
  imports MemoryJson "HOL-Library.Multiset"
begin

text \<open>
  What the JSON backend promises: a record it wrote is the record it reads, and its deletions and listing
  are those of the database, for owners whose files are distinct.
\<close>

section \<open>A file reads back what was saved\<close>

definition iso_codec :: "json_env \<Rightarrow> bool" where
  "iso_codec js = (\<forall>t. je_iso js t \<noteq> [] \<and> je_parse js (je_iso js t) = t)"

text \<open>The records that survive a file: the fallbacks of \<open>from_dict\<close> replace what they lack.\<close>

definition storable :: "memory_record \<Rightarrow> bool" where
  "storable r =
     (mr_id r \<noteq> [] \<and> mr_embedding r = [] \<and> 1 \<le> mr_version r \<and> 0 < mr_confidence r \<and> mr_project r \<noteq> []
      \<and> mr_observed r \<noteq> None)"

lemma read_iso [simp]:
  assumes "iso_codec js"
  shows "read_instant js (iso_or_empty js t) = t"
    and "read_instant_or js (PStr (je_iso js n)) m = n"
    and "truthy (PStr (je_iso js n))"
    and "t \<noteq> None \<Longrightarrow> truthy (iso_or_empty js t)"
  using assms
  by (auto simp: iso_codec_def read_instant_def iso_or_empty_def read_instant_or_def str_or_def por_def split: option.splits)

lemma float_value_truthy [simp]: "truthy (float_value x) \<longleftrightarrow> x \<noteq> 0"
  by (simp add: float_value_def)

lemma provenance_of_value_dict [simp]: "provenance_of_value (PDict (provenance_to_dict p)) = Inr p"
  by (simp add: provenance_of_value_def provenance_json_Nil provenance_roundtrip)

lemma enum_or_values [simp]:
  "enum_or memory_type_value memory_types d (PStr (memory_type_value mt)) = mt"
  "enum_or write_source_value write_sources d' (PStr (write_source_value ws)) = ws"
  by (simp_all add: enum_or_def memory_type_enum.parse_val write_source_enum.parse_val)

lemma record_roundtrip:
  assumes js: "iso_codec js" and r: "storable r"
  shows "load_item js tenant user (i, PDict (memory_record_to_dict js r)) = Inr [r\<lparr>mr_tenant := tenant, mr_user := user\<rparr>]"
proof -
  have c: "float_or (float_value (mr_confidence r)) x = Inr (mr_confidence r)" for x
    using r by (simp add: float_or_def storable_def)
  have v: "int_or (PInt (mr_version r)) 1 = Inr (mr_version r)" "int_or (PInt n) 0 = Inr n" for n
    using r by (simp_all add: storable_def)
  have obs: "por (iso_or_empty js (mr_observed r)) w = iso_or_empty js (mr_observed r)" for w
    using r js by (simp add: por_def storable_def)
  have upd: "por (PStr (je_iso js n)) w = PStr (je_iso js n)" for n w
    using js by (simp add: por_def iso_codec_def)
  show ?thesis
    using r js
    by (simp add: load_item_def memory_record_from_dict_def memory_record_to_dict_def c v obs upd storable_def)
qed

lemma load_items_saved:
  assumes "iso_codec js" and "\<And>r. r \<in> set rs \<Longrightarrow> storable r"
  shows "load_items js tenant user (PList (map (\<lambda>r. PDict (memory_record_to_dict js r)) rs))
    = Inr (map (\<lambda>r. r\<lparr>mr_tenant := tenant, mr_user := user\<rparr>) rs)"
proof -
  have "emap (load_item js tenant user) (List.enumerate n (map (\<lambda>r. PDict (memory_record_to_dict js r)) rs))
        = Inr (map (\<lambda>r. [r\<lparr>mr_tenant := tenant, mr_user := user\<rparr>]) rs)" for n
    using assms(2)
  proof (induction rs arbitrary: n)
    case (Cons r rs)
    then show ?case using record_roundtrip [OF assms(1)] by simp
  qed simp
  moreover have "concat (map (\<lambda>r. [r\<lparr>mr_tenant := tenant, mr_user := user\<rparr>]) xs)
      = map (\<lambda>r. r\<lparr>mr_tenant := tenant, mr_user := user\<rparr>) xs" for xs
    by (induction xs) simp_all
  ultimately show ?thesis by (simp add: load_items_def)
qed

lemma load_saved_by:
  assumes "iso_codec js" and "\<And>r. r \<in> set rs \<Longrightarrow> storable r" and "memory_path js t u = memory_path js tenant user"
  shows "json_load js t u (json_save js tenant user rs fs) = Inr (map (\<lambda>r. r\<lparr>mr_tenant := t, mr_user := u\<rparr>) rs)"
  using load_items_saved [OF assms(1,2), of rs t u] assms(3) by (simp add: json_load_def json_save_def read_file_def)

lemma json_load_save:
  assumes "iso_codec js" and "\<And>r. r \<in> set rs \<Longrightarrow> storable r \<and> owned tenant user r"
  shows "json_load js tenant user (json_save js tenant user rs fs) = Inr rs"
proof -
  have "map (\<lambda>r. r\<lparr>mr_tenant := tenant, mr_user := user\<rparr>) rs = rs"
    using assms(2) by (intro map_idI) (auto simp: owned_def)
  then show ?thesis using load_saved_by [OF assms(1), of rs tenant user tenant user fs] assms(2) by auto
qed

lemma json_load_save_other:
  "memory_path js t u \<noteq> memory_path js tenant user
    \<Longrightarrow> json_load js t u (json_save js tenant user rs fs) = json_load js t u fs"
  by (simp add: json_load_def json_save_def)

section \<open>The contract of deletion\<close>

datatype forget_op = Forget_record string | Forget_all | Forget_run string | Forget_session string

type_synonym memory_owner = "string \<times> string"
type_synonym forget_step = "int \<times> memory_owner \<times> forget_op"

fun forgotten_by :: "forget_op \<Rightarrow> memory_record \<Rightarrow> bool" where
  "forgotten_by (Forget_record i) r = (mr_id r = i \<and> \<not> mr_deleted r)"
| "forgotten_by Forget_all r = (\<not> mr_deleted r)"
| "forgotten_by (Forget_run run) r = (\<not> mr_deleted r \<and> pv_run_id (mr_provenance r) = run)"
| "forgotten_by (Forget_session session) r = (\<not> mr_deleted r \<and> mr_session r = session)"

lemma forgotten_by_funs:
  "forgotten_by (Forget_record i) = (\<lambda>r. mr_id r = i \<and> \<not> mr_deleted r)"
  "forgotten_by Forget_all = (\<lambda>r. \<not> mr_deleted r)"
  "forgotten_by (Forget_run run) = (\<lambda>r. \<not> mr_deleted r \<and> pv_run_id (mr_provenance r) = run)"
  "forgotten_by (Forget_session session) = (\<lambda>r. \<not> mr_deleted r \<and> mr_session r = session)"
  by (rule ext, simp)+

definition forget_rows :: "int \<Rightarrow> forget_op \<Rightarrow> memory_record list \<Rightarrow> memory_record list" where
  "forget_rows now op rs = map (\<lambda>r. if forgotten_by op r then forget now r else r) rs"

fun run_forgets :: "(int \<Rightarrow> memory_owner \<Rightarrow> forget_op \<Rightarrow> 's \<Rightarrow> 's \<times> nat res) \<Rightarrow> forget_step list \<Rightarrow> 's \<Rightarrow> 's \<times> nat res list" where
  "run_forgets act [] s = (s, [])"
| "run_forgets act ((now, k, op) # xs) s =
     (case act now k op s of (s', n) \<Rightarrow> case run_forgets act xs s' of (s'', ns) \<Rightarrow> (s'', n # ns))"

lemma run_forgets_Cons:
  "run_forgets act ((now, k, op) # xs) s
   = (fst (run_forgets act xs (fst (act now k op s))), snd (act now k op s) # snd (run_forgets act xs (fst (act now k op s))))"
  by (simp split: prod.splits)

text \<open>What both backends should do: the rows of the owner change, those of nobody else.\<close>

definition spec_forget ::
  "int \<Rightarrow> memory_owner \<Rightarrow> forget_op \<Rightarrow> (memory_owner \<Rightarrow> memory_record list)
    \<Rightarrow> (memory_owner \<Rightarrow> memory_record list) \<times> nat res" where
  "spec_forget now k op v = (v(k := forget_rows now op (v k)), Inr (length (filter (forgotten_by op) (v k))))"

locale forgetting_backend =
  fixes ok :: "'s \<Rightarrow> bool"
    and owners :: "memory_owner set"
    and view :: "'s \<Rightarrow> memory_owner \<Rightarrow> memory_record list"
    and act :: "int \<Rightarrow> memory_owner \<Rightarrow> forget_op \<Rightarrow> 's \<Rightarrow> 's \<times> nat res"
  assumes act_ok: "ok s \<Longrightarrow> k \<in> owners \<Longrightarrow> ok (fst (act now k op s))"
    and act_count: "ok s \<Longrightarrow> k \<in> owners \<Longrightarrow> snd (act now k op s) = Inr (length (filter (forgotten_by op) (view s k)))"
    and act_own: "ok s \<Longrightarrow> k \<in> owners \<Longrightarrow> view (fst (act now k op s)) k = forget_rows now op (view s k)"
    and act_other: "ok s \<Longrightarrow> k \<in> owners \<Longrightarrow> k' \<in> owners \<Longrightarrow> k' \<noteq> k \<Longrightarrow> view (fst (act now k op s)) k' = view s k'"
begin

lemma run_implements:
  assumes "ok s" and "fst ` snd ` set xs \<subseteq> owners" and "\<forall>k\<in>owners. v k = view s k"
  shows "ok (fst (run_forgets act xs s))
    \<and> (\<forall>k\<in>owners. fst (run_forgets spec_forget xs v) k = view (fst (run_forgets act xs s)) k)
    \<and> snd (run_forgets act xs s) = snd (run_forgets spec_forget xs v)"
  using assms
proof (induction xs arbitrary: s v)
  case (Cons x xs)
  obtain now k op where x: "x = (now, k, op)" by (cases x) auto
  have k: "k \<in> owners" and sub: "fst ` snd ` set xs \<subseteq> owners" using Cons.prems(2) x by auto
  have "\<forall>k'\<in>owners. fst (spec_forget now k op v) k' = view (fst (act now k op s)) k'"
    using Cons.prems(1,3) k act_own act_other by (auto simp: spec_forget_def)
  moreover have "snd (spec_forget now k op v) = snd (act now k op s)"
    using act_count [OF Cons.prems(1) k] Cons.prems(3) k by (simp add: spec_forget_def)
  ultimately show ?case
    using Cons.IH [OF act_ok [OF Cons.prems(1) k] sub] by (simp add: x run_forgets_Cons del: run_forgets.simps(2))
qed simp

end

section \<open>The database keeps the contract\<close>

fun sql_forget :: "int \<Rightarrow> memory_owner \<Rightarrow> forget_op \<Rightarrow> memory_db \<Rightarrow> memory_db \<times> nat res" where
  "sql_forget now (t, u) (Forget_record i) db = (case delete_record now i t u db of (db', b) \<Rightarrow> (db', Inr (if b then 1 else 0)))"
| "sql_forget now (t, u) Forget_all db = (case delete_all now t u db of (db', n) \<Rightarrow> (db', Inr n))"
| "sql_forget now (t, u) (Forget_run run) db = (case delete_records_for_run now t u run db of (db', n) \<Rightarrow> (db', Inr n))"
| "sql_forget now (t, u) (Forget_session s) db = (case delete_records_for_session now t u s db of (db', n) \<Rightarrow> (db', Inr n))"

definition unique_ids :: "memory_db \<Rightarrow> bool" where
  "unique_ids db = distinct (map mr_id (db_memories db))"

lemma distinct_key_count:
  "distinct (map f xs) \<Longrightarrow> length (filter (\<lambda>x. f x = k \<and> P x) xs) = (if \<exists>x\<in>set xs. f x = k \<and> P x then 1 else 0)"
proof (induction xs)
  case (Cons x xs)
  have "filter (\<lambda>x. f x = k \<and> P x) xs = []" if "f x = k"
    using Cons.prems that by (auto simp: filter_empty_conv image_iff)
  with Cons show ?case by (cases "f x = k") (auto simp: filter_empty_conv)
qed simp

definition forget_in_db :: "int \<Rightarrow> memory_owner \<Rightarrow> forget_op \<Rightarrow> memory_db \<Rightarrow> memory_record list" where
  "forget_in_db now k op db =
     map (\<lambda>r. if owned (fst k) (snd k) r \<and> forgotten_by op r then forget now r else r) (db_memories db)"

lemma run_ids:
  assumes "distinct (map mr_id rows)" and "r \<in> set rows"
  shows "owned t u r \<and> mr_id r \<in> mr_id ` {x \<in> set rows. owned t u x \<and> P x} \<longleftrightarrow> owned t u r \<and> P r"
  using assms by (auto dest: inj_onD [OF distinct_map [THEN iffD1, THEN conjunct2]])

lemma forget_where_rows:
  "db_memories (fst (forget_where now p db)) = map (\<lambda>r. if p r then forget now r else r) (db_memories db)"
  "snd (forget_where now p db) = length (filter p (db_memories db))"
  by (simp_all add: forget_where_def)

lemma sql_forget_rows:
  assumes "unique_ids db"
  shows "db_memories (fst (sql_forget now (t, u) op db)) = forget_in_db now (t, u) op db
    \<and> snd (sql_forget now (t, u) op db) = Inr (length (filter (\<lambda>r. owned t u r \<and> forgotten_by op r) (db_memories db)))"
proof (cases op)
  case (Forget_record i)
  let ?p = "\<lambda>r. mr_id r = i \<and> owned t u r \<and> \<not> mr_deleted r"
  have eq: "?p r \<longleftrightarrow> owned t u r \<and> mr_id r = i \<and> \<not> mr_deleted r" for r by auto
  have "length (filter ?p (db_memories db)) = (if \<exists>x\<in>set (db_memories db). ?p x then 1 else 0)"
    using distinct_key_count [of mr_id "db_memories db" i "\<lambda>r. owned t u r \<and> \<not> mr_deleted r"] assms
    by (simp add: unique_ids_def)
  then show ?thesis
    by (simp add: Forget_record delete_record_def forget_in_db_def forget_where_def eq split: if_splits)
next
  case Forget_all
  show ?thesis
    by (simp add: Forget_all delete_all_def forget_in_db_def forget_where_def audit_def)
next
  case (Forget_run run)
  let ?P = "\<lambda>r. \<not> mr_deleted r \<and> pv_run_id (mr_provenance r) = run"
  have ids: "owned t u r \<and> mr_id r \<in> mr_id ` {x \<in> set (db_memories db). owned t u x \<and> ?P x} \<longleftrightarrow> owned t u r \<and> ?P r"
    if "r \<in> set (db_memories db)" for r
    using run_ids [OF _ that, where P = ?P] assms by (simp add: unique_ids_def)
  show ?thesis
  proof (cases "filter (\<lambda>r. owned t u r \<and> ?P r) (db_memories db) = []")
    case True
    then have "forget_in_db now (t, u) op db = db_memories db"
      by (auto simp: forget_in_db_def Forget_run filter_empty_conv intro!: map_idI)
    then show ?thesis using True
      by (simp add: Forget_run delete_records_for_run_def)
  next
    case False
    then show ?thesis
      using ids
      by (simp add: Forget_run delete_records_for_run_def forget_in_db_def forget_where_def cong: map_cong filter_cong)
  qed
next
  case (Forget_session s)
  have eq: "owned t u r \<and> mr_session r = s \<and> \<not> mr_deleted r \<longleftrightarrow> owned t u r \<and> \<not> mr_deleted r \<and> mr_session r = s" for r
    by auto
  show ?thesis
    by (simp add: Forget_session delete_records_for_session_def forget_in_db_def forget_where_def eq)
qed

lemma owned_forget [simp]: "owned t u (forget now r) = owned t u r"
  by (simp add: owned_def forget_def)

lemma view_forget_own: "filter (owned t u) (forget_in_db now (t, u) op db) = forget_rows now op (filter (owned t u) (db_memories db))"
proof -
  have "filter (owned t u) (map (\<lambda>r. if owned t u r \<and> forgotten_by op r then forget now r else r) rows)
        = forget_rows now op (filter (owned t u) rows)" for rows
    by (induction rows) (simp_all add: forget_rows_def)
  then show ?thesis by (simp add: forget_in_db_def)
qed

lemma view_forget_other: "k \<noteq> (t, u) \<Longrightarrow> filter (owned t u) (forget_in_db now k op db) = filter (owned t u) (db_memories db)"
  unfolding forget_in_db_def by (rule filter_forget) (cases k, auto simp: owned_def)

definition sql_view :: "memory_db \<Rightarrow> memory_owner \<Rightarrow> memory_record list" where
  "sql_view db = (\<lambda>(t, u). memories_of t u db)"

interpretation sql_forgetting: forgetting_backend unique_ids owners sql_view sql_forget for owners
proof
  fix db op now and k k' :: memory_owner
  assume ok: "unique_ids db"
  obtain t u where k: "k = (t, u)" by (cases k) auto
  note rows = sql_forget_rows [OF ok, of now t u op]
  show "unique_ids (fst (sql_forget now k op db))"
    using rows ok by (simp add: k unique_ids_def forget_in_db_def forget_def o_def if_distrib cong: if_cong)
  show "snd (sql_forget now k op db) = Inr (length (filter (forgotten_by op) (sql_view db k)))"
    using rows by (simp add: k sql_view_def memories_of_def conj_commute)
  show "sql_view (fst (sql_forget now k op db)) k = forget_rows now op (sql_view db k)"
    using rows by (simp add: k sql_view_def memories_of_def view_forget_own)
  show "sql_view (fst (sql_forget now k op db)) k' = sql_view db k'" if "k' \<noteq> k"
    using rows that view_forget_other [of "(t, u)" "fst k'" "snd k'"] by (simp add: k sql_view_def memories_of_def case_prod_beta)
qed

section \<open>The files keep the contract\<close>

fun json_forget :: "json_env \<Rightarrow> int \<Rightarrow> memory_owner \<Rightarrow> forget_op \<Rightarrow> json_files \<Rightarrow> json_files \<times> nat res" where
  "json_forget js now (t, u) op fs =
     (case (case op of
              Forget_record i \<Rightarrow> ebind (json_delete_record js now i t u fs) (\<lambda>(fs', b). Inr (fs', if b then 1 else 0))
            | Forget_all \<Rightarrow> json_delete_all js now t u fs
            | Forget_run run \<Rightarrow> json_delete_for_run js now t u run fs
            | Forget_session s \<Rightarrow> json_delete_for_session js now t u s fs) of
        Inl e \<Rightarrow> (fs, Inl e)
      | Inr (fs', n) \<Rightarrow> (fs', Inr n))"

declare json_forget.simps [simp del]

definition owner_path :: "json_env \<Rightarrow> memory_owner \<Rightarrow> string" where
  "owner_path js = (\<lambda>(t, u). memory_path js t u)"

definition stored_records :: "string \<Rightarrow> string \<Rightarrow> memory_record list \<Rightarrow> bool" where
  "stored_records t u rs = ((\<forall>r\<in>set rs. storable r \<and> owned t u r) \<and> distinct (map mr_id rs))"

definition json_ok :: "json_env \<Rightarrow> memory_owner set \<Rightarrow> json_files \<Rightarrow> bool" where
  "json_ok js owners fs =
     (iso_codec js \<and> inj_on (owner_path js) owners
      \<and> (\<forall>(t, u)\<in>owners. \<exists>rs. json_load js t u fs = Inr rs \<and> stored_records t u rs))"

definition json_view :: "json_env \<Rightarrow> json_files \<Rightarrow> memory_owner \<Rightarrow> memory_record list" where
  "json_view js fs = (\<lambda>(t, u). case json_load js t u fs of Inr rs \<Rightarrow> rs | Inl _ \<Rightarrow> [])"

lemma json_forget_first_rows:
  "distinct (map mr_id rs) \<Longrightarrow> json_forget_first now i rs
   = (forget_rows now (Forget_record i) rs, \<exists>r\<in>set rs. forgotten_by (Forget_record i) r)"
proof (induction rs)
  case (Cons r rs)
  have "forget_rows now (Forget_record i) rs = rs" if "mr_id r = i"
    using Cons.prems that by (auto simp: forget_rows_def image_iff intro!: map_idI)
  then show ?case using Cons by (auto simp: forget_rows_def)
qed (simp add: forget_rows_def)

lemma forget_rows_none: "filter (forgotten_by op) rs = [] \<Longrightarrow> forget_rows now op rs = rs"
  by (auto simp: forget_rows_def filter_empty_conv intro!: map_idI)

lemma count_zero: "(length (filter p xs) = 0) = (filter p xs = [])"
  by simp

lemma json_forget_effect:
  assumes "json_load js t u fs = Inr rs" and "distinct (map mr_id rs)"
  shows "json_forget js now (t, u) op fs
    = (if filter (forgotten_by op) rs = [] then fs else json_save js t u (forget_rows now op rs) fs,
       Inr (length (filter (forgotten_by op) rs)))"
proof (cases op)
  case (Forget_record i)
  have "forgotten_by op = (\<lambda>r. mr_id r = i \<and> \<not> mr_deleted r)"
    by (simp add: Forget_record forgotten_by_funs)
  then have "length (filter (forgotten_by op) rs) = (if \<exists>r\<in>set rs. forgotten_by op r then 1 else 0)"
    using distinct_key_count [of mr_id rs i "\<lambda>r. \<not> mr_deleted r"] assms(2) by simp
  moreover have "(filter (forgotten_by op) rs = []) = (\<not> (\<exists>r\<in>set rs. forgotten_by op r))"
    by (auto simp: filter_empty_conv)
  ultimately show ?thesis
    using assms by (auto simp: Forget_record json_forget.simps json_delete_record_def json_forget_first_rows)
next
  case Forget_all
  then show ?thesis using assms by (simp add: json_forget.simps json_delete_all_def json_forget_where_def forget_rows_def forgotten_by_funs Let_def)
next
  case (Forget_run run)
  then show ?thesis using assms by (simp add: json_forget.simps json_delete_for_run_def json_forget_where_def forget_rows_def forgotten_by_funs Let_def)
next
  case (Forget_session s)
  then show ?thesis using assms by (simp add: json_forget.simps json_delete_for_session_def json_forget_where_def forget_rows_def forgotten_by_funs Let_def)
qed

lemma stored_forget: "stored_records t u rs \<Longrightarrow> stored_records t u (forget_rows now op rs)"
  by (auto simp: stored_records_def forget_rows_def forget_def storable_def owned_def o_def if_distrib cong: if_cong)

lemma json_forget_own:
  assumes js: "iso_codec js" and load: "json_load js t u fs = Inr rs" and rs: "stored_records t u rs"
  shows "json_load js t u (fst (json_forget js now (t, u) op fs)) = Inr (forget_rows now op rs)
    \<and> snd (json_forget js now (t, u) op fs) = Inr (length (filter (forgotten_by op) rs))"
proof -
  have d: "distinct (map mr_id rs)" using rs by (simp add: stored_records_def)
  have saved: "json_load js t u (json_save js t u (forget_rows now op rs) fs) = Inr (forget_rows now op rs)"
    using stored_forget [OF rs, of now op] by (intro json_load_save [OF js]) (auto simp: stored_records_def)
  show ?thesis
    unfolding json_forget_effect [OF load d]
    using saved load by (simp add: forget_rows_none)
qed

lemma json_forget_other:
  assumes "json_load js t u fs = Inr rs" and "stored_records t u rs" and "memory_path js t' u' \<noteq> memory_path js t u"
  shows "json_load js t' u' (fst (json_forget js now (t, u) op fs)) = json_load js t' u' fs"
  using assms by (simp add: json_forget_effect stored_records_def json_load_save_other)

lemma json_okD: "json_ok js owners fs \<Longrightarrow> (t, u) \<in> owners \<Longrightarrow> \<exists>rs. json_load js t u fs = Inr rs \<and> stored_records t u rs"
  by (auto simp: json_ok_def)

interpretation json_forgetting: forgetting_backend "json_ok js owners" owners "json_view js" "json_forget js" for js owners
proof
  fix fs op now and k k' :: memory_owner
  assume ok: "json_ok js owners fs" and k_in: "k \<in> owners"
  obtain t u where k: "k = (t, u)" by (cases k) auto
  obtain rs where rs: "json_load js t u fs = Inr rs" "stored_records t u rs"
    using json_okD [OF ok] k_in k by auto
  have codec: "iso_codec js" using ok by (simp add: json_ok_def)
  note own = json_forget_own [OF codec rs, of now op]
  have other: "json_load js t' u' (fst (json_forget js now k op fs)) = json_load js t' u' fs"
    if "(t', u') \<in> owners" "(t', u') \<noteq> k" for t' u'
  proof -
    have "memory_path js t' u' \<noteq> memory_path js t u"
      using ok k_in that inj_onD [of "owner_path js" owners "(t', u')" "(t, u)"]
      by (auto simp: json_ok_def owner_path_def k)
    then show ?thesis using json_forget_other [OF rs] k by simp
  qed
  show "snd (json_forget js now k op fs) = Inr (length (filter (forgotten_by op) (json_view js fs k)))"
    using own rs by (simp add: k json_view_def)
  show "json_view js (fst (json_forget js now k op fs)) k = forget_rows now op (json_view js fs k)"
    using own rs by (simp add: k json_view_def)
  show "json_view js (fst (json_forget js now k op fs)) k' = json_view js fs k'" if "k' \<in> owners" "k' \<noteq> k"
    using other [of "fst k'" "snd k'"] that by (simp add: json_view_def case_prod_beta)
  show "json_ok js owners (fst (json_forget js now k op fs))"
    unfolding json_ok_def
  proof (intro conjI ballI)
    fix k' assume k': "k' \<in> owners"
    obtain t' u' where o: "k' = (t', u')" by (cases k') auto
    show "case k' of (t, u) \<Rightarrow> \<exists>rs. json_load js t u (fst (json_forget js now k op fs)) = Inr rs \<and> stored_records t u rs"
    proof (cases "k' = k")
      case True
      then show ?thesis using own stored_forget [OF rs(2)] by (simp add: k)
    next
      case False
      then show ?thesis using other [of t' u'] json_okD [OF ok] k' by (simp add: o)
    qed
  qed (use ok in \<open>simp_all add: json_ok_def\<close>)
qed

section \<open>Both backends agree\<close>

lemma mset_partition: "mset (filter p (filter q xs @ filter (\<lambda>x. \<not> q x) xs)) = mset (filter p xs)"
proof -
  have "mset (filter q xs @ filter (\<lambda>x. \<not> q x) xs) = mset xs"
    by (simp add: multiset_partition [symmetric])
  then show ?thesis by (simp only: mset_filter)
qed

lemma listing_mset:
  "mset (list_records pol now t u incl project db)
   = mset (filter (\<lambda>r. incl \<or> \<not> mr_deleted r \<and> \<not> record_is_expired now pol r) (memories_of t u db))"
proof -
  have "mset (list_records pol now t u incl project db)
        = mset (filter (\<lambda>r. incl \<or> \<not> record_is_expired now pol r)
            (sort_key (\<lambda>r. - mr_updated r) (filter (\<lambda>r. owned t u r \<and> (incl \<or> \<not> mr_deleted r)) (db_memories db))))"
    by (simp add: list_records_def Let_def mset_partition del: filter_append mset_filter)
  also have "\<dots> = mset (filter (\<lambda>r. incl \<or> \<not> mr_deleted r \<and> \<not> record_is_expired now pol r) (memories_of t u db))"
    by (simp add: memories_of_def filter_filter_mset) (rule filter_mset_cong; auto)
  finally show ?thesis .
qed

lemma json_listing_mset:
  assumes "json_load js t u fs = Inr rs"
  shows "\<exists>xs. json_list_records js pol now t u incl project fs = Inr xs
    \<and> mset xs = mset (filter (\<lambda>r. incl \<or> \<not> mr_deleted r \<and> \<not> record_is_expired now pol r) rs)"
proof -
  define live where "live = (if incl then rs else filter (\<lambda>r. \<not> mr_deleted r) rs)"
  define keep where "keep = (\<lambda>r. incl \<or> \<not> record_is_expired now pol r)"
  define ordered where "ordered = (if project \<noteq> [] \<and> project \<noteq> ''default''
    then filter (\<lambda>r. mr_project r = project) live @ filter (\<lambda>r. mr_project r \<noteq> project) live else live)"
  have "mset (filter keep ordered) = mset (filter keep live)"
    by (simp add: ordered_def mset_partition del: filter_append mset_filter)
  moreover have "filter keep live = filter (\<lambda>r. incl \<or> \<not> mr_deleted r \<and> \<not> record_is_expired now pol r) rs"
    by (simp add: keep_def live_def conj_commute)
  moreover have "json_list_records js pol now t u incl project fs = Inr (filter keep ordered)"
    using assms by (simp add: json_list_records_def Let_def keep_def ordered_def live_def)
  ultimately show ?thesis by simp
qed

lemma run_agree:
  assumes "json_ok js owners fs" and "unique_ids db" and "\<forall>(t, u)\<in>owners. json_load js t u fs = Inr (memories_of t u db)"
    and "fst ` snd ` set xs \<subseteq> owners"
  shows "snd (run_forgets (json_forget js) xs fs) = snd (run_forgets sql_forget xs db)"
    and "(t, u) \<in> owners \<Longrightarrow> json_load js t u (fst (run_forgets (json_forget js) xs fs))
      = Inr (memories_of t u (fst (run_forgets sql_forget xs db)))"
proof -
  have same: "\<forall>k\<in>owners. sql_view db k = json_view js fs k"
    using assms(3) by (auto simp: sql_view_def json_view_def)
  note j = json_forgetting.run_implements [OF assms(1,4) same]
  note q = sql_forgetting.run_implements [OF assms(2,4), of "sql_view db", simplified]
  show "snd (run_forgets (json_forget js) xs fs) = snd (run_forgets sql_forget xs db)"
    using j q by simp
  show "json_load js t u (fst (run_forgets (json_forget js) xs fs)) = Inr (memories_of t u (fst (run_forgets sql_forget xs db)))"
    if k: "(t, u) \<in> owners"
  proof -
    obtain rs where "json_load js t u (fst (run_forgets (json_forget js) xs fs)) = Inr rs"
      using json_okD [OF _ k] j by blast
    moreover have "json_view js (fst (run_forgets (json_forget js) xs fs)) (t, u) = sql_view (fst (run_forgets sql_forget xs db)) (t, u)"
      using j q k by metis
    ultimately show ?thesis by (simp add: json_view_def sql_view_def)
  qed
qed

text \<open>
  C6. The files and the database keep one contract of deletion: for owners with distinct files, whose memories
  a file can hold, and from the same memories in both, any sequence of deletions deletes as many
  memories in both, leaves the same memories of every owner, and both list the same ones.
\<close>

theorem json_deletes_as_database:
  assumes "json_ok js owners fs" and "unique_ids db"
    and "\<forall>(t, u)\<in>owners. json_load js t u fs = Inr (memories_of t u db)"
    and "fst ` snd ` set steps \<subseteq> owners" and "(t, u) \<in> owners"
  shows "snd (run_forgets (json_forget js) steps fs) = snd (run_forgets sql_forget steps db)
    \<and> json_load js t u (fst (run_forgets (json_forget js) steps fs))
        = Inr (memories_of t u (fst (run_forgets sql_forget steps db)))
    \<and> (\<exists>xs. json_list_records js pol now t u incl project (fst (run_forgets (json_forget js) steps fs)) = Inr xs
         \<and> mset xs = mset (list_records pol now t u incl project (fst (run_forgets sql_forget steps db))))"
  using run_agree [OF assms(1-4)] assms(5) json_listing_mset
  by (simp add: listing_mset)

section \<open>Writes\<close>

lemma validity_storable:
  "storable r \<Longrightarrow> storable (apply_validity_fields r w)"
  by (auto simp: storable_def apply_validity_fields_def Let_def or_instant_def split: option.splits)

lemma merge_storable:
  assumes "merge_record lib now r w = Inr k" and "storable r"
  shows "storable k"
proof -
  obtain history where "iter_or_empty (pget (mr_metadata r) ''fact_history'') = Inr history"
    using assms(1) by (auto simp: merge_record_def ebind_eq_Inr)
  moreover have "non_empty_or p (mr_project r) \<noteq> []" for p using assms(2) by (simp add: storable_def non_empty_or_def)
  ultimately show ?thesis using assms by (auto simp: merge_record_def Let_def storable_def less_max_iff_disj)
qed

lemma update_storable:
  assumes "apply_update lib clock r w = Inr m" and "storable r"
  shows "storable m"
proof -
  obtain k where k: "merge_record lib (clock 0) r w = Inr k"
    using assms(1) by (auto simp: apply_update_def ebind_eq_Inr)
  have "storable k" by (rule merge_storable [OF k assms(2)])
  then have known: "storable (apply_validity_fields (merge_independent_confirmation now (k2\<lparr>mr_project := non_empty_or p (mr_project k2), mr_dedup := d\<rparr>) w) w)"
    if "k2 = k \<or> k2 = k\<lparr>mr_trust := t, mr_provenance := pv\<rparr>" for k2 now p d t pv
    using that by (intro validity_storable) (auto simp: storable_def merge_independent_confirmation_def Let_def non_empty_or_def)
  have marked: "storable (m\<lparr>mr_metadata := x\<rparr>) = storable m" "storable (m\<lparr>mr_human_confirmed := y, mr_trust := z\<rparr>) = storable m" for m x y z
    by (simp_all add: storable_def)
  show ?thesis
    using assms(1) known [OF disjI1 [OF refl]] known [OF disjI2 [OF refl]]
    by (cases "wq_source w = WS_CONFIRMATION"; cases "wq_human_confirmed w") (auto simp: apply_update_def k Let_def marked)
qed

lemma new_storable:
  "pw_new_id p \<noteq> [] \<Longrightarrow> 0 < wq_confidence (pw_write p) \<Longrightarrow> storable (json_new_record t u now p)"
  by (auto simp: json_new_record_def storable_def apply_validity_fields_def Let_def or_instant_def default_project_def
      non_empty_or_def split: option.splits)

lemma json_new_record_simps [simp]:
  "mr_id (json_new_record t u now p) = pw_new_id p" "owned t u (json_new_record t u now p)"
  by (simp_all add: json_new_record_def owned_def Let_def)

definition good_rows :: "string \<Rightarrow> string \<Rightarrow> memory_record list \<Rightarrow> bool" where
  "good_rows t u rs = (\<forall>r\<in>set rs. storable r \<and> owned t u r)"

lemma good_rows_simps [simp]:
  "good_rows t u (rs @ ss) = (good_rows t u rs \<and> good_rows t u ss)"
  "good_rows t u (r # rs) = (storable r \<and> owned t u r \<and> good_rows t u rs)"
  "good_rows t u []"
  by (auto simp: good_rows_def)

lemma good_rows_set: "good_rows t u rs \<Longrightarrow> storable r \<Longrightarrow> owned t u r \<Longrightarrow> good_rows t u (rs[i := r])"
  using set_update_subset_insert [of rs i r] by (auto simp: good_rows_def)

lemma json_write_good:
  assumes run: "json_write js pol t u now p (rs, n) = Inr (rs', n')" and rs: "good_rows t u rs"
    and p: "pw_new_id p \<noteq> []" "0 < wq_confidence (pw_write p)"
  shows "good_rows t u rs'"
proof -
  let ?d = "decide_write_action (me_lib (je_env js)) pol (pw_write p) [] rs"
  note new = new_storable [OF p, of t u now]
  have target: "storable (rs ! i) \<and> owned t u (rs ! i)" if "cd_target ?d = Some i" for i
    using decide_target(1) [OF refl that] rs by (simp add: good_rows_def)
  have upd: "good_rows t u (rs[i := apply_validity_fields m (pw_write p)])"
    if "cd_target ?d = Some i" "apply_update (me_lib (je_env js)) (pw_clock p) (rs ! i) (pw_write p) = Inr m" for i m
    using that target [OF that(1)] update_storable [OF that(2)] apply_update_facts(2,3) [OF that(2)]
    by (intro good_rows_set [OF rs] validity_storable) (auto simp: owned_def)
  have old: "good_rows t u (rs[i := json_retired x (rs ! i)])" if "cd_target ?d = Some i" for i x
    using target [OF that] by (intro good_rows_set [OF rs]) (auto simp: json_retired_def storable_def owned_def)
  have new': "storable (json_new_record t u now p\<lparr>mr_supersedes := y\<rparr>) \<and> owned t u (json_new_record t u now p\<lparr>mr_supersedes := y\<rparr>)" for y
    using new json_new_record_simps(2) [of t u now p] by (simp add: storable_def owned_def)
  show ?thesis
    using run rs new upd old new'
    by (auto simp: json_write_def Let_def ebind_eq_Inr split: consolidation_action.splits option.splits)
qed

lemma json_writes_good:
  "json_writes js pol t u now ps (rs, n) = Inr (rs', n') \<Longrightarrow> good_rows t u rs
    \<Longrightarrow> \<forall>p\<in>set ps. pw_new_id p \<noteq> [] \<and> 0 < wq_confidence (pw_write p) \<Longrightarrow> good_rows t u rs'"
proof (induction ps arbitrary: rs n)
  case (Cons p ps)
  obtain rs1 n1 where "json_write js pol t u now p (rs, n) = Inr (rs1, n1)"
      "json_writes js pol t u now ps (rs1, n1) = Inr (rs', n')"
    using Cons.prems(1) by (auto simp: ebind_eq_Inr)
  then show ?case using Cons.IH [of rs1 n1] json_write_good Cons.prems(2,3) by auto
qed simp

lemma prepared_confidence:
  "p \<in> set (prepare_all env pol project i ws) \<Longrightarrow> \<exists>w\<in>set ws. \<exists>j. wq_confidence (pw_write p) = wq_confidence w \<and> pw_new_id p = me_new_id env j"
  by (induction ws arbitrary: i) (fastforce simp: prepare_write_def Let_def split: if_splits option.splits)+

text \<open>What a write saved is what the next load reads, and the files of others are untouched.\<close>

lemma json_remember_reloads:
  assumes run: "json_remember_writes js pol t u project now ws fs = Inr (fs', n)" and js: "iso_codec js"
    and load: "json_load js t u fs = Inr rs" and rs: "good_rows t u rs"
    and ws: "\<forall>w\<in>set ws. 0 < wq_confidence w" and ids: "\<forall>j. me_new_id (je_env js) j \<noteq> []"
  shows "\<exists>rs'. json_load js t u fs' = Inr rs' \<and> good_rows t u rs'"
    and "memory_path js t' u' \<noteq> memory_path js t u \<Longrightarrow> json_load js t' u' fs' = json_load js t' u' fs"
proof -
  obtain rs' where w: "json_writes js pol t u now
      (prepare_all (je_env js) (pol\<lparr>mp_embedding_enabled := False\<rparr>) project 0 (slice_to (mp_max_facts pol) ws)) (rs, 0) = Inr (rs', n)"
    and fs': "fs' = json_save js t u rs' fs"
    using run load by (auto simp: json_remember_writes_def ebind_eq_Inr)
  have "pw_new_id p \<noteq> [] \<and> 0 < wq_confidence (pw_write p)"
    if p: "p \<in> set (prepare_all (je_env js) (pol\<lparr>mp_embedding_enabled := False\<rparr>) project 0 (slice_to (mp_max_facts pol) ws))" for p
  proof -
    obtain x j where "x \<in> set (slice_to (mp_max_facts pol) ws)" "wq_confidence (pw_write p) = wq_confidence x"
        "pw_new_id p = me_new_id (je_env js) j"
      using prepared_confidence [OF p] by blast
    moreover from this(1) have "x \<in> set ws" by (rule subsetD [OF slice_to_subset])
    ultimately show ?thesis using ws ids by simp
  qed
  then have "good_rows t u rs'" by (intro json_writes_good [OF w rs]) simp
  then show "\<exists>rs'. json_load js t u fs' = Inr rs' \<and> good_rows t u rs'"
    using json_load_save [OF js] fs' by (auto simp: good_rows_def)
  show "memory_path js t' u' \<noteq> memory_path js t u \<Longrightarrow> json_load js t' u' fs' = json_load js t' u' fs"
    by (simp add: fs' json_load_save_other)
qed

section \<open>What the files do not keep\<close>

text \<open>
  Owners whose names differ only in characters that are replaced share one file, and what one saved is
  loaded as the other's.
\<close>

lemma shared_path: "memory_path js ''a.b'' u = memory_path js ''a_b'' u"
  by (simp add: memory_path_def safe_name_def safe_point_def is_continuation_def ascii_alnum_def)

lemma shared_file:
  assumes "iso_codec js" and "good_rows ''a.b'' u rs"
  shows "json_load js ''a_b'' u (json_save js ''a.b'' u rs fs) = Inr (map (\<lambda>r. r\<lparr>mr_tenant := ''a_b'', mr_user := u\<rparr>) rs)"
  using assms shared_path [of js u] by (intro load_saved_by) (auto simp: good_rows_def)

text \<open>The deletion of sources visits the files of every owner.\<close>

lemma foreign_sources_deleted: "json_delete_ledger tenant user run session fs = json_delete_ledger tenant' user' run session fs"
  by (simp add: json_delete_ledger_def)

text \<open>A confidence of zero does not survive a file.\<close>

lemma zero_confidence_lost:
  assumes "memory_record_from_dict js i (memory_record_to_dict js r) = Inr r'" and "mr_confidence r = 0"
  shows "mr_confidence r' = fl (8 / 10)"
  using assms by (auto simp: memory_record_from_dict_def memory_record_to_dict_def ebind_eq_Inr float_or_def)

end
