(* ===== verification/MemoryExamples.thy ===== *)
theory MemoryExamples
  imports MemoryInterleaving MemoryJsonProps
begin

text \<open>Concrete memories on which the guarantees of the long-term memory apply.\<close>

definition example_policy :: memory_policy where
  "example_policy = \<lparr>mp_enabled = True, mp_recall_top_k = 5, mp_ttl_days = 90, mp_max_facts = 5, mp_min_fact_chars = 3,
     mp_embedding_enabled = False, mp_keyword_weight = 1, mp_embedding_weight = 0, mp_merge_jaccard = 1, mp_merge_embedding = 1,
     mp_pii_redact = False, mp_step_write_longterm = False, mp_project_scope = True, mp_require_identity = True,
     mp_min_recall_trust = ''derived'', mp_synthesis_min_trust = ''derived'', mp_ledger_enabled = True,
     mp_ledger_max_inject = 8, mp_consolidation_enabled = True, mp_half_life = 30, mp_min_confidence = 0,
     mp_promote_min_sessions = 2, mp_promote_min_confirmations = 2, mp_purge_after_days = 180, mp_utility_gate = True,
     mp_ttl_by_type = [], mp_volatile_ttl = 7\<rparr>"

definition example_env :: memory_env where
  "example_env = \<lparr>me_lib = \<lparr>lib_sum = sum_list, lib_sqrt = id, lib_half_pow = (\<lambda>x. 1), lib_log1p = of_int, lib_iso = int_str\<rparr>,
     me_has_pii = (\<lambda>s. False), me_redact = id, me_embed = (\<lambda>s. []), me_new_id = (\<lambda>n. CHR ''n'' # nat_str n),
     me_clock = (\<lambda>i k. 0)\<rparr>"

definition example_memory :: memory_record where
  "example_memory = \<lparr>mr_id = ''m1'', mr_tenant = ''acme'', mr_user = ''ann'', mr_type = MT_SOURCE, mr_fact = ''alpha'', mr_version = 1,
     mr_confidence = 1, mr_source = WS_USER_EXPLICIT, mr_task = [], mr_topic = [], mr_session = [], mr_embedding = [],
     mr_created = 0, mr_updated = 0, mr_deleted = False, mr_metadata = [], mr_project = ''default'', mr_trust = TRUSTED,
     mr_provenance = empty_provenance, mr_dedup = ''k'', mr_supersedes = [], mr_superseded_by = [], mr_recalls = 0,
     mr_last_recalled = None, mr_as_of = None, mr_valid_from = None, mr_valid_to = None, mr_last_verified = None,
     mr_observed = None, mr_source_updated = None, mr_confirmed_by = [], mr_confirmations = 0, mr_human_confirmed = False,
     mr_idempotency = [], mr_entity = [], mr_attribute = [], mr_value_text = [], mr_valid_time = []\<rparr>"

definition example_request :: write_request where
  "example_request = \<lparr>wq_fact = ''beta'', wq_type = MT_SOURCE, wq_confidence = 1, wq_source = WS_FINALIZE, wq_task = [], wq_topic = [],
     wq_session = [], wq_metadata = [], wq_project = [], wq_trust = Some UNTRUSTED, wq_provenance = None, wq_dedup = ''k'',
     wq_as_of = None, wq_valid_from = None, wq_valid_to = None, wq_valid_time = [], wq_last_verified = None, wq_observed = None,
     wq_source_updated = None, wq_idempotency = ''w1'', wq_entity = [], wq_attribute = [], wq_value_text = [],
     wq_human_confirmed = False\<rparr>"

definition example_db :: memory_db where
  "example_db = empty_memory_db\<lparr>db_memories := [example_memory]\<rparr>"

lemma example_facts:
  "py_strip ''beta'' = ''beta''" "py_strip ''alpha'' = ''alpha''" "py_strip ''w1'' = ''w1''" "char_len ''beta'' = 4"
  "coerce_trust_tier ''derived'' UNTRUSTED = DERIVED"
  by code_simp+

lemma example_prepared:
  "prepare_write example_env example_policy project 0 example_request =
     Some \<lparr>pw_write = (if project \<noteq> [] then example_request\<lparr>wq_project := project\<rparr> else example_request), pw_fact = ''beta'',
       pw_embedding = [], pw_new_id = ''n'' @ nat_str 0, pw_clock = (\<lambda>k. 0)\<rparr>"
  by (simp add: prepare_write_def Let_def example_env_def example_policy_def example_request_def example_facts)

lemma example_prepared_list:
  "prepare_all example_env example_policy [] 0 [example_request] =
     [\<lparr>pw_write = example_request, pw_fact = ''beta'', pw_embedding = [], pw_new_id = ''n'' @ nat_str 0, pw_clock = (\<lambda>k. 0)\<rparr>]"
  by (simp add: example_prepared)

lemma example_slice: "slice_to (mp_max_facts example_policy) [w] = [w]"
  by (simp add: example_policy_def slice_to_def)

text \<open>An untrusted write meets the trusted memory and is dropped.\<close>

lemma example_dropped:
  "\<exists>db. remember_writes example_env example_policy ''acme'' ''ann'' [] 1 [example_request] example_db = Inr (db, 0)"
  unfolding remember_one example_slice example_prepared
  by (simp add: commit_write_def seen_key_def commit_decided_def decide_write_action_def
      find_merge_candidate_def same_source_def decide_against_def decision_def load_active_def owned_def resolved_trust_tier_def
      example_db_def empty_memory_db_def example_memory_def example_request_def example_facts example_env_def)

theorem trusted_fact_kept_witness:
  "\<exists>db n. remember_writes example_env example_policy ''acme'' ''ann'' [] 1 [example_request] example_db = Inr (db, n)
     \<and> (\<exists>r\<in>set (db_memories db). mr_id r = ''m1'' \<and> \<not> mr_deleted r \<and> py_strip (mr_fact r) = ''alpha'' \<and> TRUSTED \<le> mr_trust r)"
proof -
  obtain db where db: "remember_writes example_env example_policy ''acme'' ''ann'' [] 1 [example_request] example_db = Inr (db, 0)"
    using example_dropped by blast
  have "\<exists>r\<in>set (db_memories db). mr_id r = mr_id example_memory \<and> \<not> mr_deleted r
      \<and> py_strip (mr_fact r) = py_strip (mr_fact example_memory) \<and> mr_trust example_memory \<le> mr_trust r"
    by (rule trusted_fact_kept [OF db])
      (simp_all add: example_db_def empty_memory_db_def example_memory_def example_request_def resolved_trust_tier_def less_trust_tier_def)
  then show ?thesis using db by (simp add: example_memory_def example_facts)
qed

theorem memory_tables_consistent_witness:
  "memory_wf (fold (memory_step example_policy)
     [Remember example_env [] ''acme'' ''ann'' 1 [example_request], Enqueue ''j'' 2 ''acme'' ''ann'' [], Drain (me_lib example_env) 3 8,
      Delete_all 4 ''acme'' ''ann''] empty_memory_db)"
  by (rule memory_tables_consistent) (simp add: memory_wf_def rows_wf_def empty_memory_db_def)

text \<open>
  Another user of the tenant loads, the job table is drained, then the load commits; nothing of it is the
  first user's.
\<close>

theorem memories_isolated_witness:
  "memories_of ''acme'' ''ann'' (fst (event_run example_policy
     [Load example_env ''acme'' ''bob'' [] [example_request], Whole (Enqueue ''j'' 3 ''acme'' ''bob'' []),
      Whole (Drain (me_lib example_env) 4 8), Whole (Delete_all 2 ''acme'' ''bob''), Commit 0 5] (example_db, []))) = [example_memory]"
proof -
  have "memories_of ''acme'' ''ann'' (fst (event_run example_policy
     [Load example_env ''acme'' ''bob'' [] [example_request], Whole (Enqueue ''j'' 3 ''acme'' ''bob'' []),
      Whole (Drain (me_lib example_env) 4 8), Whole (Delete_all 2 ''acme'' ''bob''), Commit 0 5] (example_db, [])))
      = memories_of ''acme'' ''ann'' example_db"
    by (rule memories_isolated) (simp_all add: no_job_for_def no_write_of_def example_db_def empty_memory_db_def)
  then show ?thesis by (simp add: memories_of_def example_db_def empty_memory_db_def owned_def example_memory_def)
qed

text \<open>A memory that was deleted, and operations, loads and commits after it.\<close>

definition example_forgotten :: memory_db where
  "example_forgotten = example_db\<lparr>db_memories := [forget 1 example_memory]\<rparr>"

definition bobs_call :: pending_write where
  "bobs_call = \<lparr>pd_lib = me_lib example_env, pd_tenant = ''acme'', pd_user = ''bob'', pd_existing = [],
     pd_prepared = prepare_all example_env example_policy [] 0 [example_request]\<rparr>"

lemma bob_opens: "open_write example_env example_policy ''acme'' ''bob'' [] [example_request] example_forgotten = Some bobs_call"
  by (simp add: open_write_def example_slice bobs_call_def load_active_def example_forgotten_def example_db_def empty_memory_db_def
      forget_def del: prepare_all.simps)

lemma bob_commits:
  "\<exists>d n. commit_pending example_policy 4 bobs_call example_forgotten = Inr (d, n) \<and> forget 1 example_memory \<in> set (db_memories d)"
  unfolding commit_pending_def commit_writes_def bobs_call_def example_prepared_list
  by (simp add: commit_write_def seen_key_def commit_decided_def decide_write_action_def find_merge_candidate_def decision_def
      commit_insert_def insert_record_def example_request_def same_key_def new_record_def apply_validity_fields_def
      example_forgotten_def example_db_def empty_memory_db_def forget_def example_memory_def Let_def)

definition after_forgetting :: "memory_event list" where
  "after_forgetting =
     [Load example_env ''acme'' ''bob'' [] [example_request], Commit 0 4, Whole (Delete_for_session 2 ''acme'' ''ann'' ''s'')]"

theorem deleted_stays_deleted_witness:
  "forget 1 example_memory \<in> set (db_memories (fst (event_run example_policy after_forgetting (example_forgotten, []))))
     \<and> mr_deleted (forget 1 example_memory)"
proof -
  obtain d n where d: "commit_pending example_policy 4 bobs_call example_forgotten = Inr (d, n)"
      "forget 1 example_memory \<in> set (db_memories d)" using bob_commits by blast
  have mem: "forget 1 example_memory \<in> set (db_memories (fst (event_run example_policy after_forgetting (example_forgotten, []))))"
    using d by (auto simp: after_forgetting_def bob_opens delete_records_for_session_def forget_where_def audit_def
        intro!: image_eqI [of _ _ "forget 1 example_memory"]) (simp add: forget_def)
  have unissued: "\<forall>e\<in>set after_forgetting. event_issues_none ''m1'' e"
    by (simp add: after_forgetting_def never_issues_def example_env_def)
  have "mr_deleted (forget 1 example_memory)"
    by (rule deleted_stays_deleted [OF _ _ unissued mem])
      (simp_all add: example_forgotten_def forget_def example_memory_def)
  with mem show ?thesis by simp
qed

theorem recall_is_admitted_witness:
  "\<exists>score. (example_memory, score) \<in> set (rc_records (backend_recall example_env example_policy 1 ''alpha'' ''acme'' ''ann'' 3 [] [MT_SOURCE]
       ''summarize'' example_db))
     \<and> length (rc_records (backend_recall example_env example_policy 1 ''alpha'' ''acme'' ''ann'' 3 [] [MT_SOURCE] ''summarize'' example_db)) \<le> 3
     \<and> DERIVED \<le> mr_trust example_memory"
proof -
  have elig: "recall_eligible example_policy 1 ''acme'' ''ann'' [MT_SOURCE] ''summarize'' example_db = [example_memory]"
    by (simp add: recall_eligible_def load_active_def example_db_def empty_memory_db_def owned_def recall_active_def recall_admits_def
        is_recall_eligible_def record_is_expired_def effective_ttl_days_def type_ttl_map_def default_ttl_by_type_def dmerge_def
        age_days_def day_micros_def trust_at_least_def example_policy_def example_memory_def example_facts Let_def)
  obtain score where s: "(example_memory, score) \<in> set (rc_records (backend_recall example_env example_policy 1 ''alpha'' ''acme'' ''ann'' 3 []
      [MT_SOURCE] ''summarize'' example_db))"
    using recall_selection_one [of 3] by (auto simp: backend_recall_records elig) (metis list.set_intros(1))
  from recall_is_admitted [OF refl _ s] show ?thesis
    using s by (auto simp: example_policy_def example_facts)
qed

text \<open>One write saved in the empty database, and the same write again.\<close>

definition example_call :: pending_write where
  "example_call = \<lparr>pd_lib = me_lib example_env, pd_tenant = ''acme'', pd_user = ''ann'', pd_existing = [],
     pd_prepared = prepare_all example_env example_policy [] 0 [example_request]\<rparr>"

lemma example_open: "open_write example_env example_policy ''acme'' ''ann'' [] [example_request] empty_memory_db = Some example_call"
  by (simp add: open_write_def example_slice example_call_def load_active_def empty_memory_db_def del: prepare_all.simps)

lemma example_saved: "\<exists>db. commit_pending example_policy 1 example_call empty_memory_db = Inr (db, length [example_request])"
  unfolding commit_pending_def commit_writes_def example_call_def example_prepared_list
  by (simp add: commit_write_def seen_key_def commit_decided_def decide_write_action_def
      find_merge_candidate_def decision_def empty_memory_db_def commit_insert_def insert_record_def example_request_def
      Let_def)

theorem write_applied_once_witness:
  "\<exists>db. commit_pending example_policy 1 example_call empty_memory_db = Inr (db, 1)
     \<and> (\<exists>db'. commit_pending example_policy 9 example_call (fst (event_run example_policy [Whole (Delete_all 5 ''acme'' ''ann'')] (db, [])))
             = Inr (db', 0)
           \<and> db_memories db' = db_memories (fst (event_run example_policy [Whole (Delete_all 5 ''acme'' ''ann'')] (db, []))))"
proof -
  obtain db where db: "commit_pending example_policy 1 example_call empty_memory_db = Inr (db, length [example_request])"
    using example_saved by blast
  have "\<exists>db'. commit_pending example_policy 9 example_call (fst (event_run example_policy [Whole (Delete_all 5 ''acme'' ''ann'')] (db, [])))
        = Inr (db', 0)
      \<and> db_memories db' = db_memories (fst (event_run example_policy [Whole (Delete_all 5 ''acme'' ''ann'')] (db, [])))"
    by (rule write_applied_once [OF example_open db _ example_open refl]) (simp add: example_request_def example_facts)
  with db show ?thesis by (auto simp del: event_run_simps)
qed

text \<open>
  The same memory in the database and in the files, with instants written as a sign and strokes; its
  deletion.
\<close>

definition stroke_iso :: "int \<Rightarrow> string" where
  "stroke_iso t = (if t < 0 then ''-'' else ''+'') @ replicate (nat \<bar>t\<bar>) CHR ''1''"

definition stroke_parse :: "string \<Rightarrow> int" where
  "stroke_parse s = (if take 1 s = ''-'' then - int (length s - 1) else int (length s - 1))"

definition example_json :: json_env where
  "example_json = \<lparr>je_env = example_env\<lparr>me_lib := (me_lib example_env)\<lparr>lib_iso := stroke_iso\<rparr>\<rparr>, je_wide = (\<lambda>p. False),
     je_parse = stroke_parse, je_id = (\<lambda>n. ''x''), je_now = (\<lambda>n k. 0)\<rparr>"

lemma example_iso: "iso_codec example_json"
  by (auto simp: iso_codec_def example_json_def je_iso_def stroke_iso_def stroke_parse_def)

definition example_stored :: memory_record where
  "example_stored = example_memory\<lparr>mr_observed := Some 0\<rparr>"

definition example_files :: json_files where
  "example_files = json_save example_json ''acme'' ''ann'' [example_stored] []"

definition example_stored_db :: memory_db where
  "example_stored_db = empty_memory_db\<lparr>db_memories := [example_stored]\<rparr>"

lemma example_stored_facts: "storable example_stored" "owned ''acme'' ''ann'' example_stored"
  by (simp_all add: example_stored_def example_memory_def storable_def owned_def)

lemma example_files_load: "json_load example_json ''acme'' ''ann'' example_files = Inr [example_stored]"
  unfolding example_files_def using example_stored_facts by (intro json_load_save [OF example_iso]) simp

lemma example_memories: "memories_of ''acme'' ''ann'' example_stored_db = [example_stored]"
  using example_stored_facts(2) by (simp add: memories_of_def example_stored_db_def empty_memory_db_def)

theorem json_deletes_as_database_witness:
  "json_load example_json ''acme'' ''ann'' (fst (run_forgets (json_forget example_json) [(7, (''acme'', ''ann''), Forget_all)] example_files))
     = Inr [forget 7 example_stored]"
proof -
  have ok: "json_ok example_json {(''acme'', ''ann'')} example_files"
    using example_iso example_files_load example_stored_facts by (simp add: json_ok_def stored_records_def)
  have "json_load example_json ''acme'' ''ann'' (fst (run_forgets (json_forget example_json) [(7, (''acme'', ''ann''), Forget_all)] example_files))
      = Inr (memories_of ''acme'' ''ann'' (fst (run_forgets sql_forget [(7, (''acme'', ''ann''), Forget_all)] example_stored_db)))"
    using json_deletes_as_database [OF ok _ _, of example_stored_db "[(7, (''acme'', ''ann''), Forget_all)]" "''acme''" "''ann''"]
      example_files_load example_memories
    by (simp add: unique_ids_def example_stored_db_def empty_memory_db_def del: run_forgets.simps)
  moreover have "memories_of ''acme'' ''ann'' (fst (run_forgets sql_forget [(7, (''acme'', ''ann''), Forget_all)] example_stored_db))
      = [forget 7 example_stored]"
    using example_stored_facts(2)
    by (simp add: memories_of_def example_stored_db_def empty_memory_db_def delete_all_def forget_where_def audit_def
        example_stored_def example_memory_def)
  ultimately show ?thesis by simp
qed

end
