(* ===== verification/Spec2Isabelle.thy ===== *)
theory Spec2Isabelle
  imports Contracts Failure TaskLifecycle RunBudgetLimits StepBudgetProps PlanValidator AdmissionProps
    TerminationProps AnswerCoverage ControlProps RunDeletion Reducers BriefPlanProps WorkflowProps DeliveryV2
    MemoryExamples
begin

text \<open>
  A verification development of the research agent harness under \<open>src/app\<close>.

  \<^bold>\<open>The program.\<close>  A user's question becomes a run.  The API (\<open>app/api\<close>) records the run in the run store
  (\<open>app/run_store\<close>) and puts a job in the durable queue (\<open>app/run_queue\<close>); a worker process claims the job and
  executes the workflow graph (\<open>app/research/runtime/graph.py\<close>): a brief is compiled, a plan is made and
  validated, the scheduler fans out to workers that search and read under a budget
  (\<open>app/agent/harness/run_budget.py\<close>, \<open>step_budget.py\<close>), their results are merged by the reducers, a coverage
  judge and a supervisor decide about repair waves, and a synthesis and a quality step produce the report and
  the verdict from which the terminal outcome of the run is taken.  Two engines share the graph: the first writes
  a report with an LLM and evaluates a completion contract; the second assembles answer units whose every field
  is bound to quoted evidence, renders them without an LLM and checks the closure of its references.  Events of
  the run are projected back into the run store, and deletion and retention remove a run from all stores.

  \<^bold>\<open>Foundations.\<close>
    \<^item> \<open>Prelude\<close>: Python errors as the left summand of a result, \<open>ebind\<close> and \<open>emap\<close> for the code's order of
      evaluation, dictionaries in insertion order, decimal strings and the string operations the code uses.
    \<^item> \<open>PyFloat\<close>, \<open>FloatRepr\<close>: a float is the rational number it denotes and every float operation rounds
      through \<open>fl\<close> to 53 bits; \<open>repr\<close> of a float is the shortest text that is read back.
    \<^item> \<open>PyVal\<close>: the untyped values passed as \<open>dict[str, Any]\<close>, with truth value, equality, conversions and errors.
    \<^item> \<open>Sha256\<close>, \<open>Sha1\<close>: the digests behind identities, on 32 bit words.

  \<^bold>\<open>Control plane data.\<close>
    \<^item> \<open>Contracts\<close> (\<open>app/research/domain/contracts.py\<close>): phases, stop reasons, the transition table, budget status.
      The locale \<open>str_enum\<close> gives the parse and print laws of every string enumeration of the program.
    \<^item> \<open>Failure\<close> (\<open>failure.py\<close>), \<open>TaskState\<close> and \<open>TaskLifecycle\<close> (\<open>task_state.py\<close>): failure classes, the task
      row, every operation on it; settled tasks stay settled.
    \<^item> \<open>TaskIdentity\<close> (\<open>task_identity.py\<close>), \<open>Supervisor\<close> (\<open>app/research/supervisor/models.py\<close>): fingerprints and the
      action contracts.

  \<^bold>\<open>Budgets.\<close>
    \<^item> \<open>RunBudget\<close>, \<open>RunBudgetOps\<close>: state and operations of \<open>RunBudgetManager\<close>; \<open>RunBudgetInv\<close> the exact accounting
      invariant; \<open>RunBudgetProps\<close>, \<open>RunBudgetLimits\<close> what holds in every history of operations: accounting, call and
      token ceilings, worker leases as long as no call is committed above its estimate, stage shares, denials
      that change nothing.
    \<^item> \<open>StepBudget\<close>, \<open>StepBudgetProps\<close> (\<open>step_budget.py\<close>): worker retrieval budgets, proved over the locale
      \<open>tool_meter\<close> for any manager that meters tool calls and interpreted on the run budget manager.
    \<^item> \<open>Admission\<close>, \<open>AdmissionProps\<close> (\<open>app/research/runtime/admission.py\<close>): what a dispatch may admit.

  \<^bold>\<open>Planning and scheduling.\<close>
    \<^item> \<open>Plan\<close> (\<open>app/agent/harness/state.py\<close>), \<open>Scheduler\<close>, \<open>SchedulerRun\<close> (\<open>scheduler.py\<close>): readiness, waves, and
      that an acyclic plan is worked off.
    \<^item> \<open>PlanGraph\<close>, \<open>PlanValidator\<close> (\<open>app/research/planning/validator.py\<close>): the depth-first cycle check is exact,
      and a validated plan is worked off when the selection takes dependencies along and workers succeed.
    \<^item> \<open>Bounded\<close>, \<open>BriefPlan\<close>, \<open>BriefPlanProps\<close>, \<open>Brief\<close>, \<open>BriefRows\<close> (\<open>app/research/planning\<close>, \<open>app/research/brief\<close>):
      briefs, their storage and the initial plan of a brief.

  \<^bold>\<open>Decisions.\<close>
    \<^item> \<open>Control\<close>, \<open>ControlProps\<close> (\<open>app/research/control\<close>): the precheck and the runtime policy.
    \<^item> \<open>Judgement\<close> (\<open>app/research/coverage/judge.py\<close>, the records), \<open>SupervisorAgent\<close> (\<open>app/research/supervisor/agent.py\<close>):
      the locale \<open>stored_part\<close> gives the storage laws of the nested records of a judgement.
    \<^item> \<open>Completion\<close>, \<open>CompletionProps\<close>, \<open>CompletionV2\<close>, \<open>AnswerCoverage\<close> (\<open>app/research/domain/completion.py\<close>,
      \<open>completion_v2.py\<close>, \<open>app/research/coverage/answer_units.py\<close>): the two completion contracts, and that what
      coverage calls sufficient passes the authority for asks on which the two count alike.
    \<^item> \<open>Termination\<close>, \<open>TerminationProps\<close> (\<open>termination.py\<close>): the one decision of how a run ended; the locale
      \<open>persisted_evaluation\<close> is interpreted on both completion contracts.

  \<^bold>\<open>The second answer engine.\<close>
    \<^item> \<open>AnswerUnits\<close>, \<open>UnitValidator\<close>, \<open>UnitAssembler\<close>, \<open>UnitRenderer\<close> (\<open>app/research/spec/models.py\<close>,
      \<open>app/research/delivery\<close>): specification, units and claims, the checks of a unit, binding of quoted literals, the
      document of a run.
    \<^item> \<open>Citations\<close>, \<open>CitationText\<close>, \<open>DocumentClosure\<close> (\<open>app/agent/harness/citations.py\<close>,
      \<open>app/agent/harness/answer_renderer.py\<close>): source numbers, markers in a text, and when body and references agree.
    \<^item> \<open>DeliveryV2\<close> (\<open>app/research/runtime/runner.py\<close>): the synthesis and quality steps that compose them, with the
      end-to-end guarantee of a run decided a success.

  \<^bold>\<open>Composition.\<close>
    \<^item> \<open>Reducers\<close> (\<open>reducers.py\<close>): the merge of worker results into the channels of the state.
    \<^item> \<open>WorkflowNodes\<close>, \<open>WorkflowGraph\<close> (\<open>graph.py\<close>, \<open>state.py\<close>): the default nodes, the routes, the edges and the step
      relation of a run.  \<open>WorkflowPhases\<close>: the locale \<open>phase_nodes\<close>, any nodes that guard their updates with
      their phase keep to the transition table.  \<open>WorkflowTermination\<close>, \<open>WorkflowProps\<close>: every run of the default
      graph ends, none reaches a worker unless the initial plan passed its validation, and the first wave follows
      the questions of the brief.

  \<^bold>\<open>Stores.\<close>
    \<^item> \<open>RunQueue\<close> (\<open>app/run_queue/service.py\<close>): jobs are granted once; the locale \<open>exclusive_claims\<close>.
    \<^item> \<open>RunStore\<close>, \<open>RunStoreProps\<close>, \<open>RunStoreScope\<close> (\<open>app/run_store\<close>): sessions, runs, uploads, startup recovery,
      ownership and the event projection (locale \<open>order_free_projection\<close>).
    \<^item> \<open>ProjectionStore\<close> (\<open>app/observability/projection_store.py\<close>), \<open>RunDeletion\<close> (\<open>app/run_store/deletion.py\<close>,
      \<open>app/run_store/retention.py\<close>): events in pages, and deletion and retention across the stores, for
      files the operating system lets remove.

  \<^bold>\<open>Long-term memory\<close> (\<open>app/agent/memory\<close>).
    \<^item> \<open>MemoryModels\<close> (\<open>models.py\<close>, \<open>provenance.py\<close>, \<open>policy.py\<close>): records, write requests, provenance, trust.
    \<^item> \<open>MemoryText\<close> (\<open>recall/tokenizer.py\<close>, \<open>governance.py\<close>, \<open>validity.py\<close>): tokens, overlap, the slots of a fact.
    \<^item> \<open>MemoryWrite\<close> (\<open>governance.py\<close>, \<open>consolidation.py\<close>, \<open>validity.py\<close>, \<open>utility.py\<close>): what a write does to a
      similar record, decay and promotion, expiry, the gate for long-term writes.
    \<^item> \<open>MemoryStore\<close>, \<open>MemoryOps\<close> (\<open>backend/sqlite_backend.py\<close>): the tables and every operation on them; a call of
      \<open>remember_writes\<close> is its two steps \<open>open_write\<close> and \<open>commit_pending\<close>, since it waits in between.
    \<^item> \<open>MemoryRecall\<close> (\<open>recall/hybrid.py\<close>, \<open>identity.py\<close>, \<open>store.py\<close>): recall and the store in front of the database.
    \<^item> \<open>MemoryProps\<close>, \<open>MemoryHistory\<close>, \<open>MemoryForget\<close>: facts are not replaced by writes of lower trust, the
      tables are consistent in every history, recall passes its gate.  \<open>MemoryForget\<close> also shows where the store
      falls short under stale snapshots and shared identifiers.
    \<^item> \<open>MemoryInterleaving\<close>: histories in which loads and commits of writes interleave with everything else: users
      are isolated, what is deleted stays deleted unless a call that loaded it before is still to commit, a
      saved batch of keyed writes is applied once.
    \<^item> \<open>MemoryJson\<close>, \<open>MemoryJsonProps\<close> (\<open>backend/json_backend.py\<close>): the files that replace the database in development.
      A record reads back from its file; the locale \<open>forgetting_backend\<close> states the contract of deletion,
      interpreted on the database and on the files, so that both delete and list the same memories.
      \<open>MemoryExamples\<close>: concrete memories.

  \<^bold>\<open>Bounds and fuel.\<close>  Loops of the code are structural recursion or carry a measure.  The few fuelled ones:
  \<open>run_waves\<close>, which composes dispatch and completion with workers that succeed, takes the number of waves, and a plan of \<open>n\<close> steps without a cycle is worked off in \<open>n\<close> of
  them, since each wave finishes a step; the cycle check is a function whose measure is the number of steps not
  yet visited; the scan for markers takes the length of the text, and every step of it consumes a character; the
  search for the shortest numeral of a float tries at most seventeen digits, which always determine it; a
  run of the graph ends within \<open>4 * (max_replan_count + 1) + 8\<close> supersteps, by a rank that falls with each of
  them, where the limit is the one of the code's state.  The graph framework itself is a library: a superstep runs the nodes its
  edges name and merges their updates with the reducers of the channels, as its documentation says.

  \<^bold>\<open>Conventions.\<close>  A \<open>str\<close> is the list of its UTF-8 bytes; case folding and whitespace are those of ASCII, so
  a statement that depends on them speaks about texts where the two agree.  Integers of Python are
  \<open>int\<close>.  A parameter stands for what the code calls outside these sources: the clock, generated identifiers,
  the LLM's reply, the file system's contents, the compiler of briefs and the judge of coverage where their text
  heuristics are not modelled.  A transaction of a database is one step, as the lock around it makes it (for the job queue the
  lock of one process); what the code awaits between transactions are steps of their own.

  \<^bold>\<open>Not modelled.\<close>  The agent loop and the first engine's node methods are prompts, LLM calls, retries
  and telemetry around the operations above.  The coverage judge, the splitting of a query, claim admission and
  source registration decide by regular expressions and similarity ratios of \<open>difflib\<close> over Chinese and English text,
  for which there is no specification but the code of the library.  Of the memory the Postgres backend, which inherits
  the operations of the SQLite one, the extraction of facts by an LLM, the patterns of personal data and the external memory service are left out.  Tools, exporters and configuration are
  network and file I/O; the user interface is TypeScript.
\<close>

end
